(* ===== verification/Prelude.thy ===== *)
theory Prelude
  imports Complex_Main "HOL-Library.AList" "HOL-Library.List_Lexorder" "HOL-Library.Char_ord"
begin

text \<open>
  What the components share: the parts of Python's string, list and dict behaviour that the
  code of \<^verbatim>\<open>src/aats\<close> relies on, results as sums, and the generic lemmas about them.
  A dict is an association list in insertion order (\<open>AList.update\<close> replaces in place or
  appends, as \<^verbatim>\<open>d[k] = v\<close> does). Strings are lists of characters; case mapping and white
  space are those of ASCII text, which is what symbols, currencies, ids and literals of the
  code are made of.
\<close>

section \<open>Named collections\<close>

named_theorems py_simps \<open>evaluation of the Python string and dict helpers\<close>
named_theorems dec_simps \<open>sign and order facts about context rounding\<close>

section \<open>Results\<close>

text \<open>A raising computation: \<open>Inl\<close> is the exception, \<open>Inr\<close> the returned value.\<close>

definition ebind :: "'e + 'a \<Rightarrow> ('a \<Rightarrow> 'e + 'b) \<Rightarrow> 'e + 'b" where
  "ebind m f = (case m of Inl e \<Rightarrow> Inl e | Inr a \<Rightarrow> f a)"

lemma ebind_simps [simp]:
  "ebind (Inl e) f = Inl e"
  "ebind (Inr a) f = f a"
  by (simp_all add: ebind_def)

lemma ebind_eq_Inr_iff: "ebind m f = Inr b \<longleftrightarrow> (\<exists>a. m = Inr a \<and> f a = Inr b)"
  by (cases m) auto

lemma ebind_eq_Inl_iff: "ebind m f = Inl e \<longleftrightarrow> m = Inl e \<or> (\<exists>a. m = Inr a \<and> f a = Inl e)"
  by (cases m) auto

section \<open>Python values that stay opaque\<close>

text \<open>Free-form dict payloads (\<^verbatim>\<open>dict[str, object]\<close>) are carried, never inspected.\<close>

datatype pyval =
    PyNone
  | PyBool bool
  | PyInt int
  | PyDec rat
  | PyStr string
  | PyList "pyval list"
  | PyDict "(string \<times> pyval) list"

section \<open>Strings\<close>

definition is_space_char :: "char \<Rightarrow> bool" where
  "is_space_char c \<longleftrightarrow> (let n = (of_char c :: nat) in n = 32 \<or> (9 \<le> n \<and> n \<le> 13) \<or> (28 \<le> n \<and> n \<le> 31))"

definition lower_char :: "char \<Rightarrow> char" where
  "lower_char c = (let n = (of_char c :: nat) in if 65 \<le> n \<and> n \<le> 90 then char_of (n + 32) else c)"

definition upper_char :: "char \<Rightarrow> char" where
  "upper_char c = (let n = (of_char c :: nat) in if 97 \<le> n \<and> n \<le> 122 then char_of (n - 32) else c)"

definition is_digit_char :: "char \<Rightarrow> bool" where
  "is_digit_char c \<longleftrightarrow> (let n = (of_char c :: nat) in 48 \<le> n \<and> n \<le> 57)"

definition py_strip :: "string \<Rightarrow> string" where
  "py_strip s = rev (dropWhile is_space_char (rev (dropWhile is_space_char s)))"

definition py_lower :: "string \<Rightarrow> string" where
  "py_lower s = map lower_char s"

definition py_upper :: "string \<Rightarrow> string" where
  "py_upper s = map upper_char s"

definition py_startswith :: "string \<Rightarrow> string \<Rightarrow> bool" where
  "py_startswith p s \<longleftrightarrow> take (length p) s = p"

definition py_endswith :: "string \<Rightarrow> string \<Rightarrow> bool" where
  "py_endswith p s \<longleftrightarrow> length p \<le> length s \<and> drop (length s - length p) s = p"

fun py_contains :: "string \<Rightarrow> string \<Rightarrow> bool" where
  "py_contains p [] = (p = [])"
| "py_contains p (c # s) = (py_startswith p (c # s) \<or> py_contains p s)"

definition py_isdigit :: "string \<Rightarrow> bool" where
  "py_isdigit s \<longleftrightarrow> s \<noteq> [] \<and> list_all is_digit_char s"

lemmas py_case_simps [py_simps] =
  py_strip_def is_space_char_def py_lower_def lower_char_def py_upper_def upper_char_def

text \<open>\<^verbatim>\<open>s.split(sep)\<close> for a one-character separator; never empty.\<close>

fun py_split :: "char \<Rightarrow> string \<Rightarrow> string list" where
  "py_split d [] = [[]]"
| "py_split d (c # s) =
     (if c = d then [] # py_split d s
      else (case py_split d s of [] \<Rightarrow> [[c]] | p # ps \<Rightarrow> (c # p) # ps))"

text \<open>\<^verbatim>\<open>"|".join(parts)\<close>.\<close>

fun py_join :: "string \<Rightarrow> string list \<Rightarrow> string" where
  "py_join sep [] = []"
| "py_join sep [p] = p"
| "py_join sep (p # q # ps) = p @ sep @ py_join sep (q # ps)"

lemma py_split_not_Nil [simp]: "py_split d s \<noteq> []"
  by (induction s) (auto split: list.splits)

lemma py_split_join: "py_join [d] (py_split d s) = s"
proof (induction s)
  case (Cons c s)
  show ?case
  proof (cases "py_split d s")
    case (Cons p ps)
    with \<open>py_join [d] (py_split d s) = s\<close> show ?thesis
      by (cases ps) auto
  qed simp
qed simp

text \<open>\<^verbatim>\<open>a or b\<close> on optional strings: \<^verbatim>\<open>None\<close> and the empty string are falsy.\<close>

definition str_or :: "string option \<Rightarrow> string option \<Rightarrow> string option" where
  "str_or a b = (case a of None \<Rightarrow> b | Some s \<Rightarrow> if s = [] then b else a)"

lemma str_or_simps [simp]:
  "str_or None b = b"
  "str_or (Some []) b = b"
  "str_or (Some (c # s)) b = Some (c # s)"
  by (simp_all add: str_or_def)

text \<open>\<^verbatim>\<open>bool(x)\<close> for an optional string.\<close>

definition str_truthy :: "string option \<Rightarrow> bool" where
  "str_truthy a \<longleftrightarrow> (case a of None \<Rightarrow> False | Some s \<Rightarrow> s \<noteq> [])"

lemma str_truthy_simps [simp]:
  "\<not> str_truthy None"
  "str_truthy (Some s) \<longleftrightarrow> s \<noteq> []"
  by (simp_all add: str_truthy_def)

lemma str_or_eq: "str_or a b = (if str_truthy a then a else b)"
  by (cases a) (auto simp: str_or_def)

section \<open>Lists and dicts\<close>

text \<open>\<^verbatim>\<open>list(dict.fromkeys(xs))\<close>: duplicates dropped, first occurrences kept in order.\<close>

fun fromkeys :: "'a list \<Rightarrow> 'a list" where
  "fromkeys [] = []"
| "fromkeys (x # xs) = x # filter (\<lambda>y. y \<noteq> x) (fromkeys xs)"

lemma set_fromkeys [simp]: "set (fromkeys xs) = set xs"
  by (induction xs) auto

lemma distinct_fromkeys [simp]: "distinct (fromkeys xs)"
  by (induction xs) auto

lemma fromkeys_distinct: "distinct xs \<Longrightarrow> fromkeys xs = xs"
  by (induction xs) (auto simp: filter_id_conv)

lemma fromkeys_idem [simp]: "fromkeys (fromkeys xs) = fromkeys xs"
  by (rule fromkeys_distinct) simp

text \<open>\<^verbatim>\<open>d.get(k, default)\<close>.\<close>

definition dict_get :: "('k \<times> 'v) list \<Rightarrow> 'k \<Rightarrow> 'v \<Rightarrow> 'v" where
  "dict_get d k v = (case map_of d k of None \<Rightarrow> v | Some x \<Rightarrow> x)"

lemma dict_get_update [simp]:
  "dict_get (AList.update k v d) k' w = (if k = k' then v else dict_get d k' w)"
  by (simp add: dict_get_def update_conv')

lemma map_of_delete [simp]: "map_of (AList.delete k d) k' = (if k = k' then None else map_of d k')"
  by (simp add: delete_conv')

lemma map_of_update [simp]: "map_of (AList.update k v d) k' = (if k = k' then Some v else map_of d k')"
  by (simp add: update_conv')

lemma distinct_keys_update [simp]:
  "distinct (map fst d) \<Longrightarrow> distinct (map fst (AList.update k v d))"
  by (rule distinct_update)

lemma distinct_keys_delete [simp]:
  "distinct (map fst d) \<Longrightarrow> distinct (map fst (AList.delete k d))"
  by (rule distinct_delete)

text \<open>
  A dict that stores values under a key of their own, as the repositories do.
\<close>

definition keyed :: "('v \<Rightarrow> 'k) \<Rightarrow> ('k \<times> 'v) list \<Rightarrow> bool" where
  "keyed key d \<longleftrightarrow> distinct (map fst d) \<and> (\<forall>e \<in> set d. key (snd e) = fst e)"

lemma keyed_Nil [simp]: "keyed key []"
  by (simp add: keyed_def)

lemma keyed_map_of:
  assumes "keyed key d"
  shows "map_of d k = Some v \<longleftrightarrow> key v = k \<and> v \<in> snd ` set d"
proof -
  have "map_of d k = Some v \<longleftrightarrow> (k, v) \<in> set d" using assms by (simp add: keyed_def)
  also have "\<dots> \<longleftrightarrow> key v = k \<and> v \<in> snd ` set d" using assms by (force simp: keyed_def image_iff)
  finally show ?thesis .
qed

lemma set_update_subset: "set (AList.update k v d) \<subseteq> insert (k, v) (set d)"
  by (induction d) auto

lemma keyed_update:
  assumes "keyed key d"
  shows "keyed key (AList.update (key v) v d)"
  using assms set_update_subset[of "key v" v d] by (auto simp: keyed_def)

lemma keyed_distinct: "keyed key d \<Longrightarrow> distinct (map key (filter P (map snd d)))"
proof (rule distinct_map_filter)
  assume "keyed key d"
  then have "map key (map snd d) = map fst d" by (simp add: keyed_def)
  with \<open>keyed key d\<close> show "distinct (map key (map snd d))" by (simp only: keyed_def)
qed

lemma update_new_key: "map_of d k = None \<Longrightarrow> AList.update k v d = d @ [(k, v)]"
  by (induction d) (auto split: if_splits)

text \<open>A list without the elements whose id was seen before.\<close>

fun drop_seen :: "('a \<Rightarrow> 'k) \<Rightarrow> 'k set \<Rightarrow> 'a list \<Rightarrow> 'a list" where
  "drop_seen ident seen [] = []"
| "drop_seen ident seen (x # xs) =
     (if ident x \<in> seen then drop_seen ident seen xs
      else x # drop_seen ident (insert (ident x) seen) xs)"

lemma drop_seen_subset: "set (drop_seen ident seen xs) \<subseteq> set xs"
  by (induction xs arbitrary: seen) (auto split: if_splits)

lemma drop_seen_set:
  "inj_on ident (set xs) \<Longrightarrow> set (drop_seen ident seen xs) = {x \<in> set xs. ident x \<notin> seen}"
proof (induction xs arbitrary: seen)
  case (Cons x xs)
  have "y = x" if "y \<in> set xs" "ident y = ident x" for y
    by (rule inj_onD[OF Cons.prems that(2)]) (use that(1) in simp_all)
  with Cons show ?case by auto
qed simp

lemma drop_seen_unseen: "x \<in> set (drop_seen ident seen xs) \<Longrightarrow> ident x \<notin> seen"
  by (induction xs arbitrary: seen) (fastforce split: if_splits)+

lemma drop_seen_distinct: "distinct (drop_seen ident seen xs)"
  by (induction xs arbitrary: seen) (auto dest: drop_seen_unseen)

lemma drop_seen_sorted: "sorted (map key xs) \<Longrightarrow> sorted (map key (drop_seen ident seen xs))"
proof (induction xs arbitrary: seen)
  case (Cons x xs)
  then show ?case using drop_seen_subset[of ident "insert (ident x) seen" xs] by auto
qed simp

lemma drop_seen_sort_unique:
  assumes "set xs = set ys" "inj_on ident (set xs)" "inj_on key (set xs)"
  shows "drop_seen ident {} (sort_key key xs) = drop_seen ident {} (sort_key key ys)"
proof -
  define X Y where "X = drop_seen ident {} (sort_key key xs)" and "Y = drop_seen ident {} (sort_key key ys)"
  have sets: "set X = set xs" "set Y = set xs"
    using assms by (simp_all add: X_def Y_def drop_seen_set)
  have "sorted (map key X)" "sorted (map key Y)"
    unfolding X_def Y_def by (intro drop_seen_sorted sorted_sort_key)+
  moreover have "distinct X" "distinct Y" unfolding X_def Y_def by (rule drop_seen_distinct)+
  then have "distinct (map key X)" "distinct (map key Y)"
    using assms(3) unfolding distinct_map sets by simp_all
  ultimately have "map key X = map key Y"
    by (intro sorted_distinct_set_unique) (simp_all add: sets)
  then have "X = Y" by (rule map_inj_on) (simp add: sets assms(3))
  then show ?thesis by (simp add: X_def Y_def)
qed

text \<open>A dict all of whose entries satisfy a predicate.\<close>

definition entries_ok :: "('k \<Rightarrow> 'v \<Rightarrow> bool) \<Rightarrow> ('k \<times> 'v) list \<Rightarrow> bool" where
  "entries_ok P d \<longleftrightarrow> distinct (map fst d) \<and> (\<forall>e \<in> set d. P (fst e) (snd e))"

lemma entries_ok_Nil [simp]: "entries_ok P []"
  by (simp add: entries_ok_def)

lemma entries_ok_update: "entries_ok P d \<Longrightarrow> P k v \<Longrightarrow> entries_ok P (AList.update k v d)"
  using set_update_subset[of k v d] by (auto simp: entries_ok_def)

lemma entries_ok_delete:
  assumes "entries_ok P d"
  shows "entries_ok P (AList.delete k d)"
proof -
  have "set (AList.delete k d) \<subseteq> set d" by (auto simp: AList.delete_eq)
  with assms show ?thesis by (auto simp: entries_ok_def)
qed

lemma entries_ok_get:
  assumes "entries_ok P d" "map_of d k = Some v"
  shows "P k v"
proof -
  have "(k, v) \<in> set d" using assms(2) by (rule map_of_SomeD)
  moreover have "\<forall>e \<in> set d. P (fst e) (snd e)" using assms(1) unfolding entries_ok_def by (rule conjunct2)
  ultimately have "P (fst (k, v)) (snd (k, v))" by (rule bspec[rotated])
  then show ?thesis by simp
qed

lemma entries_ok_dict_get:
  assumes "entries_ok P d" "P k v"
  shows "P k (dict_get d k v)"
proof (cases "map_of d k")
  case None
  with assms(2) show ?thesis by (simp add: dict_get_def)
next
  case (Some x)
  from entries_ok_get[OF assms(1) this] show ?thesis by (simp add: dict_get_def Some)
qed

lemma entries_ok_foldl:
  "entries_ok P d \<Longrightarrow> (\<And>d x. x \<in> set xs \<Longrightarrow> entries_ok P d \<Longrightarrow> entries_ok P (f d x)) \<Longrightarrow> entries_ok P (foldl f d xs)"
  by (induction xs arbitrary: d) auto

lemma delete_update_same: "AList.delete k (AList.update k v d) = AList.delete k d"
  by (induction d) (auto simp: AList.delete_eq)

lemma dict_get_cases: "map_of d k = Some (dict_get d k v) \<or> (map_of d k = None \<and> dict_get d k v = v)"
  by (simp add: dict_get_def split: option.split)

lemma foldl_update_new:
  "distinct (map f xs) \<Longrightarrow> (\<forall>x \<in> set xs. map_of acc (f x) = None) \<Longrightarrow>
   foldl (\<lambda>acc x. AList.update (f x) (g x) acc) acc xs = acc @ map (\<lambda>x. (f x, g x)) xs"
proof (induction xs arbitrary: acc)
  case (Cons x xs)
  then have "AList.update (f x) (g x) acc = acc @ [(f x, g x)]" by (intro update_new_key) simp
  moreover have "f y \<noteq> f x" if "y \<in> set xs" for y
    using Cons.prems(1) imageI[OF that, of f] by auto
  then have "\<forall>y \<in> set xs. map_of (acc @ [(f x, g x)]) (f y) = None"
    using Cons.prems(2) by (simp add: map_add_def)
  ultimately show ?case using Cons by simp
qed simp

lemma list_all2_map_eq: "list_all2 P xs ys \<Longrightarrow> (\<And>x y. P x y \<Longrightarrow> f x = g y) \<Longrightarrow> map f xs = map g ys"
  by (induction rule: list_all2_induct) auto

lemma list_all2_filter_id:
  "list_all2 P xs ys \<Longrightarrow> (\<And>x y. x \<in> set xs \<Longrightarrow> P x y \<Longrightarrow> Q y) \<Longrightarrow> filter Q ys = ys"
  by (induction rule: list_all2_induct) auto

lemma list_all2_with_mem: "list_all2 P xs ys \<Longrightarrow> list_all2 (\<lambda>x y. x \<in> set xs \<and> P x y) xs ys"
  by (induction rule: list_all2_induct) (auto elim: list_all2_mono)

lemma keys_update: "fst ` set (AList.update k v d) = insert k (fst ` set d)"
  by (induction d) auto

lemma entry_dict_get: "distinct (map fst d) \<Longrightarrow> e \<in> set d \<Longrightarrow> snd e = dict_get d (fst e) v"
  by (cases e) (simp add: dict_get_def map_of_is_SomeI)

lemma those_map_Some:
  "those (map f xs) = Some ys \<Longrightarrow> list_all2 (\<lambda>x y. f x = Some y) xs ys"
  by (induction xs arbitrary: ys) (auto split: option.splits)

text \<open>A row that a search returns is in the table and matches.\<close>

lemma find_Some: "find P rows = Some row \<Longrightarrow> row \<in> set rows \<and> P row"
  by (metis find_Some_iff nth_mem)

section \<open>Texts of numbers, joined texts\<close>

text \<open>\<^verbatim>\<open>str(n)\<close> of a natural number and of an integer.\<close>

fun nat_str :: "nat \<Rightarrow> string" where
  "nat_str n = (if n < 10 then [char_of (48 + n)] else nat_str (n div 10) @ [char_of (48 + n mod 10)])"

declare nat_str.simps [simp del]

definition digits_value :: "string \<Rightarrow> nat" where
  "digits_value s = foldl (\<lambda>a c. a * 10 + (of_char c - 48)) 0 s"

lemma digits_value_nat_str [simp]: "digits_value (nat_str n) = n"
proof (induction n rule: nat_str.induct)
  case (1 n)
  then show ?case
    by (subst nat_str.simps) (auto simp: digits_value_def)
qed

lemma nat_str_inject [simp]: "nat_str m = nat_str n \<longleftrightarrow> m = n"
  by (metis digits_value_nat_str)

lemma nat_str_digits: "c \<in> set (nat_str n) \<Longrightarrow> is_digit_char c"
proof (induction n rule: nat_str.induct)
  case (1 n)
  then show ?case
    by (cases "n < 10") (auto simp: nat_str.simps [of n] is_digit_char_def Let_def)
qed

lemma nat_str_not_Nil [simp]: "nat_str n \<noteq> []"
  by (subst nat_str.simps) simp

definition int_str :: "int \<Rightarrow> string" where
  "int_str i = (if i < 0 then ''-'' @ nat_str (nat (- i)) else nat_str (nat i))"

lemma nat_str_no_minus: "nat_str n \<noteq> CHR ''-'' # s"
  using nat_str_digits [of "CHR ''-''" n] by (auto simp: is_digit_char_def)

lemma int_str_inject [simp]: "int_str i = int_str j \<longleftrightarrow> i = j"
  using nat_str_no_minus by (auto simp: int_str_def dest: sym)

lemma py_split_prefix: "d \<notin> set p \<Longrightarrow> py_split d (p @ d # s) = p # py_split d s"
  by (induction p) auto

lemma py_split_single: "d \<notin> set p \<Longrightarrow> py_split d p = [p]"
  by (induction p) auto

lemma py_join_split: "ps \<noteq> [] \<Longrightarrow> \<forall>p \<in> set ps. d \<notin> set p \<Longrightarrow> py_split d (py_join [d] ps) = ps"
  by (induction "[d]" ps rule: py_join.induct) (auto simp: py_split_prefix py_split_single)

lemma py_join_inject:
  assumes "ps \<noteq> []" "qs \<noteq> []" "\<forall>p \<in> set ps. d \<notin> set p" "\<forall>q \<in> set qs. d \<notin> set q"
  shows "py_join [d] ps = py_join [d] qs \<longleftrightarrow> ps = qs"
  using py_join_split [OF assms(1,3)] py_join_split [OF assms(2,4)] by metis

text \<open>Stripping and upper-casing are idempotent and commute.\<close>

lemma upper_char_space [simp]: "is_space_char (upper_char c) \<longleftrightarrow> is_space_char c"
  by (auto simp: is_space_char_def upper_char_def Let_def)

lemma upper_char_upper [simp]: "upper_char (upper_char c) = upper_char c"
  by (auto simp: upper_char_def Let_def)

lemma py_upper_upper [simp]: "py_upper (py_upper s) = py_upper s"
  by (simp add: py_upper_def)

lemma py_strip_upper: "py_strip (py_upper s) = py_upper (py_strip s)"
  by (simp add: py_strip_def py_upper_def dropWhile_map rev_map comp_def)

lemma dropWhile_idem: "dropWhile P (dropWhile P xs) = dropWhile P xs"
  by (induction xs) auto

lemma dropWhile_rev_dropWhile:
  "dropWhile P xs = xs \<Longrightarrow> dropWhile P (rev (dropWhile P (rev xs))) = rev (dropWhile P (rev xs))"
proof (cases xs)
  case (Cons x ys)
  assume "dropWhile P xs = xs"
  then have "\<not> P x" using Cons by (metis dropWhile_eq_Cons_conv)
  moreover obtain zs where "rev (dropWhile P (rev xs)) = zs \<and> (\<exists>ws. xs = zs @ ws)"
    by (metis rev_append rev_rev_ident takeWhile_dropWhile_id)
  ultimately show ?thesis using Cons by (cases zs) auto
qed simp

lemma py_strip_strip [simp]: "py_strip (py_strip s) = py_strip s"
  by (simp add: py_strip_def dropWhile_rev_dropWhile dropWhile_idem)

end
