(* ===== verification/Decimal_Context.thy ===== *)
theory Decimal_Context
  imports Prelude "HOL-Library.Log_Nat"
begin

text \<open>
  Python's \<^verbatim>\<open>decimal.Decimal\<close> as the code uses it. A finite decimal is its rational value;
  every arithmetic operator rounds its exact result to the significant digits of the active
  context, half to even: 28 digits in the default context, 50 in the context of
  \<^verbatim>\<open>aats/domain/instrument_contract.py\<close>. Comparison, \<^verbatim>\<open>min\<close>, \<^verbatim>\<open>max\<close> and copying do not
  round; unary minus and \<^verbatim>\<open>abs\<close> do. NaN, infinities, signed zeros and exponents beyond
  the context's limits are outside the model.

  The laws of rounding (monotone, odd, idempotent) are the locale \<open>decimal_rounding\<close>;
  what the components use of it (signs, bounds by exact values) is proved there once and
  reaches both contexts by interpretation. The last section is
  \<^verbatim>\<open>aats/services/portfolio_service/decimals.py\<close>.
\<close>

section \<open>Rounding to a number of significant digits\<close>

type_synonym decimal = rat

definition round_half_even :: "rat \<Rightarrow> int" where
  "round_half_even x = (let f = \<lfloor>x\<rfloor>; d = x - of_int f in
     if d < 1 / 2 then f else if 1 / 2 < d then f + 1 else if even f then f else f + 1)"

text \<open>The exponent of the leading digit (\<^verbatim>\<open>Decimal.adjusted()\<close>) of a non-zero value.\<close>

definition adjusted :: "decimal \<Rightarrow> int" where
  "adjusted x = (let (a, b) = quotient_of \<bar>x\<bar>;
       k = int (floorlog 10 (nat a)) - int (floorlog 10 (nat b))
     in if 10 powi k \<le> \<bar>x\<bar> then k else k - 1)"

definition ctx_round :: "nat \<Rightarrow> decimal \<Rightarrow> decimal" where
  "ctx_round p x = (if x = 0 then 0
     else let e = adjusted x - (int p - 1) in of_int (round_half_even (x / 10 powi e)) * 10 powi e)"

text \<open>At most \<open>p\<close> significant digits.\<close>

definition representable :: "nat \<Rightarrow> decimal \<Rightarrow> bool" where
  "representable p x \<longleftrightarrow> (\<exists>(n::int) (e::int). \<bar>n\<bar> < 10 ^ p \<and> x = of_int n * 10 powi e)"

lemma round_half_even_of_int [simp]: "round_half_even (of_int n) = n"
  by (simp add: round_half_even_def)

lemma round_half_even_bounds: "\<lfloor>x\<rfloor> \<le> round_half_even x \<and> round_half_even x \<le> \<lceil>x\<rceil>"
proof (cases "x = of_int \<lfloor>x\<rfloor>")
  case True
  then have "round_half_even x = \<lfloor>x\<rfloor>"
    by (simp add: round_half_even_def Let_def)
  then show ?thesis
    by simp
next
  case False
  then have "\<lceil>x\<rceil> = \<lfloor>x\<rfloor> + 1"
    by (metis ceiling_altdef)
  then show ?thesis
    by (simp add: round_half_even_def Let_def)
qed

lemma round_half_even_error: "\<bar>of_int (round_half_even x) - x\<bar> \<le> (1 / 2 :: rat)"
proof -
  have "of_int \<lfloor>x\<rfloor> \<le> x" "x < of_int \<lfloor>x\<rfloor> + 1"
    by linarith+
  then show ?thesis
    unfolding round_half_even_def Let_def by (auto simp: abs_le_iff)
qed

lemma round_half_even_mono:
  assumes "x \<le> y"
  shows "round_half_even x \<le> round_half_even y"
proof (cases "\<lfloor>x\<rfloor> = \<lfloor>y\<rfloor>")
  case True
  with assms show ?thesis
    unfolding round_half_even_def Let_def by auto
next
  case False
  with floor_mono[OF assms] have "\<lfloor>x\<rfloor> + 1 \<le> \<lfloor>y\<rfloor>"
    by linarith
  then show ?thesis
    unfolding round_half_even_def Let_def by auto
qed

lemma round_half_even_minus: "round_half_even (- x) = - round_half_even x"
proof (cases "x = of_int \<lfloor>x\<rfloor>")
  case True
  then obtain n where "x = of_int n" by blast
  then show ?thesis
    using round_half_even_of_int[of n] round_half_even_of_int[of "- n"] by simp
next
  case False
  then have c: "\<lfloor>- x\<rfloor> = - \<lfloor>x\<rfloor> - 1"
    by (metis add_uminus_conv_diff ceiling_altdef ceiling_def minus_add_distrib minus_minus)
  have "- x - of_int \<lfloor>- x\<rfloor> = 1 - (x - of_int \<lfloor>x\<rfloor>)"
    by (simp add: c)
  then show ?thesis
    unfolding round_half_even_def Let_def by (auto simp: c)
qed

text \<open>The number of decimal digits brackets a positive integer between powers of ten.\<close>

lemma floorlog10_bounds:
  assumes "0 < a"
  shows "10 powi (int (floorlog 10 (nat a)) - 1) \<le> (of_int a :: rat)"
    and "(of_int a :: rat) < 10 powi int (floorlog 10 (nat a))"
proof -
  define l where "l = floorlog 10 (nat a)"
  have l: "10 ^ (l - 1) \<le> nat a" "nat a < 10 ^ l"
    using floorlog_bounds[of "nat a" 10] assms by (auto simp: l_def)
  have pos: "0 < l" using l(2) assms by (auto intro: Nat.gr0I)
  have "int (10 ^ (l - 1)) \<le> int (nat a)" using l(1) by (simp only: of_nat_le_iff)
  then have "(of_int (10 ^ (l - 1)) :: rat) \<le> of_int a" using assms by (simp only: of_int_le_iff) simp
  then show "10 powi (int (floorlog 10 (nat a)) - 1) \<le> (of_int a :: rat)"
    using pos by (simp add: l_def [symmetric] power_int_def nat_diff_distrib')
  have "int (nat a) < int (10 ^ l)" using l(2) by (simp only: of_nat_less_iff)
  then have "(of_int a :: rat) < of_int (10 ^ l)" using assms by (simp only: of_int_less_iff) simp
  then show "(of_int a :: rat) < 10 powi int (floorlog 10 (nat a))" by (simp add: l_def)
qed

lemma adjusted_bounds:
  assumes "x \<noteq> 0"
  shows "10 powi adjusted x \<le> \<bar>x\<bar> \<and> \<bar>x\<bar> < 10 powi (adjusted x + 1)"
proof -
  obtain a b where ab: "quotient_of \<bar>x\<bar> = (a, b)" by (cases "quotient_of \<bar>x\<bar>")
  have b: "0 < b" and xab: "\<bar>x\<bar> = of_int a / of_int b"
    using ab by (simp_all add: quotient_of_denom_pos quotient_of_div)
  have "0 < \<bar>x\<bar>" using assms by simp
  then have a: "0 < a" using b by (simp add: xab zero_less_divide_iff)
  define la lb where "la = floorlog 10 (nat a)" and "lb = floorlog 10 (nat b)"
  define k where "k = int la - int lb"
  note la = floorlog10_bounds[OF a, folded la_def] and lb = floorlog10_bounds[OF b, folded lb_def]
  have hi: "\<bar>x\<bar> < 10 powi (k + 1)"
  proof -
    have "(of_int a :: rat) < 10 powi int la" by (rule la)
    also have "\<dots> = 10 powi (k + 1) * 10 powi (int lb - 1)"
      by (simp add: k_def power_int_add [symmetric])
    also have "\<dots> \<le> 10 powi (k + 1) * of_int b"
      using lb(1) by (intro mult_left_mono) auto
    finally show ?thesis using b by (simp add: xab field_simps)
  qed
  have lo: "10 powi (k - 1) \<le> \<bar>x\<bar>"
  proof -
    have "10 powi (k - 1) * of_int b \<le> 10 powi (k - 1) * (10 powi int lb :: rat)"
      using lb(2) by (intro mult_left_mono) auto
    also have "\<dots> = 10 powi (int la - 1)"
      unfolding k_def by (subst power_int_add [symmetric]) auto
    also have "\<dots> \<le> of_int a" by (rule la)
    finally show ?thesis using b by (simp add: xab field_simps)
  qed
  have "adjusted x = (if 10 powi k \<le> \<bar>x\<bar> then k else k - 1)"
    by (simp add: adjusted_def ab k_def la_def lb_def)
  then show ?thesis using hi lo by auto
qed

lemma powi10_mono: "i \<le> j \<Longrightarrow> (10 :: rat) powi i \<le> 10 powi j"
  by (rule power_int_increasing) auto

lemma powi10_less_iff: "(10 :: rat) powi i < 10 powi j \<longleftrightarrow> i < j"
proof
  show "(10 :: rat) powi i < 10 powi j \<Longrightarrow> i < j"
    using powi10_mono[of j i] by (meson linorder_not_le)
  show "i < j \<Longrightarrow> (10 :: rat) powi i < 10 powi j"
    by (rule power_int_strict_increasing) auto
qed

lemma adjusted_minus [simp]: "adjusted (- x) = adjusted x"
  by (simp add: adjusted_def)

lemma adjusted_mono:
  assumes "0 < x" "x \<le> y"
  shows "adjusted x \<le> adjusted y"
proof -
  have "10 powi adjusted x \<le> x" "y < 10 powi (adjusted y + 1)"
    using adjusted_bounds[of x] adjusted_bounds[of y] assms by auto
  then have "(10 :: rat) powi adjusted x < 10 powi (adjusted y + 1)"
    using assms by linarith
  then show ?thesis by (simp add: powi10_less_iff)
qed

lemma ctx_round_0 [simp]: "ctx_round p 0 = 0"
  by (simp add: ctx_round_def)

lemma ctx_round_minus: "ctx_round p (- x) = - ctx_round p x"
  by (simp add: ctx_round_def Let_def round_half_even_minus)

text \<open>A positive value stays between the powers of ten around it.\<close>

lemma ctx_round_pos_bounds:
  assumes "0 < x" "0 < p"
  shows "10 powi adjusted x \<le> ctx_round p x \<and> ctx_round p x \<le> 10 powi (adjusted x + 1)"
proof -
  define e where "e = adjusted x - (int p - 1)"
  define q where "q = x / 10 powi e"
  have b: "10 powi adjusted x \<le> x" "x < 10 powi (adjusted x + 1)"
    using adjusted_bounds[of x] assms by auto
  have lo: "(10 :: rat) powi adjusted x = of_int (10 ^ (p - 1)) * 10 powi e"
  proof -
    have "(10 :: rat) powi (int p - 1) = of_int (10 ^ (p - 1))"
      using assms by (simp add: power_int_def nat_diff_distrib')
    moreover have "(10 :: rat) powi adjusted x = 10 powi (int p - 1) * 10 powi e"
      by (simp add: e_def flip: power_int_add)
    ultimately show ?thesis by simp
  qed
  have hi: "(10 :: rat) powi (adjusted x + 1) = of_int (10 ^ p) * 10 powi e"
  proof -
    have "(10 :: rat) powi (adjusted x + 1) = 10 powi int p * 10 powi e"
      unfolding e_def by (subst power_int_add [symmetric]) auto
    then show ?thesis by simp
  qed
  have "of_int (10 ^ (p - 1)) \<le> q" "q \<le> of_int (10 ^ p)"
    using b unfolding lo hi by (simp_all add: q_def field_simps)
  then have "10 ^ (p - 1) \<le> round_half_even q" "round_half_even q \<le> 10 ^ p"
    using round_half_even_mono[of "of_int (10 ^ (p - 1))" q] round_half_even_mono[of q "of_int (10 ^ p)"]
    by (simp_all only: round_half_even_of_int)
  then have "of_int (10 ^ (p - 1)) \<le> (of_int (round_half_even q) :: rat)"
    "(of_int (round_half_even q) :: rat) \<le> of_int (10 ^ p)"
    by (simp_all only: of_int_le_iff)
  moreover have "ctx_round p x = of_int (round_half_even q) * 10 powi e"
    using assms by (simp add: ctx_round_def Let_def e_def q_def)
  ultimately show ?thesis
    unfolding lo hi by (simp add: mult_right_mono)
qed

lemma ctx_round_mono_pos:
  assumes "0 < x" "x \<le> y" "0 < p"
  shows "ctx_round p x \<le> ctx_round p y"
proof (cases "adjusted x = adjusted y")
  case True
  have "x / 10 powi (adjusted y - (int p - 1)) \<le> y / 10 powi (adjusted y - (int p - 1))"
    using assms by (intro divide_right_mono) auto
  then show ?thesis
    using assms True by (auto simp: ctx_round_def Let_def intro!: mult_right_mono round_half_even_mono)
next
  case False
  with adjusted_mono[of x y] assms have "adjusted x + 1 \<le> adjusted y" by simp
  then have "(10 :: rat) powi (adjusted x + 1) \<le> 10 powi adjusted y" by (rule powi10_mono)
  moreover have "ctx_round p x \<le> 10 powi (adjusted x + 1)" "10 powi adjusted y \<le> ctx_round p y"
    using ctx_round_pos_bounds[of x p] ctx_round_pos_bounds[of y p] assms by auto
  ultimately show ?thesis by linarith
qed

lemma ctx_round_pos: "0 < x \<Longrightarrow> 0 < p \<Longrightarrow> 0 < ctx_round p x"
  using ctx_round_pos_bounds[of x p] zero_less_power_int[of "10::rat" "adjusted x"] by linarith

lemma ctx_round_mono:
  assumes "x \<le> y" "0 < p"
  shows "ctx_round p x \<le> ctx_round p y"
proof -
  consider "0 < x" | "y < 0" | "x \<le> 0" "0 \<le> y" by linarith
  then show ?thesis
  proof cases
    case 1
    then show ?thesis using assms by (rule ctx_round_mono_pos)
  next
    case 2
    then show ?thesis
      using ctx_round_mono_pos[of "- y" "- x" p] assms by (simp add: ctx_round_minus)
  next
    case 3
    have "ctx_round p x \<le> 0"
      using 3(1) ctx_round_pos[of "- x" p] assms by (cases "x = 0") (auto simp: ctx_round_minus)
    moreover have "0 \<le> ctx_round p y"
      using 3(2) ctx_round_pos[of y p] assms by (cases "y = 0") auto
    ultimately show ?thesis by linarith
  qed
qed

text \<open>A value of at most \<open>p\<close> significant digits is not changed.\<close>

lemma ctx_round_exact:
  assumes "representable p x" "0 < p"
  shows "ctx_round p x = x"
proof (cases "x = 0")
  case False
  from assms obtain n e where n: "\<bar>n\<bar> < 10 ^ p" and x: "x = of_int n * 10 powi e"
    unfolding representable_def by auto
  define d where "d = adjusted x - (int p - 1)"
  have "\<bar>x\<bar> = of_int \<bar>n\<bar> * 10 powi e" by (simp add: x abs_mult)
  also have "\<dots> < of_int (10 ^ p) * 10 powi e"
    using n by (intro mult_strict_right_mono) (simp_all only: of_int_less_iff zero_less_power_int)
  also have "\<dots> = 10 powi (int p + e)" by (simp add: power_int_add)
  finally have "(10 :: rat) powi adjusted x < 10 powi (int p + e)"
    using adjusted_bounds[OF False] by linarith
  then have "d \<le> e" by (simp add: powi10_less_iff d_def)
  then have "(10 :: rat) powi (e - d) = of_int (10 ^ nat (e - d))"
    by (simp add: power_int_def)
  moreover have "x / 10 powi d = of_int n * 10 powi (e - d)"
    by (simp add: x power_int_diff)
  ultimately have "x / 10 powi d = of_int (n * 10 ^ nat (e - d))" by simp
  then have "round_half_even (x / 10 powi d) = n * 10 ^ nat (e - d)"
    by (metis round_half_even_of_int)
  with \<open>x / 10 powi d = of_int (n * 10 ^ nat (e - d))\<close>
  have "of_int (round_half_even (x / 10 powi d)) = x / 10 powi d" by simp
  then show ?thesis using False by (simp add: ctx_round_def Let_def d_def)
qed simp

lemma ctx_round_representable:
  assumes "0 < p"
  shows "representable p (ctx_round p x)"
proof -
  have pos: "representable p (ctx_round p y)" if y: "0 < y" for y
  proof -
    define e where "e = adjusted y - (int p - 1)"
    define n where "n = round_half_even (y / 10 powi e)"
    have eq: "ctx_round p y = of_int n * 10 powi e"
      using y by (simp add: ctx_round_def Let_def e_def n_def)
    have hi: "(10 :: rat) powi (adjusted y + 1) = of_int (10 ^ p) * 10 powi e"
      by (simp add: e_def power_int_add [symmetric] flip: power_int_of_nat)
    have "of_int n * 10 powi e \<le> (of_int (10 ^ p) :: rat) * 10 powi e"
      using ctx_round_pos_bounds[OF y assms] by (simp only: eq hi)
    then have le: "n \<le> 10 ^ p"
      by (simp only: mult_le_cancel_right_pos zero_less_power_int of_int_le_iff)
    have "0 < of_int n * (10 :: rat) powi e" using ctx_round_pos[OF y assms] by (simp only: eq)
    then have ge: "0 < n" by (auto simp: zero_less_mult_iff dest: order.asym)
    show ?thesis
    proof (cases "n = 10 ^ p")
      case True
      have "ctx_round p y = of_int 1 * 10 powi (int p + e)"
        by (simp add: eq True power_int_add)
      moreover have "\<bar>1::int\<bar> < 10 ^ p" using assms by simp
      ultimately show ?thesis unfolding representable_def by blast
    next
      case False
      with le ge have "\<bar>n\<bar> < 10 ^ p" by simp
      with eq show ?thesis unfolding representable_def by blast
    qed
  qed
  consider "x = 0" | "0 < x" | "0 < - x" by linarith
  then show ?thesis
  proof cases
    case 1
    then show ?thesis unfolding representable_def by (auto intro: exI[of _ 0])
  next
    case 2
    then show ?thesis by (rule pos)
  next
    case 3
    then obtain n e where "\<bar>n\<bar> < 10 ^ p" "- ctx_round p x = of_int n * 10 powi e"
      using pos[of "- x"] unfolding representable_def ctx_round_minus by auto
    then have "\<bar>- n\<bar> < 10 ^ p" "ctx_round p x = of_int (- n) * 10 powi e" by simp_all
    then show ?thesis unfolding representable_def by blast
  qed
qed

lemma ctx_round_error:
  assumes "0 < p"
  shows "\<bar>ctx_round p x - x\<bar> \<le> \<bar>x\<bar> / (2 * 10 ^ (p - 1))"
proof (cases "x = 0")
  case False
  define e where "e = adjusted x - (int p - 1)"
  have "\<bar>of_int (round_half_even (x / 10 powi e)) - x / 10 powi e\<bar> \<le> 1 / 2"
    by (rule round_half_even_error)
  then have "\<bar>of_int (round_half_even (x / 10 powi e)) - x / 10 powi e\<bar> * 10 powi e \<le> 1 / 2 * 10 powi e"
    by (rule mult_right_mono) auto
  moreover have "ctx_round p x - x = (of_int (round_half_even (x / 10 powi e)) - x / 10 powi e) * 10 powi e"
    using False by (simp add: ctx_round_def Let_def e_def left_diff_distrib)
  ultimately have "\<bar>ctx_round p x - x\<bar> \<le> 10 powi e / 2"
    by (simp add: abs_mult)
  also have "10 powi e = 10 powi adjusted x / (10 :: rat) ^ (p - 1)"
    using assms by (simp add: e_def power_int_diff power_int_def[of _ "int p - 1"] nat_diff_distrib')
  also have "\<dots> / 2 \<le> \<bar>x\<bar> / (2 * 10 ^ (p - 1))"
    using adjusted_bounds[OF False] by (simp add: field_simps)
  finally show ?thesis .
qed simp

text \<open>The result is a multiple of its own last digit.\<close>

lemma ctx_round_grid:
  assumes "0 < p"
  shows "\<exists>n. ctx_round p v = of_int n * 10 powi (adjusted (ctx_round p v) - (int p - 1))"
proof -
  have pos: "\<exists>n. ctx_round p v = of_int n * 10 powi (adjusted (ctx_round p v) - (int p - 1))" if v: "0 < v" for v
  proof (cases "adjusted (ctx_round p v) = adjusted v")
    case True
    have "ctx_round p v = of_int (round_half_even (v / 10 powi (adjusted v - (int p - 1)))) * 10 powi (adjusted v - (int p - 1))"
      using v by (simp add: ctx_round_def Let_def)
    then show ?thesis unfolding True by blast
  next
    case False
    let ?x = "ctx_round p v"
    have x: "0 < ?x" by (rule ctx_round_pos [OF v assms])
    have b: "10 powi adjusted v \<le> ?x" "?x \<le> 10 powi (adjusted v + 1)" using ctx_round_pos_bounds [OF v assms] by auto
    have a: "10 powi adjusted ?x \<le> ?x" "?x < 10 powi (adjusted ?x + 1)" using adjusted_bounds [of ?x] x by auto
    have "adjusted v < adjusted ?x + 1" using b(1) a(2) by (meson le_less_trans powi10_less_iff)
    then have "adjusted v + 1 \<le> adjusted ?x" using False by simp
    then have "?x = 10 powi adjusted ?x" using b(2) a(1) powi10_mono by (meson order.antisym order.trans)
    also have "\<dots> = of_int (10 ^ (p - 1)) * 10 powi (adjusted ?x - (int p - 1))"
      using assms by (simp add: power_int_def [symmetric] power_int_add [symmetric] flip: power_int_of_nat)
    finally show ?thesis by blast
  qed
  consider "0 < v" | "v = 0" | "0 < - v" by linarith
  then show ?thesis
  proof cases
    case 3
    from pos [OF this] obtain n where "- ctx_round p v = of_int n * 10 powi (adjusted (ctx_round p v) - (int p - 1))"
      by (auto simp: ctx_round_minus)
    then have "ctx_round p v = of_int (- n) * 10 powi (adjusted (ctx_round p v) - (int p - 1))" by (simp add: minus_equation_iff)
    then show ?thesis by blast
  qed (auto simp: pos intro: exI [of _ 0])
qed

section \<open>What a rounding context promises\<close>

locale decimal_rounding =
  fixes rnd :: "decimal \<Rightarrow> decimal"
  assumes rnd_mono: "x \<le> y \<Longrightarrow> rnd x \<le> rnd y"
    and rnd_minus: "rnd (- x) = - rnd x"
    and rnd_idem: "rnd (rnd x) = rnd x"
begin

lemma rnd_0: "rnd 0 = 0"
  using rnd_minus[of 0] by simp

lemma rnd_nonneg: "0 \<le> x \<Longrightarrow> 0 \<le> rnd x"
  using rnd_mono[of 0 x] by (simp add: rnd_0)

lemma rnd_nonpos: "x \<le> 0 \<Longrightarrow> rnd x \<le> 0"
  using rnd_mono[of x 0] by (simp add: rnd_0)

lemma rnd_abs: "rnd \<bar>x\<bar> = \<bar>rnd x\<bar>"
  using rnd_nonneg[of x] rnd_nonpos[of x] by (cases "0 \<le> x") (auto simp: rnd_minus abs_of_nonpos)

text \<open>An exact bound of the argument is a bound of the result.\<close>

lemma rnd_lower: "rnd c = c \<Longrightarrow> c \<le> x \<Longrightarrow> c \<le> rnd x"
  using rnd_mono[of c x] by simp

lemma rnd_upper: "rnd c = c \<Longrightarrow> x \<le> c \<Longrightarrow> rnd x \<le> c"
  using rnd_mono[of x c] by simp

lemma rnd_max: "rnd (max x y) = max (rnd x) (rnd y)"
  using rnd_mono[of x y] rnd_mono[of y x] by (auto simp: max_def)

lemma rnd_min: "rnd (min x y) = min (rnd x) (rnd y)"
  using rnd_mono[of x y] rnd_mono[of y x] by (auto simp: min_def)

end

interpretation ctx28: decimal_rounding "ctx_round 28"
  by unfold_locales
    (simp_all add: ctx_round_mono ctx_round_minus ctx_round_exact ctx_round_representable)

interpretation ctx50: decimal_rounding "ctx_round 50"
  by unfold_locales
    (simp_all add: ctx_round_mono ctx_round_minus ctx_round_exact ctx_round_representable)

lemma ctx50_sgn [simp]: "sgn (ctx_round 50 x) = sgn x"
  using ctx_round_pos [of x 50] ctx_round_pos [of "- x" 50] by (cases x "0 :: rat" rule: linorder_cases) (auto simp: ctx_round_minus)

section \<open>The operators of the default context\<close>

definition dadd :: "decimal \<Rightarrow> decimal \<Rightarrow> decimal" where "dadd x y = ctx_round 28 (x + y)"
definition dsub :: "decimal \<Rightarrow> decimal \<Rightarrow> decimal" where "dsub x y = ctx_round 28 (x - y)"
definition dmul :: "decimal \<Rightarrow> decimal \<Rightarrow> decimal" where "dmul x y = ctx_round 28 (x * y)"
definition ddiv :: "decimal \<Rightarrow> decimal \<Rightarrow> decimal" where "ddiv x y = ctx_round 28 (x / y)"
definition dneg :: "decimal \<Rightarrow> decimal" where "dneg x = ctx_round 28 (- x)"
definition dabs :: "decimal \<Rightarrow> decimal" where "dabs x = ctx_round 28 \<bar>x\<bar>"

text \<open>\<^verbatim>\<open>sum(xs, start=Decimal("0"))\<close>: left to right, rounding after every addition.\<close>

definition dsum :: "decimal list \<Rightarrow> decimal" where "dsum xs = foldl dadd 0 xs"

text \<open>A value the default context holds exactly.\<close>

definition exact28 :: "decimal \<Rightarrow> bool" where "exact28 x \<longleftrightarrow> ctx_round 28 x = x"

lemma exact28_iff: "exact28 x \<longleftrightarrow> representable 28 x"
  using ctx_round_exact[of 28 x] ctx_round_representable[of 28 x] by (auto simp: exact28_def)

lemma exact28_round [simp]: "exact28 (ctx_round 28 x)"
  by (simp add: exact28_def ctx28.rnd_idem)

lemma exact28_ops [simp]:
  "exact28 (dadd x y)" "exact28 (dsub x y)" "exact28 (dmul x y)" "exact28 (ddiv x y)"
  "exact28 (dneg x)" "exact28 (dabs x)" "exact28 0"
  by (simp_all add: dadd_def dsub_def dmul_def ddiv_def dneg_def dabs_def) (simp add: exact28_def)

lemma exact28_minus [simp]: "exact28 (- x) \<longleftrightarrow> exact28 x"
  by (simp add: exact28_def ctx28.rnd_minus)

lemma exact28_abs [simp]: "exact28 \<bar>x\<bar> \<longleftrightarrow> exact28 x"
  by (cases "0 \<le> x") (simp_all add: abs_of_nonpos)

lemma exact28_max [simp]: "exact28 x \<Longrightarrow> exact28 y \<Longrightarrow> exact28 (max x y)"
  by (simp add: max_def)

lemma exact28_min [simp]: "exact28 x \<Longrightarrow> exact28 y \<Longrightarrow> exact28 (min x y)"
  by (simp add: min_def)

lemma exact28_dsum [simp]: "exact28 (dsum xs)"
  by (induction xs rule: rev_induct) (simp_all add: dsum_def)

text \<open>Literals of at most 28 digits, twelve of them after the point, are exact.\<close>

lemma exact28I:
  assumes "\<bar>n\<bar> < 10 ^ 28"
  shows "exact28 (of_int n / 10 ^ k)"
proof -
  have "of_int n / 10 ^ k = of_int n * (10 :: rat) powi (- int k)"
    by (simp add: power_int_minus field_simps)
  with assms show ?thesis unfolding exact28_iff representable_def by blast
qed

lemma exact28_numeral [simp]: "(numeral w :: int) < 10 ^ 28 \<Longrightarrow> exact28 (numeral w)"
  using exact28I[of "numeral w" 0] by simp

lemma exact28_1 [simp]: "exact28 1"
  using exact28I[of 1 0] by simp

lemma exact28_fraction [simp]:
  assumes "(10 ^ 12 :: int) mod numeral d = 0" "numeral w * (10 ^ 12 div numeral d) < (10 ^ 28 :: int)"
  shows "exact28 (numeral w / numeral d)"
proof -
  define q where "q = (10 ^ 12 :: int) div numeral d"
  have "numeral d * q = 10 ^ 12" using mult_div_mod_eq[of "numeral d" "10 ^ 12 :: int"] unfolding assms(1) q_def
    by (simp only: add_0_right)
  then have "of_int (numeral d * q) = (10 ^ 12 :: rat)" by simp
  then have q: "numeral d * of_int q = (10 ^ 12 :: rat)" by simp
  have q0: "of_int q \<noteq> (0 :: rat)" using q by auto
  have "numeral w / numeral d = numeral w * of_int q / (numeral d * of_int q :: rat)"
    using q0 by (simp add: field_simps)
  also have "\<dots> = of_int (numeral w * q) / 10 ^ 12" unfolding q by simp
  finally have eq: "numeral w / numeral d = of_int (numeral w * q) / (10 ^ 12 :: rat)" .
  have "0 \<le> q" unfolding q_def by (intro pos_imp_zdiv_nonneg_iff[THEN iffD2]) auto
  then show ?thesis unfolding eq using assms(2) by (intro exact28I) (simp add: q_def abs_mult)
qed
lemma exact28_unit_fraction [simp]:
  "(10 ^ 12 :: int) mod numeral d = 0 \<Longrightarrow> 10 ^ 12 div numeral d < (10 ^ 28 :: int) \<Longrightarrow> exact28 (1 / numeral d)"
  using exact28_fraction[of d Num.One] by (simp only: numeral_One mult_1)

text \<open>Where the exact result fits the context the operators are those of the rationals.\<close>

lemma exact_ops:
  "exact28 (x + y) \<Longrightarrow> dadd x y = x + y"
  "exact28 (x - y) \<Longrightarrow> dsub x y = x - y"
  "exact28 (x * y) \<Longrightarrow> dmul x y = x * y"
  "exact28 (x / y) \<Longrightarrow> ddiv x y = x / y"
  "exact28 x \<Longrightarrow> dneg x = - x"
  "exact28 x \<Longrightarrow> dabs x = \<bar>x\<bar>"
  by (simp_all add: exact28_def dadd_def dsub_def dmul_def ddiv_def dneg_def dabs_def
      ctx28.rnd_minus ctx28.rnd_abs)

lemma dec_signs [dec_simps]:
  "y \<le> x \<Longrightarrow> 0 \<le> dsub x y"
  "x \<le> y \<Longrightarrow> dsub x y \<le> 0"
  "0 \<le> x \<Longrightarrow> 0 \<le> y \<Longrightarrow> 0 \<le> dadd x y"
  "0 \<le> x \<Longrightarrow> 0 \<le> y \<Longrightarrow> 0 \<le> dmul x y"
  "0 \<le> x \<Longrightarrow> 0 \<le> y \<Longrightarrow> 0 \<le> ddiv x y"
  "0 \<le> dabs x"
  "x \<le> 0 \<Longrightarrow> 0 \<le> dneg x"
  "0 \<le> x \<Longrightarrow> dneg x \<le> 0"
  by (simp_all add: dadd_def dsub_def dmul_def ddiv_def dneg_def dabs_def ctx28.rnd_nonneg
      ctx28.rnd_nonpos)

lemma dmul_pos: "0 < x \<Longrightarrow> 0 < y \<Longrightarrow> 0 < dmul x y"
  by (simp add: dmul_def ctx_round_pos)

lemma ddiv_pos: "0 < x \<Longrightarrow> 0 < y \<Longrightarrow> 0 < ddiv x y"
  by (simp add: ddiv_def ctx_round_pos)

lemma dabs_pos: "x \<noteq> 0 \<Longrightarrow> 0 < dabs x"
  by (simp add: dabs_def ctx_round_pos)

lemma dadd_0 [simp]: "exact28 x \<Longrightarrow> dadd x 0 = x" "exact28 x \<Longrightarrow> dadd 0 x = x"
  by (simp_all add: dadd_def exact28_def)

lemma dsub_self [simp]: "dsub x x = 0" and dsub_0: "exact28 x \<Longrightarrow> dsub x 0 = x"
  by (simp_all add: dsub_def exact28_def)

lemma dadd_mono: "x \<le> x' \<Longrightarrow> y \<le> y' \<Longrightarrow> dadd x y \<le> dadd x' y'"
  by (simp add: dadd_def ctx28.rnd_mono)

lemma dsub_mono: "x \<le> x' \<Longrightarrow> y' \<le> y \<Longrightarrow> dsub x y \<le> dsub x' y'"
  by (simp add: dsub_def ctx28.rnd_mono)

lemma dadd_ge: "exact28 x \<Longrightarrow> 0 \<le> y \<Longrightarrow> x \<le> dadd x y"
  by (simp add: dadd_def exact28_def ctx28.rnd_lower)

lemma dsub_le: "exact28 x \<Longrightarrow> 0 \<le> y \<Longrightarrow> dsub x y \<le> x"
  by (simp add: dsub_def exact28_def ctx28.rnd_upper)

lemma dsum_nonneg: "(\<And>x. x \<in> set xs \<Longrightarrow> 0 \<le> x) \<Longrightarrow> 0 \<le> dsum xs"
  by (induction xs rule: rev_induct) (auto simp: dsum_def intro: dec_signs)

text \<open>Relative error of one rounding and of a sum of non-negative values.\<close>

lemma ctx28_bounds:
  assumes "0 \<le> x"
  shows "x * (1 - 1 / (2 * 10 ^ 27)) \<le> ctx_round 28 x" "ctx_round 28 x \<le> x * (1 + 1 / (2 * 10 ^ 27))"
  using ctx_round_error[of 28 x] assms unfolding abs_le_iff by (simp_all add: field_simps)

lemma dsum_lower:
  assumes "\<And>x. x \<in> set xs \<Longrightarrow> 0 \<le> x"
  shows "sum_list xs * (1 - of_nat (length xs) / (2 * 10 ^ 27)) \<le> dsum xs"
  using assms
proof (induction xs rule: rev_induct)
  case (snoc x xs)
  define \<delta> :: rat where "\<delta> = 1 / (2 * 10 ^ 27)"
  define S n where "S = sum_list xs" and "n = (of_nat (length xs) :: rat)"
  have nonneg: "0 \<le> x" "0 \<le> S" "0 \<le> n" "0 \<le> \<delta>" "0 \<le> dsum xs" "0 \<le> 1 - \<delta>"
    using snoc.prems by (auto simp: S_def n_def \<delta>_def intro: sum_list_nonneg dsum_nonneg)
  have IH: "S * (1 - n * \<delta>) \<le> dsum xs"
    using snoc by (simp add: S_def n_def \<delta>_def)
  have "(S + x) * (1 - (n + 1) * \<delta>) \<le> (S * (1 - n * \<delta>) + x) * (1 - \<delta>)"
    using nonneg by (simp add: algebra_simps)
  also have "\<dots> \<le> (dsum xs + x) * (1 - \<delta>)"
    using IH nonneg by (intro mult_right_mono) auto
  also have "\<dots> \<le> dadd (dsum xs) x"
    using ctx28_bounds(1)[of "dsum xs + x"] nonneg by (simp add: dadd_def \<delta>_def)
  finally show ?case by (simp add: S_def n_def \<delta>_def dsum_def algebra_simps)
qed (simp add: dsum_def)

section \<open>decimals.py\<close>

definition EPSILON_DECIMAL_12 :: decimal where "EPSILON_DECIMAL_12 = 1 / 10 ^ 12"

text \<open>\<^verbatim>\<open>to_decimal\<close> on an optional decimal (a decimal is returned as it is).\<close>

definition to_decimal :: "decimal option \<Rightarrow> decimal" where
  "to_decimal v = (case v of None \<Rightarrow> 0 | Some x \<Rightarrow> x)"

definition is_effectively_zero :: "decimal \<Rightarrow> bool" where
  "is_effectively_zero v \<longleftrightarrow> dabs v \<le> EPSILON_DECIMAL_12"

text \<open>
  \<^verbatim>\<open>value.quantize(quantum)\<close> signals \<^verbatim>\<open>InvalidOperation\<close> (here \<open>None\<close>) when the
  result needs more digits than the context has.
\<close>

definition quantize_decimal :: "decimal \<Rightarrow> decimal option" where
  "quantize_decimal v =
     (if is_effectively_zero v then Some 0
      else let n = round_half_even (v * 10 ^ 12)
           in if \<bar>n\<bar> < 10 ^ 28 then Some (of_int n / 10 ^ 12) else None)"

lemma eps12_exact [simp]: "exact28 EPSILON_DECIMAL_12"
proof -
  have "EPSILON_DECIMAL_12 = of_int 1 * 10 powi (- 12)"
    by (simp add: EPSILON_DECIMAL_12_def power_int_minus)
  moreover have "\<bar>1::int\<bar> < 10 ^ 28" by simp
  ultimately show ?thesis unfolding exact28_iff representable_def by blast
qed

lemma eps12_pos [simp]: "0 < EPSILON_DECIMAL_12"
  by (simp add: EPSILON_DECIMAL_12_def)

lemma eps12_signs [simp]: "0 \<le> EPSILON_DECIMAL_12" "\<not> EPSILON_DECIMAL_12 < 0" "EPSILON_DECIMAL_12 \<noteq> 0"
  by (simp_all add: EPSILON_DECIMAL_12_def)

lemma above_eps: "EPSILON_DECIMAL_12 < x \<Longrightarrow> 0 < x" "\<not> x \<le> EPSILON_DECIMAL_12 \<Longrightarrow> 0 \<le> x"
  using eps12_pos by linarith+

lemma is_effectively_zero_iff: "is_effectively_zero v \<longleftrightarrow> \<bar>ctx_round 28 v\<bar> \<le> EPSILON_DECIMAL_12"
  by (simp add: is_effectively_zero_def dabs_def ctx28.rnd_abs)

lemma is_effectively_zero_0 [simp]: "is_effectively_zero 0"
  by (simp add: is_effectively_zero_def dabs_def less_imp_le)

lemma is_effectively_zero_minus [simp]: "is_effectively_zero (- v) = is_effectively_zero v"
  by (simp add: is_effectively_zero_def dabs_def)

section \<open>Quantities on a grid\<close>

text \<open>
  Quantities in units of a hundred-millionth, below \<open>10\<^sup>20\<close>: sums and differences of such quantities
  are exact in 28 digits, and only zero is effectively zero.
\<close>

definition on_grid :: "decimal \<Rightarrow> bool" where
  "on_grid x \<longleftrightarrow> x * 10 ^ 8 \<in> \<int> \<and> \<bar>x\<bar> < 10 ^ 20"

lemma on_grid_exact: "on_grid x \<Longrightarrow> exact28 x"
proof -
  assume g: "on_grid x"
  then obtain n :: int where n: "x * 10 ^ 8 = of_int n" by (auto simp: on_grid_def Ints_def)
  then have x: "x = of_int n / 10 ^ 8" by (simp add: field_simps)
  have "\<bar>of_int n :: rat\<bar> < of_int (10 ^ 28)" using g unfolding n[symmetric] by (simp add: on_grid_def abs_mult)
  then have "\<bar>n\<bar> < 10 ^ 28" by (simp only: of_int_abs[symmetric] of_int_less_iff)
  then show "exact28 x" unfolding x by (rule exact28I)
qed

lemma on_grid_zero: "on_grid x \<Longrightarrow> is_effectively_zero x \<longleftrightarrow> x = 0"
proof
  assume g: "on_grid x" and z: "is_effectively_zero x"
  obtain n :: int where n: "x * 10 ^ 8 = of_int n" using g by (auto simp: on_grid_def Ints_def)
  have "\<bar>x\<bar> \<le> 1 / 10 ^ 12"
    using z on_grid_exact[OF g] by (simp add: is_effectively_zero_def exact_ops EPSILON_DECIMAL_12_def)
  then have "\<bar>x * 10 ^ 8\<bar> < 1" by (simp add: abs_mult)
  then have "n = 0" unfolding n by (simp flip: of_int_abs)
  with n show "x = 0" by simp
qed simp

lemma on_grid_add: "on_grid x \<Longrightarrow> on_grid y \<Longrightarrow> \<bar>x + y\<bar> < 10 ^ 20 \<Longrightarrow> on_grid (x + y)"
  and on_grid_diff: "on_grid x \<Longrightarrow> on_grid y \<Longrightarrow> \<bar>x - y\<bar> < 10 ^ 20 \<Longrightarrow> on_grid (x - y)"
  and on_grid_minus [simp]: "on_grid (- x) \<longleftrightarrow> on_grid x"
  and on_grid_abs [simp]: "on_grid \<bar>x\<bar> \<longleftrightarrow> on_grid x"
  by (auto simp: on_grid_def distrib_right left_diff_distrib abs_if)

lemma dsum_grid:
  assumes "\<forall>x \<in> set xs. on_grid x" "sum_list (map abs xs) < 10 ^ 20"
  shows "dsum xs = sum_list xs \<and> on_grid (sum_list xs)"
  using assms
proof (induction xs rule: rev_induct)
  case (snoc x xs)
  have "\<bar>sum_list xs\<bar> \<le> sum_list (map abs xs)" by (rule sum_list_abs)
  with snoc.prems have "\<bar>sum_list xs + x\<bar> < 10 ^ 20" by simp
  with snoc have "on_grid (sum_list xs + x)" by (intro on_grid_add) auto
  with snoc show ?case by (auto simp: dsum_def exact_ops on_grid_exact)
qed (simp add: dsum_def on_grid_def)

end
