(* ===== verification/Execution_Schema.thy ===== *)
theory Execution_Schema
  imports Decimal_Context
begin

text \<open>
  The data model of the execution engine, \<^verbatim>\<open>aats/schemas/execution.py\<close>: literals as
  datatypes, the pydantic classes as records with every field of the class (the two fields of
  \<^verbatim>\<open>SchemaBase\<close> first), and the pure helpers that derive actions, sides and
  reduce/close flags from position intents and leg actions, up to the conversions between
  \<^verbatim>\<open>OrderIntent\<close> and \<^verbatim>\<open>LegOrderIntent\<close>. \<^verbatim>\<open>target_leverage\<close>, a float the
  services read only through \<^verbatim>\<open>Decimal(str(x))\<close>, is that decimal; free-form payloads are
  \<open>pyval\<close>s. Parameters annotated \<^verbatim>\<open>str\<close> are strings and go through the same
  \<^verbatim>\<open>strip().lower()\<close> as in the code; a literal-typed value enters them through its
  \<open>_str\<close> spelling.
\<close>

section \<open>Literals\<close>

datatype order_status =
    CREATED | SUBMITTING | SUBMITTED | PARTIALLY_FILLED | FILLED | CANCEL_PENDING
  | CANCELED | REJECTED | FAILED | BLOCKED | DRY_RUN | EXPIRED

datatype obligation_status = OBL_ACTIVE | OBL_PARTIALLY_CONSUMED | OBL_RELEASED | OBL_CANCELED | OBL_FAILED

datatype execution_action = ActHold | ActEnter | ActScaleIn | ActReduce | ActExit | ActReverse

datatype position_mode = NetMode | LongShortMode

datatype position_side = PosNet | PosLong | PosShort

datatype leg_action = LegOpen | LegReduce | LegClose

datatype position_intent =
    OpenLong | ScaleInLong | ReduceLong | CloseLong | OpenShort | ScaleInShort | ReduceShort
  | CloseShort | ReverseToLong | ReverseToShort

datatype order_side = Buy | Sell

datatype order_type = Market | Limit

datatype urgency = Low | Medium | High

datatype liquidity_role = Maker | Taker

datatype leg_role = Primary | Hedge | Inventory | Accumulation

datatype exposure_side = ExpLong | ExpShort | ExpFlat

datatype product_type = Spot | Derivatives

datatype margin_mode = Cash | Cross | Isolated

fun position_mode_str :: "position_mode \<Rightarrow> string" where
  "position_mode_str NetMode = ''net_mode''"
| "position_mode_str LongShortMode = ''long_short_mode''"

fun position_side_str :: "position_side \<Rightarrow> string" where
  "position_side_str PosNet = ''net''"
| "position_side_str PosLong = ''long''"
| "position_side_str PosShort = ''short''"

fun product_type_str :: "product_type \<Rightarrow> string" where
  "product_type_str Spot = ''spot''"
| "product_type_str Derivatives = ''derivatives''"

fun margin_mode_str :: "margin_mode \<Rightarrow> string" where
  "margin_mode_str Cash = ''cash''"
| "margin_mode_str Cross = ''cross''"
| "margin_mode_str Isolated = ''isolated''"

fun position_intent_str :: "position_intent \<Rightarrow> string" where
  "position_intent_str OpenLong = ''open_long''"
| "position_intent_str ScaleInLong = ''scale_in_long''"
| "position_intent_str ReduceLong = ''reduce_long''"
| "position_intent_str CloseLong = ''close_long''"
| "position_intent_str OpenShort = ''open_short''"
| "position_intent_str ScaleInShort = ''scale_in_short''"
| "position_intent_str ReduceShort = ''reduce_short''"
| "position_intent_str CloseShort = ''close_short''"
| "position_intent_str ReverseToLong = ''reverse_to_long''"
| "position_intent_str ReverseToShort = ''reverse_to_short''"

text \<open>
  A \<^verbatim>\<open>datetime\<close>: naive with its wall-clock microseconds, or aware with its UTC offset and
  wall-clock microseconds.
\<close>

datatype datetime = Naive int | Aware int int

fun dt_instant :: "datetime \<Rightarrow> int" where
  "dt_instant (Naive t) = t"
| "dt_instant (Aware off t) = t - off"

section \<open>Position intents, leg actions and flags\<close>

definition norm_str :: "string \<Rightarrow> string" where
  "norm_str s = py_lower (py_strip s)"

definition execution_action_from_position_intent :: "string option \<Rightarrow> execution_action option" where
  "execution_action_from_position_intent position_intent =
     (case position_intent of
        None \<Rightarrow> None
      | Some s \<Rightarrow> map_of
          [(''hold'', ActHold), (''open_long'', ActEnter), (''scale_in_long'', ActScaleIn),
           (''open_short'', ActEnter), (''scale_in_short'', ActScaleIn),
           (''reduce_long'', ActReduce), (''reduce_short'', ActReduce),
           (''close_long'', ActExit), (''close_short'', ActExit),
           (''reverse_to_long'', ActReverse), (''reverse_to_short'', ActReverse)] (norm_str s))"

definition execution_action_from_leg_action :: "leg_action option \<Rightarrow> execution_action option" where
  "execution_action_from_leg_action action =
     (case action of
        None \<Rightarrow> None
      | Some LegOpen \<Rightarrow> Some ActEnter
      | Some LegReduce \<Rightarrow> Some ActReduce
      | Some LegClose \<Rightarrow> Some ActExit)"

definition side_from_position_intent :: "string option \<Rightarrow> order_side option" where
  "side_from_position_intent position_intent =
     (case position_intent of
        None \<Rightarrow> None
      | Some s \<Rightarrow> map_of
          [(''open_long'', Buy), (''scale_in_long'', Buy), (''reduce_long'', Sell),
           (''close_long'', Sell), (''reverse_to_long'', Buy), (''open_short'', Sell),
           (''scale_in_short'', Sell), (''reduce_short'', Buy), (''close_short'', Buy),
           (''reverse_to_short'', Sell)] (norm_str s))"

definition reduce_only_from_position_intent :: "string option \<Rightarrow> bool" where
  "reduce_only_from_position_intent position_intent =
     (case position_intent of
        None \<Rightarrow> False
      | Some s \<Rightarrow> norm_str s \<in> {''reduce_long'', ''reduce_short'', ''close_long'', ''close_short''})"

definition reduce_only_from_leg_action :: "leg_action option \<Rightarrow> bool" where
  "reduce_only_from_leg_action action =
     (case action of None \<Rightarrow> False | Some a \<Rightarrow> a \<in> {LegReduce, LegClose})"

definition close_only_from_position_intent :: "string option \<Rightarrow> bool" where
  "close_only_from_position_intent position_intent =
     (case position_intent of
        None \<Rightarrow> False
      | Some s \<Rightarrow> norm_str s \<in> {''close_long'', ''close_short''})"

definition close_only_from_leg_action :: "leg_action option \<Rightarrow> bool" where
  "close_only_from_leg_action action =
     (case action of None \<Rightarrow> False | Some a \<Rightarrow> a = LegClose)"

definition effective_reduce_only :: "bool \<Rightarrow> leg_action option \<Rightarrow> string option \<Rightarrow> bool" where
  "effective_reduce_only reduce_only leg_action position_intent \<longleftrightarrow>
     reduce_only \<or> reduce_only_from_leg_action leg_action
     \<or> reduce_only_from_position_intent position_intent"

definition effective_close_only :: "bool \<Rightarrow> leg_action option \<Rightarrow> string option \<Rightarrow> bool" where
  "effective_close_only close_only leg_action position_intent \<longleftrightarrow>
     close_only \<or> close_only_from_leg_action leg_action
     \<or> close_only_from_position_intent position_intent"

definition default_reduce_only_reason :: "string option \<Rightarrow> leg_action option \<Rightarrow> bool \<Rightarrow> string option" where
  "default_reduce_only_reason position_intent leg_action reduce_only =
     (if \<not> reduce_only then None
      else if close_only_from_leg_action leg_action then Some ''explicit_leg_close_path''
      else if reduce_only_from_leg_action leg_action then Some ''explicit_leg_reduce_path''
      else if close_only_from_position_intent position_intent then Some ''position_intent_close_path''
      else Some ''position_intent_reduce_path'')"

definition default_close_only_reason :: "string option \<Rightarrow> leg_action option \<Rightarrow> bool \<Rightarrow> string option" where
  "default_close_only_reason position_intent leg_action close_only =
     (if \<not> close_only then None
      else if close_only_from_leg_action leg_action then Some ''explicit_leg_close_path''
      else Some ''position_intent_close_path'')"

definition pos_side_from_position_intent ::
  "string option \<Rightarrow> position_mode option \<Rightarrow> position_side option" where
  "pos_side_from_position_intent position_intent position_mode =
     (if position_mode = Some NetMode then Some PosNet
      else (case position_intent of
              None \<Rightarrow> None
            | Some s \<Rightarrow> map_of
                [(''open_long'', PosLong), (''scale_in_long'', PosLong), (''reduce_long'', PosLong),
                 (''close_long'', PosLong), (''reverse_to_long'', PosLong), (''open_short'', PosShort),
                 (''scale_in_short'', PosShort), (''reduce_short'', PosShort),
                 (''close_short'', PosShort), (''reverse_to_short'', PosShort)] (norm_str s)))"

text \<open>The messages of the \<^verbatim>\<open>ValueError\<close>s.\<close>

datatype leg_error = RequiresLongShortMode | RequiresPosSide | SidePosSideMismatch

definition position_intent_from_leg_intent ::
  "order_side \<Rightarrow> position_side option \<Rightarrow> leg_action \<Rightarrow> position_mode option \<Rightarrow> leg_error + position_intent"
where
  "position_intent_from_leg_intent side pos_side action position_mode =
     (if position_mode \<noteq> Some LongShortMode then Inl RequiresLongShortMode
      else if pos_side \<noteq> Some PosLong \<and> pos_side \<noteq> Some PosShort then Inl RequiresPosSide
      else if pos_side = Some PosLong then
        (let expected_side = (if action = LegOpen then Buy else Sell)
         in if side \<noteq> expected_side then Inl SidePosSideMismatch
            else Inr (case action of LegOpen \<Rightarrow> OpenLong | LegReduce \<Rightarrow> ReduceLong | LegClose \<Rightarrow> CloseLong))
      else
        (let expected_side = (if action = LegOpen then Sell else Buy)
         in if side \<noteq> expected_side then Inl SidePosSideMismatch
            else Inr (case action of LegOpen \<Rightarrow> OpenShort | LegReduce \<Rightarrow> ReduceShort | LegClose \<Rightarrow> CloseShort)))"

definition position_intent_matches_leg_intent ::
  "order_side \<Rightarrow> position_side option \<Rightarrow> leg_action \<Rightarrow> position_mode option \<Rightarrow> string option
   \<Rightarrow> leg_error + bool"
where
  "position_intent_matches_leg_intent side pos_side action position_mode position_intent =
     ebind (position_intent_from_leg_intent side pos_side action position_mode) (\<lambda>expected.
       let normalized = norm_str (case position_intent of None \<Rightarrow> [] | Some s \<Rightarrow> s);
           compatible = {position_intent_str expected} \<union>
             (if expected = OpenLong then {''scale_in_long'', ''reverse_to_long''}
              else if expected = OpenShort then {''scale_in_short'', ''reverse_to_short''}
              else if expected \<in> {ReduceLong, CloseLong} then {''reverse_to_short''}
              else if expected \<in> {ReduceShort, CloseShort} then {''reverse_to_long''}
              else {})
       in Inr (normalized \<in> compatible))"

definition execution_attempt_id_from_components ::
  "string option \<Rightarrow> string option \<Rightarrow> string option \<Rightarrow> string option \<Rightarrow> string option"
where
  "execution_attempt_id_from_components execution_attempt_id client_order_id execution_chain_id intent_id =
     (let norm = (\<lambda>v. py_strip (case v of None \<Rightarrow> [] | Some s \<Rightarrow> s))
      in if norm execution_attempt_id \<noteq> [] then Some (norm execution_attempt_id)
         else if norm client_order_id \<noteq> [] then Some (''execution_attempt:'' @ norm client_order_id)
         else if norm execution_chain_id \<noteq> [] then Some (''execution_attempt:'' @ norm execution_chain_id)
         else if norm intent_id \<noteq> [] then Some (''execution_attempt:'' @ norm intent_id)
         else None)"

section \<open>Records\<close>

record order_intent =
  oi_schema_version :: string
  oi_created_at :: datetime
  oi_intent_id :: string
  oi_execution_chain_id :: "string option"
  oi_execution_attempt_id :: "string option"
  oi_leg_intent_id :: "string option"
  oi_decision_id :: string
  oi_symbol :: string
  oi_side :: order_side
  oi_quantity :: decimal
  oi_execution_style :: string
  oi_order_type :: order_type
  oi_limit_price :: "decimal option"
  oi_reference_price :: "decimal option"
  oi_urgency :: urgency
  oi_time_in_force :: string
  oi_max_slippage_tolerance_bps :: "int option"
  oi_reduce_only :: bool
  oi_close_only :: bool
  oi_td_mode :: "margin_mode option"
  oi_position_mode :: "position_mode option"
  oi_pos_side :: "position_side option"
  oi_reduce_only_reason :: "string option"
  oi_close_only_reason :: "string option"
  oi_instrument_family :: "string option"
  oi_settle_currency :: "string option"
  oi_required_initial_margin :: "decimal option"
  oi_projected_margin_usage :: "decimal option"
  oi_projected_notional :: "decimal option"
  oi_risk_budget_multiplier :: "decimal option"
  oi_risk_budget_state :: "(string \<times> pyval) list"
  oi_execution_aggressiveness_multiplier :: "decimal option"
  oi_execution_aggressiveness_state :: "(string \<times> pyval) list"
  oi_only_reduce_required :: bool
  oi_risk_limit_breached :: bool
  oi_liquidation_buffer_remaining :: "decimal option"
  oi_idempotency_key :: string
  oi_strategy_family :: "string option"
  oi_strategy_sleeve_id :: "string option"
  oi_allocation_id :: "string option"
  oi_strategy_bundle_id :: "string option"
  oi_strategy_leg_role :: "leg_role option"
  oi_strategy_pair_id :: "string option"
  oi_strategy_opportunity_kind :: "string option"
  oi_strategy_execution_mode :: "string option"
  oi_strategy_state_phase :: "string option"
  oi_product_type :: product_type
  oi_target_leverage :: decimal
  oi_margin_mode :: margin_mode
  oi_exposure_side :: exposure_side
  oi_execution_action :: "execution_action option"
  oi_leg_action :: "leg_action option"
  oi_position_intent :: position_intent
  oi_ai_execution_parameter_suggestion :: "pyval option"
  oi_market_snapshot_ref :: "string option"
  oi_feature_snapshot_ref :: "string option"
  oi_portfolio_snapshot_ref :: "string option"
  oi_health_snapshot_ref :: "string option"

record leg_order_intent =
  li_schema_version :: string
  li_created_at :: datetime
  li_leg_intent_id :: string
  li_execution_chain_id :: "string option"
  li_execution_attempt_id :: "string option"
  li_decision_id :: string
  li_symbol :: string
  li_side :: order_side
  li_pos_side :: position_side
  li_action :: leg_action
  li_quantity :: decimal
  li_execution_style :: string
  li_order_type :: order_type
  li_limit_price :: "decimal option"
  li_reference_price :: "decimal option"
  li_urgency :: urgency
  li_time_in_force :: string
  li_max_slippage_tolerance_bps :: "int option"
  li_reduce_only :: bool
  li_close_only :: bool
  li_td_mode :: "margin_mode option"
  li_position_mode :: position_mode
  li_reduce_only_reason :: "string option"
  li_close_only_reason :: "string option"
  li_instrument_family :: "string option"
  li_settle_currency :: "string option"
  li_required_initial_margin :: "decimal option"
  li_projected_margin_usage :: "decimal option"
  li_projected_notional :: "decimal option"
  li_risk_budget_multiplier :: "decimal option"
  li_risk_budget_state :: "(string \<times> pyval) list"
  li_execution_aggressiveness_multiplier :: "decimal option"
  li_execution_aggressiveness_state :: "(string \<times> pyval) list"
  li_only_reduce_required :: bool
  li_risk_limit_breached :: bool
  li_liquidation_buffer_remaining :: "decimal option"
  li_idempotency_key :: string
  li_strategy_family :: "string option"
  li_strategy_sleeve_id :: "string option"
  li_allocation_id :: "string option"
  li_strategy_bundle_id :: "string option"
  li_strategy_leg_role :: "leg_role option"
  li_strategy_pair_id :: "string option"
  li_strategy_opportunity_kind :: "string option"
  li_strategy_execution_mode :: "string option"
  li_strategy_state_phase :: "string option"
  li_product_type :: product_type
  li_target_leverage :: decimal
  li_margin_mode :: margin_mode
  li_exposure_side :: exposure_side
  li_position_intent :: "position_intent option"
  li_ai_execution_parameter_suggestion :: "pyval option"
  li_market_snapshot_ref :: "string option"
  li_feature_snapshot_ref :: "string option"
  li_portfolio_snapshot_ref :: "string option"
  li_health_snapshot_ref :: "string option"

record order_state =
  os_schema_version :: string
  os_created_at :: datetime
  os_decision_id :: string
  os_execution_chain_id :: "string option"
  os_execution_attempt_id :: "string option"
  os_intent_id :: string
  os_leg_intent_id :: "string option"
  os_symbol :: string
  os_client_order_id :: string
  os_venue :: string
  os_exchange_order_id :: "string option"
  os_status :: order_status
  os_submission_mode :: string
  os_exchange_status :: "string option"
  os_exchange_status_history :: "string list"
  os_submitted_ts :: "datetime option"
  os_last_update_ts :: "datetime option"
  os_last_exchange_update_ts :: "datetime option"
  os_cancellation_requested_ts :: "datetime option"
  os_canceled_ts :: "datetime option"
  os_requested_qty :: decimal
  os_filled_qty :: decimal
  os_remaining_qty :: decimal
  os_average_fill_price :: "decimal option"
  os_fees :: decimal
  os_reduce_only :: bool
  os_close_only :: bool
  os_td_mode :: "margin_mode option"
  os_position_mode :: "position_mode option"
  os_pos_side :: "position_side option"
  os_reduce_only_reason :: "string option"
  os_close_only_reason :: "string option"
  os_instrument_family :: "string option"
  os_settle_currency :: "string option"
  os_strategy_family :: "string option"
  os_strategy_sleeve_id :: "string option"
  os_allocation_id :: "string option"
  os_strategy_bundle_id :: "string option"
  os_strategy_leg_role :: "leg_role option"
  os_strategy_pair_id :: "string option"
  os_strategy_opportunity_kind :: "string option"
  os_strategy_execution_mode :: "string option"
  os_strategy_state_phase :: "string option"
  os_product_type :: product_type
  os_target_leverage :: decimal
  os_margin_mode :: margin_mode
  os_exposure_side :: exposure_side
  os_execution_action :: "execution_action option"
  os_leg_action :: "leg_action option"
  os_position_intent :: position_intent
  os_cancel_reason :: "string option"
  os_execution_error :: "string option"
  os_submission_payload :: "(string \<times> string) list"
  os_market_snapshot_ref :: "string option"
  os_feature_snapshot_ref :: "string option"
  os_portfolio_snapshot_ref :: "string option"
  os_health_snapshot_ref :: "string option"

record fill_event =
  fl_schema_version :: string
  fl_created_at :: datetime
  fl_fill_id :: string
  fl_decision_id :: string
  fl_execution_chain_id :: "string option"
  fl_execution_attempt_id :: "string option"
  fl_intent_id :: string
  fl_leg_intent_id :: "string option"
  fl_client_order_id :: string
  fl_exchange_order_id :: string
  fl_symbol :: string
  fl_venue :: string
  fl_side :: order_side
  fl_fill_qty :: decimal
  fl_fill_price :: decimal
  fl_fee_amount :: decimal
  fl_fee_currency :: "string option"
  fl_reduce_only :: bool
  fl_close_only :: bool
  fl_td_mode :: "margin_mode option"
  fl_position_mode :: "position_mode option"
  fl_pos_side :: "position_side option"
  fl_reduce_only_reason :: "string option"
  fl_close_only_reason :: "string option"
  fl_instrument_family :: "string option"
  fl_settle_currency :: "string option"
  fl_strategy_family :: "string option"
  fl_strategy_sleeve_id :: "string option"
  fl_allocation_id :: "string option"
  fl_strategy_bundle_id :: "string option"
  fl_strategy_leg_role :: "leg_role option"
  fl_strategy_pair_id :: "string option"
  fl_strategy_opportunity_kind :: "string option"
  fl_strategy_execution_mode :: "string option"
  fl_strategy_state_phase :: "string option"
  fl_product_type :: product_type
  fl_target_leverage :: decimal
  fl_margin_mode :: margin_mode
  fl_exposure_side :: exposure_side
  fl_execution_action :: "execution_action option"
  fl_leg_action :: "leg_action option"
  fl_position_intent :: position_intent
  fl_liquidity_role :: liquidity_role
  fl_exchange_timestamp :: datetime
  fl_ingestion_timestamp :: datetime
  fl_order_status_after_fill :: "order_status option"
  fl_raw_exchange :: "(string \<times> pyval) list option"
  fl_market_snapshot_ref :: "string option"
  fl_feature_snapshot_ref :: "string option"
  fl_portfolio_snapshot_ref :: "string option"
  fl_health_snapshot_ref :: "string option"

record order_obligation =
  ob_schema_version :: string
  ob_created_at :: datetime
  ob_obligation_id :: string
  ob_client_order_id :: string
  ob_decision_id :: string
  ob_intent_id :: string
  ob_symbol :: string
  ob_side :: order_side
  ob_reserve_currency :: string
  ob_reserved_amount :: decimal
  ob_consumed_amount :: decimal
  ob_released_amount :: decimal
  ob_consumed_fill_ids :: "string list"
  ob_blocked_fill_ids :: "string list"
  ob_status :: obligation_status
  ob_product_type :: product_type
  ob_margin_mode :: margin_mode
  ob_strategy_family :: "string option"
  ob_strategy_sleeve_id :: "string option"
  ob_allocation_id :: "string option"
  ob_strategy_bundle_id :: "string option"
  ob_strategy_leg_role :: "leg_role option"
  ob_strategy_pair_id :: "string option"
  ob_strategy_opportunity_kind :: "string option"
  ob_strategy_execution_mode :: "string option"
  ob_strategy_state_phase :: "string option"
  ob_reference_price :: "decimal option"
  ob_processing_failure_reason :: "string option"
  ob_processing_failure_details :: "(string \<times> pyval) list"
  ob_last_update_ts :: "datetime option"

text \<open>
  The constructors with the class defaults: required fields are arguments, a generated
  \<^verbatim>\<open>obligation_id\<close> and \<^verbatim>\<open>created_at\<close> too.
\<close>

definition new_order_state ::
  "datetime \<Rightarrow> string \<Rightarrow> string \<Rightarrow> string \<Rightarrow> string \<Rightarrow> order_status \<Rightarrow> decimal \<Rightarrow> decimal \<Rightarrow> order_state"
where
  "new_order_state created_at decision_id intent_id symbol client_order_id status requested_qty remaining_qty =
     \<lparr>os_schema_version = ''1.0.0'',
      os_created_at = created_at,
      os_decision_id = decision_id,
      os_execution_chain_id = None,
      os_execution_attempt_id = None,
      os_intent_id = intent_id,
      os_leg_intent_id = None,
      os_symbol = symbol,
      os_client_order_id = client_order_id,
      os_venue = ''PAPER'',
      os_exchange_order_id = None,
      os_status = status,
      os_submission_mode = ''paper_local'',
      os_exchange_status = None,
      os_exchange_status_history = [],
      os_submitted_ts = None,
      os_last_update_ts = None,
      os_last_exchange_update_ts = None,
      os_cancellation_requested_ts = None,
      os_canceled_ts = None,
      os_requested_qty = requested_qty,
      os_filled_qty = 0,
      os_remaining_qty = remaining_qty,
      os_average_fill_price = None,
      os_fees = 0,
      os_reduce_only = False,
      os_close_only = False,
      os_td_mode = None,
      os_position_mode = None,
      os_pos_side = None,
      os_reduce_only_reason = None,
      os_close_only_reason = None,
      os_instrument_family = None,
      os_settle_currency = None,
      os_strategy_family = None,
      os_strategy_sleeve_id = None,
      os_allocation_id = None,
      os_strategy_bundle_id = None,
      os_strategy_leg_role = None,
      os_strategy_pair_id = None,
      os_strategy_opportunity_kind = None,
      os_strategy_execution_mode = None,
      os_strategy_state_phase = None,
      os_product_type = Spot,
      os_target_leverage = 1,
      os_margin_mode = Cash,
      os_exposure_side = ExpFlat,
      os_execution_action = None,
      os_leg_action = None,
      os_position_intent = OpenLong,
      os_cancel_reason = None,
      os_execution_error = None,
      os_submission_payload = [],
      os_market_snapshot_ref = None,
      os_feature_snapshot_ref = None,
      os_portfolio_snapshot_ref = None,
      os_health_snapshot_ref = None\<rparr>"

definition new_fill_event ::
  "datetime \<Rightarrow> string \<Rightarrow> string \<Rightarrow> string \<Rightarrow> string \<Rightarrow> string \<Rightarrow> string \<Rightarrow> order_side \<Rightarrow> decimal \<Rightarrow> decimal \<Rightarrow> decimal \<Rightarrow> liquidity_role \<Rightarrow> datetime \<Rightarrow> datetime \<Rightarrow> fill_event"
where
  "new_fill_event created_at fill_id decision_id intent_id client_order_id exchange_order_id symbol side fill_qty fill_price fee_amount liquidity_role exchange_timestamp ingestion_timestamp =
     \<lparr>fl_schema_version = ''1.0.0'',
      fl_created_at = created_at,
      fl_fill_id = fill_id,
      fl_decision_id = decision_id,
      fl_execution_chain_id = None,
      fl_execution_attempt_id = None,
      fl_intent_id = intent_id,
      fl_leg_intent_id = None,
      fl_client_order_id = client_order_id,
      fl_exchange_order_id = exchange_order_id,
      fl_symbol = symbol,
      fl_venue = ''PAPER'',
      fl_side = side,
      fl_fill_qty = fill_qty,
      fl_fill_price = fill_price,
      fl_fee_amount = fee_amount,
      fl_fee_currency = None,
      fl_reduce_only = False,
      fl_close_only = False,
      fl_td_mode = None,
      fl_position_mode = None,
      fl_pos_side = None,
      fl_reduce_only_reason = None,
      fl_close_only_reason = None,
      fl_instrument_family = None,
      fl_settle_currency = None,
      fl_strategy_family = None,
      fl_strategy_sleeve_id = None,
      fl_allocation_id = None,
      fl_strategy_bundle_id = None,
      fl_strategy_leg_role = None,
      fl_strategy_pair_id = None,
      fl_strategy_opportunity_kind = None,
      fl_strategy_execution_mode = None,
      fl_strategy_state_phase = None,
      fl_product_type = Spot,
      fl_target_leverage = 1,
      fl_margin_mode = Cash,
      fl_exposure_side = ExpFlat,
      fl_execution_action = None,
      fl_leg_action = None,
      fl_position_intent = OpenLong,
      fl_liquidity_role = liquidity_role,
      fl_exchange_timestamp = exchange_timestamp,
      fl_ingestion_timestamp = ingestion_timestamp,
      fl_order_status_after_fill = None,
      fl_raw_exchange = None,
      fl_market_snapshot_ref = None,
      fl_feature_snapshot_ref = None,
      fl_portfolio_snapshot_ref = None,
      fl_health_snapshot_ref = None\<rparr>"

definition new_order_intent ::
  "datetime \<Rightarrow> string \<Rightarrow> string \<Rightarrow> string \<Rightarrow> order_side \<Rightarrow> decimal \<Rightarrow> string \<Rightarrow> order_type \<Rightarrow> urgency \<Rightarrow> string \<Rightarrow> string \<Rightarrow> order_intent"
where
  "new_order_intent created_at intent_id decision_id symbol side quantity execution_style order_type urgency time_in_force idempotency_key =
     \<lparr>oi_schema_version = ''1.0.0'',
      oi_created_at = created_at,
      oi_intent_id = intent_id,
      oi_execution_chain_id = None,
      oi_execution_attempt_id = None,
      oi_leg_intent_id = None,
      oi_decision_id = decision_id,
      oi_symbol = symbol,
      oi_side = side,
      oi_quantity = quantity,
      oi_execution_style = execution_style,
      oi_order_type = order_type,
      oi_limit_price = None,
      oi_reference_price = None,
      oi_urgency = urgency,
      oi_time_in_force = time_in_force,
      oi_max_slippage_tolerance_bps = None,
      oi_reduce_only = False,
      oi_close_only = False,
      oi_td_mode = None,
      oi_position_mode = None,
      oi_pos_side = None,
      oi_reduce_only_reason = None,
      oi_close_only_reason = None,
      oi_instrument_family = None,
      oi_settle_currency = None,
      oi_required_initial_margin = None,
      oi_projected_margin_usage = None,
      oi_projected_notional = None,
      oi_risk_budget_multiplier = None,
      oi_risk_budget_state = [],
      oi_execution_aggressiveness_multiplier = None,
      oi_execution_aggressiveness_state = [],
      oi_only_reduce_required = False,
      oi_risk_limit_breached = False,
      oi_liquidation_buffer_remaining = None,
      oi_idempotency_key = idempotency_key,
      oi_strategy_family = None,
      oi_strategy_sleeve_id = None,
      oi_allocation_id = None,
      oi_strategy_bundle_id = None,
      oi_strategy_leg_role = None,
      oi_strategy_pair_id = None,
      oi_strategy_opportunity_kind = None,
      oi_strategy_execution_mode = None,
      oi_strategy_state_phase = None,
      oi_product_type = Spot,
      oi_target_leverage = 1,
      oi_margin_mode = Cash,
      oi_exposure_side = ExpFlat,
      oi_execution_action = None,
      oi_leg_action = None,
      oi_position_intent = OpenLong,
      oi_ai_execution_parameter_suggestion = None,
      oi_market_snapshot_ref = None,
      oi_feature_snapshot_ref = None,
      oi_portfolio_snapshot_ref = None,
      oi_health_snapshot_ref = None\<rparr>"

definition new_leg_order_intent ::
  "datetime \<Rightarrow> string \<Rightarrow> string \<Rightarrow> string \<Rightarrow> order_side \<Rightarrow> position_side \<Rightarrow> leg_action \<Rightarrow> decimal \<Rightarrow> string \<Rightarrow> order_type \<Rightarrow> urgency \<Rightarrow> string \<Rightarrow> string \<Rightarrow> leg_order_intent"
where
  "new_leg_order_intent created_at leg_intent_id decision_id symbol side pos_side action quantity execution_style order_type urgency time_in_force idempotency_key =
     \<lparr>li_schema_version = ''1.0.0'',
      li_created_at = created_at,
      li_leg_intent_id = leg_intent_id,
      li_execution_chain_id = None,
      li_execution_attempt_id = None,
      li_decision_id = decision_id,
      li_symbol = symbol,
      li_side = side,
      li_pos_side = pos_side,
      li_action = action,
      li_quantity = quantity,
      li_execution_style = execution_style,
      li_order_type = order_type,
      li_limit_price = None,
      li_reference_price = None,
      li_urgency = urgency,
      li_time_in_force = time_in_force,
      li_max_slippage_tolerance_bps = None,
      li_reduce_only = False,
      li_close_only = False,
      li_td_mode = None,
      li_position_mode = LongShortMode,
      li_reduce_only_reason = None,
      li_close_only_reason = None,
      li_instrument_family = None,
      li_settle_currency = None,
      li_required_initial_margin = None,
      li_projected_margin_usage = None,
      li_projected_notional = None,
      li_risk_budget_multiplier = None,
      li_risk_budget_state = [],
      li_execution_aggressiveness_multiplier = None,
      li_execution_aggressiveness_state = [],
      li_only_reduce_required = False,
      li_risk_limit_breached = False,
      li_liquidation_buffer_remaining = None,
      li_idempotency_key = idempotency_key,
      li_strategy_family = None,
      li_strategy_sleeve_id = None,
      li_allocation_id = None,
      li_strategy_bundle_id = None,
      li_strategy_leg_role = None,
      li_strategy_pair_id = None,
      li_strategy_opportunity_kind = None,
      li_strategy_execution_mode = None,
      li_strategy_state_phase = None,
      li_product_type = Derivatives,
      li_target_leverage = 1,
      li_margin_mode = Cross,
      li_exposure_side = ExpFlat,
      li_position_intent = None,
      li_ai_execution_parameter_suggestion = None,
      li_market_snapshot_ref = None,
      li_feature_snapshot_ref = None,
      li_portfolio_snapshot_ref = None,
      li_health_snapshot_ref = None\<rparr>"

definition new_order_obligation ::
  "datetime \<Rightarrow> string \<Rightarrow> string \<Rightarrow> string \<Rightarrow> string \<Rightarrow> string \<Rightarrow> order_side \<Rightarrow> string \<Rightarrow> decimal \<Rightarrow> order_obligation"
where
  "new_order_obligation created_at obligation_id client_order_id decision_id intent_id symbol side reserve_currency reserved_amount =
     \<lparr>ob_schema_version = ''1.0.0'',
      ob_created_at = created_at,
      ob_obligation_id = obligation_id,
      ob_client_order_id = client_order_id,
      ob_decision_id = decision_id,
      ob_intent_id = intent_id,
      ob_symbol = symbol,
      ob_side = side,
      ob_reserve_currency = reserve_currency,
      ob_reserved_amount = reserved_amount,
      ob_consumed_amount = 0,
      ob_released_amount = 0,
      ob_consumed_fill_ids = [],
      ob_blocked_fill_ids = [],
      ob_status = OBL_ACTIVE,
      ob_product_type = Spot,
      ob_margin_mode = Cash,
      ob_strategy_family = None,
      ob_strategy_sleeve_id = None,
      ob_allocation_id = None,
      ob_strategy_bundle_id = None,
      ob_strategy_leg_role = None,
      ob_strategy_pair_id = None,
      ob_strategy_opportunity_kind = None,
      ob_strategy_execution_mode = None,
      ob_strategy_state_phase = None,
      ob_reference_price = None,
      ob_processing_failure_reason = None,
      ob_processing_failure_details = [],
      ob_last_update_ts = None\<rparr>"

definition effective_reduce_only_for_intent :: "order_intent \<Rightarrow> bool" where
  "effective_reduce_only_for_intent i =
     effective_reduce_only (oi_reduce_only i) (oi_leg_action i) (Some (position_intent_str (oi_position_intent i)))"

definition effective_close_only_for_intent :: "order_intent \<Rightarrow> bool" where
  "effective_close_only_for_intent i =
     effective_close_only (oi_close_only i) (oi_leg_action i) (Some (position_intent_str (oi_position_intent i)))"

section \<open>Conversions between order intents and leg intents\<close>

text \<open>\<open>now\<close> is the \<^verbatim>\<open>utc_now()\<close> of the new object's \<^verbatim>\<open>created_at\<close>.\<close>

definition leg_intent_from_order_intent :: "datetime \<Rightarrow> order_intent \<Rightarrow> leg_order_intent option" where
  "leg_intent_from_order_intent now i =
     (if oi_position_mode i \<noteq> Some LongShortMode then None
      else case oi_pos_side i of
        None \<Rightarrow> None
      | Some ps \<Rightarrow> if ps = PosNet then None else (case oi_leg_action i of
          None \<Rightarrow> None
        | Some act \<Rightarrow>
           Some \<lparr>li_schema_version = ''1.0.0'',
             li_created_at = now,
             li_leg_intent_id = (case str_or (oi_leg_intent_id i) (Some (oi_intent_id i)) of Some s \<Rightarrow> s | None \<Rightarrow> []),
             li_execution_chain_id = str_or (str_or (oi_execution_chain_id i) (oi_leg_intent_id i)) (Some (oi_intent_id i)),
             li_execution_attempt_id = oi_execution_attempt_id i,
             li_decision_id = oi_decision_id i,
             li_symbol = oi_symbol i,
             li_side = oi_side i,
             li_pos_side = ps,
             li_action = act,
             li_quantity = oi_quantity i,
             li_execution_style = oi_execution_style i,
             li_order_type = oi_order_type i,
             li_limit_price = oi_limit_price i,
             li_reference_price = oi_reference_price i,
             li_urgency = oi_urgency i,
             li_time_in_force = oi_time_in_force i,
             li_max_slippage_tolerance_bps = oi_max_slippage_tolerance_bps i,
             li_reduce_only = oi_reduce_only i,
             li_close_only = oi_close_only i,
             li_td_mode = oi_td_mode i,
             li_position_mode = LongShortMode,
             li_reduce_only_reason = oi_reduce_only_reason i,
             li_close_only_reason = oi_close_only_reason i,
             li_instrument_family = oi_instrument_family i,
             li_settle_currency = oi_settle_currency i,
             li_required_initial_margin = oi_required_initial_margin i,
             li_projected_margin_usage = oi_projected_margin_usage i,
             li_projected_notional = oi_projected_notional i,
             li_risk_budget_multiplier = oi_risk_budget_multiplier i,
             li_risk_budget_state = oi_risk_budget_state i,
             li_execution_aggressiveness_multiplier = oi_execution_aggressiveness_multiplier i,
             li_execution_aggressiveness_state = oi_execution_aggressiveness_state i,
             li_only_reduce_required = oi_only_reduce_required i,
             li_risk_limit_breached = oi_risk_limit_breached i,
             li_liquidation_buffer_remaining = oi_liquidation_buffer_remaining i,
             li_idempotency_key = oi_idempotency_key i,
             li_strategy_family = oi_strategy_family i,
             li_strategy_sleeve_id = oi_strategy_sleeve_id i,
             li_allocation_id = oi_allocation_id i,
             li_strategy_bundle_id = oi_strategy_bundle_id i,
             li_strategy_leg_role = oi_strategy_leg_role i,
             li_strategy_pair_id = oi_strategy_pair_id i,
             li_strategy_opportunity_kind = oi_strategy_opportunity_kind i,
             li_strategy_execution_mode = oi_strategy_execution_mode i,
             li_strategy_state_phase = oi_strategy_state_phase i,
             li_product_type = oi_product_type i,
             li_target_leverage = oi_target_leverage i,
             li_margin_mode = oi_margin_mode i,
             li_exposure_side = oi_exposure_side i,
             li_position_intent = Some (oi_position_intent i),
             li_ai_execution_parameter_suggestion = oi_ai_execution_parameter_suggestion i,
             li_market_snapshot_ref = oi_market_snapshot_ref i,
             li_feature_snapshot_ref = oi_feature_snapshot_ref i,
             li_portfolio_snapshot_ref = oi_portfolio_snapshot_ref i,
             li_health_snapshot_ref = oi_health_snapshot_ref i\<rparr>))"

definition order_intent_from_leg_order_intent ::
  "datetime \<Rightarrow> leg_order_intent \<Rightarrow> leg_error + order_intent"
where
  "order_intent_from_leg_order_intent now li =
     ebind (case li_position_intent li of
              Some p \<Rightarrow> Inr p
            | None \<Rightarrow> position_intent_from_leg_intent (li_side li) (Some (li_pos_side li)) (li_action li)
                (Some (li_position_mode li)))
     (\<lambda>pi0.
       let ro = (li_reduce_only li \<or> reduce_only_from_leg_action (Some (li_action li)));
           co = (li_close_only li \<or> close_only_from_leg_action (Some (li_action li)));
           pi = (if co \<and> pi0 = ReduceLong then CloseLong
                 else if co \<and> pi0 = ReduceShort then CloseShort else pi0)
       in Inr \<lparr>oi_schema_version = ''1.0.0'',
         oi_created_at = now,
         oi_intent_id = li_leg_intent_id li,
         oi_execution_chain_id = str_or (li_execution_chain_id li) (Some (li_leg_intent_id li)),
         oi_execution_attempt_id = li_execution_attempt_id li,
         oi_leg_intent_id = Some (li_leg_intent_id li),
         oi_decision_id = li_decision_id li,
         oi_symbol = li_symbol li,
         oi_side = li_side li,
         oi_quantity = li_quantity li,
         oi_execution_style = li_execution_style li,
         oi_order_type = li_order_type li,
         oi_limit_price = li_limit_price li,
         oi_reference_price = li_reference_price li,
         oi_urgency = li_urgency li,
         oi_time_in_force = li_time_in_force li,
         oi_max_slippage_tolerance_bps = li_max_slippage_tolerance_bps li,
         oi_reduce_only = ro,
         oi_close_only = co,
         oi_td_mode = li_td_mode li,
         oi_position_mode = Some (li_position_mode li),
         oi_pos_side = Some (li_pos_side li),
         oi_reduce_only_reason = str_or (li_reduce_only_reason li) (default_reduce_only_reason (Some (position_intent_str pi)) (Some (li_action li)) ro),
         oi_close_only_reason = str_or (li_close_only_reason li) (default_close_only_reason (Some (position_intent_str pi)) (Some (li_action li)) co),
         oi_instrument_family = li_instrument_family li,
         oi_settle_currency = li_settle_currency li,
         oi_required_initial_margin = li_required_initial_margin li,
         oi_projected_margin_usage = li_projected_margin_usage li,
         oi_projected_notional = li_projected_notional li,
         oi_risk_budget_multiplier = li_risk_budget_multiplier li,
         oi_risk_budget_state = li_risk_budget_state li,
         oi_execution_aggressiveness_multiplier = li_execution_aggressiveness_multiplier li,
         oi_execution_aggressiveness_state = li_execution_aggressiveness_state li,
         oi_only_reduce_required = li_only_reduce_required li,
         oi_risk_limit_breached = li_risk_limit_breached li,
         oi_liquidation_buffer_remaining = li_liquidation_buffer_remaining li,
         oi_idempotency_key = li_idempotency_key li,
         oi_strategy_family = li_strategy_family li,
         oi_strategy_sleeve_id = li_strategy_sleeve_id li,
         oi_allocation_id = li_allocation_id li,
         oi_strategy_bundle_id = li_strategy_bundle_id li,
         oi_strategy_leg_role = li_strategy_leg_role li,
         oi_strategy_pair_id = li_strategy_pair_id li,
         oi_strategy_opportunity_kind = li_strategy_opportunity_kind li,
         oi_strategy_execution_mode = li_strategy_execution_mode li,
         oi_strategy_state_phase = li_strategy_state_phase li,
         oi_product_type = li_product_type li,
         oi_target_leverage = li_target_leverage li,
         oi_margin_mode = li_margin_mode li,
         oi_exposure_side = li_exposure_side li,
         oi_execution_action = (case execution_action_from_position_intent (Some (position_intent_str pi)) of
                 Some a \<Rightarrow> Some a
               | None \<Rightarrow> execution_action_from_leg_action (Some (li_action li))),
         oi_leg_action = Some (li_action li),
         oi_position_intent = pi,
         oi_ai_execution_parameter_suggestion = li_ai_execution_parameter_suggestion li,
         oi_market_snapshot_ref = li_market_snapshot_ref li,
         oi_feature_snapshot_ref = li_feature_snapshot_ref li,
         oi_portfolio_snapshot_ref = li_portfolio_snapshot_ref li,
         oi_health_snapshot_ref = li_health_snapshot_ref li\<rparr>)"

section \<open>Derived facts\<close>

lemma norm_position_intent_str: "norm_str (position_intent_str p) = position_intent_str p"
  by (cases p) (simp_all add: norm_str_def py_simps)

lemmas norm_intents [simp] =
  norm_position_intent_str
  norm_position_intent_str[of OpenLong, simplified] norm_position_intent_str[of ScaleInLong, simplified]
  norm_position_intent_str[of ReduceLong, simplified] norm_position_intent_str[of CloseLong, simplified]
  norm_position_intent_str[of OpenShort, simplified] norm_position_intent_str[of ScaleInShort, simplified]
  norm_position_intent_str[of ReduceShort, simplified] norm_position_intent_str[of CloseShort, simplified]
  norm_position_intent_str[of ReverseToLong, simplified] norm_position_intent_str[of ReverseToShort, simplified]

lemma position_intent_str_inject [simp]: "position_intent_str p = position_intent_str q \<longleftrightarrow> p = q"
  by (cases p; cases q) simp_all

lemma flags_from_intent [simp]:
  "reduce_only_from_position_intent (Some (position_intent_str p)) \<longleftrightarrow>
     p \<in> {ReduceLong, ReduceShort, CloseLong, CloseShort}"
  "close_only_from_position_intent (Some (position_intent_str p)) \<longleftrightarrow> p \<in> {CloseLong, CloseShort}"
  by (cases p; simp add: reduce_only_from_position_intent_def close_only_from_position_intent_def)+

lemma flags_from_action [simp]:
  "reduce_only_from_leg_action (Some a) \<longleftrightarrow> a \<noteq> LegOpen"
  "close_only_from_leg_action (Some a) \<longleftrightarrow> a = LegClose"
  by (cases a; simp add: reduce_only_from_leg_action_def close_only_from_leg_action_def)+

lemma side_of_intent [simp]:
  "side_from_position_intent (Some (position_intent_str p)) = Some
     (if p \<in> {OpenLong, ScaleInLong, ReverseToLong, ReduceShort, CloseShort} then Buy else Sell)"
  by (cases p) (simp_all add: side_from_position_intent_def)

lemma pos_side_of_intent [simp]:
  "pos_side_from_position_intent (Some (position_intent_str p)) (Some LongShortMode) = Some
     (if p \<in> {OpenLong, ScaleInLong, ReduceLong, CloseLong, ReverseToLong} then PosLong else PosShort)"
  by (cases p) (simp_all add: pos_side_from_position_intent_def)

text \<open>The legs a hedge-mode order may take, and the intent each one means.\<close>

lemma position_intent_from_leg_intent_Inr_iff:
  "position_intent_from_leg_intent s ps a m = Inr p \<longleftrightarrow> m = Some LongShortMode \<and>
     (s, ps, a, p) \<in>
       {(Buy, Some PosLong, LegOpen, OpenLong), (Sell, Some PosLong, LegReduce, ReduceLong),
        (Sell, Some PosLong, LegClose, CloseLong), (Sell, Some PosShort, LegOpen, OpenShort),
        (Buy, Some PosShort, LegReduce, ReduceShort), (Buy, Some PosShort, LegClose, CloseShort)}"
  by (cases s; cases a; cases p) (auto simp: position_intent_from_leg_intent_def)

lemma order_intent_from_leg_fields:
  assumes "order_intent_from_leg_order_intent now li = Inr i"
  shows "oi_side i = li_side li" "oi_pos_side i = Some (li_pos_side li)"
    "oi_position_mode i = Some (li_position_mode li)" "oi_leg_action i = Some (li_action li)"
    "oi_quantity i = li_quantity li" "oi_symbol i = li_symbol li"
    "oi_reduce_only i = (li_reduce_only li \<or> li_action li \<noteq> LegOpen)"
    "oi_close_only i = (li_close_only li \<or> li_action li = LegClose)"
  using assms unfolding order_intent_from_leg_order_intent_def ebind_eq_Inr_iff Let_def
  by (clarsimp)+

section \<open>Properties\<close>

text \<open>
  C14. Converting a hedge-mode leg intent into an order intent and back gives the leg intent
  again: every field the conversion copies survives, the flags and reasons come back with the
  values the leg action implies, and the position intent comes back as the (possibly
  upgraded) one of the order.
\<close>

theorem leg_intent_roundtrip:
  assumes "li_position_mode li = LongShortMode" and "li_pos_side li \<noteq> PosNet"
    and "order_intent_from_leg_order_intent now li = Inr i"
  shows "leg_intent_from_order_intent now' i = Some (li
     \<lparr>li_schema_version := ''1.0.0'', li_created_at := now',
      li_execution_chain_id := str_or (li_execution_chain_id li) (Some (li_leg_intent_id li)),
      li_reduce_only := (li_reduce_only li \<or> li_action li \<noteq> LegOpen),
      li_close_only := (li_close_only li \<or> li_action li = LegClose),
      li_reduce_only_reason := oi_reduce_only_reason i,
      li_close_only_reason := oi_close_only_reason i,
      li_position_intent := Some (oi_position_intent i)\<rparr>)"
proof -
  have chain: "str_or (str_or (str_or a (Some b)) (Some b)) (Some b) = str_or a (Some b)" for a b
    by (cases a; cases b) (auto simp: str_or_def)
  have leg_id: "(case str_or (Some a) (Some a) of None \<Rightarrow> [] | Some s \<Rightarrow> s) = a" for a
    by (cases a) simp_all
  show ?thesis
    using assms unfolding order_intent_from_leg_order_intent_def ebind_eq_Inr_iff Let_def
    by (clarsimp simp: leg_intent_from_order_intent_def chain leg_id)
qed

definition example_leg :: leg_order_intent where
  "example_leg = new_leg_order_intent (Aware 0 0) ''leg'' ''dec'' ''BTC-USDT-SWAP'' Sell PosLong LegClose
     1 ''taker'' Market High ''IOC'' ''key''"

lemma example_leg_ok: "\<exists>i. order_intent_from_leg_order_intent now example_leg = Inr i"
  by (simp add: order_intent_from_leg_order_intent_def example_leg_def new_leg_order_intent_def
      position_intent_from_leg_intent_def Let_def)

theorem leg_intent_roundtrip_witness:
  "\<exists>i l. order_intent_from_leg_order_intent (Aware 0 0) example_leg = Inr i \<and>
     leg_intent_from_order_intent (Aware 0 1) i = Some l \<and> li_quantity l = 1 \<and> li_close_only l"
proof -
  obtain i where i: "order_intent_from_leg_order_intent (Aware 0 0) example_leg = Inr i"
    using example_leg_ok by blast
  have "li_position_mode example_leg = LongShortMode" "li_pos_side example_leg \<noteq> PosNet"
    by (simp_all add: example_leg_def new_leg_order_intent_def)
  from leg_intent_roundtrip[OF this i, of "Aware 0 1"] i show ?thesis
    by (auto simp: example_leg_def new_leg_order_intent_def)
qed

text \<open>
  An order intent built from a leg intent that names no position intent is coherent:
  the side and the position side implied by its position intent are the ones it carries, and
  the flags the exchange adapter derives (\<open>effective_*\<close>) are the flags that are stored.
\<close>

theorem leg_order_flags_coherent:
  assumes "order_intent_from_leg_order_intent now li = Inr i" and "li_position_intent li = None"
  shows "side_from_position_intent (Some (position_intent_str (oi_position_intent i))) = Some (oi_side i) \<and>
    pos_side_from_position_intent (Some (position_intent_str (oi_position_intent i))) (oi_position_mode i)
      = oi_pos_side i \<and>
    effective_reduce_only_for_intent i = oi_reduce_only i \<and>
    effective_close_only_for_intent i = oi_close_only i"
proof -
  from assms obtain p where
    p: "position_intent_from_leg_intent (li_side li) (Some (li_pos_side li)) (li_action li)
          (Some (li_position_mode li)) = Inr p"
    and pi: "oi_position_intent i = (if oi_close_only i \<and> p = ReduceLong then CloseLong
                 else if oi_close_only i \<and> p = ReduceShort then CloseShort else p)"
    unfolding order_intent_from_leg_order_intent_def ebind_eq_Inr_iff Let_def by auto
  note f = order_intent_from_leg_fields[OF assms(1)]
  show ?thesis
    using p unfolding position_intent_from_leg_intent_Inr_iff
    by (auto simp: pi f effective_reduce_only_for_intent_def effective_close_only_for_intent_def
        effective_reduce_only_def effective_close_only_def)
qed

theorem leg_order_flags_coherent_witness:
  "\<exists>i. order_intent_from_leg_order_intent (Aware 0 0) example_leg = Inr i \<and>
     effective_reduce_only_for_intent i = oi_reduce_only i"
proof -
  obtain i where i: "order_intent_from_leg_order_intent (Aware 0 0) example_leg = Inr i"
    using example_leg_ok by blast
  have "li_position_intent example_leg = None"
    by (simp add: example_leg_def new_leg_order_intent_def)
  from leg_order_flags_coherent[OF i this] i show ?thesis by blast
qed

end
