(* ===== verification/Order_State_Machine.thy ===== *)
theory Order_State_Machine
  imports Execution_Schema
begin

text \<open>
  The order lifecycle, \<^verbatim>\<open>aats/services/execution_engine/state_machine.py\<close> (re-exported by
  \<^verbatim>\<open>execution_control/order_state_machine.py\<close>): which status may follow which, how a report
  is merged into the stored order state, and what a path of reports leaves behind. \<open>merge\<close>
  and \<open>merge_without_regression\<close> call each other as in the code; the termination proof says
  that the second call is always an idempotent one. \<open>order_reachable\<close> is the set of states
  that a stream of reports can build, and \<open>wf_order\<close> the invariant of those states.
\<close>

section \<open>Statuses\<close>

definition TERMINAL_ORDER_STATES :: "order_status list" where
  "TERMINAL_ORDER_STATES = [FILLED, CANCELED, REJECTED, FAILED, BLOCKED, DRY_RUN, EXPIRED]"

definition OPEN_ORDER_STATES :: "order_status list" where
  "OPEN_ORDER_STATES = [CREATED, SUBMITTING, SUBMITTED, PARTIALLY_FILLED, CANCEL_PENDING]"

fun ALLOWED_TRANSITIONS :: "order_status \<Rightarrow> order_status list" where
  "ALLOWED_TRANSITIONS CREATED =
     [CREATED, SUBMITTING, CANCEL_PENDING, CANCELED, BLOCKED, FAILED, REJECTED, DRY_RUN]"
| "ALLOWED_TRANSITIONS SUBMITTING =
     [SUBMITTING, SUBMITTED, PARTIALLY_FILLED, FILLED, CANCEL_PENDING, CANCELED, REJECTED, FAILED,
      BLOCKED, DRY_RUN]"
| "ALLOWED_TRANSITIONS SUBMITTED =
     [SUBMITTED, PARTIALLY_FILLED, FILLED, CANCEL_PENDING, CANCELED, FAILED, EXPIRED]"
| "ALLOWED_TRANSITIONS PARTIALLY_FILLED =
     [PARTIALLY_FILLED, FILLED, CANCEL_PENDING, CANCELED, FAILED, EXPIRED]"
| "ALLOWED_TRANSITIONS CANCEL_PENDING = [CANCEL_PENDING, CANCELED, FILLED, FAILED, EXPIRED]"
| "ALLOWED_TRANSITIONS FILLED = [FILLED]"
| "ALLOWED_TRANSITIONS CANCELED = [CANCELED]"
| "ALLOWED_TRANSITIONS REJECTED = [REJECTED]"
| "ALLOWED_TRANSITIONS FAILED = [FAILED]"
| "ALLOWED_TRANSITIONS BLOCKED = [BLOCKED]"
| "ALLOWED_TRANSITIONS DRY_RUN = [DRY_RUN]"
| "ALLOWED_TRANSITIONS EXPIRED = [EXPIRED]"

fun STATE_PRIORITY :: "order_status \<Rightarrow> nat" where
  "STATE_PRIORITY CREATED = 0"
| "STATE_PRIORITY SUBMITTING = 1"
| "STATE_PRIORITY SUBMITTED = 2"
| "STATE_PRIORITY PARTIALLY_FILLED = 3"
| "STATE_PRIORITY CANCEL_PENDING = 4"
| "STATE_PRIORITY FILLED = 5"
| "STATE_PRIORITY CANCELED = 5"
| "STATE_PRIORITY EXPIRED = 5"
| "STATE_PRIORITY REJECTED = 5"
| "STATE_PRIORITY FAILED = 5"
| "STATE_PRIORITY BLOCKED = 5"
| "STATE_PRIORITY DRY_RUN = 5"

definition is_terminal :: "order_status \<Rightarrow> bool" where
  "is_terminal s \<longleftrightarrow> s \<in> set TERMINAL_ORDER_STATES"

definition is_open :: "order_status \<Rightarrow> bool" where
  "is_open s \<longleftrightarrow> s \<in> set OPEN_ORDER_STATES"

record transition_validation =
  tv_accepted :: bool
  tv_reason :: string

definition validate_transition :: "order_status option \<Rightarrow> order_status \<Rightarrow> transition_validation" where
  "validate_transition current_status next_status =
     (case current_status of
        None \<Rightarrow> \<lparr>tv_accepted = True, tv_reason = ''initial_state''\<rparr>
      | Some cur \<Rightarrow>
          if next_status = cur then \<lparr>tv_accepted = True, tv_reason = ''idempotent''\<rparr>
          else if next_status \<in> set (ALLOWED_TRANSITIONS cur)
          then \<lparr>tv_accepted = True, tv_reason = ''valid_transition''\<rparr>
          else if STATE_PRIORITY next_status < STATE_PRIORITY cur
          then \<lparr>tv_accepted = False, tv_reason = ''status_regression''\<rparr>
          else \<lparr>tv_accepted = False, tv_reason = ''invalid_transition''\<rparr>)"

section \<open>Timestamps\<close>

fun coerce_utc :: "datetime \<Rightarrow> datetime" where
  "coerce_utc (Naive t) = Aware 0 t"
| "coerce_utc (Aware off t) = Aware 0 (t - off)"

definition latest :: "datetime option \<Rightarrow> datetime option \<Rightarrow> datetime option" where
  "latest left right =
     (case left of None \<Rightarrow> right | Some l \<Rightarrow>
       (case right of None \<Rightarrow> left | Some r \<Rightarrow>
         Some (if dt_instant l < dt_instant r then coerce_utc r else coerce_utc l)))"

definition earliest :: "datetime option \<Rightarrow> datetime option \<Rightarrow> datetime option" where
  "earliest left right =
     (case left of None \<Rightarrow> right | Some l \<Rightarrow>
       (case right of None \<Rightarrow> left | Some r \<Rightarrow>
         Some (if dt_instant r < dt_instant l then coerce_utc r else coerce_utc l)))"

section \<open>Merging reports\<close>

definition merge_execution_error :: "order_state \<Rightarrow> order_state \<Rightarrow> string option" where
  "merge_execution_error current incoming =
     (if str_truthy (os_execution_error incoming) then os_execution_error incoming
      else case os_execution_error current of
        None \<Rightarrow> None
      | Some err \<Rightarrow>
          if \<not> py_contains ''_unknown_check_exchange:'' err then Some err
          else if py_startswith ''submission_unknown_check_exchange:'' err then
            (if str_truthy (os_exchange_order_id incoming)
                \<and> os_exchange_order_id incoming \<noteq> os_exchange_order_id current then None
             else if os_status incoming \<in> {PARTIALLY_FILLED, FILLED, CANCELED, EXPIRED, REJECTED, FAILED}
             then None
             else Some err)
          else if py_startswith ''cancel_unknown_check_exchange:'' err then
            (if os_status incoming \<in> {CANCELED, FILLED, EXPIRED, FAILED} then None else Some err)
          else Some err)"

text \<open>The filled quantity, the status and the remaining quantity \<^verbatim>\<open>_normalize\<close> settles on.\<close>

definition normalized_filled :: "order_state \<Rightarrow> decimal" where
  "normalized_filled state = min (max (os_filled_qty state) 0) (os_requested_qty state)"

definition normalized_status_remaining :: "order_state \<Rightarrow> order_status \<times> decimal" where
  "normalized_status_remaining state =
     (let filled_qty = normalized_filled state;
          remaining_qty = max (min (os_remaining_qty state) (os_requested_qty state)) 0
      in if dsub (os_requested_qty state) EPSILON_DECIMAL_12 \<le> filled_qty \<and> 0 < os_requested_qty state
         then (FILLED, 0)
         else if os_status state \<in> {SUBMITTED, PARTIALLY_FILLED} \<and> EPSILON_DECIMAL_12 < filled_qty
         then (PARTIALLY_FILLED, max (dsub (os_requested_qty state) filled_qty) 0)
         else (os_status state, remaining_qty))"

definition normalize_order :: "order_state \<Rightarrow> order_state" where
  "normalize_order state =
     (let filled_qty = normalized_filled state;
          (normalized_status, remaining_qty) = normalized_status_remaining state
      in if normalized_status = CANCELED \<and> os_canceled_ts state = None
         then state\<lparr>os_status := normalized_status, os_filled_qty := filled_qty,
                    os_remaining_qty := remaining_qty,
                    os_canceled_ts := (case os_last_exchange_update_ts state of
                        None \<Rightarrow> os_last_update_ts state | Some t \<Rightarrow> Some t)\<rparr>
         else state\<lparr>os_status := normalized_status, os_filled_qty := filled_qty,
                    os_remaining_qty := remaining_qty\<rparr>)"

text \<open>The accepted branch of \<^verbatim>\<open>merge\<close>, before \<^verbatim>\<open>_normalize\<close>.\<close>

definition merge_fields :: "order_state \<Rightarrow> order_state \<Rightarrow> order_state" where
  "merge_fields current incoming =
     (let requested_qty = (if 0 < os_requested_qty incoming then os_requested_qty incoming
                           else os_requested_qty current);
          filled_qty = min (max (os_filled_qty current) (os_filled_qty incoming)) requested_qty;
          remaining_floor = max (dsub requested_qty filled_qty) 0;
          remaining1 = (if 0 \<le> os_remaining_qty current
                        then min remaining_floor (os_remaining_qty current) else remaining_floor);
          remaining_qty = (if 0 \<le> os_remaining_qty incoming
                           then min remaining1 (os_remaining_qty incoming) else remaining1);
          average_fill_price =
            (if os_average_fill_price incoming = None \<and> os_average_fill_price current \<noteq> None
             then os_average_fill_price current
             else if os_average_fill_price incoming \<noteq> None \<and> os_average_fill_price current \<noteq> None
                  \<and> os_filled_qty incoming < os_filled_qty current
             then os_average_fill_price current
             else os_average_fill_price incoming);
          history0 = fromkeys (os_exchange_status_history current @ os_exchange_status_history incoming);
          exchange_history =
            (case os_exchange_status incoming of
               Some st \<Rightarrow> if st \<in> set history0 then history0 else history0 @ [st]
             | None \<Rightarrow> history0)
      in incoming
         \<lparr>os_exchange_order_id := str_or (os_exchange_order_id incoming) (os_exchange_order_id current),
          os_exchange_status := str_or (os_exchange_status incoming) (os_exchange_status current),
          os_exchange_status_history := exchange_history,
          os_submitted_ts := earliest (os_submitted_ts current) (os_submitted_ts incoming),
          os_last_update_ts := latest (os_last_update_ts current) (os_last_update_ts incoming),
          os_last_exchange_update_ts :=
            latest (os_last_exchange_update_ts current) (os_last_exchange_update_ts incoming),
          os_cancellation_requested_ts :=
            earliest (os_cancellation_requested_ts current) (os_cancellation_requested_ts incoming),
          os_canceled_ts := earliest (os_canceled_ts current) (os_canceled_ts incoming),
          os_requested_qty := requested_qty,
          os_filled_qty := filled_qty,
          os_remaining_qty := remaining_qty,
          os_average_fill_price := average_fill_price,
          os_fees := max (os_fees current) (os_fees incoming),
          os_cancel_reason := str_or (os_cancel_reason incoming) (os_cancel_reason current),
          os_execution_error := merge_execution_error current incoming,
          os_submission_payload :=
            (if os_submission_payload incoming = [] then os_submission_payload current
             else os_submission_payload incoming)\<rparr>)"

text \<open>\<^verbatim>\<open>a or b\<close> on optional decimals: zero is falsy.\<close>

definition dec_or :: "decimal option \<Rightarrow> decimal option \<Rightarrow> decimal option" where
  "dec_or a b = (case a of None \<Rightarrow> b | Some x \<Rightarrow> if x = 0 then b else a)"

function merge :: "order_state option \<Rightarrow> order_state \<Rightarrow> order_state"
  and merge_without_regression :: "order_state \<Rightarrow> order_state \<Rightarrow> order_state"
where
  "merge current_opt incoming =
     (case current_opt of
        None \<Rightarrow> normalize_order incoming
      | Some current \<Rightarrow>
          if \<not> tv_accepted (validate_transition (Some (os_status current)) (os_status incoming))
          then merge_without_regression current incoming
          else normalize_order (merge_fields current incoming))"
| "merge_without_regression current incoming =
     (if os_filled_qty current < os_filled_qty incoming \<or> os_fees current < os_fees incoming
      then merge (Some current)
        (current
         \<lparr>os_filled_qty := os_filled_qty incoming,
          os_remaining_qty := os_remaining_qty incoming,
          os_average_fill_price := dec_or (os_average_fill_price incoming) (os_average_fill_price current),
          os_fees := os_fees incoming,
          os_last_update_ts := latest (os_last_update_ts current) (os_last_update_ts incoming),
          os_last_exchange_update_ts :=
            latest (os_last_exchange_update_ts current) (os_last_exchange_update_ts incoming)\<rparr>)
      else current
         \<lparr>os_last_update_ts := latest (os_last_update_ts current) (os_last_update_ts incoming),
          os_last_exchange_update_ts :=
            latest (os_last_exchange_update_ts current) (os_last_exchange_update_ts incoming),
          os_execution_error := str_or (os_execution_error incoming) (os_execution_error current)\<rparr>)"
  by pat_completeness auto
termination
  by (relation "measure (\<lambda>x. case x of
        Inl (c, i) \<Rightarrow> (case c of None \<Rightarrow> 0 | Some s \<Rightarrow>
            if tv_accepted (validate_transition (Some (os_status s)) (os_status i)) then 0 else 2)
      | Inr _ \<Rightarrow> Suc 0)")
    (auto simp: validate_transition_def)

declare merge.simps [simp del] merge_without_regression.simps [simp del]

section \<open>Checking a path of reports\<close>

fun order_status_str :: "order_status \<Rightarrow> string" where
  "order_status_str CREATED = ''CREATED''"
| "order_status_str SUBMITTING = ''SUBMITTING''"
| "order_status_str SUBMITTED = ''SUBMITTED''"
| "order_status_str PARTIALLY_FILLED = ''PARTIALLY_FILLED''"
| "order_status_str FILLED = ''FILLED''"
| "order_status_str CANCEL_PENDING = ''CANCEL_PENDING''"
| "order_status_str CANCELED = ''CANCELED''"
| "order_status_str REJECTED = ''REJECTED''"
| "order_status_str FAILED = ''FAILED''"
| "order_status_str BLOCKED = ''BLOCKED''"
| "order_status_str DRY_RUN = ''DRY_RUN''"
| "order_status_str EXPIRED = ''EXPIRED''"

fun validate_path_from :: "order_state option \<Rightarrow> order_state list \<Rightarrow> string list" where
  "validate_path_from previous [] = []"
| "validate_path_from previous (state # states) =
     (let validation = validate_transition (map_option os_status previous) (os_status state)
      in (if tv_accepted validation then []
          else [''invalid_transition previous='' @
                (case previous of None \<Rightarrow> ''NONE'' | Some p \<Rightarrow> order_status_str (os_status p)) @
                '' next='' @ order_status_str (os_status state) @ '' reason='' @ tv_reason validation])
         @ validate_path_from (Some (merge previous state)) states)"

definition validate_path :: "order_state list \<Rightarrow> string list" where
  "validate_path states = validate_path_from None states"

section \<open>The status graph\<close>

lemma terminal_or_open: "is_open s \<longleftrightarrow> \<not> is_terminal s"
  by (cases s) (simp_all add: is_terminal_def is_open_def TERMINAL_ORDER_STATES_def OPEN_ORDER_STATES_def)

lemma allowed_refl [simp]: "s \<in> set (ALLOWED_TRANSITIONS s)"
  by (cases s) simp_all

lemma accepted_iff [simp]:
  "tv_accepted (validate_transition (Some s) t) \<longleftrightarrow> t \<in> set (ALLOWED_TRANSITIONS s)"
  by (auto simp: validate_transition_def)

lemma allowed_priority: "t \<in> set (ALLOWED_TRANSITIONS s) \<Longrightarrow> STATE_PRIORITY s \<le> STATE_PRIORITY t"
  by (cases s) auto

lemma priority_le_5: "STATE_PRIORITY s \<le> 5"
  by (cases s) auto

lemma terminal_iff_priority: "is_terminal s \<longleftrightarrow> STATE_PRIORITY s = 5"
  by (cases s) (simp_all add: is_terminal_def TERMINAL_ORDER_STATES_def)

lemma allowed_terminal: "is_terminal s \<Longrightarrow> ALLOWED_TRANSITIONS s = [s]"
  by (cases s) (simp_all add: is_terminal_def TERMINAL_ORDER_STATES_def)

section \<open>Merging, without the recursion\<close>

text \<open>A late fill on a refused report, put on the stored state.\<close>

definition late_fill :: "order_state \<Rightarrow> order_state \<Rightarrow> order_state" where
  "late_fill current incoming = current
     \<lparr>os_filled_qty := os_filled_qty incoming,
      os_remaining_qty := os_remaining_qty incoming,
      os_average_fill_price := dec_or (os_average_fill_price incoming) (os_average_fill_price current),
      os_fees := os_fees incoming,
      os_last_update_ts := latest (os_last_update_ts current) (os_last_update_ts incoming),
      os_last_exchange_update_ts :=
        latest (os_last_exchange_update_ts current) (os_last_exchange_update_ts incoming)\<rparr>"

lemma late_fill_simps [simp]:
  "os_status (late_fill c i) = os_status c" "os_requested_qty (late_fill c i) = os_requested_qty c"
  "os_filled_qty (late_fill c i) = os_filled_qty i" "os_remaining_qty (late_fill c i) = os_remaining_qty i"
  "os_fees (late_fill c i) = os_fees i"
  by (simp_all add: late_fill_def)

lemma merge_None [simp]: "merge None i = normalize_order i"
  by (simp add: merge.simps)

lemma merge_accepted:
  "os_status i \<in> set (ALLOWED_TRANSITIONS (os_status c)) \<Longrightarrow> merge (Some c) i = normalize_order (merge_fields c i)"
  by (simp add: merge.simps)

lemma merge_refused_fill:
  assumes "os_status i \<notin> set (ALLOWED_TRANSITIONS (os_status c))"
    and "os_filled_qty c < os_filled_qty i \<or> os_fees c < os_fees i"
  shows "merge (Some c) i = normalize_order (merge_fields c (late_fill c i))"
proof -
  have "merge (Some c) i = merge_without_regression c i"
    using assms(1) by (simp add: merge.simps)
  also have "\<dots> = merge (Some c) (late_fill c i)"
    using assms(2) by (simp add: merge_without_regression.simps[of c i] late_fill_def)
  finally show ?thesis by (simp add: merge_accepted)
qed

lemma merge_refused:
  assumes "os_status i \<notin> set (ALLOWED_TRANSITIONS (os_status c))"
    and "\<not> (os_filled_qty c < os_filled_qty i \<or> os_fees c < os_fees i)"
  shows "merge (Some c) i = c
     \<lparr>os_last_update_ts := latest (os_last_update_ts c) (os_last_update_ts i),
      os_last_exchange_update_ts := latest (os_last_exchange_update_ts c) (os_last_exchange_update_ts i),
      os_execution_error := str_or (os_execution_error i) (os_execution_error c)\<rparr>"
  using assms by (simp add: merge.simps merge_without_regression.simps)

text \<open>One of the three outcomes applies to every report.\<close>

lemma merge_outcomes [consumes 0, case_names accepted late_fill kept]:
  obtains
    "os_status i \<in> set (ALLOWED_TRANSITIONS (os_status c))" "merge (Some c) i = normalize_order (merge_fields c i)"
  | "os_status i \<notin> set (ALLOWED_TRANSITIONS (os_status c))"
    "os_filled_qty c < os_filled_qty i \<or> os_fees c < os_fees i"
    "merge (Some c) i = normalize_order (merge_fields c (late_fill c i))"
  | "os_status i \<notin> set (ALLOWED_TRANSITIONS (os_status c))"
    "os_filled_qty i \<le> os_filled_qty c" "os_fees i \<le> os_fees c"
    "os_status (merge (Some c) i) = os_status c" "os_requested_qty (merge (Some c) i) = os_requested_qty c"
    "os_filled_qty (merge (Some c) i) = os_filled_qty c"
    "os_remaining_qty (merge (Some c) i) = os_remaining_qty c" "os_fees (merge (Some c) i) = os_fees c"
  using merge_accepted[of i c] merge_refused_fill[of i c] merge_refused[of i c]
  by (cases "os_status i \<in> set (ALLOWED_TRANSITIONS (os_status c))";
      cases "os_filled_qty c < os_filled_qty i \<or> os_fees c < os_fees i") auto

section \<open>Quantities\<close>

text \<open>The fields of a merged and of a normalised state that the invariants speak of.\<close>

lemma merge_fields_simps [simp]:
  "os_status (merge_fields c i) = os_status i"
  "os_requested_qty (merge_fields c i) =
     (if 0 < os_requested_qty i then os_requested_qty i else os_requested_qty c)"
  "os_filled_qty (merge_fields c i) =
     min (max (os_filled_qty c) (os_filled_qty i)) (os_requested_qty (merge_fields c i))"
  "os_fees (merge_fields c i) = max (os_fees c) (os_fees i)"
  by (simp_all add: merge_fields_def Let_def)

lemma normalize_simps [simp]:
  "os_requested_qty (normalize_order s) = os_requested_qty s"
  "os_filled_qty (normalize_order s) = normalized_filled s"
  "os_fees (normalize_order s) = os_fees s"
  "os_status (normalize_order s) = fst (normalized_status_remaining s)"
  "os_remaining_qty (normalize_order s) = snd (normalized_status_remaining s)"
  by (simp_all add: normalize_order_def Let_def case_prod_beta)

text \<open>A report states a requested quantity the decimal context can hold.\<close>

definition valid_report :: "order_state \<Rightarrow> bool" where
  "valid_report s \<longleftrightarrow> exact28 (os_requested_qty s) \<and> 0 \<le> os_requested_qty s"

definition wf_order :: "order_state \<Rightarrow> bool" where
  "wf_order s \<longleftrightarrow> exact28 (os_requested_qty s) \<and>
     0 \<le> os_filled_qty s \<and> os_filled_qty s \<le> os_requested_qty s \<and>
     0 \<le> os_remaining_qty s \<and> os_remaining_qty s \<le> os_requested_qty s"

lemma normalize_wf: "valid_report s \<Longrightarrow> wf_order (normalize_order s)"
  by (auto simp: valid_report_def wf_order_def normalized_status_remaining_def normalized_filled_def Let_def
      dsub_le)

lemma merge_fields_valid:
  "valid_report c \<Longrightarrow> valid_report i \<Longrightarrow> valid_report (merge_fields c i)"
  by (simp add: valid_report_def)

lemma wf_order_valid: "wf_order s \<Longrightarrow> valid_report s"
  by (auto simp: wf_order_def valid_report_def)

lemma late_fill_valid [simp]: "valid_report (late_fill c i) = valid_report c"
  by (simp add: valid_report_def)

lemma merge_wf:
  assumes "wf_order c" "valid_report i"
  shows "wf_order (merge (Some c) i)"
proof (cases rule: merge_outcomes[of i c])
  case kept
  then show ?thesis using assms(1) by (simp add: wf_order_def)
qed (use assms in \<open>auto intro!: normalize_wf merge_fields_valid simp: wf_order_valid\<close>)

lemma merge_requested:
  "os_requested_qty (merge (Some c) i) \<in> {os_requested_qty c, os_requested_qty i}"
  by (cases rule: merge_outcomes[of i c]) auto

lemma merge_filled_mono:
  assumes "wf_order c" and "0 < os_requested_qty i \<Longrightarrow> os_filled_qty c \<le> os_requested_qty i"
  shows "os_filled_qty c \<le> os_filled_qty (merge (Some c) i)"
  using assms by (cases rule: merge_outcomes[of i c]) (auto simp: wf_order_def normalized_filled_def)

lemma merge_fees_mono: "os_fees c \<le> os_fees (merge (Some c) i)"
  by (cases rule: merge_outcomes[of i c]) auto

section \<open>Statuses along a run\<close>

lemma normalize_status_allowed:
  assumes "os_status s \<in> set (ALLOWED_TRANSITIONS st)"
  shows "os_status (normalize_order s) \<in> insert FILLED (set (ALLOWED_TRANSITIONS st))"
  using assms by (cases st) (auto simp: normalized_status_remaining_def Let_def)

lemma merge_status: "os_status (merge (Some c) i) \<in> insert FILLED (set (ALLOWED_TRANSITIONS (os_status c)))"
proof (cases rule: merge_outcomes[of i c])
  case accepted
  then show ?thesis using normalize_status_allowed[of "merge_fields c i" "os_status c"] by simp
next
  case late_fill
  then show ?thesis using normalize_status_allowed[of "merge_fields c (Order_State_Machine.late_fill c i)" "os_status c"] by simp
qed simp

inductive order_step :: "order_state \<Rightarrow> order_state \<Rightarrow> bool" where
  report: "valid_report i \<Longrightarrow> order_step c (merge (Some c) i)"

inductive order_reachable :: "order_state \<Rightarrow> bool" where
  first: "valid_report i \<Longrightarrow> order_reachable (merge None i)"
| step: "order_reachable c \<Longrightarrow> order_step c c' \<Longrightarrow> order_reachable c'"

inductive_cases order_stepE: "order_step c c'"

lemma order_reachable_wf: "order_reachable s \<Longrightarrow> wf_order s"
  by (induction rule: order_reachable.induct) (auto intro: normalize_wf merge_wf elim!: order_stepE)

lemma order_step_status: "order_step c c' \<Longrightarrow> os_status c' \<in> insert FILLED (set (ALLOWED_TRANSITIONS (os_status c)))"
  by (erule order_stepE) (simp only: merge_status)

lemma order_step_priority: "order_step c c' \<Longrightarrow> STATE_PRIORITY (os_status c) \<le> STATE_PRIORITY (os_status c')"
  using order_step_status[of c c'] allowed_priority priority_le_5[of "os_status c"] by auto

lemma order_steps_priority:
  "order_step\<^sup>*\<^sup>* c c' \<Longrightarrow> STATE_PRIORITY (os_status c) \<le> STATE_PRIORITY (os_status c')"
  by (induction rule: rtranclp_induct) (auto dest: order_step_priority)

lemma order_steps_terminal:
  assumes "order_step\<^sup>*\<^sup>* c c'" "is_terminal (os_status c)"
  shows "os_status c' = os_status c \<or> os_status c' = FILLED"
  using assms(1)
proof (induction rule: rtranclp_induct)
  case (step d e)
  then have "is_terminal (os_status d)" using assms(2) by (auto simp: terminal_iff_priority)
  then show ?case using order_step_status[OF step(2)] step(3) by (auto simp: allowed_terminal)
qed simp

section \<open>Redelivery\<close>

text \<open>The five fields the rest of the system decides on.\<close>

definition core_fields :: "order_state \<Rightarrow> order_status \<times> decimal \<times> decimal \<times> decimal \<times> decimal" where
  "core_fields s = (os_status s, os_requested_qty s, os_filled_qty s, os_remaining_qty s, os_fees s)"

lemma core_fields_normalize:
  "core_fields (normalize_order s) = (fst (normalized_status_remaining s), os_requested_qty s,
     normalized_filled s, snd (normalized_status_remaining s), os_fees s)"
  by (simp add: core_fields_def)

lemma merge_fields_remaining:
  "os_remaining_qty (merge_fields c i) =
     (let r = max (dsub (os_requested_qty (merge_fields c i)) (os_filled_qty (merge_fields c i))) 0;
          r1 = (if 0 \<le> os_remaining_qty c then min r (os_remaining_qty c) else r)
      in if 0 \<le> os_remaining_qty i then min r1 (os_remaining_qty i) else r1)"
  by (simp add: merge_fields_def Let_def)

lemma normalized_status_allowed_back:
  assumes "os_status s \<in> set (ALLOWED_TRANSITIONS (fst (normalized_status_remaining s)))"
  shows "fst (normalized_status_remaining s) = os_status s"
  using assms by (auto simp: normalized_status_remaining_def Let_def split: if_splits)

lemma merge_twice_kept:
  assumes "os_status i \<notin> set (ALLOWED_TRANSITIONS (os_status m))"
    and "os_filled_qty i \<le> os_filled_qty m" "os_fees i \<le> os_fees m"
  shows "core_fields (merge (Some m) i) = core_fields m"
  using assms by (cases rule: merge_outcomes[of i m]) (auto simp: core_fields_def)

text \<open>Status and remaining quantity as a function of the four values they depend on.\<close>

definition settle :: "order_status \<Rightarrow> decimal \<Rightarrow> decimal \<Rightarrow> decimal \<Rightarrow> order_status \<times> decimal" where
  "settle st R F r =
     (if dsub R EPSILON_DECIMAL_12 \<le> F \<and> 0 < R then (FILLED, 0)
      else if st \<in> {SUBMITTED, PARTIALLY_FILLED} \<and> EPSILON_DECIMAL_12 < F
      then (PARTIALLY_FILLED, max (dsub R F) 0) else (st, max (min r R) 0))"

definition merged_remaining :: "decimal \<Rightarrow> decimal \<Rightarrow> decimal \<Rightarrow> decimal \<Rightarrow> decimal" where
  "merged_remaining R F cr ir =
     (let r = max (dsub R F) 0; r1 = (if 0 \<le> cr then min r cr else r)
      in if 0 \<le> ir then min r1 ir else r1)"

lemma settle_eq:
  "normalized_status_remaining s =
     settle (os_status s) (os_requested_qty s) (normalized_filled s) (os_remaining_qty s)"
  by (simp add: normalized_status_remaining_def settle_def Let_def)

lemma merged_remaining_eq:
  "os_remaining_qty (merge_fields c i) = merged_remaining (os_requested_qty (merge_fields c i))
     (os_filled_qty (merge_fields c i)) (os_remaining_qty c) (os_remaining_qty i)"
  unfolding merge_fields_remaining merged_remaining_def by (simp add: Let_def)

lemma settle_again:
  assumes "0 \<le> R" "0 \<le> cr" "fst (settle st R F (merged_remaining R F cr ir)) = st"
  shows "settle st R F (merged_remaining R F (snd (settle st R F (merged_remaining R F cr ir))) ir) =
    settle st R F (merged_remaining R F cr ir)"
  using assms by (auto simp: settle_def merged_remaining_def Let_def min_def max_def)

text \<open>Merging an already merged report in again, when the first merge kept its status.\<close>

lemma merge_twice_accepted:
  assumes wf: "wf_order c" and req: "os_requested_qty i = os_requested_qty c"
    and fill: "os_filled_qty i \<le> os_requested_qty i"
    and m: "m = normalize_order (merge_fields c i)" and st: "os_status m = os_status i"
  shows "core_fields (normalize_order (merge_fields m i)) = core_fields m"
proof -
  define R F where "R = os_requested_qty c" and "F = max (os_filled_qty c) (os_filled_qty i)"
  have R: "os_requested_qty (merge_fields c i) = R" "os_requested_qty (merge_fields m i) = R"
    using req by (auto simp: m R_def)
  have nf: "normalized_filled (merge_fields c i) = F" "os_filled_qty (merge_fields c i) = F"
    using wf fill req by (auto simp: normalized_filled_def wf_order_def F_def)
  have nf2: "normalized_filled (merge_fields m i) = F" "os_filled_qty (merge_fields m i) = F"
    using wf fill req nf(1) by (auto simp: normalized_filled_def wf_order_def m F_def)
  have c: "normalized_status_remaining (merge_fields c i) =
      settle (os_status i) R F (merged_remaining R F (os_remaining_qty c) (os_remaining_qty i))"
    unfolding settle_eq merged_remaining_eq nf R by simp
  have "normalized_status_remaining (merge_fields m i) =
      settle (os_status i) R F (merged_remaining R F (os_remaining_qty m) (os_remaining_qty i))"
    unfolding settle_eq merged_remaining_eq nf2 R by simp
  also have "\<dots> = normalized_status_remaining (merge_fields c i)"
    using settle_again[of R "os_remaining_qty c" "os_status i" F "os_remaining_qty i"] wf st
    by (simp add: m c wf_order_def R_def)
  finally have sr: "normalized_status_remaining (merge_fields m i) = normalized_status_remaining (merge_fields c i)" .
  have "core_fields (normalize_order (merge_fields m i)) = core_fields (normalize_order (merge_fields c i))"
    unfolding core_fields_normalize sr nf nf2 R by (simp add: m)
  then show ?thesis by (simp add: m)
qed

text \<open>A refused report whose late fill completed the order may be accepted the second time.\<close>

lemma merge_twice_late:
  assumes wf: "wf_order c" and req: "os_requested_qty i = os_requested_qty c"
    and fill: "os_filled_qty i \<le> os_requested_qty i"
    and m: "m = normalize_order (merge_fields c (late_fill c i))"
    and refused: "os_status i \<notin> set (ALLOWED_TRANSITIONS (os_status c))"
    and accepted: "os_status i \<in> set (ALLOWED_TRANSITIONS (os_status m))"
  shows "core_fields (normalize_order (merge_fields m i)) = core_fields m"
proof -
  define R F where "R = os_requested_qty c" and "F = max (os_filled_qty c) (os_filled_qty i)"
  have nf: "normalized_filled (merge_fields c (late_fill c i)) = F"
    using wf fill req by (auto simp: normalized_filled_def wf_order_def F_def)
  have nf2: "normalized_filled (merge_fields m i) = F"
    using wf fill req nf by (auto simp: normalized_filled_def wf_order_def m F_def)
  have full: "dsub R EPSILON_DECIMAL_12 \<le> F" "0 < R"
    using accepted refused nf unfolding m settle_eq
    by (auto simp: settle_def R_def settle_eq split: if_splits)
  have R: "os_requested_qty (merge_fields c (late_fill c i)) = R" "os_requested_qty (merge_fields m i) = R"
    using req by (auto simp: m R_def)
  have sr: "normalized_status_remaining (merge_fields c (late_fill c i)) = (FILLED, 0)"
    "normalized_status_remaining (merge_fields m i) = (FILLED, 0)"
    unfolding settle_eq nf nf2 R using full by (simp_all add: settle_def)
  have "core_fields (normalize_order (merge_fields m i)) = core_fields (normalize_order (merge_fields c (late_fill c i)))"
    unfolding core_fields_normalize sr nf nf2 R by (simp add: m)
  then show ?thesis by (simp add: m)
qed

lemma merge_twice:
  assumes wf: "wf_order c" and req: "os_requested_qty i = os_requested_qty c"
    and fill: "os_filled_qty i \<le> os_requested_qty i"
  shows "core_fields (merge (Some (merge (Some c) i)) i) = core_fields (merge (Some c) i)"
proof -
  define m where "m = merge (Some c) i"
  have filled: "os_filled_qty i \<le> os_filled_qty m" and fees: "os_fees i \<le> os_fees m"
    using wf req fill by (cases rule: merge_outcomes[of i c]; auto simp: m_def normalized_filled_def wf_order_def)+
  show ?thesis
  proof (cases "os_status i \<in> set (ALLOWED_TRANSITIONS (os_status m))")
    case False
    then show ?thesis using merge_twice_kept[of i m] filled fees by (simp add: m_def)
  next
    case True
    show ?thesis
    proof (cases rule: merge_outcomes[of i c])
      case accepted
      then have m: "m = normalize_order (merge_fields c i)" by (simp add: m_def)
      have st: "os_status m = os_status i"
        using True normalized_status_allowed_back[of "merge_fields c i"] by (simp add: m)
      show ?thesis
        using merge_accepted[OF True] merge_twice_accepted[OF wf req fill m st] by (simp add: m_def)
    next
      case late_fill
      then have m: "m = normalize_order (merge_fields c (Order_State_Machine.late_fill c i))" by (simp add: m_def)
      show ?thesis
        using merge_accepted[OF True] merge_twice_late[OF wf req fill m late_fill(1) True] by (simp add: m_def)
    next
      case kept
      then show ?thesis using True by (simp add: m_def)
    qed
  qed
qed

section \<open>Properties\<close>

text \<open>An order of two units, half of it reported filled.\<close>

definition example_order :: order_state where
  "example_order = new_order_state (Aware 0 0) ''dec'' ''int'' ''BTC-USDT'' ''cid'' SUBMITTED 2 2"

definition example_report :: order_state where
  "example_report = example_order\<lparr>os_filled_qty := 1, os_remaining_qty := 1, os_fees := 1 / 100\<rparr>"

lemma example_order_simps [simp]:
  "os_status example_order = SUBMITTED" "os_requested_qty example_order = 2"
  "os_filled_qty example_order = 0" "os_remaining_qty example_order = 2" "os_fees example_order = 0"
  "os_status example_report = SUBMITTED" "os_requested_qty example_report = 2"
  "os_filled_qty example_report = 1" "os_remaining_qty example_report = 1" "os_fees example_report = 1 / 100"
  by (simp_all add: example_order_def example_report_def new_order_state_def)

lemma example_valid [simp]: "valid_report example_order" "valid_report example_report" "wf_order example_order"
  by (simp_all add: valid_report_def wf_order_def)

text \<open>
  C12. In every order state that a stream of reports can build, the filled and the remaining
  quantity lie between zero and the requested quantity.
\<close>

theorem order_quantities_bounded:
  assumes "order_reachable s"
  shows "0 \<le> os_filled_qty s \<and> os_filled_qty s \<le> os_requested_qty s \<and>
    0 \<le> os_remaining_qty s \<and> os_remaining_qty s \<le> os_requested_qty s"
  using order_reachable_wf[OF assms] by (simp add: wf_order_def)

theorem order_quantities_bounded_witness:
  "order_reachable (merge (Some (merge None example_order)) example_report) \<and>
   os_filled_qty (merge (Some (merge None example_order)) example_report)
     \<le> os_requested_qty (merge (Some (merge None example_order)) example_report)"
proof -
  have "order_reachable (merge (Some (merge None example_order)) example_report)"
    by (rule order_reachable.step[OF order_reachable.first order_step.report]) simp_all
  then show ?thesis using order_quantities_bounded by blast
qed

text \<open>
  C13. The lifecycle never runs backwards: along any sequence of reports the priority of the
  status does not decrease, and an order in a terminal status keeps it, except that a late
  fill that completes the order turns it into FILLED.
\<close>

theorem order_lifecycle_monotone:
  assumes "order_step\<^sup>*\<^sup>* c c'"
  shows "STATE_PRIORITY (os_status c) \<le> STATE_PRIORITY (os_status c') \<and>
    (is_terminal (os_status c) \<longrightarrow> os_status c' = os_status c \<or> os_status c' = FILLED)"
  using order_steps_priority[OF assms] order_steps_terminal[OF assms] by blast

theorem order_lifecycle_monotone_witness:
  "STATE_PRIORITY (os_status example_order)
     \<le> STATE_PRIORITY (os_status (merge (Some example_order) example_report))"
proof -
  have "order_step\<^sup>*\<^sup>* example_order (merge (Some example_order) example_report)"
    by (rule r_into_rtranclp, rule order_step.report) simp
  from order_lifecycle_monotone[OF this] show ?thesis by simp
qed

text \<open>
  Redelivery is harmless: merging the same report a second time changes neither the
  status nor any quantity nor the fees of the order.
\<close>

theorem merge_redelivery_idempotent:
  assumes "wf_order c" and "os_requested_qty i = os_requested_qty c"
    and "os_filled_qty i \<le> os_requested_qty i"
  shows "core_fields (merge (Some (merge (Some c) i)) i) = core_fields (merge (Some c) i)"
  using assms by (rule merge_twice)

theorem merge_redelivery_idempotent_witness:
  "core_fields (merge (Some (merge (Some example_order) example_report)) example_report) =
     core_fields (merge (Some example_order) example_report)"
  by (rule merge_redelivery_idempotent) simp_all

text \<open>
  A report never takes back fills or fees: whatever its status, the merged state has at
  least the filled quantity and the fees of the stored one, as long as the report does not
  claim a requested quantity below what is already filled.
\<close>

theorem merge_keeps_fills:
  assumes "wf_order c" and "0 < os_requested_qty i \<Longrightarrow> os_filled_qty c \<le> os_requested_qty i"
  shows "os_filled_qty c \<le> os_filled_qty (merge (Some c) i) \<and> os_fees c \<le> os_fees (merge (Some c) i)"
  using merge_filled_mono[OF assms] merge_fees_mono by blast

theorem merge_keeps_fills_witness:
  "os_filled_qty example_order \<le> os_filled_qty (merge (Some example_order) example_report)"
  using merge_keeps_fills[of example_order example_report] by simp

end
