(* ===== verification/Accounting.thy ===== *)
theory Accounting
  imports Execution_Schema "HOL-Library.Product_Lexorder" "HOL-Library.Multiset"
begin

text \<open>
  The arithmetic and naming rules shared by reservation, portfolio and ledger:
  \<^verbatim>\<open>aats/services/accounting.py\<close> (currencies of a symbol, worst-case prices, margin and
  quote requirements, fee valuation), \<^verbatim>\<open>aats/services/fill_ordering.py\<close> (the order in which
  fills are replayed) and \<^verbatim>\<open>aats/services/portfolio_service/position_keys.py\<close> (which
  position a fill belongs to). Fill timestamps are compared by instant; a list that mixes
  naive and aware timestamps, on which Python raises, is outside the model.
\<close>

section \<open>Currencies of a symbol\<close>

text \<open>An instrument is looked up for its base and quote currency attributes.\<close>

definition resolve_symbol_currencies ::
  "(string \<Rightarrow> (string option \<times> string option) option) option \<Rightarrow> string \<Rightarrow> string option \<times> string option"
where
  "resolve_symbol_currencies instrument_lookup symbol =
     (let instrument = (case instrument_lookup of None \<Rightarrow> None | Some f \<Rightarrow> f symbol);
          text = (\<lambda>v. py_strip (case v of None \<Rightarrow> [] | Some s \<Rightarrow> s));
          from_symbol =
            (if CHR ''-'' \<notin> set symbol then (if symbol = [] then None else Some symbol, None)
             else (case filter (\<lambda>part. part \<noteq> []) (py_split CHR ''-'' symbol) of
                     b # q # _ \<Rightarrow> (Some b, Some q)
                   | _ \<Rightarrow> (None, None)))
      in case instrument of
           None \<Rightarrow> from_symbol
         | Some (b, q) \<Rightarrow>
             if text b \<noteq> [] \<and> text q \<noteq> [] then (Some (text b), Some (text q)) else from_symbol)"

abbreviation symbol_currencies :: "string \<Rightarrow> string option \<times> string option" where
  "symbol_currencies symbol \<equiv> resolve_symbol_currencies None symbol"

section \<open>Requirements of an order\<close>

definition worst_case_reference_price :: "decimal option \<Rightarrow> order_side \<Rightarrow> int option \<Rightarrow> decimal option" where
  "worst_case_reference_price reference_price side max_slippage_tolerance_bps =
     (let decimal_price = to_decimal reference_price
      in if decimal_price \<le> 0 then None
         else case max_slippage_tolerance_bps of
           None \<Rightarrow> Some decimal_price
         | Some bps \<Rightarrow>
             if bps \<le> 0 then Some decimal_price
             else let slippage_fraction = ddiv (of_int bps) 10000
                  in if side = Buy then Some (dmul decimal_price (dadd 1 slippage_fraction))
                     else Some (max (dmul decimal_price (dsub 1 slippage_fraction)) 0))"

definition spot_buy_quote_requirement ::
  "decimal \<Rightarrow> decimal option \<Rightarrow> int option \<Rightarrow> decimal \<Rightarrow> decimal option" where
  "spot_buy_quote_requirement quantity reference_price max_slippage_tolerance_bps taker_fee_bps =
     (case worst_case_reference_price reference_price Buy max_slippage_tolerance_bps of
        None \<Rightarrow> None
      | Some worst_case_price \<Rightarrow>
          if worst_case_price \<le> 0 then None
          else let fee_multiplier = dadd 1 (ddiv taker_fee_bps 10000)
               in Some (dmul (dmul quantity worst_case_price) fee_multiplier))"

definition derivatives_initial_margin_requirement ::
  "decimal \<Rightarrow> decimal option \<Rightarrow> decimal \<Rightarrow> int option \<Rightarrow> decimal option" where
  "derivatives_initial_margin_requirement quantity reference_price target_leverage max_slippage_tolerance_bps =
     (case worst_case_reference_price reference_price (if 0 \<le> quantity then Buy else Sell)
             max_slippage_tolerance_bps of
        None \<Rightarrow> None
      | Some worst_case_price \<Rightarrow>
          if worst_case_price \<le> 0 then None
          else let leverage = max target_leverage 1
               in Some (ddiv (dmul (dabs quantity) worst_case_price) leverage))"

definition remaining_obligation_amount :: "order_obligation \<Rightarrow> decimal" where
  "remaining_obligation_amount obligation =
     max (dsub (dsub (ob_reserved_amount obligation) (ob_consumed_amount obligation))
               (ob_released_amount obligation)) 0"

section \<open>Fees\<close>

definition resolved_fee_currency :: "fill_event \<Rightarrow> string option \<Rightarrow> string option \<Rightarrow> string option" where
  "resolved_fee_currency fill base_currency quote_currency =
     (if str_truthy (fl_fee_currency fill) then fl_fee_currency fill
      else if fl_venue fill = ''OKX'' then (if fl_side fill = Buy then base_currency else quote_currency)
      else quote_currency)"

text \<open>The currencies given, or those of the symbol when neither is.\<close>

definition resolve_pair :: "fill_event \<Rightarrow> string option \<Rightarrow> string option \<Rightarrow> string option \<times> string option" where
  "resolve_pair fill base_currency quote_currency =
     (if base_currency = None \<and> quote_currency = None then symbol_currencies (fl_symbol fill)
      else (base_currency, quote_currency))"

definition text_or :: "string option \<Rightarrow> string \<Rightarrow> string" where
  "text_or v d = (case v of None \<Rightarrow> d | Some s \<Rightarrow> if s = [] then d else s)"

text \<open>\<open>Inl\<close> carries the message of the \<^verbatim>\<open>UnsupportedFeeCurrencyError\<close>.\<close>

definition fill_fee_delta_in_quote :: "fill_event \<Rightarrow> string option \<Rightarrow> string option \<Rightarrow> string + decimal" where
  "fill_fee_delta_in_quote fill base_currency quote_currency =
     (let (resolved_base, resolved_quote) = resolve_pair fill base_currency quote_currency;
          fee_amount = fl_fee_amount fill
      in if fee_amount = 0 then Inr 0
         else let fee_currency = resolved_fee_currency fill resolved_base resolved_quote
              in if fee_currency = resolved_quote \<and> fee_currency \<noteq> None then Inr fee_amount
                 else if fee_currency = resolved_base then Inr (dmul fee_amount (fl_fill_price fill))
                 else Inl (''unsupported_fill_fee_currency:'' @ text_or fee_currency ''UNRESOLVED'' @ '':''
                           @ fl_symbol fill @ '':'' @ text_or resolved_base ''UNKNOWN'' @ '':''
                           @ text_or resolved_quote ''UNKNOWN''))"

definition fill_fee_cost_in_quote :: "fill_event \<Rightarrow> string option \<Rightarrow> string option \<Rightarrow> string + decimal" where
  "fill_fee_cost_in_quote fill base_currency quote_currency =
     ebind (fill_fee_delta_in_quote fill base_currency quote_currency) (\<lambda>d. Inr (dabs d))"

definition try_fill_fee_delta_in_quote ::
  "fill_event \<Rightarrow> string option \<Rightarrow> string option \<Rightarrow> decimal option \<times> string option" where
  "try_fill_fee_delta_in_quote fill base_currency quote_currency =
     (case fill_fee_delta_in_quote fill base_currency quote_currency of
        Inr d \<Rightarrow> (Some d, None)
      | Inl exc \<Rightarrow> (None, Some exc))"

definition try_fill_fee_cost_in_quote ::
  "fill_event \<Rightarrow> string option \<Rightarrow> string option \<Rightarrow> decimal option \<times> string option" where
  "try_fill_fee_cost_in_quote fill base_currency quote_currency =
     (case try_fill_fee_delta_in_quote fill base_currency quote_currency of
        (_, Some error) \<Rightarrow> (None, Some error)
      | (None, None) \<Rightarrow> (None, None)
      | (Some d, None) \<Rightarrow> (Some (dabs d), None))"

text \<open>The diagnostic dict; its two decimals are kept as values where the code prints them.\<close>

definition opt_str :: "string option \<Rightarrow> pyval" where
  "opt_str v = (case v of None \<Rightarrow> PyNone | Some s \<Rightarrow> PyStr s)"

definition unsupported_fee_currency_details ::
  "fill_event \<Rightarrow> string option \<Rightarrow> string option \<Rightarrow> string option \<Rightarrow> (string \<times> pyval) list" where
  "unsupported_fee_currency_details fill base_currency quote_currency error =
     (let (resolved_base, resolved_quote) = resolve_pair fill base_currency quote_currency;
          fee_currency = resolved_fee_currency fill resolved_base resolved_quote
      in [(''fill_id'', PyStr (fl_fill_id fill)),
          (''symbol'', PyStr (fl_symbol fill)),
          (''fee_currency'', opt_str fee_currency),
          (''base_currency'', opt_str resolved_base),
          (''quote_currency'', opt_str resolved_quote),
          (''venue'', PyStr (fl_venue fill)),
          (''side'', PyStr (case fl_side fill of Buy \<Rightarrow> ''buy'' | Sell \<Rightarrow> ''sell'')),
          (''fill_price'', PyDec (fl_fill_price fill)),
          (''fee_amount'', PyDec (fl_fee_amount fill)),
          (''error'', opt_str error)])"

section \<open>The order of fills\<close>

definition fill_processing_sort_key :: "fill_event \<Rightarrow> int \<times> int \<times> string" where
  "fill_processing_sort_key fill =
     (dt_instant (fl_exchange_timestamp fill), dt_instant (fl_ingestion_timestamp fill), fl_fill_id fill)"

definition sorted_fills :: "fill_event list \<Rightarrow> fill_event list" where
  "sorted_fills fills = sort_key fill_processing_sort_key fills"

section \<open>Position keys\<close>

definition normalize_position_mode :: "string option \<Rightarrow> string option" where
  "normalize_position_mode value =
     (case value of
        None \<Rightarrow> None
      | Some v \<Rightarrow> let normalized = norm_str v
                  in if normalized \<in> {''long_short_mode'', ''net_mode''} then Some normalized else None)"

definition normalize_position_side :: "string option \<Rightarrow> string option \<Rightarrow> string option" where
  "normalize_position_side value position_mode =
     (case value of
        None \<Rightarrow> None
      | Some v \<Rightarrow>
          let normalized = norm_str v
          in if normalized \<notin> {''net'', ''long'', ''short''} then None
             else if normalize_position_mode position_mode = Some ''long_short_mode''
             then (if normalized \<in> {''long'', ''short''} then Some normalized else None)
             else Some normalized)"

definition build_position_key ::
  "string \<Rightarrow> string \<Rightarrow> string option \<Rightarrow> string option \<Rightarrow> string option \<Rightarrow> string" where
  "build_position_key symbol product_type margin_mode position_mode pos_side =
     (let normalized_margin_mode = map_option norm_str margin_mode
      in if product_type \<noteq> ''derivatives'' then
           (case normalized_margin_mode of
              Some m \<Rightarrow> if m \<in> {''cross'', ''isolated''} then symbol @ '':spot:'' @ m else symbol
            | None \<Rightarrow> symbol)
         else
           let normalized_mode = normalize_position_mode position_mode
           in (case normalize_position_side pos_side normalized_mode of
                 Some side \<Rightarrow>
                   if normalized_mode = Some ''long_short_mode'' \<and> side \<in> {''long'', ''short''}
                   then symbol @ '':'' @ side else symbol
               | None \<Rightarrow> symbol))"

definition position_key_for_fill :: "fill_event \<Rightarrow> string" where
  "position_key_for_fill fill =
     build_position_key (fl_symbol fill) (product_type_str (fl_product_type fill))
       (Some (margin_mode_str (fl_margin_mode fill)))
       (map_option position_mode_str (fl_position_mode fill))
       (map_option position_side_str (fl_pos_side fill))"

definition signed_quantity_for_position_side ::
  "decimal option \<Rightarrow> string option \<Rightarrow> string option \<Rightarrow> decimal" where
  "signed_quantity_for_position_side quantity pos_side position_mode =
     (let resolved = to_decimal quantity
      in if normalize_position_side pos_side position_mode = Some ''short'' \<and> EPSILON_DECIMAL_12 < resolved
         then dneg resolved else resolved)"

definition exposure_side_from_quantity :: "decimal \<Rightarrow> exposure_side" where
  "exposure_side_from_quantity quantity =
     (if EPSILON_DECIMAL_12 < quantity then ExpLong
      else if quantity < dneg EPSILON_DECIMAL_12 then ExpShort
      else ExpFlat)"

definition symbol_from_position_key :: "string \<Rightarrow> string" where
  "symbol_from_position_key position_key = takeWhile (\<lambda>c. c \<noteq> CHR '':'') position_key"

section \<open>Facts for the clients\<close>

lemma norm_position_mode_str [simp]: "norm_str (position_mode_str m) = position_mode_str m"
  by (cases m) (simp_all add: norm_str_def py_simps)

lemma norm_position_side_str [simp]: "norm_str (position_side_str sd) = position_side_str sd"
  by (cases sd) (simp_all add: norm_str_def py_simps)

lemma norm_margin_mode_str [simp]: "norm_str (margin_mode_str mm) = margin_mode_str mm"
  by (cases mm) (simp_all add: norm_str_def py_simps)

lemmas norm_literals [simp] =
  norm_position_mode_str[of NetMode, simplified] norm_position_mode_str[of LongShortMode, simplified]
  norm_position_side_str[of PosNet, simplified] norm_position_side_str[of PosLong, simplified]
  norm_position_side_str[of PosShort, simplified] norm_margin_mode_str[of Cash, simplified]
  norm_margin_mode_str[of Cross, simplified] norm_margin_mode_str[of Isolated, simplified]

lemma remaining_nonneg [simp]: "0 \<le> remaining_obligation_amount ob"
  by (simp add: remaining_obligation_amount_def)

lemma remaining_exact [simp]: "exact28 (remaining_obligation_amount ob)"
  by (simp add: remaining_obligation_amount_def)

text \<open>A worst-case price is on the bad side of the reference price.\<close>

lemma worst_case_buy:
  assumes "exact28 price" "worst_case_reference_price (Some price) Buy bps = Some w"
  shows "price \<le> w" "0 < w"
proof -
  have "price \<le> dmul price (dadd 1 (ddiv (of_int b) 10000))" if "0 < b" "0 < price" for b
  proof -
    have "1 \<le> dadd 1 (ddiv (of_int b) 10000)"
      using that by (intro dadd_ge) (auto intro: dec_signs)
    then have "price * 1 \<le> price * dadd 1 (ddiv (of_int b) 10000)"
      using that by (intro mult_left_mono) auto
    then show ?thesis
      using assms(1) unfolding dmul_def exact28_def by (intro ctx28.rnd_lower) auto
  qed
  then have "0 < price \<and> price \<le> w"
    using assms(2)
    by (auto simp: worst_case_reference_price_def to_decimal_def Let_def split: option.splits if_splits)
  then show "price \<le> w" "0 < w" by auto
qed

lemma worst_case_sell:
  assumes "exact28 price" "worst_case_reference_price (Some price) Sell bps = Some w"
  shows "w \<le> price" "0 \<le> w"
proof -
  have "dmul price (dsub 1 (ddiv (of_int b) 10000)) \<le> price" if "0 < b" "0 < price" for b
  proof -
    have "dsub 1 (ddiv (of_int b) 10000) \<le> 1"
      using that by (intro dsub_le) (auto intro: dec_signs)
    then have "price * dsub 1 (ddiv (of_int b) 10000) \<le> price * 1"
      using that by (intro mult_left_mono) auto
    then show ?thesis
      using assms(1) unfolding dmul_def exact28_def by (intro ctx28.rnd_upper) auto
  qed
  then show "w \<le> price" "0 \<le> w"
    using assms(2)
    by (auto simp: worst_case_reference_price_def to_decimal_def Let_def split: option.splits if_splits)
qed

lemma symbol_currencies_pair:
  assumes "CHR ''-'' \<notin> set b" "CHR ''-'' \<notin> set q" "b \<noteq> []" "q \<noteq> []"
  shows "symbol_currencies (b @ CHR ''-'' # q) = (Some b, Some q)"
proof -
  have one: "py_split d q = [q]" if "d \<notin> set q" for d q
    using that by (induction q) auto
  have "py_split d (b @ d # r) = b # py_split d r" if "d \<notin> set b" for d b r
    using that by (induction b) auto
  then show ?thesis
    using assms one by (simp add: resolve_symbol_currencies_def)
qed

lemma fee_delta_cases:
  assumes "fill_fee_delta_in_quote f b q = Inr d"
  shows "d = 0 \<or> d = fl_fee_amount f \<or> d = dmul (fl_fee_amount f) (fl_fill_price f)"
  using assms by (auto simp: fill_fee_delta_in_quote_def Let_def split: prod.splits if_splits)

text \<open>Fill ordering does not depend on the order of arrival when the keys are distinct.\<close>

lemma sorted_fills_perm:
  assumes "mset xs = mset ys" "inj_on fill_processing_sort_key (set xs)"
  shows "sorted_fills xs = sorted_fills ys"
proof -
  have "mset xs = mset (sort_key fill_processing_sort_key ys)" using assms(1) by simp
  then show ?thesis
    unfolding sorted_fills_def using assms(2) by (rule sort_key_inj_key_eq) simp
qed

lemma build_position_key_symbol:
  "\<exists>suffix. build_position_key s pt mm pm ps = s @ suffix \<and> (suffix = [] \<or> hd suffix = CHR '':'')"
  by (auto simp: build_position_key_def Let_def split: option.splits if_splits)

section \<open>Properties\<close>

text \<open>
  Replaying fills is independent of their order of arrival: two batches with the same
  fills, whose ids are distinct, are processed in the same order.
\<close>

theorem replay_order_deterministic:
  assumes "mset xs = mset ys" and "distinct (map fl_fill_id xs)"
  shows "sorted_fills xs = sorted_fills ys"
proof (rule sorted_fills_perm[OF assms(1)])
  show "inj_on fill_processing_sort_key (set xs)"
    using assms(2) by (auto simp: distinct_map inj_on_def fill_processing_sort_key_def)
qed

definition example_fill :: "string \<Rightarrow> order_side \<Rightarrow> decimal \<Rightarrow> decimal \<Rightarrow> fill_event" where
  "example_fill fid side qty price = new_fill_event (Aware 0 0) fid ''dec'' ''int'' ''cid'' ''xid''
     ''BTC-USDT'' side qty price 0 Taker (Aware 0 5) (Aware 0 6)"

theorem replay_order_deterministic_witness:
  "sorted_fills [example_fill ''b'' Buy 1 10, example_fill ''a'' Sell 1 12] =
   sorted_fills [example_fill ''a'' Sell 1 12, example_fill ''b'' Buy 1 10]"
  by (rule replay_order_deterministic) (simp_all add: example_fill_def new_fill_event_def)

text \<open>
  A position key determines its symbol, and in hedge mode the long and the short leg of
  a derivative never share a key.
\<close>

theorem position_key_roundtrip:
  assumes "CHR '':'' \<notin> set symbol"
  shows "symbol_from_position_key (build_position_key symbol pt mm pm ps) = symbol \<and>
    build_position_key symbol ''derivatives'' mm (Some ''long_short_mode'') (Some ''long'') \<noteq>
    build_position_key symbol ''derivatives'' mm (Some ''long_short_mode'') (Some ''short'')"
proof -
  obtain suffix where k: "build_position_key symbol pt mm pm ps = symbol @ suffix"
    and suffix: "suffix = [] \<or> hd suffix = CHR '':''"
    using build_position_key_symbol by blast
  from assms have "\<forall>c \<in> set symbol. c \<noteq> CHR '':''" by auto
  then have "symbol_from_position_key (build_position_key symbol pt mm pm ps) = symbol"
    using suffix by (cases suffix) (auto simp: k symbol_from_position_key_def takeWhile_append2)
  then show ?thesis
    by (simp add: build_position_key_def normalize_position_mode_def normalize_position_side_def Let_def)
qed

theorem position_key_roundtrip_witness:
  "symbol_from_position_key (build_position_key ''BTC-USDT-SWAP'' ''derivatives'' None
     (Some ''long_short_mode'') (Some ''short'')) = ''BTC-USDT-SWAP''"
  using position_key_roundtrip[of "''BTC-USDT-SWAP''"] by simp

text \<open>
  The price an order is sized with errs against the trader: at or above the reference
  price for a buy, between zero and the reference price for a sell, whatever the slippage
  tolerance.
\<close>

theorem worst_case_price_conservative:
  assumes "exact28 price" and "worst_case_reference_price (Some price) side bps = Some w"
  shows "if side = Buy then price \<le> w else 0 \<le> w \<and> w \<le> price"
  using assms worst_case_buy worst_case_sell by (cases side) auto

theorem worst_case_price_conservative_witness: "(100 :: decimal) \<le> dmul 100 (dadd 1 (ddiv 50 10000))"
  using worst_case_price_conservative[of 100 Buy "Some 50"]
  by (simp add: worst_case_reference_price_def to_decimal_def Let_def)

end
