(* ===== verification/Obligations.thy ===== *)
theory Obligations
  imports Order_State_Machine Accounting
begin

text \<open>
  Cash reservations for orders: \<^verbatim>\<open>ExecutionObligationService\<close> of
  \<^verbatim>\<open>aats/services/execution_engine/obligations.py\<close>, the direct-write guard of
  \<^verbatim>\<open>obligation_writer.py\<close> and the two repositories behind it
  (\<^verbatim>\<open>aats/storage/obligation_repo.py\<close>, \<^verbatim>\<open>obligation_repo_postgres.py\<close>). The
  repository contract is the locale \<open>obligation_store\<close>, interpreted on both. The service is
  written over a record of the methods it calls on its repository. The account
  snapshot loader, the price provider and the taker fee are arguments; \<open>now\<close> is
  \<^verbatim>\<open>utc_now()\<close>. The service lock makes each operation one atomic step; publication to the
  cross-process cache is best effort in the code and has no effect on the repository.
\<close>

section \<open>The repositories\<close>

type_synonym memory_repo = "(string \<times> order_obligation) list"

definition is_active_obligation :: "order_obligation \<Rightarrow> bool" where
  "is_active_obligation ob \<longleftrightarrow> ob_status ob \<in> {OBL_ACTIVE, OBL_PARTIALLY_CONSUMED}"

definition memory_save_obligation :: "memory_repo \<Rightarrow> order_obligation \<Rightarrow> memory_repo" where
  "memory_save_obligation repo ob = AList.update (ob_client_order_id ob) ob repo"

definition memory_get_obligation :: "memory_repo \<Rightarrow> string \<Rightarrow> order_obligation option" where
  "memory_get_obligation repo client_order_id = map_of repo client_order_id"

definition memory_active_obligations :: "memory_repo \<Rightarrow> order_obligation list" where
  "memory_active_obligations repo = filter is_active_obligation (map snd repo)"

definition memory_all_obligations :: "memory_repo \<Rightarrow> order_obligation list" where
  "memory_all_obligations repo = map snd repo"

datatype reservation_error =
    SnapshotUnavailable
  | InsufficientAvailableBalance string decimal decimal
  | ObligationWriterRequired

definition memory_reserve_obligation_transactional ::
  "memory_repo \<Rightarrow> order_obligation \<Rightarrow> decimal \<Rightarrow> decimal
   \<Rightarrow> reservation_error + (memory_repo \<times> order_obligation)" where
  "memory_reserve_obligation_transactional repo ob snapshot_available_balance epsilon =
     Inr (memory_save_obligation repo ob, ob)"

text \<open>
  A row of the Postgres table: the columns the queries filter on and the JSON payload the
  obligation is read back from. The primary key is \<^verbatim>\<open>client_order_id\<close>. A query without
  \<^verbatim>\<open>ORDER BY\<close> returns its rows in an order of the database's choosing, the argument
  \<open>scan\<close>.
\<close>

record obligation_row =
  row_client_order_id :: string
  row_obligation_id :: string
  row_decision_id :: string
  row_intent_id :: string
  row_symbol :: string
  row_reserve_currency :: string
  row_status :: obligation_status
  row_reserved_amount :: decimal
  row_consumed_amount :: decimal
  row_released_amount :: decimal
  row_strategy_family :: "string option"
  row_strategy_sleeve_id :: "string option"
  row_allocation_id :: "string option"
  row_strategy_bundle_id :: "string option"
  row_strategy_leg_role :: "leg_role option"
  row_product_type :: product_type
  row_margin_mode :: margin_mode
  row_last_update_ts :: "datetime option"
  row_created_at :: datetime
  row_payload :: order_obligation

type_synonym obligation_table = "(string \<times> obligation_row) list"

definition obligation_row_of :: "order_obligation \<Rightarrow> obligation_row" where
  "obligation_row_of ob =
     \<lparr>row_client_order_id = ob_client_order_id ob,
      row_obligation_id = ob_obligation_id ob,
      row_decision_id = ob_decision_id ob,
      row_intent_id = ob_intent_id ob,
      row_symbol = ob_symbol ob,
      row_reserve_currency = ob_reserve_currency ob,
      row_status = ob_status ob,
      row_reserved_amount = ob_reserved_amount ob,
      row_consumed_amount = ob_consumed_amount ob,
      row_released_amount = ob_released_amount ob,
      row_strategy_family = ob_strategy_family ob,
      row_strategy_sleeve_id = ob_strategy_sleeve_id ob,
      row_allocation_id = ob_allocation_id ob,
      row_strategy_bundle_id = ob_strategy_bundle_id ob,
      row_strategy_leg_role = ob_strategy_leg_role ob,
      row_product_type = ob_product_type ob,
      row_margin_mode = ob_margin_mode ob,
      row_last_update_ts = ob_last_update_ts ob,
      row_created_at = ob_created_at ob,
      row_payload = ob\<rparr>"

definition save_obligation_in_session :: "obligation_table \<Rightarrow> order_obligation \<Rightarrow> obligation_table" where
  "save_obligation_in_session tbl ob =
     (case map_of tbl (ob_client_order_id ob) of
        None \<Rightarrow> tbl @ [(ob_client_order_id ob, obligation_row_of ob)]
      | Some row \<Rightarrow> AList.update (ob_client_order_id ob)
          ((obligation_row_of ob)\<lparr>row_client_order_id := row_client_order_id row\<rparr>) tbl)"

definition postgres_get_obligation :: "obligation_table \<Rightarrow> string \<Rightarrow> order_obligation option" where
  "postgres_get_obligation tbl client_order_id = map_option row_payload (map_of tbl client_order_id)"

definition postgres_active_obligations ::
  "(obligation_row list \<Rightarrow> obligation_row list) \<Rightarrow> obligation_table \<Rightarrow> order_obligation list" where
  "postgres_active_obligations scan tbl =
     map row_payload (scan (filter (\<lambda>row. row_status row \<in> {OBL_ACTIVE, OBL_PARTIALLY_CONSUMED}) (map snd tbl)))"

definition postgres_all_obligations ::
  "(obligation_row list \<Rightarrow> obligation_row list) \<Rightarrow> obligation_table \<Rightarrow> order_obligation list" where
  "postgres_all_obligations scan tbl = map row_payload (scan (map snd tbl))"

definition reserve_obligation_transactional ::
  "(obligation_row list \<Rightarrow> obligation_row list) \<Rightarrow> obligation_table \<Rightarrow> order_obligation \<Rightarrow> decimal \<Rightarrow> decimal
   \<Rightarrow> reservation_error + (obligation_table \<times> order_obligation)"
where
  "reserve_obligation_transactional scan tbl ob snapshot_available_balance epsilon =
     (case map_of tbl (ob_client_order_id ob) of
        Some existing \<Rightarrow> Inr (tbl, row_payload existing)
      | None \<Rightarrow>
          let rows = scan (filter (\<lambda>r. row_status r \<in> {OBL_ACTIVE, OBL_PARTIALLY_CONSUMED}
                \<and> row_reserve_currency r = ob_reserve_currency ob
                \<and> row_client_order_id r \<noteq> ob_client_order_id ob) (map snd tbl));
              reserved_elsewhere = dsum (map (\<lambda>r. remaining_obligation_amount (row_payload r)) rows);
              available_after = dsub snapshot_available_balance reserved_elsewhere
          in if dadd available_after epsilon < ob_reserved_amount ob
             then Inl (InsufficientAvailableBalance (ob_reserve_currency ob) (ob_reserved_amount ob) available_after)
             else Inr (save_obligation_in_session tbl ob, ob))"

section \<open>Repositories as the service sees them\<close>

record 'r obligation_repository =
  repo_get :: "'r \<Rightarrow> string \<Rightarrow> order_obligation option"
  repo_active :: "'r \<Rightarrow> order_obligation list"
  repo_save :: "'r \<Rightarrow> order_obligation \<Rightarrow> 'r"
  repo_reserve :: "'r \<Rightarrow> order_obligation \<Rightarrow> decimal \<Rightarrow> decimal \<Rightarrow> reservation_error + ('r \<times> order_obligation)"
  repo_is_postgres :: bool

definition memory_repository :: "memory_repo obligation_repository" where
  "memory_repository =
     \<lparr>repo_get = memory_get_obligation, repo_active = memory_active_obligations,
      repo_save = memory_save_obligation, repo_reserve = memory_reserve_obligation_transactional,
      repo_is_postgres = False\<rparr>"

definition postgres_repository ::
  "(obligation_row list \<Rightarrow> obligation_row list) \<Rightarrow> obligation_table obligation_repository" where
  "postgres_repository scan =
     \<lparr>repo_get = postgres_get_obligation, repo_active = postgres_active_obligations scan,
      repo_save = save_obligation_in_session, repo_reserve = reserve_obligation_transactional scan,
      repo_is_postgres = True\<rparr>"

text \<open>
  Direct writes are refused on the Postgres repository, whose obligations are written through
  the outbox publisher; on the in-memory one they save.
\<close>

definition ensure_direct_obligation_write_allowed ::
  "'r obligation_repository \<Rightarrow> reservation_error + unit" where
  "ensure_direct_obligation_write_allowed obligation_repo =
     (if repo_is_postgres obligation_repo then Inl ObligationWriterRequired else Inr ())"

definition save_obligation_direct_legacy_only ::
  "'r obligation_repository \<Rightarrow> 'r \<Rightarrow> order_obligation \<Rightarrow> reservation_error + ('r \<times> order_obligation)" where
  "save_obligation_direct_legacy_only obligation_repo repo ob =
     ebind (ensure_direct_obligation_write_allowed obligation_repo)
       (\<lambda>_. Inr (repo_save obligation_repo repo ob, ob))"

definition reserve_obligation_direct_legacy_only ::
  "'r obligation_repository \<Rightarrow> 'r \<Rightarrow> order_obligation \<Rightarrow> decimal \<Rightarrow> decimal
   \<Rightarrow> reservation_error + ('r \<times> order_obligation)" where
  "reserve_obligation_direct_legacy_only obligation_repo repo ob snapshot_available_balance epsilon =
     ebind (ensure_direct_obligation_write_allowed obligation_repo)
       (\<lambda>_. repo_reserve obligation_repo repo ob snapshot_available_balance epsilon)"

section \<open>The service\<close>

definition obl_EPSILON :: decimal where "obl_EPSILON = 1 / 10 ^ 12"

definition remaining_amount :: "order_obligation \<Rightarrow> decimal" where
  "remaining_amount ob = remaining_obligation_amount ob"

definition is_margin_backed_smart_arbitrage_spot_short :: "order_intent \<Rightarrow> bool" where
  "is_margin_backed_smart_arbitrage_spot_short intent =
     (if oi_product_type intent \<noteq> Spot \<or> oi_side intent \<noteq> Sell then False
      else if oi_margin_mode intent \<notin> {Cross, Isolated} then False
      else if oi_strategy_family intent \<noteq> Some ''smart_arbitrage'' then False
      else case oi_strategy_execution_mode intent of
             None \<Rightarrow> True
           | Some m \<Rightarrow> m = ''margin_reverse_carry'')"

definition service_reference_price :: "(string \<Rightarrow> decimal) option \<Rightarrow> string \<Rightarrow> decimal option" where
  "service_reference_price price_provider symbol =
     (case price_provider of
        None \<Rightarrow> None
      | Some f \<Rightarrow> if 0 < f symbol then Some (f symbol) else None)"

definition reservation_spec ::
  "(string \<Rightarrow> decimal) option \<Rightarrow> (string \<Rightarrow> decimal) \<Rightarrow> order_intent
   \<Rightarrow> string option \<times> decimal \<times> decimal option"
where
  "reservation_spec price_provider taker_fee_bps_decimal intent =
     (let (base_currency, quote_currency) = symbol_currencies (oi_symbol intent);
          reference_price = (case oi_limit_price intent of
              Some p \<Rightarrow> Some p | None \<Rightarrow> service_reference_price price_provider (oi_symbol intent));
          quoted = (\<lambda>reserved_amount. case (quote_currency, reserved_amount) of
              (Some q, Some amount) \<Rightarrow>
                if amount \<le> 0 then (None, 0, reference_price) else (Some q, amount, reference_price)
            | _ \<Rightarrow> (None, 0, reference_price))
      in if oi_product_type intent = Spot then
           (if oi_side intent = Buy then
              quoted (spot_buy_quote_requirement (oi_quantity intent) reference_price
                (oi_max_slippage_tolerance_bps intent) (taker_fee_bps_decimal (oi_symbol intent)))
            else if is_margin_backed_smart_arbitrage_spot_short intent then (None, 0, reference_price)
            else case base_currency of
                None \<Rightarrow> (None, 0, reference_price)
              | Some b \<Rightarrow>
                  (Some b, dmul (oi_quantity intent)
                     (dadd 1 (ddiv (taker_fee_bps_decimal (oi_symbol intent)) 10000)), reference_price))
         else quoted (derivatives_initial_margin_requirement (oi_quantity intent) reference_price
                (oi_target_leverage intent) (oi_max_slippage_tolerance_bps intent)))"

text \<open>The balances of an account snapshot, as currency and available amount.\<close>

type_synonym account_balances = "(string \<times> decimal) list"

definition snapshot_available_balance :: "account_balances \<Rightarrow> string \<Rightarrow> decimal" where
  "snapshot_available_balance balances currency =
     (case find (\<lambda>b. fst b = currency) balances of None \<Rightarrow> 0 | Some b \<Rightarrow> snd b)"

text \<open>
  \<open>loader\<close> is \<open>None\<close> when no snapshot loader is wired, otherwise what the loader returned.
  \<open>snapshot_required\<close> is \<^verbatim>\<open>_account_snapshot_required\<close> (OKX account backend with account
  reads enabled).
\<close>

definition build_reservation_for_intent ::
  "'r obligation_repository \<Rightarrow> 'r \<Rightarrow> bool \<Rightarrow> account_balances option option \<Rightarrow> (string \<Rightarrow> decimal) option \<Rightarrow> (string \<Rightarrow> decimal)
   \<Rightarrow> datetime \<Rightarrow> string \<Rightarrow> order_intent \<Rightarrow> string
   \<Rightarrow> reservation_error + (order_obligation option \<times> decimal option)"
where
  "build_reservation_for_intent obligation_repo repo snapshot_required loader price_provider taker_fee_bps_decimal
     now obligation_id intent client_order_id =
     (case repo_get obligation_repo repo client_order_id of
        Some existing \<Rightarrow> Inr (Some existing, None)
      | None \<Rightarrow>
       (case (case loader of None \<Rightarrow> None | Some s \<Rightarrow> s) of
          None \<Rightarrow> if snapshot_required then Inl SnapshotUnavailable else Inr (None, None)
        | Some snapshot \<Rightarrow>
          (case reservation_spec price_provider taker_fee_bps_decimal intent of
             (None, _, _) \<Rightarrow> Inr (None, None)
           | (Some reserve_currency, reserved_amount, reference_price) \<Rightarrow>
              if reserved_amount \<le> obl_EPSILON then Inr (None, None)
              else
               let available_balance = snapshot_available_balance snapshot reserve_currency;
                   reserved_elsewhere = dsum (map remaining_amount
                     (filter (\<lambda>ob. ob_reserve_currency ob = reserve_currency
                         \<and> ob_client_order_id ob \<noteq> client_order_id) (repo_active obligation_repo repo)));
                   available_after_obligations = dsub available_balance reserved_elsewhere
               in if dadd available_after_obligations obl_EPSILON < reserved_amount
                  then Inl (InsufficientAvailableBalance reserve_currency reserved_amount available_after_obligations)
                  else Inr (Some
                    ((new_order_obligation now obligation_id client_order_id (oi_decision_id intent)
                        (oi_intent_id intent) (oi_symbol intent) (oi_side intent) reserve_currency reserved_amount)
                     \<lparr>ob_status := OBL_ACTIVE,
                      ob_product_type := oi_product_type intent,
                      ob_margin_mode := oi_margin_mode intent,
                      ob_strategy_family := oi_strategy_family intent,
                      ob_strategy_sleeve_id := oi_strategy_sleeve_id intent,
                      ob_allocation_id := oi_allocation_id intent,
                      ob_strategy_bundle_id := oi_strategy_bundle_id intent,
                      ob_strategy_leg_role := oi_strategy_leg_role intent,
                      ob_strategy_pair_id := oi_strategy_pair_id intent,
                      ob_strategy_opportunity_kind := oi_strategy_opportunity_kind intent,
                      ob_strategy_execution_mode := oi_strategy_execution_mode intent,
                      ob_strategy_state_phase := oi_strategy_state_phase intent,
                      ob_reference_price := reference_price,
                      ob_last_update_ts := Some now\<rparr>), Some available_balance))))"

definition reserve_for_intent ::
  "'r obligation_repository \<Rightarrow> 'r \<Rightarrow> bool \<Rightarrow> account_balances option option \<Rightarrow> (string \<Rightarrow> decimal) option \<Rightarrow> (string \<Rightarrow> decimal)
   \<Rightarrow> datetime \<Rightarrow> string \<Rightarrow> order_intent \<Rightarrow> string
   \<Rightarrow> reservation_error + ('r \<times> order_obligation option)"
where
  "reserve_for_intent obligation_repo repo snapshot_required loader price_provider taker_fee_bps_decimal
     now obligation_id intent client_order_id =
     ebind (build_reservation_for_intent obligation_repo repo snapshot_required loader price_provider taker_fee_bps_decimal
              now obligation_id intent client_order_id)
     (\<lambda>(obligation, snapshot_available).
        case obligation of
          None \<Rightarrow> Inr (repo, None)
        | Some ob \<Rightarrow>
            (case snapshot_available of
               Some available \<Rightarrow>
                 ebind (reserve_obligation_direct_legacy_only obligation_repo repo ob available obl_EPSILON)
                   (\<lambda>(repo', saved). Inr (repo', Some saved))
             | None \<Rightarrow> Inr (repo, Some ob)))"

definition preview_reservation_for_intent ::
  "'r obligation_repository \<Rightarrow> 'r \<Rightarrow> bool \<Rightarrow> account_balances option option \<Rightarrow> (string \<Rightarrow> decimal) option \<Rightarrow> (string \<Rightarrow> decimal)
   \<Rightarrow> datetime \<Rightarrow> string \<Rightarrow> order_intent \<Rightarrow> string \<Rightarrow> reservation_error + order_obligation option"
where
  "preview_reservation_for_intent obligation_repo repo snapshot_required loader price_provider taker_fee_bps_decimal
     now obligation_id intent client_order_id =
     ebind (build_reservation_for_intent obligation_repo repo snapshot_required loader price_provider taker_fee_bps_decimal
              now obligation_id intent client_order_id) (\<lambda>(obligation, _). Inr obligation)"

section \<open>Consuming and finalizing\<close>

definition fill_consumption_amount ::
  "fill_event \<Rightarrow> order_obligation \<Rightarrow> decimal \<times> (string \<times> pyval) list option" where
  "fill_consumption_amount fill obligation =
     (let (base_currency, quote_currency) = symbol_currencies (fl_symbol fill)
      in if ob_product_type obligation = Spot then
           (if Some (ob_reserve_currency obligation) = quote_currency then
              (case try_fill_fee_delta_in_quote fill base_currency quote_currency of
                 (_, Some fee_error) \<Rightarrow>
                   (0, Some (unsupported_fee_currency_details fill base_currency quote_currency (Some fee_error)))
               | (fee_delta, None) \<Rightarrow>
                   (max (dadd (dmul (fl_fill_qty fill) (fl_fill_price fill)) (to_decimal fee_delta)) 0, None))
            else if Some (ob_reserve_currency obligation) = base_currency then
              (let fee_currency = resolved_fee_currency fill base_currency quote_currency;
                   fee_in_reserve = (if fee_currency = base_currency then fl_fee_amount fill else 0)
               in (max (dadd (fl_fill_qty fill) fee_in_reserve) 0, None))
            else (0, None))
         else let leverage = max (fl_target_leverage fill) 1
              in (ddiv (dmul (dabs (fl_fill_qty fill)) (fl_fill_price fill)) leverage, None))"

definition consumption_status :: "decimal \<Rightarrow> decimal \<Rightarrow> decimal \<Rightarrow> obligation_status" where
  "consumption_status reserved_amount consumed_amount released_amount =
     (let remaining = max (dsub (dsub reserved_amount consumed_amount) released_amount) 0
      in if remaining \<le> obl_EPSILON then OBL_RELEASED
         else if obl_EPSILON < consumed_amount then OBL_PARTIALLY_CONSUMED
         else OBL_ACTIVE)"

definition apply_fill_to_obligation :: "datetime \<Rightarrow> fill_event \<Rightarrow> order_obligation \<Rightarrow> order_obligation" where
  "apply_fill_to_obligation now fill obligation =
     (if fl_fill_id fill \<in> set (ob_consumed_fill_ids obligation) then obligation
      else if fl_fill_id fill \<in> set (ob_blocked_fill_ids obligation) then obligation
      else case fill_consumption_amount fill obligation of
        (_, Some processing_failure) \<Rightarrow>
          obligation\<lparr>ob_blocked_fill_ids := ob_blocked_fill_ids obligation @ [fl_fill_id fill],
                     ob_processing_failure_reason := Some ''unsupported_fee_currency'',
                     ob_processing_failure_details := processing_failure,
                     ob_last_update_ts := Some now\<rparr>
      | (consume_amount, None) \<Rightarrow>
          if consume_amount \<le> obl_EPSILON then obligation
          else let consumed_amount = dadd (ob_consumed_amount obligation) consume_amount
               in obligation
                  \<lparr>ob_consumed_amount := consumed_amount,
                   ob_consumed_fill_ids := ob_consumed_fill_ids obligation @ [fl_fill_id fill],
                   ob_processing_failure_reason := None,
                   ob_processing_failure_details := [],
                   ob_status := consumption_status (ob_reserved_amount obligation) consumed_amount
                                  (ob_released_amount obligation),
                   ob_last_update_ts := Some now\<rparr>)"

definition apply_finalization_to_obligation ::
  "datetime \<Rightarrow> order_state \<Rightarrow> order_obligation option \<Rightarrow> order_obligation option" where
  "apply_finalization_to_obligation now order_state obligation_opt =
     (if os_status order_state \<notin> {FILLED, CANCELED, REJECTED, FAILED, BLOCKED, DRY_RUN, EXPIRED} then None
      else case obligation_opt of
        None \<Rightarrow> None
      | Some obligation \<Rightarrow>
          let remaining = remaining_amount obligation
          in if remaining \<le> obl_EPSILON \<and> ob_status obligation \<in> {OBL_RELEASED, OBL_CANCELED, OBL_FAILED}
             then Some obligation
             else Some (obligation
               \<lparr>ob_released_amount := dadd (ob_released_amount obligation) (max remaining 0),
                ob_status := (if os_status order_state = CANCELED then OBL_CANCELED
                              else if os_status order_state = FILLED then OBL_RELEASED else OBL_FAILED),
                ob_processing_failure_reason := ob_processing_failure_reason obligation,
                ob_processing_failure_details := ob_processing_failure_details obligation,
                ob_last_update_ts := Some now\<rparr>))"

definition preview_obligation_for_fill ::
  "datetime \<Rightarrow> 'r obligation_repository \<Rightarrow> 'r \<Rightarrow> fill_event \<Rightarrow> order_obligation option" where
  "preview_obligation_for_fill now obligation_repo repo fill =
     map_option (apply_fill_to_obligation now fill) (repo_get obligation_repo repo (fl_client_order_id fill))"

definition preview_obligation_for_order_state ::
  "datetime \<Rightarrow> 'r obligation_repository \<Rightarrow> 'r \<Rightarrow> order_state \<Rightarrow> order_obligation option" where
  "preview_obligation_for_order_state now obligation_repo repo order_state =
     apply_finalization_to_obligation now order_state
       (repo_get obligation_repo repo (os_client_order_id order_state))"

text \<open>The loop over the fills: the obligation after each, and the last one.\<close>

fun chain_fills ::
  "datetime \<Rightarrow> order_obligation option \<Rightarrow> fill_event list
   \<Rightarrow> order_obligation option list \<times> order_obligation option"
where
  "chain_fills now ob [] = ([], ob)"
| "chain_fills now None (fill # fills) =
     (let (per_fill, last_ob) = chain_fills now None fills in (None # per_fill, last_ob))"
| "chain_fills now (Some ob) (fill # fills) =
     (let updated = apply_fill_to_obligation now fill ob;
          (per_fill, last_ob) = chain_fills now (Some updated) fills
      in (Some updated # per_fill, last_ob))"

definition preview_chained_fill_obligations_and_finalize ::
  "datetime \<Rightarrow> 'r obligation_repository \<Rightarrow> 'r \<Rightarrow> fill_event list \<Rightarrow> order_state
   \<Rightarrow> order_obligation option list \<times> order_obligation option"
where
  "preview_chained_fill_obligations_and_finalize now obligation_repo repo fills order_state =
     (case fills of
        [] \<Rightarrow> ([], preview_obligation_for_order_state now obligation_repo repo order_state)
      | f # _ \<Rightarrow>
          let (per_fill, obligation) = chain_fills now (repo_get obligation_repo repo (fl_client_order_id f)) fills
          in (per_fill, apply_finalization_to_obligation now order_state obligation))"

text \<open>The writer, when attached, persists instead (its save is the argument).\<close>

definition persist_obligation_sync ::
  "('r \<Rightarrow> order_obligation \<Rightarrow> reservation_error + ('r \<times> order_obligation)) option
   \<Rightarrow> 'r obligation_repository \<Rightarrow> 'r \<Rightarrow> order_obligation \<Rightarrow> reservation_error + ('r \<times> order_obligation)"
where
  "persist_obligation_sync obligation_writer obligation_repo repo ob =
     (case obligation_writer of
        Some w \<Rightarrow> w repo ob
      | None \<Rightarrow> save_obligation_direct_legacy_only obligation_repo repo ob)"

definition persist_previewed_obligation ::
  "('r \<Rightarrow> order_obligation \<Rightarrow> reservation_error + ('r \<times> order_obligation)) option
   \<Rightarrow> 'r obligation_repository \<Rightarrow> 'r \<Rightarrow> order_obligation option
   \<Rightarrow> reservation_error + ('r \<times> order_obligation option)"
where
  "persist_previewed_obligation writer obligation_repo repo obligation =
     (case obligation of
        None \<Rightarrow> Inr (repo, None)
      | Some ob \<Rightarrow> ebind (persist_obligation_sync writer obligation_repo repo ob)
          (\<lambda>(repo', saved). Inr (repo', Some saved)))"

definition consume_for_fill ::
  "('r \<Rightarrow> order_obligation \<Rightarrow> reservation_error + ('r \<times> order_obligation)) option
   \<Rightarrow> 'r obligation_repository \<Rightarrow> datetime \<Rightarrow> 'r \<Rightarrow> fill_event
   \<Rightarrow> reservation_error + ('r \<times> order_obligation option)"
where
  "consume_for_fill writer obligation_repo now repo fill =
     (case preview_obligation_for_fill now obligation_repo repo fill of
        None \<Rightarrow> Inr (repo, None)
      | Some updated \<Rightarrow> ebind (persist_obligation_sync writer obligation_repo repo updated)
          (\<lambda>(repo', saved). Inr (repo', Some saved)))"

definition finalize_for_order_state ::
  "('r \<Rightarrow> order_obligation \<Rightarrow> reservation_error + ('r \<times> order_obligation)) option
   \<Rightarrow> 'r obligation_repository \<Rightarrow> datetime \<Rightarrow> 'r \<Rightarrow> order_state
   \<Rightarrow> reservation_error + ('r \<times> order_obligation option)"
where
  "finalize_for_order_state writer obligation_repo now repo order_state =
     (case preview_obligation_for_order_state now obligation_repo repo order_state of
        None \<Rightarrow> Inr (repo, None)
      | Some updated \<Rightarrow> ebind (persist_obligation_sync writer obligation_repo repo updated)
          (\<lambda>(repo', saved). Inr (repo', Some saved)))"

section \<open>Lemmas on single obligations\<close>

lemma obl_EPSILON_eps [simp]: "obl_EPSILON = EPSILON_DECIMAL_12"
  by (simp add: obl_EPSILON_def EPSILON_DECIMAL_12_def)

lemma fill_consumption_amount_cong:
  assumes "ob_product_type ob = ob_product_type ob'" "ob_reserve_currency ob = ob_reserve_currency ob'"
  shows "fill_consumption_amount fill ob = fill_consumption_amount fill ob'"
  unfolding fill_consumption_amount_def assms ..

text \<open>What the two transformations leave alone.\<close>

lemma apply_fill_keeps [simp]:
  "ob_client_order_id (apply_fill_to_obligation now f ob) = ob_client_order_id ob"
  "ob_reserved_amount (apply_fill_to_obligation now f ob) = ob_reserved_amount ob"
  "ob_released_amount (apply_fill_to_obligation now f ob) = ob_released_amount ob"
  "ob_reserve_currency (apply_fill_to_obligation now f ob) = ob_reserve_currency ob"
  "ob_product_type (apply_fill_to_obligation now f ob) = ob_product_type ob"
  by (simp_all add: apply_fill_to_obligation_def Let_def split: prod.split option.split)

lemma fill_consumption_keeps [simp]:
  "fill_consumption_amount g (apply_fill_to_obligation now f ob) = fill_consumption_amount g ob"
  by (rule fill_consumption_amount_cong) simp_all

lemma finalization_keeps:
  assumes "apply_finalization_to_obligation now os (Some ob) = Some ob'"
  shows "ob_client_order_id ob' = ob_client_order_id ob" "ob_reserved_amount ob' = ob_reserved_amount ob"
    "ob_consumed_amount ob' = ob_consumed_amount ob" "ob_reserve_currency ob' = ob_reserve_currency ob"
    "ob_product_type ob' = ob_product_type ob"
  using assms by (auto simp: apply_finalization_to_obligation_def Let_def split: if_splits)

text \<open>A fill that has nothing left to do: recorded as consumed or blocked, or too small to count.\<close>

definition fill_absorbed :: "fill_event \<Rightarrow> order_obligation \<Rightarrow> bool" where
  "fill_absorbed f ob \<longleftrightarrow>
     fl_fill_id f \<in> set (ob_consumed_fill_ids ob) \<or> fl_fill_id f \<in> set (ob_blocked_fill_ids ob)
     \<or> (snd (fill_consumption_amount f ob) = None \<and> fst (fill_consumption_amount f ob) \<le> obl_EPSILON)"

lemma apply_fill_absorbed:
  assumes "fill_absorbed f ob"
  shows "apply_fill_to_obligation now f ob = ob"
proof -
  from assms consider "fl_fill_id f \<in> set (ob_consumed_fill_ids ob)" | "fl_fill_id f \<in> set (ob_blocked_fill_ids ob)"
    | amount where "fill_consumption_amount f ob = (amount, None)" "amount \<le> EPSILON_DECIMAL_12"
    unfolding fill_absorbed_def by (metis obl_EPSILON_eps prod.collapse)
  then show ?thesis by cases (simp_all add: apply_fill_to_obligation_def)
qed

lemma fill_ids_grow:
  "set (ob_consumed_fill_ids ob) \<subseteq> set (ob_consumed_fill_ids (apply_fill_to_obligation now f ob))"
  "set (ob_blocked_fill_ids ob) \<subseteq> set (ob_blocked_fill_ids (apply_fill_to_obligation now f ob))"
  by (auto simp: apply_fill_to_obligation_def Let_def split: prod.split option.split)

lemma apply_fill_records:
  assumes "\<not> fill_absorbed f ob"
  shows "fl_fill_id f \<in> set (ob_consumed_fill_ids (apply_fill_to_obligation now f ob))
         \<or> fl_fill_id f \<in> set (ob_blocked_fill_ids (apply_fill_to_obligation now f ob))"
proof (cases "fill_consumption_amount f ob")
  case (Pair amount failure)
  with assms show ?thesis
    by (cases failure) (simp_all add: fill_absorbed_def apply_fill_to_obligation_def Let_def)
qed

lemma absorbed_after_apply: "fill_absorbed f (apply_fill_to_obligation now f ob)"
proof (cases "fill_absorbed f ob")
  case False
  from apply_fill_records[OF this, of now] show ?thesis unfolding fill_absorbed_def by blast
qed (simp add: apply_fill_absorbed)

lemma absorbed_stays: "fill_absorbed f ob \<Longrightarrow> fill_absorbed f (apply_fill_to_obligation now g ob)"
  using fill_ids_grow[of ob now g] by (auto simp: fill_absorbed_def)

lemma absorbed_stays_chain:
  "fill_absorbed f ob \<Longrightarrow> fill_absorbed f (foldl (\<lambda>ob g. apply_fill_to_obligation now g ob) ob gs)"
  by (induction gs arbitrary: ob) (auto intro: absorbed_stays)

lemma chain_absorbs:
  "f \<in> set fs \<Longrightarrow> fill_absorbed f (foldl (\<lambda>ob g. apply_fill_to_obligation now g ob) ob fs)"
  by (induction fs arbitrary: ob) (auto intro: absorbed_stays_chain absorbed_after_apply)

lemma chain_of_absorbed:
  "(\<And>g. g \<in> set gs \<Longrightarrow> fill_absorbed g ob) \<Longrightarrow> foldl (\<lambda>ob g. apply_fill_to_obligation now g ob) ob gs = ob"
  by (induction gs) (auto simp: apply_fill_absorbed)

lemma chain_fills_last:
  "snd (chain_fills now (Some ob) fills) = Some (foldl (\<lambda>ob g. apply_fill_to_obligation now g ob) ob fills)"
  by (induction fills arbitrary: ob) (simp_all add: Let_def case_prod_beta)

section \<open>The life of an obligation\<close>

text \<open>
  What the service does to a stored obligation: it applies a fill, or settles it when its order
  ends. \<open>ob_wf\<close> is what every stored obligation satisfies: the amounts are values of the
  decimal context and not negative.
\<close>

inductive obligation_step :: "order_obligation \<Rightarrow> order_obligation \<Rightarrow> bool" where
  step_fill: "obligation_step ob (apply_fill_to_obligation now f ob)"
| step_final: "apply_finalization_to_obligation now os (Some ob) = Some ob' \<Longrightarrow> obligation_step ob ob'"

definition ob_wf :: "order_obligation \<Rightarrow> bool" where
  "ob_wf ob \<longleftrightarrow> exact28 (ob_consumed_amount ob) \<and> exact28 (ob_released_amount ob)
     \<and> 0 \<le> ob_consumed_amount ob \<and> 0 \<le> ob_released_amount ob"

definition ob_settled :: "order_obligation \<Rightarrow> bool" where
  "ob_settled ob \<longleftrightarrow> remaining_amount ob \<le> obl_EPSILON \<and> ob_status ob \<in> {OBL_RELEASED, OBL_CANCELED, OBL_FAILED}"

lemma apply_fill_consumed:
  assumes "ob_wf ob"
  shows "ob_consumed_amount ob \<le> ob_consumed_amount (apply_fill_to_obligation now f ob)"
    "exact28 (ob_consumed_amount (apply_fill_to_obligation now f ob))"
  using assms
  by (auto simp: ob_wf_def apply_fill_to_obligation_def Let_def split: prod.split option.split
      intro!: dadd_ge above_eps(2))

lemma finalization_released:
  assumes "ob_wf ob" "apply_finalization_to_obligation now os (Some ob) = Some ob'"
  shows "ob_released_amount ob \<le> ob_released_amount ob'" "exact28 (ob_released_amount ob')"
  using assms
  by (auto simp: ob_wf_def apply_finalization_to_obligation_def Let_def split: if_splits intro!: dadd_ge)

lemma step_wf: "obligation_step ob ob' \<Longrightarrow> ob_wf ob \<Longrightarrow> ob_wf ob'"
proof (induction rule: obligation_step.induct)
  case (step_fill ob now f)
  then show ?case using apply_fill_consumed[of ob now f] by (auto simp: ob_wf_def)
next
  case (step_final now os ob ob')
  then show ?case using finalization_released[of ob now os ob'] finalization_keeps[of now os ob ob']
    by (auto simp: ob_wf_def)
qed

lemma step_amounts:
  "obligation_step ob ob' \<Longrightarrow> ob_wf ob \<Longrightarrow>
   ob_reserved_amount ob' = ob_reserved_amount ob \<and> ob_consumed_amount ob \<le> ob_consumed_amount ob'
   \<and> ob_released_amount ob \<le> ob_released_amount ob'"
proof (induction rule: obligation_step.induct)
  case (step_fill ob now f)
  then show ?case using apply_fill_consumed[of ob now f] by simp
next
  case (step_final now os ob ob')
  then show ?case using finalization_released[of ob now os ob'] finalization_keeps[of now os ob ob'] by simp
qed

lemma remaining_antimono:
  "ob_reserved_amount ob' = ob_reserved_amount ob \<Longrightarrow> ob_consumed_amount ob \<le> ob_consumed_amount ob' \<Longrightarrow>
   ob_released_amount ob \<le> ob_released_amount ob' \<Longrightarrow> remaining_amount ob' \<le> remaining_amount ob"
  unfolding remaining_amount_def remaining_obligation_amount_def by (intro max.mono dsub_mono) auto

lemma apply_fill_status:
  "ob_status (apply_fill_to_obligation now f ob) = ob_status ob
   \<or> ob_status (apply_fill_to_obligation now f ob)
     = consumption_status (ob_reserved_amount ob) (ob_consumed_amount (apply_fill_to_obligation now f ob)) (ob_released_amount ob)"
  by (auto simp: apply_fill_to_obligation_def Let_def split: prod.split option.split)

lemma consumption_status_remaining:
  "consumption_status (ob_reserved_amount ob) (ob_consumed_amount ob) (ob_released_amount ob)
   = (if remaining_amount ob \<le> obl_EPSILON then OBL_RELEASED
      else if obl_EPSILON < ob_consumed_amount ob then OBL_PARTIALLY_CONSUMED else OBL_ACTIVE)"
  by (simp add: consumption_status_def remaining_amount_def remaining_obligation_amount_def Let_def)

lemma step_settled:
  assumes "obligation_step ob ob'" "ob_wf ob" "ob_settled ob"
  shows "ob_settled ob'"
proof -
  have le: "remaining_amount ob' \<le> obl_EPSILON"
    using step_amounts[OF assms(1,2)] remaining_antimono[of ob' ob] assms(3) by (auto simp: ob_settled_def)
  from assms(1) show ?thesis
  proof cases
    case (step_fill now f)
    then show ?thesis
      using le apply_fill_status[of now f ob] consumption_status_remaining[of ob'] assms(3)
      by (auto simp: ob_settled_def)
  next
    case (step_final now os)
    with le assms(3) show ?thesis
      by (auto simp: ob_settled_def apply_finalization_to_obligation_def Let_def split: if_splits)
  qed
qed

text \<open>
  Settlement leaves at most the tolerance: the released amount is the remaining one up to two
  roundings, each below \<open>10\<^sup>-\<^sup>1\<^sup>3\<close> for amounts up to \<open>10\<^sup>1\<^sup>4\<close>.
\<close>

lemma settle_residue:
  assumes "0 \<le> L" "0 \<le> C" "R \<le> 10 ^ 14"
  defines "A \<equiv> dsub R C"
  shows "dsub A (dadd L (max (dsub A L) 0)) \<le> EPSILON_DECIMAL_12"
proof (cases "A \<le> L")
  case True
  then have "dsub A L \<le> 0" by (rule dec_signs)
  moreover have "dsub A (dadd L 0) \<le> 0"
    using True ctx28.rnd_mono[of A L] by (intro dec_signs) (simp add: dadd_def A_def dsub_def ctx28.rnd_idem)
  ultimately show ?thesis using order_trans[OF _ eps12_signs(1)] by (simp add: max_absorb2)
next
  case False
  define \<delta> :: rat where "\<delta> = 1 / (2 * 10 ^ 27)"
  define r where "r = dsub A L"
  have "exact28 (10 ^ 14 :: rat)" by simp
  then have A: "A \<le> 10 ^ 14"
    using assms by (auto simp: A_def dsub_def exact28_def intro!: ctx28.rnd_upper)
  have r0: "0 \<le> r" using False by (simp add: r_def dec_signs)
  have e1: "\<bar>r - (A - L)\<bar> \<le> \<bar>A - L\<bar> * \<delta>"
    using ctx_round_error[of 28 "A - L"] by (simp add: r_def dsub_def \<delta>_def)
  have e2: "\<bar>dadd L r - (L + r)\<bar> \<le> \<bar>L + r\<bar> * \<delta>"
    using ctx_round_error[of 28 "L + r"] by (simp add: dadd_def \<delta>_def)
  have d1: "\<bar>A - L\<bar> * \<delta> \<le> 10 ^ 14 * \<delta>"
    using A False assms(1) by (intro mult_right_mono) (auto simp: \<delta>_def)
  have "10 ^ 14 * \<delta> \<le> 10 ^ 14" by (simp add: \<delta>_def)
  then have "L + r \<le> 2 * 10 ^ 14" using e1 d1 A by linarith
  then have d2: "\<bar>L + r\<bar> * \<delta> \<le> 2 * 10 ^ 14 * \<delta>"
    using r0 assms(1) by (intro mult_right_mono) (auto simp: \<delta>_def)
  have "A - dadd L r \<le> 3 * 10 ^ 14 * \<delta>" using e1 e2 d1 d2 by linarith
  also have "\<dots> \<le> EPSILON_DECIMAL_12" by (simp add: \<delta>_def EPSILON_DECIMAL_12_def)
  finally have "dsub A (dadd L r) \<le> EPSILON_DECIMAL_12"
    using eps12_exact by (simp add: dsub_def ctx28.rnd_upper exact28_def)
  with r0 show ?thesis by (simp add: r_def max_absorb1)
qed

lemma finalization_settles:
  assumes "ob_wf ob" "ob_reserved_amount ob \<le> 10 ^ 14"
    "apply_finalization_to_obligation now os (Some ob) = Some ob'"
  shows "ob_settled ob'"
proof (cases "ob_settled ob")
  case True
  with assms show ?thesis
    by (auto simp: ob_settled_def apply_finalization_to_obligation_def Let_def split: if_splits)
next
  case False
  with assms(3) have L: "ob_released_amount ob' = dadd (ob_released_amount ob) (max (remaining_amount ob) 0)"
    and st: "ob_status ob' \<in> {OBL_RELEASED, OBL_CANCELED, OBL_FAILED}"
    by (auto simp: ob_settled_def apply_finalization_to_obligation_def Let_def split: if_splits)
  have "remaining_amount ob' \<le> EPSILON_DECIMAL_12"
    unfolding remaining_amount_def remaining_obligation_amount_def finalization_keeps[OF assms(3)] L
    using settle_residue[of "ob_released_amount ob" "ob_consumed_amount ob" "ob_reserved_amount ob"] assms(1,2)
      less_imp_le[OF eps12_pos]
    by (simp add: ob_wf_def remaining_amount_def remaining_obligation_amount_def)
  with st show ?thesis by (simp add: ob_settled_def)
qed

section \<open>The balance check\<close>

definition other_active :: "'r obligation_repository \<Rightarrow> 'r \<Rightarrow> string \<Rightarrow> string \<Rightarrow> order_obligation list" where
  "other_active ops r c cid =
     filter (\<lambda>ob. ob_reserve_currency ob = c \<and> ob_client_order_id ob \<noteq> cid) (repo_active ops r)"

text \<open>What the active obligations of a currency still hold, summed without rounding.\<close>

definition active_reserved :: "'r obligation_repository \<Rightarrow> 'r \<Rightarrow> string \<Rightarrow> decimal" where
  "active_reserved ops r c =
     sum_list (map remaining_amount (filter (\<lambda>ob. ob_reserve_currency ob = c) (repo_active ops r)))"

text \<open>
  The check sums and subtracts with rounding; for balances up to \<open>10\<^sup>9\<close> and up to \<open>10\<^sup>5\<close>
  active obligations the accumulated error is below one tolerance.
\<close>

lemma guard_bound:
  assumes nonneg: "\<And>x. x \<in> set xs \<Longrightarrow> 0 \<le> x" and len: "length xs \<le> 10 ^ 5"
    and avail: "available \<le> 10 ^ 9" and amount: "EPSILON_DECIMAL_12 < amount"
    and guard: "\<not> dadd (dsub available (dsum xs)) EPSILON_DECIMAL_12 < amount"
  shows "sum_list xs + amount \<le> available + 2 * EPSILON_DECIMAL_12"
proof -
  define \<delta> :: rat where "\<delta> = 1 / (2 * 10 ^ 27)"
  define \<epsilon> where "\<epsilon> = EPSILON_DECIMAL_12"
  define T D where "T = sum_list xs" and "D = available - dsum xs"
  have \<delta>: "0 \<le> \<delta>" "10 ^ 5 * \<delta> \<le> 1 / 2" by (simp_all add: \<delta>_def)
  have \<epsilon>: "0 < \<epsilon>" "\<epsilon> \<le> 1" by (simp_all add: \<epsilon>_def EPSILON_DECIMAL_12_def)
  have S0: "0 \<le> dsum xs" and T0: "0 \<le> T"
    using nonneg by (auto simp: T_def intro: dsum_nonneg sum_list_nonneg)
  have D0: "0 \<le> D"
  proof (rule ccontr)
    assume "\<not> 0 \<le> D"
    then have "dsub available (dsum xs) \<le> 0" by (simp add: D_def dec_signs)
    then have "dadd (dsub available (dsum xs)) \<epsilon> \<le> dadd 0 \<epsilon>" by (intro dadd_mono) auto
    with guard amount show False by (simp add: \<epsilon>_def)
  qed
  have b1: "0 \<le> dsub available (dsum xs)" "dsub available (dsum xs) \<le> D * (1 + \<delta>)"
    using D0 ctx28_bounds[of D] by (simp_all add: dsub_def D_def \<delta>_def ctx28.rnd_nonneg)
  have D9: "D \<le> 10 ^ 9" using avail S0 by (simp add: D_def)
  have d1: "D * \<delta> \<le> 10 ^ 9 * \<delta>" using D9 \<delta> by (intro mult_right_mono) auto
  have b2: "dadd (dsub available (dsum xs)) \<epsilon> \<le> (dsub available (dsum xs) + \<epsilon>) * (1 + \<delta>)"
    using b1 \<epsilon> ctx28_bounds(2)[of "dsub available (dsum xs) + \<epsilon>"] by (simp add: dadd_def \<delta>_def)
  have "dsub available (dsum xs) + \<epsilon> \<le> 10 ^ 10"
    using b1(2) d1 D9 \<epsilon>(2) by (simp add: distrib_left \<delta>_def)
  then have d2: "(dsub available (dsum xs) + \<epsilon>) * \<delta> \<le> 10 ^ 10 * \<delta>"
    using \<delta> by (intro mult_right_mono) auto
  have amount_le: "amount \<le> D + \<epsilon> + (10 ^ 9 + 10 ^ 10) * \<delta>"
  proof -
    have "(dsub available (dsum xs) + \<epsilon>) * (1 + \<delta>) = dsub available (dsum xs) + \<epsilon> + (dsub available (dsum xs) + \<epsilon>) * \<delta>"
      by (simp only: distrib_left mult_1_right)
    moreover have "D * (1 + \<delta>) = D + D * \<delta>" by (simp only: distrib_left mult_1_right)
    moreover have "(10 ^ 9 + 10 ^ 10) * \<delta> = 10 ^ 9 * \<delta> + 10 ^ 10 * \<delta>" by (rule distrib_right)
    ultimately show ?thesis using guard b2 b1(2) d1 d2 unfolding \<epsilon>_def by linarith
  qed
  have "of_nat (length xs) * \<delta> \<le> 10 ^ 5 * \<delta>"
    using of_nat_mono[OF len, where ?'a = rat] \<delta>(1) by (intro mult_right_mono) simp_all
  then have "T * (1 - 10 ^ 5 * \<delta>) \<le> T * (1 - of_nat (length xs) * \<delta>)"
    using T0 by (intro mult_left_mono) auto
  also have "\<dots> \<le> dsum xs"
    using dsum_lower[of xs] nonneg by (simp add: T_def \<delta>_def)
  finally have T1: "T * (1 - 10 ^ 5 * \<delta>) \<le> dsum xs" .
  have "T * (1 / 2) \<le> T * (1 - 10 ^ 5 * \<delta>)" using T0 \<delta>(2) by (intro mult_left_mono) auto
  then have "T \<le> 2 * 10 ^ 9" using T1 D0 avail by (simp add: D_def)
  then have "T * (10 ^ 5 * \<delta>) \<le> 2 * 10 ^ 9 * (10 ^ 5 * \<delta>)" using \<delta> by (intro mult_right_mono) auto
  then have "T \<le> dsum xs + 2 * 10 ^ 14 * \<delta>" using T1 by (simp add: algebra_simps)
  then have "T + amount \<le> available + \<epsilon> + (10 ^ 9 + 10 ^ 10 + 2 * 10 ^ 14) * \<delta>"
    using amount_le by (simp add: D_def algebra_simps)
  also have "\<dots> \<le> available + 2 * \<epsilon>" by (simp add: \<delta>_def \<epsilon>_def EPSILON_DECIMAL_12_def)
  finally show ?thesis by (simp add: T_def \<epsilon>_def)
qed

section \<open>What a repository promises\<close>

text \<open>
  \<open>inv\<close> is the shape of the stored data. A saved obligation is the one found under its client
  order id and nothing else changes; the active list holds exactly the stored active obligations,
  each once.
\<close>

locale obligation_store =
  fixes ops :: "'r obligation_repository" and inv :: "'r \<Rightarrow> bool"
  assumes inv_save: "inv r \<Longrightarrow> inv (repo_save ops r ob)"
    and get_save: "inv r \<Longrightarrow> repo_get ops (repo_save ops r ob) cid =
          (if cid = ob_client_order_id ob then Some ob else repo_get ops r cid)"
    and get_key: "inv r \<Longrightarrow> repo_get ops r cid = Some ob \<Longrightarrow> ob_client_order_id ob = cid"
    and active_set: "inv r \<Longrightarrow> set (repo_active ops r) =
          {ob. repo_get ops r (ob_client_order_id ob) = Some ob \<and> is_active_obligation ob}"
    and active_distinct: "inv r \<Longrightarrow> distinct (map ob_client_order_id (repo_active ops r))"
begin

lemma distinct_active: "inv r \<Longrightarrow> distinct (repo_active ops r)"
  using active_distinct by (simp add: distinct_map)

lemma active_reserved_save:
  assumes "inv r" "repo_get ops r (ob_client_order_id ob) = None" "is_active_obligation ob"
  shows "active_reserved ops (repo_save ops r ob) (ob_reserve_currency ob) =
         remaining_amount ob
         + sum_list (map remaining_amount (other_active ops r (ob_reserve_currency ob) (ob_client_order_id ob)))"
proof -
  let ?c = "ob_reserve_currency ob" and ?r' = "repo_save ops r ob"
  let ?new = "filter (\<lambda>x. ob_reserve_currency x = ?c) (repo_active ops ?r')"
  let ?old = "other_active ops r ?c (ob_client_order_id ob)"
  have set: "set ?new = insert ob (set ?old)" and fresh: "ob \<notin> set ?old"
    using assms active_set[OF assms(1)] active_set[OF inv_save[OF assms(1), of ob]]
    by (auto simp: other_active_def get_save)
  have "distinct ?new" "distinct ?old"
    using distinct_active assms(1) inv_save[OF assms(1)] by (simp_all add: other_active_def)
  then show ?thesis
    using set fresh by (simp add: active_reserved_def sum_list_distinct_conv_sum_set)
qed

text \<open>Whoever saves after the balance check, in whatever order the others were summed.\<close>

lemma reserve_bound:
  assumes "inv r" "repo_get ops r (ob_client_order_id ob) = None" "is_active_obligation ob"
    and "remaining_amount ob = ob_reserved_amount ob" "obl_EPSILON < ob_reserved_amount ob"
    and "mset xs = mset (map remaining_amount (other_active ops r (ob_reserve_currency ob) (ob_client_order_id ob)))"
    and "\<not> dadd (dsub available (dsum xs)) obl_EPSILON < ob_reserved_amount ob"
    and "length (repo_active ops r) \<le> 10 ^ 5" "available \<le> 10 ^ 9"
  shows "active_reserved ops (repo_save ops r ob) (ob_reserve_currency ob) \<le> available + 2 * obl_EPSILON"
proof -
  let ?others = "other_active ops r (ob_reserve_currency ob) (ob_client_order_id ob)"
  have "set xs = set (map remaining_amount ?others)" using assms(6) by (rule mset_eq_setD)
  then have nonneg: "x \<in> set xs \<Longrightarrow> 0 \<le> x" for x by (auto simp: remaining_amount_def)
  have "length xs = length ?others" using assms(6) mset_eq_length by fastforce
  then have "length xs \<le> 10 ^ 5"
    using assms(8) length_filter_le[of _ "repo_active ops r"] unfolding other_active_def by (metis le_trans)
  then have "sum_list xs + ob_reserved_amount ob \<le> available + 2 * EPSILON_DECIMAL_12"
    using guard_bound[of xs available "ob_reserved_amount ob"] nonneg assms(5,7,9) by simp
  moreover have "sum_list xs = sum_list (map remaining_amount ?others)"
    using assms(6) by (metis sum_mset_sum_list)
  ultimately show ?thesis
    unfolding active_reserved_save[OF assms(1-3)] assms(4) by simp
qed

end

section \<open>The two repositories keep the promise\<close>

definition memory_inv :: "memory_repo \<Rightarrow> bool" where
  "memory_inv repo \<longleftrightarrow> keyed ob_client_order_id repo"

text \<open>The columns of a row are those of its payload.\<close>

definition row_coherent :: "obligation_row \<Rightarrow> bool" where
  "row_coherent row \<longleftrightarrow> row = obligation_row_of (row_payload row)"

definition table_inv :: "obligation_table \<Rightarrow> bool" where
  "table_inv tbl \<longleftrightarrow> keyed row_client_order_id tbl \<and> (\<forall>e \<in> set tbl. row_coherent (snd e))"

lemma repository_methods [simp]:
  "repo_get memory_repository = memory_get_obligation"
  "repo_active memory_repository = memory_active_obligations"
  "repo_save memory_repository = memory_save_obligation"
  "repo_reserve memory_repository = memory_reserve_obligation_transactional"
  "\<not> repo_is_postgres memory_repository"
  "repo_get (postgres_repository scan) = postgres_get_obligation"
  "repo_active (postgres_repository scan) = postgres_active_obligations scan"
  "repo_save (postgres_repository scan) = save_obligation_in_session"
  "repo_reserve (postgres_repository scan) = reserve_obligation_transactional scan"
  "repo_is_postgres (postgres_repository scan)"
  by (simp_all add: memory_repository_def postgres_repository_def)

interpretation mem: obligation_store memory_repository memory_inv
proof
  fix r ob cid ob'
  assume inv: "memory_inv r"
  show "memory_inv (repo_save memory_repository r ob)"
    using inv by (simp add: memory_inv_def memory_save_obligation_def keyed_update)
  show "repo_get memory_repository (repo_save memory_repository r ob) cid =
      (if cid = ob_client_order_id ob then Some ob else repo_get memory_repository r cid)"
    by (simp add: memory_get_obligation_def memory_save_obligation_def)
  show "ob_client_order_id ob' = cid" if "repo_get memory_repository r cid = Some ob'"
    using that inv by (simp add: memory_inv_def memory_get_obligation_def keyed_map_of)
  show "set (repo_active memory_repository r) =
      {ob. repo_get memory_repository r (ob_client_order_id ob) = Some ob \<and> is_active_obligation ob}"
    using inv by (auto simp: memory_inv_def memory_get_obligation_def memory_active_obligations_def keyed_map_of)
  show "distinct (map ob_client_order_id (repo_active memory_repository r))"
    using inv by (simp add: memory_inv_def memory_active_obligations_def keyed_distinct)
qed

locale postgres_scan =
  fixes scan :: "obligation_row list \<Rightarrow> obligation_row list"
  assumes scan_perm: "mset (scan rows) = mset rows"
begin

lemma set_scan [simp]: "set (scan rows) = set rows"
  using scan_perm[of rows] by (rule mset_eq_setD)

lemma length_scan [simp]: "length (scan rows) = length rows"
  using scan_perm[of rows] by (rule mset_eq_length)

lemma distinct_scan: "distinct (map f (scan rows)) \<longleftrightarrow> distinct (map f rows)"
  using scan_perm[of rows] by (metis mset_eq_imp_distinct_iff mset_map)

lemma sum_scan: "sum_list (map f (scan rows)) = (sum_list (map f rows) :: decimal)"
  using scan_perm[of rows] by (metis mset_map sum_mset_sum_list)

end

lemma row_of_sel [simp]:
  "row_payload (obligation_row_of ob) = ob" "row_client_order_id (obligation_row_of ob) = ob_client_order_id ob"
  "row_coherent (obligation_row_of ob)"
  "(obligation_row_of ob)\<lparr>row_client_order_id := ob_client_order_id ob\<rparr> = obligation_row_of ob"
  by (simp_all add: row_coherent_def obligation_row_of_def)

lemma row_coherent_sel:
  assumes "row_coherent row"
  shows "row_status row = ob_status (row_payload row)"
    "row_reserve_currency row = ob_reserve_currency (row_payload row)"
    "row_client_order_id row = ob_client_order_id (row_payload row)"
  using arg_cong[OF assms[unfolded row_coherent_def], of row_status]
    arg_cong[OF assms[unfolded row_coherent_def], of row_reserve_currency]
    arg_cong[OF assms[unfolded row_coherent_def], of row_client_order_id]
  by (simp_all only: obligation_row_of_def obligation_row.select_convs)

lemma table_coherent: "table_inv tbl \<Longrightarrow> row \<in> snd ` set tbl \<Longrightarrow> row_coherent row"
  by (auto simp: table_inv_def)

lemma save_in_session_update:
  assumes "table_inv tbl"
  shows "save_obligation_in_session tbl ob = AList.update (ob_client_order_id ob) (obligation_row_of ob) tbl"
proof (cases "map_of tbl (ob_client_order_id ob)")
  case None
  then show ?thesis by (simp add: save_obligation_in_session_def update_new_key)
next
  case (Some row)
  then have "row_client_order_id row = ob_client_order_id ob"
    using assms keyed_map_of[of row_client_order_id tbl] by (simp only: table_inv_def)
  with Some show ?thesis by (simp add: save_obligation_in_session_def)
qed

lemma table_inv_save:
  assumes "table_inv tbl"
  shows "table_inv (save_obligation_in_session tbl ob)"
proof -
  have "keyed row_client_order_id (save_obligation_in_session tbl ob)"
    using assms keyed_update[of row_client_order_id tbl "obligation_row_of ob"]
    by (simp add: save_in_session_update table_inv_def)
  moreover have "\<forall>e \<in> set (save_obligation_in_session tbl ob). row_coherent (snd e)"
    using assms set_update_subset[of "ob_client_order_id ob" "obligation_row_of ob" tbl]
    by (auto simp: save_in_session_update table_inv_def)
  ultimately show ?thesis by (simp add: table_inv_def)
qed

lemma table_get:
  assumes "table_inv tbl"
  shows "postgres_get_obligation tbl cid = Some ob
         \<longleftrightarrow> ob_client_order_id ob = cid \<and> ob \<in> row_payload ` snd ` set tbl"
proof -
  have keyed: "keyed row_client_order_id tbl" using assms by (simp only: table_inv_def)
  have "postgres_get_obligation tbl cid = Some ob
        \<longleftrightarrow> (\<exists>row. map_of tbl cid = Some row \<and> row_payload row = ob)"
    unfolding postgres_get_obligation_def map_option_eq_Some ..
  also have "\<dots> \<longleftrightarrow> ob_client_order_id ob = cid \<and> ob \<in> row_payload ` snd ` set tbl"
    unfolding keyed_map_of[OF keyed] using row_coherent_sel(3)[OF table_coherent[OF assms]]
    by (metis (no_types) imageE imageI)
  finally show ?thesis .
qed

lemma image_filter_comp: "f ` {x \<in> A. P (f x)} = {y \<in> f ` A. P y}"
  by auto

context postgres_scan
begin

lemma table_active_set:
  assumes "table_inv tbl"
  shows "set (postgres_active_obligations scan tbl)
         = {ob \<in> row_payload ` snd ` set tbl. is_active_obligation ob}"
proof -
  have "set (postgres_active_obligations scan tbl) =
        row_payload ` {row \<in> snd ` set tbl. row_status row \<in> {OBL_ACTIVE, OBL_PARTIALLY_CONSUMED}}"
    by (simp add: postgres_active_obligations_def)
  also have "\<dots> = row_payload ` {row \<in> snd ` set tbl. is_active_obligation (row_payload row)}"
    using row_coherent_sel(1)[OF table_coherent[OF assms]] unfolding is_active_obligation_def
    by (metis (no_types, lifting) Collect_cong)
  also have "\<dots> = {ob \<in> row_payload ` snd ` set tbl. is_active_obligation ob}"
    by (rule image_filter_comp)
  finally show ?thesis .
qed

end

sublocale postgres_scan \<subseteq> pg: obligation_store "postgres_repository scan" table_inv
proof
  fix r ob cid ob'
  assume inv: "table_inv r"
  show "table_inv (repo_save (postgres_repository scan) r ob)"
    using inv by (simp add: table_inv_save)
  show "repo_get (postgres_repository scan) (repo_save (postgres_repository scan) r ob) cid =
      (if cid = ob_client_order_id ob then Some ob else repo_get (postgres_repository scan) r cid)"
    using inv by (simp add: postgres_get_obligation_def save_in_session_update)
  show "ob_client_order_id ob' = cid" if "repo_get (postgres_repository scan) r cid = Some ob'"
    using that inv by (simp add: table_get)
  show "set (repo_active (postgres_repository scan) r) =
      {ob. repo_get (postgres_repository scan) r (ob_client_order_id ob) = Some ob \<and> is_active_obligation ob}"
    unfolding repository_methods table_get[OF inv] table_active_set[OF inv] by (simp only: conj_assoc refl simp_thms)
  have eq: "map (\<lambda>row. ob_client_order_id (row_payload row)) (filter P (map snd r))
        = map row_client_order_id (filter P (map snd r))" for P
    by (rule map_cong[OF refl], rule sym, rule row_coherent_sel(3), rule table_coherent[OF inv]) simp
  have "distinct (map row_client_order_id (filter P (map snd r)))" for P
    using inv unfolding table_inv_def by (intro keyed_distinct) simp
  then show "distinct (map ob_client_order_id (repo_active (postgres_repository scan) r))"
    unfolding repository_methods postgres_active_obligations_def map_map comp_def distinct_scan eq .
qed

text \<open>Tables scanned in insertion order, as a freshly written heap is.\<close>

interpretation heap_order: postgres_scan "\<lambda>rows. rows"
  by unfold_locales simp

context postgres_scan
begin

lemmas commit_bound = pg.reserve_bound[unfolded repository_methods]

end

section \<open>The service on top\<close>

lemma reservation_spec_exact:
  "reservation_spec price_provider fee intent = (Some c, amount, p) \<Longrightarrow> exact28 amount"
  by (auto simp: reservation_spec_def spot_buy_quote_requirement_def derivatives_initial_margin_requirement_def
      Let_def split: prod.splits if_splits option.splits)

text \<open>A reservation that was built: the guard held, and it holds the whole amount.\<close>

lemma build_reservation_cases:
  assumes "build_reservation_for_intent ops r req loader pp fee now oid intent cid = Inr (Some ob, available)"
  shows "(available = None \<and> repo_get ops r cid = Some ob)
     \<or> (\<exists>snapshot. loader = Some (Some snapshot) \<and> repo_get ops r cid = None \<and> ob_client_order_id ob = cid
          \<and> available = Some (snapshot_available_balance snapshot (ob_reserve_currency ob))
          \<and> is_active_obligation ob \<and> remaining_amount ob = ob_reserved_amount ob
          \<and> obl_EPSILON < ob_reserved_amount ob
          \<and> \<not> dadd (dsub (snapshot_available_balance snapshot (ob_reserve_currency ob))
                (dsum (map remaining_amount (other_active ops r (ob_reserve_currency ob) cid)))) obl_EPSILON
              < ob_reserved_amount ob)"
proof (cases "repo_get ops r cid")
  case None
  with assms obtain snapshot where l: "loader = Some (Some snapshot)"
    by (auto simp: build_reservation_for_intent_def split: option.splits if_splits)
  obtain cur amount price where spec: "reservation_spec pp fee intent = (cur, amount, price)"
    by (cases "reservation_spec pp fee intent") auto
  with assms None l obtain c where c: "cur = Some c"
    by (auto simp: build_reservation_for_intent_def split: option.splits)
  have amount: "exact28 amount" using reservation_spec_exact spec c by blast
  have big: "EPSILON_DECIMAL_12 < amount"
    using assms None l spec c by (auto simp: build_reservation_for_intent_def split: if_splits)
  then have "0 < amount" using eps12_pos by (rule less_trans[rotated])
  with amount have "max (dsub (dsub amount 0) 0) 0 = amount" by (simp add: dsub_0)
  then show ?thesis
    using assms None l spec c big
    by (simp add: build_reservation_for_intent_def Let_def other_active_def split: if_splits)
      (auto simp: remaining_amount_def remaining_obligation_amount_def is_active_obligation_def
        new_order_obligation_def)
qed (use assms in \<open>simp add: build_reservation_for_intent_def\<close>)

lemma memory_reserve_new:
  assumes "reserve_for_intent memory_repository repo req (Some (Some balances)) pp fee now oid intent cid
           = Inr (repo', Some ob)" "memory_get_obligation repo cid = None"
  shows "build_reservation_for_intent memory_repository repo req (Some (Some balances)) pp fee now oid intent cid
           = Inr (Some ob, Some (snapshot_available_balance balances (ob_reserve_currency ob)))
         \<and> repo' = memory_save_obligation repo ob"
proof -
  from assms(1) obtain ob0 available where
    b: "build_reservation_for_intent memory_repository repo req (Some (Some balances)) pp fee now oid intent cid
        = Inr (Some ob0, available)"
    by (auto simp: reserve_for_intent_def ebind_eq_Inr_iff split: option.splits)
  from build_reservation_cases[OF this] assms(2)
  have "available = Some (snapshot_available_balance balances (ob_reserve_currency ob0))" by auto
  with assms(1) b show ?thesis
    by (auto simp: reserve_for_intent_def reserve_obligation_direct_legacy_only_def
        ensure_direct_obligation_write_allowed_def memory_reserve_obligation_transactional_def)
qed

lemma rows_are_others:
  assumes "\<And>rows. mset (scan rows) = mset rows" "table_inv tbl"
  shows "mset (map row_payload (scan (filter (\<lambda>r. row_status r \<in> {OBL_ACTIVE, OBL_PARTIALLY_CONSUMED}
             \<and> row_reserve_currency r = c \<and> row_client_order_id r \<noteq> cid) (map snd tbl))))
         = mset (other_active (postgres_repository scan) tbl c cid)"
proof -
  let ?act = "\<lambda>r. row_status r \<in> {OBL_ACTIVE, OBL_PARTIALLY_CONSUMED}"
  have rows: "row_reserve_currency r = ob_reserve_currency (row_payload r)"
    "row_client_order_id r = ob_client_order_id (row_payload r)" if "r \<in> set (map snd tbl)" for r
    using that unfolding set_map by (rule row_coherent_sel(2)[OF table_coherent[OF assms(2)]],
        rule row_coherent_sel(3)[OF table_coherent[OF assms(2)]])
  have eq: "filter (\<lambda>r. ?act r \<and> row_reserve_currency r = c \<and> row_client_order_id r \<noteq> cid) (map snd tbl)
      = filter (\<lambda>r. ob_reserve_currency (row_payload r) = c \<and> ob_client_order_id (row_payload r) \<noteq> cid)
          (filter ?act (map snd tbl))"
    unfolding filter_filter by (rule filter_cong[OF refl]) (simp only: rows)
  show ?thesis
    unfolding eq
    unfolding other_active_def repository_methods postgres_active_obligations_def filter_map[of _ row_payload]
      mset_map[of row_payload] assms(1) mset_filter comp_def ..
qed

section \<open>An example reservation\<close>

definition example_buy :: order_intent where
  "example_buy = (new_order_intent (Aware 0 0) ''int'' ''dec'' ''BTC-USDT'' Buy 2 ''limit'' Limit Medium ''gtc'' ''key'')
     \<lparr>oi_limit_price := Some 100\<rparr>"

definition example_balances :: account_balances where "example_balances = [(''USDT'', 500)]"

lemma example_spec: "reservation_spec None (\<lambda>_. 0) example_buy = (Some ''USDT'', 200, Some 100)"
  by (simp add: reservation_spec_def example_buy_def new_order_intent_def resolve_symbol_currencies_def
      spot_buy_quote_requirement_def worst_case_reference_price_def to_decimal_def Let_def exact_ops)

lemma example_reservation:
  "\<exists>ob. reserve_for_intent memory_repository [] True (Some (Some example_balances)) None (\<lambda>_. 0) (Aware 0 1) ''obl''
     example_buy ''cid'' = Inr ([(''cid'', ob)], Some ob) \<and> ob_reserve_currency ob = ''USDT''"
  by (simp add: reserve_for_intent_def build_reservation_for_intent_def example_spec
     example_balances_def memory_get_obligation_def memory_active_obligations_def snapshot_available_balance_def
     Let_def dsum_def exact_ops EPSILON_DECIMAL_12_def reserve_obligation_direct_legacy_only_def
     ensure_direct_obligation_write_allowed_def memory_reserve_obligation_transactional_def memory_save_obligation_def
     new_order_obligation_def)

definition example_obligation :: order_obligation where
  "example_obligation = new_order_obligation (Aware 0 0) ''obl'' ''cid'' ''dec'' ''int'' ''BTC-USDT'' Buy ''USDT'' 200"

lemma example_obligation_simps [simp]:
  "ob_client_order_id example_obligation = ''cid''" "ob_reserved_amount example_obligation = 200"
  "ob_reserve_currency example_obligation = ''USDT''" "remaining_amount example_obligation = 200"
  "is_active_obligation example_obligation" "ob_wf example_obligation" "ob_product_type example_obligation = Spot"
  by (simp_all add: example_obligation_def new_order_obligation_def remaining_amount_def
      remaining_obligation_amount_def is_active_obligation_def ob_wf_def exact_ops)

lemma example_consumption: "fill_consumption_amount (example_fill ''f1'' Buy 1 90) example_obligation = (90, None)"
  by (simp add: fill_consumption_amount_def example_fill_def new_fill_event_def resolve_symbol_currencies_def
      try_fill_fee_delta_in_quote_def fill_fee_delta_in_quote_def resolve_pair_def to_decimal_def Let_def exact_ops)

section \<open>Properties\<close>

text \<open>
  C15. A successful new reservation never over-commits the account: once it is stored, what all
  active obligations of its currency still hold is at most the available balance of the
  snapshot (up to twice the tolerance \<open>10\<^sup>-\<^sup>1\<^sup>2\<close>, one of which the check grants and one
  covers decimal rounding), and the obligation is found under its client order id.
\<close>

theorem reserve_within_balance:
  assumes "memory_inv repo" "memory_get_obligation repo cid = None"
    and "reserve_for_intent memory_repository repo req (Some (Some balances)) pp fee now oid intent cid
         = Inr (repo', Some ob)"
    and "length (memory_active_obligations repo) \<le> 10 ^ 5"
    and "snapshot_available_balance balances (ob_reserve_currency ob) \<le> 10 ^ 9"
  shows "active_reserved memory_repository repo' (ob_reserve_currency ob)
           \<le> snapshot_available_balance balances (ob_reserve_currency ob) + 2 * obl_EPSILON
         \<and> memory_get_obligation repo' cid = Some ob \<and> memory_inv repo'"
proof -
  from assms(3) have b: "build_reservation_for_intent memory_repository repo req (Some (Some balances)) pp fee
      now oid intent cid = Inr (Some ob, Some (snapshot_available_balance balances (ob_reserve_currency ob)))"
    and repo': "repo' = memory_save_obligation repo ob"
    using memory_reserve_new[OF assms(3,2)] by auto
  from build_reservation_cases[OF b] assms(2)
  have f: "ob_client_order_id ob = cid" "is_active_obligation ob" "remaining_amount ob = ob_reserved_amount ob"
    "obl_EPSILON < ob_reserved_amount ob"
    "\<not> dadd (dsub (snapshot_available_balance balances (ob_reserve_currency ob))
        (dsum (map remaining_amount (other_active memory_repository repo (ob_reserve_currency ob) cid)))) obl_EPSILON
      < ob_reserved_amount ob" by auto
  show ?thesis
    using mem.reserve_bound[of repo ob _ "snapshot_available_balance balances (ob_reserve_currency ob)", OF _ _ f(2-4) refl]
      mem.inv_save[of repo ob] mem.get_save[of repo ob cid] assms f unfolding repo' by simp
qed

theorem reserve_within_balance_witness:
  "\<exists>repo'. active_reserved memory_repository repo' ''USDT'' \<le> 500 + 2 * obl_EPSILON
     \<and> memory_get_obligation repo' ''cid'' \<noteq> None"
proof -
  obtain ob where ob: "reserve_for_intent memory_repository [] True (Some (Some example_balances)) None (\<lambda>_. 0)
      (Aware 0 1) ''obl'' example_buy ''cid'' = Inr ([(''cid'', ob)], Some ob)" "ob_reserve_currency ob = ''USDT''"
    using example_reservation by blast
  have "snapshot_available_balance example_balances ''USDT'' = 500"
    by (simp add: snapshot_available_balance_def example_balances_def)
  then show ?thesis
    using reserve_within_balance[OF _ _ ob(1)] ob(2)
    by (auto simp: memory_inv_def memory_get_obligation_def memory_active_obligations_def)
qed

text \<open>
  C16. The same guarantee for the Postgres repository, whatever order the database returns rows
  in: a reservation that commits keeps the currency within the balance, an order that already
  has an obligation gets that one back and nothing is written.
\<close>

theorem postgres_reserve_within_balance:
  assumes "\<And>rows. mset (scan rows) = mset rows" "table_inv tbl"
    and "is_active_obligation ob" "remaining_amount ob = ob_reserved_amount ob" "obl_EPSILON < ob_reserved_amount ob"
    and "length (postgres_active_obligations scan tbl) \<le> 10 ^ 5" "available \<le> 10 ^ 9"
    and "reserve_obligation_transactional scan tbl ob available obl_EPSILON = Inr (tbl', saved)"
  shows "case postgres_get_obligation tbl (ob_client_order_id ob) of
           Some existing \<Rightarrow> tbl' = tbl \<and> saved = existing
         | None \<Rightarrow> saved = ob \<and> table_inv tbl' \<and> postgres_get_obligation tbl' (ob_client_order_id ob) = Some ob
             \<and> active_reserved (postgres_repository scan) tbl' (ob_reserve_currency ob) \<le> available + 2 * obl_EPSILON"
proof (cases "map_of tbl (ob_client_order_id ob)")
  case None
  then have get: "postgres_get_obligation tbl (ob_client_order_id ob) = None"
    by (simp add: postgres_get_obligation_def)
  define rows where "rows = scan (filter (\<lambda>r. row_status r \<in> {OBL_ACTIVE, OBL_PARTIALLY_CONSUMED}
      \<and> row_reserve_currency r = ob_reserve_currency ob
      \<and> row_client_order_id r \<noteq> ob_client_order_id ob) (map snd tbl))"
  from assms(8)[unfolded reserve_obligation_transactional_def None option.case Let_def, folded rows_def remaining_amount_def]
  have guard:
    "\<not> dadd (dsub available (dsum (map remaining_amount (map row_payload rows)))) obl_EPSILON < ob_reserved_amount ob"
    and tbl': "tbl' = save_obligation_in_session tbl ob" "saved = ob"
    by (simp_all only: map_map comp_def sum.inject sum.distinct prod.inject not_False_eq_True split: if_splits) auto
  have "mset (map remaining_amount (map row_payload rows)) = mset (map remaining_amount
      (other_active (postgres_repository scan) tbl (ob_reserve_currency ob) (ob_client_order_id ob)))"
    unfolding rows_def mset_map[of remaining_amount] rows_are_others[OF assms(1,2)] ..
  from postgres_scan.commit_bound[OF postgres_scan.intro[OF assms(1)] assms(2) get assms(3-5) this guard assms(6,7)]
  show ?thesis using get tbl' table_inv_save[OF assms(2)]
    by (simp add: assms(2) postgres_get_obligation_def save_in_session_update)
next
  case (Some row)
  with assms(8) show ?thesis by (simp add: postgres_get_obligation_def reserve_obligation_transactional_def)
qed

theorem postgres_reserve_within_balance_witness:
  "\<exists>tbl'. active_reserved (postgres_repository rev) tbl' ''USDT'' \<le> 500 + 2 * obl_EPSILON
     \<and> postgres_get_obligation tbl' ''cid'' = Some example_obligation"
proof -
  have r: "reserve_obligation_transactional rev [] example_obligation 500 obl_EPSILON
      = Inr ([(''cid'', obligation_row_of example_obligation)], example_obligation)"
    by (simp add: reserve_obligation_transactional_def save_obligation_in_session_def Let_def dsum_def exact_ops
        EPSILON_DECIMAL_12_def)
  have "table_inv []" "postgres_get_obligation [] ''cid'' = None" "postgres_active_obligations rev [] = []"
    by (simp_all add: table_inv_def postgres_get_obligation_def postgres_active_obligations_def)
  with postgres_reserve_within_balance[OF _ _ _ _ _ _ _ r] show ?thesis
    by (auto simp: EPSILON_DECIMAL_12_def)
qed

text \<open>
  C18. Redelivery is harmless: after a batch of fills was applied to an obligation, applying any
  of them again, in any order and any number of times and at any later time, changes nothing.
\<close>

theorem fill_redelivery_idempotent:
  assumes "set redelivered \<subseteq> set fills"
  defines "run \<equiv> \<lambda>t fs ob. foldl (\<lambda>ob f. apply_fill_to_obligation t f ob) ob fs"
  shows "run later redelivered (run now fills ob) = run now fills ob"
  unfolding run_def using assms(1) by (intro chain_of_absorbed chain_absorbs) auto

theorem fill_redelivery_idempotent_witness:
  "foldl (\<lambda>ob f. apply_fill_to_obligation (Aware 0 9) f ob)
     (foldl (\<lambda>ob f. apply_fill_to_obligation (Aware 0 8) f ob) example_obligation [example_fill ''f1'' Buy 1 90, example_fill ''f2'' Buy 1 95])
     [example_fill ''f2'' Buy 1 95, example_fill ''f1'' Buy 1 90]
   = foldl (\<lambda>ob f. apply_fill_to_obligation (Aware 0 8) f ob) example_obligation [example_fill ''f1'' Buy 1 90, example_fill ''f2'' Buy 1 95]"
  by (rule fill_redelivery_idempotent) simp

text \<open>
  C17. Over the life of an obligation the reserved amount never changes, the consumed and the
  released amount never shrink, and an obligation that was settled (released, canceled or failed
  with nothing left) stays settled: no late fill or repeated finalization reactivates it.
\<close>

theorem obligation_life_monotone:
  assumes "obligation_step\<^sup>*\<^sup>* ob ob'" "ob_wf ob"
  shows "ob_reserved_amount ob' = ob_reserved_amount ob \<and> ob_consumed_amount ob \<le> ob_consumed_amount ob'
    \<and> ob_released_amount ob \<le> ob_released_amount ob' \<and> ob_wf ob'
    \<and> (ob_settled ob \<longrightarrow> ob_settled ob' \<and> \<not> is_active_obligation ob')"
  using assms
proof (induction rule: rtranclp_induct)
  case base
  then show ?case by (auto simp: ob_settled_def is_active_obligation_def)
next
  case (step y z)
  then have wf: "ob_wf y" and IH: "ob_settled ob \<longrightarrow> ob_settled y" by simp_all
  from step_settled[OF step(2) wf] IH have "ob_settled ob \<longrightarrow> ob_settled z \<and> \<not> is_active_obligation z"
    by (auto simp: ob_settled_def is_active_obligation_def)
  then show ?case using step step_amounts[OF step(2) wf] step_wf[OF step(2) wf] by (auto intro: order_trans)
qed

theorem obligation_life_monotone_witness:
  "ob_consumed_amount example_obligation
   \<le> ob_consumed_amount (apply_fill_to_obligation (Aware 0 9) (example_fill ''f1'' Buy 1 90) example_obligation)"
  using obligation_life_monotone[of example_obligation
      "apply_fill_to_obligation (Aware 0 9) (example_fill ''f1'' Buy 1 90) example_obligation"]
    step_fill[of example_obligation "Aware 0 9" "example_fill ''f1'' Buy 1 90"] by auto

text \<open>
  When its order ends, the obligation is settled: at most the tolerance stays held, the
  status is a terminal one, and finalizing again at any later time for any terminal order state
  changes nothing. For an order that has not ended, nothing is done.
\<close>

theorem finalization_releases_all:
  assumes "ob_wf ob" "ob_reserved_amount ob \<le> 10 ^ 14"
  shows "if os_status order \<in> set TERMINAL_ORDER_STATES then
           (\<exists>ob'. apply_finalization_to_obligation now order (Some ob) = Some ob' \<and> ob_settled ob'
              \<and> \<not> is_active_obligation ob'
              \<and> (os_status order' \<in> set TERMINAL_ORDER_STATES \<longrightarrow>
                   apply_finalization_to_obligation later order' (Some ob') = Some ob'))
         else apply_finalization_to_obligation now order (Some ob) = None"
proof (cases "os_status order \<in> {FILLED, CANCELED, REJECTED, FAILED, BLOCKED, DRY_RUN, EXPIRED}")
  case True
  then have "apply_finalization_to_obligation now order (Some ob) \<noteq> None"
    by (simp add: apply_finalization_to_obligation_def Let_def)
  then obtain ob' where ob': "apply_finalization_to_obligation now order (Some ob) = Some ob'" by blast
  have s: "ob_settled ob'" using finalization_settles[OF assms ob'] .
  then have "os_status order' \<in> set TERMINAL_ORDER_STATES \<longrightarrow> apply_finalization_to_obligation later order' (Some ob') = Some ob'"
    by (auto simp: ob_settled_def apply_finalization_to_obligation_def TERMINAL_ORDER_STATES_def)
  moreover have "\<not> is_active_obligation ob'" using s by (auto simp: ob_settled_def is_active_obligation_def)
  ultimately show ?thesis using True ob' s by (auto simp: TERMINAL_ORDER_STATES_def)
next
  case False
  then show ?thesis by (auto simp: apply_finalization_to_obligation_def TERMINAL_ORDER_STATES_def)
qed

theorem finalization_releases_all_witness:
  "\<exists>ob'. apply_finalization_to_obligation (Aware 0 9) (example_order\<lparr>os_status := CANCELED\<rparr>) (Some example_obligation)
      = Some ob' \<and> ob_settled ob'"
  using finalization_releases_all[of example_obligation "example_order\<lparr>os_status := CANCELED\<rparr>" "Aware 0 9"]
  by (auto simp: TERMINAL_ORDER_STATES_def)

text \<open>
  C19. The reservation of a spot buy covers any fill of it: at most the ordered quantity, at a
  price no worse than the worst case the reservation assumed, with a quote fee of at most the taker
  rate on the traded value, consumes at most what was reserved.
\<close>

theorem spot_buy_reservation_covers_fill:
  assumes spec: "reservation_spec price_provider taker_fee intent = (Some reserve_currency, reserved, price)"
    and buy: "oi_product_type intent = Spot" "oi_side intent = Buy"
    and worst: "worst_case_reference_price price Buy (oi_max_slippage_tolerance_bps intent) = Some worst_price"
    and ob: "ob_product_type ob = Spot" "ob_reserve_currency ob = reserve_currency"
    and currency: "snd (symbol_currencies (fl_symbol fill)) = Some reserve_currency"
    and fill: "0 \<le> fl_fill_qty fill" "fl_fill_qty fill \<le> oi_quantity intent"
      "0 \<le> fl_fill_price fill" "fl_fill_price fill \<le> worst_price"
    and fee: "try_fill_fee_delta_in_quote fill (fst (symbol_currencies (fl_symbol fill))) (Some reserve_currency) = (Some fee_delta, None)"
      "fee_delta \<le> dmul (fl_fill_qty fill) (fl_fill_price fill) * (taker_fee (oi_symbol intent) / 10000)"
    and rate: "0 \<le> taker_fee (oi_symbol intent)" "exact28 (taker_fee (oi_symbol intent) / 10000)"
      "exact28 (1 + taker_fee (oi_symbol intent) / 10000)"
  shows "\<exists>amount. fill_consumption_amount fill ob = (amount, None) \<and> amount \<le> reserved"
proof -
  define rate where "rate = taker_fee (oi_symbol intent) / 10000"
  define notional where "notional = dmul (fl_fill_qty fill) (fl_fill_price fill)"
  have "reserved = dmul (dmul (oi_quantity intent) worst_price) (dadd 1 (ddiv (taker_fee (oi_symbol intent)) 10000))"
    using spec buy worst
    by (auto simp: reservation_spec_def spot_buy_quote_requirement_def Let_def
        split: prod.splits if_splits option.splits)
  then have reserved: "reserved = dmul (dmul (oi_quantity intent) worst_price) (1 + rate)"
    using rate by (simp add: exact_ops rate_def)
  have cap: "notional \<le> dmul (oi_quantity intent) worst_price" "0 \<le> notional"
    unfolding notional_def dmul_def using fill by (auto intro!: ctx28.rnd_mono mult_mono ctx28.rnd_nonneg)
  have "0 \<le> rate" using rate by (simp add: rate_def)
  then have "notional * rate \<le> dmul (oi_quantity intent) worst_price * rate"
    using cap by (intro mult_right_mono) auto
  then have "notional + fee_delta \<le> dmul (oi_quantity intent) worst_price * (1 + rate)"
    using cap fee(2) by (simp add: notional_def rate_def distrib_left)
  then have "dadd notional fee_delta \<le> reserved"
    unfolding reserved dadd_def by (subst dmul_def) (rule ctx28.rnd_mono)
  moreover have "0 \<le> reserved" using cap \<open>0 \<le> rate\<close> by (simp add: reserved dec_signs)
  moreover have "fill_consumption_amount fill ob = (max (dadd notional fee_delta) 0, None)"
    using fee(1) currency ob by (simp add: fill_consumption_amount_def notional_def to_decimal_def case_prod_beta)
  ultimately show ?thesis by simp
qed

theorem spot_buy_reservation_covers_fill_witness:
  "\<exists>amount. fill_consumption_amount (example_fill ''f1'' Buy 1 90) example_obligation = (amount, None) \<and> amount \<le> 200"
  by (rule spot_buy_reservation_covers_fill[OF example_spec, of 100 _ _ 0])
    (simp_all add: example_buy_def new_order_intent_def example_fill_def new_fill_event_def
      resolve_symbol_currencies_def worst_case_reference_price_def to_decimal_def Let_def
      try_fill_fee_delta_in_quote_def fill_fee_delta_in_quote_def resolve_pair_def exact_ops)

text \<open>
  The batch preview agrees with processing the fills one by one: on the in-memory repository,
  consuming every fill of an order and then finalizing it leaves exactly the obligation that
  \<^verbatim>\<open>preview_chained_fill_obligations_and_finalize\<close> computes.
\<close>

fun consume_all ::
  "datetime \<Rightarrow> memory_repo \<Rightarrow> fill_event list \<Rightarrow> reservation_error + memory_repo"
where
  "consume_all now repo [] = Inr repo"
| "consume_all now repo (f # fs) =
     ebind (consume_for_fill None memory_repository now repo f) (\<lambda>(repo', _). consume_all now repo' fs)"

lemma consume_one:
  "memory_get_obligation repo (fl_client_order_id f) = Some ob \<Longrightarrow> ob_client_order_id ob = fl_client_order_id f \<Longrightarrow>
   consume_for_fill None memory_repository now repo f
   = Inr (memory_save_obligation repo (apply_fill_to_obligation now f ob), Some (apply_fill_to_obligation now f ob))"
  by (simp add: consume_for_fill_def preview_obligation_for_fill_def persist_obligation_sync_def
      save_obligation_direct_legacy_only_def ensure_direct_obligation_write_allowed_def)

lemma consume_all_chain:
  "memory_get_obligation repo cid = Some ob \<Longrightarrow> ob_client_order_id ob = cid \<Longrightarrow>
   \<forall>f \<in> set fills. fl_client_order_id f = cid \<Longrightarrow>
   \<exists>repo'. consume_all now repo fills = Inr repo'
     \<and> memory_get_obligation repo' cid = Some (foldl (\<lambda>ob f. apply_fill_to_obligation now f ob) ob fills)"
proof (induction fills arbitrary: repo ob)
  case (Cons f fs)
  let ?ob = "apply_fill_to_obligation now f ob"
  have "memory_get_obligation (memory_save_obligation repo ?ob) cid = Some ?ob"
    using Cons.prems by (simp add: memory_get_obligation_def memory_save_obligation_def)
  then show ?case using Cons.IH[of "memory_save_obligation repo ?ob" ?ob] Cons.prems consume_one[of repo f ob now]
    by simp
qed simp

theorem batch_preview_equals_sequential:
  assumes "memory_inv repo" "fills \<noteq> []" "\<forall>f \<in> set fills. fl_client_order_id f = os_client_order_id order"
    and "memory_get_obligation repo (os_client_order_id order) = Some ob"
  shows "\<exists>repo'. consume_all now repo fills = Inr repo'
    \<and> preview_obligation_for_order_state now memory_repository repo' order
      = snd (preview_chained_fill_obligations_and_finalize now memory_repository repo fills order)"
proof -
  let ?cid = "os_client_order_id order"
  have "ob_client_order_id ob = ?cid" using mem.get_key[of repo ?cid ob] assms(1,4) by simp
  from consume_all_chain[OF assms(4) this assms(3), of now] obtain repo' where
    r: "consume_all now repo fills = Inr repo'"
      "memory_get_obligation repo' ?cid = Some (foldl (\<lambda>ob f. apply_fill_to_obligation now f ob) ob fills)"
    by blast
  obtain f fs where fills: "fills = f # fs" using assms(2) by (cases fills) auto
  have "snd (preview_chained_fill_obligations_and_finalize now memory_repository repo fills order)
      = apply_finalization_to_obligation now order (snd (chain_fills now (Some ob) fills))"
    using assms(3,4) unfolding fills
    by (simp add: preview_chained_fill_obligations_and_finalize_def case_prod_beta Let_def)
  then show ?thesis using r by (simp add: preview_obligation_for_order_state_def chain_fills_last)
qed

theorem batch_preview_equals_sequential_witness:
  "\<exists>repo'. consume_all (Aware 0 9) [(''cid'', example_obligation)] [example_fill ''f1'' Buy 1 90] = Inr repo'
    \<and> preview_obligation_for_order_state (Aware 0 9) memory_repository repo' example_order
      = snd (preview_chained_fill_obligations_and_finalize (Aware 0 9) memory_repository
               [(''cid'', example_obligation)] [example_fill ''f1'' Buy 1 90] example_order)"
  by (rule batch_preview_equals_sequential[of _ _ _ example_obligation])
    (simp_all add: memory_inv_def keyed_def memory_get_obligation_def example_fill_def new_fill_event_def
      example_order_def new_order_state_def)

end
