(* ===== verification/Portfolio_State.thy ===== *)
theory Portfolio_State
  imports Accounting
begin

text \<open>
  The portfolio: \<^verbatim>\<open>PortfolioState\<close> of
  \<^verbatim>\<open>aats/services/portfolio_service/positions.py\<close> (positions and balances, how a fill
  changes them, checkpoints, loading from an exchange or a stored snapshot) and the replay of
  \<^verbatim>\<open>reconstruction.py\<close>. Positions and balances are dicts in insertion order. A leverage is
  the decimal its float prints as; exchanges quote leverages of a few digits, on which the detour
  through a float is the identity. \<^verbatim>\<open>Inl\<close> is the message of the
  \<^verbatim>\<open>UnsupportedFeeCurrencyError\<close> a fill can raise.
\<close>

section \<open>State\<close>

record position_record =
  pr_symbol :: string
  pr_position_key :: "string option"
  pr_quantity :: decimal
  pr_avg_entry_price :: decimal
  pr_product_type :: product_type
  pr_target_leverage :: decimal
  pr_margin_mode :: string
  pr_position_mode :: "string option"
  pr_pos_side :: "string option"
  pr_instrument_family :: "string option"
  pr_settle_currency :: "string option"
  pr_margin_allocated :: decimal
  pr_maintenance_margin :: decimal
  pr_margin_ratio :: "decimal option"
  pr_liquidation_price :: "decimal option"
  pr_margin_source :: string
  pr_exposure_side :: exposure_side

definition new_position_record :: "string \<Rightarrow> string \<Rightarrow> position_record" where
  "new_position_record symbol position_key =
     \<lparr>pr_symbol = symbol, pr_position_key = Some position_key, pr_quantity = 0, pr_avg_entry_price = 0,
      pr_product_type = Spot, pr_target_leverage = 1, pr_margin_mode = ''cash'', pr_position_mode = None,
      pr_pos_side = None, pr_instrument_family = None, pr_settle_currency = None, pr_margin_allocated = 0,
      pr_maintenance_margin = 0, pr_margin_ratio = None, pr_liquidation_price = None,
      pr_margin_source = ''estimated'', pr_exposure_side = ExpFlat\<rparr>"

record fill_application_result =
  fr_applied :: bool
  fr_starting_quantity :: decimal
  fr_ending_quantity :: decimal
  fr_starting_avg_entry_price :: decimal
  fr_ending_avg_entry_price :: decimal
  fr_realized_pnl_delta :: decimal
  fr_fee_delta :: decimal

text \<open>\<^verbatim>\<open>_applied_fill_ids\<close> is a set of ids, kept as a list without order meaning.\<close>

record portfolio_state =
  pf_positions :: "(string \<times> position_record) list"
  pf_balances :: "(string \<times> decimal) list"
  pf_realized_pnl :: decimal
  pf_total_fees_paid :: decimal
  pf_applied_fill_ids :: "string list"
  pf_loaded_from_exchange_snapshot :: bool
  pf_default_product_type :: product_type
  pf_default_margin_mode :: string

record portfolio_checkpoint =
  cp_positions :: "(string \<times> position_record) list"
  cp_balances :: "(string \<times> decimal) list"
  cp_realized_pnl :: decimal
  cp_total_fees_paid :: decimal
  cp_applied_fill_ids :: "string list"
  cp_loaded_from_exchange_snapshot :: bool

definition new_portfolio_state :: "decimal \<Rightarrow> product_type \<Rightarrow> string \<Rightarrow> portfolio_state" where
  "new_portfolio_state initial_usdt_balance default_product_type default_margin_mode =
     \<lparr>pf_positions = [], pf_balances = [(''USDT'', initial_usdt_balance)], pf_realized_pnl = 0,
      pf_total_fees_paid = 0, pf_applied_fill_ids = [], pf_loaded_from_exchange_snapshot = False,
      pf_default_product_type = default_product_type, pf_default_margin_mode = default_margin_mode\<rparr>"

definition has_applied_fill :: "portfolio_state \<Rightarrow> string \<Rightarrow> bool" where
  "has_applied_fill st fill_id \<longleftrightarrow> fill_id \<in> set (pf_applied_fill_ids st)"

definition mark_fill_applied :: "portfolio_state \<Rightarrow> string \<Rightarrow> portfolio_state" where
  "mark_fill_applied st fill_id = st\<lparr>pf_applied_fill_ids := List.insert fill_id (pf_applied_fill_ids st)\<rparr>"

definition checkpoint :: "portfolio_state \<Rightarrow> portfolio_checkpoint" where
  "checkpoint st =
     \<lparr>cp_positions = pf_positions st, cp_balances = pf_balances st, cp_realized_pnl = pf_realized_pnl st,
      cp_total_fees_paid = pf_total_fees_paid st, cp_applied_fill_ids = pf_applied_fill_ids st,
      cp_loaded_from_exchange_snapshot = pf_loaded_from_exchange_snapshot st\<rparr>"

definition restore :: "portfolio_state \<Rightarrow> portfolio_checkpoint \<Rightarrow> portfolio_state" where
  "restore st cp =
     st\<lparr>pf_positions := cp_positions cp, pf_balances := cp_balances cp, pf_realized_pnl := cp_realized_pnl cp,
        pf_total_fees_paid := cp_total_fees_paid cp, pf_applied_fill_ids := cp_applied_fill_ids cp,
        pf_loaded_from_exchange_snapshot := cp_loaded_from_exchange_snapshot cp\<rparr>"

section \<open>Applying a fill\<close>

definition same_direction :: "decimal \<Rightarrow> decimal \<Rightarrow> bool" where
  "same_direction left right =
     (if dabs left \<le> EPSILON_DECIMAL_12 \<or> dabs right \<le> EPSILON_DECIMAL_12 then True
      else (0 < left \<and> 0 < right) \<or> (left < 0 \<and> right < 0))"

text \<open>
  What a signed quantity at a price does to the quantity and the average entry price of a position,
  and the trading profit it realizes.
\<close>

definition position_after :: "decimal \<Rightarrow> decimal \<Rightarrow> decimal \<Rightarrow> decimal \<Rightarrow> decimal \<times> decimal \<times> decimal" where
  "position_after starting_qty avg_entry_price signed_qty fill_price =
     (let ending_qty = dadd starting_qty signed_qty
      in if same_direction starting_qty signed_qty then
           let new_total_cost = dadd (dmul (dabs starting_qty) avg_entry_price) (dmul (dabs signed_qty) fill_price)
           in (ending_qty,
               if \<not> is_effectively_zero ending_qty then ddiv new_total_cost (dabs ending_qty) else 0,
               0)
         else
           let closing_qty = min (dabs starting_qty) (dabs signed_qty);
               trading_pnl_delta = dadd 0
                 (if 0 < starting_qty then dmul (dsub fill_price avg_entry_price) closing_qty
                  else dmul (dsub avg_entry_price fill_price) closing_qty)
           in (ending_qty,
               if is_effectively_zero ending_qty then 0
               else if same_direction starting_qty ending_qty then avg_entry_price
               else fill_price,
               trading_pnl_delta))"

text \<open>The two legs of a spot trade; a derivative moves no balances when it trades.\<close>

definition trade_balances ::
  "product_type \<Rightarrow> order_side \<Rightarrow> string option \<Rightarrow> string option \<Rightarrow> decimal \<Rightarrow> decimal
   \<Rightarrow> (string \<times> decimal) list \<Rightarrow> (string \<times> decimal) list"
where
  "trade_balances product_type side base_currency quote_currency fill_qty notional balances =
     (if product_type = Derivatives then balances
      else
        let b1 = (case quote_currency of
                    None \<Rightarrow> balances
                  | Some q \<Rightarrow>
                      let quote_balance = dict_get balances q 0
                      in AList.update q (if side = Buy then dsub quote_balance notional
                                         else dadd quote_balance notional) balances)
        in (case base_currency of
              None \<Rightarrow> b1
            | Some b \<Rightarrow>
                let base_balance = dict_get b1 b 0
                in AList.update b (if side = Buy then dadd base_balance fill_qty
                                   else dsub base_balance fill_qty) b1))"

text \<open>The realized profit of a derivative and the fee.\<close>

definition settle_balances ::
  "product_type \<Rightarrow> string option \<Rightarrow> decimal \<Rightarrow> string option \<Rightarrow> decimal
   \<Rightarrow> (string \<times> decimal) list \<Rightarrow> (string \<times> decimal) list"
where
  "settle_balances product_type quote_currency trading_pnl_delta fee_currency fee_amount balances =
     (let b1 = (case quote_currency of
                  Some q \<Rightarrow>
                    if product_type = Derivatives \<and> \<not> is_effectively_zero trading_pnl_delta
                    then AList.update q (dadd (dict_get balances q 0) trading_pnl_delta) balances
                    else balances
                | None \<Rightarrow> balances)
      in case fee_currency of
           None \<Rightarrow> b1
         | Some c \<Rightarrow> AList.update c (dsub (dict_get b1 c 0) fee_amount) b1)"

definition cleanup_if_flat :: "string \<Rightarrow> (string \<times> position_record) list \<Rightarrow> (string \<times> position_record) list" where
  "cleanup_if_flat position_key positions =
     (case map_of positions position_key of
        None \<Rightarrow> positions
      | Some record \<Rightarrow>
          if is_effectively_zero (pr_quantity record) then AList.delete position_key positions else positions)"

definition record_for_fill :: "fill_event \<Rightarrow> string \<Rightarrow> decimal \<Rightarrow> decimal \<Rightarrow> position_record" where
  "record_for_fill fill position_key quantity avg_entry_price =
     \<lparr>pr_symbol = fl_symbol fill,
      pr_position_key = Some position_key,
      pr_quantity = quantity,
      pr_avg_entry_price = avg_entry_price,
      pr_product_type = fl_product_type fill,
      pr_target_leverage = fl_target_leverage fill,
      pr_margin_mode = margin_mode_str (fl_margin_mode fill),
      pr_position_mode = normalize_position_mode (map_option position_mode_str (fl_position_mode fill)),
      pr_pos_side = normalize_position_side (map_option position_side_str (fl_pos_side fill))
        (normalize_position_mode (map_option position_mode_str (fl_position_mode fill))),
      pr_instrument_family = fl_instrument_family fill,
      pr_settle_currency = fl_settle_currency fill,
      pr_margin_allocated = 0,
      pr_maintenance_margin = 0,
      pr_margin_ratio = None,
      pr_liquidation_price = None,
      pr_margin_source = ''estimated'',
      pr_exposure_side = exposure_side_from_quantity quantity\<rparr>"

definition apply_fill :: "portfolio_state \<Rightarrow> fill_event \<Rightarrow> string + (portfolio_state \<times> fill_application_result)" where
  "apply_fill st fill =
     (let position_key = position_key_for_fill fill;
          fresh = new_position_record (fl_symbol fill) position_key
      in if fl_fill_id fill \<in> set (pf_applied_fill_ids st) then
           let existing = dict_get (pf_positions st) position_key fresh
           in Inr (st, \<lparr>fr_applied = False,
                        fr_starting_quantity = pr_quantity existing,
                        fr_ending_quantity = pr_quantity existing,
                        fr_starting_avg_entry_price = pr_avg_entry_price existing,
                        fr_ending_avg_entry_price = pr_avg_entry_price existing,
                        fr_realized_pnl_delta = 0,
                        fr_fee_delta = 0\<rparr>)
         else
           let product_type = fl_product_type fill;
               fill_qty = fl_fill_qty fill;
               fill_price = fl_fill_price fill;
               fee_amount = fl_fee_amount fill;
               signed_qty = (if fl_side fill = Buy then fill_qty else dneg fill_qty);
               existing = dict_get (pf_positions st) position_key fresh;
               starting_qty = pr_quantity existing;
               starting_avg_entry_price = pr_avg_entry_price existing;
               (base_currency, quote_currency) = symbol_currencies (fl_symbol fill);
               notional = dmul fill_qty fill_price;
               fee_currency = resolved_fee_currency fill base_currency quote_currency
           in ebind (fill_fee_delta_in_quote fill base_currency quote_currency)
              (\<lambda>fee_quote_delta.
                 let (ending_qty, ending_avg, trading_pnl_delta) =
                       position_after starting_qty starting_avg_entry_price signed_qty fill_price;
                     positions = cleanup_if_flat position_key
                       (AList.update position_key
                          (record_for_fill fill position_key ending_qty ending_avg) (pf_positions st));
                     balances = settle_balances product_type quote_currency trading_pnl_delta fee_currency fee_amount
                       (trade_balances product_type (fl_side fill) base_currency quote_currency fill_qty notional
                          (pf_balances st));
                     realized_pnl_delta = dsub trading_pnl_delta fee_quote_delta;
                     ending_record = dict_get positions position_key fresh
                 in Inr (st\<lparr>pf_positions := positions,
                            pf_balances := balances,
                            pf_realized_pnl := dadd (pf_realized_pnl st) realized_pnl_delta,
                            pf_total_fees_paid := dadd (pf_total_fees_paid st) fee_quote_delta,
                            pf_applied_fill_ids := List.insert (fl_fill_id fill) (pf_applied_fill_ids st),
                            pf_loaded_from_exchange_snapshot := False\<rparr>,
                         \<lparr>fr_applied = True,
                          fr_starting_quantity = starting_qty,
                          fr_ending_quantity = pr_quantity ending_record,
                          fr_starting_avg_entry_price = starting_avg_entry_price,
                          fr_ending_avg_entry_price = pr_avg_entry_price ending_record,
                          fr_realized_pnl_delta = realized_pnl_delta,
                          fr_fee_delta = fee_quote_delta\<rparr>)))"

definition position_for_fill :: "portfolio_state \<Rightarrow> fill_event \<Rightarrow> position_record option" where
  "position_for_fill st fill = map_of (pf_positions st) (position_key_for_fill fill)"

definition position_quantity_for_symbol :: "portfolio_state \<Rightarrow> string \<Rightarrow> decimal" where
  "position_quantity_for_symbol st symbol =
     dsum (map pr_quantity (filter (\<lambda>record. pr_symbol record = symbol) (map snd (pf_positions st))))"

definition total_fee_delta_in_quote :: "fill_event list \<Rightarrow> string + decimal" where
  "total_fee_delta_in_quote fills =
     foldl (\<lambda>acc fill. ebind acc (\<lambda>total. ebind (fill_fee_delta_in_quote fill None None) (\<lambda>d. Inr (dadd total d))))
       (Inr 0) fills"

definition total_fee_cost_in_quote :: "fill_event list \<Rightarrow> string + decimal" where
  "total_fee_cost_in_quote fills =
     foldl (\<lambda>acc fill. ebind acc (\<lambda>total. ebind (fill_fee_cost_in_quote fill None None) (\<lambda>d. Inr (dadd total d))))
       (Inr 0) fills"

section \<open>Loading from an exchange snapshot\<close>

record exchange_balance =
  eb_currency :: string
  eb_total :: decimal
  eb_available :: decimal
  eb_frozen :: decimal

record exchange_position =
  ep_instrument_id :: string
  ep_symbol :: string
  ep_quantity :: decimal
  ep_average_entry_price :: "decimal option"
  ep_mark_price :: "decimal option"
  ep_notional_usd :: "decimal option"
  ep_side :: string
  ep_margin_mode :: "string option"
  ep_margin_currency :: "string option"
  ep_leverage :: "decimal option"
  ep_margin_allocated :: "decimal option"
  ep_maintenance_margin :: "decimal option"
  ep_margin_ratio :: "decimal option"
  ep_liquidation_price :: "decimal option"
  ep_unrealized_pnl :: "decimal option"
  ep_instrument_family :: "string option"
  ep_settle_currency :: "string option"

text \<open>
  The parts of an account snapshot that loading reads: an instrument is its symbol, base and
  quote currency; the account configuration is its position mode.
\<close>

record exchange_account_snapshot =
  ea_balances :: "exchange_balance list"
  ea_positions :: "exchange_position list"
  ea_instruments :: "(string \<times> string \<times> string) list"
  ea_position_mode :: "string option"
  ea_account_configuration :: "string option option"

definition infer_product_type_from_symbol :: "string \<Rightarrow> product_type" where
  "infer_product_type_from_symbol symbol =
     (if symbol = [] then Spot
      else let normalized = py_upper symbol
           in if py_endswith ''-SWAP'' normalized then Derivatives
              else if py_isdigit (last (py_split CHR ''-'' normalized)) then Derivatives
              else Spot)"

definition snapshot_position_mode :: "exchange_account_snapshot \<Rightarrow> string option" where
  "snapshot_position_mode snapshot =
     (case ea_account_configuration snapshot of
        Some mode \<Rightarrow> mode
      | None \<Rightarrow> ea_position_mode snapshot)"

text \<open>\<^verbatim>\<open>x or default\<close> on an optional decimal: zero is falsy.\<close>

definition dec_or :: "decimal option \<Rightarrow> decimal \<Rightarrow> decimal" where
  "dec_or v d = (case v of None \<Rightarrow> d | Some x \<Rightarrow> if x = 0 then d else x)"

definition record_of_exchange_position ::
  "product_type \<Rightarrow> string \<Rightarrow> string option \<Rightarrow> string \<Rightarrow> decimal \<Rightarrow> exchange_position \<Rightarrow> position_record" where
  "record_of_exchange_position product_type margin_mode mode position_key signed_quantity position =
     \<lparr>pr_symbol = ep_symbol position,
      pr_position_key = Some position_key,
      pr_quantity = signed_quantity,
      pr_avg_entry_price = to_decimal (ep_average_entry_price position),
      pr_product_type = product_type,
      pr_target_leverage = dec_or (ep_leverage position) 1,
      pr_margin_mode = margin_mode,
      pr_position_mode = normalize_position_mode mode,
      pr_pos_side = normalize_position_side (Some (ep_side position)) mode,
      pr_instrument_family = ep_instrument_family position,
      pr_settle_currency = ep_settle_currency position,
      pr_margin_allocated = dec_or (ep_margin_allocated position) 0,
      pr_maintenance_margin = dec_or (ep_maintenance_margin position) 0,
      pr_margin_ratio = ep_margin_ratio position,
      pr_liquidation_price = ep_liquidation_price position,
      pr_margin_source = ''exchange'',
      pr_exposure_side = exposure_side_from_quantity signed_quantity\<rparr>"

definition exchange_position_entry ::
  "string \<Rightarrow> string option \<Rightarrow> exchange_position \<Rightarrow> (string \<times> position_record) option" where
  "exchange_position_entry default_margin_mode mode position =
     (let product_type = infer_product_type_from_symbol (ep_symbol position);
          margin_mode = text_or (ep_margin_mode position) (if product_type = Spot then ''cash'' else default_margin_mode);
          signed_quantity = signed_quantity_for_position_side (Some (ep_quantity position)) (Some (ep_side position)) mode;
          position_key = build_position_key (ep_symbol position) (product_type_str product_type)
            (Some margin_mode) mode (Some (ep_side position))
      in if is_effectively_zero signed_quantity then None
         else Some (position_key,
                record_of_exchange_position product_type margin_mode mode position_key signed_quantity position))"

definition synthetic_spot_positions ::
  "(string \<times> position_record) list \<Rightarrow> (string \<times> decimal) list \<Rightarrow> (string \<times> string \<times> string) list
   \<Rightarrow> (string \<times> decimal) list"
where
  "synthetic_spot_positions positions balances instruments =
     foldl (\<lambda>acc (symbol, base_currency, quote_currency).
        if quote_currency \<noteq> ''USDT'' then acc
        else if list_ex (\<lambda>(_, record). pr_symbol record = symbol) positions then acc
        else let quantity = dict_get balances base_currency 0
             in if is_effectively_zero quantity then acc else AList.update symbol quantity acc)
       [] instruments"

definition ensure_usdt :: "(string \<times> decimal) list \<Rightarrow> (string \<times> decimal) list" where
  "ensure_usdt balances = (if map_of balances ''USDT'' = None then AList.update ''USDT'' 0 balances else balances)"

definition load_exchange_snapshot :: "portfolio_state \<Rightarrow> exchange_account_snapshot \<Rightarrow> portfolio_state" where
  "load_exchange_snapshot st snapshot =
     (let balances = ensure_usdt (foldl (\<lambda>acc balance. AList.update (eb_currency balance) (eb_total balance) acc) []
            (filter (\<lambda>balance. \<not> is_effectively_zero (eb_total balance)) (ea_balances snapshot)));
          positions = foldl (\<lambda>acc position.
              case exchange_position_entry (pf_default_margin_mode st) (snapshot_position_mode snapshot) position of
                None \<Rightarrow> acc
              | Some (position_key, record) \<Rightarrow> AList.update position_key record acc) [] (ea_positions snapshot);
          positions' =
            (if pf_default_product_type st = Spot \<and> ea_positions snapshot = [] then
               foldl (\<lambda>acc (symbol, quantity). AList.update symbol
                  ((new_position_record symbol symbol)\<lparr>pr_quantity := quantity,
                     pr_exposure_side := exposure_side_from_quantity quantity\<rparr>) acc)
                 positions (synthetic_spot_positions positions balances (ea_instruments snapshot))
             else positions)
      in st\<lparr>pf_positions := positions', pf_balances := balances, pf_realized_pnl := 0,
            pf_total_fees_paid := 0, pf_applied_fill_ids := [], pf_loaded_from_exchange_snapshot := True\<rparr>)"

section \<open>Replay\<close>

fun apply_fills :: "portfolio_state \<Rightarrow> fill_event list \<Rightarrow> string + portfolio_state" where
  "apply_fills st [] = Inr st"
| "apply_fills st (fill # fills) = ebind (apply_fill st fill) (\<lambda>(st', _). apply_fills st' fills)"

definition rebuild_state :: "decimal \<Rightarrow> fill_event list \<Rightarrow> string + portfolio_state" where
  "rebuild_state initial_usdt_balance fills =
     apply_fills (new_portfolio_state initial_usdt_balance Spot ''cash'') (sorted_fills fills)"

section \<open>Facts\<close>

lemma restore_checkpoint [simp]: "restore st' (checkpoint st) =
    st'\<lparr>pf_positions := pf_positions st, pf_balances := pf_balances st, pf_realized_pnl := pf_realized_pnl st,
       pf_total_fees_paid := pf_total_fees_paid st, pf_applied_fill_ids := pf_applied_fill_ids st,
       pf_loaded_from_exchange_snapshot := pf_loaded_from_exchange_snapshot st\<rparr>"
  by (simp add: restore_def checkpoint_def)

lemma set_list_insert: "set (List.insert x xs) = insert x (set xs)"
  by simp

text \<open>A fill is applied, found applied, or refused for its fee; nothing else happens.\<close>

lemma apply_fill_again:
  assumes "fl_fill_id fill \<in> set (pf_applied_fill_ids st)"
  shows "\<exists>r. apply_fill st fill = Inr (st, r) \<and> \<not> fr_applied r \<and> fr_realized_pnl_delta r = 0 \<and> fr_fee_delta r = 0"
  using assms by (simp add: apply_fill_def Let_def)

text \<open>Storing under a key and cleaning up if flat is storing or removing.\<close>

lemma cleanup_update:
  "cleanup_if_flat k (AList.update k r ps) =
     (if is_effectively_zero (pr_quantity r) then AList.delete k ps else AList.update k r ps)"
  by (simp add: cleanup_if_flat_def delete_update_same)

lemma record_for_fill_sel [simp]:
  "pr_quantity (record_for_fill fill k q a) = q" "pr_avg_entry_price (record_for_fill fill k q a) = a"
  by (simp_all add: record_for_fill_def)

lemma ending_record:
  "pr_quantity (dict_get (cleanup_if_flat k (AList.update k (record_for_fill fill k q a) ps)) k (new_position_record s k))
     = (if is_effectively_zero q then 0 else q)"
  "pr_avg_entry_price (dict_get (cleanup_if_flat k (AList.update k (record_for_fill fill k q a) ps)) k (new_position_record s k))
     = (if is_effectively_zero q then 0 else a)"
  by (simp_all add: cleanup_update dict_get_def new_position_record_def)

lemma apply_fill_new:
  assumes "fl_fill_id fill \<notin> set (pf_applied_fill_ids st)"
    and "symbol_currencies (fl_symbol fill) = (base, quote)"
    and "position_after (pr_quantity ex) (pr_avg_entry_price ex)
           (if fl_side fill = Buy then fl_fill_qty fill else dneg (fl_fill_qty fill)) (fl_fill_price fill) = (q, a, pnl)"
    and "ex = dict_get (pf_positions st) (position_key_for_fill fill)
               (new_position_record (fl_symbol fill) (position_key_for_fill fill))"
    and "apply_fill st fill = Inr (st', r)"
  obtains fee where "fill_fee_delta_in_quote fill base quote = Inr fee"
    "pf_positions st' = cleanup_if_flat (position_key_for_fill fill)
       (AList.update (position_key_for_fill fill) (record_for_fill fill (position_key_for_fill fill) q a) (pf_positions st))"
    "pf_balances st' = settle_balances (fl_product_type fill) quote pnl (resolved_fee_currency fill base quote)
       (fl_fee_amount fill) (trade_balances (fl_product_type fill) (fl_side fill) base quote (fl_fill_qty fill)
         (dmul (fl_fill_qty fill) (fl_fill_price fill)) (pf_balances st))"
    "pf_realized_pnl st' = dadd (pf_realized_pnl st) (dsub pnl fee)"
    "pf_total_fees_paid st' = dadd (pf_total_fees_paid st) fee"
    "pf_applied_fill_ids st' = List.insert (fl_fill_id fill) (pf_applied_fill_ids st)"
    "fr_applied r" "fr_realized_pnl_delta r = dsub pnl fee" "fr_fee_delta r = fee"
    "fr_starting_quantity r = pr_quantity ex" "fr_starting_avg_entry_price r = pr_avg_entry_price ex"
    "fr_ending_quantity r = (if is_effectively_zero q then 0 else q)"
    "fr_ending_avg_entry_price r = (if is_effectively_zero q then 0 else a)"
  using assms(5) assms(1,2,3) unfolding assms(4)
  by (simp add: apply_fill_def Let_def ebind_eq_Inr_iff case_prod_beta)
    (elim exE conjE, hypsubst, simp add: ending_record)

lemma apply_fill_ids:
  assumes "apply_fill st fill = Inr (st', r)"
  shows "set (pf_applied_fill_ids st') = insert (fl_fill_id fill) (set (pf_applied_fill_ids st))"
proof (cases "fl_fill_id fill \<in> set (pf_applied_fill_ids st)")
  case True
  with assms apply_fill_again[OF True] show ?thesis by auto
next
  case False
  obtain base quote where c: "symbol_currencies (fl_symbol fill) = (base, quote)" by (cases "symbol_currencies (fl_symbol fill)")
  obtain q a pnl where p: "position_after (pr_quantity (dict_get (pf_positions st) (position_key_for_fill fill)
               (new_position_record (fl_symbol fill) (position_key_for_fill fill))))
      (pr_avg_entry_price (dict_get (pf_positions st) (position_key_for_fill fill)
               (new_position_record (fl_symbol fill) (position_key_for_fill fill))))
      (if fl_side fill = Buy then fl_fill_qty fill else dneg (fl_fill_qty fill)) (fl_fill_price fill) = (q, a, pnl)"
    by (metis prod_cases3)
  show ?thesis by (rule apply_fill_new[OF False c p refl assms]) simp
qed

text \<open>Raising depends on the fill alone, so a replay raises for the same fill or not at all.\<close>

lemma apply_fills_append: "apply_fills st (xs @ ys) = ebind (apply_fills st xs) (\<lambda>st'. apply_fills st' ys)"
  by (induction xs arbitrary: st) (auto simp: ebind_def split: sum.splits prod.splits)

lemma apply_fills_ids:
  "apply_fills st fills = Inr st' \<Longrightarrow>
   set (pf_applied_fill_ids st') = set (pf_applied_fill_ids st) \<union> fl_fill_id ` set fills"
proof (induction fills arbitrary: st)
  case (Cons f fs)
  then obtain st1 r where "apply_fill st f = Inr (st1, r)" "apply_fills st1 fs = Inr st'"
    by (auto simp: ebind_eq_Inr_iff)
  with Cons.IH[of st1] apply_fill_ids[of st f st1 r] show ?case by auto
qed simp

lemma apply_fills_redelivered:
  "fl_fill_id ` set fills \<subseteq> set (pf_applied_fill_ids st) \<Longrightarrow> apply_fills st fills = Inr st"
proof (induction fills)
  case (Cons f fs)
  then obtain r where "apply_fill st f = Inr (st, r)" using apply_fill_again[of f st] by auto
  with Cons show ?case by simp
qed simp

text \<open>Dropping a fill whose id was seen before does not change a replay.\<close>

lemma apply_fills_drop_seen:
  "seen = set (pf_applied_fill_ids st) \<Longrightarrow> apply_fills st (drop_seen fl_fill_id seen fills) = apply_fills st fills"
proof (induction fills arbitrary: st seen)
  case (Cons f fs)
  show ?case
  proof (cases "fl_fill_id f \<in> seen")
    case True
    then obtain r where "apply_fill st f = Inr (st, r)" using apply_fill_again[of f st] Cons.prems by auto
    with True Cons show ?thesis by simp
  next
    case False
    have "apply_fills st1 (drop_seen fl_fill_id (insert (fl_fill_id f) seen) fs) = apply_fills st1 fs"
      if "apply_fill st f = Inr (st1, r)" for st1 r
      using Cons.IH[of "insert (fl_fill_id f) seen" st1] apply_fill_ids[OF that] Cons.prems by simp
    with False show ?thesis by (cases "apply_fill st f") auto
  qed
qed simp

section \<open>Well-formed positions\<close>

text \<open>
  A stored position is never flat: its quantity is beyond the tolerance, its recorded exposure side
  is the sign of its quantity, its key is the key it is stored under, its entry price is not negative.
\<close>

definition position_ok :: "string \<Rightarrow> position_record \<Rightarrow> bool" where
  "position_ok k r \<longleftrightarrow> pr_position_key r = Some k \<and> \<not> is_effectively_zero (pr_quantity r)
     \<and> pr_exposure_side r = exposure_side_from_quantity (pr_quantity r) \<and> pr_exposure_side r \<noteq> ExpFlat
     \<and> 0 \<le> pr_avg_entry_price r"

definition positions_ok :: "(string \<times> position_record) list \<Rightarrow> bool" where
  "positions_ok ps \<longleftrightarrow> entries_ok position_ok ps"

lemma not_zero_beyond: "\<not> is_effectively_zero v \<Longrightarrow> EPSILON_DECIMAL_12 < v \<or> v < - EPSILON_DECIMAL_12"
  unfolding is_effectively_zero_iff
  using ctx28.rnd_upper[of EPSILON_DECIMAL_12 v] ctx28.rnd_lower[of "- EPSILON_DECIMAL_12" v] eps12_exact
  by (simp add: exact28_def ctx28.rnd_minus) linarith

lemma exposure_not_flat: "\<not> is_effectively_zero v \<Longrightarrow> exposure_side_from_quantity v \<noteq> ExpFlat"
  using not_zero_beyond[of v] by (auto simp: exposure_side_from_quantity_def exact_ops)

lemma position_after_avg_nonneg:
  assumes "position_after q a s p = (q', a', pnl)" "0 \<le> a" "0 \<le> p"
  shows "0 \<le> a'"
  using assms by (auto simp: position_after_def Let_def dec_signs split: if_splits)

lemma starting_avg_nonneg:
  assumes "positions_ok ps"
  shows "0 \<le> pr_avg_entry_price (dict_get ps k (new_position_record s k'))"
proof -
  have "entries_ok (\<lambda>k r. 0 \<le> pr_avg_entry_price r) ps"
    using assms unfolding positions_ok_def entries_ok_def position_ok_def by simp
  then show ?thesis by (rule entries_ok_dict_get) (simp add: new_position_record_def)
qed

text \<open>The ways a fill can be applied, with everything it determines named.\<close>

lemma apply_fill_cases:
  assumes "apply_fill st fill = Inr (st', r)"
  obtains "fl_fill_id fill \<in> set (pf_applied_fill_ids st)" "st' = st" "\<not> fr_applied r"
  | k ex base quote q a pnl fee where "fl_fill_id fill \<notin> set (pf_applied_fill_ids st)"
    "k = position_key_for_fill fill" "ex = dict_get (pf_positions st) k (new_position_record (fl_symbol fill) k)"
    "symbol_currencies (fl_symbol fill) = (base, quote)"
    "position_after (pr_quantity ex) (pr_avg_entry_price ex)
       (if fl_side fill = Buy then fl_fill_qty fill else dneg (fl_fill_qty fill)) (fl_fill_price fill) = (q, a, pnl)"
    "fill_fee_delta_in_quote fill base quote = Inr fee"
    "pf_positions st' = (if is_effectively_zero q then AList.delete k (pf_positions st)
       else AList.update k (record_for_fill fill k q a) (pf_positions st))"
    "pf_balances st' = settle_balances (fl_product_type fill) quote pnl (resolved_fee_currency fill base quote)
       (fl_fee_amount fill) (trade_balances (fl_product_type fill) (fl_side fill) base quote (fl_fill_qty fill)
         (dmul (fl_fill_qty fill) (fl_fill_price fill)) (pf_balances st))"
    "pf_realized_pnl st' = dadd (pf_realized_pnl st) (dsub pnl fee)"
    "fr_applied r" "fr_realized_pnl_delta r = dsub pnl fee" "fr_fee_delta r = fee"
    "fr_starting_quantity r = pr_quantity ex" "fr_starting_avg_entry_price r = pr_avg_entry_price ex"
    "fr_ending_quantity r = (if is_effectively_zero q then 0 else q)"
    "fr_ending_avg_entry_price r = (if is_effectively_zero q then 0 else a)"
proof (cases "fl_fill_id fill \<in> set (pf_applied_fill_ids st)")
  case True
  with that(1) assms apply_fill_again[OF True] show ?thesis by auto
next
  case False
  define k where "k = position_key_for_fill fill"
  define ex where "ex = dict_get (pf_positions st) k (new_position_record (fl_symbol fill) k)"
  obtain base quote where c: "symbol_currencies (fl_symbol fill) = (base, quote)"
    by (cases "symbol_currencies (fl_symbol fill)")
  obtain q a pnl where p: "position_after (pr_quantity ex) (pr_avg_entry_price ex)
      (if fl_side fill = Buy then fl_fill_qty fill else dneg (fl_fill_qty fill)) (fl_fill_price fill) = (q, a, pnl)"
    by (metis prod_cases3)
  have e: "ex = dict_get (pf_positions st) (position_key_for_fill fill)
               (new_position_record (fl_symbol fill) (position_key_for_fill fill))"
    by (simp add: ex_def k_def)
  show ?thesis
  proof (rule apply_fill_new[OF False c p e assms])
    fix fee
    assume "fill_fee_delta_in_quote fill base quote = Inr fee"
      "pf_positions st' = cleanup_if_flat (position_key_for_fill fill)
         (AList.update (position_key_for_fill fill) (record_for_fill fill (position_key_for_fill fill) q a) (pf_positions st))"
      "pf_balances st' = settle_balances (fl_product_type fill) quote pnl (resolved_fee_currency fill base quote)
         (fl_fee_amount fill) (trade_balances (fl_product_type fill) (fl_side fill) base quote (fl_fill_qty fill)
           (dmul (fl_fill_qty fill) (fl_fill_price fill)) (pf_balances st))"
      "pf_realized_pnl st' = dadd (pf_realized_pnl st) (dsub pnl fee)"
      "fr_applied r" "fr_realized_pnl_delta r = dsub pnl fee" "fr_fee_delta r = fee"
      "fr_starting_quantity r = pr_quantity ex" "fr_starting_avg_entry_price r = pr_avg_entry_price ex"
      "fr_ending_quantity r = (if is_effectively_zero q then 0 else q)"
      "fr_ending_avg_entry_price r = (if is_effectively_zero q then 0 else a)"
    then show ?thesis
      by (intro that(2)[OF False k_def ex_def c p]) (simp_all add: cleanup_update flip: k_def)
  qed
qed

lemma apply_fill_positions_ok:
  assumes "apply_fill st fill = Inr (st', r)" "positions_ok (pf_positions st)" "0 \<le> fl_fill_price fill"
  shows "positions_ok (pf_positions st')"
proof (rule apply_fill_cases[OF assms(1)])
  fix k ex base quote q a pnl fee
  assume ex: "ex = dict_get (pf_positions st) k (new_position_record (fl_symbol fill) k)"
    and p: "position_after (pr_quantity ex) (pr_avg_entry_price ex)
       (if fl_side fill = Buy then fl_fill_qty fill else dneg (fl_fill_qty fill)) (fl_fill_price fill) = (q, a, pnl)"
    and st': "pf_positions st' = (if is_effectively_zero q then AList.delete k (pf_positions st)
       else AList.update k (record_for_fill fill k q a) (pf_positions st))"
  have "0 \<le> a"
    using position_after_avg_nonneg[OF p] starting_avg_nonneg[OF assms(2)] assms(3) by (simp add: ex)
  then have "position_ok k (record_for_fill fill k q a)" if "\<not> is_effectively_zero q"
    using that exposure_not_flat[OF that] by (simp add: position_ok_def record_for_fill_def)
  then show ?thesis
    using assms(2) by (simp add: st' positions_ok_def entries_ok_update entries_ok_delete)
qed (use assms in simp)

lemma exchange_entry_ok:
  assumes "exchange_position_entry mm mode p = Some (k, r)" "0 \<le> to_decimal (ep_average_entry_price p)"
  shows "position_ok k r"
proof -
  let ?sq = "signed_quantity_for_position_side (Some (ep_quantity p)) (Some (ep_side p)) mode"
  from assms(1) obtain pt mm' where nz: "\<not> is_effectively_zero ?sq"
    and r: "r = record_of_exchange_position pt mm' mode k ?sq p"
    by (auto simp: exchange_position_entry_def Let_def split: if_splits)
  show ?thesis unfolding r
    using nz exposure_not_flat[OF nz] assms(2) by (simp add: position_ok_def record_of_exchange_position_def)
qed

lemma synthetic_not_zero:
  "entries_ok (\<lambda>_ q. \<not> is_effectively_zero q) (synthetic_spot_positions positions balances instruments)"
  unfolding synthetic_spot_positions_def
  by (rule entries_ok_foldl) (auto simp: Let_def entries_ok_update split: prod.split)

lemma load_exchange_positions_ok:
  assumes "\<forall>p \<in> set (ea_positions snapshot). 0 \<le> to_decimal (ep_average_entry_price p)"
  shows "positions_ok (pf_positions (load_exchange_snapshot st snapshot))"
proof -
  let ?entry = "exchange_position_entry (pf_default_margin_mode st) (snapshot_position_mode snapshot)"
  let ?add = "\<lambda>acc position. case ?entry position of None \<Rightarrow> acc
      | Some (position_key, record) \<Rightarrow> AList.update position_key record acc"
  have exch: "entries_ok position_ok (foldl ?add [] (ea_positions snapshot))"
  proof (rule entries_ok_foldl[OF entries_ok_Nil])
    fix d p
    assume "p \<in> set (ea_positions snapshot)" and d: "entries_ok position_ok d"
    with assms have "0 \<le> to_decimal (ep_average_entry_price p)" by (rule_tac bspec)
    with d show "entries_ok position_ok (?add d p)"
      by (cases "?entry p") (simp_all add: case_prod_beta entries_ok_update exchange_entry_ok)
  qed
  have add: "entries_ok position_ok (foldl (\<lambda>acc (symbol, quantity). AList.update symbol
        ((new_position_record symbol symbol)\<lparr>pr_quantity := quantity,
           pr_exposure_side := exposure_side_from_quantity quantity\<rparr>) acc) acc qs)"
    if "entries_ok position_ok acc" "entries_ok (\<lambda>_ q. \<not> is_effectively_zero q) qs" for acc qs
  proof (rule entries_ok_foldl[OF that(1)])
    fix d and x :: "string \<times> decimal"
    assume x: "x \<in> set qs" and d: "entries_ok position_ok d"
    then have "\<not> is_effectively_zero (snd x)" using that(2) by (simp add: entries_ok_def)
    with d show "entries_ok position_ok ((\<lambda>(symbol, quantity). AList.update symbol
        ((new_position_record symbol symbol)\<lparr>pr_quantity := quantity,
           pr_exposure_side := exposure_side_from_quantity quantity\<rparr>) d) x)"
      by (simp add: case_prod_beta entries_ok_update position_ok_def new_position_record_def exposure_not_flat)
  qed
  have sel: "pf_positions (st\<lparr>pf_positions := ps, pf_balances := bs, pf_realized_pnl := 0, pf_total_fees_paid := 0,
      pf_applied_fill_ids := [], pf_loaded_from_exchange_snapshot := True\<rparr>) = ps" for ps bs
    by simp
  show ?thesis
  proof (cases "pf_default_product_type st = Spot \<and> ea_positions snapshot = []")
    case True
    show ?thesis unfolding positions_ok_def load_exchange_snapshot_def Let_def sel if_P[OF True]
      by (rule add[OF exch synthetic_not_zero])
  next
    case False
    show ?thesis unfolding positions_ok_def load_exchange_snapshot_def Let_def sel if_not_P[OF False] by (rule exch)
  qed
qed

section \<open>The value of a position\<close>

text \<open>
  The trade is exact in the decimal context, and no quantity involved is a dust amount within the
  tolerance but not zero.
\<close>

definition exact_trade :: "decimal \<Rightarrow> decimal \<Rightarrow> decimal \<Rightarrow> decimal \<Rightarrow> bool" where
  "exact_trade q a s p \<longleftrightarrow> exact28 q \<and> exact28 s \<and> exact28 (q + s)
     \<and> (if 0 \<le> q * s then exact28 (\<bar>q\<bar> * a) \<and> exact28 (\<bar>s\<bar> * p) \<and> exact28 (\<bar>q\<bar> * a + \<bar>s\<bar> * p)
                            \<and> exact28 ((\<bar>q\<bar> * a + \<bar>s\<bar> * p) / \<bar>q + s\<bar>)
        else exact28 (p - a) \<and> exact28 ((p - a) * min \<bar>q\<bar> \<bar>s\<bar>))"

definition not_dust :: "decimal \<Rightarrow> bool" where
  "not_dust x \<longleftrightarrow> x = 0 \<or> EPSILON_DECIMAL_12 < \<bar>x\<bar>"

lemma not_dust_zero: "exact28 x \<Longrightarrow> not_dust x \<Longrightarrow> is_effectively_zero x \<longleftrightarrow> x = 0"
  by (auto simp: not_dust_def is_effectively_zero_def exact_ops)

lemma same_direction_sign:
  "exact28 x \<Longrightarrow> exact28 y \<Longrightarrow> not_dust x \<Longrightarrow> not_dust y \<Longrightarrow> same_direction x y \<longleftrightarrow> 0 \<le> x * y"
  by (auto simp: same_direction_def not_dust_def exact_ops zero_le_mult_iff) (use eps12_pos in linarith)+

lemma abs_same_sign: "0 \<le> q * (s :: decimal) \<Longrightarrow> \<bar>q + s\<bar> = \<bar>q\<bar> + \<bar>s\<bar>"
  by (auto simp: zero_le_mult_iff)

lemma weighted_same_sign:
  assumes "0 \<le> q * (s :: decimal)" "q + s \<noteq> 0"
  shows "(\<bar>q\<bar> * a + \<bar>s\<bar> * p) / \<bar>q + s\<bar> * (q + s) = q * a + s * p"
proof (cases "0 < q + s")
  case True
  with assms have "0 \<le> q" "0 \<le> s" by (auto simp: zero_le_mult_iff)
  with True show ?thesis by simp
next
  case False
  with assms have n: "q \<le> 0" "s \<le> 0" "q + s < 0" by (auto simp: zero_le_mult_iff)
  then have "\<bar>q\<bar> * a + \<bar>s\<bar> * p = - (q * a + s * p)" by simp
  moreover have "\<bar>q + s\<bar> = - (q + s)" using n by simp
  ultimately show ?thesis using n by (simp add: field_simps)
qed

lemma position_after_value:
  assumes "exact_trade q a s p" "not_dust q" "not_dust s" "not_dust (q + s)"
    and "position_after q a s p = (q', a', pnl)"
  shows "q' = q + s" and "(m - (if q' = 0 then 0 else a')) * q' + pnl = (m - a) * q + (m - p) * s"
proof -
  have ex: "exact28 q" "exact28 s" "exact28 (q + s)" using assms(1) by (auto simp: exact_trade_def)
  note z = not_dust_zero[OF ex(3) assms(4)]
  note same = same_direction_sign[OF ex(1,2) assms(2,3)]
  note same' = same_direction_sign[OF ex(1,3) assms(2,4)]
  show q': "q' = q + s"
    using assms(5) ex by (auto simp: position_after_def Let_def exact_ops split: if_splits)
  show "(m - (if q' = 0 then 0 else a')) * q' + pnl = (m - a) * q + (m - p) * s"
  proof (cases "0 \<le> q * s")
    case True
    have t: "dadd (dmul (dabs q) a) (dmul (dabs s) p) = \<bar>q\<bar> * a + \<bar>s\<bar> * p"
      using True assms(1) by (simp add: exact_trade_def exact_ops)
    have d: "ddiv (\<bar>q\<bar> * a + \<bar>s\<bar> * p) (dabs (q + s)) = (\<bar>q\<bar> * a + \<bar>s\<bar> * p) / \<bar>q + s\<bar>"
      using True assms(1) by (simp add: exact_trade_def exact_ops)
    have pnl: "pnl = 0" and a': "q + s \<noteq> 0 \<Longrightarrow> a' = (\<bar>q\<bar> * a + \<bar>s\<bar> * p) / \<bar>q + s\<bar>"
      using True assms(5) t d z by (auto simp: position_after_def Let_def same exact_ops(1)[OF ex(3)])
    show ?thesis
    proof (cases "q + s = 0")
      case True
      with \<open>0 \<le> q * s\<close> have "q = 0" "s = 0" by (auto simp: zero_le_mult_iff)
      then show ?thesis by (simp add: pnl q')
    next
      case False
      from weighted_same_sign[OF True False, of a p] show ?thesis
        by (simp add: a'[OF False] pnl q' False left_diff_distrib) (simp add: algebra_simps)
    qed
  next
    case False
    have e: "exact28 (p - a)" "exact28 ((p - a) * min \<bar>q\<bar> \<bar>s\<bar>)"
      using False assms(1) by (auto simp: exact_trade_def)
    have e': "exact28 (a - p)" "exact28 ((a - p) * min \<bar>q\<bar> \<bar>s\<bar>)"
      using e exact28_minus[of "p - a"] exact28_minus[of "(p - a) * min \<bar>q\<bar> \<bar>s\<bar>"] by (simp_all flip: mult_minus_left)
    have pnl: "pnl = (if 0 < q then p - a else a - p) * min \<bar>q\<bar> \<bar>s\<bar>"
      and a': "a' = (if q + s = 0 then 0 else if 0 \<le> q * (q + s) then a else p)"
      using False assms(5) z e e' ex by (auto simp: position_after_def same same' Let_def exact_ops)
    show ?thesis
    proof (cases "q + s = 0")
      case True
      then have s: "s = - q" by simp
      show ?thesis by (simp add: pnl q' s) (auto simp: algebra_simps)
    next
      case sum: False
      from False sum consider "0 < q" "s < 0" "0 < q + s" | "0 < q" "s < 0" "q + s < 0"
        | "q < 0" "0 < s" "0 < q + s" | "q < 0" "0 < s" "q + s < 0"
        by (auto simp: zero_le_mult_iff not_le neq_iff)
      then show ?thesis
      proof cases
        case 1
        then have "a' = a" "pnl = (p - a) * (- s)" by (simp_all add: pnl a' zero_le_mult_iff min_def)
        with sum show ?thesis by (simp add: q' algebra_simps)
      next
        case 2
        then have "a' = p" "pnl = (p - a) * q" by (simp_all add: pnl a' zero_le_mult_iff min_def)
        with sum show ?thesis by (simp add: q' algebra_simps)
      next
        case 3
        then have "a' = p" "pnl = (a - p) * (- q)" by (simp_all add: pnl a' zero_le_mult_iff min_def)
        with sum show ?thesis by (simp add: q' algebra_simps)
      next
        case 4
        then have "a' = a" "pnl = (a - p) * s" by (simp_all add: pnl a' zero_le_mult_iff min_def)
        with sum show ?thesis by (simp add: q' algebra_simps)
      qed
    qed
  qed
qed

section \<open>Balances\<close>

lemma dict_get_trade:
  assumes "base \<noteq> quote"
  shows "dict_get (trade_balances Spot side (Some base) (Some quote) qty n bs) c 0 =
    (if c = base then (if side = Buy then dadd (dict_get bs base 0) qty else dsub (dict_get bs base 0) qty)
     else if c = quote then (if side = Buy then dsub (dict_get bs quote 0) n else dadd (dict_get bs quote 0) n)
     else dict_get bs c 0)"
  using assms by (simp add: trade_balances_def Let_def)

lemma dict_get_settle_spot:
  "dict_get (settle_balances Spot quote pnl (Some fc) fee bs) c 0 =
    (if c = fc then dsub (dict_get bs fc 0) fee else dict_get bs c 0)"
  by (simp add: settle_balances_def split: option.split)

lemma example_fill_id [simp]: "fl_fill_id (example_fill i s q p) = i"
  and example_fill_price [simp]: "fl_fill_price (example_fill i s q p) = p"
  and example_fill_no_fee [simp]: "fill_fee_delta_in_quote (example_fill i s q p) b c = Inr 0"
  by (simp_all add: example_fill_def new_fill_event_def fill_fee_delta_in_quote_def case_prod_beta)

section \<open>Properties\<close>

text \<open>The only error is a fee in a currency that cannot be valued, and it depends on the fill alone.\<close>

lemma apply_fill_error:
  "apply_fill st fill = Inl e \<Longrightarrow>
   fill_fee_delta_in_quote fill (fst (symbol_currencies (fl_symbol fill))) (snd (symbol_currencies (fl_symbol fill))) = Inl e"
  by (simp add: apply_fill_def Let_def case_prod_beta ebind_eq_Inl_iff split: if_splits)

lemma example_applied:
  obtains st' r where "apply_fill (new_portfolio_state b Spot ''cash'') (example_fill i s q p) = Inr (st', r)"
    "fr_applied r" "fr_starting_quantity r = 0" "fr_starting_avg_entry_price r = 0" "fr_fee_delta r = 0"
proof -
  obtain st' r where ap: "apply_fill (new_portfolio_state b Spot ''cash'') (example_fill i s q p) = Inr (st', r)"
    using apply_fill_error[of "new_portfolio_state b Spot ''cash''" "example_fill i s q p"]
    by (cases "apply_fill (new_portfolio_state b Spot ''cash'') (example_fill i s q p)") auto
  have empty: "pf_applied_fill_ids (new_portfolio_state b Spot ''cash'') = []" "pf_positions (new_portfolio_state b Spot ''cash'') = []"
    by (simp_all add: new_portfolio_state_def)
  show ?thesis
    by (rule apply_fill_cases[OF ap], simp add: empty, rule that[OF ap])
      (simp_all add: empty dict_get_def new_position_record_def)
qed

text \<open>
  A fill is booked once: whatever fills carry ids that were applied already, delivering them
  again, in any number and order, leaves the whole portfolio state as it is.
\<close>

theorem portfolio_redelivery_idempotent:
  assumes "apply_fills st fills = Inr st'" "fl_fill_id ` set redelivered \<subseteq> fl_fill_id ` set fills"
  shows "apply_fills st' redelivered = Inr st'"
  using apply_fills_ids[OF assms(1)] assms(2) by (intro apply_fills_redelivered) blast

theorem portfolio_redelivery_idempotent_witness:
  "\<exists>st'. apply_fills (new_portfolio_state 1000 Spot ''cash'') [example_fill ''f1'' Buy 1 90, example_fill ''f2'' Sell 1 95] = Inr st'
     \<and> apply_fills st' [example_fill ''f2'' Sell 1 95, example_fill ''f1'' Buy 1 90, example_fill ''f2'' Sell 1 95] = Inr st'"
proof -
  have "\<exists>st'. apply_fills (new_portfolio_state 1000 Spot ''cash'') [example_fill ''f1'' Buy 1 90, example_fill ''f2'' Sell 1 95] = Inr st'"
    by (simp add: apply_fill_def Let_def case_prod_beta example_fill_no_fee)
  then obtain st' where "apply_fills (new_portfolio_state 1000 Spot ''cash'')
      [example_fill ''f1'' Buy 1 90, example_fill ''f2'' Sell 1 95] = Inr st'" by blast
  moreover have "apply_fills st' [example_fill ''f2'' Sell 1 95, example_fill ''f1'' Buy 1 90, example_fill ''f2'' Sell 1 95] = Inr st'"
    by (rule portfolio_redelivery_idempotent[OF calculation]) simp
  ultimately show ?thesis by blast
qed

text \<open>
  Reconstruction depends on which fills there are, not on how they arrived: any two
  deliveries of the same fills, in any order and with any duplicates, rebuild the same state or
  raise the same error.
\<close>

theorem rebuild_state_order_independent:
  assumes "set xs = set ys" "inj_on fl_fill_id (set xs)"
  shows "rebuild_state balance xs = rebuild_state balance ys"
proof -
  have "inj_on fill_processing_sort_key (set xs)"
    using assms(2) by (simp add: inj_on_def fill_processing_sort_key_def)
  from drop_seen_sort_unique[OF assms this] show ?thesis
    unfolding rebuild_state_def sorted_fills_def
    using apply_fills_drop_seen[of "{}" "new_portfolio_state balance Spot ''cash''"]
    by (simp add: new_portfolio_state_def) metis
qed

theorem rebuild_state_order_independent_witness:
  "rebuild_state 1000 [example_fill ''a'' Buy 1 90, example_fill ''b'' Sell 1 95, example_fill ''a'' Buy 1 90]
   = rebuild_state 1000 [example_fill ''b'' Sell 1 95, example_fill ''a'' Buy 1 90]"
  by (rule rebuild_state_order_independent) (auto simp: inj_on_def example_fill_id)

text \<open>
  Positions stay well-formed: starting from a state loaded from an exchange snapshot, after any
  fills at non-negative prices every stored position is stored under its own key, is not flat, and
  its recorded exposure side is the sign of its quantity.
\<close>

theorem positions_stay_well_formed:
  assumes "apply_fills (load_exchange_snapshot st snapshot) fills = Inr st'"
    and "\<forall>p \<in> set (ea_positions snapshot). 0 \<le> to_decimal (ep_average_entry_price p)"
    and "\<forall>f \<in> set fills. 0 \<le> fl_fill_price f"
  shows "positions_ok (pf_positions st')"
proof -
  have "positions_ok (pf_positions st2)"
    if "apply_fills st1 fills = Inr st2" "positions_ok (pf_positions st1)" "\<forall>f \<in> set fills. 0 \<le> fl_fill_price f"
    for st1 st2
    using that
  proof (induction fills arbitrary: st1)
    case (Cons f fs)
    from Cons.prems(1) obtain st3 r where s: "apply_fill st1 f = Inr (st3, r)" "apply_fills st3 fs = Inr st2"
      by (auto simp: ebind_eq_Inr_iff)
    have "positions_ok (pf_positions st3)"
      using apply_fill_positions_ok[OF s(1) Cons.prems(2)] Cons.prems(3) by simp
    from Cons.IH[OF s(2) this] Cons.prems(3) show ?case by simp
  qed simp
  from this[OF assms(1) load_exchange_positions_ok[OF assms(2)] assms(3)] show ?thesis .
qed

definition example_snapshot :: exchange_account_snapshot where
  "example_snapshot = \<lparr>ea_balances = [\<lparr>eb_currency = ''BTC'', eb_total = 2, eb_available = 2, eb_frozen = 0\<rparr>],
     ea_positions = [], ea_instruments = [(''BTC-USDT'', ''BTC'', ''USDT'')], ea_position_mode = None,
     ea_account_configuration = None\<rparr>"

theorem positions_stay_well_formed_witness:
  "\<exists>st'. apply_fills (load_exchange_snapshot (new_portfolio_state 0 Spot ''cash'') example_snapshot)
      [example_fill ''f1'' Sell 1 90] = Inr st' \<and> positions_ok (pf_positions st')"
proof -
  have "\<exists>st'. apply_fills (load_exchange_snapshot (new_portfolio_state 0 Spot ''cash'') example_snapshot)
      [example_fill ''f1'' Sell 1 90] = Inr st'"
    by (simp add: apply_fill_def Let_def case_prod_beta example_fill_no_fee)
  then obtain st' where st': "apply_fills (load_exchange_snapshot (new_portfolio_state 0 Spot ''cash'') example_snapshot)
      [example_fill ''f1'' Sell 1 90] = Inr st'" by blast
  from positions_stay_well_formed[OF this] have "positions_ok (pf_positions st')"
    by (simp add: example_snapshot_def example_fill_price)
  with st' show ?thesis by blast
qed



text \<open>
  A spot trade moves value, it does not create it: valued at the price of the fill, the base and
  quote balances together change by exactly the fee, whichever of the two the fee is charged in,
  and every other currency is untouched. The hypotheses say that the balances involved are
  held exactly.
\<close>

theorem spot_fill_conserves_balances:
  fixes st fill st'
  defines "bal \<equiv> \<lambda>s c. dict_get (pf_balances s) c 0" and "p \<equiv> fl_fill_price fill" and "qty \<equiv> fl_fill_qty fill"
  defines "dir \<equiv> if fl_side fill = Buy then 1 else (- 1 :: decimal)"
  assumes "apply_fill st fill = Inr (st', r)" "fr_applied r" "fl_product_type fill = Spot"
    and "symbol_currencies (fl_symbol fill) = (Some base, Some quote)" "base \<noteq> quote"
    and "resolved_fee_currency fill (Some base) (Some quote) = Some fc" "fc = base \<or> fc = quote"
    and "exact28 (qty * p)" "exact28 (fl_fee_amount fill * p)"
    and "exact28 (bal st base + dir * qty)" "exact28 (bal st quote - dir * (qty * p))"
    and "exact28 (bal st base + dir * qty - fl_fee_amount fill)"
    and "exact28 (bal st quote - dir * (qty * p) - fl_fee_amount fill)"
  shows "bal st' quote + p * bal st' base = bal st quote + p * bal st base - fr_fee_delta r
    \<and> (\<forall>c. c \<noteq> base \<longrightarrow> c \<noteq> quote \<longrightarrow> bal st' c = bal st c)"
proof (rule apply_fill_cases[OF assms(5)])
  fix k ex b q q' a' pnl fee
  assume c: "symbol_currencies (fl_symbol fill) = (b, q)" and f: "fill_fee_delta_in_quote fill b q = Inr fee"
    and bs: "pf_balances st' = settle_balances (fl_product_type fill) q pnl (resolved_fee_currency fill b q)
       (fl_fee_amount fill) (trade_balances (fl_product_type fill) (fl_side fill) b q (fl_fill_qty fill)
         (dmul (fl_fill_qty fill) (fl_fill_price fill)) (pf_balances st))"
    and r: "fr_fee_delta r = fee"
  from c assms(8) have cur: "b = Some base" "q = Some quote" by simp_all
  have n: "dmul (fl_fill_qty fill) (fl_fill_price fill) = qty * p" using assms(12) by (simp add: exact_ops qty_def p_def)
  have B: "(if fl_side fill = Buy then dadd (bal st base) qty else dsub (bal st base) qty) = bal st base + dir * qty"
    using assms(14) by (cases "fl_side fill = Buy") (simp_all add: dir_def exact_ops)
  have Q: "(if fl_side fill = Buy then dsub (bal st quote) (qty * p) else dadd (bal st quote) (qty * p))
      = bal st quote - dir * (qty * p)"
    using assms(15) by (cases "fl_side fill = Buy") (simp_all add: dir_def exact_ops)
  have get: "bal st' c = (if c = fc then dsub x (fl_fee_amount fill) else x)"
    if "x = (if c = base then bal st base + dir * qty else if c = quote then bal st quote - dir * (qty * p) else bal st c)" for c x
    unfolding that bal_def bs cur assms(7,10) dict_get_settle_spot dict_get_trade[OF assms(9)] n
    using B Q by (auto simp: bal_def qty_def)
  have fee: "fee = (if fc = base then fl_fee_amount fill * p else fl_fee_amount fill)"
    using f assms(9-11,13) unfolding cur
    by (auto simp: fill_fee_delta_in_quote_def resolve_pair_def p_def Let_def exact_ops split: if_splits)
  show ?thesis
    using assms(9,11,16,17) by (auto simp: get[OF refl] fee r exact_ops algebra_simps)
qed (use assms(6) in simp)

theorem spot_fill_conserves_balances_witness:
  "\<exists>st' r. apply_fill (new_portfolio_state 1000 Spot ''cash'') (example_fill ''f1'' Buy 1 90) = Inr (st', r)
     \<and> dict_get (pf_balances st') ''USDT'' 0 + 90 * dict_get (pf_balances st') ''BTC'' 0 = 1000"
proof -
  let ?st = "new_portfolio_state 1000 Spot ''cash''" and ?f = "example_fill ''f1'' Buy 1 90"
  obtain st' r where ap: "apply_fill ?st ?f = Inr (st', r)" and r: "fr_applied r" "fr_fee_delta r = 0"
    by (rule example_applied)
  have cur: "symbol_currencies (fl_symbol ?f) = (Some ''BTC'', Some ''USDT'')"
    "resolved_fee_currency ?f (Some ''BTC'') (Some ''USDT'') = Some ''USDT''"
    by (simp_all add: example_fill_def new_fill_event_def resolve_symbol_currencies_def resolved_fee_currency_def)
  have f: "fl_product_type ?f = Spot" "fl_fill_qty ?f = 1" "fl_fee_amount ?f = 0" "fl_side ?f = Buy"
    by (simp_all add: example_fill_def new_fill_event_def)
  have b: "dict_get (pf_balances ?st) ''BTC'' 0 = 0" "dict_get (pf_balances ?st) ''USDT'' 0 = 1000"
    by (simp_all add: new_portfolio_state_def dict_get_def)
  from spot_fill_conserves_balances[OF ap r(1) f(1) cur(1) _ cur(2)] r(2) f b
  have "dict_get (pf_balances st') ''USDT'' 0 + 90 * dict_get (pf_balances st') ''BTC'' 0 = 1000" by simp
  with ap show ?thesis by blast
qed

end
