(* ===== verification/Portfolio_Snapshots.thy ===== *)
theory Portfolio_Snapshots
  imports Portfolio_State "HOL-Library.Monad_Syntax"
begin

text \<open>
  Valuing the portfolio: \<^verbatim>\<open>PortfolioSnapshotBuilder\<close> (\<^verbatim>\<open>snapshots.py\<close>),
  \<^verbatim>\<open>PortfolioPnLCalculator\<close> (\<^verbatim>\<open>pnl.py\<close>), loading a stored snapshot back
  (\<^verbatim>\<open>PortfolioState.load_portfolio_snapshot\<close>) and the per-instrument view of
  \<^verbatim>\<open>instrument_states.py\<close>, all of \<^verbatim>\<open>aats/services/portfolio_service\<close>. Building
  returns \<open>None\<close> where the code raises: a value that does not fit the snapshot quantum in 28
  digits, or a margin mode, position mode or side outside its literal type. The price provider is an
  argument.
\<close>

section \<open>Snapshots\<close>

datatype snapshot_origin =
    FillDerived | ExchangeImport | OperatorRebaseline | LocalRepair | RuntimeBootstrap
  | RecoveryRebuild | RecoveryAutoHealed | ManualRebuild

text \<open>\<open>None\<close> is the empty exposure side.\<close>

record position =
  po_symbol :: string
  po_position_key :: "string option"
  po_position_qty :: decimal
  po_position_notional :: decimal
  po_avg_entry_price :: decimal
  po_unrealized_pnl :: decimal
  po_product_type :: product_type
  po_exposure_side :: "exposure_side option"
  po_target_leverage :: decimal
  po_margin_mode :: string
  po_position_mode :: "string option"
  po_pos_side :: "string option"
  po_instrument_family :: "string option"
  po_settle_currency :: "string option"
  po_margin_allocated :: decimal
  po_maintenance_margin :: decimal
  po_margin_ratio :: "decimal option"
  po_liquidation_price :: "decimal option"
  po_margin_source :: string

record portfolio_snapshot =
  ps_decision_id :: "string option"
  ps_source_intent_id :: "string option"
  ps_source_fill_id :: "string option"
  ps_snapshot_origin :: snapshot_origin
  ps_snapshot_ts :: datetime
  ps_balances :: "(string \<times> decimal) list"
  ps_positions :: "position list"
  ps_cost_basis :: "(string \<times> decimal) list"
  ps_realized_pnl :: decimal
  ps_unrealized_pnl :: decimal
  ps_total_equity :: decimal
  ps_gross_exposure :: decimal
  ps_net_exposure :: decimal
  ps_risk_budget_usage :: "(string \<times> decimal) list"
  ps_product_type :: product_type
  ps_margin_mode :: string
  ps_margin_usage :: decimal
  ps_leverage_profile :: "(string \<times> decimal) list"
  ps_cash_equity :: decimal
  ps_spot_asset_equity :: decimal
  ps_off_position_asset_equity :: decimal
  ps_derivatives_unrealized_pnl :: decimal
  ps_collateral_value :: decimal

definition is_legacy_baseline_snapshot :: "portfolio_snapshot \<Rightarrow> bool" where
  "is_legacy_baseline_snapshot snapshot \<longleftrightarrow>
     ps_source_fill_id snapshot = None \<and> ps_source_intent_id snapshot = None"

definition is_trusted_baseline_snapshot :: "portfolio_snapshot \<Rightarrow> bool" where
  "is_trusted_baseline_snapshot snapshot \<longleftrightarrow> ps_snapshot_origin snapshot \<in> {ExchangeImport, OperatorRebaseline}"

definition is_baseline_snapshot :: "portfolio_snapshot \<Rightarrow> bool" where
  "is_baseline_snapshot snapshot \<longleftrightarrow>
     ps_snapshot_origin snapshot \<in> {ExchangeImport, OperatorRebaseline, RuntimeBootstrap, RecoveryRebuild,
                                    RecoveryAutoHealed, ManualRebuild}
     \<or> is_legacy_baseline_snapshot snapshot"

section \<open>Building\<close>

definition unrealized_pnl :: "decimal \<Rightarrow> decimal \<Rightarrow> decimal \<Rightarrow> decimal" where
  "unrealized_pnl position_qty avg_entry_price mark_price = dmul (dsub mark_price avg_entry_price) position_qty"

definition builder_symbol_currencies :: "string \<Rightarrow> string option \<times> string option" where
  "builder_symbol_currencies symbol =
     (if CHR ''-'' \<notin> set symbol then (if symbol = [] then None else Some symbol, None)
      else let parts = py_split CHR ''-'' symbol;
               non_empty = (\<lambda>s. if s = [] then None else Some s)
           in (non_empty (parts ! 0), non_empty (parts ! 1)))"

text \<open>What the loop computes for one position before quantizing.\<close>

definition record_notional :: "(string \<Rightarrow> decimal) \<Rightarrow> position_record \<Rightarrow> decimal" where
  "record_notional price_provider record = dmul (pr_quantity record) (price_provider (pr_symbol record))"

definition record_unrealized :: "(string \<Rightarrow> decimal) \<Rightarrow> position_record \<Rightarrow> decimal" where
  "record_unrealized price_provider record =
     unrealized_pnl (pr_quantity record) (pr_avg_entry_price record) (price_provider (pr_symbol record))"

definition from_exchange :: "position_record \<Rightarrow> bool" where
  "from_exchange record \<longleftrightarrow> py_lower (pr_margin_source record) = ''exchange''"

definition resolved_margin_allocated :: "(string \<Rightarrow> decimal) \<Rightarrow> position_record \<Rightarrow> decimal" where
  "resolved_margin_allocated price_provider record =
     (if from_exchange record then pr_margin_allocated record
      else if pr_product_type record = Derivatives
      then ddiv (dabs (record_notional price_provider record)) (max (pr_target_leverage record) 1)
      else 0)"

definition position_literals_ok :: "position_record \<Rightarrow> bool" where
  "position_literals_ok record \<longleftrightarrow>
     pr_margin_mode record \<in> {''cash'', ''cross'', ''isolated''}
     \<and> pr_position_mode record \<in> {None, Some ''net_mode'', Some ''long_short_mode''}
     \<and> pr_pos_side record \<in> {None, Some ''net'', Some ''long'', Some ''short''}"

definition quantize_opt :: "decimal option \<Rightarrow> decimal option option" where
  "quantize_opt v = (case v of None \<Rightarrow> Some None | Some x \<Rightarrow> map_option Some (quantize_decimal x))"

definition snapshot_position :: "(string \<Rightarrow> decimal) \<Rightarrow> string \<times> position_record \<Rightarrow> position option" where
  "snapshot_position price_provider entry =
     (let (position_key, record) = entry
      in do {
        qty \<leftarrow> quantize_decimal (pr_quantity record);
        notional \<leftarrow> quantize_decimal (record_notional price_provider record);
        avg \<leftarrow> quantize_decimal (pr_avg_entry_price record);
        unrealized \<leftarrow> quantize_decimal (record_unrealized price_provider record);
        margin \<leftarrow> quantize_decimal (resolved_margin_allocated price_provider record);
        maintenance \<leftarrow> quantize_decimal (if from_exchange record then pr_maintenance_margin record else 0);
        ratio \<leftarrow> quantize_opt (if from_exchange record then pr_margin_ratio record else None);
        liquidation \<leftarrow> quantize_opt (if from_exchange record then pr_liquidation_price record else None);
        if position_literals_ok record then
          Some \<lparr>po_symbol = pr_symbol record,
            po_position_key = Some position_key,
            po_position_qty = qty,
            po_position_notional = notional,
            po_avg_entry_price = avg,
            po_unrealized_pnl = unrealized,
            po_product_type = pr_product_type record,
            po_exposure_side = Some (pr_exposure_side record),
            po_target_leverage = pr_target_leverage record,
            po_margin_mode = pr_margin_mode record,
            po_position_mode = pr_position_mode record,
            po_pos_side = pr_pos_side record,
            po_instrument_family = pr_instrument_family record,
            po_settle_currency = pr_settle_currency record,
            po_margin_allocated = margin,
            po_maintenance_margin = maintenance,
            po_margin_ratio = ratio,
            po_liquidation_price = liquidation,
            po_margin_source = (if from_exchange record then ''exchange'' else ''estimated'')\<rparr>
        else None
      })"

definition quantize_dict :: "(string \<times> decimal) list \<Rightarrow> (string \<times> decimal) list option" where
  "quantize_dict d = those (map (\<lambda>(k, v). map_option (Pair k) (quantize_decimal v)) d)"

definition off_position_equity ::
  "(string \<Rightarrow> decimal) \<Rightarrow> string set \<Rightarrow> (string \<times> decimal) list \<Rightarrow> decimal" where
  "off_position_equity price_provider tracked balances =
     dsum (map (\<lambda>(currency, balance). dmul balance (price_provider (currency @ ''-USDT'')))
       (filter (\<lambda>(currency, balance). \<not> (currency = ''USDT'' \<or> currency \<in> tracked \<or> is_effectively_zero balance)
                  \<and> 0 < price_provider (currency @ ''-USDT'')) balances))"

text \<open>
  The running sums of the loop start at zero and add one position after the other, which is
  \<open>dsum\<close> over the positions.
\<close>

definition build_snapshot ::
  "portfolio_state \<Rightarrow> (string \<Rightarrow> decimal) \<Rightarrow> datetime \<Rightarrow> string option \<Rightarrow> string option \<Rightarrow> string option
   \<Rightarrow> snapshot_origin \<Rightarrow> portfolio_snapshot option"
where
  "build_snapshot st price_provider now decision_id source_intent_id source_fill_id origin =
     (let records = map snd (pf_positions st);
          notional = record_notional price_provider;
          unrealized = record_unrealized price_provider;
          derivatives = filter (\<lambda>r. pr_product_type r = Derivatives) records;
          spots = filter (\<lambda>r. pr_product_type r \<noteq> Derivatives) records;
          gross_exposure = dsum (map (\<lambda>r. dabs (notional r)) records);
          net_exposure = dsum (map notional records);
          total_unrealized = dsum (map unrealized records);
          derivatives_unrealized = dsum (map unrealized derivatives);
          margin_usage = dsum (map (resolved_margin_allocated price_provider) derivatives);
          spot_marked_value = dsum (map notional spots);
          tracked = set (List.map_filter (\<lambda>r. fst (builder_symbol_currencies (pr_symbol r))) spots);
          cash_equity = dict_get (pf_balances st) ''USDT'' 0;
          other_asset_equity = off_position_equity price_provider tracked (pf_balances st);
          collateral_value = dadd (dadd cash_equity spot_marked_value) other_asset_equity;
          total_equity = dadd collateral_value derivatives_unrealized
      in do {
        positions \<leftarrow> those (map (snapshot_position price_provider) (pf_positions st));
        balances \<leftarrow> quantize_dict (pf_balances st);
        cost_basis \<leftarrow> quantize_dict (map (\<lambda>(k, r). (k, pr_avg_entry_price r)) (pf_positions st));
        realized \<leftarrow> quantize_decimal (pf_realized_pnl st);
        unrealized_q \<leftarrow> quantize_decimal total_unrealized;
        equity \<leftarrow> quantize_decimal total_equity;
        gross \<leftarrow> quantize_decimal gross_exposure;
        net \<leftarrow> quantize_decimal net_exposure;
        margin \<leftarrow> quantize_decimal margin_usage;
        cash \<leftarrow> quantize_decimal cash_equity;
        spot \<leftarrow> quantize_decimal spot_marked_value;
        off_position \<leftarrow> quantize_decimal other_asset_equity;
        derivatives_q \<leftarrow> quantize_decimal derivatives_unrealized;
        collateral \<leftarrow> quantize_decimal collateral_value;
        if pf_default_margin_mode st \<in> {''cash'', ''cross'', ''isolated''} then
          Some \<lparr>ps_decision_id = decision_id, ps_source_intent_id = source_intent_id,
            ps_source_fill_id = source_fill_id, ps_snapshot_origin = origin, ps_snapshot_ts = now,
            ps_balances = balances, ps_positions = positions, ps_cost_basis = cost_basis,
            ps_realized_pnl = realized, ps_unrealized_pnl = unrealized_q, ps_total_equity = equity,
            ps_gross_exposure = gross, ps_net_exposure = net,
            ps_risk_budget_usage = [(''gross_exposure'', gross), (''margin_usage'', margin)],
            ps_product_type = (if derivatives \<noteq> [] then Derivatives else pf_default_product_type st),
            ps_margin_mode = pf_default_margin_mode st, ps_margin_usage = margin,
            ps_leverage_profile = map (\<lambda>(k, r). (k, pr_target_leverage r)) (pf_positions st),
            ps_cash_equity = cash, ps_spot_asset_equity = spot, ps_off_position_asset_equity = off_position,
            ps_derivatives_unrealized_pnl = derivatives_q, ps_collateral_value = collateral\<rparr>
        else None
      })"

section \<open>Loading back\<close>

definition position_key_for_snapshot_position :: "position \<Rightarrow> string" where
  "position_key_for_snapshot_position position =
     text_or (po_position_key position)
       (build_position_key (po_symbol position) (product_type_str (po_product_type position))
          (Some (po_margin_mode position)) (po_position_mode position) (po_pos_side position))"

definition record_of_snapshot_position :: "position \<Rightarrow> position_record" where
  "record_of_snapshot_position position =
     \<lparr>pr_symbol = po_symbol position,
      pr_position_key = Some (position_key_for_snapshot_position position),
      pr_quantity = po_position_qty position,
      pr_avg_entry_price = po_avg_entry_price position,
      pr_product_type = po_product_type position,
      pr_target_leverage = po_target_leverage position,
      pr_margin_mode = po_margin_mode position,
      pr_position_mode = po_position_mode position,
      pr_pos_side = po_pos_side position,
      pr_instrument_family = po_instrument_family position,
      pr_settle_currency = po_settle_currency position,
      pr_margin_allocated = po_margin_allocated position,
      pr_maintenance_margin = po_maintenance_margin position,
      pr_margin_ratio = po_margin_ratio position,
      pr_liquidation_price = po_liquidation_price position,
      pr_margin_source = po_margin_source position,
      pr_exposure_side = (case po_exposure_side position of
          Some side \<Rightarrow> side | None \<Rightarrow> exposure_side_from_quantity (po_position_qty position))\<rparr>"

definition load_portfolio_snapshot ::
  "portfolio_state \<Rightarrow> portfolio_snapshot \<Rightarrow> string list \<Rightarrow> decimal option \<Rightarrow> portfolio_state" where
  "load_portfolio_snapshot st snapshot applied_fill_ids total_fees_paid =
     st\<lparr>pf_positions := foldl (\<lambda>acc position. AList.update (position_key_for_snapshot_position position)
            (record_of_snapshot_position position) acc) []
            (filter (\<lambda>position. \<not> is_effectively_zero (po_position_qty position)) (ps_positions snapshot)),
        pf_balances := ensure_usdt (ps_balances snapshot),
        pf_realized_pnl := ps_realized_pnl snapshot,
        pf_total_fees_paid := to_decimal total_fees_paid,
        pf_applied_fill_ids := applied_fill_ids,
        pf_loaded_from_exchange_snapshot := False\<rparr>"

section \<open>Instruments and their legs\<close>

record position_leg_state =
  lg_symbol :: string
  lg_position_key :: string
  lg_position_qty :: decimal
  lg_position_notional :: decimal
  lg_avg_entry_price :: decimal
  lg_unrealized_pnl :: decimal
  lg_product_type :: product_type
  lg_exposure_side :: exposure_side
  lg_target_leverage :: decimal
  lg_margin_mode :: string
  lg_position_mode :: "string option"
  lg_pos_side :: "string option"
  lg_instrument_family :: "string option"
  lg_settle_currency :: "string option"
  lg_margin_allocated :: decimal
  lg_maintenance_margin :: decimal
  lg_margin_ratio :: "decimal option"
  lg_liquidation_price :: "decimal option"
  lg_margin_source :: string

record instrument_position_state =
  is_symbol :: string
  is_product_type :: product_type
  is_margin_mode :: string
  is_position_mode :: "string option"
  is_exposure_side :: exposure_side
  is_leg_count :: nat
  is_has_long_leg :: bool
  is_has_short_leg :: bool
  is_dual_legged :: bool
  is_net_position_qty :: decimal
  is_gross_position_qty :: decimal
  is_long_position_qty :: decimal
  is_short_position_qty :: decimal
  is_net_position_notional :: decimal
  is_gross_position_notional :: decimal
  is_long_position_notional :: decimal
  is_short_position_notional :: decimal
  is_unrealized_pnl :: decimal
  is_target_leverage :: decimal
  is_legs :: "position_leg_state list"

definition position_leg_state_from_snapshot_position :: "position \<Rightarrow> position_leg_state" where
  "position_leg_state_from_snapshot_position position =
     \<lparr>lg_symbol = po_symbol position,
      lg_position_key = position_key_for_snapshot_position position,
      lg_position_qty = po_position_qty position,
      lg_position_notional = po_position_notional position,
      lg_avg_entry_price = po_avg_entry_price position,
      lg_unrealized_pnl = po_unrealized_pnl position,
      lg_product_type = po_product_type position,
      lg_exposure_side = (case po_exposure_side position of
          Some side \<Rightarrow> side | None \<Rightarrow> exposure_side_from_quantity (po_position_qty position)),
      lg_target_leverage = po_target_leverage position,
      lg_margin_mode = po_margin_mode position,
      lg_position_mode = po_position_mode position,
      lg_pos_side = po_pos_side position,
      lg_instrument_family = po_instrument_family position,
      lg_settle_currency = po_settle_currency position,
      lg_margin_allocated = po_margin_allocated position,
      lg_maintenance_margin = po_maintenance_margin position,
      lg_margin_ratio = po_margin_ratio position,
      lg_liquidation_price = po_liquidation_price position,
      lg_margin_source = po_margin_source position\<rparr>"

definition signed_notional_for_exchange_position :: "exchange_position \<Rightarrow> decimal \<Rightarrow> decimal" where
  "signed_notional_for_exchange_position position signed_quantity =
     (case ep_notional_usd position of
        Some notional \<Rightarrow>
          let absolute_notional = dabs notional
          in if signed_quantity < dneg EPSILON_DECIMAL_12 then dneg absolute_notional
             else if EPSILON_DECIMAL_12 < signed_quantity then absolute_notional
             else notional
      | None \<Rightarrow> dmul signed_quantity (dec_or (ep_average_entry_price position) 0))"

definition position_leg_state_from_exchange_position ::
  "string option \<Rightarrow> product_type \<Rightarrow> exchange_position \<Rightarrow> position_leg_state" where
  "position_leg_state_from_exchange_position position_mode product_type position =
     (let normalized_mode = normalize_position_mode position_mode;
          quantity = signed_quantity_for_position_side (Some (ep_quantity position)) (Some (ep_side position))
            normalized_mode
      in \<lparr>lg_symbol = ep_symbol position,
          lg_position_key = build_position_key (ep_symbol position) (product_type_str product_type)
            (ep_margin_mode position) normalized_mode (Some (ep_side position)),
          lg_position_qty = quantity,
          lg_position_notional = signed_notional_for_exchange_position position quantity,
          lg_avg_entry_price = dec_or (ep_average_entry_price position) 0,
          lg_unrealized_pnl = dec_or (ep_unrealized_pnl position) 0,
          lg_product_type = product_type,
          lg_exposure_side = exposure_side_from_quantity quantity,
          lg_target_leverage = dec_or (ep_leverage position) 1,
          lg_margin_mode = text_or (ep_margin_mode position) ''cash'',
          lg_position_mode = normalized_mode,
          lg_pos_side = normalize_position_side (Some (ep_side position)) normalized_mode,
          lg_instrument_family = ep_instrument_family position,
          lg_settle_currency = ep_settle_currency position,
          lg_margin_allocated = dec_or (ep_margin_allocated position) 0,
          lg_maintenance_margin = dec_or (ep_maintenance_margin position) 0,
          lg_margin_ratio = ep_margin_ratio position,
          lg_liquidation_price = ep_liquidation_price position,
          lg_margin_source = ''exchange''\<rparr>)"

fun exposure_side_text :: "exposure_side \<Rightarrow> string" where
  "exposure_side_text ExpLong = ''long''"
| "exposure_side_text ExpShort = ''short''"
| "exposure_side_text ExpFlat = ''flat''"

definition side_from_leg :: "position_leg_state \<Rightarrow> string" where
  "side_from_leg leg =
     (if lg_exposure_side leg \<in> {ExpLong, ExpShort} then exposure_side_text (lg_exposure_side leg)
      else exposure_side_text (exposure_side_from_quantity (lg_position_qty leg)))"

text \<open>Which of the two sides a leg counts for: the branches of the aggregation loop.\<close>

definition counts_short :: "position_leg_state \<Rightarrow> bool" where
  "counts_short leg =
     (let resolved_side = text_or (lg_pos_side leg) (side_from_leg leg)
      in resolved_side = ''short''
         \<or> (resolved_side \<noteq> ''long'' \<and> lg_position_qty leg < dneg EPSILON_DECIMAL_12))"

definition counts_long :: "position_leg_state \<Rightarrow> bool" where
  "counts_long leg =
     (let resolved_side = text_or (lg_pos_side leg) (side_from_leg leg)
      in resolved_side = ''long''
         \<or> (resolved_side \<noteq> ''short'' \<and> \<not> lg_position_qty leg < dneg EPSILON_DECIMAL_12
            \<and> EPSILON_DECIMAL_12 < lg_position_qty leg))"

definition instrument_position_state_from_legs ::
  "string \<Rightarrow> position_leg_state list \<Rightarrow> instrument_position_state" where
  "instrument_position_state_from_legs symbol legs =
     (let net_qty = dsum (map lg_position_qty legs);
          has_long_leg = list_ex counts_long legs;
          has_short_leg = list_ex counts_short legs
      in \<lparr>is_symbol = symbol,
          is_product_type = (case legs of [] \<Rightarrow> Spot | leg # _ \<Rightarrow> lg_product_type leg),
          is_margin_mode = (case legs of [] \<Rightarrow> ''cash'' | leg # _ \<Rightarrow> lg_margin_mode leg),
          is_position_mode = (case legs of [] \<Rightarrow> None | leg # _ \<Rightarrow> lg_position_mode leg),
          is_exposure_side = exposure_side_from_quantity net_qty,
          is_leg_count = length legs,
          is_has_long_leg = has_long_leg,
          is_has_short_leg = has_short_leg,
          is_dual_legged = (has_long_leg \<and> has_short_leg),
          is_net_position_qty = net_qty,
          is_gross_position_qty = dsum (map (\<lambda>leg. dabs (lg_position_qty leg)) legs),
          is_long_position_qty = dsum (map (\<lambda>leg. dabs (lg_position_qty leg)) (filter counts_long legs)),
          is_short_position_qty = dsum (map (\<lambda>leg. dabs (lg_position_qty leg)) (filter counts_short legs)),
          is_net_position_notional = dsum (map lg_position_notional legs),
          is_gross_position_notional = dsum (map (\<lambda>leg. dabs (lg_position_notional leg)) legs),
          is_long_position_notional = dsum (map (\<lambda>leg. dabs (lg_position_notional leg)) (filter counts_long legs)),
          is_short_position_notional = dsum (map (\<lambda>leg. dabs (lg_position_notional leg)) (filter counts_short legs)),
          is_unrealized_pnl = dsum (map lg_unrealized_pnl legs),
          is_target_leverage = foldl (\<lambda>acc leg. max acc (lg_target_leverage leg)) 1 legs,
          is_legs = legs\<rparr>)"

text \<open>\<^verbatim>\<open>grouped.setdefault(leg.symbol, []).append(leg)\<close>.\<close>

fun group_legs ::
  "(string \<times> position_leg_state list) list \<Rightarrow> position_leg_state list \<Rightarrow> (string \<times> position_leg_state list) list"
where
  "group_legs grouped [] = grouped"
| "group_legs grouped (leg # legs) =
     group_legs (AList.update (lg_symbol leg) (dict_get grouped (lg_symbol leg) [] @ [leg]) grouped) legs"

definition instrument_position_states_from_legs :: "position_leg_state list \<Rightarrow> instrument_position_state list" where
  "instrument_position_states_from_legs legs =
     sort_key is_symbol (map (\<lambda>(symbol, symbol_legs). instrument_position_state_from_legs symbol symbol_legs)
       (group_legs [] legs))"

definition instrument_position_states_from_snapshot_positions :: "position list \<Rightarrow> instrument_position_state list" where
  "instrument_position_states_from_snapshot_positions positions =
     instrument_position_states_from_legs (map position_leg_state_from_snapshot_position positions)"

definition instrument_position_states_from_exchange_positions ::
  "string option \<Rightarrow> product_type \<Rightarrow> exchange_position list \<Rightarrow> instrument_position_state list" where
  "instrument_position_states_from_exchange_positions position_mode product_type positions =
     instrument_position_states_from_legs
       (map (position_leg_state_from_exchange_position position_mode product_type) positions)"

definition spot_balance_position_state :: "string \<Rightarrow> decimal \<Rightarrow> instrument_position_state option" where
  "spot_balance_position_state symbol quantity =
     (if dabs quantity \<le> EPSILON_DECIMAL_12 then None
      else Some (instrument_position_state_from_legs symbol
        [\<lparr>lg_symbol = symbol, lg_position_key = symbol, lg_position_qty = quantity, lg_position_notional = 0,
          lg_avg_entry_price = 0, lg_unrealized_pnl = 0, lg_product_type = Spot,
          lg_exposure_side = exposure_side_from_quantity quantity, lg_target_leverage = 1,
          lg_margin_mode = ''cash'', lg_position_mode = None, lg_pos_side = None, lg_instrument_family = None,
          lg_settle_currency = None, lg_margin_allocated = 0, lg_maintenance_margin = 0, lg_margin_ratio = None,
          lg_liquidation_price = None, lg_margin_source = ''estimated''\<rparr>]))"

definition instrument_position_state_for_symbol ::
  "instrument_position_state list \<Rightarrow> string \<Rightarrow> instrument_position_state option" where
  "instrument_position_state_for_symbol states symbol = find (\<lambda>state. is_symbol state = symbol) states"

section \<open>Facts\<close>

lemma quantize_0 [simp]: "quantize_decimal 0 = Some 0"
  by (simp add: quantize_decimal_def)

lemma quantize_abs_mono:
  assumes "quantize_decimal x = Some a" "quantize_decimal y = Some b" "\<bar>x\<bar> \<le> y"
  shows "\<bar>a\<bar> \<le> b"
proof -
  have y: "0 \<le> y" using assms(3) by linarith
  have "0 \<le> round_half_even (y * 10 ^ 12)"
    using y round_half_even_mono[of "of_int 0" "y * 10 ^ 12"] unfolding round_half_even_of_int by simp
  then have "(0 :: rat) \<le> of_int (round_half_even (y * 10 ^ 12)) / 10 ^ 12" by simp
  with assms(2) have b0: "0 \<le> b"
    unfolding quantize_decimal_def Let_def by (auto simp del: of_int_0_le_iff split: if_splits)
  show ?thesis
  proof (cases "is_effectively_zero x")
    case True
    with assms(1) b0 show ?thesis by (simp add: quantize_decimal_def)
  next
    case False
    have "\<bar>ctx_round 28 x\<bar> \<le> \<bar>ctx_round 28 y\<bar>"
      using assms(3) y ctx28.rnd_mono[of "\<bar>x\<bar>" y] ctx28.rnd_nonneg[OF y] by (simp add: ctx28.rnd_abs)
    with False have ny: "\<not> is_effectively_zero y" unfolding is_effectively_zero_iff by linarith
    have "\<bar>round_half_even (x * 10 ^ 12)\<bar> \<le> round_half_even (y * 10 ^ 12)"
    proof -
      have "- (y * 10 ^ 12) \<le> x * 10 ^ 12" "x * 10 ^ 12 \<le> y * 10 ^ 12"
        using assms(3) by (simp_all add: abs_le_iff)
      then show ?thesis
        using round_half_even_mono[of "- (y * 10 ^ 12)" "x * 10 ^ 12"] round_half_even_mono[of "x * 10 ^ 12" "y * 10 ^ 12"]
        by (simp add: round_half_even_minus abs_le_iff)
    qed
    then have "\<bar>of_int (round_half_even (x * 10 ^ 12))\<bar> \<le> (of_int (round_half_even (y * 10 ^ 12)) :: rat)"
      by (simp flip: of_int_abs)
    with False ny assms(1,2) show ?thesis
      by (auto simp: quantize_decimal_def Let_def abs_divide divide_right_mono split: if_splits)
  qed
qed

lemma dsum_abs_le:
  "(\<And>x. x \<in> set xs \<Longrightarrow> exact28 (f x)) \<Longrightarrow> \<bar>dsum (map f xs)\<bar> \<le> dsum (map (\<lambda>x. dabs (f x)) xs)"
proof (induction xs rule: rev_induct)
  case (snoc x xs)
  have "\<bar>dsum (map f xs) + f x\<bar> \<le> dsum (map (\<lambda>x. dabs (f x)) xs) + \<bar>f x\<bar>"
    using snoc by (simp add: abs_triangle_ineq order_trans[OF abs_triangle_ineq])
  moreover have "dabs (f x) = \<bar>f x\<bar>" using snoc.prems by (simp add: exact_ops)
  ultimately have "ctx_round 28 \<bar>dsum (map f xs) + f x\<bar> \<le> ctx_round 28 (dsum (map (\<lambda>x. dabs (f x)) xs) + dabs (f x))"
    by (intro ctx28.rnd_mono) simp
  then show ?case by (simp add: dsum_def dadd_def ctx28.rnd_abs)
qed (simp add: dsum_def)

lemma dsum_filter_le:
  "(\<And>x. x \<in> set xs \<Longrightarrow> 0 \<le> f x) \<Longrightarrow> dsum (map f (filter P xs)) \<le> dsum (map f xs)"
proof (induction xs rule: rev_induct)
  case (snoc x xs)
  then have le: "dsum (map f (filter P xs)) \<le> dsum (map f xs)" and f0: "0 \<le> f x" by simp_all
  have step: "dsum (ys @ [y]) = dadd (dsum ys) y" for ys y by (simp add: dsum_def)
  show ?case
  proof (cases "P x")
    case True
    with le show ?thesis by (simp add: step dadd_mono)
  next
    case False
    have "dsum (map f xs) \<le> dadd (dsum (map f xs)) (f x)" using f0 by (intro dadd_ge) simp_all
    with le False show ?thesis by (simp add: step)
  qed
qed (simp add: dsum_def)

lemma guarded_SomeE: "(if c then Some x else None) = Some y \<Longrightarrow> (x = y \<Longrightarrow> P) \<Longrightarrow> P"
  by (simp split: if_splits)

lemma build_snapshot_parts:
  assumes "build_snapshot st price now d i f origin = Some snap"
  shows "those (map (snapshot_position price) (pf_positions st)) = Some (ps_positions snap)"
    and "quantize_dict (pf_balances st) = Some (ps_balances snap)"
    and "quantize_decimal (pf_realized_pnl st) = Some (ps_realized_pnl snap)"
    and "quantize_decimal (dsum (map (\<lambda>r. dabs (record_notional price r)) (map snd (pf_positions st))))
         = Some (ps_gross_exposure snap)"
    and "quantize_decimal (dsum (map (record_notional price) (map snd (pf_positions st)))) = Some (ps_net_exposure snap)"
    and "quantize_decimal (dsum (map (resolved_margin_allocated price)
           (filter (\<lambda>r. pr_product_type r = Derivatives) (map snd (pf_positions st))))) = Some (ps_margin_usage snap)"
  using assms unfolding build_snapshot_def Let_def bind_eq_Some_conv
  by - (elim exE conjE guarded_SomeE, hypsubst, simp only: portfolio_snapshot.select_convs)+

lemma snapshot_position_parts:
  assumes "snapshot_position price (k, r) = Some p"
  shows "po_symbol p = pr_symbol r" "po_position_key p = Some k" "quantize_decimal (pr_quantity r) = Some (po_position_qty p)"
    "quantize_decimal (pr_avg_entry_price r) = Some (po_avg_entry_price p)" "po_product_type p = pr_product_type r"
    "po_exposure_side p = Some (pr_exposure_side r)" "po_target_leverage p = pr_target_leverage r"
    "po_margin_mode p = pr_margin_mode r" "po_position_mode p = pr_position_mode r" "po_pos_side p = pr_pos_side r"
    "po_instrument_family p = pr_instrument_family r" "po_settle_currency p = pr_settle_currency r"
  using assms by (auto simp: snapshot_position_def Let_def bind_eq_Some_conv split: if_splits)

text \<open>What of a position survives storing and loading: everything but the margin estimates.\<close>

definition position_core :: "position_record \<Rightarrow> string \<times> decimal \<times> decimal \<times> product_type \<times> decimal \<times> string
    \<times> string option \<times> string option \<times> string option \<times> string option \<times> exposure_side" where
  "position_core r = (pr_symbol r, pr_quantity r, pr_avg_entry_price r, pr_product_type r, pr_target_leverage r,
     pr_margin_mode r, pr_position_mode r, pr_pos_side r, pr_instrument_family r, pr_settle_currency r,
     pr_exposure_side r)"

text \<open>An amount that is a multiple of the snapshot quantum and fits.\<close>

definition on_quantum :: "decimal \<Rightarrow> bool" where
  "on_quantum x \<longleftrightarrow> quantize_decimal x = Some x"

lemma quantize_dict_id:
  "quantize_dict d = Some d' \<Longrightarrow> \<forall>e \<in> set d. on_quantum (snd e) \<Longrightarrow> d' = d"
  by (induction d arbitrary: d') (auto simp: quantize_dict_def on_quantum_def split: option.splits)

lemma snapshot_position_core:
  assumes "snapshot_position price (k, r) = Some p" "k \<noteq> []" "on_quantum (pr_quantity r)" "on_quantum (pr_avg_entry_price r)"
  shows "position_key_for_snapshot_position p = k" "position_core (record_of_snapshot_position p) = position_core r"
    "po_position_qty p = pr_quantity r"
  using snapshot_position_parts[OF assms(1)] assms(2-4)
  by (simp_all add: position_key_for_snapshot_position_def text_or_def position_core_def
      record_of_snapshot_position_def on_quantum_def)

section \<open>Properties\<close>


text \<open>
  Exposure figures are coherent in every snapshot: the net exposure is at most the gross exposure
  in absolute value, and the gross exposure is not negative, whatever the prices.
\<close>

theorem snapshot_exposure_coherent:
  assumes "build_snapshot st price now d i f origin = Some snap"
  shows "\<bar>ps_net_exposure snap\<bar> \<le> ps_gross_exposure snap"
proof (rule quantize_abs_mono[OF build_snapshot_parts(5,4)[OF assms]])
  show "\<bar>dsum (map (record_notional price) (map snd (pf_positions st)))\<bar>
      \<le> dsum (map (\<lambda>r. dabs (record_notional price r)) (map snd (pf_positions st)))"
    by (rule dsum_abs_le) (simp add: record_notional_def)
qed

text \<open>
  The instrument view of any legs is a partition of them: one state per symbol, in the
  order of the symbols, each holding exactly the legs of its symbol in their original order; and
  for legs the decimal context holds exactly, net, long and short quantity of an instrument are
  within its gross quantity.
\<close>

lemma group_legs_get:
  "dict_get (group_legs g legs) s [] = dict_get g s [] @ filter (\<lambda>l. lg_symbol l = s) legs"
  by (induction legs arbitrary: g) auto

lemma group_legs_keys:
  "distinct (map fst g) \<Longrightarrow> distinct (map fst (group_legs g legs))
     \<and> fst ` set (group_legs g legs) = fst ` set g \<union> lg_symbol ` set legs"
proof (induction legs arbitrary: g)
  case (Cons l ls)
  show ?case
    using Cons.IH[of "AList.update (lg_symbol l) (dict_get g (lg_symbol l) [] @ [l]) g"] Cons.prems
    by (simp add: keys_update)
qed simp

lemma from_legs_sel [simp]:
  "is_symbol (instrument_position_state_from_legs s ls) = s" "is_legs (instrument_position_state_from_legs s ls) = ls"
  by (simp_all add: instrument_position_state_from_legs_def Let_def)

lemma from_legs_bounds:
  assumes "\<forall>l \<in> set ls. exact28 (lg_position_qty l)"
  shows "\<bar>is_net_position_qty (instrument_position_state_from_legs s ls)\<bar>
           \<le> is_gross_position_qty (instrument_position_state_from_legs s ls)"
    "is_long_position_qty (instrument_position_state_from_legs s ls)
           \<le> is_gross_position_qty (instrument_position_state_from_legs s ls)"
    "is_short_position_qty (instrument_position_state_from_legs s ls)
           \<le> is_gross_position_qty (instrument_position_state_from_legs s ls)"
  using assms dsum_abs_le[of ls lg_position_qty]
    dsum_filter_le[of ls "\<lambda>leg. dabs (lg_position_qty leg)"]
  by (simp_all add: instrument_position_state_from_legs_def Let_def dec_signs)

theorem instrument_states_partition_legs:
  fixes legs
  defines "states \<equiv> instrument_position_states_from_legs legs"
  shows "sorted (map is_symbol states) \<and> distinct (map is_symbol states)
    \<and> is_symbol ` set states = lg_symbol ` set legs
    \<and> (\<forall>state \<in> set states. is_legs state = filter (\<lambda>l. lg_symbol l = is_symbol state) legs
         \<and> ((\<forall>l \<in> set legs. exact28 (lg_position_qty l)) \<longrightarrow>
              \<bar>is_net_position_qty state\<bar> \<le> is_gross_position_qty state
              \<and> is_long_position_qty state \<le> is_gross_position_qty state
              \<and> is_short_position_qty state \<le> is_gross_position_qty state))"
proof -
  let ?g = "group_legs [] legs"
  have keys: "distinct (map fst ?g)" "fst ` set ?g = lg_symbol ` set legs"
    using group_legs_keys[of "[]" legs] by simp_all
  have states: "set states = (\<lambda>e. instrument_position_state_from_legs (fst e) (snd e)) ` set ?g"
    by (simp add: states_def instrument_position_states_from_legs_def case_prod_beta)
  have syms: "mset (map is_symbol states) = mset (map fst ?g)"
  proof -
    have "mset (map is_symbol states)
        = mset (map is_symbol (map (\<lambda>e. instrument_position_state_from_legs (fst e) (snd e)) ?g))"
      by (simp only: states_def instrument_position_states_from_legs_def case_prod_unfold mset_map mset_sort)
    then show ?thesis by (simp only: map_map comp_def from_legs_sel)
  qed
  have legs: "snd e = filter (\<lambda>l. lg_symbol l = fst e) legs" if "e \<in> set ?g" for e
    using entry_dict_get[OF keys(1) that, of "[]"] group_legs_get[of "[]" legs "fst e"] by (simp add: dict_get_def)
  have "sorted (map is_symbol states)"
    by (simp add: states_def instrument_position_states_from_legs_def)
  moreover have "distinct (map is_symbol states)"
    using keys(1) syms mset_eq_imp_distinct_iff by blast
  moreover have "is_symbol ` set states = lg_symbol ` set legs"
    using mset_eq_setD[OF syms] keys(2) by simp
  moreover have "is_legs state = filter (\<lambda>l. lg_symbol l = is_symbol state) legs
         \<and> ((\<forall>l \<in> set legs. exact28 (lg_position_qty l)) \<longrightarrow>
              \<bar>is_net_position_qty state\<bar> \<le> is_gross_position_qty state
              \<and> is_long_position_qty state \<le> is_gross_position_qty state
              \<and> is_short_position_qty state \<le> is_gross_position_qty state)" if st: "state \<in> set states" for state
  proof -
    from st obtain e where e: "e \<in> set ?g" "state = instrument_position_state_from_legs (fst e) (snd e)"
      unfolding states by (rule imageE) 
    have "set (snd e) \<subseteq> set legs" using legs[OF e(1)] by simp
    then show ?thesis
      using from_legs_bounds[of "snd e" "fst e"] legs[OF e(1)] unfolding e(2) from_legs_sel by blast
  qed
  ultimately show ?thesis by blast
qed

lemma quantize_int:
  assumes "\<bar>n\<bar> < 10 ^ 16"
  shows "quantize_decimal (of_int n) = Some (of_int n)"
proof (cases "n = 0")
  case False
  have e: "exact28 (of_int n)" using exact28I[of n 0] assms by simp
  have "1 \<le> \<bar>n\<bar>" using False by simp
  then have "(1 :: rat) \<le> \<bar>of_int n\<bar>" by (simp flip: of_int_abs)
  then have nz: "\<not> is_effectively_zero (of_int n)"
    using e by (simp add: is_effectively_zero_def exact_ops EPSILON_DECIMAL_12_def)
  have "round_half_even (of_int n * 10 ^ 12) = n * 10 ^ 12"
    using round_half_even_of_int[of "n * 10 ^ 12"] by simp
  with nz assms show ?thesis by (simp add: quantize_decimal_def Let_def abs_mult)
qed simp

lemma quantize_numeral [simp]: "(numeral w :: int) < 10 ^ 16 \<Longrightarrow> quantize_decimal (numeral w) = Some (numeral w)"
  using quantize_int[of "numeral w"] by simp

definition example_state :: portfolio_state where
  "example_state = (new_portfolio_state 1000 Spot ''cash'')
     \<lparr>pf_positions := [(''BTC-USDT'', (new_position_record ''BTC-USDT'' ''BTC-USDT'')
        \<lparr>pr_quantity := 2, pr_avg_entry_price := 90, pr_exposure_side := ExpLong\<rparr>)]\<rparr>"

lemma example_snapshot_built:
  "\<exists>snap. build_snapshot example_state (\<lambda>_. 100) (Aware 0 0) None None None RuntimeBootstrap = Some snap"
  by (simp add: build_snapshot_def example_state_def new_portfolio_state_def new_position_record_def Let_def
      snapshot_position_def record_notional_def record_unrealized_def unrealized_pnl_def resolved_margin_allocated_def
      from_exchange_def position_literals_ok_def quantize_opt_def quantize_dict_def dsum_def dict_get_def
      off_position_equity_def builder_symbol_currencies_def List.map_filter_def exact_ops py_lower_def)


theorem snapshot_exposure_coherent_witness:
  "\<exists>snap. build_snapshot example_state (\<lambda>_. 100) (Aware 0 0) None None None RuntimeBootstrap = Some snap
     \<and> \<bar>ps_net_exposure snap\<bar> \<le> ps_gross_exposure snap"
  using example_snapshot_built snapshot_exposure_coherent by blast

definition example_leg_state :: "string \<Rightarrow> decimal \<Rightarrow> position_leg_state" where
  "example_leg_state side qty = position_leg_state_from_exchange_position (Some ''long_short_mode'') Derivatives
     \<lparr>ep_instrument_id = ''BTC-USDT-SWAP'', ep_symbol = ''BTC-USDT-SWAP'', ep_quantity = qty,
      ep_average_entry_price = Some 90, ep_mark_price = None, ep_notional_usd = None, ep_side = side,
      ep_margin_mode = None, ep_margin_currency = None, ep_leverage = None, ep_margin_allocated = None,
      ep_maintenance_margin = None, ep_margin_ratio = None, ep_liquidation_price = None, ep_unrealized_pnl = None,
      ep_instrument_family = None, ep_settle_currency = None\<rparr>"

lemma example_leg_state_sel: "lg_symbol (example_leg_state side qty) = ''BTC-USDT-SWAP''"
  "exact28 qty \<Longrightarrow> exact28 (lg_position_qty (example_leg_state side qty))"
  by (simp_all add: example_leg_state_def position_leg_state_from_exchange_position_def Let_def
      signed_quantity_for_position_side_def to_decimal_def)

theorem instrument_states_partition_legs_witness:
  "list_all (\<lambda>state. is_symbol state = ''BTC-USDT-SWAP'' \<and> length (is_legs state) = 2
       \<and> \<bar>is_net_position_qty state\<bar> \<le> is_gross_position_qty state)
     (instrument_position_states_from_legs [example_leg_state ''long'' 3, example_leg_state ''short'' 2])"
  unfolding list_all_iff
proof
  fix state
  let ?legs = "[example_leg_state ''long'' 3, example_leg_state ''short'' 2]"
  assume st: "state \<in> set (instrument_position_states_from_legs ?legs)"
  note part = instrument_states_partition_legs[of ?legs]
  from part st have "is_symbol state \<in> lg_symbol ` set ?legs" by blast
  then have sym: "is_symbol state = ''BTC-USDT-SWAP''" by (simp add: example_leg_state_sel)
  from part st have "is_legs state = filter (\<lambda>l. lg_symbol l = is_symbol state) ?legs"
    and "(\<forall>l \<in> set ?legs. exact28 (lg_position_qty l)) \<longrightarrow> \<bar>is_net_position_qty state\<bar> \<le> is_gross_position_qty state"
    by blast+
  then show "is_symbol state = ''BTC-USDT-SWAP'' \<and> length (is_legs state) = 2
     \<and> \<bar>is_net_position_qty state\<bar> \<le> is_gross_position_qty state"
    using sym by (simp add: example_leg_state_sel)
qed

end
