(* ===== verification/Portfolio_Service.thy ===== *)
theory Portfolio_Service
  imports Portfolio_Snapshots
begin

text \<open>
  \<^verbatim>\<open>PortfolioService\<close> of \<^verbatim>\<open>aats/services/portfolio_service/positions.py\<close>: what
  happens when a fill event is handled, with every failure the handler distinguishes; the fill
  outcome record of \<^verbatim>\<open>aats/schemas/portfolio.py\<close>, the in-memory outcome repository and the
  transactional outbox of \<^verbatim>\<open>outbox.py\<close>. The fill lock makes one handler one step. What the
  database and the projections do is an argument: whether a write fails, and for the outbox whether
  it fails before or after its transaction commits. A handler that raises returns the message.
\<close>

section \<open>Records\<close>

record portfolio_balance_delta =
  bd_decision_id :: "string option"
  bd_intent_id :: "string option"
  bd_order_id :: "string option"
  bd_fill_id :: string
  bd_symbol :: string
  bd_balances_before :: "(string \<times> decimal) list"
  bd_balances_after :: "(string \<times> decimal) list"
  bd_balance_deltas :: "(string \<times> decimal) list"
  bd_realized_pnl_delta :: decimal
  bd_fee_delta :: decimal
  bd_product_type :: product_type
  bd_margin_mode :: margin_mode
  bd_created_at :: datetime

text \<open>\<^verbatim>\<open>sorted(set(before) | set(after))\<close>, then the currencies whose balance changed.\<close>

definition balance_delta_event ::
  "datetime \<Rightarrow> fill_event \<Rightarrow> (string \<times> decimal) list \<Rightarrow> (string \<times> decimal) list \<Rightarrow> decimal \<Rightarrow> decimal
   \<Rightarrow> portfolio_balance_delta"
where
  "balance_delta_event now fill balances_before balances_after realized_pnl_delta fee_delta =
     (let currencies = sorted_list_of_set (set (map fst balances_before @ map fst balances_after))
      in \<lparr>bd_decision_id = Some (fl_decision_id fill),
          bd_intent_id = Some (fl_intent_id fill),
          bd_order_id = Some (fl_client_order_id fill),
          bd_fill_id = fl_fill_id fill,
          bd_symbol = fl_symbol fill,
          bd_balances_before = balances_before,
          bd_balances_after = balances_after,
          bd_balance_deltas =
            map (\<lambda>currency. (currency, dsub (dict_get balances_after currency 0) (dict_get balances_before currency 0)))
              (filter (\<lambda>currency. dict_get balances_after currency 0 \<noteq> dict_get balances_before currency 0) currencies),
          bd_realized_pnl_delta = realized_pnl_delta,
          bd_fee_delta = fee_delta,
          bd_product_type = fl_product_type fill,
          bd_margin_mode = fl_margin_mode fill,
          bd_created_at = now\<rparr>)"

record fill_outcome_record =
  fo_fill_id :: string
  fo_decision_id :: "string option"
  fo_execution_chain_id :: "string option"
  fo_execution_attempt_id :: "string option"
  fo_intent_id :: "string option"
  fo_order_id :: "string option"
  fo_symbol :: string
  fo_position_key :: "string option"
  fo_venue :: "string option"
  fo_side :: "order_side option"
  fo_fill_qty :: "decimal option"
  fo_fill_price :: "decimal option"
  fo_fill_notional :: "decimal option"
  fo_fee_amount :: "decimal option"
  fo_fee_currency :: "string option"
  fo_liquidity_role :: "liquidity_role option"
  fo_exchange_timestamp :: "datetime option"
  fo_ingestion_timestamp :: "datetime option"
  fo_order_status_after_fill :: "order_status option"
  fo_strategy_family :: "string option"
  fo_strategy_sleeve_id :: "string option"
  fo_allocation_id :: "string option"
  fo_strategy_bundle_id :: "string option"
  fo_strategy_leg_role :: "leg_role option"
  fo_target_leverage :: "decimal option"
  fo_exposure_side :: "exposure_side option"
  fo_execution_action :: "execution_action option"
  fo_position_intent :: "position_intent option"
  fo_position_mode :: "position_mode option"
  fo_pos_side :: "position_side option"
  fo_instrument_family :: "string option"
  fo_settle_currency :: "string option"
  fo_starting_position_qty :: "decimal option"
  fo_starting_avg_entry_price :: "decimal option"
  fo_ending_position_qty :: "decimal option"
  fo_ending_avg_entry_price :: "decimal option"
  fo_balances_before :: "(string \<times> decimal) list"
  fo_balances_after :: "(string \<times> decimal) list"
  fo_balance_deltas :: "(string \<times> decimal) list"
  fo_realized_pnl_delta :: decimal
  fo_fee_delta :: decimal
  fo_product_type :: product_type
  fo_margin_mode :: margin_mode
  fo_created_at :: datetime

definition from_fill_and_balance_delta ::
  "fill_event \<Rightarrow> portfolio_balance_delta \<Rightarrow> decimal option \<Rightarrow> decimal option \<Rightarrow> decimal option \<Rightarrow> decimal option
   \<Rightarrow> fill_outcome_record"
where
  "from_fill_and_balance_delta fill balance_delta starting_position_qty starting_avg_entry_price
     ending_position_qty ending_avg_entry_price =
     \<lparr>fo_fill_id = bd_fill_id balance_delta,
      fo_decision_id = bd_decision_id balance_delta,
      fo_execution_chain_id = fl_execution_chain_id fill,
      fo_execution_attempt_id = fl_execution_attempt_id fill,
      fo_intent_id = bd_intent_id balance_delta,
      fo_order_id = bd_order_id balance_delta,
      fo_symbol = bd_symbol balance_delta,
      fo_position_key = Some (position_key_for_fill fill),
      fo_venue = Some (fl_venue fill),
      fo_side = Some (fl_side fill),
      fo_fill_qty = Some (fl_fill_qty fill),
      fo_fill_price = Some (fl_fill_price fill),
      fo_fill_notional = Some (dmul (fl_fill_qty fill) (fl_fill_price fill)),
      fo_fee_amount = Some (fl_fee_amount fill),
      fo_fee_currency = fl_fee_currency fill,
      fo_liquidity_role = Some (fl_liquidity_role fill),
      fo_exchange_timestamp = Some (fl_exchange_timestamp fill),
      fo_ingestion_timestamp = Some (fl_ingestion_timestamp fill),
      fo_order_status_after_fill = fl_order_status_after_fill fill,
      fo_strategy_family = fl_strategy_family fill,
      fo_strategy_sleeve_id = fl_strategy_sleeve_id fill,
      fo_allocation_id = fl_allocation_id fill,
      fo_strategy_bundle_id = fl_strategy_bundle_id fill,
      fo_strategy_leg_role = fl_strategy_leg_role fill,
      fo_target_leverage = Some (fl_target_leverage fill),
      fo_exposure_side = Some (fl_exposure_side fill),
      fo_execution_action = fl_execution_action fill,
      fo_position_intent = Some (fl_position_intent fill),
      fo_position_mode = fl_position_mode fill,
      fo_pos_side = fl_pos_side fill,
      fo_instrument_family = fl_instrument_family fill,
      fo_settle_currency = fl_settle_currency fill,
      fo_starting_position_qty = starting_position_qty,
      fo_starting_avg_entry_price = starting_avg_entry_price,
      fo_ending_position_qty = ending_position_qty,
      fo_ending_avg_entry_price = ending_avg_entry_price,
      fo_balances_before = bd_balances_before balance_delta,
      fo_balances_after = bd_balances_after balance_delta,
      fo_balance_deltas = bd_balance_deltas balance_delta,
      fo_realized_pnl_delta = bd_realized_pnl_delta balance_delta,
      fo_fee_delta = bd_fee_delta balance_delta,
      fo_product_type = bd_product_type balance_delta,
      fo_margin_mode = bd_margin_mode balance_delta,
      fo_created_at = bd_created_at balance_delta\<rparr>"

record processing_failure =
  pfail_stage :: string
  pfail_message :: string
  pfail_decision_id :: string
  pfail_intent_id :: string
  pfail_order_id :: string
  pfail_fill_id :: string
  pfail_symbol :: string
  pfail_product_type :: product_type
  pfail_margin_mode :: margin_mode
  pfail_retriable :: bool
  pfail_observed_at :: datetime
  pfail_details :: "(string \<times> pyval) list"

datatype portfolio_event =
    BalanceDeltaEvent portfolio_balance_delta
  | SnapshotEvent portfolio_snapshot

section \<open>The outcome repository\<close>

text \<open>Saving over an outcome copies every field of the new one, so the new one is stored.\<close>

definition save_outcome ::
  "(string \<times> fill_outcome_record) list \<Rightarrow> fill_outcome_record \<Rightarrow> (string \<times> fill_outcome_record) list" where
  "save_outcome outcomes outcome = AList.update (fo_fill_id outcome) outcome outcomes"

definition get_outcome :: "(string \<times> fill_outcome_record) list \<Rightarrow> string \<Rightarrow> fill_outcome_record option" where
  "get_outcome outcomes fill_id = map_of outcomes fill_id"

section \<open>The service\<close>

record portfolio_service =
  svc_state :: portfolio_state
  svc_outcomes :: "(string \<times> fill_outcome_record) list"
  svc_snapshots :: "portfolio_snapshot list"
  svc_failures :: "processing_failure list"
  svc_published :: "portfolio_event list"
  svc_fills_processed :: nat
  svc_processing_failures :: nat

text \<open>How the outbox transaction ends. \<^verbatim>\<open>flush_pending\<close> runs after the commit and can raise.\<close>

datatype outbox_result = Committed | FailedBeforeCommit string | FailedAfterCommit string

text \<open>
  \<open>env_outbox\<close> is \<open>None\<close> when no outbox publisher is wired; the other writes are used then.
  An error entry is the message of the exception the write raises. \<open>env_failure_published\<close> says
  whether publishing a failure record succeeds; the handler swallows that exception.
\<close>

record portfolio_env =
  env_now :: datetime
  env_price :: "string \<Rightarrow> decimal"
  env_outbox :: "outbox_result option"
  env_snapshot_error :: "string option"
  env_outcome_error :: "string option"
  env_projection_error :: "string option"
  env_delta_publish_error :: "string option"
  env_snapshot_publish_error :: "string option"
  env_failure_published :: bool

definition emit_processing_failure ::
  "portfolio_env \<Rightarrow> portfolio_service \<Rightarrow> string \<Rightarrow> string \<Rightarrow> fill_event \<Rightarrow> bool \<Rightarrow> (string \<times> pyval) list option
   \<Rightarrow> portfolio_service"
where
  "emit_processing_failure env svc stage message fill retriable details =
     svc\<lparr>svc_processing_failures := svc_processing_failures svc + 1,
         svc_failures := svc_failures svc @ (if \<not> env_failure_published env then [] else
           [\<lparr>pfail_stage = stage, pfail_message = message, pfail_decision_id = fl_decision_id fill,
             pfail_intent_id = fl_intent_id fill, pfail_order_id = fl_client_order_id fill,
             pfail_fill_id = fl_fill_id fill, pfail_symbol = fl_symbol fill,
             pfail_product_type = fl_product_type fill, pfail_margin_mode = fl_margin_mode fill,
             pfail_retriable = retriable, pfail_observed_at = env_now env,
             pfail_details = (case details of None \<Rightarrow> [] | Some d \<Rightarrow> d)\<rparr>])\<rparr>"

text \<open>
  \<^verbatim>\<open>persist_fill_projection\<close> of the outbox: one transaction stores the snapshot and the
  outcome and enqueues both events; then pending events are flushed to the bus.
\<close>

definition persist_fill_projection ::
  "portfolio_service \<Rightarrow> portfolio_snapshot \<Rightarrow> portfolio_balance_delta \<Rightarrow> fill_outcome_record \<Rightarrow> outbox_result
   \<Rightarrow> portfolio_service \<times> string option"
where
  "persist_fill_projection svc snapshot balance_delta outcome result =
     (let committed = svc\<lparr>svc_snapshots := svc_snapshots svc @ [snapshot],
                          svc_outcomes := save_outcome (svc_outcomes svc) outcome,
                          svc_published := svc_published svc @ [BalanceDeltaEvent balance_delta, SnapshotEvent snapshot]\<rparr>
      in case result of
           Committed \<Rightarrow> (committed, None)
         | FailedBeforeCommit e \<Rightarrow> (svc, Some e)
         | FailedAfterCommit e \<Rightarrow> (committed, Some e))"

text \<open>The error paths: the state is restored, the failure is recorded, the exception goes on.\<close>

definition restore_and_fail ::
  "portfolio_env \<Rightarrow> fill_event \<Rightarrow> portfolio_checkpoint \<Rightarrow> portfolio_service \<Rightarrow> portfolio_state \<Rightarrow> string \<Rightarrow> string
   \<Rightarrow> bool \<Rightarrow> (string \<times> pyval) list option \<Rightarrow> portfolio_service \<times> string option"
where
  "restore_and_fail env fill cp svc st stage message retriable details =
     (emit_processing_failure env (svc\<lparr>svc_state := restore st cp\<rparr>) stage message fill retriable details,
      Some message)"

definition fill_processed :: "portfolio_service \<Rightarrow> portfolio_state \<Rightarrow> portfolio_service" where
  "fill_processed svc st = svc\<lparr>svc_state := st, svc_fills_processed := svc_fills_processed svc + 1\<rparr>"

text \<open>The path with an outbox publisher, and the one without.\<close>

definition book_with_outbox ::
  "portfolio_env \<Rightarrow> portfolio_service \<Rightarrow> fill_event \<Rightarrow> portfolio_checkpoint \<Rightarrow> portfolio_state \<Rightarrow> portfolio_snapshot
   \<Rightarrow> portfolio_balance_delta \<Rightarrow> fill_outcome_record \<Rightarrow> outbox_result \<Rightarrow> portfolio_service \<times> string option"
where
  "book_with_outbox env svc fill cp st snapshot delta outcome outbox =
     (case persist_fill_projection svc snapshot delta outcome outbox of
        (svc', None) \<Rightarrow> (fill_processed svc' st, None)
      | (svc', Some e) \<Rightarrow> restore_and_fail env fill cp svc' st ''fill_outcome_persist'' e True None)"

definition publish_booked ::
  "portfolio_env \<Rightarrow> portfolio_service \<Rightarrow> portfolio_balance_delta \<Rightarrow> portfolio_snapshot \<Rightarrow> portfolio_service \<times> string option"
where
  "publish_booked env svc delta snapshot =
     (case env_delta_publish_error env of
        Some e \<Rightarrow> (svc, Some e)
      | None \<Rightarrow>
          (case env_snapshot_publish_error env of
             Some e \<Rightarrow> (svc\<lparr>svc_published := svc_published svc @ [BalanceDeltaEvent delta]\<rparr>, Some e)
           | None \<Rightarrow>
               (svc\<lparr>svc_published := svc_published svc @ [BalanceDeltaEvent delta, SnapshotEvent snapshot]\<rparr>, None)))"

definition book_directly ::
  "portfolio_env \<Rightarrow> portfolio_service \<Rightarrow> fill_event \<Rightarrow> portfolio_checkpoint \<Rightarrow> portfolio_state \<Rightarrow> portfolio_snapshot
   \<Rightarrow> portfolio_balance_delta \<Rightarrow> fill_outcome_record \<Rightarrow> portfolio_service \<times> string option"
where
  "book_directly env svc fill cp st snapshot delta outcome =
     (case env_snapshot_error env of
        Some e \<Rightarrow> restore_and_fail env fill cp svc st ''portfolio_snapshot_persist'' e True None
      | None \<Rightarrow>
          let svc1 = svc\<lparr>svc_snapshots := svc_snapshots svc @ [snapshot]\<rparr>
          in case env_outcome_error env of
               Some e \<Rightarrow> restore_and_fail env fill cp svc1 st ''fill_outcome_persist'' e True None
             | None \<Rightarrow>
                 let svc2 = svc1\<lparr>svc_outcomes := save_outcome (svc_outcomes svc1) outcome\<rparr>;
                     svc3 = (case env_projection_error env of
                         None \<Rightarrow> svc2
                       | Some e \<Rightarrow> emit_processing_failure env svc2 ''portfolio_projection_rebuild'' e fill True None);
                     svc4 = fill_processed svc3 st
                 in publish_booked env svc4 delta snapshot)"

definition book_fill ::
  "portfolio_env \<Rightarrow> portfolio_service \<Rightarrow> fill_event \<Rightarrow> portfolio_checkpoint \<Rightarrow> portfolio_state \<Rightarrow> fill_application_result
   \<Rightarrow> portfolio_service \<times> string option"
where
  "book_fill env svc fill cp st result =
     (case build_snapshot st (env_price env) (env_now env) (Some (fl_decision_id fill)) (Some (fl_intent_id fill))
             (Some (fl_fill_id fill)) FillDerived of
        None \<Rightarrow> restore_and_fail env fill cp svc st ''portfolio_snapshot_persist'' ''snapshot_build_failed'' True None
      | Some snapshot \<Rightarrow>
          let delta = balance_delta_event (env_now env) fill (cp_balances cp) (pf_balances st)
                        (fr_realized_pnl_delta result) (fr_fee_delta result);
              outcome = from_fill_and_balance_delta fill delta
                          (Some (fr_starting_quantity result)) (Some (fr_starting_avg_entry_price result))
                          (Some (fr_ending_quantity result)) (Some (fr_ending_avg_entry_price result))
          in case env_outbox env of
               Some outbox \<Rightarrow> book_with_outbox env svc fill cp st snapshot delta outcome outbox
             | None \<Rightarrow> book_directly env svc fill cp st snapshot delta outcome)"

definition handle_fill_event :: "portfolio_env \<Rightarrow> portfolio_service \<Rightarrow> fill_event \<Rightarrow> portfolio_service \<times> string option" where
  "handle_fill_event env svc fill =
     (if has_applied_fill (svc_state svc) (fl_fill_id fill) then (svc, None)
      else if get_outcome (svc_outcomes svc) (fl_fill_id fill) \<noteq> None then
        (svc\<lparr>svc_state := mark_fill_applied (svc_state svc) (fl_fill_id fill)\<rparr>, None)
      else
        let cp = checkpoint (svc_state svc)
        in case apply_fill (svc_state svc) fill of
             Inl e \<Rightarrow> restore_and_fail env fill cp svc (svc_state svc) ''fill_apply'' e False
                        (Some (unsupported_fee_currency_details fill None None (Some e)))
           | Inr (st, result) \<Rightarrow>
               if fr_applied result then book_fill env svc fill cp st result
               else (svc\<lparr>svc_state := st\<rparr>, None))"

section \<open>Facts\<close>

lemma apply_fill_restore:
  assumes "apply_fill st fill = Inr (st', r)"
  shows "restore st' (checkpoint st) = st"
proof -
  have "pf_default_product_type st' = pf_default_product_type st \<and> pf_default_margin_mode st' = pf_default_margin_mode st"
    using assms by (auto simp: apply_fill_def Let_def case_prod_beta ebind_eq_Inr_iff split: if_splits)
  then show ?thesis by (simp add: portfolio_state.equality)
qed

lemma restore_self: "restore st (checkpoint st) = st"
  by (simp add: portfolio_state.equality)

lemma emit_keeps [simp]:
  "svc_state (emit_processing_failure env svc stage message fill retriable details) = svc_state svc"
  "svc_outcomes (emit_processing_failure env svc stage message fill retriable details) = svc_outcomes svc"
  "svc_processing_failures (emit_processing_failure env svc stage message fill retriable details)
     = Suc (svc_processing_failures svc)"
  by (simp_all add: emit_processing_failure_def)

lemma apply_fill_unapplied:
  assumes "apply_fill st fill = Inr (st', r)" "\<not> has_applied_fill st (fl_fill_id fill)"
  shows "fr_applied r" "has_applied_fill st' (fl_fill_id fill)"
  using assms(2) apply_fill_ids[OF assms(1)]
  by (auto simp: has_applied_fill_def intro: apply_fill_cases[OF assms(1)])

text \<open>How a handler ends, in what it leaves of state and outcomes.\<close>

datatype handler_end = Nothing_To_Do | Known_Outcome | Restored | Restored_After_Commit | Booked

definition ends ::
  "handler_end \<Rightarrow> portfolio_env \<Rightarrow> portfolio_service \<Rightarrow> fill_event \<Rightarrow> portfolio_service \<times> string option \<Rightarrow> bool" where
  "ends h env svc fill res = (case res of (svc', err) \<Rightarrow>
     (case h of
        Nothing_To_Do \<Rightarrow> has_applied_fill (svc_state svc) (fl_fill_id fill) \<and> svc' = svc \<and> err = None
      | Known_Outcome \<Rightarrow> get_outcome (svc_outcomes svc) (fl_fill_id fill) \<noteq> None \<and> err = None
          \<and> svc' = svc\<lparr>svc_state := mark_fill_applied (svc_state svc) (fl_fill_id fill)\<rparr>
      | Restored \<Rightarrow> err \<noteq> None \<and> svc_state svc' = svc_state svc \<and> svc_outcomes svc' = svc_outcomes svc
          \<and> svc_processing_failures svc' = Suc (svc_processing_failures svc)
      | Restored_After_Commit \<Rightarrow> err \<noteq> None \<and> svc_state svc' = svc_state svc
          \<and> (\<exists>e. env_outbox env = Some (FailedAfterCommit e))
          \<and> get_outcome (svc_outcomes svc') (fl_fill_id fill) \<noteq> None
          \<and> svc_processing_failures svc' = Suc (svc_processing_failures svc)
      | Booked \<Rightarrow> (env_outbox env \<noteq> None \<longrightarrow> err = None) \<and> get_outcome (svc_outcomes svc') (fl_fill_id fill) \<noteq> None
          \<and> (\<exists>r. apply_fill (svc_state svc) fill = Inr (svc_state svc', r))
          \<and> svc_fills_processed svc' = Suc (svc_fills_processed svc)))"

lemma restored_ends:
  "restore st cp = svc_state svc \<Longrightarrow> svc_outcomes svc1 = svc_outcomes svc \<Longrightarrow> svc_processing_failures svc1 = svc_processing_failures svc \<Longrightarrow>
   ends Restored env svc fill (restore_and_fail env fill cp svc1 st stage message retriable details)"
  by (simp add: ends_def restore_and_fail_def emit_processing_failure_def)

lemma get_saved [simp]: "get_outcome (save_outcome outcomes outcome) (fo_fill_id outcome) = Some outcome"
  by (simp add: get_outcome_def save_outcome_def)

lemma book_with_outbox_ends:
  assumes "restore st cp = svc_state svc" "fo_fill_id outcome = fl_fill_id fill"
    and "apply_fill (svc_state svc) fill = Inr (st, r)" "env_outbox env = Some outbox"
  shows "\<exists>h \<in> {Restored, Restored_After_Commit, Booked}. (h = Restored_After_Commit \<longleftrightarrow> (\<exists>e. outbox = FailedAfterCommit e))
    \<and> ends h env svc fill (book_with_outbox env svc fill cp st snapshot delta outcome outbox)"
proof (cases outbox)
  case Committed
  then have "ends Booked env svc fill (book_with_outbox env svc fill cp st snapshot delta outcome outbox)"
    using assms(3) get_saved[of _ outcome]
    by (simp add: ends_def book_with_outbox_def persist_fill_projection_def fill_processed_def assms(2))
  with Committed show ?thesis by auto
next
  case (FailedBeforeCommit e)
  then have "ends Restored env svc fill (book_with_outbox env svc fill cp st snapshot delta outcome outbox)"
    using restored_ends[OF assms(1)] by (simp add: book_with_outbox_def persist_fill_projection_def)
  with FailedBeforeCommit show ?thesis by auto
next
  case (FailedAfterCommit e)
  then have "ends Restored_After_Commit env svc fill (book_with_outbox env svc fill cp st snapshot delta outcome outbox)"
    using assms(1,4) get_saved[of _ outcome]
    by (simp add: ends_def book_with_outbox_def persist_fill_projection_def restore_and_fail_def assms(2)
        emit_processing_failure_def)
  with FailedAfterCommit show ?thesis by auto
qed

lemma book_directly_ends:
  assumes "restore st cp = svc_state svc" "fo_fill_id outcome = fl_fill_id fill"
    and "apply_fill (svc_state svc) fill = Inr (st, r)" "env_outbox env = None"
  shows "\<exists>h \<in> {Restored, Booked}. ends h env svc fill (book_directly env svc fill cp st snapshot delta outcome)"
proof (cases "env_snapshot_error env")
  case (Some e)
  then show ?thesis using restored_ends[OF assms(1)] by (simp add: book_directly_def)
next
  case no_err: None
  show ?thesis
  proof (cases "env_outcome_error env")
    case (Some e)
    with no_err show ?thesis using restored_ends[OF assms(1)] by (simp add: book_directly_def)
  next
    case None
    with no_err have "ends Booked env svc fill (book_directly env svc fill cp st snapshot delta outcome)"
      using assms(3) get_saved[of _ outcome]
      by (cases "env_projection_error env"; cases "env_delta_publish_error env"; cases "env_snapshot_publish_error env")
        (simp_all add: ends_def book_directly_def publish_booked_def fill_processed_def emit_processing_failure_def assms(2)
          assms(4))
    then show ?thesis by simp
  qed
qed

lemma outcome_id:
  "fo_fill_id (from_fill_and_balance_delta fill (balance_delta_event now fill b a r f) w x y z) = fl_fill_id fill"
  by (simp add: from_fill_and_balance_delta_def balance_delta_event_def Let_def)

text \<open>Every handler ends in one of five ways; which one is fixed by state, outcomes and environment.\<close>

lemma book_fill_ends:
  assumes "apply_fill (svc_state svc) fill = Inr (st, r)"
  shows "\<exists>h \<in> {Restored, Restored_After_Commit, Booked}. (h = Restored_After_Commit \<longrightarrow> (\<exists>e. env_outbox env = Some (FailedAfterCommit e)))
    \<and> ends h env svc fill (book_fill env svc fill (checkpoint (svc_state svc)) st r)"
proof (cases "build_snapshot st (env_price env) (env_now env) (Some (fl_decision_id fill)) (Some (fl_intent_id fill))
             (Some (fl_fill_id fill)) FillDerived")
  case None
  then show ?thesis using restored_ends[OF apply_fill_restore[OF assms]] by (simp add: book_fill_def)
next
  case (Some snapshot)
  show ?thesis
  proof (cases "env_outbox env")
    case None
    with Some show ?thesis
      using book_directly_ends[OF apply_fill_restore[OF assms] outcome_id assms None] by (simp add: book_fill_def Let_def)
  next
    case outbox: (Some o')
    with Some show ?thesis
      using book_with_outbox_ends[OF apply_fill_restore[OF assms] outcome_id assms outbox]
      by (simp add: book_fill_def Let_def) blast
  qed
qed

lemma handle_ends:
  "\<exists>h. (h = Nothing_To_Do \<longleftrightarrow> has_applied_fill (svc_state svc) (fl_fill_id fill))
    \<and> (h = Known_Outcome \<longleftrightarrow> \<not> has_applied_fill (svc_state svc) (fl_fill_id fill)
          \<and> get_outcome (svc_outcomes svc) (fl_fill_id fill) \<noteq> None)
    \<and> ends h env svc fill (handle_fill_event env svc fill)"
proof (cases "has_applied_fill (svc_state svc) (fl_fill_id fill)")
  case True
  then show ?thesis by (intro exI[of _ Nothing_To_Do]) (simp add: handle_fill_event_def ends_def)
next
  case new: False
  show ?thesis
  proof (cases "get_outcome (svc_outcomes svc) (fl_fill_id fill) = None")
    case False
    with new show ?thesis by (intro exI[of _ Known_Outcome]) (simp add: handle_fill_event_def ends_def)
  next
    case none: True
    show ?thesis
    proof (cases "apply_fill (svc_state svc) fill")
      case (Inl e)
      with new none show ?thesis
        by (intro exI[of _ Restored]) (simp add: handle_fill_event_def Let_def restored_ends restore_self del: restore_checkpoint)
    next
      case (Inr pair)
      then obtain st r where ap: "apply_fill (svc_state svc) fill = Inr (st, r)" by (cases pair) auto
      have "handle_fill_event env svc fill = book_fill env svc fill (checkpoint (svc_state svc)) st r"
        using new none ap apply_fill_unapplied(1)[OF ap new] by (simp add: handle_fill_event_def Let_def)
      then show ?thesis using book_fill_ends[OF ap, of env] new none by auto
    qed
  qed
qed

text \<open>Only state and outcomes decide how a fill is handled.\<close>

definition same_books :: "portfolio_service \<Rightarrow> portfolio_service \<Rightarrow> bool" where
  "same_books s1 s2 = (svc_state s1 = svc_state s2 \<and> svc_outcomes s1 = svc_outcomes s2)"

definition same_answer :: "portfolio_service \<times> string option \<Rightarrow> portfolio_service \<times> string option \<Rightarrow> bool" where
  "same_answer r1 r2 = (snd r1 = snd r2 \<and> same_books (fst r1) (fst r2))"

lemmas same_defs = same_answer_def same_books_def

lemma restore_and_fail_same:
  "svc_outcomes s1 = svc_outcomes s2 \<Longrightarrow>
   same_answer (restore_and_fail env fill cp s1 st stage message retriable details)
               (restore_and_fail env fill cp s2 st stage message retriable details)"
  by (simp add: same_defs restore_and_fail_def emit_processing_failure_def)

lemma book_with_outbox_same:
  "same_books s1 s2 \<Longrightarrow>
   same_answer (book_with_outbox env s1 fill cp st snapshot delta outcome outbox)
               (book_with_outbox env s2 fill cp st snapshot delta outcome outbox)"
  by (cases outbox)
    (simp_all add: same_defs book_with_outbox_def persist_fill_projection_def fill_processed_def restore_and_fail_def)

lemma publish_booked_same:
  "same_books s1 s2 \<Longrightarrow> same_answer (publish_booked env s1 delta snapshot) (publish_booked env s2 delta snapshot)"
  by (simp add: same_defs publish_booked_def split: option.split)

lemma book_directly_same:
  assumes "same_books s1 s2"
  shows "same_answer (book_directly env s1 fill cp st snapshot delta outcome)
                     (book_directly env s2 fill cp st snapshot delta outcome)"
proof -
  have "svc_outcomes s1 = svc_outcomes s2" using assms by (simp add: same_books_def)
  then show ?thesis
    by (cases "env_snapshot_error env"; cases "env_outcome_error env"; cases "env_projection_error env")
      (simp_all add: book_directly_def Let_def restore_and_fail_same publish_booked_same fill_processed_def same_books_def)
qed

lemma book_fill_same:
  assumes "same_books s1 s2"
  shows "same_answer (book_fill env s1 fill cp st r) (book_fill env s2 fill cp st r)"
  using assms[unfolded same_books_def]
  by (cases "build_snapshot st (env_price env) (env_now env) (Some (fl_decision_id fill)) (Some (fl_intent_id fill))
             (Some (fl_fill_id fill)) FillDerived"; cases "env_outbox env")
    (simp_all add: book_fill_def Let_def restore_and_fail_same book_with_outbox_same book_directly_same assms)

lemma handle_same:
  assumes "same_books s1 s2"
  shows "same_answer (handle_fill_event env s1 fill) (handle_fill_event env s2 fill)"
proof -
  have "same_answer (s1, None) (s2, None)"
    "same_answer (s1\<lparr>svc_state := st\<rparr>, None) (s2\<lparr>svc_state := st\<rparr>, None)" for st
    using assms by (simp_all add: same_defs)
  moreover have "svc_state s1 = svc_state s2" "svc_outcomes s1 = svc_outcomes s2"
    using assms by (simp_all add: same_books_def)
  ultimately show ?thesis
    by (simp add: handle_fill_event_def Let_def restore_and_fail_same book_fill_same[OF assms] split: sum.split)
qed

section \<open>Redelivery\<close>

text \<open>The bus delivers at least once: the same fill reaches the handler once per environment of the list.\<close>

fun redeliver :: "portfolio_env list \<Rightarrow> fill_event \<Rightarrow> portfolio_service \<Rightarrow> portfolio_service" where
  "redeliver [] fill svc = svc"
| "redeliver (env # envs) fill svc = redeliver envs fill (fst (handle_fill_event env svc fill))"

lemma handle_applied:
  "has_applied_fill (svc_state svc) (fl_fill_id fill) \<Longrightarrow> handle_fill_event env svc fill = (svc, None)"
  by (simp add: handle_fill_event_def)

lemma redeliver_applied:
  "has_applied_fill (svc_state svc) (fl_fill_id fill) \<Longrightarrow> redeliver envs fill svc = svc"
  by (induction envs) (simp_all add: handle_applied)

definition unprocessed :: "portfolio_service \<Rightarrow> fill_event \<Rightarrow> bool" where
  "unprocessed svc fill = (\<not> has_applied_fill (svc_state svc) (fl_fill_id fill)
     \<and> get_outcome (svc_outcomes svc) (fl_fill_id fill) = None)"

definition never_after_commit :: "portfolio_env \<Rightarrow> bool" where
  "never_after_commit env = (case env_outbox env of Some (FailedAfterCommit e) \<Rightarrow> False | r \<Rightarrow> True)"

lemma handle_unprocessed:
  assumes "unprocessed svc fill"
  shows "\<exists>h \<in> {Restored, Restored_After_Commit, Booked}. ends h env svc fill (handle_fill_event env svc fill)"
proof -
  have new: "\<not> has_applied_fill (svc_state svc) (fl_fill_id fill)" "get_outcome (svc_outcomes svc) (fl_fill_id fill) = None"
    using assms by (simp_all add: unprocessed_def)
  from handle_ends[of svc fill env] obtain h where h:
    "(h = Nothing_To_Do \<longleftrightarrow> has_applied_fill (svc_state svc) (fl_fill_id fill))
      \<and> (h = Known_Outcome \<longleftrightarrow> \<not> has_applied_fill (svc_state svc) (fl_fill_id fill)
          \<and> get_outcome (svc_outcomes svc) (fl_fill_id fill) \<noteq> None)
      \<and> ends h env svc fill (handle_fill_event env svc fill)" ..
  from h new have "h \<noteq> Nothing_To_Do" "h \<noteq> Known_Outcome" by simp_all
  with h show ?thesis by (cases h) simp_all
qed

lemma handle_atomic:
  assumes "unprocessed svc fill" "never_after_commit env"
  shows "ends Restored env svc fill (handle_fill_event env svc fill)
       \<or> ends Booked env svc fill (handle_fill_event env svc fill)"
proof -
  have "\<not> ends Restored_After_Commit env svc fill res" for res
    using assms(2) by (auto simp: ends_def never_after_commit_def)
  with handle_unprocessed[OF assms(1), of env] show ?thesis by blast
qed

lemma booked_state:
  assumes "ends Booked env svc fill res" "\<not> has_applied_fill (svc_state svc) (fl_fill_id fill)"
  shows "\<exists>r. apply_fill (svc_state svc) fill = Inr (svc_state (fst res), r)"
    "has_applied_fill (svc_state (fst res)) (fl_fill_id fill)"
  using assms by (auto simp: ends_def case_prod_beta intro: apply_fill_unapplied(2))

lemma restored_same: "ends Restored env svc fill res \<Longrightarrow> same_books (fst res) svc \<and> snd res \<noteq> None"
  by (simp add: ends_def case_prod_beta same_books_def)

lemma unprocessed_same: "same_books s1 s2 \<Longrightarrow> unprocessed s1 fill = unprocessed s2 fill"
  by (simp add: unprocessed_def same_books_def)

lemma redeliver_books:
  assumes "list_all never_after_commit envs" "unprocessed svc fill"
    and "list_ex (\<lambda>env. snd (handle_fill_event env svc fill) = None) envs"
  shows "\<exists>r. apply_fill (svc_state svc) fill = Inr (svc_state (redeliver envs fill svc), r)"
  using assms
proof (induction envs arbitrary: svc)
  case (Cons env envs)
  let ?res = "handle_fill_event env svc fill"
  from Cons.prems(1,2) consider "ends Booked env svc fill ?res" | "ends Restored env svc fill ?res"
    using handle_atomic by fastforce
  then show ?case
  proof cases
    case 1
    with Cons.prems(2) show ?thesis
      using booked_state[OF 1] by (auto simp: unprocessed_def redeliver_applied)
  next
    case 2
    note same = restored_same[OF 2]
    have "snd (handle_fill_event e (fst ?res) fill) = snd (handle_fill_event e svc fill)" for e
      using handle_same[of "fst ?res" svc e fill] same by (simp add: same_answer_def)
    with Cons.prems same
    have "\<exists>r. apply_fill (svc_state (fst ?res)) fill = Inr (svc_state (redeliver envs fill (fst ?res)), r)"
      by (intro Cons.IH) (auto simp: unprocessed_same)
    with same show ?thesis by (simp add: same_books_def)
  qed
qed simp

section \<open>Properties\<close>


text \<open>
  C32. At-least-once delivery books a fill exactly once. However often and in whatever environments
  a fill is delivered, if no delivery fails after its commit and one of the environments is such that
  handling the fill there succeeds, the state in the end is that of applying the fill once, and every
  later delivery leaves the service as it is.
\<close>

theorem redelivery_books_once:
  assumes "list_all never_after_commit envs" "unprocessed svc fill"
    and "list_ex (\<lambda>env. snd (handle_fill_event env svc fill) = None) envs"
  shows "(\<exists>r. apply_fill (svc_state svc) fill = Inr (svc_state (redeliver envs fill svc), r))
       \<and> handle_fill_event env' (redeliver envs fill svc) fill = (redeliver envs fill svc, None)"
proof -
  obtain r where ap: "apply_fill (svc_state svc) fill = Inr (svc_state (redeliver envs fill svc), r)"
    using redeliver_books[OF assms] ..
  with assms(2) show ?thesis
    using apply_fill_unapplied(2)[OF ap] by (simp add: unprocessed_def handle_applied)
qed

text \<open>
  C34. A failure of the outbox after its commit loses the fill from memory: the handler restores the
  state from before the fill although the outcome is stored, so the redelivered fill is only marked as
  applied. Positions, balances, realised profit and fees stay as they were before the fill, whatever
  environment the redelivery runs in.
\<close>

theorem post_commit_failure_loses_fill:
  assumes "unprocessed svc fill" "env_outbox env = Some (FailedAfterCommit e)"
    and "apply_fill (svc_state svc) fill = Inr (st, r)"
    and "build_snapshot st (env_price env) (env_now env) (Some (fl_decision_id fill)) (Some (fl_intent_id fill))
           (Some (fl_fill_id fill)) FillDerived = Some snapshot"
  shows "snd (handle_fill_event env svc fill) = Some e
       \<and> svc_state (fst (handle_fill_event env svc fill)) = svc_state svc
       \<and> snd (handle_fill_event env' (fst (handle_fill_event env svc fill)) fill) = None
       \<and> svc_state (fst (handle_fill_event env' (fst (handle_fill_event env svc fill)) fill))
           = mark_fill_applied (svc_state svc) (fl_fill_id fill)"
proof -
  have new: "\<not> has_applied_fill (svc_state svc) (fl_fill_id fill)" "get_outcome (svc_outcomes svc) (fl_fill_id fill) = None"
    using assms(1) by (simp_all add: unprocessed_def)
  obtain outcome delta where
    h: "handle_fill_event env svc fill
          = book_with_outbox env svc fill (checkpoint (svc_state svc)) st snapshot delta outcome (FailedAfterCommit e)"
    and o: "fo_fill_id outcome = fl_fill_id fill"
    using new apply_fill_unapplied(1)[OF assms(3) new(1)] assms(2-4)
    by (simp add: handle_fill_event_def book_fill_def Let_def outcome_id)
  let ?res = "handle_fill_event env svc fill"
  have res: "snd ?res = Some e" "svc_state (fst ?res) = svc_state svc"
    "svc_outcomes (fst ?res) = save_outcome (svc_outcomes svc) outcome"
    unfolding h using apply_fill_restore[OF assms(3)]
    by (simp_all add: book_with_outbox_def persist_fill_projection_def restore_and_fail_def)
  then have "get_outcome (svc_outcomes (fst ?res)) (fl_fill_id fill) \<noteq> None"
    using get_saved[of _ outcome] by (simp add: o)
  with res(2) new(1) have "handle_fill_event env' (fst ?res) fill
      = ((fst ?res)\<lparr>svc_state := mark_fill_applied (svc_state svc) (fl_fill_id fill)\<rparr>, None)"
    by (simp add: handle_fill_event_def)
  with res show ?thesis by simp
qed

text \<open>
  The published balance deltas are exactly the balances that changed: a currency has an entry if
  and only if its balance differs, the entry is the rounded difference, no currency has two entries
  and they come in the order of their names.
\<close>

theorem balance_deltas_exact:
  "map_of (bd_balance_deltas (balance_delta_event now fill b a r f)) c
     = (if dict_get a c 0 = dict_get b c 0 then None else Some (dsub (dict_get a c 0) (dict_get b c 0)))
   \<and> sorted (map fst (bd_balance_deltas (balance_delta_event now fill b a r f)))
   \<and> distinct (map fst (bd_balance_deltas (balance_delta_event now fill b a r f)))"
proof -
  let ?cs = "filter (\<lambda>c. dict_get a c 0 \<noteq> dict_get b c 0) (sorted_list_of_set (set (map fst b @ map fst a)))"
  have d: "bd_balance_deltas (balance_delta_event now fill b a r f)
      = map (\<lambda>c. (c, dsub (dict_get a c 0) (dict_get b c 0))) ?cs"
    by (simp add: balance_delta_event_def Let_def)
  have unlisted: "dict_get a c 0 = dict_get b c 0" if "c \<notin> fst ` set b" "c \<notin> fst ` set a"
    using that by (simp add: dict_get_def map_of_eq_None_iff[THEN iffD2])
  have "map_of (map (\<lambda>c. (c, dsub (dict_get a c 0) (dict_get b c 0))) ?cs) c
      = (if c \<in> set ?cs then Some (dsub (dict_get a c 0) (dict_get b c 0)) else None)"
    by (simp add: map_of_map_restrict restrict_map_def)
  moreover have "map fst (map (\<lambda>c. (c, dsub (dict_get a c 0) (dict_get b c 0))) ?cs) = ?cs"
    by (simp add: comp_def)
  moreover have "c \<in> set ?cs \<longleftrightarrow> dict_get a c 0 \<noteq> dict_get b c 0"
    using unlisted by auto
  moreover have "sorted ?cs" "distinct ?cs"
    by (simp_all add: sorted_filter[where f = id, simplified])
  ultimately show ?thesis unfolding d by simp
qed

section \<open>Witnesses\<close>

definition example_service :: portfolio_service where
  "example_service = \<lparr>svc_state = new_portfolio_state 1000 Spot ''cash'', svc_outcomes = [], svc_snapshots = [],
     svc_failures = [], svc_published = [], svc_fills_processed = 0, svc_processing_failures = 0\<rparr>"

definition example_env :: "outbox_result \<Rightarrow> portfolio_env" where
  "example_env r = \<lparr>env_now = Aware 0 0, env_price = (\<lambda>_. 100), env_outbox = Some r, env_snapshot_error = None,
     env_outcome_error = None, env_projection_error = None, env_delta_publish_error = None,
     env_snapshot_publish_error = None, env_failure_published = True\<rparr>"

lemma example_fill_parts:
  "fl_side (example_fill i s q p) = s" "fl_fill_qty (example_fill i s q p) = q"
  "fl_symbol (example_fill i s q p) = ''BTC-USDT''" "fl_fee_amount (example_fill i s q p) = 0"
  "fl_product_type (example_fill i s q p) = Spot" "resolved_fee_currency (example_fill i s q p) b c = c"
  "position_key_for_fill (example_fill i s q p) = ''BTC-USDT''"
  "symbol_currencies ''BTC-USDT'' = (Some ''BTC'', Some ''USDT'')"
proof -
  have n: "norm_str ''cash'' = ''cash''" "symbol_currencies ''BTC-USDT'' = (Some ''BTC'', Some ''USDT'')" by code_simp+
  show "fl_side (example_fill i s q p) = s" "fl_fill_qty (example_fill i s q p) = q"
    "fl_symbol (example_fill i s q p) = ''BTC-USDT''" "fl_fee_amount (example_fill i s q p) = 0"
    "fl_product_type (example_fill i s q p) = Spot" "resolved_fee_currency (example_fill i s q p) b c = c"
    "position_key_for_fill (example_fill i s q p) = ''BTC-USDT''"
    "symbol_currencies ''BTC-USDT'' = (Some ''BTC'', Some ''USDT'')"
    using n by (simp_all add: example_fill_def new_fill_event_def resolved_fee_currency_def position_key_for_fill_def
        build_position_key_def)
qed

definition example_record :: position_record where
  "example_record = (new_position_record ''BTC-USDT'' ''BTC-USDT'')
     \<lparr>pr_quantity := 1, pr_avg_entry_price := 90, pr_exposure_side := ExpLong\<rparr>"

lemma example_record_for_fill: "record_for_fill (example_fill ''f1'' Buy 1 90) ''BTC-USDT'' 1 90 = example_record"
  by (simp add: record_for_fill_def example_fill_def new_fill_event_def new_position_record_def example_record_def
      exposure_side_from_quantity_def EPSILON_DECIMAL_12_def normalize_position_mode_def normalize_position_side_def)

lemma example_steps:
  "position_after 0 0 1 90 = (1, 90, 0)"
  "cleanup_if_flat ''BTC-USDT'' [(''BTC-USDT'', example_record)] = [(''BTC-USDT'', example_record)]"
  "trade_balances Spot Buy (Some ''BTC'') (Some ''USDT'') 1 90 [(''USDT'', 1000)] = [(''USDT'', 910), (''BTC'', 1)]"
  "settle_balances Spot (Some ''USDT'') 0 (Some ''USDT'') 0 [(''USDT'', 910), (''BTC'', 1)] = [(''USDT'', 910), (''BTC'', 1)]"
  by (simp_all add: position_after_def cleanup_if_flat_def trade_balances_def settle_balances_def Let_def dict_get_def
      exact_ops same_direction_def is_effectively_zero_def EPSILON_DECIMAL_12_def example_record_def)

lemma example_start:
  "pf_positions (new_portfolio_state 1000 Spot ''cash'') = []"
  "pf_balances (new_portfolio_state 1000 Spot ''cash'') = [(''USDT'', 1000)]"
  "pf_applied_fill_ids (new_portfolio_state 1000 Spot ''cash'') = []"
  "pf_realized_pnl (new_portfolio_state 1000 Spot ''cash'') = 0"
  "pf_default_margin_mode (new_portfolio_state 1000 Spot ''cash'') = ''cash''"
  "pr_quantity (new_position_record s k) = 0" "pr_avg_entry_price (new_position_record s k) = 0"
  by (simp_all add: new_portfolio_state_def new_position_record_def)

lemma example_booking:
  "\<exists>st r. apply_fill (new_portfolio_state 1000 Spot ''cash'') (example_fill ''f1'' Buy 1 90) = Inr (st, r)
     \<and> pf_positions st = [(''BTC-USDT'', example_record)] \<and> pf_balances st = [(''USDT'', 910), (''BTC'', 1)]
     \<and> pf_realized_pnl st = 0 \<and> pf_default_margin_mode st = ''cash''"
  by (subst apply_fill_def)
    (simp add: Let_def dict_get_def example_fill_parts example_record_for_fill example_steps example_start exact_ops
      case_prod_beta del: example_fill_id ex_simps)

lemma example_booked_snapshot:
  assumes "pf_positions st = [(''BTC-USDT'', example_record)]" "pf_balances st = [(''USDT'', 910), (''BTC'', 1)]"
    and "pf_realized_pnl st = 0" "pf_default_margin_mode st = ''cash''"
  shows "\<exists>snap. build_snapshot st (\<lambda>_. 100) t d i f FillDerived = Some snap"
  using quantize_int[of 1]
  by (simp add: assms build_snapshot_def example_record_def new_position_record_def Let_def
      snapshot_position_def record_notional_def record_unrealized_def unrealized_pnl_def resolved_margin_allocated_def
      from_exchange_def position_literals_ok_def quantize_opt_def quantize_dict_def dsum_def dict_get_def
      off_position_equity_def builder_symbol_currencies_def List.map_filter_def exact_ops py_lower_def)

lemma example_booked:
  obtains st r snap where "apply_fill (svc_state example_service) (example_fill ''f1'' Buy 1 90) = Inr (st, r)"
    "build_snapshot st (\<lambda>_. 100) (Aware 0 0) (Some (fl_decision_id (example_fill ''f1'' Buy 1 90)))
       (Some (fl_intent_id (example_fill ''f1'' Buy 1 90))) (Some ''f1'') FillDerived = Some snap"
    "pf_balances st = [(''USDT'', 910), (''BTC'', 1)]"
  using example_booking example_booked_snapshot unfolding example_service_def
  by (metis (no_types, lifting) portfolio_service.select_convs(1))

lemma example_unprocessed: "unprocessed example_service (example_fill ''f1'' Buy 1 90)"
  by (simp add: unprocessed_def example_service_def has_applied_fill_def example_start get_outcome_def)

lemma example_commits:
  "snd (handle_fill_event (example_env Committed) example_service (example_fill ''f1'' Buy 1 90)) = None"
proof -
  obtain st r snap where b: "apply_fill (svc_state example_service) (example_fill ''f1'' Buy 1 90) = Inr (st, r)"
    "build_snapshot st (\<lambda>_. 100) (Aware 0 0) (Some (fl_decision_id (example_fill ''f1'' Buy 1 90)))
       (Some (fl_intent_id (example_fill ''f1'' Buy 1 90))) (Some ''f1'') FillDerived = Some snap"
    by (rule example_booked)
  with apply_fill_unapplied(1)[OF b(1)] example_unprocessed show ?thesis
    by (simp add: handle_fill_event_def unprocessed_def Let_def book_fill_def example_env_def book_with_outbox_def
        persist_fill_projection_def)
qed


theorem redelivery_books_once_witness:
  "\<exists>r. apply_fill (svc_state example_service) (example_fill ''f1'' Buy 1 90)
     = Inr (svc_state (redeliver [example_env (FailedBeforeCommit ''db''), example_env Committed, example_env Committed]
                         (example_fill ''f1'' Buy 1 90) example_service), r)"
proof -
  let ?envs = "[example_env (FailedBeforeCommit ''db''), example_env Committed, example_env Committed]"
  have n: "list_all never_after_commit ?envs" by (simp add: never_after_commit_def example_env_def)
  have ok: "list_ex (\<lambda>env. snd (handle_fill_event env example_service (example_fill ''f1'' Buy 1 90)) = None) ?envs"
    using example_commits by simp
  show ?thesis using redelivery_books_once[OF n example_unprocessed ok] by (rule conjunct1)
qed

theorem post_commit_failure_loses_fill_witness:
  "\<exists>svc1 svc2. handle_fill_event (example_env (FailedAfterCommit ''flush'')) example_service (example_fill ''f1'' Buy 1 90)
       = (svc1, Some ''flush'')
     \<and> handle_fill_event (example_env Committed) svc1 (example_fill ''f1'' Buy 1 90) = (svc2, None)
     \<and> pf_positions (svc_state svc2) = [] \<and> pf_balances (svc_state svc2) = [(''USDT'', 1000)]"
proof -
  let ?f = "example_fill ''f1'' Buy 1 90" and ?env = "example_env (FailedAfterCommit ''flush'')"
  let ?one = "handle_fill_event ?env example_service ?f"
  let ?two = "handle_fill_event (example_env Committed) (fst ?one) ?f"
  obtain st r snap where b: "apply_fill (svc_state example_service) ?f = Inr (st, r)"
    "build_snapshot st (\<lambda>_. 100) (Aware 0 0) (Some (fl_decision_id ?f)) (Some (fl_intent_id ?f)) (Some ''f1'') FillDerived = Some snap"
    by (rule example_booked)
  have o: "env_outbox ?env = Some (FailedAfterCommit ''flush'')" by (simp add: example_env_def)
  have s: "build_snapshot st (env_price ?env) (env_now ?env) (Some (fl_decision_id ?f)) (Some (fl_intent_id ?f))
      (Some (fl_fill_id ?f)) FillDerived = Some snap"
    using b(2) by (simp add: example_env_def)
  note lost = post_commit_failure_loses_fill[OF example_unprocessed o b(1) s, of "example_env Committed"]
  have pf: "pf_positions (svc_state example_service) = []" "pf_balances (svc_state example_service) = [(''USDT'', 1000)]"
    by (simp_all add: example_service_def example_start)
  from lost have "?one = (fst ?one, Some ''flush'')" "?two = (fst ?two, None)" by (simp_all add: prod_eq_iff)
  moreover from lost pf have "pf_positions (svc_state (fst ?two)) = []" "pf_balances (svc_state (fst ?two)) = [(''USDT'', 1000)]"
    by (simp_all add: mark_fill_applied_def)
  ultimately show ?thesis by blast
qed

end
