(* ===== verification/Lot_Projection.thy ===== *)
theory Lot_Projection
  imports Portfolio_State
begin

text \<open>
  The FIFO lot book: \<^verbatim>\<open>LotBasedProjectionBuilder\<close> of \<^verbatim>\<open>aats/services/ledger/lot_projection.py\<close>,
  the persistent lot book service and the Postgres lot repositories. A \<^verbatim>\<open>deque\<close> of open lots is a
  list, oldest first; the dicts handed to the repositories are records. The SHA-1 hex digest behind
  the stable ids is an argument (\<open>digest\<close>), taken on the text it encodes.

  The loop that closes lots against a fill is a recursive function whose termination is proved for
  every input: in 28-digit arithmetic a lot, or the rest of the fill, can survive a full close only
  while it has more digits than the context holds, which happens at most once for each.
\<close>

section \<open>Lots and their events\<close>

record position_lot =
  lt_lot_id :: string
  lt_symbol :: string
  lt_position_key :: string
  lt_quantity :: decimal
  lt_entry_price :: decimal
  lt_product_type :: product_type
  lt_target_leverage :: decimal
  lt_margin_mode :: margin_mode
  lt_source_fill_id :: string
  lt_exposure_side :: exposure_side
  lt_position_mode :: "string option"
  lt_pos_side :: "string option"
  lt_instrument_family :: "string option"
  lt_settle_currency :: "string option"
  lt_strategy_sleeve_id :: "string option"
  lt_allocation_id :: "string option"
  lt_opened_at :: datetime
  lt_closed_at :: "datetime option"

record lot_event =
  le_event_id :: string
  le_fill_id :: string
  le_lot_id :: string
  le_symbol :: string
  le_event_type :: string
  le_quantity :: decimal
  le_entry_price :: decimal
  le_exit_price :: "decimal option"
  le_realized_pnl_delta :: decimal
  le_strategy_sleeve_id :: "string option"
  le_allocation_id :: "string option"
  le_created_at :: datetime
  le_payload :: "(string \<times> pyval) list"

text \<open>The dict of a lot that the book hands to the repository.\<close>

record lot_row =
  lr_lot_id :: string
  lr_symbol :: string
  lr_signed_quantity_open :: decimal
  lr_entry_price :: decimal
  lr_source_fill_id :: string
  lr_target_leverage :: decimal
  lr_exposure_side :: exposure_side
  lr_strategy_sleeve_id :: "string option"
  lr_allocation_id :: "string option"
  lr_status :: string
  lr_opened_at :: datetime
  lr_closed_at :: "datetime option"
  lr_updated_at :: datetime
  lr_metadata :: "(string \<times> pyval) list"

record lot_failure =
  lf_fill_id :: string
  lf_symbol :: string
  lf_message :: string
  lf_details :: "(string \<times> pyval) list"

record lot_book_snapshot =
  bk_lots :: "lot_row list"
  bk_events :: "lot_event list"
  bk_realized_pnl :: decimal
  bk_total_fees_paid :: decimal
  bk_applied_fill_ids :: "string list"
  bk_positions :: "(string \<times> position_record) list"
  bk_quarantined_fill_ids :: "string list"
  bk_processing_failures :: "lot_failure list"

definition stable_id :: "(string \<Rightarrow> string) \<Rightarrow> string \<Rightarrow> string list \<Rightarrow> string" where
  "stable_id digest prefix parts = prefix @ ''_'' @ take 24 (digest (py_join ''|'' parts))"

definition lot_same_direction :: "decimal \<Rightarrow> decimal \<Rightarrow> bool" where
  "lot_same_direction left right =
     (if is_effectively_zero left \<or> is_effectively_zero right then True
      else (0 < left \<and> 0 < right) \<or> (left < 0 \<and> right < 0))"

section \<open>Closing lots against a fill\<close>

text \<open>What one turn of the loop makes of lot quantity and rest: (profit, lot quantity, rest).\<close>

definition close_amounts :: "decimal \<Rightarrow> decimal \<Rightarrow> decimal \<Rightarrow> decimal \<Rightarrow> decimal \<times> decimal \<times> decimal" where
  "close_amounts fill_price entry_price quantity remaining_qty =
     (let close_qty = min (dabs quantity) (dabs remaining_qty)
      in if 0 < quantity
         then (dmul (dsub fill_price entry_price) close_qty, dsub quantity close_qty, dadd remaining_qty close_qty)
         else (dmul (dsub entry_price fill_price) close_qty, dadd quantity close_qty, dsub remaining_qty close_qty))"

definition side_str :: "order_side \<Rightarrow> string" where
  "side_str side = (case side of Buy \<Rightarrow> ''buy'' | Sell \<Rightarrow> ''sell'')"

definition close_event ::
  "(string \<Rightarrow> string) \<Rightarrow> fill_event \<Rightarrow> nat \<Rightarrow> position_lot \<Rightarrow> decimal \<Rightarrow> decimal \<Rightarrow> lot_event" where
  "close_event digest fill close_event_index lot close_qty pnl_delta =
     \<lparr>le_event_id = stable_id digest ''lotevt'' [fl_fill_id fill, ''close'', nat_str close_event_index],
      le_fill_id = fl_fill_id fill,
      le_lot_id = lt_lot_id lot,
      le_symbol = lt_symbol lot,
      le_event_type = ''close'',
      le_quantity = close_qty,
      le_entry_price = lt_entry_price lot,
      le_exit_price = Some (fl_fill_price fill),
      le_realized_pnl_delta = pnl_delta,
      le_strategy_sleeve_id = lt_strategy_sleeve_id lot,
      le_allocation_id = lt_allocation_id lot,
      le_created_at = fl_ingestion_timestamp fill,
      le_payload = [(''side'', PyStr (side_str (fl_side fill))),
                    (''position_intent'', PyStr (position_intent_str (fl_position_intent fill))),
                    (''position_key'', PyStr (lt_position_key lot)),
                    (''position_mode'', opt_str (lt_position_mode lot)),
                    (''pos_side'', opt_str (lt_pos_side lot)),
                    (''instrument_family'', opt_str (lt_instrument_family lot)),
                    (''settle_currency'', opt_str (lt_settle_currency lot)),
                    (''strategy_sleeve_id'', opt_str (lt_strategy_sleeve_id lot)),
                    (''allocation_id'', opt_str (lt_allocation_id lot))]\<rparr>"

definition closed_row :: "fill_event \<Rightarrow> position_lot \<Rightarrow> lot_row" where
  "closed_row fill lot =
     \<lparr>lr_lot_id = lt_lot_id lot,
      lr_symbol = lt_symbol lot,
      lr_signed_quantity_open = 0,
      lr_entry_price = lt_entry_price lot,
      lr_source_fill_id = lt_source_fill_id lot,
      lr_target_leverage = lt_target_leverage lot,
      lr_exposure_side = lt_exposure_side lot,
      lr_strategy_sleeve_id = lt_strategy_sleeve_id lot,
      lr_allocation_id = lt_allocation_id lot,
      lr_status = ''CLOSED'',
      lr_opened_at = lt_opened_at lot,
      lr_closed_at = Some (fl_ingestion_timestamp fill),
      lr_updated_at = fl_ingestion_timestamp fill,
      lr_metadata = [(''position_key'', PyStr (lt_position_key lot)),
                     (''position_mode'', opt_str (lt_position_mode lot)),
                     (''pos_side'', opt_str (lt_pos_side lot)),
                     (''instrument_family'', opt_str (lt_instrument_family lot)),
                     (''settle_currency'', opt_str (lt_settle_currency lot)),
                     (''strategy_sleeve_id'', opt_str (lt_strategy_sleeve_id lot)),
                     (''allocation_id'', opt_str (lt_allocation_id lot))]\<rparr>"

text \<open>The lots after one turn: the head with its new quantity, or without the head.\<close>

definition lots_after_close :: "position_lot \<Rightarrow> decimal \<Rightarrow> position_lot list \<Rightarrow> position_lot list" where
  "lots_after_close lot updated_lot_qty lots =
     (if \<not> is_effectively_zero updated_lot_qty then lot\<lparr>lt_quantity := updated_lot_qty, lt_closed_at := None\<rparr> # lots
      else lots)"

text \<open>
  The loop: open lots, rest of the fill and realised profit; it returns these after the loop with the
  closed rows and the events, in the order they are appended.
\<close>

function (sequential) close_lots ::
  "(string \<Rightarrow> string) \<Rightarrow> fill_event \<Rightarrow> nat \<Rightarrow> position_lot list \<Rightarrow> decimal \<Rightarrow> decimal
   \<Rightarrow> position_lot list \<times> decimal \<times> decimal \<times> lot_row list \<times> lot_event list"
where
  "close_lots digest fill index [] remaining_qty realized_pnl = ([], remaining_qty, realized_pnl, [], [])"
| "close_lots digest fill index (lot # lots) remaining_qty realized_pnl =
     (if lot_same_direction (lt_quantity lot) remaining_qty then (lot # lots, remaining_qty, realized_pnl, [], [])
      else
        let close_qty = min (dabs (lt_quantity lot)) (dabs remaining_qty);
            amounts = close_amounts (fl_fill_price fill) (lt_entry_price lot) (lt_quantity lot) remaining_qty;
            pnl_delta = fst amounts;
            updated_lot_qty = fst (snd amounts);
            remaining = snd (snd amounts);
            open_lots = lots_after_close lot updated_lot_qty lots;
            closed = (if \<not> is_effectively_zero updated_lot_qty then [] else [closed_row fill lot]);
            event = close_event digest fill index lot close_qty pnl_delta
        in if is_effectively_zero remaining then (open_lots, 0, dadd realized_pnl pnl_delta, closed, [event])
           else
             case close_lots digest fill (index + 1) open_lots remaining (dadd realized_pnl pnl_delta) of
               (lots', rest, pnl, rows, events) \<Rightarrow> (lots', rest, pnl, closed @ rows, event # events))"
  by pat_completeness auto

text \<open>Each lot is visited at most twice, and the rest of the fill adds at most one turn.\<close>

definition close_measure :: "position_lot list \<Rightarrow> decimal \<Rightarrow> nat" where
  "close_measure lots remaining_qty =
     2 * length lots - (if lots \<noteq> [] \<and> exact28 (lt_quantity (hd lots)) then 1 else 0)
     + (if exact28 remaining_qty then 0 else 1)"

lemma close_amounts_exact:
  assumes "close_amounts p e q r = (d, u, r')" "\<not> lot_same_direction q r"
  shows "exact28 u" "exact28 r'" "exact28 d"
  using assms by (auto simp: close_amounts_def Let_def split: if_splits)

text \<open>The side that is closed in full, when exact, ends at zero.\<close>

lemma close_amounts_zero:
  assumes "close_amounts p e q r = (d, u, r')" "\<not> lot_same_direction q r"
  shows "exact28 q \<and> dabs q \<le> dabs r \<longrightarrow> u = 0" "exact28 r \<and> dabs r \<le> dabs q \<longrightarrow> r' = 0"
proof -
  have "q \<noteq> 0" "r \<noteq> 0" using assms(2) by (auto simp: lot_same_direction_def)
  then have signs: "0 < q \<and> r \<le> 0 \<or> q \<le> 0 \<and> 0 \<le> r"
    using assms(2) by (auto simp: lot_same_direction_def split: if_splits)
  have "min (dabs q) (dabs r) = \<bar>q\<bar>" if "exact28 q" "dabs q \<le> dabs r"
    using that by (simp add: min_absorb1 exact_ops)
  then show "exact28 q \<and> dabs q \<le> dabs r \<longrightarrow> u = 0"
    using assms(1) signs by (auto simp: close_amounts_def dadd_def dsub_def)
  have "min (dabs q) (dabs r) = \<bar>r\<bar>" if "exact28 r" "dabs r \<le> dabs q"
    using that by (simp add: min_absorb2 exact_ops)
  then show "exact28 r \<and> dabs r \<le> dabs q \<longrightarrow> r' = 0"
    using assms(1) signs by (auto simp: close_amounts_def dadd_def dsub_def)
qed

lemma close_measure_decreases:
  assumes "\<not> lot_same_direction (lt_quantity lot) r"
    and am: "close_amounts p e (lt_quantity lot) r = (d, u, r')" and "\<not> is_effectively_zero r'"
  shows "close_measure (lots_after_close lot u lots) r' < close_measure (lot # lots) r"
proof -
  note ex = close_amounts_exact[OF am assms(1)] and zero = close_amounts_zero[OF am assms(1)]
  have "r' \<noteq> 0" using assms(3) by auto
  show ?thesis
  proof (cases "is_effectively_zero u")
    case True
    then show ?thesis using ex(2) by (auto simp: close_measure_def lots_after_close_def)
  next
    case False
    then have "u \<noteq> 0" by auto
    with zero \<open>r' \<noteq> 0\<close> have "\<not> (exact28 (lt_quantity lot) \<and> exact28 r)" by (meson le_cases)
    with False ex show ?thesis by (auto simp: close_measure_def lots_after_close_def)
  qed
qed

termination close_lots
proof (relation "measure (\<lambda>(digest, fill, index, lots, r, pnl). close_measure lots r)", goal_cases)
  case 1
  then show ?case by simp
next
  case (2 digest fill index lot lots r pnl close_qty amounts d u r' open_lots closed event)
  then show ?case
    using close_measure_decreases[of lot r "fl_fill_price fill" "lt_entry_price lot" d u r' lots] by simp
qed

section \<open>Rebuilding the book\<close>

record lot_book =
  lb_lots :: "(string \<times> position_lot list) list"
  lb_closed_lots :: "lot_row list"
  lb_realized_pnl :: decimal
  lb_total_fees_paid :: decimal
  lb_applied_fill_ids :: "string list"
  lb_quarantined_fill_ids :: "string list"
  lb_processing_failures :: "lot_failure list"
  lb_events :: "lot_event list"

definition empty_book :: lot_book where
  "empty_book = \<lparr>lb_lots = [], lb_closed_lots = [], lb_realized_pnl = 0, lb_total_fees_paid = 0,
     lb_applied_fill_ids = [], lb_quarantined_fill_ids = [], lb_processing_failures = [], lb_events = []\<rparr>"

definition signed_fill_qty :: "fill_event \<Rightarrow> decimal" where
  "signed_fill_qty fill = (if fl_side fill = Buy then fl_fill_qty fill else dneg (fl_fill_qty fill))"

definition fill_position_mode :: "fill_event \<Rightarrow> string option" where
  "fill_position_mode fill = normalize_position_mode (map_option position_mode_str (fl_position_mode fill))"

definition fill_pos_side :: "fill_event \<Rightarrow> string option" where
  "fill_pos_side fill = normalize_position_side (map_option position_side_str (fl_pos_side fill)) (fill_position_mode fill)"

definition opened_lot :: "(string \<Rightarrow> string) \<Rightarrow> fill_event \<Rightarrow> decimal \<Rightarrow> position_lot" where
  "opened_lot digest fill remaining_qty =
     \<lparr>lt_lot_id = stable_id digest ''lot'' [position_key_for_fill fill, fl_fill_id fill, ''open''],
      lt_symbol = fl_symbol fill,
      lt_position_key = position_key_for_fill fill,
      lt_quantity = remaining_qty,
      lt_entry_price = fl_fill_price fill,
      lt_product_type = fl_product_type fill,
      lt_target_leverage = fl_target_leverage fill,
      lt_margin_mode = fl_margin_mode fill,
      lt_source_fill_id = fl_fill_id fill,
      lt_exposure_side = exposure_side_from_quantity remaining_qty,
      lt_position_mode = fill_position_mode fill,
      lt_pos_side = fill_pos_side fill,
      lt_instrument_family = fl_instrument_family fill,
      lt_settle_currency = fl_settle_currency fill,
      lt_strategy_sleeve_id = fl_strategy_sleeve_id fill,
      lt_allocation_id = fl_allocation_id fill,
      lt_opened_at = fl_ingestion_timestamp fill,
      lt_closed_at = None\<rparr>"

definition open_event :: "(string \<Rightarrow> string) \<Rightarrow> fill_event \<Rightarrow> decimal \<Rightarrow> lot_event" where
  "open_event digest fill remaining_qty =
     \<lparr>le_event_id = stable_id digest ''lotevt'' [fl_fill_id fill, ''open''],
      le_fill_id = fl_fill_id fill,
      le_lot_id = stable_id digest ''lot'' [position_key_for_fill fill, fl_fill_id fill, ''open''],
      le_symbol = fl_symbol fill,
      le_event_type = ''open'',
      le_quantity = dabs remaining_qty,
      le_entry_price = fl_fill_price fill,
      le_exit_price = None,
      le_realized_pnl_delta = 0,
      le_strategy_sleeve_id = fl_strategy_sleeve_id fill,
      le_allocation_id = fl_allocation_id fill,
      le_created_at = fl_ingestion_timestamp fill,
      le_payload = [(''side'', PyStr (side_str (fl_side fill))),
                    (''position_intent'', PyStr (position_intent_str (fl_position_intent fill))),
                    (''position_key'', PyStr (position_key_for_fill fill)),
                    (''position_mode'', opt_str (fill_position_mode fill)),
                    (''pos_side'', opt_str (fill_pos_side fill)),
                    (''instrument_family'', opt_str (fl_instrument_family fill)),
                    (''settle_currency'', opt_str (fl_settle_currency fill)),
                    (''strategy_sleeve_id'', opt_str (fl_strategy_sleeve_id fill)),
                    (''allocation_id'', opt_str (fl_allocation_id fill))]\<rparr>"

text \<open>
  A fill against the open lots of its position key: the lots it leaves, the realised profit, and the
  rows and events it appends. Whatever the loop leaves of the fill opens a lot.
\<close>

definition match_fill ::
  "(string \<Rightarrow> string) \<Rightarrow> fill_event \<Rightarrow> position_lot list \<Rightarrow> decimal
   \<Rightarrow> position_lot list \<times> decimal \<times> lot_row list \<times> lot_event list"
where
  "match_fill digest fill open_lots realized_pnl =
     (case close_lots digest fill 0 open_lots (signed_fill_qty fill) realized_pnl of
        (lots, remaining_qty, pnl, rows, events) \<Rightarrow>
          if \<not> is_effectively_zero remaining_qty
          then (lots @ [opened_lot digest fill remaining_qty], pnl, rows, events @ [open_event digest fill remaining_qty])
          else (lots, pnl, rows, events))"

text \<open>The body of the loop over the sorted fills.\<close>

definition book_step :: "(string \<Rightarrow> string) \<Rightarrow> lot_book \<Rightarrow> fill_event \<Rightarrow> lot_book" where
  "book_step digest book fill =
     (if is_effectively_zero (fl_fill_qty fill) then
        book\<lparr>lb_applied_fill_ids := List.insert (fl_fill_id fill) (lb_applied_fill_ids book)\<rparr>
      else
        case try_fill_fee_delta_in_quote fill None None of
          (_, Some fee_error) \<Rightarrow>
            book\<lparr>lb_quarantined_fill_ids := List.insert (fl_fill_id fill) (lb_quarantined_fill_ids book),
                 lb_processing_failures := lb_processing_failures book @
                   [\<lparr>lf_fill_id = fl_fill_id fill, lf_symbol = fl_symbol fill, lf_message = fee_error,
                     lf_details = unsupported_fee_currency_details fill None None (Some fee_error)\<rparr>]\<rparr>
        | (fee_quote, None) \<Rightarrow>
            let position_key = position_key_for_fill fill;
                open_lots = dict_get (lb_lots book) position_key [];
                (lots, pnl, rows, events) = match_fill digest fill open_lots (lb_realized_pnl book)
            in book\<lparr>lb_applied_fill_ids := List.insert (fl_fill_id fill) (lb_applied_fill_ids book),
                    lb_total_fees_paid := dadd (lb_total_fees_paid book) (to_decimal fee_quote),
                    lb_realized_pnl := pnl,
                    lb_closed_lots := lb_closed_lots book @ rows,
                    lb_events := lb_events book @ events,
                    lb_lots := (if lots = [] then AList.delete position_key (lb_lots book)
                                else AList.update position_key lots (lb_lots book))\<rparr>)"

definition position_of_lots :: "string \<Rightarrow> position_lot list \<Rightarrow> position_record option" where
  "position_of_lots position_key lots =
     (let total_qty = dsum (map lt_quantity lots);
          notional = dsum (map (\<lambda>lot. dmul (dabs (lt_quantity lot)) (lt_entry_price lot)) lots);
          newest = last lots
      in if is_effectively_zero total_qty then None
         else Some ((new_position_record (lt_symbol newest) position_key)
           \<lparr>pr_quantity := total_qty,
            pr_avg_entry_price := ddiv notional (dabs total_qty),
            pr_product_type := lt_product_type newest,
            pr_target_leverage := lt_target_leverage newest,
            pr_margin_mode := margin_mode_str (lt_margin_mode newest),
            pr_position_mode := lt_position_mode newest,
            pr_pos_side := lt_pos_side newest,
            pr_instrument_family := lt_instrument_family newest,
            pr_settle_currency := lt_settle_currency newest,
            pr_exposure_side := exposure_side_from_quantity total_qty\<rparr>))"

definition open_row :: "position_lot \<Rightarrow> lot_row" where
  "open_row lot =
     \<lparr>lr_lot_id = lt_lot_id lot,
      lr_symbol = lt_symbol lot,
      lr_signed_quantity_open = lt_quantity lot,
      lr_entry_price = lt_entry_price lot,
      lr_source_fill_id = lt_source_fill_id lot,
      lr_target_leverage = lt_target_leverage lot,
      lr_exposure_side = lt_exposure_side lot,
      lr_strategy_sleeve_id = lt_strategy_sleeve_id lot,
      lr_allocation_id = lt_allocation_id lot,
      lr_status = ''OPEN'',
      lr_opened_at = lt_opened_at lot,
      lr_closed_at = lt_closed_at lot,
      lr_updated_at = lt_opened_at lot,
      lr_metadata = [(''position_key'', PyStr (lt_position_key lot)),
                     (''position_mode'', opt_str (lt_position_mode lot)),
                     (''pos_side'', opt_str (lt_pos_side lot)),
                     (''instrument_family'', opt_str (lt_instrument_family lot)),
                     (''settle_currency'', opt_str (lt_settle_currency lot))]\<rparr>"

definition book_fills :: "(string \<Rightarrow> string) \<Rightarrow> fill_event list \<Rightarrow> lot_book" where
  "book_fills digest fills = foldl (book_step digest) empty_book (sorted_fills fills)"

definition book_positions :: "(string \<times> position_lot list) list \<Rightarrow> (string \<times> position_record) list" where
  "book_positions entries =
     List.map_filter (\<lambda>(k, lots). map_option (Pair k) (position_of_lots k lots)) entries"

definition rebuild_lot_book :: "(string \<Rightarrow> string) \<Rightarrow> fill_event list \<Rightarrow> lot_book_snapshot" where
  "rebuild_lot_book digest fills =
     (let book = book_fills digest fills
      in \<lparr>bk_lots = concat (map (\<lambda>(k, lots). map open_row lots) (lb_lots book)) @ lb_closed_lots book,
          bk_events = lb_events book,
          bk_realized_pnl = lb_realized_pnl book,
          bk_total_fees_paid = lb_total_fees_paid book,
          bk_applied_fill_ids = lb_applied_fill_ids book,
          bk_positions = book_positions (lb_lots book),
          bk_quarantined_fill_ids = lb_quarantined_fill_ids book,
          bk_processing_failures = lb_processing_failures book\<rparr>)"

definition rebuild_portfolio_state ::
  "(string \<Rightarrow> string) \<Rightarrow> fill_event list \<Rightarrow> (string \<times> decimal) list \<Rightarrow> product_type \<Rightarrow> string \<Rightarrow> portfolio_state" where
  "rebuild_portfolio_state digest fills balances default_product_type default_margin_mode =
     (let lot_book = rebuild_lot_book digest fills
      in (new_portfolio_state 0 default_product_type default_margin_mode)
           \<lparr>pf_balances := ensure_usdt balances,
            pf_positions := bk_positions lot_book,
            pf_realized_pnl := dsub (bk_realized_pnl lot_book) (bk_total_fees_paid lot_book),
            pf_total_fees_paid := bk_total_fees_paid lot_book,
            pf_applied_fill_ids := bk_applied_fill_ids lot_book\<rparr>)"

section \<open>Induction along the loop\<close>

definition closed_rows :: "fill_event \<Rightarrow> position_lot \<Rightarrow> decimal \<Rightarrow> lot_row list" where
  "closed_rows fill lot u = (if \<not> is_effectively_zero u then [] else [closed_row fill lot])"

lemma close_lots_induct [case_names Nil Same Last Step]:
  assumes Nil: "\<And>i r pnl. P i [] r pnl ([], r, pnl, [], [])"
    and Same: "\<And>i lot lots r pnl. lot_same_direction (lt_quantity lot) r \<Longrightarrow>
      P i (lot # lots) r pnl (lot # lots, r, pnl, [], [])"
    and Last: "\<And>i lot lots r pnl d u r'. \<not> lot_same_direction (lt_quantity lot) r \<Longrightarrow>
      close_amounts (fl_fill_price fill) (lt_entry_price lot) (lt_quantity lot) r = (d, u, r') \<Longrightarrow>
      is_effectively_zero r' \<Longrightarrow>
      P i (lot # lots) r pnl (lots_after_close lot u lots, 0, dadd pnl d, closed_rows fill lot u,
        [close_event digest fill i lot (min (dabs (lt_quantity lot)) (dabs r)) d])"
    and Step: "\<And>i lot lots r pnl d u r' lots' rest pnl' rows events.
      \<not> lot_same_direction (lt_quantity lot) r \<Longrightarrow>
      close_amounts (fl_fill_price fill) (lt_entry_price lot) (lt_quantity lot) r = (d, u, r') \<Longrightarrow>
      \<not> is_effectively_zero r' \<Longrightarrow>
      P (Suc i) (lots_after_close lot u lots) r' (dadd pnl d) (lots', rest, pnl', rows, events) \<Longrightarrow>
      P i (lot # lots) r pnl (lots', rest, pnl', closed_rows fill lot u @ rows,
        close_event digest fill i lot (min (dabs (lt_quantity lot)) (dabs r)) d # events)"
  shows "P i lots r pnl (close_lots digest fill i lots r pnl)"
proof (induction "close_measure lots r" arbitrary: i lots r pnl rule: less_induct)
  case less
  show ?case
  proof (cases lots)
    case Nil
    then show ?thesis using assms(1) by simp
  next
    case (Cons lot ls)
    obtain d u r' where am: "close_amounts (fl_fill_price fill) (lt_entry_price lot) (lt_quantity lot) r = (d, u, r')"
      by (metis prod_cases3)
    obtain lots' rest pnl' rows events where
      rec: "close_lots digest fill (Suc i) (lots_after_close lot u ls) r' (dadd pnl d) = (lots', rest, pnl', rows, events)"
      by (metis prod_cases5)
    consider "lot_same_direction (lt_quantity lot) r"
      | "\<not> lot_same_direction (lt_quantity lot) r" "is_effectively_zero r'"
      | "\<not> lot_same_direction (lt_quantity lot) r" "\<not> is_effectively_zero r'" by blast
    then show ?thesis
    proof cases
      case 1
      then show ?thesis using Same by (simp add: Cons)
    next
      case 2
      then show ?thesis using Last[OF 2(1) am 2(2)] by (simp add: Cons am Let_def closed_rows_def)
    next
      case 3
      have "P (Suc i) (lots_after_close lot u ls) r' (dadd pnl d) (lots', rest, pnl', rows, events)"
        using less[of "lots_after_close lot u ls" r'] close_measure_decreases[OF 3(1) am 3(2)] by (simp add: Cons rec flip: rec)
      from Step[OF 3(1) am 3(2) this] 3 show ?thesis
        by (simp add: Cons am Let_def closed_rows_def rec)
    qed
  qed
qed

section \<open>Directions\<close>

text \<open>Open lots of one position key: exact quantities, none of them zero, all in one direction.\<close>

definition one_sided :: "decimal list \<Rightarrow> bool" where
  "one_sided qs \<longleftrightarrow> (\<forall>q \<in> set qs. exact28 q \<and> \<not> is_effectively_zero q) \<and> ((\<forall>q \<in> set qs. 0 < q) \<or> (\<forall>q \<in> set qs. q < 0))"

lemma not_zeroD: "\<not> is_effectively_zero q \<Longrightarrow> 0 < q \<or> q < 0"
  by (metis is_effectively_zero_0 linorder_neqE)

lemma same_direction_iff:
  assumes "\<not> is_effectively_zero a" "\<not> is_effectively_zero b"
  shows "lot_same_direction a b \<longleftrightarrow> (0 < a \<longleftrightarrow> 0 < b)"
  using assms not_zeroD[OF assms(1)] not_zeroD[OF assms(2)]
  by (auto simp: lot_same_direction_def)

lemma close_amounts_sides:
  assumes "close_amounts p e q r = (d, u, r')" "\<not> lot_same_direction q r" "exact28 q" "exact28 r"
  shows "0 < q \<longrightarrow> 0 \<le> u" "q < 0 \<longrightarrow> u \<le> 0" "0 < r \<longrightarrow> 0 \<le> r'" "r < 0 \<longrightarrow> r' \<le> 0"
    "\<bar>u\<bar> \<le> \<bar>q\<bar>" "\<bar>r'\<bar> \<le> \<bar>r\<bar>" "exact28 u" "exact28 r'"
proof -
  define c where "c = min (dabs q) (dabs r)"
  have c: "0 \<le> c" "c \<le> \<bar>q\<bar>" "c \<le> \<bar>r\<bar>" "exact28 c"
    using assms(3,4) by (simp_all add: c_def exact_ops)
  have "0 < q \<or> q < 0" "0 < r \<or> r < 0"
    using assms(2) not_zeroD[of q] not_zeroD[of r] by (auto simp: lot_same_direction_def split: if_splits)
  then have "(0 < q \<and> r < 0 \<and> u = dsub q c \<and> r' = dadd r c) \<or> (q < 0 \<and> 0 < r \<and> u = dadd q c \<and> r' = dsub r c)"
    using assms(1,2) by (auto simp: lot_same_direction_def close_amounts_def c_def Let_def split: if_splits)
  moreover have "0 \<le> dsub x c \<and> dsub x c \<le> x" if "0 < x" "c \<le> \<bar>x\<bar>" "exact28 x" for x
    using that c dec_signs(1)[of c x] dsub_le[of x c] by simp
  moreover have "x \<le> dadd x c \<and> dadd x c \<le> 0" if "x < 0" "c \<le> \<bar>x\<bar>" "exact28 x" for x
    using that c dadd_ge[of x c] ctx28.rnd_nonpos[of "x + c"] by (simp add: dadd_def)
  ultimately show "0 < q \<longrightarrow> 0 \<le> u" "q < 0 \<longrightarrow> u \<le> 0" "0 < r \<longrightarrow> 0 \<le> r'" "r < 0 \<longrightarrow> r' \<le> 0"
    "\<bar>u\<bar> \<le> \<bar>q\<bar>" "\<bar>r'\<bar> \<le> \<bar>r\<bar>" "exact28 u" "exact28 r'"
    using c assms(3,4) by fastforce+
qed

text \<open>What the loop leaves: one-sided lots, and a rest on their side when something is left of both.\<close>

definition fits :: "decimal \<Rightarrow> decimal list \<Rightarrow> bool" where
  "fits r qs \<longleftrightarrow> is_effectively_zero r \<or> (\<forall>q \<in> set qs. 0 < q \<longleftrightarrow> 0 < r)"

lemma one_sided_Cons:
  "one_sided (q # qs) \<longleftrightarrow> exact28 q \<and> \<not> is_effectively_zero q \<and> one_sided qs \<and> (\<forall>x \<in> set qs. 0 < x \<longleftrightarrow> 0 < q)"
  using not_zeroD[of q] unfolding one_sided_def by (auto dest: order.asym)

lemma one_sided_append:
  "one_sided qs \<Longrightarrow> fits r qs \<Longrightarrow> exact28 r \<Longrightarrow> \<not> is_effectively_zero r \<Longrightarrow> one_sided (qs @ [r])"
  using not_zeroD[of r] unfolding one_sided_def fits_def by (auto dest: order.asym)

lemma after_close_sided:
  assumes "one_sided (map lt_quantity (lot # lots))" "exact28 r"
    and "\<not> lot_same_direction (lt_quantity lot) r" "close_amounts p e (lt_quantity lot) r = (d, u, r')"
  shows "one_sided (map lt_quantity (lots_after_close lot u lots))" "exact28 r'"
proof -
  have q: "exact28 (lt_quantity lot)" "\<not> is_effectively_zero (lt_quantity lot)"
    using assms(1) by (simp_all add: one_sided_Cons)
  note sides = close_amounts_sides[OF assms(4,3) q(1) assms(2)]
  have "\<not> is_effectively_zero u \<Longrightarrow> 0 < u \<longleftrightarrow> 0 < lt_quantity lot"
    using sides not_zeroD[of u] not_zeroD[OF q(2)] by force
  then show "one_sided (map lt_quantity (lots_after_close lot u lots))"
    using assms(1) sides(7) by (auto simp: lots_after_close_def one_sided_Cons)
  show "exact28 r'" by (rule sides)
qed

lemma close_lots_sided:
  assumes "one_sided (map lt_quantity lots)" "exact28 r" "\<not> is_effectively_zero r"
    and "close_lots digest fill i lots r pnl = (lots', rest, pnl', rows, events)"
  shows "one_sided (map lt_quantity lots')" "exact28 rest" "fits rest (map lt_quantity lots')"
proof -
  let ?P = "\<lambda>(i::nat) lots r (pnl::decimal) (lots', rest, pnl'::decimal, rows::lot_row list, events::lot_event list).
    one_sided (map lt_quantity lots) \<longrightarrow> exact28 r \<longrightarrow> \<not> is_effectively_zero r \<longrightarrow>
    one_sided (map lt_quantity lots') \<and> exact28 rest \<and> fits rest (map lt_quantity lots')"
  have "?P i lots r pnl (close_lots digest fill i lots r pnl)"
  proof (rule close_lots_induct[where P = ?P], goal_cases Nil Same Last Step)
    case (Nil i r pnl)
    then show ?case by (simp add: fits_def)
  next
    case (Same i lot lots r pnl)
    then show ?case by (auto simp: fits_def one_sided_Cons same_direction_iff)
  next
    case (Last i lot lots r pnl d u r')
    then show ?case using after_close_sided[OF _ _ Last(1,2)] by (auto simp: fits_def)
  next
    case (Step i lot lots r pnl d u r' lots' rest pnl' rows events)
    then show ?case using after_close_sided[OF _ _ Step(1,2)] by auto
  qed
  with assms show "one_sided (map lt_quantity lots')" "exact28 rest" "fits rest (map lt_quantity lots')" by simp_all
qed

lemma match_fill_sided:
  assumes "one_sided (map lt_quantity lots)" "exact28 (fl_fill_qty fill)" "\<not> is_effectively_zero (fl_fill_qty fill)"
    and "match_fill digest fill lots pnl = (lots', pnl', rows, events)"
  shows "one_sided (map lt_quantity lots')"
proof -
  have s: "exact28 (signed_fill_qty fill)" "\<not> is_effectively_zero (signed_fill_qty fill)"
    using assms(2,3) by (simp_all add: signed_fill_qty_def exact_ops)
  obtain ls rest p rs es where cl: "close_lots digest fill 0 lots (signed_fill_qty fill) pnl = (ls, rest, p, rs, es)"
    by (metis prod_cases5)
  note c = close_lots_sided[OF assms(1) s cl]
  show ?thesis
    using assms(4) c one_sided_append[OF c(1,3,2)] by (auto simp: match_fill_def cl opened_lot_def split: if_splits)
qed

section \<open>Conservation\<close>

abbreviation grid_lots :: "position_lot list \<Rightarrow> bool" where
  "grid_lots lots \<equiv> \<forall>lot \<in> set lots. on_grid (lt_quantity lot)"

abbreviation open_qty :: "position_lot list \<Rightarrow> decimal" where
  "open_qty lots \<equiv> sum_list (map lt_quantity lots)"

abbreviation gross_qty :: "position_lot list \<Rightarrow> decimal" where
  "gross_qty lots \<equiv> sum_list (map (\<lambda>lot. \<bar>lt_quantity lot\<bar>) lots)"

lemma close_amounts_grid:
  assumes "close_amounts p e q r = (d, u, r')" "\<not> lot_same_direction q r" "on_grid q" "on_grid r"
  shows "u + r' = q + r" "on_grid u" "on_grid r'" "\<bar>u\<bar> + \<bar>r'\<bar> \<le> \<bar>q\<bar> + \<bar>r\<bar>"
proof -
  define c where "c = min \<bar>q\<bar> \<bar>r\<bar>"
  have ex: "exact28 q" "exact28 r" using assms(3,4) by (simp_all add: on_grid_exact)
  have c: "min (dabs q) (dabs r) = c" "0 \<le> c" "c \<le> \<bar>q\<bar>" "c \<le> \<bar>r\<bar>" "on_grid c"
    using assms(3,4) ex by (simp_all add: c_def exact_ops min_def)
  have "0 < q \<or> q < 0" "0 < r \<or> r < 0"
    using assms(2) not_zeroD[of q] not_zeroD[of r] by (auto simp: lot_same_direction_def split: if_splits)
  then consider "0 < q" "r < 0" "u = dsub q c" "r' = dadd r c" | "q < 0" "0 < r" "u = dadd q c" "r' = dsub r c"
    using assms(1,2) c(1) by (auto simp: lot_same_direction_def close_amounts_def Let_def split: if_splits)
  then have "(u = q - c \<and> r' = r + c \<and> 0 < q \<and> r < 0 \<or> u = q + c \<and> r' = r - c \<and> q < 0 \<and> 0 < r) \<and> on_grid u \<and> on_grid r'"
  proof cases
    case 1
    have "on_grid (q - c)" "on_grid (r + c)"
      using 1 c assms(3,4) by (auto intro!: on_grid_add on_grid_diff simp: on_grid_def)
    with 1 show ?thesis by (simp add: exact_ops on_grid_exact)
  next
    case 2
    have "on_grid (q + c)" "on_grid (r - c)"
      using 2 c assms(3,4) by (auto intro!: on_grid_add on_grid_diff simp: on_grid_def)
    with 2 show ?thesis by (simp add: exact_ops on_grid_exact)
  qed
  with c show "u + r' = q + r" "on_grid u" "on_grid r'" "\<bar>u\<bar> + \<bar>r'\<bar> \<le> \<bar>q\<bar> + \<bar>r\<bar>" by auto
qed

lemma after_close_grid:
  assumes "grid_lots (lot # lots)" "on_grid r"
    and "\<not> lot_same_direction (lt_quantity lot) r" "close_amounts p e (lt_quantity lot) r = (d, u, r')"
  shows "grid_lots (lots_after_close lot u lots)" "on_grid r'"
    "open_qty (lots_after_close lot u lots) + r' = open_qty (lot # lots) + r"
    "gross_qty (lots_after_close lot u lots) + \<bar>r'\<bar> \<le> gross_qty (lot # lots) + \<bar>r\<bar>"
proof -
  have "on_grid (lt_quantity lot)" using assms(1) by simp
  note g = close_amounts_grid[OF assms(4,3) this assms(2)]
  show "grid_lots (lots_after_close lot u lots)" "on_grid r'"
    "open_qty (lots_after_close lot u lots) + r' = open_qty (lot # lots) + r"
    "gross_qty (lots_after_close lot u lots) + \<bar>r'\<bar> \<le> gross_qty (lot # lots) + \<bar>r\<bar>"
    using assms(1) g by (auto simp: lots_after_close_def on_grid_zero)
qed

lemma close_lots_grid:
  assumes "grid_lots lots" "on_grid r" "close_lots digest fill i lots r pnl = (lots', rest, pnl', rows, events)"
  shows "grid_lots lots'" "on_grid rest" "open_qty lots' + rest = open_qty lots + r"
    "gross_qty lots' + \<bar>rest\<bar> \<le> gross_qty lots + \<bar>r\<bar>"
proof -
  let ?P = "\<lambda>(i::nat) lots r (pnl::decimal) (lots', rest, pnl'::decimal, rows::lot_row list, events::lot_event list).
    grid_lots lots \<longrightarrow> on_grid r \<longrightarrow> grid_lots lots' \<and> on_grid rest \<and> open_qty lots' + rest = open_qty lots + r
      \<and> gross_qty lots' + \<bar>rest\<bar> \<le> gross_qty lots + \<bar>r\<bar>"
  have "?P i lots r pnl (close_lots digest fill i lots r pnl)"
  proof (rule close_lots_induct[where P = ?P], goal_cases Nil Same Last Step)
    case (Last i lot lots r pnl d u r')
    show ?case unfolding prod.case
    proof (intro impI)
      assume h: "grid_lots (lot # lots)" "on_grid r"
      note g = after_close_grid[OF h Last(1,2)]
      have "r' = 0" using g(2) Last(3) by (simp add: on_grid_zero)
      with g show "grid_lots (lots_after_close lot u lots) \<and> on_grid 0
          \<and> open_qty (lots_after_close lot u lots) + 0 = open_qty (lot # lots) + r
          \<and> gross_qty (lots_after_close lot u lots) + \<bar>0\<bar> \<le> gross_qty (lot # lots) + \<bar>r\<bar>" by simp
    qed
  next
    case (Step i lot lots r pnl d u r' lots' rest pnl' rows events)
    show ?case unfolding prod.case
    proof (intro impI)
      assume h: "grid_lots (lot # lots)" "on_grid r"
      note g = after_close_grid[OF h Step(1,2)]
      from Step(4) g(1,2) have "grid_lots lots' \<and> on_grid rest \<and> open_qty lots' + rest = open_qty (lots_after_close lot u lots) + r'
          \<and> gross_qty lots' + \<bar>rest\<bar> \<le> gross_qty (lots_after_close lot u lots) + \<bar>r'\<bar>" by simp
      with g(3,4) show "grid_lots lots' \<and> on_grid rest \<and> open_qty lots' + rest = open_qty (lot # lots) + r
          \<and> gross_qty lots' + \<bar>rest\<bar> \<le> gross_qty (lot # lots) + \<bar>r\<bar>" by linarith
    qed
  qed simp_all
  with assms show "grid_lots lots'" "on_grid rest" "open_qty lots' + rest = open_qty lots + r"
    "gross_qty lots' + \<bar>rest\<bar> \<le> gross_qty lots + \<bar>r\<bar>" by simp_all
qed

lemma match_fill_grid:
  assumes "grid_lots lots" "on_grid (fl_fill_qty fill)" "match_fill digest fill lots pnl = (lots', pnl', rows, events)"
  shows "grid_lots lots'" "open_qty lots' = open_qty lots + signed_fill_qty fill"
    "gross_qty lots' \<le> gross_qty lots + \<bar>fl_fill_qty fill\<bar>"
proof -
  have s: "on_grid (signed_fill_qty fill)" "\<bar>signed_fill_qty fill\<bar> = \<bar>fl_fill_qty fill\<bar>"
    using assms(2) by (simp_all add: signed_fill_qty_def exact_ops on_grid_exact)
  obtain ls rest p rs es where cl: "close_lots digest fill 0 lots (signed_fill_qty fill) pnl = (ls, rest, p, rs, es)"
    by (metis prod_cases5)
  note c = close_lots_grid[OF assms(1) s(1) cl]
  show "grid_lots lots'" "open_qty lots' = open_qty lots + signed_fill_qty fill"
    "gross_qty lots' \<le> gross_qty lots + \<bar>fl_fill_qty fill\<bar>"
    using assms(3) c s by (auto simp: match_fill_def cl opened_lot_def on_grid_zero split: if_splits)
qed

section \<open>The book\<close>

text \<open>Fills that leave the lots alone: quantity zero, or a fee that cannot be valued.\<close>

definition skipped :: "fill_event \<Rightarrow> bool" where
  "skipped fill \<longleftrightarrow> is_effectively_zero (fl_fill_qty fill) \<or> snd (try_fill_fee_delta_in_quote fill None None) \<noteq> None"

lemma book_step_skipped:
  assumes "skipped fill"
  shows "lb_lots (book_step digest book fill) = lb_lots book"
    "lb_realized_pnl (book_step digest book fill) = lb_realized_pnl book"
    "lb_events (book_step digest book fill) = lb_events book"
  using assms by (auto simp: skipped_def book_step_def split: prod.split option.split)

lemma book_step_matched:
  assumes "\<not> skipped fill"
    and "match_fill digest fill (dict_get (lb_lots book) (position_key_for_fill fill) []) (lb_realized_pnl book)
           = (lots, pnl, rows, events)"
  shows "lb_lots (book_step digest book fill) = (if lots = [] then AList.delete (position_key_for_fill fill) (lb_lots book)
           else AList.update (position_key_for_fill fill) lots (lb_lots book))"
    "lb_realized_pnl (book_step digest book fill) = pnl"
    "lb_events (book_step digest book fill) = lb_events book @ events"
  using assms by (auto simp: skipped_def book_step_def Let_def split: prod.split option.split)

lemma book_step_lots:
  assumes "\<not> skipped fill"
    and "match_fill digest fill (dict_get (lb_lots book) (position_key_for_fill fill) []) (lb_realized_pnl book)
           = (lots, pnl, rows, events)"
  shows "dict_get (lb_lots (book_step digest book fill)) k []
     = (if k = position_key_for_fill fill then lots else dict_get (lb_lots book) k [])"
  unfolding book_step_matched(1)[OF assms] by (auto simp: dict_get_def)

lemma book_step_entries:
  assumes "entries_ok P (lb_lots book)"
    and "\<And>lots pnl rows events. \<not> skipped fill \<Longrightarrow>
       match_fill digest fill (dict_get (lb_lots book) (position_key_for_fill fill) []) (lb_realized_pnl book)
         = (lots, pnl, rows, events) \<Longrightarrow> lots \<noteq> [] \<Longrightarrow> P (position_key_for_fill fill) lots"
  shows "entries_ok P (lb_lots (book_step digest book fill))"
proof (cases "skipped fill")
  case False
  obtain lots pnl rows events where
    "match_fill digest fill (dict_get (lb_lots book) (position_key_for_fill fill) []) (lb_realized_pnl book)
       = (lots, pnl, rows, events)" by (metis prod_cases4)
  with False assms show ?thesis
    by (simp add: book_step_matched entries_ok_delete entries_ok_update)
qed (simp add: assms(1) book_step_skipped)

section \<open>What the loop appends\<close>

lemma close_lots_pnl:
  assumes eq: "close_lots digest fill i lots r pnl = (lots', rest, pnl', rows, events)"
  shows "pnl' = foldl dadd pnl (map le_realized_pnl_delta events) \<and> (exact28 pnl \<longrightarrow> exact28 pnl')"
proof -
  let ?P = "\<lambda>(i::nat) (lots::position_lot list) (r::decimal) pnl
      (lots'::position_lot list, rest::decimal, pnl', rows::lot_row list, events).
    pnl' = foldl dadd pnl (map le_realized_pnl_delta events) \<and> (exact28 pnl \<longrightarrow> exact28 pnl')"
  have "?P i lots r pnl (close_lots digest fill i lots r pnl)"
    by (rule close_lots_induct[where P = ?P]) (simp_all add: close_event_def)
  then show ?thesis unfolding eq prod.case .
qed

lemma match_fill_pnl:
  assumes "match_fill digest fill lots pnl = (lots', pnl', rows, events)" "exact28 pnl"
  shows "pnl' = foldl dadd pnl (map le_realized_pnl_delta events)" "exact28 pnl'"
proof -
  obtain ls rest p rs es where cl: "close_lots digest fill 0 lots (signed_fill_qty fill) pnl = (ls, rest, p, rs, es)"
    by (metis prod_cases5)
  from close_lots_pnl[OF cl] assms
  show "pnl' = foldl dadd pnl (map le_realized_pnl_delta events)" "exact28 pnl'"
    by (auto simp: match_fill_def cl open_event_def split: if_splits)
qed

lemma close_lots_turns:
  assumes "close_lots digest fill i lots r pnl = (lots', rest, pnl', rows, events)"
  shows "length events \<le> close_measure lots r"
    "exact28 r \<Longrightarrow> \<forall>lot \<in> set lots. exact28 (lt_quantity lot) \<Longrightarrow> length events \<le> length lots"
proof -
  let ?P = "\<lambda>(i::nat) lots r (pnl::decimal) (lots'::position_lot list, rest::decimal, pnl'::decimal, rows::lot_row list, events).
    length events \<le> close_measure lots r \<and>
    (exact28 r \<longrightarrow> (\<forall>lot \<in> set lots. exact28 (lt_quantity lot)) \<longrightarrow> length events \<le> length lots)"
  have "?P i lots r pnl (close_lots digest fill i lots r pnl)"
  proof (rule close_lots_induct[where P = ?P], goal_cases Nil Same Last Step)
    case (Last i lot lots r pnl d u r')
    then show ?case by (simp add: close_measure_def)
  next
    case (Step i lot lots r pnl d u r' lots' rest pnl' rows events)
    have "r' \<noteq> 0" using Step(3) by auto
    with close_amounts_zero[OF Step(2,1)] have "exact28 r \<Longrightarrow> exact28 (lt_quantity lot) \<Longrightarrow> u = 0" by (meson le_cases)
    then show ?case
      using Step(4) close_measure_decreases[OF Step(1,2,3), of lots] close_amounts_exact[OF Step(2,1)]
      by (auto simp: lots_after_close_def)
  qed simp_all
  with assms show "length events \<le> close_measure lots r"
    "exact28 r \<Longrightarrow> \<forall>lot \<in> set lots. exact28 (lt_quantity lot) \<Longrightarrow> length events \<le> length lots" by simp_all
qed

section \<open>Net quantities\<close>

text \<open>
  What a state that tracks positions promises: a fill adds its signed quantity to the quantity of its
  position key. \<open>inv s g\<close> is the invariant of the state with gross quantity at most \<open>g\<close>, and
  \<open>fresh s f\<close> says that the fill \<open>f\<close> has not been seen.
\<close>

definition plain_fill :: "fill_event \<Rightarrow> bool" where
  "plain_fill fill \<longleftrightarrow> on_grid (fl_fill_qty fill) \<and> snd (try_fill_fee_delta_in_quote fill None None) = None"

definition net_quantity :: "fill_event list \<Rightarrow> string \<Rightarrow> decimal" where
  "net_quantity fills k = sum_list (map signed_fill_qty (filter (\<lambda>f. position_key_for_fill f = k) fills))"

abbreviation gross_fills :: "fill_event list \<Rightarrow> decimal" where
  "gross_fills fills \<equiv> sum_list (map (\<lambda>f. \<bar>fl_fill_qty f\<bar>) fills)"

locale position_tracker =
  fixes step :: "'s \<Rightarrow> fill_event \<Rightarrow> 's"
    and qty :: "'s \<Rightarrow> string \<Rightarrow> decimal"
    and inv :: "'s \<Rightarrow> decimal \<Rightarrow> bool"
    and fresh :: "'s \<Rightarrow> fill_event \<Rightarrow> bool"
  assumes inv_step: "inv s g \<Longrightarrow> plain_fill f \<Longrightarrow> fresh s f \<Longrightarrow> g + \<bar>fl_fill_qty f\<bar> < 10 ^ 20 \<Longrightarrow>
      inv (step s f) (g + \<bar>fl_fill_qty f\<bar>)"
    and qty_step: "inv s g \<Longrightarrow> plain_fill f \<Longrightarrow> fresh s f \<Longrightarrow> g + \<bar>fl_fill_qty f\<bar> < 10 ^ 20 \<Longrightarrow>
      qty (step s f) k = qty s k + (if position_key_for_fill f = k then signed_fill_qty f else 0)"
    and fresh_step: "plain_fill f \<Longrightarrow> fresh s f' \<Longrightarrow> fl_fill_id f' \<noteq> fl_fill_id f \<Longrightarrow> fresh (step s f) f'"
begin

lemma track:
  assumes "inv s g" "\<forall>f \<in> set fills. plain_fill f \<and> fresh s f" "distinct (map fl_fill_id fills)"
    and "g + gross_fills fills < 10 ^ 20"
  shows "qty (foldl step s fills) k = qty s k + net_quantity fills k \<and> inv (foldl step s fills) (g + gross_fills fills)"
  using assms
proof (induction fills arbitrary: s g)
  case (Cons f fills)
  have "0 \<le> gross_fills fills" by (rule sum_list_nonneg) auto
  with Cons.prems(4) have b: "g + \<bar>fl_fill_qty f\<bar> < 10 ^ 20" by simp
  have f: "plain_fill f" "fresh s f" using Cons.prems(2) by simp_all
  have "\<forall>f' \<in> set fills. plain_fill f' \<and> fresh (step s f) f'"
  proof
    fix f' assume f': "f' \<in> set fills"
    then have "fl_fill_id f' \<noteq> fl_fill_id f" using Cons.prems(3) by (auto simp: image_iff)
    with f' Cons.prems(2) f show "plain_fill f' \<and> fresh (step s f) f'" by (simp add: fresh_step)
  qed
  with Cons.prems(3,4) Cons.IH[OF inv_step[OF Cons.prems(1) f b]]
  show ?case by (simp add: net_quantity_def qty_step[OF Cons.prems(1) f b] add.assoc)
qed (simp add: net_quantity_def)

end

text \<open>The lot book keeps the promise.\<close>

definition book_inv :: "lot_book \<Rightarrow> decimal \<Rightarrow> bool" where
  "book_inv book g \<longleftrightarrow> 0 \<le> g \<and> entries_ok (\<lambda>k lots. grid_lots lots \<and> gross_qty lots \<le> g) (lb_lots book)"

definition book_qty :: "lot_book \<Rightarrow> string \<Rightarrow> decimal" where
  "book_qty book k = open_qty (dict_get (lb_lots book) k [])"

lemma entries_ok_mono: "entries_ok P d \<Longrightarrow> (\<And>k v. P k v \<Longrightarrow> Q k v) \<Longrightarrow> entries_ok Q d"
  by (auto simp: entries_ok_def)

lemma book_inv_lots:
  assumes "book_inv book g"
  shows "grid_lots (dict_get (lb_lots book) k [])" "gross_qty (dict_get (lb_lots book) k []) \<le> g"
  using assms entries_ok_dict_get[of "\<lambda>k lots. grid_lots lots \<and> gross_qty lots \<le> g" "lb_lots book" k "[]"]
  by (simp_all add: book_inv_def)

interpretation lot_tracker: position_tracker "book_step digest" book_qty book_inv "\<lambda>_ _. True"
proof (unfold_locales, goal_cases)
  case (1 book g f)
  let ?g = "g + \<bar>fl_fill_qty f\<bar>"
  have "entries_ok (\<lambda>k lots. grid_lots lots \<and> gross_qty lots \<le> ?g) (lb_lots (book_step digest book f))"
  proof (rule book_step_entries)
    show "entries_ok (\<lambda>k lots. grid_lots lots \<and> gross_qty lots \<le> ?g) (lb_lots book)"
      using 1(1) unfolding book_inv_def by (auto elim!: entries_ok_mono)
  next
    fix lots pnl rows events
    assume "match_fill digest f (dict_get (lb_lots book) (position_key_for_fill f) []) (lb_realized_pnl book)
       = (lots, pnl, rows, events)"
    from match_fill_grid[OF book_inv_lots(1)[OF 1(1)] _ this] book_inv_lots(2)[OF 1(1), of "position_key_for_fill f"] 1(2)
    show "grid_lots lots \<and> gross_qty lots \<le> ?g" by (auto simp: plain_fill_def)
  qed
  with 1 show ?case by (simp add: book_inv_def)
next
  case (2 book g f k)
  show ?case
  proof (cases "skipped f")
    case True
    then have "signed_fill_qty f = 0"
      using 2(2) by (auto simp: skipped_def plain_fill_def on_grid_zero signed_fill_qty_def dneg_def)
    with True show ?thesis by (simp add: book_qty_def book_step_skipped)
  next
    case False
    obtain lots pnl rows events where m:
      "match_fill digest f (dict_get (lb_lots book) (position_key_for_fill f) []) (lb_realized_pnl book)
         = (lots, pnl, rows, events)" by (metis prod_cases4)
    from match_fill_grid(2)[OF book_inv_lots(1)[OF 2(1)] _ m] 2(2) show ?thesis
      by (auto simp: book_qty_def book_step_lots[OF False m] plain_fill_def)
  qed
qed simp

text \<open>So does the average-cost portfolio state.\<close>

definition portfolio_step :: "portfolio_state \<Rightarrow> fill_event \<Rightarrow> portfolio_state" where
  "portfolio_step st f = (case apply_fill st f of Inl e \<Rightarrow> st | Inr (st', r) \<Rightarrow> st')"

definition position_qty :: "(string \<times> position_record) list \<Rightarrow> string \<Rightarrow> decimal" where
  "position_qty positions k = (case map_of positions k of None \<Rightarrow> 0 | Some r \<Rightarrow> pr_quantity r)"

definition portfolio_inv :: "portfolio_state \<Rightarrow> decimal \<Rightarrow> bool" where
  "portfolio_inv st g \<longleftrightarrow> 0 \<le> g \<and> entries_ok (\<lambda>k r. on_grid (pr_quantity r) \<and> \<bar>pr_quantity r\<bar> \<le> g) (pf_positions st)"

lemma plain_fee:
  assumes "plain_fill f"
  shows "\<exists>d. fill_fee_delta_in_quote f (fst (symbol_currencies (fl_symbol f))) (snd (symbol_currencies (fl_symbol f))) = Inr d"
proof -
  have "fill_fee_delta_in_quote f (fst (symbol_currencies (fl_symbol f))) (snd (symbol_currencies (fl_symbol f)))
      = fill_fee_delta_in_quote f None None"
    by (simp add: fill_fee_delta_in_quote_def resolve_pair_def)
  with assms show ?thesis by (simp add: plain_fill_def try_fill_fee_delta_in_quote_def split: sum.splits)
qed

lemma plain_applies:
  assumes "plain_fill f"
  obtains st' r where "apply_fill st f = Inr (st', r)" "portfolio_step st f = st'"
  using plain_fee[OF assms] apply_fill_error[of st f]
  by (cases "apply_fill st f") (auto simp: portfolio_step_def split: prod.splits)

lemma position_after_qty: "fst (position_after q a s p) = dadd q s"
  by (simp add: position_after_def Let_def)

lemma apply_fill_qty:
  assumes "apply_fill st f = Inr (st', r)" "fl_fill_id f \<notin> set (pf_applied_fill_ids st)"
  defines "q \<equiv> dadd (position_qty (pf_positions st) (position_key_for_fill f)) (signed_fill_qty f)"
  obtains rcd where "pr_quantity rcd = q"
    "pf_positions st' = (if is_effectively_zero q then AList.delete (position_key_for_fill f) (pf_positions st)
       else AList.update (position_key_for_fill f) rcd (pf_positions st))"
proof (rule apply_fill_cases[OF assms(1)], goal_cases)
  case 1
  with assms(2) show ?case by simp
next
  case (2 k ex base quote q' a pnl fee)
  have "pr_quantity ex = position_qty (pf_positions st) (position_key_for_fill f)"
    using 2(3,4) by (simp add: position_qty_def dict_get_def new_position_record_def split: option.split)
  moreover have "q' = dadd (pr_quantity ex) (signed_fill_qty f)"
    using position_after_qty[of "pr_quantity ex" "pr_avg_entry_price ex" "signed_fill_qty f" "fl_fill_price f"] 2(6)
    by (simp add: signed_fill_qty_def)
  ultimately have "q' = q" by (simp add: q_def)
  with 2(3,8) show ?case using that[of "record_for_fill f k q' a"] by simp
qed

lemma signed_grid:
  assumes "plain_fill f"
  shows "on_grid (signed_fill_qty f)" "\<bar>signed_fill_qty f\<bar> = \<bar>fl_fill_qty f\<bar>"
  using assms by (simp_all add: plain_fill_def signed_fill_qty_def exact_ops on_grid_exact)

lemma portfolio_qty_exact:
  fixes k :: string
  assumes "portfolio_inv st g" "plain_fill f" "g + \<bar>fl_fill_qty f\<bar> < 10 ^ 20"
  defines "q \<equiv> dadd (position_qty (pf_positions st) k) (signed_fill_qty f)"
  shows "on_grid q" "\<bar>q\<bar> \<le> g + \<bar>fl_fill_qty f\<bar>" "q = position_qty (pf_positions st) k + signed_fill_qty f"
proof -
  have p: "on_grid (position_qty (pf_positions st) k) \<and> \<bar>position_qty (pf_positions st) k\<bar> \<le> g"
  proof (cases "map_of (pf_positions st) k")
    case None
    with assms(1) show ?thesis by (simp add: position_qty_def portfolio_inv_def on_grid_def)
  next
    case (Some r)
    from assms(1) have "entries_ok (\<lambda>k r. on_grid (pr_quantity r) \<and> \<bar>pr_quantity r\<bar> \<le> g) (pf_positions st)"
      by (simp add: portfolio_inv_def)
    from entries_ok_get[OF this Some] Some show ?thesis by (simp add: position_qty_def)
  qed
  have b: "\<bar>position_qty (pf_positions st) k + signed_fill_qty f\<bar> \<le> g + \<bar>fl_fill_qty f\<bar>"
    using p signed_grid(2)[OF assms(2)] by linarith
  then have g: "on_grid (position_qty (pf_positions st) k + signed_fill_qty f)"
    using p signed_grid(1)[OF assms(2)] assms(3) by (intro on_grid_add) auto
  then show "q = position_qty (pf_positions st) k + signed_fill_qty f"
    by (simp add: q_def exact_ops on_grid_exact)
  with g b show "on_grid q" "\<bar>q\<bar> \<le> g + \<bar>fl_fill_qty f\<bar>" by simp_all
qed

interpretation portfolio_tracker: position_tracker portfolio_step "\<lambda>st. position_qty (pf_positions st)" portfolio_inv
  "\<lambda>st f. fl_fill_id f \<notin> set (pf_applied_fill_ids st)"
proof (unfold_locales, goal_cases)
  case (1 st g f)
  define q where "q = dadd (position_qty (pf_positions st) (position_key_for_fill f)) (signed_fill_qty f)"
  obtain st' r where ap: "apply_fill st f = Inr (st', r)" "portfolio_step st f = st'" using plain_applies[OF 1(2)] .
  from portfolio_qty_exact[OF 1(1,2,4)] have q: "on_grid q" "\<bar>q\<bar> \<le> g + \<bar>fl_fill_qty f\<bar>" by (simp_all add: q_def)
  have "entries_ok (\<lambda>k r. on_grid (pr_quantity r) \<and> \<bar>pr_quantity r\<bar> \<le> g + \<bar>fl_fill_qty f\<bar>) (pf_positions st)"
    using 1(1) unfolding portfolio_inv_def by (auto elim!: entries_ok_mono)
  moreover obtain rcd where "pr_quantity rcd = q"
    "pf_positions st' = (if is_effectively_zero q then AList.delete (position_key_for_fill f) (pf_positions st)
       else AList.update (position_key_for_fill f) rcd (pf_positions st))"
    using apply_fill_qty[OF ap(1) 1(3)] unfolding q_def by blast
  ultimately show ?case
    using q 1(1) by (simp add: ap(2) portfolio_inv_def entries_ok_delete entries_ok_update)
next
  case (2 st g f k)
  define q where "q = dadd (position_qty (pf_positions st) (position_key_for_fill f)) (signed_fill_qty f)"
  obtain st' r where ap: "apply_fill st f = Inr (st', r)" "portfolio_step st f = st'" using plain_applies[OF 2(2)] .
  from portfolio_qty_exact[OF 2(1,2,4)]
  have q: "on_grid q" "q = position_qty (pf_positions st) (position_key_for_fill f) + signed_fill_qty f" by (simp_all add: q_def)
  obtain rcd where rec: "pr_quantity rcd = q"
    "pf_positions st' = (if is_effectively_zero q then AList.delete (position_key_for_fill f) (pf_positions st)
       else AList.update (position_key_for_fill f) rcd (pf_positions st))"
    using apply_fill_qty[OF ap(1) 2(3)] unfolding q_def by blast
  show ?case
    using rec(1) on_grid_zero[OF q(1)] q(2) by (simp add: ap(2) rec(2) position_qty_def)
next
  case (3 f st f')
  obtain st' r where ap: "apply_fill st f = Inr (st', r)" "portfolio_step st f = st'" using plain_applies[OF 3(1)] .
  from apply_fill_ids[OF ap(1)] 3 show ?case by (simp add: ap(2))
qed

lemma book_positions_map:
  assumes "distinct (map fst entries)"
  shows "map_of (book_positions entries) k = Option.bind (map_of entries k) (position_of_lots k)"
  using assms
proof (induction entries)
  case (Cons e entries)
  obtain k' lots where e: "e = (k', lots)" by (cases e)
  have "map_of entries k' = None" using Cons.prems by (simp add: e map_of_eq_None_iff)
  with Cons show ?case
    by (auto simp: e book_positions_def List.map_filter_simps split: option.splits)
qed (simp add: book_positions_def List.map_filter_simps)

text \<open>The position of a key in the rebuilt book has the quantity of its lots.\<close>

lemma book_positions_qty:
  assumes "book_inv book g" "g < 10 ^ 20"
  shows "position_qty (book_positions (lb_lots book)) k = book_qty book k"
proof -
  have d: "distinct (map fst (lb_lots book))" using assms(1) by (simp add: book_inv_def entries_ok_def)
  show ?thesis
  proof (cases "map_of (lb_lots book) k")
    case None
    then show ?thesis by (simp add: position_qty_def book_positions_map[OF d] book_qty_def dict_get_def)
  next
    case (Some lots)
    then have lots: "dict_get (lb_lots book) k [] = lots" by (simp add: dict_get_def)
    note inv = book_inv_lots[OF assms(1), of k, unfolded lots]
    have "dsum (map lt_quantity lots) = open_qty lots \<and> on_grid (open_qty lots)"
      using inv assms(2) by (intro dsum_grid) (auto simp: comp_def)
    with Some lots show ?thesis
      by (auto simp: position_qty_def book_positions_map[OF d] book_qty_def position_of_lots_def Let_def on_grid_zero)
  qed
qed

lemma apply_fills_steps: "\<forall>f \<in> set fills. plain_fill f \<Longrightarrow> apply_fills st fills = Inr (foldl portfolio_step st fills)"
proof (induction fills arbitrary: st)
  case (Cons f fills)
  obtain st' r where ap: "apply_fill st f = Inr (st', r)" "portfolio_step st f = st'"
    using Cons.prems by (auto intro: plain_applies)
  with Cons show ?case by simp
qed simp

lemma net_quantity_sorted: "net_quantity (sorted_fills fills) k = net_quantity fills k"
  and gross_sorted: "gross_fills (sorted_fills fills) = gross_fills fills"
proof -
  have m: "mset (sorted_fills fills) = mset fills" by (simp add: sorted_fills_def)
  have "mset (map signed_fill_qty (filter (\<lambda>f. position_key_for_fill f = k) (sorted_fills fills)))
      = mset (map signed_fill_qty (filter (\<lambda>f. position_key_for_fill f = k) fills))" by (simp add: m)
  then show "net_quantity (sorted_fills fills) k = net_quantity fills k"
    unfolding net_quantity_def by (metis sum_mset_sum_list)
  have "mset (map (\<lambda>f. \<bar>fl_fill_qty f\<bar>) (sorted_fills fills)) = mset (map (\<lambda>f. \<bar>fl_fill_qty f\<bar>) fills)" by (simp add: m)
  then show "gross_fills (sorted_fills fills) = gross_fills fills" by (metis sum_mset_sum_list)
qed

section \<open>Properties\<close>

text \<open>
  C36. The FIFO lot book and the average-cost portfolio state refine the same abstract positions:
  rebuilt from the same fills (distinct ids, quantities in hundred-millionths, fees that can be
  valued), both succeed and give every position key exactly the net quantity of its fills.
\<close>

theorem lot_book_refines_net_positions:
  assumes "distinct (map fl_fill_id fills)" "\<forall>f \<in> set fills. plain_fill f" "gross_fills fills < 10 ^ 20"
  shows "position_qty (bk_positions (rebuild_lot_book digest fills)) k = net_quantity fills k
    \<and> (\<exists>st. rebuild_state b fills = Inr st \<and> position_qty (pf_positions st) k = net_quantity fills k)"
proof -
  let ?fs = "sorted_fills fills"
  have m: "mset ?fs = mset fills" by (simp add: sorted_fills_def)
  then have s: "set ?fs = set fills" by (rule mset_eq_setD)
  have d: "distinct (map fl_fill_id ?fs)"
    using assms(1) m by (metis mset_eq_imp_distinct_iff mset_map)
  have p: "\<forall>f \<in> set ?fs. plain_fill f" using assms(2) s by simp
  have g: "gross_fills ?fs < 10 ^ 20" using assms(3) by (simp only: gross_sorted)
  have "book_inv empty_book 0" by (simp add: book_inv_def empty_book_def)
  from lot_tracker.track[OF this _ d, of digest] p g
  have book: "book_qty (book_fills digest fills) k = net_quantity ?fs k" "book_inv (book_fills digest fills) (gross_fills ?fs)"
    by (auto simp: book_fills_def book_qty_def empty_book_def dict_get_def)
  let ?st = "new_portfolio_state b Spot ''cash''"
  have "portfolio_inv ?st 0" by (simp add: portfolio_inv_def new_portfolio_state_def)
  from portfolio_tracker.track[OF this _ d] p g
  have "position_qty (pf_positions (foldl portfolio_step ?st ?fs)) k = net_quantity ?fs k"
    by (auto simp: new_portfolio_state_def position_qty_def)
  moreover have "rebuild_state b fills = Inr (foldl portfolio_step ?st ?fs)"
    using apply_fills_steps[OF p] by (simp add: rebuild_state_def)
  ultimately show ?thesis
    using book_positions_qty[OF book(2) g] book(1)
    by (simp add: rebuild_lot_book_def Let_def net_quantity_sorted)
qed

text \<open>
  The lots of a position key are never mixed: after any fills whose quantities fit 28 digits, every
  key of the book has open lots, none of them flat, all long or all short.
\<close>

theorem lots_never_mixed:
  assumes "\<forall>f \<in> set fills. exact28 (fl_fill_qty f)"
  shows "entries_ok (\<lambda>k lots. lots \<noteq> [] \<and> one_sided (map lt_quantity lots)) (lb_lots (book_fills digest fills))"
proof -
  let ?P = "\<lambda>(k :: string) lots. one_sided (map lt_quantity lots)"
  let ?Q = "\<lambda>(k :: string) lots. lots \<noteq> [] \<and> one_sided (map lt_quantity lots)"
  have step: "entries_ok ?Q (lb_lots (book_step digest book f))"
    if "entries_ok ?Q (lb_lots book)" "exact28 (fl_fill_qty f)" for book f
  proof (rule book_step_entries[OF that(1)])
    fix lots pnl rows events
    assume f: "\<not> skipped f" "lots \<noteq> []"
      and m: "match_fill digest f (dict_get (lb_lots book) (position_key_for_fill f) []) (lb_realized_pnl book)
         = (lots, pnl, rows, events)"
    have "entries_ok ?P (lb_lots book)" using that(1) by (auto elim!: entries_ok_mono)
    then have "one_sided (map lt_quantity (dict_get (lb_lots book) (position_key_for_fill f) []))"
      using entries_ok_dict_get[of ?P "lb_lots book" "position_key_for_fill f" "[]"] by (simp add: one_sided_def)
    from match_fill_sided[OF this that(2) _ m] f show "lots \<noteq> [] \<and> one_sided (map lt_quantity lots)"
      by (simp add: skipped_def)
  qed
  have "entries_ok ?Q (lb_lots (foldl (book_step digest) book fs))"
    if "entries_ok ?Q (lb_lots book)" "\<forall>f \<in> set fs. exact28 (fl_fill_qty f)" for book fs
    using that by (induction fs arbitrary: book) (simp_all add: step)
  from this[of empty_book "sorted_fills fills"] assms show ?thesis
    by (simp add: book_fills_def empty_book_def sorted_fills_def)
qed

text \<open>
  The event log accounts for the realised profit: in the code's own rounded arithmetic, the
  realised profit of a rebuilt book is the running sum of the profits of its events.
\<close>

theorem events_explain_pnl:
  "bk_realized_pnl (rebuild_lot_book digest fills)
     = dsum (map le_realized_pnl_delta (bk_events (rebuild_lot_book digest fills)))"
proof -
  let ?inv = "\<lambda>book. lb_realized_pnl book = dsum (map le_realized_pnl_delta (lb_events book))"
  have step: "?inv (book_step digest book f)" if inv: "?inv book" for book f
  proof (cases "skipped f")
    case True
    with inv show ?thesis by (simp add: book_step_skipped)
  next
    case False
    obtain lots pnl rows events where m:
      "match_fill digest f (dict_get (lb_lots book) (position_key_for_fill f) []) (lb_realized_pnl book)
         = (lots, pnl, rows, events)" by (metis prod_cases4)
    have "exact28 (lb_realized_pnl book)" by (simp add: inv)
    from match_fill_pnl(1)[OF m this] inv show ?thesis
      by (simp add: book_step_matched[OF False m] dsum_def)
  qed
  have "?inv (foldl (book_step digest) book fs)" if "?inv book" for book fs
    using that by (induction fs arbitrary: book) (simp_all add: step)
  from this[of empty_book] show ?thesis
    by (simp add: rebuild_lot_book_def book_fills_def Let_def empty_book_def dsum_def)
qed

text \<open>
  C37. Matching a fill ends, and soon: the loop of the matching returns for every input, after at most
  two turns per open lot and one more, and after at most one turn per open lot when no quantity has
  more digits than the decimal context.
\<close>

theorem matching_terminates:
  "\<exists>lots' rest pnl' rows events. close_lots digest fill i lots r pnl = (lots', rest, pnl', rows, events)
     \<and> length events \<le> 2 * length lots + 1
     \<and> (exact28 r \<and> (\<forall>lot \<in> set lots. exact28 (lt_quantity lot)) \<longrightarrow> length events \<le> length lots)"
proof -
  obtain lots' rest pnl' rows events where
    cl: "close_lots digest fill i lots r pnl = (lots', rest, pnl', rows, events)" by (metis prod_cases5)
  have "close_measure lots r \<le> 2 * length lots + 1" by (auto simp: close_measure_def)
  with close_lots_turns[OF cl] have "length events \<le> 2 * length lots + 1
     \<and> (exact28 r \<and> (\<forall>lot \<in> set lots. exact28 (lt_quantity lot)) \<longrightarrow> length events \<le> length lots)" by auto
  with cl show ?thesis by blast
qed

section \<open>Witnesses\<close>

lemma on_grid_numeral: "(numeral w :: rat) < 10 ^ 20 \<Longrightarrow> on_grid (numeral w)"
  by (simp add: on_grid_def Ints_mult Ints_numeral)

lemma example_plain: "on_grid q \<Longrightarrow> plain_fill (example_fill i s q p)"
  by (simp add: plain_fill_def try_fill_fee_delta_in_quote_def) (simp add: example_fill_def new_fill_event_def)

theorem lot_book_refines_net_positions_witness:
  "position_qty (bk_positions (rebuild_lot_book id [example_fill ''b'' Sell 3 95, example_fill ''a'' Buy 2 90])) ''BTC-USDT'' = - 1"
proof -
  let ?fills = "[example_fill ''b'' Sell 3 95, example_fill ''a'' Buy 2 90]"
  have "\<forall>f \<in> set ?fills. plain_fill f" by (simp add: example_plain on_grid_numeral)
  moreover have q: "fl_fill_qty (example_fill i s q p) = q" "fl_side (example_fill i s q p) = s" for i s q p
    by (simp_all add: example_fill_def new_fill_event_def)
  moreover have "position_key_for_fill (example_fill i s q p) = ''BTC-USDT''" for i s q p
    by (simp add: example_fill_def new_fill_event_def position_key_for_fill_def build_position_key_def)
  ultimately show ?thesis
    using lot_book_refines_net_positions[of ?fills id "''BTC-USDT''"]
    by (simp add: net_quantity_def signed_fill_qty_def exact_ops)
qed

theorem lots_never_mixed_witness:
  "entries_ok (\<lambda>k lots. lots \<noteq> [] \<and> one_sided (map lt_quantity lots))
     (lb_lots (book_fills id [example_fill ''b'' Sell 3 95, example_fill ''a'' Buy 2 90]))"
proof -
  have "fl_fill_qty (example_fill i s q p) = q" for i s q p by (simp add: example_fill_def new_fill_event_def)
  then show ?thesis by (intro lots_never_mixed) simp
qed

theorem matching_terminates_witness:
  "\<exists>lots' rest pnl' rows events.
     close_lots id (example_fill ''b'' Sell 3 95) 0
       [opened_lot id (example_fill ''a'' Buy 2 90) 2, opened_lot id (example_fill ''c'' Buy 4 91) 4] (- 3) 0
       = (lots', rest, pnl', rows, events) \<and> length events \<le> 2"
  using matching_terminates[of id "example_fill ''b'' Sell 3 95" 0
      "[opened_lot id (example_fill ''a'' Buy 2 90) 2, opened_lot id (example_fill ''c'' Buy 4 91) 4]" "- 3" 0]
  by (auto simp: opened_lot_def)

end
