(* ===== verification/Ledger_Store.thy ===== *)
theory Ledger_Store
  imports Accounting
begin

text \<open>
  The double-entry ledger tables and their repositories: \<^verbatim>\<open>aats/storage/ledger_repo_postgres.py\<close>
  (accounts, journals, entries, settlements) and \<^verbatim>\<open>aats/storage/reservation_repo_postgres.py\<close>.
  A table is the list of its rows in insertion order; the state of a database session is the record
  \<open>ledger_db\<close>, and an operation that can raise returns a sum. \<^verbatim>\<open>INSERT .. ON CONFLICT DO NOTHING\<close>
  skips a row whose primary or unique key is taken; a row that refers to a missing parent row raises.
  The tables of orders and fills belong to other components, so only their keys are kept. Amounts
  are values that the \<^verbatim>\<open>NUMERIC(36,18)\<close> columns hold exactly. The operations without a session open
  one, call the operation modelled here and commit.
\<close>

section \<open>Rows\<close>

record ledger_account =
  ac_account_id :: string
  ac_account_type :: string
  ac_currency :: string
  ac_product_type :: string
  ac_margin_mode :: string
  ac_symbol :: "string option"
  ac_created_at :: datetime

record ledger_journal =
  jr_journal_id :: string
  jr_journal_type :: string
  jr_source_type :: string
  jr_source_id :: string
  jr_status :: string
  jr_created_at :: datetime
  jr_posted_at :: "datetime option"
  jr_metadata :: "(string \<times> pyval) list"

datatype direction = Debit | Credit

record ledger_entry =
  en_entry_id :: string
  en_journal_id :: string
  en_account_id :: string
  en_direction :: direction
  en_amount :: decimal
  en_currency :: string
  en_effective_at :: datetime
  en_source_type :: string
  en_source_id :: string
  en_created_at :: datetime

record settlement =
  se_settlement_id :: string
  se_fill_id :: string
  se_order_id :: string
  se_journal_id :: "string option"
  se_state :: string
  se_created_at :: datetime
  se_posted_at :: "datetime option"

record reservation =
  rv_reservation_id :: string
  rv_order_id :: string
  rv_reserve_account_id :: string
  rv_reserved_amount :: decimal
  rv_consumed_amount :: decimal
  rv_released_amount :: decimal
  rv_state :: string
  rv_created_at :: datetime
  rv_updated_at :: datetime

record ledger_db =
  db_accounts :: "ledger_account list"
  db_journals :: "ledger_journal list"
  db_entries :: "ledger_entry list"
  db_settlements :: "settlement list"
  db_reservations :: "reservation list"
  db_order_ids :: "string list"
  db_fill_ids :: "string list"

definition update_where :: "('a \<Rightarrow> bool) \<Rightarrow> ('a \<Rightarrow> 'a) \<Rightarrow> 'a list \<Rightarrow> 'a list" where
  "update_where P f rows = map (\<lambda>row. if P row then f row else row) rows"

section \<open>Accounts\<close>

text \<open>\<open>new_id\<close> draws an account id given the ids in use.\<close>

definition find_account ::
  "ledger_db \<Rightarrow> string \<Rightarrow> string \<Rightarrow> string \<Rightarrow> string \<Rightarrow> string option \<Rightarrow> ledger_account option" where
  "find_account db account_type currency product_type margin_mode symbol =
     find (\<lambda>row. ac_account_type row = account_type \<and> ac_currency row = currency
             \<and> ac_product_type row = product_type \<and> ac_margin_mode row = margin_mode \<and> ac_symbol row = symbol)
       (db_accounts db)"

definition get_or_create_account_in_session ::
  "(string list \<Rightarrow> string) \<Rightarrow> ledger_db \<Rightarrow> string \<Rightarrow> string \<Rightarrow> string \<Rightarrow> string \<Rightarrow> string option \<Rightarrow> datetime
   \<Rightarrow> string \<times> ledger_db"
where
  "get_or_create_account_in_session new_id db account_type currency product_type margin_mode symbol created_at =
     (case find_account db account_type currency product_type margin_mode symbol of
        Some row \<Rightarrow> (ac_account_id row, db)
      | None \<Rightarrow>
          let account_id = new_id (map ac_account_id (db_accounts db))
          in (account_id, db\<lparr>db_accounts := db_accounts db @
               [\<lparr>ac_account_id = account_id, ac_account_type = account_type, ac_currency = currency,
                 ac_product_type = product_type, ac_margin_mode = margin_mode, ac_symbol = symbol,
                 ac_created_at = created_at\<rparr>]\<rparr>))"

definition get_account :: "ledger_db \<Rightarrow> string \<Rightarrow> ledger_account option" where
  "get_account db account_id = find (\<lambda>row. ac_account_id row = account_id) (db_accounts db)"

definition list_accounts_in_session ::
  "ledger_db \<Rightarrow> string option \<Rightarrow> string option \<Rightarrow> string option \<Rightarrow> ledger_account list" where
  "list_accounts_in_session db account_type product_type margin_mode =
     sort_key (\<lambda>row. (ac_currency row, ac_account_type row, ac_account_id row))
       (filter (\<lambda>row. (case account_type of None \<Rightarrow> True | Some t \<Rightarrow> ac_account_type row = t)
                  \<and> (case product_type of None \<Rightarrow> True | Some p \<Rightarrow> ac_product_type row = p)
                  \<and> (case margin_mode of None \<Rightarrow> True | Some m \<Rightarrow> ac_margin_mode row = m))
          (db_accounts db))"

section \<open>Journals\<close>

definition create_journal_in_session ::
  "ledger_db \<Rightarrow> string \<Rightarrow> string \<Rightarrow> string \<Rightarrow> string \<Rightarrow> string \<Rightarrow> datetime \<Rightarrow> (string \<times> pyval) list \<Rightarrow> ledger_db" where
  "create_journal_in_session db journal_id journal_type source_type source_id status created_at metadata =
     (if \<exists>row \<in> set (db_journals db). jr_journal_id row = journal_id
           \<or> (jr_source_type row = source_type \<and> jr_source_id row = source_id)
      then db
      else db\<lparr>db_journals := db_journals db @
             [\<lparr>jr_journal_id = journal_id, jr_journal_type = journal_type, jr_source_type = source_type,
               jr_source_id = source_id, jr_status = status, jr_created_at = created_at, jr_posted_at = None,
               jr_metadata = metadata\<rparr>]\<rparr>)"

definition mark_posted_in_session :: "ledger_db \<Rightarrow> string \<Rightarrow> datetime \<Rightarrow> ledger_db" where
  "mark_posted_in_session db journal_id posted_at =
     db\<lparr>db_journals := update_where (\<lambda>row. jr_journal_id row = journal_id)
          (\<lambda>row. row\<lparr>jr_status := ''POSTED'', jr_posted_at := Some posted_at\<rparr>) (db_journals db)\<rparr>"

definition get_by_source_in_session :: "ledger_db \<Rightarrow> string \<Rightarrow> string \<Rightarrow> ledger_journal option" where
  "get_by_source_in_session db source_type source_id =
     find (\<lambda>row. jr_source_type row = source_type \<and> jr_source_id row = source_id) (db_journals db)"

section \<open>Entries\<close>

text \<open>One row of the insert; the whole statement fails when one of its rows does.\<close>

definition insert_entry :: "ledger_db \<Rightarrow> ledger_entry \<Rightarrow> string + ledger_db" where
  "insert_entry db entry =
     (if \<exists>row \<in> set (db_entries db). en_entry_id row = en_entry_id entry then Inr db
      else if (\<forall>row \<in> set (db_journals db). jr_journal_id row \<noteq> en_journal_id entry)
            \<or> (\<forall>row \<in> set (db_accounts db). ac_account_id row \<noteq> en_account_id entry)
      then Inl ''foreign_key_violation:ledger_entries''
      else Inr (db\<lparr>db_entries := db_entries db @ [entry]\<rparr>))"

fun append_entries_in_session :: "ledger_db \<Rightarrow> ledger_entry list \<Rightarrow> string + ledger_db" where
  "append_entries_in_session db [] = Inr db"
| "append_entries_in_session db (entry # entries) =
     ebind (insert_entry db entry) (\<lambda>db'. append_entries_in_session db' entries)"

definition entries_for_journal :: "ledger_db \<Rightarrow> string \<Rightarrow> ledger_entry list" where
  "entries_for_journal db journal_id =
     sort_key (\<lambda>row. (dt_instant (en_created_at row), en_entry_id row))
       (filter (\<lambda>row. en_journal_id row = journal_id) (db_entries db))"

definition balance_by_account_in_session :: "ledger_db \<Rightarrow> string \<Rightarrow> decimal" where
  "balance_by_account_in_session db account_id =
     foldl (\<lambda>balance row. dadd balance (if en_direction row = Debit then en_amount row else dneg (en_amount row))) 0
       (filter (\<lambda>row. en_account_id row = account_id) (db_entries db))"

section \<open>Settlements\<close>

definition create_settlement_in_session ::
  "ledger_db \<Rightarrow> string \<Rightarrow> string \<Rightarrow> string \<Rightarrow> string \<Rightarrow> datetime \<Rightarrow> string + ledger_db" where
  "create_settlement_in_session db settlement_id fill_id order_id state created_at =
     (if \<exists>row \<in> set (db_settlements db). se_settlement_id row = settlement_id \<or> se_fill_id row = fill_id then Inr db
      else if fill_id \<notin> set (db_fill_ids db) \<or> order_id \<notin> set (db_order_ids db)
      then Inl ''foreign_key_violation:settlements''
      else Inr (db\<lparr>db_settlements := db_settlements db @
             [\<lparr>se_settlement_id = settlement_id, se_fill_id = fill_id, se_order_id = order_id, se_journal_id = None,
               se_state = state, se_created_at = created_at, se_posted_at = None\<rparr>]\<rparr>))"

text \<open>A journal id that another settlement carries breaks the unique index when the row is flushed.\<close>

definition attach_journal_in_session :: "ledger_db \<Rightarrow> string \<Rightarrow> string \<Rightarrow> datetime \<Rightarrow> string + ledger_db" where
  "attach_journal_in_session db settlement_id journal_id posted_at =
     (if \<forall>row \<in> set (db_settlements db). se_settlement_id row \<noteq> settlement_id
      then Inl (''settlement_not_found:'' @ settlement_id)
      else if \<exists>row \<in> set (db_settlements db). se_settlement_id row \<noteq> settlement_id \<and> se_journal_id row = Some journal_id
      then Inl ''unique_violation:settlements''
      else Inr (db\<lparr>db_settlements := update_where (\<lambda>row. se_settlement_id row = settlement_id)
             (\<lambda>row. row\<lparr>se_journal_id := Some journal_id, se_state := ''POSTED'', se_posted_at := Some posted_at\<rparr>)
             (db_settlements db)\<rparr>))"

definition get_by_fill_id_in_session :: "ledger_db \<Rightarrow> string \<Rightarrow> settlement option" where
  "get_by_fill_id_in_session db fill_id = find (\<lambda>row. se_fill_id row = fill_id) (db_settlements db)"

section \<open>Reservations\<close>

definition rv_EPSILON :: decimal where "rv_EPSILON = 1 / 10 ^ 18"

definition get_by_order_id_in_session :: "ledger_db \<Rightarrow> string \<Rightarrow> reservation option" where
  "get_by_order_id_in_session db order_id = find (\<lambda>row. rv_order_id row = order_id) (db_reservations db)"

definition get_reservation :: "ledger_db \<Rightarrow> string \<Rightarrow> reservation option" where
  "get_reservation db reservation_id = find (\<lambda>row. rv_reservation_id row = reservation_id) (db_reservations db)"

definition create_reservation_in_session ::
  "ledger_db \<Rightarrow> string \<Rightarrow> string \<Rightarrow> string \<Rightarrow> decimal \<Rightarrow> string \<Rightarrow> datetime \<Rightarrow> string + ledger_db" where
  "create_reservation_in_session db reservation_id order_id reserve_account_id reserved_amount state created_at =
     (if get_by_order_id_in_session db order_id \<noteq> None then Inr db
      else if get_reservation db reservation_id \<noteq> None then Inr db
      else if order_id \<notin> set (db_order_ids db) \<or> get_account db reserve_account_id = None
      then Inl ''foreign_key_violation:reservations''
      else Inr (db\<lparr>db_reservations := db_reservations db @
             [\<lparr>rv_reservation_id = reservation_id, rv_order_id = order_id, rv_reserve_account_id = reserve_account_id,
               rv_reserved_amount = reserved_amount, rv_consumed_amount = 0, rv_released_amount = 0,
               rv_state = state, rv_created_at = created_at, rv_updated_at = created_at\<rparr>]\<rparr>))"

text \<open>\<open>str\<close> prints the decimals of an error message.\<close>

definition consume_row ::
  "(decimal \<Rightarrow> string) \<Rightarrow> reservation \<Rightarrow> decimal \<Rightarrow> datetime \<Rightarrow> string + reservation" where
  "consume_row str row amount updated_at =
     (let next_consumed = dadd (rv_consumed_amount row) amount
      in if dadd (rv_reserved_amount row) rv_EPSILON < dadd next_consumed (rv_released_amount row)
         then Inl (''reservation_over_consume:'' @ rv_reservation_id row @ '':'' @ str next_consumed @ '':''
                   @ str (rv_released_amount row) @ '':'' @ str (rv_reserved_amount row))
         else Inr (row\<lparr>rv_consumed_amount := next_consumed, rv_updated_at := updated_at,
                rv_state := (if 0 < next_consumed \<and> rv_state row = ''ACTIVE'' then ''PARTIALLY_CONSUMED'' else rv_state row)\<rparr>))"

definition release_row ::
  "(decimal \<Rightarrow> string) \<Rightarrow> reservation \<Rightarrow> decimal \<Rightarrow> string \<Rightarrow> datetime \<Rightarrow> string + reservation" where
  "release_row str row amount next_state updated_at =
     (let next_released = dadd (rv_released_amount row) amount
      in if dadd (rv_reserved_amount row) rv_EPSILON < dadd (rv_consumed_amount row) next_released
         then Inl (''reservation_over_release:'' @ rv_reservation_id row @ '':'' @ str (rv_consumed_amount row) @ '':''
                   @ str next_released @ '':'' @ str (rv_reserved_amount row))
         else Inr (row\<lparr>rv_released_amount := next_released, rv_state := next_state, rv_updated_at := updated_at\<rparr>))"

definition replace_reservation :: "ledger_db \<Rightarrow> reservation \<Rightarrow> ledger_db" where
  "replace_reservation db row =
     db\<lparr>db_reservations := update_where (\<lambda>r. rv_reservation_id r = rv_reservation_id row) (\<lambda>_. row) (db_reservations db)\<rparr>"

definition consume_in_session ::
  "(decimal \<Rightarrow> string) \<Rightarrow> ledger_db \<Rightarrow> string \<Rightarrow> decimal \<Rightarrow> datetime \<Rightarrow> string + ledger_db" where
  "consume_in_session str db reservation_id amount updated_at =
     (if amount < 0 then Inl ''reservation_consume_amount_must_be_non_negative''
      else case get_reservation db reservation_id of
        None \<Rightarrow> Inl (''reservation_not_found:'' @ reservation_id)
      | Some row \<Rightarrow> ebind (consume_row str row amount updated_at) (\<lambda>row'. Inr (replace_reservation db row')))"

definition release_in_session ::
  "(decimal \<Rightarrow> string) \<Rightarrow> ledger_db \<Rightarrow> string \<Rightarrow> decimal \<Rightarrow> string \<Rightarrow> datetime \<Rightarrow> string + ledger_db" where
  "release_in_session str db reservation_id amount next_state updated_at =
     (if amount < 0 then Inl ''reservation_release_amount_must_be_non_negative''
      else case get_reservation db reservation_id of
        None \<Rightarrow> Inl (''reservation_not_found:'' @ reservation_id)
      | Some row \<Rightarrow> ebind (release_row str row amount next_state updated_at) (\<lambda>row'. Inr (replace_reservation db row')))"

definition count_reservations :: "ledger_db \<Rightarrow> nat" where
  "count_reservations db = length (db_reservations db)"

section \<open>Rows found and replaced\<close>

lemma find_update_where:
  assumes "\<And>row. Q (f row) = Q row"
  shows "find Q (update_where P f rows) = map_option (\<lambda>row. if P row then f row else row) (find Q rows)"
  using assms by (induction rows) (simp_all add: update_where_def)

lemma set_update_where: "row \<in> set (update_where P f rows) \<Longrightarrow> \<exists>r \<in> set rows. row = r \<or> P r \<and> row = f r"
  by (auto simp: update_where_def)

lemma map_update_where: "(\<And>row. P row \<Longrightarrow> key (f row) = key row) \<Longrightarrow> map key (update_where P f rows) = map key rows"
  by (auto simp: update_where_def)

lemma find_None: "find P rows = None \<longleftrightarrow> (\<forall>row \<in> set rows. \<not> P row)"
  by (auto simp: find_None_iff)

lemma find_append: "find P (xs @ ys) = (case find P xs of Some x \<Rightarrow> Some x | None \<Rightarrow> find P ys)"
  by (induction xs) simp_all

lemma find_key: "distinct (map key rows) \<Longrightarrow> find (\<lambda>r. key r = k) rows = Some row \<longleftrightarrow> row \<in> set rows \<and> key row = k"
  by (induction rows) (auto simp: image_iff)

section \<open>The life of a reservation\<close>

definition reservation_ok :: "reservation \<Rightarrow> bool" where
  "reservation_ok row \<longleftrightarrow> 0 \<le> rv_consumed_amount row \<and> 0 \<le> rv_released_amount row
     \<and> exact28 (rv_consumed_amount row) \<and> exact28 (rv_released_amount row)
     \<and> dadd (rv_consumed_amount row) (rv_released_amount row) \<le> dadd (rv_reserved_amount row) rv_EPSILON"

text \<open>The same reservation later: what is consumed and released never shrinks.\<close>

definition grows :: "reservation \<Rightarrow> reservation \<Rightarrow> bool" where
  "grows row row' \<longleftrightarrow> rv_reservation_id row' = rv_reservation_id row \<and> rv_order_id row' = rv_order_id row
     \<and> rv_reserved_amount row' = rv_reserved_amount row
     \<and> rv_consumed_amount row \<le> rv_consumed_amount row' \<and> rv_released_amount row \<le> rv_released_amount row'"

inductive reservation_step :: "(decimal \<Rightarrow> string) \<Rightarrow> ledger_db \<Rightarrow> ledger_db \<Rightarrow> bool" for str where
  create: "0 \<le> reserved_amount \<Longrightarrow>
    create_reservation_in_session db rid oid aid reserved_amount state ts = Inr db' \<Longrightarrow> reservation_step str db db'"
| consume: "consume_in_session str db rid amount ts = Inr db' \<Longrightarrow> reservation_step str db db'"
| release: "release_in_session str db rid amount state ts = Inr db' \<Longrightarrow> reservation_step str db db'"

lemma consume_row_ok:
  assumes "consume_row str row amount ts = Inr row'" "reservation_ok row" "0 \<le> amount"
  shows "reservation_ok row'" "grows row row'"
  using assms by (auto simp: consume_row_def Let_def reservation_ok_def grows_def dec_signs dadd_ge split: if_splits)

lemma release_row_ok:
  assumes "release_row str row amount state ts = Inr row'" "reservation_ok row" "0 \<le> amount"
  shows "reservation_ok row'" "grows row row'"
  using assms by (auto simp: release_row_def Let_def reservation_ok_def grows_def dec_signs dadd_ge split: if_splits)

definition reservations_ok :: "ledger_db \<Rightarrow> bool" where
  "reservations_ok db \<longleftrightarrow> distinct (map rv_reservation_id (db_reservations db)) \<and> distinct (map rv_order_id (db_reservations db))
     \<and> (\<forall>row \<in> set (db_reservations db). reservation_ok row)"

definition all_grow :: "ledger_db \<Rightarrow> ledger_db \<Rightarrow> bool" where
  "all_grow db db' \<longleftrightarrow> (\<forall>row \<in> set (db_reservations db). \<exists>row' \<in> set (db_reservations db'). grows row row')"

lemma grows_refl: "grows row row" and grows_trans: "grows a b \<Longrightarrow> grows b c \<Longrightarrow> grows a c"
  by (auto simp: grows_def)

lemma all_grow_refl: "all_grow db db" and all_grow_trans: "all_grow a b \<Longrightarrow> all_grow b c \<Longrightarrow> all_grow a c"
  unfolding all_grow_def using grows_refl grows_trans by blast+

lemma all_grow_subset: "set (db_reservations db) \<subseteq> set (db_reservations db') \<Longrightarrow> all_grow db db'"
  unfolding all_grow_def using grows_refl by blast

lemma replace_reservation_ok:
  assumes "reservations_ok db" "get_reservation db rid = Some row" "reservation_ok row'" "grows row row'"
  shows "reservations_ok (replace_reservation db row') \<and> all_grow db (replace_reservation db row')"
proof -
  let ?rows = "db_reservations db"
  have row: "row \<in> set ?rows" using assms(2) find_Some by (fastforce simp: get_reservation_def)
  have same: "rv_reservation_id row' = rv_reservation_id row" "rv_order_id row' = rv_order_id row"
    using assms(4) by (simp_all add: grows_def)
  have d: "distinct (map rv_reservation_id ?rows)" "distinct (map rv_order_id ?rows)" using assms(1) by (simp_all add: reservations_ok_def)
  have unique: "r = row" if "r \<in> set ?rows" "rv_reservation_id r = rv_reservation_id row'" for r
    using that row same d(1) by (auto simp: distinct_map inj_on_def)
  have "map key (update_where (\<lambda>r. rv_reservation_id r = rv_reservation_id row') (\<lambda>_. row') ?rows) = map key ?rows"
    if "key row' = key row" for key :: "reservation \<Rightarrow> string"
    using that unique by (auto simp: update_where_def)
  then have "distinct (map rv_reservation_id (db_reservations (replace_reservation db row')))"
    "distinct (map rv_order_id (db_reservations (replace_reservation db row')))"
    using d same by (simp_all add: replace_reservation_def)
  moreover have "\<forall>r \<in> set (db_reservations (replace_reservation db row')). reservation_ok r"
    using assms(1,3) by (auto simp: replace_reservation_def reservations_ok_def dest!: set_update_where)
  moreover have "\<exists>r' \<in> set (db_reservations (replace_reservation db row')). grows r r'" if "r \<in> set ?rows" for r
  proof (cases "rv_reservation_id r = rv_reservation_id row'")
    case True
    then have "r = row" using that unique by blast
    with that True assms(4) show ?thesis by (force simp: replace_reservation_def update_where_def)
  next
    case False
    with that grows_refl show ?thesis by (force simp: replace_reservation_def update_where_def)
  qed
  ultimately show ?thesis by (simp add: reservations_ok_def all_grow_def)
qed

lemma reservation_step_ok:
  assumes "reservation_step str db db'" "reservations_ok db"
  shows "reservations_ok db' \<and> all_grow db db'"
  using assms(1)
proof (cases rule: reservation_step.cases)
  case (create reserved rid oid aid state ts)
  note created = create
  show ?thesis
  proof (cases "db' = db")
    case True
    then show ?thesis using assms(2) all_grow_refl by simp
  next
    case False
    then have new: "get_by_order_id_in_session db oid = None" "get_reservation db rid = None"
      and db': "db' = db\<lparr>db_reservations := db_reservations db @
             [\<lparr>rv_reservation_id = rid, rv_order_id = oid, rv_reserve_account_id = aid,
               rv_reserved_amount = reserved, rv_consumed_amount = 0, rv_released_amount = 0,
               rv_state = state, rv_created_at = ts, rv_updated_at = ts\<rparr>]\<rparr>"
      using created by (auto simp: create_reservation_in_session_def split: if_splits)
    have "0 \<le> dadd reserved rv_EPSILON" using created(1) by (simp add: rv_EPSILON_def dec_signs)
    with new assms(2) have "reservations_ok db'"
      by (auto simp: db' reservations_ok_def reservation_ok_def get_by_order_id_in_session_def get_reservation_def find_None)
    moreover have "all_grow db db'" by (rule all_grow_subset) (auto simp: db')
    ultimately show ?thesis ..
  qed
next
  case (consume rid amount ts)
  then obtain row row' where r: "0 \<le> amount" "get_reservation db rid = Some row"
      "consume_row str row amount ts = Inr row'" "db' = replace_reservation db row'"
    by (auto simp: consume_in_session_def ebind_eq_Inr_iff split: if_splits option.splits)
  have "reservation_ok row" using assms(2) r(2) find_Some by (fastforce simp: get_reservation_def reservations_ok_def)
  with r consume_row_ok[OF r(3)] show ?thesis using replace_reservation_ok[OF assms(2) r(2)] by simp
next
  case (release rid amount state ts)
  then obtain row row' where r: "0 \<le> amount" "get_reservation db rid = Some row"
      "release_row str row amount state ts = Inr row'" "db' = replace_reservation db row'"
    by (auto simp: release_in_session_def ebind_eq_Inr_iff split: if_splits option.splits)
  have "reservation_ok row" using assms(2) r(2) find_Some by (fastforce simp: get_reservation_def reservations_ok_def)
  with r release_row_ok[OF r(3)] show ?thesis using replace_reservation_ok[OF assms(2) r(2)] by simp
qed

section \<open>Properties\<close>

text \<open>
  C40. Reservations are never overdrawn: along any sequence of creations, consumptions and releases that
  succeed, ids and orders stay unique, consumed and released amounts never shrink, and together they
  exceed the reserved amount by at most the tolerance of \<open>10\<^sup>-\<^sup>1\<^sup>8\<close>.
\<close>

theorem reservations_never_overdrawn:
  assumes "(reservation_step str)\<^sup>*\<^sup>* db db'" "reservations_ok db"
  shows "reservations_ok db' \<and> all_grow db db'"
  using assms(1)
proof (induction rule: rtranclp_induct)
  case base
  then show ?case using assms(2) all_grow_refl by simp
next
  case (step y z)
  then show ?case using reservation_step_ok all_grow_trans by blast
qed

section \<open>Witness\<close>

definition example_ledger :: ledger_db where
  "example_ledger = \<lparr>db_accounts = [\<lparr>ac_account_id = ''lacc_1'', ac_account_type = ''cash_reserved'', ac_currency = ''USDT'',
       ac_product_type = ''spot'', ac_margin_mode = ''cash'', ac_symbol = None, ac_created_at = Aware 0 0\<rparr>],
     db_journals = [], db_entries = [], db_settlements = [], db_reservations = [], db_order_ids = [''cid''], db_fill_ids = [''f1'']\<rparr>"

definition example_reservation :: "decimal \<Rightarrow> decimal \<Rightarrow> string \<Rightarrow> reservation" where
  "example_reservation consumed released state =
     \<lparr>rv_reservation_id = ''obl'', rv_order_id = ''cid'', rv_reserve_account_id = ''lacc_1'', rv_reserved_amount = 100,
      rv_consumed_amount = consumed, rv_released_amount = released, rv_state = state, rv_created_at = Aware 0 0,
      rv_updated_at = Aware 0 0\<rparr>"

definition example_reserved :: "reservation \<Rightarrow> ledger_db" where
  "example_reserved row = example_ledger\<lparr>db_reservations := [row]\<rparr>"

lemma exact_eps_sum: "dadd 100 rv_EPSILON = 100 + 1 / 10 ^ 18"
proof -
  have "exact28 (of_int (100 * 10 ^ 18 + 1) / 10 ^ 18)" by (rule exact28I) simp
  then show ?thesis by (simp add: dadd_def exact28_def rv_EPSILON_def)
qed

theorem reservations_never_overdrawn_witness:
  "reservations_ok (example_reserved (example_reservation 60 40 ''RELEASED''))"
proof -
  let ?str = "\<lambda>_. []"
  let ?r0 = "example_reservation 0 0 ''ACTIVE''" and ?r1 = "example_reservation 60 0 ''PARTIALLY_CONSUMED''"
    and ?r2 = "example_reservation 60 40 ''RELEASED''"
  have "create_reservation_in_session example_ledger ''obl'' ''cid'' ''lacc_1'' 100 ''ACTIVE'' (Aware 0 0) = Inr (example_reserved ?r0)"
    by (simp add: create_reservation_in_session_def get_by_order_id_in_session_def get_reservation_def get_account_def
        example_ledger_def example_reserved_def example_reservation_def)
  then have s1: "reservation_step ?str example_ledger (example_reserved ?r0)" by (intro reservation_step.create) auto
  have "consume_in_session ?str (example_reserved ?r0) ''obl'' 60 (Aware 0 0) = Inr (example_reserved ?r1)"
    by (simp add: consume_in_session_def get_reservation_def consume_row_def example_reserved_def replace_reservation_def
        update_where_def example_ledger_def example_reservation_def exact_eps_sum)
  then have s2: "reservation_step ?str (example_reserved ?r0) (example_reserved ?r1)" by (rule reservation_step.consume)
  have "release_in_session ?str (example_reserved ?r1) ''obl'' 40 ''RELEASED'' (Aware 0 0) = Inr (example_reserved ?r2)"
    by (simp add: release_in_session_def get_reservation_def release_row_def example_reserved_def replace_reservation_def
        update_where_def example_ledger_def example_reservation_def exact_eps_sum exact_ops)
  then have s3: "reservation_step ?str (example_reserved ?r1) (example_reserved ?r2)" by (rule reservation_step.release)
  have "(reservation_step ?str)\<^sup>*\<^sup>* example_ledger (example_reserved ?r2)"
    using s1 s2 s3 by (meson r_into_rtranclp rtranclp.rtrancl_into_rtrancl)
  moreover have "reservations_ok example_ledger" by (simp add: reservations_ok_def example_ledger_def)
  ultimately show ?thesis using reservations_never_overdrawn by blast
qed

end
