(* ===== verification/Ledger_Posting.thy ===== *)
theory Ledger_Posting
  imports Ledger_Store
begin

text \<open>
  The services that post to the ledger: \<^verbatim>\<open>Phase1LedgerMirrorService\<close>
  (\<^verbatim>\<open>aats/services/ledger/posting.py\<close>), which mirrors an order obligation into a reservation row and
  its journals, and \<^verbatim>\<open>LedgerSettlementPostingService\<close>
  (\<^verbatim>\<open>aats/services/ledger/settlement_posting.py\<close>), which posts what a fill does to the accounts.
  The digests, the printing of decimals, fresh account ids and the clock are an environment record.
  A session that raises is rolled back: its changes are dropped with the \<open>Inl\<close>.
\<close>

section \<open>The mirror service\<close>

record ledger_env =
  lg_sha1 :: "string \<Rightarrow> string"
  lg_sha256 :: "string \<Rightarrow> string"
  lg_format :: "decimal \<Rightarrow> string"
  lg_str :: "decimal \<Rightarrow> string"
  lg_new_id :: "string list \<Rightarrow> string"
  lg_now :: datetime

text \<open>Which of the optional repositories are wired (journals and entries go together).\<close>

record mirror_config =
  mc_session_factory :: bool
  mc_accounts :: bool
  mc_journals :: bool
  mc_settlements :: bool

definition mirror_EPSILON :: decimal where "mirror_EPSILON = 1 / 10 ^ 12"

definition mirror_stable_id :: "ledger_env \<Rightarrow> string \<Rightarrow> string list \<Rightarrow> string" where
  "mirror_stable_id env prefix parts = prefix @ ''_'' @ take 24 (lg_sha1 env (py_join ''|'' parts))"

fun obligation_status_str :: "obligation_status \<Rightarrow> string" where
  "obligation_status_str OBL_ACTIVE = ''ACTIVE''"
| "obligation_status_str OBL_PARTIALLY_CONSUMED = ''PARTIALLY_CONSUMED''"
| "obligation_status_str OBL_RELEASED = ''RELEASED''"
| "obligation_status_str OBL_CANCELED = ''CANCELED''"
| "obligation_status_str OBL_FAILED = ''FAILED''"

definition ledger_account_id ::
  "ledger_env \<Rightarrow> mirror_config \<Rightarrow> ledger_db \<Rightarrow> string \<Rightarrow> string \<Rightarrow> product_type \<Rightarrow> margin_mode \<Rightarrow> datetime \<Rightarrow> string \<times> ledger_db"
where
  "ledger_account_id env cfg db account_type currency product_type margin_mode created_at =
     (if \<not> mc_accounts cfg then
        (mirror_stable_id env ''acct'' [account_type, currency, product_type_str product_type, margin_mode_str margin_mode], db)
      else get_or_create_account_in_session (lg_new_id env) db account_type currency (product_type_str product_type)
             (margin_mode_str margin_mode) None created_at)"

text \<open>An entry of a journal: label, account, direction and amount.\<close>

type_synonym entry_spec = "string \<times> string \<times> direction \<times> decimal"

definition journal_entry ::
  "(string \<Rightarrow> string \<Rightarrow> string) \<Rightarrow> string \<Rightarrow> string \<Rightarrow> string \<Rightarrow> datetime \<Rightarrow> string \<Rightarrow> entry_spec \<Rightarrow> ledger_entry" where
  "journal_entry entry_id journal_id source_type source_id created_at currency entry =
     (case entry of (label, account_id, direction, amount) \<Rightarrow>
        \<lparr>en_entry_id = entry_id journal_id label, en_journal_id = journal_id, en_account_id = account_id,
         en_direction = direction, en_amount = amount, en_currency = currency, en_effective_at = created_at,
         en_source_type = source_type, en_source_id = source_id, en_created_at = created_at\<rparr>)"

definition mirror_post_journal ::
  "ledger_env \<Rightarrow> mirror_config \<Rightarrow> ledger_db \<Rightarrow> string \<Rightarrow> string \<Rightarrow> string \<Rightarrow> datetime \<Rightarrow> (string \<times> pyval) list
   \<Rightarrow> entry_spec list \<Rightarrow> string \<Rightarrow> string + (string option \<times> ledger_db)"
where
  "mirror_post_journal env cfg db journal_type source_type source_id created_at metadata entries currency =
     (if \<not> mc_journals cfg then Inr (None, db)
      else
        let journal_id = mirror_stable_id env ''jrnl'' [source_type, source_id];
            db1 = create_journal_in_session db journal_id journal_type source_type source_id ''PENDING'' created_at metadata;
            rows = map (journal_entry (\<lambda>j label. mirror_stable_id env ''ent'' [j, label]) journal_id source_type source_id
                     created_at currency) entries
        in ebind (append_entries_in_session db1 rows)
             (\<lambda>db2. Inr (Some journal_id, mark_posted_in_session db2 journal_id created_at)))"

definition reserve_account_id :: "ledger_env \<Rightarrow> mirror_config \<Rightarrow> ledger_db \<Rightarrow> order_obligation \<Rightarrow> string \<times> ledger_db" where
  "reserve_account_id env cfg db obligation =
     ledger_account_id env cfg db ''cash_reserved'' (ob_reserve_currency obligation) (ob_product_type obligation)
       (ob_margin_mode obligation) (ob_created_at obligation)"

definition post_reservation_hold ::
  "ledger_env \<Rightarrow> mirror_config \<Rightarrow> ledger_db \<Rightarrow> order_obligation \<Rightarrow> decimal \<Rightarrow> string + ledger_db" where
  "post_reservation_hold env cfg db obligation amount =
     (if amount \<le> mirror_EPSILON then Inr db
      else
        let (available_account_id, db1) = ledger_account_id env cfg db ''cash_available'' (ob_reserve_currency obligation)
              (ob_product_type obligation) (ob_margin_mode obligation) (ob_created_at obligation);
            (reserved_account_id, db2) = reserve_account_id env cfg db1 obligation
        in ebind (mirror_post_journal env cfg db2 ''reservation_hold'' ''reservation''
                    (mirror_stable_id env ''src'' [ob_obligation_id obligation, ''hold'',
                       lg_format env (ob_reserved_amount obligation)])
                    (case ob_last_update_ts obligation of Some ts \<Rightarrow> ts | None \<Rightarrow> ob_created_at obligation)
                    [(''decision_id'', PyStr (ob_decision_id obligation)), (''intent_id'', PyStr (ob_intent_id obligation)),
                     (''client_order_id'', PyStr (ob_client_order_id obligation)), (''reason'', PyStr ''reservation_hold'')]
                    [(''reserved'', reserved_account_id, Debit, amount), (''available'', available_account_id, Credit, amount)]
                    (ob_reserve_currency obligation))
             (\<lambda>(_, db3). Inr db3))"

definition post_reservation_release ::
  "ledger_env \<Rightarrow> mirror_config \<Rightarrow> ledger_db \<Rightarrow> order_obligation \<Rightarrow> decimal \<Rightarrow> string + ledger_db" where
  "post_reservation_release env cfg db obligation amount =
     (if amount \<le> mirror_EPSILON then Inr db
      else
        let (available_account_id, db1) = ledger_account_id env cfg db ''cash_available'' (ob_reserve_currency obligation)
              (ob_product_type obligation) (ob_margin_mode obligation) (ob_created_at obligation);
            (reserved_account_id, db2) = reserve_account_id env cfg db1 obligation
        in ebind (mirror_post_journal env cfg db2 ''reservation_release'' ''reservation_release''
                    (mirror_stable_id env ''src'' [ob_obligation_id obligation, ''release'',
                       lg_format env (ob_released_amount obligation)])
                    (case ob_last_update_ts obligation of Some ts \<Rightarrow> ts | None \<Rightarrow> lg_now env)
                    [(''decision_id'', PyStr (ob_decision_id obligation)), (''intent_id'', PyStr (ob_intent_id obligation)),
                     (''client_order_id'', PyStr (ob_client_order_id obligation)),
                     (''status'', PyStr (obligation_status_str (ob_status obligation)))]
                    [(''available'', available_account_id, Debit, amount), (''reserved'', reserved_account_id, Credit, amount)]
                    (ob_reserve_currency obligation))
             (\<lambda>(_, db3). Inr db3))"

text \<open>The fee of a spot fill in the reserved currency, out of the cleared amount; \<open>None\<close>: nothing to post.\<close>

definition fee_delta_in_reserve :: "order_obligation \<Rightarrow> fill_event \<Rightarrow> string + decimal option" where
  "fee_delta_in_reserve obligation fill =
     (let (base_currency, quote_currency) = symbol_currencies (fl_symbol fill);
          reserve = Some (ob_reserve_currency obligation)
      in ebind (if reserve = quote_currency then
                  ebind (fill_fee_delta_in_quote fill base_currency quote_currency) (\<lambda>d. Inr (Some d))
                else if reserve = base_currency then Inr (Some (fl_fee_amount fill))
                else Inr None)
           (\<lambda>delta. Inr (case delta of None \<Rightarrow> None | Some d \<Rightarrow> if dabs d \<le> mirror_EPSILON then None else Some d)))"

definition fee_attribution_applies :: "order_obligation \<Rightarrow> fill_event \<Rightarrow> bool" where
  "fee_attribution_applies obligation fill \<longleftrightarrow>
     (let (base_currency, quote_currency) = symbol_currencies (fl_symbol fill)
      in ob_product_type obligation = Spot
         \<and> resolved_fee_currency fill base_currency quote_currency = Some (ob_reserve_currency obligation)
         \<and> mirror_EPSILON < dabs (fl_fee_amount fill))"

definition post_reservation_backed_spot_fee_attribution ::
  "ledger_env \<Rightarrow> mirror_config \<Rightarrow> ledger_db \<Rightarrow> order_obligation \<Rightarrow> fill_event \<Rightarrow> string + ledger_db" where
  "post_reservation_backed_spot_fee_attribution env cfg db obligation fill =
     (if \<not> fee_attribution_applies obligation fill then Inr db
      else
        let account = (\<lambda>db account_type. ledger_account_id env cfg db account_type (ob_reserve_currency obligation)
              (ob_product_type obligation) (ob_margin_mode obligation) (fl_created_at fill));
            (external_account_id, db1) = account db ''external_clearing''
        in ebind (fee_delta_in_reserve obligation fill) (\<lambda>delta.
             case delta of
               None \<Rightarrow> Inr db1
             | Some fee_delta \<Rightarrow>
                 let amount = dabs fee_delta;
                     (fee_account_id, db2) = account db1 (if 0 < fee_delta then ''fee_expense'' else ''fee_income'')
                 in ebind (mirror_post_journal env cfg db2
                      (if 0 < fee_delta then ''fill_fee_expense'' else ''fill_fee_income'') ''fill_fee_attribution''
                      (mirror_stable_id env ''src'' [fl_fill_id fill, ''fee_attribution'', ob_reserve_currency obligation])
                      (fl_ingestion_timestamp fill)
                      [(''decision_id'', PyStr (fl_decision_id fill)), (''intent_id'', PyStr (fl_intent_id fill)),
                       (''client_order_id'', PyStr (fl_client_order_id fill)), (''fill_id'', PyStr (fl_fill_id fill)),
                       (''fee_currency'', PyStr (ob_reserve_currency obligation)),
                       (''resolved_fee_currency'', PyStr (ob_reserve_currency obligation)),
                       (''fee_direction'', PyStr (if 0 < fee_delta then ''expense'' else ''income'')),
                       (''fee_delta_in_reserve'', PyStr (lg_format env fee_delta))]
                      (if 0 < fee_delta
                       then [(''fee_expense'', fee_account_id, Debit, amount), (''external'', external_account_id, Credit, amount)]
                       else [(''external'', external_account_id, Debit, amount), (''fee_income'', fee_account_id, Credit, amount)])
                      (ob_reserve_currency obligation)) (\<lambda>(_, db3). Inr db3)))"

definition post_fill_settlement ::
  "ledger_env \<Rightarrow> mirror_config \<Rightarrow> ledger_db \<Rightarrow> order_obligation \<Rightarrow> fill_event \<Rightarrow> decimal \<Rightarrow> string + ledger_db" where
  "post_fill_settlement env cfg db obligation fill amount =
     (if amount \<le> mirror_EPSILON \<or> \<not> mc_settlements cfg then Inr db
      else
        let (reserved_account_id, db1) = reserve_account_id env cfg db obligation;
            (external_account_id, db2) = ledger_account_id env cfg db1 ''external_clearing'' (ob_reserve_currency obligation)
              (ob_product_type obligation) (ob_margin_mode obligation) (fl_created_at fill);
            settlement_id = mirror_stable_id env ''set'' [fl_fill_id fill]
        in ebind (create_settlement_in_session db2 settlement_id (fl_fill_id fill) (fl_client_order_id fill) ''PENDING''
                    (fl_created_at fill)) (\<lambda>db3.
           ebind (mirror_post_journal env cfg db3 ''fill_settlement'' ''fill_settlement'' (fl_fill_id fill)
                    (fl_ingestion_timestamp fill)
                    [(''decision_id'', PyStr (fl_decision_id fill)), (''intent_id'', PyStr (fl_intent_id fill)),
                     (''client_order_id'', PyStr (fl_client_order_id fill)), (''fill_id'', PyStr (fl_fill_id fill)),
                     (''reserve_currency'', PyStr (ob_reserve_currency obligation))]
                    [(''external'', external_account_id, Debit, amount), (''reserved'', reserved_account_id, Credit, amount)]
                    (ob_reserve_currency obligation)) (\<lambda>(journal_id, db4).
           ebind (case journal_id of None \<Rightarrow> Inr db4
                  | Some j \<Rightarrow> attach_journal_in_session db4 settlement_id j (fl_ingestion_timestamp fill)) (\<lambda>db5.
           post_reservation_backed_spot_fee_attribution env cfg db5 obligation fill))))"

section \<open>Synchronising an obligation\<close>

text \<open>The reservation row is found, or created with its hold journal; \<open>None\<close>: another order took the id.\<close>

definition ensure_reservation ::
  "ledger_env \<Rightarrow> mirror_config \<Rightarrow> ledger_db \<Rightarrow> order_obligation \<Rightarrow> string \<Rightarrow> string + (reservation option \<times> ledger_db)" where
  "ensure_reservation env cfg db obligation account_id =
     (case get_by_order_id_in_session db (ob_client_order_id obligation) of
        Some row \<Rightarrow> Inr (Some row, db)
      | None \<Rightarrow>
          ebind (create_reservation_in_session db (ob_obligation_id obligation) (ob_client_order_id obligation) account_id
                   (ob_reserved_amount obligation) ''ACTIVE'' (ob_created_at obligation)) (\<lambda>db1.
          case get_by_order_id_in_session db1 (ob_client_order_id obligation) of
            None \<Rightarrow> Inr (None, db1)
          | Some row \<Rightarrow>
              if mirror_EPSILON < ob_reserved_amount obligation
              then ebind (post_reservation_hold env cfg db1 obligation (ob_reserved_amount obligation)) (\<lambda>db2. Inr (Some row, db2))
              else Inr (Some row, db1)))"

definition update_ts :: "ledger_env \<Rightarrow> order_obligation \<Rightarrow> datetime" where
  "update_ts env obligation = (case ob_last_update_ts obligation of Some ts \<Rightarrow> ts | None \<Rightarrow> lg_now env)"

definition mirror_consumption ::
  "ledger_env \<Rightarrow> mirror_config \<Rightarrow> ledger_db \<Rightarrow> order_obligation \<Rightarrow> fill_event option \<Rightarrow> string \<Rightarrow> decimal \<Rightarrow> string + ledger_db" where
  "mirror_consumption env cfg db obligation related_fill reservation_id delta =
     (if \<not> mirror_EPSILON < delta then Inr db
      else ebind (consume_in_session (lg_str env) db reservation_id delta (update_ts env obligation)) (\<lambda>db1.
        case related_fill of None \<Rightarrow> Inr db1
        | Some fill \<Rightarrow> post_fill_settlement env cfg db1 obligation fill delta))"

definition mirror_release ::
  "ledger_env \<Rightarrow> mirror_config \<Rightarrow> ledger_db \<Rightarrow> order_obligation \<Rightarrow> string \<Rightarrow> decimal \<Rightarrow> string + ledger_db" where
  "mirror_release env cfg db obligation reservation_id delta =
     (if \<not> mirror_EPSILON < delta then Inr db
      else ebind (release_in_session (lg_str env) db reservation_id delta (obligation_status_str (ob_status obligation))
                    (update_ts env obligation)) (\<lambda>db1.
        post_reservation_release env cfg db1 obligation delta))"

definition mirror_state :: "ledger_env \<Rightarrow> ledger_db \<Rightarrow> order_obligation \<Rightarrow> string + ledger_db" where
  "mirror_state env db obligation =
     (case get_by_order_id_in_session db (ob_client_order_id obligation) of
        None \<Rightarrow> Inr db
      | Some row \<Rightarrow>
          if rv_state row \<noteq> obligation_status_str (ob_status obligation)
          then release_in_session (lg_str env) db (rv_reservation_id row) 0 (obligation_status_str (ob_status obligation))
                 (update_ts env obligation)
          else Inr db)"

definition sync_in_session ::
  "ledger_env \<Rightarrow> mirror_config \<Rightarrow> ledger_db \<Rightarrow> order_obligation \<Rightarrow> fill_event option \<Rightarrow> string + ledger_db" where
  "sync_in_session env cfg db obligation related_fill =
     (let (account_id, db0) = reserve_account_id env cfg db obligation
      in ebind (ensure_reservation env cfg db0 obligation account_id) (\<lambda>(shadow_row, db1).
         case shadow_row of
           None \<Rightarrow> Inr db1
         | Some row \<Rightarrow>
             let delta_consumed = max (dsub (ob_consumed_amount obligation) (rv_consumed_amount row)) 0;
                 delta_released = max (dsub (ob_released_amount obligation) (rv_released_amount row)) 0
             in ebind (mirror_consumption env cfg db1 obligation related_fill (rv_reservation_id row) delta_consumed) (\<lambda>db2.
                ebind (mirror_release env cfg db2 obligation (rv_reservation_id row) delta_released) (\<lambda>db3.
                mirror_state env db3 obligation))))"

record mirror_service =
  ms_db :: ledger_db
  ms_sync_attempt_count :: nat
  ms_sync_success_count :: nat
  ms_sync_failure_count :: nat
  ms_last_sync_ts :: "datetime option"
  ms_last_failure_ts :: "datetime option"
  ms_last_reason :: "string option"
  ms_last_order_id :: "string option"
  ms_last_fill_id :: "string option"
  ms_last_obligation_status :: "obligation_status option"
  ms_last_error :: "string option"
  ms_last_outcome :: string

definition record_success ::
  "ledger_env \<Rightarrow> mirror_service \<Rightarrow> order_obligation \<Rightarrow> string \<Rightarrow> fill_event option \<Rightarrow> mirror_service" where
  "record_success env svc obligation reason related_fill =
     svc\<lparr>ms_sync_success_count := ms_sync_success_count svc + 1,
         ms_last_sync_ts := Some (update_ts env obligation),
         ms_last_reason := Some reason,
         ms_last_order_id := Some (ob_client_order_id obligation),
         ms_last_fill_id := map_option fl_fill_id related_fill,
         ms_last_obligation_status := Some (ob_status obligation),
         ms_last_outcome := ''success''\<rparr>"

definition record_failure ::
  "ledger_env \<Rightarrow> mirror_service \<Rightarrow> order_obligation \<Rightarrow> string \<Rightarrow> fill_event option \<Rightarrow> string \<Rightarrow> mirror_service" where
  "record_failure env svc obligation reason related_fill error =
     svc\<lparr>ms_sync_failure_count := ms_sync_failure_count svc + 1,
         ms_last_failure_ts := Some (lg_now env),
         ms_last_reason := Some reason,
         ms_last_order_id := Some (ob_client_order_id obligation),
         ms_last_fill_id := map_option fl_fill_id related_fill,
         ms_last_obligation_status := Some (ob_status obligation),
         ms_last_error := Some error,
         ms_last_outcome := ''failure''\<rparr>"

text \<open>The service after the call, and the message of the exception it raises.\<close>

definition sync_obligation ::
  "ledger_env \<Rightarrow> mirror_config \<Rightarrow> mirror_service \<Rightarrow> order_obligation option \<Rightarrow> string \<Rightarrow> fill_event option
   \<Rightarrow> mirror_service \<times> string option"
where
  "sync_obligation env cfg svc obligation reason related_fill =
     (case obligation of
        None \<Rightarrow> (svc, None)
      | Some ob \<Rightarrow>
          let svc1 = svc\<lparr>ms_sync_attempt_count := ms_sync_attempt_count svc + 1\<rparr>;
              result = (if \<not> mc_session_factory cfg then Inl ''reservation_repo_session_factory_missing''
                        else sync_in_session env cfg (ms_db svc) ob related_fill)
          in case result of
               Inl e \<Rightarrow> (record_failure env svc1 ob reason related_fill e, Some e)
             | Inr db \<Rightarrow> (record_success env (svc1\<lparr>ms_db := db\<rparr>) ob reason related_fill, None))"

definition mirror_status :: "mirror_service \<Rightarrow> string" where
  "mirror_status svc =
     (if ms_last_outcome svc = ''failure'' then ''degraded''
      else if 0 < ms_sync_success_count svc then ''healthy''
      else ''idle'')"

section \<open>The settlement posting service\<close>

record fill_settlement_projection =
  fsp_base_currency :: "string option"
  fsp_quote_currency :: "string option"
  fsp_starting_quantity :: decimal
  fsp_ending_quantity :: decimal
  fsp_realized_pnl_delta :: decimal
  fsp_fee_delta :: decimal

definition settlement_stable_id :: "ledger_env \<Rightarrow> string list \<Rightarrow> string" where
  "settlement_stable_id env parts = take 48 (lg_sha256 env (py_join ''|'' parts))"

definition settlement_journal_id :: "ledger_env \<Rightarrow> string \<Rightarrow> string \<Rightarrow> string" where
  "settlement_journal_id env source_type source_id = settlement_stable_id env [''jrnl'', source_type, source_id]"

definition settlement_entry_id :: "ledger_env \<Rightarrow> string \<Rightarrow> string \<Rightarrow> string" where
  "settlement_entry_id env journal_id label = settlement_stable_id env [''ent'', journal_id, label]"

definition settlement_account_id ::
  "ledger_env \<Rightarrow> ledger_db \<Rightarrow> string \<Rightarrow> string \<Rightarrow> string \<Rightarrow> string \<Rightarrow> string \<times> ledger_db" where
  "settlement_account_id env db account_type currency product_type margin_mode =
     get_or_create_account_in_session (lg_new_id env) db account_type currency product_type margin_mode None (lg_now env)"

definition settlement_post_journal ::
  "ledger_env \<Rightarrow> ledger_db \<Rightarrow> string \<Rightarrow> string \<Rightarrow> string \<Rightarrow> datetime \<Rightarrow> (string \<times> pyval) list \<Rightarrow> (entry_spec \<times> string) list
   \<Rightarrow> string + ledger_db"
where
  "settlement_post_journal env db journal_type source_type source_id created_at metadata entries =
     (let journal_id = settlement_journal_id env source_type source_id;
          rows = map (\<lambda>(entry, currency).
                   journal_entry (settlement_entry_id env) journal_id source_type source_id created_at currency entry) entries;
          db1 = create_journal_in_session db journal_id journal_type source_type source_id ''PENDING'' created_at metadata
      in ebind (append_entries_in_session db1 rows) (\<lambda>db2. Inr (mark_posted_in_session db2 journal_id created_at)))"

text \<open>
  The shape of every posting of the service: a debit and a credit of one amount, each with a label
  and the type of its account, the accounts looked up (or opened) in this order.
\<close>

definition post_pair ::
  "ledger_env \<Rightarrow> string \<Rightarrow> string \<Rightarrow> ledger_db \<Rightarrow> string \<Rightarrow> string \<Rightarrow> string \<Rightarrow> datetime \<Rightarrow> (string \<times> pyval) list
   \<Rightarrow> string \<times> string \<Rightarrow> string \<times> string \<Rightarrow> decimal \<Rightarrow> string \<Rightarrow> string + ledger_db"
where
  "post_pair env product_type margin_mode db journal_type source_type source_id created_at metadata debit credit amount currency =
     (let (debit_id, db1) = settlement_account_id env db (snd debit) currency product_type margin_mode;
          (credit_id, db2) = settlement_account_id env db1 (snd credit) currency product_type margin_mode
      in settlement_post_journal env db2 journal_type source_type source_id created_at metadata
           [((fst debit, debit_id, Debit, amount), currency), ((fst credit, credit_id, Credit, amount), currency)])"

definition ensure_initial_balance ::
  "ledger_env \<Rightarrow> ledger_db \<Rightarrow> string \<Rightarrow> decimal \<Rightarrow> string \<Rightarrow> string \<Rightarrow> string + ledger_db" where
  "ensure_initial_balance env db currency amount product_type margin_mode =
     (if amount \<le> mirror_EPSILON then Inr db
      else
        let source_id = settlement_stable_id env [''bootstrap'', product_type, margin_mode, currency]
        in if get_by_source_in_session db ''opening_balance'' source_id \<noteq> None then Inr db
           else post_pair env product_type margin_mode db ''opening_balance'' ''opening_balance'' source_id (lg_now env)
                  [(''currency'', PyStr currency), (''amount'', PyStr (lg_format env amount))]
                  (''available'', ''cash_available'') (''opening'', ''opening_balance'') amount currency)"

definition fill_metadata :: "fill_event \<Rightarrow> (string \<times> pyval) list" where
  "fill_metadata fill =
     [(''decision_id'', PyStr (fl_decision_id fill)), (''intent_id'', PyStr (fl_intent_id fill)),
      (''client_order_id'', PyStr (fl_client_order_id fill)), (''fill_id'', PyStr (fl_fill_id fill)),
      (''symbol'', PyStr (fl_symbol fill))]"

text \<open>
  A posting of a fill: source type, journal type, debit and credit side, amount and currency. Its
  source id hashes source type, fill and currency; it is skipped when the source has a journal.
\<close>

record fill_posting =
  fp_source_type :: string
  fp_journal_type :: string
  fp_debit :: "string \<times> string"
  fp_credit :: "string \<times> string"
  fp_amount :: decimal
  fp_currency :: string

definition fill_source_id :: "ledger_env \<Rightarrow> fill_event \<Rightarrow> fill_posting \<Rightarrow> string" where
  "fill_source_id env fill p = settlement_stable_id env [fp_source_type p, fl_fill_id fill, fp_currency p]"

definition post_fill_once :: "ledger_env \<Rightarrow> fill_event \<Rightarrow> ledger_db \<Rightarrow> fill_posting \<Rightarrow> string + ledger_db" where
  "post_fill_once env fill db p =
     (if get_by_source_in_session db (fp_source_type p) (fill_source_id env fill p) \<noteq> None then Inr db
      else post_pair env (product_type_str (fl_product_type fill)) (margin_mode_str (fl_margin_mode fill)) db
             (fp_journal_type p) (fp_source_type p) (fill_source_id env fill p) (fl_ingestion_timestamp fill)
             (fill_metadata fill) (fp_debit p) (fp_credit p) (fp_amount p) (fp_currency p))"

definition text_currency :: "string option \<Rightarrow> string list" where
  "text_currency c = (case c of None \<Rightarrow> [] | Some s \<Rightarrow> if s = [] then [] else [s])"

text \<open>A fee in the reserved currency of a spot order is part of the reservation.\<close>

definition fee_covered_by_reservation :: "fill_event \<Rightarrow> fill_settlement_projection \<Rightarrow> bool \<Rightarrow> bool" where
  "fee_covered_by_reservation fill projection reserved \<longleftrightarrow>
     (let fee_currency = text_or (resolved_fee_currency fill (fsp_base_currency projection) (fsp_quote_currency projection)) [];
          reservation_fee_currency = (if fl_side fill = Buy then fsp_quote_currency projection else fsp_base_currency projection)
      in reserved \<and> fl_product_type fill = Spot \<and> reservation_fee_currency = Some fee_currency)"

text \<open>The postings of a fill, in the order of the code; \<open>reserved\<close>: its order has a reservation row.\<close>

definition asset_postings :: "fill_event \<Rightarrow> fill_settlement_projection \<Rightarrow> bool \<Rightarrow> fill_posting list" where
  "asset_postings fill projection reserved =
     (let buy = (fl_side fill = Buy);
          base = text_currency (fsp_base_currency projection);
          quote = text_currency (fsp_quote_currency projection);
          notional = dmul (fl_fill_qty fill) (fl_fill_price fill)
      in if fl_product_type fill = Derivatives then []
         else (if \<not> reserved \<and> buy then
            map (\<lambda>c. \<lparr>fp_source_type = ''fill_quote_spend'', fp_journal_type = ''fill_quote_spend'',
               fp_debit = (''external_quote'', ''external_clearing''), fp_credit = (''available_quote'', ''cash_available''),
               fp_amount = notional, fp_currency = c\<rparr>) quote else [])
         @ (if \<not> reserved \<and> \<not> buy then
            map (\<lambda>c. \<lparr>fp_source_type = ''fill_asset_delivery'', fp_journal_type = ''fill_asset_delivery'',
               fp_debit = (''external_base'', ''external_clearing''), fp_credit = (''available_base'', ''cash_available''),
               fp_amount = fl_fill_qty fill, fp_currency = c\<rparr>) base else [])
         @ (if buy then
            map (\<lambda>c. \<lparr>fp_source_type = ''fill_asset_receipt'', fp_journal_type = ''fill_asset_receipt'',
               fp_debit = (''available_base'', ''cash_available''), fp_credit = (''external_base'', ''external_clearing''),
               fp_amount = fl_fill_qty fill, fp_currency = c\<rparr>) base else [])
         @ (if \<not> buy then
            map (\<lambda>c. \<lparr>fp_source_type = ''fill_quote_proceeds'', fp_journal_type = ''fill_quote_proceeds'',
               fp_debit = (''available_quote'', ''cash_available''), fp_credit = (''external_quote'', ''external_clearing''),
               fp_amount = notional, fp_currency = c\<rparr>) quote else []))"

definition pnl_postings :: "fill_settlement_projection \<Rightarrow> fill_posting list" where
  "pnl_postings projection =
     (let pnl = fsp_realized_pnl_delta projection
      in if mirror_EPSILON < dabs pnl then
            map (\<lambda>c. \<lparr>fp_source_type = ''fill_realized_pnl'', fp_journal_type = ''fill_realized_pnl'',
               fp_debit = (if 0 < pnl then (''available_quote'', ''cash_available'') else (''realized_pnl'', ''realized_pnl'')),
               fp_credit = (if 0 < pnl then (''realized_pnl'', ''realized_pnl'') else (''available_quote'', ''cash_available'')),
               fp_amount = dabs pnl, fp_currency = c\<rparr>) (text_currency (fsp_quote_currency projection))
         else [])"

definition fee_postings :: "fill_event \<Rightarrow> fill_settlement_projection \<Rightarrow> bool \<Rightarrow> fill_posting list" where
  "fee_postings fill projection reserved =
     (let fee_amount = fl_fee_amount fill
      in if mirror_EPSILON < dabs fee_amount \<and> \<not> fee_covered_by_reservation fill projection reserved then
            map (\<lambda>c. \<lparr>fp_source_type = ''fill_fee'',
               fp_journal_type = (if 0 < fee_amount then ''fill_fee'' else ''fill_fee_rebate''),
               fp_debit = (if 0 < fee_amount then (''fee_expense'', ''fee_expense'') else (''available_fee_currency'', ''cash_available'')),
               fp_credit = (if 0 < fee_amount then (''available_fee_currency'', ''cash_available'') else (''fee_income'', ''fee_income'')),
               fp_amount = dabs fee_amount, fp_currency = c\<rparr>)
              (text_currency (resolved_fee_currency fill (fsp_base_currency projection) (fsp_quote_currency projection)))
         else [])"

definition fill_postings :: "fill_event \<Rightarrow> fill_settlement_projection \<Rightarrow> bool \<Rightarrow> fill_posting list" where
  "fill_postings fill projection reserved =
     asset_postings fill projection reserved @ pnl_postings projection @ fee_postings fill projection reserved"

fun post_all :: "ledger_env \<Rightarrow> fill_event \<Rightarrow> ledger_db \<Rightarrow> fill_posting list \<Rightarrow> string + ledger_db" where
  "post_all env fill db [] = Inr db"
| "post_all env fill db (p # ps) = ebind (post_fill_once env fill db p) (\<lambda>db'. post_all env fill db' ps)"

text \<open>\<open>has_reservations\<close>: the reservation repository is wired.\<close>

definition post_fill_effects_in_session ::
  "ledger_env \<Rightarrow> bool \<Rightarrow> ledger_db \<Rightarrow> fill_event \<Rightarrow> fill_settlement_projection \<Rightarrow> string + ledger_db" where
  "post_fill_effects_in_session env has_reservations db fill projection =
     post_all env fill db (fill_postings fill projection
       (has_reservations \<and> get_by_order_id_in_session db (fl_client_order_id fill) \<noteq> None))"

definition available_balances_in_session :: "ledger_db \<Rightarrow> string \<Rightarrow> string \<Rightarrow> (string \<times> decimal) list" where
  "available_balances_in_session db product_type margin_mode =
     filter (\<lambda>(currency, amount). mirror_EPSILON < dabs amount)
       (foldl (\<lambda>balances account.
            AList.update (ac_currency account)
              (dadd (dict_get balances (ac_currency account) 0) (balance_by_account_in_session db (ac_account_id account))) balances)
          [] (list_accounts_in_session db (Some ''cash_available'') (Some product_type) (Some margin_mode)))"

section \<open>Double entry\<close>

definition signed_amount :: "ledger_entry \<Rightarrow> decimal" where
  "signed_amount entry = (if en_direction entry = Debit then en_amount entry else - en_amount entry)"

definition journal_sum :: "ledger_db \<Rightarrow> string \<Rightarrow> string \<Rightarrow> decimal" where
  "journal_sum db j c = sum_list (map signed_amount (filter (\<lambda>e. en_journal_id e = j \<and> en_currency e = c) (db_entries db)))"

definition posting_labels :: "string list" where
  "posting_labels = [''external_quote'', ''available_quote'', ''external_base'', ''available_base'', ''realized_pnl'',
     ''fee_expense'', ''available_fee_currency'', ''fee_income'', ''available'', ''opening'']"

text \<open>
  The digests do not collide on the journals of the given sources and on their entries. (Over all
  strings a truncated digest does collide; over the sources of a ledger it is not expected to.)
\<close>

definition collision_free :: "ledger_env \<Rightarrow> (string \<times> string) list \<Rightarrow> bool" where
  "collision_free env sources \<longleftrightarrow>
     inj_on (\<lambda>(t, s). settlement_journal_id env t s) (set sources)
     \<and> inj_on (\<lambda>(j, l). settlement_entry_id env j l)
         ((\<lambda>(t, s). settlement_journal_id env t s) ` set sources \<times> set posting_labels)"

definition ledger_ok :: "ledger_env \<Rightarrow> (string \<times> string) list \<Rightarrow> ledger_db \<Rightarrow> bool" where
  "ledger_ok env sources db \<longleftrightarrow>
     (\<forall>row \<in> set (db_journals db). (jr_source_type row, jr_source_id row) \<in> set sources
        \<and> jr_journal_id row = settlement_journal_id env (jr_source_type row) (jr_source_id row))
     \<and> (\<forall>e \<in> set (db_entries db). (\<exists>row \<in> set (db_journals db). jr_journal_id row = en_journal_id e)
        \<and> (\<exists>l \<in> set posting_labels. en_entry_id e = settlement_entry_id env (en_journal_id e) l))
     \<and> (\<forall>j c. journal_sum db j c = 0)"

definition known_source :: "ledger_db \<Rightarrow> string \<times> string \<Rightarrow> bool" where
  "known_source db src \<longleftrightarrow> get_by_source_in_session db (fst src) (snd src) \<noteq> None"

lemma known_source_iff:
  "known_source db (t, s) \<longleftrightarrow> (\<exists>row \<in> set (db_journals db). jr_source_type row = t \<and> jr_source_id row = s)"
  by (auto simp: known_source_def get_by_source_in_session_def find_None)

text \<open>Opening an account touches the accounts only.\<close>

lemma account_opened:
  assumes "settlement_account_id env db ty c pt mm = (aid, db')"
  shows "db_journals db' = db_journals db" "db_entries db' = db_entries db" "db_reservations db' = db_reservations db"
    "set (db_accounts db) \<subseteq> set (db_accounts db')" "\<exists>row \<in> set (db_accounts db'). ac_account_id row = aid"
proof -
  have "db_journals db' = db_journals db \<and> db_entries db' = db_entries db \<and> db_reservations db' = db_reservations db
    \<and> set (db_accounts db) \<subseteq> set (db_accounts db') \<and> (\<exists>row \<in> set (db_accounts db'). ac_account_id row = aid)"
  proof (cases "find_account db ty c pt mm None")
    case None
    with assms show ?thesis by (auto simp: settlement_account_id_def get_or_create_account_in_session_def Let_def)
  next
    case (Some row)
    then have "row \<in> set (db_accounts db)" using find_Some unfolding find_account_def by fast
    with Some assms show ?thesis by (auto simp: settlement_account_id_def get_or_create_account_in_session_def)
  qed
  then show "db_journals db' = db_journals db" "db_entries db' = db_entries db" "db_reservations db' = db_reservations db"
    "set (db_accounts db) \<subseteq> set (db_accounts db')" "\<exists>row \<in> set (db_accounts db'). ac_account_id row = aid" by blast+
qed

text \<open>A source without a journal has a free journal id and free entry ids.\<close>

lemma unknown_source_free:
  assumes "ledger_ok env sources db" "collision_free env sources" "(t, s) \<in> set sources" "\<not> known_source db (t, s)"
  shows "\<forall>row \<in> set (db_journals db). jr_journal_id row \<noteq> settlement_journal_id env t s"
    "l \<in> set posting_labels \<Longrightarrow> \<forall>e \<in> set (db_entries db). en_entry_id e \<noteq> settlement_entry_id env (settlement_journal_id env t s) l"
proof -
  show free: "\<forall>row \<in> set (db_journals db). jr_journal_id row \<noteq> settlement_journal_id env t s"
  proof (intro ballI notI)
    fix row assume row: "row \<in> set (db_journals db)" and eq: "jr_journal_id row = settlement_journal_id env t s"
    have "(jr_source_type row, jr_source_id row) \<in> set sources"
      "jr_journal_id row = settlement_journal_id env (jr_source_type row) (jr_source_id row)"
      using assms(1) row by (simp_all add: ledger_ok_def)
    with eq assms(2,3) have "(jr_source_type row, jr_source_id row) = (t, s)"
      unfolding collision_free_def inj_on_def by fastforce
    with row assms(4) show False by (auto simp: known_source_iff)
  qed
  show "\<forall>e \<in> set (db_entries db). en_entry_id e \<noteq> settlement_entry_id env (settlement_journal_id env t s) l"
    if l: "l \<in> set posting_labels"
  proof (intro ballI notI)
    fix e assume e: "e \<in> set (db_entries db)" and eq: "en_entry_id e = settlement_entry_id env (settlement_journal_id env t s) l"
    obtain row l' where row: "row \<in> set (db_journals db)" "jr_journal_id row = en_journal_id e"
      and l': "l' \<in> set posting_labels" "en_entry_id e = settlement_entry_id env (en_journal_id e) l'"
      using assms(1) e unfolding ledger_ok_def by blast
    have "(jr_source_type row, jr_source_id row) \<in> set sources"
      "jr_journal_id row = settlement_journal_id env (jr_source_type row) (jr_source_id row)"
      using assms(1) row by (simp_all add: ledger_ok_def)
    then have "en_journal_id e \<in> (\<lambda>(t, s). settlement_journal_id env t s) ` set sources" using row(2) by force
    moreover have "settlement_journal_id env t s \<in> (\<lambda>(t, s). settlement_journal_id env t s) ` set sources"
      using assms(3) by force
    ultimately have "(en_journal_id e, l') = (settlement_journal_id env t s, l)"
      using assms(2) l l' eq unfolding collision_free_def inj_on_def by fastforce
    with free row show False by simp
  qed
qed

text \<open>The database after a posting whose source was unknown.\<close>

lemma post_pair_result:
  assumes ok: "ledger_ok env sources db" "collision_free env sources" "(t, s) \<in> set sources" "\<not> known_source db (t, s)"
    and labels: "fst debit \<in> set posting_labels" "fst credit \<in> set posting_labels" "fst debit \<noteq> fst credit"
  obtains db' a1 a2 where
    "post_pair env pt mm db jt t s ts md debit credit amount c = Inr db'"
    "db_entries db' = db_entries db @
       [journal_entry (settlement_entry_id env) (settlement_journal_id env t s) t s ts c (fst debit, a1, Debit, amount),
        journal_entry (settlement_entry_id env) (settlement_journal_id env t s) t s ts c (fst credit, a2, Credit, amount)]"
    "map (\<lambda>row. (jr_journal_id row, jr_source_type row, jr_source_id row)) (db_journals db')
       = map (\<lambda>row. (jr_journal_id row, jr_source_type row, jr_source_id row)) (db_journals db)
         @ [(settlement_journal_id env t s, t, s)]"
    "db_reservations db' = db_reservations db"
proof -
  let ?j = "settlement_journal_id env t s" and ?e = "settlement_entry_id env"
  obtain a1 db1 where a1: "settlement_account_id env db (snd debit) c pt mm = (a1, db1)" by fastforce
  obtain a2 db2 where a2: "settlement_account_id env db1 (snd credit) c pt mm = (a2, db2)" by fastforce
  note o = account_opened[OF a1] account_opened[OF a2]
  note free = unknown_source_free[OF ok]
  define row where "row = \<lparr>jr_journal_id = ?j, jr_journal_type = jt, jr_source_type = t, jr_source_id = s,
    jr_status = ''PENDING'', jr_created_at = ts, jr_posted_at = None, jr_metadata = md\<rparr>"
  define e1 where "e1 = journal_entry ?e ?j t s ts c (fst debit, a1, Debit, amount)"
  define e2 where "e2 = journal_entry ?e ?j t s ts c (fst credit, a2, Credit, amount)"
  have ids: "en_entry_id e1 = ?e ?j (fst debit)" "en_entry_id e2 = ?e ?j (fst credit)"
    "en_journal_id e1 = ?j" "en_journal_id e2 = ?j" "en_account_id e1 = a1" "en_account_id e2 = a2"
    by (simp_all add: e1_def e2_def journal_entry_def)
  have jin: "?j \<in> (\<lambda>(t, s). settlement_journal_id env t s) ` set sources" using ok(3) by force
  have ne: "?e ?j (fst debit) \<noteq> ?e ?j (fst credit)"
    using ok(2) labels jin unfolding collision_free_def inj_on_def by fastforce
  have "\<not> (\<exists>r \<in> set (db_journals db2). jr_journal_id r = ?j \<or> jr_source_type r = t \<and> jr_source_id r = s)"
    using free(1) ok(4) by (auto simp: o known_source_iff)
  then have cj: "create_journal_in_session db2 ?j jt t s ''PENDING'' ts md = db2\<lparr>db_journals := db_journals db2 @ [row]\<rparr>"
    by (simp add: create_journal_in_session_def row_def)
  have acc: "\<exists>r \<in> set (db_accounts db2). ac_account_id r = a1" "\<exists>r \<in> set (db_accounts db2). ac_account_id r = a2"
    using o by blast+
  have fresh: "\<forall>r \<in> set (db_entries db2). en_entry_id r \<noteq> en_entry_id e1" "\<forall>r \<in> set (db_entries db2). en_entry_id r \<noteq> en_entry_id e2"
    using free(2) labels by (simp_all add: ids o)
  have ap: "append_entries_in_session (db2\<lparr>db_journals := db_journals db2 @ [row]\<rparr>) [e1, e2]
      = Inr (db2\<lparr>db_journals := db_journals db2 @ [row], db_entries := db_entries db2 @ [e1, e2]\<rparr>)"
    using acc fresh ne by (auto simp: insert_entry_def ids row_def)
  let ?db' = "mark_posted_in_session (db2\<lparr>db_journals := db_journals db2 @ [row], db_entries := db_entries db2 @ [e1, e2]\<rparr>) ?j ts"
  have "post_pair env pt mm db jt t s ts md debit credit amount c = Inr ?db'"
    by (simp add: post_pair_def a1 a2 settlement_post_journal_def Let_def cj ap
        del: append_entries_in_session.simps flip: e1_def e2_def)
  moreover have "db_entries ?db' = db_entries db @ [e1, e2]" "db_reservations ?db' = db_reservations db"
    by (simp_all add: mark_posted_in_session_def o)
  moreover have "map (\<lambda>row. (jr_journal_id row, jr_source_type row, jr_source_id row)) (db_journals ?db')
       = map (\<lambda>row. (jr_journal_id row, jr_source_type row, jr_source_id row)) (db_journals db) @ [(?j, t, s)]"
    by (simp add: mark_posted_in_session_def o row_def) (auto simp: update_where_def)
  ultimately show ?thesis using that unfolding e1_def e2_def by blast
qed

text \<open>What the invariant reads of the journals.\<close>

definition journal_keys :: "ledger_db \<Rightarrow> (string \<times> string \<times> string) list" where
  "journal_keys db = map (\<lambda>row. (jr_journal_id row, jr_source_type row, jr_source_id row)) (db_journals db)"

lemma ledger_ok_keys:
  "ledger_ok env sources db \<longleftrightarrow>
     (\<forall>(j, t, s) \<in> set (journal_keys db). (t, s) \<in> set sources \<and> j = settlement_journal_id env t s)
     \<and> (\<forall>e \<in> set (db_entries db). en_journal_id e \<in> fst ` set (journal_keys db)
        \<and> (\<exists>l \<in> set posting_labels. en_entry_id e = settlement_entry_id env (en_journal_id e) l))
     \<and> (\<forall>j c. journal_sum db j c = 0)"
proof -
  have "(\<exists>row \<in> set (db_journals db). jr_journal_id row = j) \<longleftrightarrow> j \<in> fst ` set (journal_keys db)" for j
    by (force simp: journal_keys_def)
  then show ?thesis by (simp add: ledger_ok_def) (simp add: journal_keys_def)
qed

lemma known_source_keys: "known_source db (t, s) \<longleftrightarrow> (t, s) \<in> snd ` set (journal_keys db)"
  by (force simp: known_source_iff journal_keys_def)

lemma post_pair_ok:
  assumes ok: "ledger_ok env sources db" "collision_free env sources" "(t, s) \<in> set sources" "\<not> known_source db (t, s)"
    and labels: "fst debit \<in> set posting_labels" "fst credit \<in> set posting_labels" "fst debit \<noteq> fst credit"
  shows "\<exists>db'. post_pair env pt mm db jt t s ts md debit credit amount c = Inr db' \<and> ledger_ok env sources db'
     \<and> known_source db' (t, s) \<and> (\<forall>src. known_source db src \<longrightarrow> known_source db' src) \<and> db_reservations db' = db_reservations db"
proof (rule post_pair_result[OF ok labels])
  fix db' a1 a2
  let ?j = "settlement_journal_id env t s" and ?e = "settlement_entry_id env"
  assume r: "post_pair env pt mm db jt t s ts md debit credit amount c = Inr db'"
    "db_entries db' = db_entries db @ [journal_entry ?e ?j t s ts c (fst debit, a1, Debit, amount),
        journal_entry ?e ?j t s ts c (fst credit, a2, Credit, amount)]"
    "map (\<lambda>row. (jr_journal_id row, jr_source_type row, jr_source_id row)) (db_journals db')
       = map (\<lambda>row. (jr_journal_id row, jr_source_type row, jr_source_id row)) (db_journals db) @ [(?j, t, s)]"
    "db_reservations db' = db_reservations db"
  have keys: "journal_keys db' = journal_keys db @ [(?j, t, s)]" using r(3) by (simp add: journal_keys_def)
  have "journal_sum db' j c' = 0" for j c'
    using ok(1) by (auto simp: journal_sum_def r(2) journal_entry_def signed_amount_def ledger_ok_def)
  then have "ledger_ok env sources db'"
    using ok(1,3) labels unfolding ledger_ok_keys keys r(2) by (auto simp: journal_entry_def)
  moreover have "known_source db' (t, s)" "\<And>src. known_source db src \<Longrightarrow> known_source db' src"
    by (auto simp: known_source_keys keys)
  ultimately show ?thesis using r(1,4) by blast
qed

section \<open>Posting fills\<close>

definition posting_sources :: "ledger_env \<Rightarrow> fill_event \<Rightarrow> fill_posting list \<Rightarrow> (string \<times> string) list" where
  "posting_sources env fill ps = map (\<lambda>p. (fp_source_type p, fill_source_id env fill p)) ps"

definition labels_ok :: "fill_posting \<Rightarrow> bool" where
  "labels_ok p \<longleftrightarrow> fst (fp_debit p) \<in> set posting_labels \<and> fst (fp_credit p) \<in> set posting_labels
     \<and> fst (fp_debit p) \<noteq> fst (fp_credit p)"

lemma asset_postings_labels: "list_all labels_ok (asset_postings fill projection reserved)"
  by (simp add: asset_postings_def Let_def list.pred_map comp_def labels_ok_def posting_labels_def list.pred_True)

lemma pnl_fee_postings_labels:
  "list_all labels_ok (pnl_postings projection)" "list_all labels_ok (fee_postings fill projection reserved)"
  by (simp_all add: pnl_postings_def fee_postings_def Let_def list.pred_map comp_def labels_ok_def posting_labels_def list.pred_True)

lemma fill_postings_labels: "p \<in> set (fill_postings fill projection reserved) \<Longrightarrow> labels_ok p"
  using asset_postings_labels[of fill projection reserved] pnl_fee_postings_labels(1)[of projection]
    pnl_fee_postings_labels(2)[of fill projection reserved]
  by (auto simp: fill_postings_def list_all_iff)

lemma post_fill_once_ok:
  assumes "ledger_ok env sources db" "collision_free env sources" "labels_ok p"
    and "(fp_source_type p, fill_source_id env fill p) \<in> set sources"
  shows "\<exists>db'. post_fill_once env fill db p = Inr db' \<and> ledger_ok env sources db'
     \<and> known_source db' (fp_source_type p, fill_source_id env fill p)
     \<and> (\<forall>src. known_source db src \<longrightarrow> known_source db' src) \<and> db_reservations db' = db_reservations db"
proof (cases "known_source db (fp_source_type p, fill_source_id env fill p)")
  case True
  then show ?thesis using assms(1) by (simp add: post_fill_once_def known_source_def)
next
  case False
  then have "post_fill_once env fill db p
      = post_pair env (product_type_str (fl_product_type fill)) (margin_mode_str (fl_margin_mode fill)) db
             (fp_journal_type p) (fp_source_type p) (fill_source_id env fill p) (fl_ingestion_timestamp fill)
             (fill_metadata fill) (fp_debit p) (fp_credit p) (fp_amount p) (fp_currency p)"
    by (simp add: post_fill_once_def known_source_def)
  moreover have "fst (fp_debit p) \<in> set posting_labels" "fst (fp_credit p) \<in> set posting_labels"
    "fst (fp_debit p) \<noteq> fst (fp_credit p)" using assms(3) by (simp_all add: labels_ok_def)
  ultimately show ?thesis using post_pair_ok[OF assms(1,2,4) False] by simp
qed

lemma post_all_ok:
  assumes "ledger_ok env sources db" "collision_free env sources" "\<forall>p \<in> set ps. labels_ok p"
    and "set (posting_sources env fill ps) \<subseteq> set sources"
  shows "\<exists>db'. post_all env fill db ps = Inr db' \<and> ledger_ok env sources db'
     \<and> (\<forall>src \<in> set (posting_sources env fill ps). known_source db' src)
     \<and> (\<forall>src. known_source db src \<longrightarrow> known_source db' src) \<and> db_reservations db' = db_reservations db"
  using assms
proof (induction ps arbitrary: db)
  case (Cons p ps)
  let ?src = "(fp_source_type p, fill_source_id env fill p)"
  have "?src \<in> set sources" using Cons.prems(4) by (simp add: posting_sources_def)
  then obtain db1 where db1: "post_fill_once env fill db p = Inr db1" "ledger_ok env sources db1" "known_source db1 ?src"
      "\<forall>src. known_source db src \<longrightarrow> known_source db1 src" "db_reservations db1 = db_reservations db"
    using post_fill_once_ok[OF Cons.prems(1,2), of p fill] Cons.prems(3) by (meson list.set_intros(1))
  obtain db2 where db2: "post_all env fill db1 ps = Inr db2" "ledger_ok env sources db2"
      "\<forall>src \<in> set (posting_sources env fill ps). known_source db2 src"
      "\<forall>src. known_source db1 src \<longrightarrow> known_source db2 src" "db_reservations db2 = db_reservations db1"
    using Cons.IH[OF db1(2) Cons.prems(2)] Cons.prems(3,4) by (auto simp: posting_sources_def)
  have "post_all env fill db (p # ps) = Inr db2" by (simp add: db1(1) db2(1))
  moreover have "\<forall>src \<in> set (posting_sources env fill (p # ps)). known_source db2 src"
    using db1(3) db2(3,4) by (simp add: posting_sources_def)
  moreover have "\<forall>src. known_source db src \<longrightarrow> known_source db2 src" using db1(4) db2(4) by blast
  ultimately show ?case using db2(2,5) db1(5) by (intro exI[of _ db2]) simp
qed (simp add: posting_sources_def)

lemma post_all_known:
  "\<forall>src \<in> set (posting_sources env fill ps). known_source db src \<Longrightarrow> post_all env fill db ps = Inr db"
  by (induction ps) (simp_all add: posting_sources_def post_fill_once_def known_source_def)

text \<open>The journals that posting a fill can need, whether or not its order has a reservation.\<close>

definition fill_sources :: "ledger_env \<Rightarrow> fill_event \<times> fill_settlement_projection \<Rightarrow> (string \<times> string) list" where
  "fill_sources env f = concat (map (\<lambda>reserved. posting_sources env (fst f) (fill_postings (fst f) (snd f) reserved)) [False, True])"

fun post_fills :: "ledger_env \<Rightarrow> bool \<Rightarrow> ledger_db \<Rightarrow> (fill_event \<times> fill_settlement_projection) list \<Rightarrow> string + ledger_db" where
  "post_fills env rs db [] = Inr db"
| "post_fills env rs db (f # fs) = ebind (post_fill_effects_in_session env rs db (fst f) (snd f)) (\<lambda>db'. post_fills env rs db' fs)"

lemma post_fill_ok:
  assumes "ledger_ok env sources db" "collision_free env sources" "set (fill_sources env f) \<subseteq> set sources"
  shows "\<exists>db'. post_fill_effects_in_session env rs db (fst f) (snd f) = Inr db' \<and> ledger_ok env sources db'
     \<and> post_fill_effects_in_session env rs db' (fst f) (snd f) = Inr db'"
proof -
  define reserved where "reserved \<longleftrightarrow> rs \<and> get_by_order_id_in_session db (fl_client_order_id (fst f)) \<noteq> None"
  define ps where "ps = fill_postings (fst f) (snd f) reserved"
  have "set (posting_sources env (fst f) ps) \<subseteq> set sources"
    using assms(3) by (cases reserved) (auto simp: fill_sources_def ps_def)
  moreover have "\<forall>p \<in> set ps. labels_ok p" using fill_postings_labels by (auto simp: ps_def)
  ultimately obtain db' where db': "post_all env (fst f) db ps = Inr db'" "ledger_ok env sources db'"
      "\<forall>src \<in> set (posting_sources env (fst f) ps). known_source db' src" "db_reservations db' = db_reservations db"
    using post_all_ok[OF assms(1,2)] by blast
  have "post_fill_effects_in_session env rs db (fst f) (snd f) = post_all env (fst f) db ps"
    by (simp add: post_fill_effects_in_session_def ps_def reserved_def)
  moreover have "post_fill_effects_in_session env rs db' (fst f) (snd f) = post_all env (fst f) db' ps"
    by (simp add: post_fill_effects_in_session_def ps_def reserved_def get_by_order_id_in_session_def db'(4))
  ultimately show ?thesis using db' post_all_known[OF db'(3)] by simp
qed

lemma ledger_ok_balanced: "ledger_ok env sources db \<Longrightarrow> journal_sum db j c = 0"
  by (simp add: ledger_ok_def)

text \<open>
  C38. The ledger is double entry: posting any sequence of fills, in any order and with repetitions,
  succeeds and leaves every journal balanced in every currency, as long as the digests do not collide
  on the sources of these fills.
\<close>

theorem posted_ledger_balanced:
  assumes "ledger_ok env sources db" "collision_free env sources"
    and "\<forall>f \<in> set fs. set (fill_sources env f) \<subseteq> set sources"
  shows "\<exists>db'. post_fills env rs db fs = Inr db' \<and> ledger_ok env sources db' \<and> (\<forall>j c. journal_sum db' j c = 0)"
  using assms
proof (induction fs arbitrary: db)
  case Nil
  then show ?case using ledger_ok_balanced by simp
next
  case (Cons f fs)
  then obtain db1 where "post_fill_effects_in_session env rs db (fst f) (snd f) = Inr db1" "ledger_ok env sources db1"
    using post_fill_ok[OF Cons.prems(1,2), of f rs] by auto
  with Cons show ?case by simp
qed

text \<open>
  Posting a fill is idempotent: once the effects of a fill are posted, posting them again (a
  redelivery, a retry after a lost acknowledgement) leaves the whole ledger as it is.
\<close>

theorem fill_posting_idempotent:
  assumes "ledger_ok env sources db" "collision_free env sources" "set (fill_sources env (fill, projection)) \<subseteq> set sources"
    and "post_fill_effects_in_session env rs db fill projection = Inr db'"
  shows "post_fill_effects_in_session env rs db' fill projection = Inr db'"
  using post_fill_ok[OF assms(1-3), of rs] assms(4) by simp

section \<open>The mirrored reservation\<close>

lemma account_keeps_reservations [simp]:
  "db_reservations (snd (ledger_account_id env cfg db ty c pt mm ts)) = db_reservations db"
  "db_reservations (snd (reserve_account_id env cfg db ob)) = db_reservations db"
  by (simp_all add: reserve_account_id_def ledger_account_id_def get_or_create_account_in_session_def Let_def split: option.split)

lemma append_keeps_reservations: "append_entries_in_session db es = Inr db' \<Longrightarrow> db_reservations db' = db_reservations db"
  by (induction es arbitrary: db) (auto simp: ebind_eq_Inr_iff insert_entry_def split: if_splits)

lemma journal_keeps_reservations:
  "mirror_post_journal env cfg db jt t s ts md es c = Inr x \<Longrightarrow> db_reservations (snd x) = db_reservations db"
  by (auto simp: mirror_post_journal_def Let_def ebind_eq_Inr_iff create_journal_in_session_def mark_posted_in_session_def
      dest!: append_keeps_reservations split: if_splits)

lemma hold_keeps_reservations: "post_reservation_hold env cfg db ob amount = Inr db' \<Longrightarrow> db_reservations db' = db_reservations db"
  and release_keeps_reservations: "post_reservation_release env cfg db ob amount = Inr db' \<Longrightarrow> db_reservations db' = db_reservations db"
  by (auto simp: post_reservation_hold_def post_reservation_release_def Let_def ebind_eq_Inr_iff case_prod_beta
      split: if_splits dest!: journal_keeps_reservations)

lemma fee_keeps_reservations:
  assumes "post_reservation_backed_spot_fee_attribution env cfg db ob fill = Inr db'"
  shows "db_reservations db' = db_reservations db"
proof (cases "fee_attribution_applies ob fill")
  case False
  with assms show ?thesis by (simp add: post_reservation_backed_spot_fee_attribution_def)
next
  case True
  with assms obtain delta where d: "fee_delta_in_reserve ob fill = Inr delta"
    by (auto simp: post_reservation_backed_spot_fee_attribution_def Let_def ebind_eq_Inr_iff case_prod_beta)
  show ?thesis
  proof (cases delta)
    case None
    with True d assms show ?thesis
      by (auto simp: post_reservation_backed_spot_fee_attribution_def Let_def case_prod_beta)
  next
    case (Some fee)
    from True d Some assms show ?thesis
      unfolding post_reservation_backed_spot_fee_attribution_def Let_def case_prod_beta
      by (auto simp: ebind_eq_Inr_iff dest!: journal_keeps_reservations)
  qed
qed

lemma settlement_row_keeps_reservations:
  "create_settlement_in_session db sid f oid st ts = Inr db' \<Longrightarrow> db_reservations db' = db_reservations db"
  "attach_journal_in_session db sid j ts = Inr db' \<Longrightarrow> db_reservations db' = db_reservations db"
  by (auto simp: create_settlement_in_session_def attach_journal_in_session_def split: if_splits)

lemma settlement_keeps_reservations:
  "post_fill_settlement env cfg db ob fill amount = Inr db' \<Longrightarrow> db_reservations db' = db_reservations db"
  unfolding post_fill_settlement_def Let_def case_prod_beta
  by (auto simp: ebind_eq_Inr_iff split: if_splits option.splits
      dest!: journal_keeps_reservations settlement_row_keeps_reservations fee_keeps_reservations)

text \<open>With unique ids and orders, looking a row up by either finds the same row.\<close>

lemma by_order_iff:
  assumes "reservations_ok db"
  shows "get_by_order_id_in_session db oid = Some row \<longleftrightarrow> row \<in> set (db_reservations db) \<and> rv_order_id row = oid"
  using assms unfolding get_by_order_id_in_session_def reservations_ok_def by (intro find_key) simp

lemma by_id:
  assumes "reservations_ok db" "row \<in> set (db_reservations db)"
  shows "get_reservation db (rv_reservation_id row) = Some row"
  using assms unfolding get_reservation_def reservations_ok_def by (simp add: find_key)

lemma in_replaced: "get_reservation db (rv_reservation_id row') = Some row \<Longrightarrow> row' \<in> set (db_reservations (replace_reservation db row'))"
  using find_Some unfolding get_reservation_def replace_reservation_def update_where_def by force

text \<open>The row of an order with the given id and amounts, in a consistent table.\<close>

definition mirrored :: "ledger_db \<Rightarrow> string \<Rightarrow> string \<Rightarrow> decimal \<Rightarrow> decimal \<Rightarrow> bool" where
  "mirrored db oid rid consumed released \<longleftrightarrow> reservations_ok db \<and>
     (\<exists>row. get_by_order_id_in_session db oid = Some row \<and> rv_reservation_id row = rid
        \<and> rv_consumed_amount row = consumed \<and> rv_released_amount row = released)"

lemma mirrored_row:
  assumes "mirrored db oid rid c r"
  obtains row where "get_reservation db rid = Some row" "reservation_ok row" "rv_order_id row = oid" "rv_reservation_id row = rid"
    "rv_consumed_amount row = c" "rv_released_amount row = r" "row \<in> set (db_reservations db)" "reservations_ok db"
proof -
  obtain row where row: "get_by_order_id_in_session db oid = Some row" "rv_reservation_id row = rid"
      "rv_consumed_amount row = c" "rv_released_amount row = r" and ok: "reservations_ok db"
    using assms unfolding mirrored_def by blast
  then have m: "row \<in> set (db_reservations db)" "rv_order_id row = oid" by (simp_all add: by_order_iff)
  then have "reservation_ok row" using ok by (simp add: reservations_ok_def)
  with that row m ok by_id[OF ok m(1)] show ?thesis by simp
qed

lemma mirrored_same: "db_reservations db' = db_reservations db \<Longrightarrow> mirrored db oid rid c r \<Longrightarrow> mirrored db' oid rid c r"
  by (simp add: mirrored_def reservations_ok_def get_by_order_id_in_session_def)

lemma replaced_mirrored:
  assumes "reservations_ok db" "get_reservation db (rv_reservation_id row) = Some row" "reservation_ok row'" "grows row row'"
  shows "mirrored (replace_reservation db row') (rv_order_id row) (rv_reservation_id row) (rv_consumed_amount row') (rv_released_amount row')"
    "get_by_order_id_in_session (replace_reservation db row') (rv_order_id row) = Some row'"
proof -
  have ok: "reservations_ok (replace_reservation db row')" using replace_reservation_ok[OF assms] by simp
  have same: "rv_reservation_id row' = rv_reservation_id row" "rv_order_id row' = rv_order_id row"
    using assms(4) by (simp_all add: grows_def)
  then show g: "get_by_order_id_in_session (replace_reservation db row') (rv_order_id row) = Some row'"
    using in_replaced[of db row' row] assms(2) by (simp add: by_order_iff[OF ok])
  show "mirrored (replace_reservation db row') (rv_order_id row) (rv_reservation_id row) (rv_consumed_amount row') (rv_released_amount row')"
    using ok g same by (simp add: mirrored_def)
qed

lemma consume_mirrored:
  assumes "mirrored db oid rid c r" "0 \<le> delta" "consume_in_session str db rid delta ts = Inr db'"
  shows "mirrored db' oid rid (dadd c delta) r"
proof (rule mirrored_row[OF assms(1)])
  fix row assume row: "get_reservation db rid = Some row" "reservation_ok row" "rv_order_id row = oid" "rv_reservation_id row = rid"
    "rv_consumed_amount row = c" "rv_released_amount row = r" "reservations_ok db"
  obtain row' where row': "consume_row str row delta ts = Inr row'" "db' = replace_reservation db row'"
    using assms(2,3) row(1) by (auto simp: consume_in_session_def ebind_eq_Inr_iff split: if_splits)
  have "rv_consumed_amount row' = dadd c delta" "rv_released_amount row' = r"
    using row'(1) row(5,6) by (auto simp: consume_row_def Let_def split: if_splits)
  then show ?thesis
    using replaced_mirrored(1)[OF row(7) _ consume_row_ok[OF row'(1) row(2) assms(2)]] row(1,3,4) row'(2) by simp
qed

lemma release_mirrored:
  assumes "mirrored db oid rid c r" "0 \<le> delta" "release_in_session str db rid delta state ts = Inr db'"
  shows "mirrored db' oid rid c (dadd r delta)" "\<exists>row. get_by_order_id_in_session db' oid = Some row \<and> rv_state row = state"
proof -
  obtain row where row: "get_reservation db rid = Some row" "reservation_ok row" "rv_order_id row = oid" "rv_reservation_id row = rid"
    "rv_consumed_amount row = c" "rv_released_amount row = r" "reservations_ok db" using mirrored_row[OF assms(1)] by metis
  obtain row' where row': "release_row str row delta state ts = Inr row'" "db' = replace_reservation db row'"
    using assms(2,3) row(1) by (auto simp: release_in_session_def ebind_eq_Inr_iff split: if_splits)
  have v: "rv_consumed_amount row' = c" "rv_released_amount row' = dadd r delta" "rv_state row' = state"
    using row'(1) row(5,6) by (auto simp: release_row_def Let_def split: if_splits)
  note rep = replaced_mirrored[OF row(7) _ release_row_ok[OF row'(1) row(2) assms(2)]]
  show "mirrored db' oid rid c (dadd r delta)" using rep(1) v row(1,3,4) row'(2) by simp
  show "\<exists>row. get_by_order_id_in_session db' oid = Some row \<and> rv_state row = state" using rep(2) v row(1,3,4) row'(2) by simp
qed

definition stepped :: "decimal \<Rightarrow> decimal \<Rightarrow> decimal" where
  "stepped amount delta = (if mirror_EPSILON < delta then dadd amount delta else amount)"

lemma consumption_mirrored:
  assumes "mirrored db oid rid c r" "0 \<le> delta" "mirror_consumption env cfg db ob fill rid delta = Inr db'"
  shows "mirrored db' oid rid (stepped c delta) r"
proof (cases "mirror_EPSILON < delta")
  case False
  with assms show ?thesis by (simp add: mirror_consumption_def stepped_def)
next
  case True
  obtain db1 where c1: "consume_in_session (lg_str env) db rid delta (update_ts env ob) = Inr db1"
    and k: "db_reservations db' = db_reservations db1"
    using assms(3) True settlement_keeps_reservations
    by (auto simp: mirror_consumption_def ebind_eq_Inr_iff split: option.splits)
  from mirrored_same[OF k consume_mirrored[OF assms(1,2) c1]] True show ?thesis by (simp add: stepped_def)
qed

lemma release_step_mirrored:
  assumes "mirrored db oid rid c r" "0 \<le> delta" "mirror_release env cfg db ob rid delta = Inr db'"
  shows "mirrored db' oid rid c (stepped r delta)"
proof (cases "mirror_EPSILON < delta")
  case False
  with assms show ?thesis by (simp add: mirror_release_def stepped_def)
next
  case True
  obtain db1 where c1: "release_in_session (lg_str env) db rid delta (obligation_status_str (ob_status ob)) (update_ts env ob) = Inr db1"
    and k: "db_reservations db' = db_reservations db1"
    using assms(3) True release_keeps_reservations by (auto simp: mirror_release_def ebind_eq_Inr_iff)
  from mirrored_same[OF k release_mirrored(1)[OF assms(1,2) c1]] True show ?thesis by (simp add: stepped_def)
qed

lemma state_mirrored:
  assumes "mirrored db (ob_client_order_id ob) rid c r" "mirror_state env db ob = Inr db'"
  shows "mirrored db' (ob_client_order_id ob) rid c r"
    "\<exists>row. get_by_order_id_in_session db' (ob_client_order_id ob) = Some row \<and> rv_state row = obligation_status_str (ob_status ob)"
proof -
  let ?oid = "ob_client_order_id ob" and ?st = "obligation_status_str (ob_status ob)"
  obtain row where row: "get_by_order_id_in_session db ?oid = Some row" "rv_reservation_id row = rid" "reservation_ok row"
      "rv_consumed_amount row = c" "rv_released_amount row = r"
    using assms(1) by_order_iff[of db] unfolding mirrored_def reservations_ok_def by blast
  have "dadd r 0 = r" using row(3,5) by (simp add: reservation_ok_def)
  have "mirrored db' ?oid rid c r \<and> (\<exists>row. get_by_order_id_in_session db' ?oid = Some row \<and> rv_state row = ?st)"
  proof (cases "rv_state row = ?st")
    case True
    with assms row(1) show ?thesis by (simp add: mirror_state_def)
  next
    case False
    with assms(2) row(1,2) have "release_in_session (lg_str env) db rid 0 ?st (update_ts env ob) = Inr db'"
      by (simp add: mirror_state_def)
    from release_mirrored[OF assms(1) _ this] \<open>dadd r 0 = r\<close> show ?thesis by simp
  qed
  then show "mirrored db' ?oid rid c r" "\<exists>row. get_by_order_id_in_session db' ?oid = Some row \<and> rv_state row = ?st" by blast+
qed

text \<open>What the mirror knows of an obligation before a synchronisation.\<close>

definition shadow_amounts :: "ledger_db \<Rightarrow> order_obligation \<Rightarrow> decimal \<times> decimal" where
  "shadow_amounts db ob = (case get_by_order_id_in_session db (ob_client_order_id ob) of
     None \<Rightarrow> (0, 0) | Some row \<Rightarrow> (rv_consumed_amount row, rv_released_amount row))"

lemma ensure_mirrored:
  assumes "reservations_ok db" "0 \<le> ob_reserved_amount ob"
    and "ensure_reservation env cfg db ob aid = Inr (Some row, db')"
  shows "mirrored db' (ob_client_order_id ob) (rv_reservation_id row) (fst (shadow_amounts db ob)) (snd (shadow_amounts db ob))"
    "rv_consumed_amount row = fst (shadow_amounts db ob)" "rv_released_amount row = snd (shadow_amounts db ob)"
proof -
  let ?oid = "ob_client_order_id ob"
  have "mirrored db' ?oid (rv_reservation_id row) (fst (shadow_amounts db ob)) (snd (shadow_amounts db ob))
    \<and> rv_consumed_amount row = fst (shadow_amounts db ob) \<and> rv_released_amount row = snd (shadow_amounts db ob)"
  proof (cases "get_by_order_id_in_session db ?oid")
    case (Some row0)
    with assms show ?thesis by (simp add: ensure_reservation_def mirrored_def shadow_amounts_def)
  next
    case None
    then obtain db1 where cr: "create_reservation_in_session db (ob_obligation_id ob) ?oid aid (ob_reserved_amount ob) ''ACTIVE''
        (ob_created_at ob) = Inr db1" and row: "get_by_order_id_in_session db1 ?oid = Some row"
      and k: "db_reservations db' = db_reservations db1"
      using assms(3) hold_keeps_reservations
      by (auto simp: ensure_reservation_def ebind_eq_Inr_iff split: option.splits if_splits)
    have ok1: "reservations_ok db1"
      using reservation_step_ok[OF reservation_step.create[OF assms(2) cr] assms(1)] by simp
    have "rv_consumed_amount row = 0 \<and> rv_released_amount row = 0"
      using cr row None
      by (auto simp: create_reservation_in_session_def get_by_order_id_in_session_def find_append split: if_splits)
    then have "mirrored db1 ?oid (rv_reservation_id row) 0 0" using ok1 row by (simp add: mirrored_def)
    with mirrored_same[OF k] \<open>rv_consumed_amount row = 0 \<and> rv_released_amount row = 0\<close> None show ?thesis
      by (simp add: shadow_amounts_def)
  qed
  then show "mirrored db' ?oid (rv_reservation_id row) (fst (shadow_amounts db ob)) (snd (shadow_amounts db ob))"
    "rv_consumed_amount row = fst (shadow_amounts db ob)" "rv_released_amount row = snd (shadow_amounts db ob)" by blast+
qed

lemma ensure_found:
  assumes "get_by_order_id_in_session db (ob_client_order_id ob) \<noteq> None \<or> get_reservation db (ob_obligation_id ob) = None"
    and "ensure_reservation env cfg db ob aid = Inr (shadow, db')"
  shows "shadow \<noteq> None"
proof (cases "get_by_order_id_in_session db (ob_client_order_id ob)")
  case None
  with assms(1) have "get_reservation db (ob_obligation_id ob) = None" by simp
  with None assms(2) show ?thesis
    by (auto simp: ensure_reservation_def ebind_eq_Inr_iff create_reservation_in_session_def get_by_order_id_in_session_def
        find_append split: if_splits option.splits)
next
  case (Some row)
  with assms(2) show ?thesis by (simp add: ensure_reservation_def) (metis option.distinct(1))
qed

text \<open>One step of the mirror towards an amount leaves at most the tolerance.\<close>

lemma stepped_close:
  assumes "amount \<le> target" "exact28 target" "exact28 (target - amount)"
  shows "0 \<le> target - stepped amount (max (dsub target amount) 0)" "target - stepped amount (max (dsub target amount) 0) \<le> mirror_EPSILON"
proof -
  have d: "max (dsub target amount) 0 = target - amount" using assms by (simp add: exact_ops)
  have "dadd amount (target - amount) = target" using assms(2) by (simp add: dadd_def exact28_def)
  with d assms(1) show "0 \<le> target - stepped amount (max (dsub target amount) 0)"
    "target - stepped amount (max (dsub target amount) 0) \<le> mirror_EPSILON"
    by (auto simp: stepped_def mirror_EPSILON_def)
qed

text \<open>
  C39. The mirror tracks the obligation: a synchronisation that succeeds leaves exactly one reservation
  row for the order, in the state of the obligation, whose consumed and released amounts lag behind the
  obligation's by at most \<open>10\<^sup>-\<^sup>1\<^sup>2\<close>, and the table of reservations keeps its invariant.
\<close>

theorem mirror_tracks_obligation:
  assumes "reservations_ok db" "0 \<le> ob_reserved_amount ob" "sync_in_session env cfg db ob fill = Inr db'"
    and fresh: "get_by_order_id_in_session db (ob_client_order_id ob) \<noteq> None \<or> get_reservation db (ob_obligation_id ob) = None"
    and consumed: "fst (shadow_amounts db ob) \<le> ob_consumed_amount ob" "exact28 (ob_consumed_amount ob)"
      "exact28 (ob_consumed_amount ob - fst (shadow_amounts db ob))"
    and released: "snd (shadow_amounts db ob) \<le> ob_released_amount ob" "exact28 (ob_released_amount ob)"
      "exact28 (ob_released_amount ob - snd (shadow_amounts db ob))"
  shows "reservations_ok db' \<and> (\<exists>row. get_by_order_id_in_session db' (ob_client_order_id ob) = Some row
    \<and> rv_state row = obligation_status_str (ob_status ob)
    \<and> 0 \<le> ob_consumed_amount ob - rv_consumed_amount row \<and> ob_consumed_amount ob - rv_consumed_amount row \<le> mirror_EPSILON
    \<and> 0 \<le> ob_released_amount ob - rv_released_amount row \<and> ob_released_amount ob - rv_released_amount row \<le> mirror_EPSILON)"
proof -
  let ?oid = "ob_client_order_id ob"
  obtain aid db0 where a: "reserve_account_id env cfg db ob = (aid, db0)" by fastforce
  have k: "db_reservations db0 = db_reservations db" using account_keeps_reservations(2)[of env cfg db ob] a by simp
  then have db0: "reservations_ok db0" "shadow_amounts db0 ob = shadow_amounts db ob"
    "get_by_order_id_in_session db0 ?oid \<noteq> None \<or> get_reservation db0 (ob_obligation_id ob) = None"
    using assms(1) fresh
    by (simp_all add: reservations_ok_def shadow_amounts_def get_by_order_id_in_session_def get_reservation_def)
  obtain shadow db1 where e1: "ensure_reservation env cfg db0 ob aid = Inr (shadow, db1)"
    using assms(3) by (auto simp: sync_in_session_def a ebind_eq_Inr_iff)
  with ensure_found[OF db0(3) e1] obtain row where e: "ensure_reservation env cfg db0 ob aid = Inr (Some row, db1)" by auto
  note en = ensure_mirrored[OF db0(1) assms(2) e, unfolded db0(2)]
  define dc where "dc = max (dsub (ob_consumed_amount ob) (fst (shadow_amounts db ob))) 0"
  define dr where "dr = max (dsub (ob_released_amount ob) (snd (shadow_amounts db ob))) 0"
  obtain db2 db3 where s: "mirror_consumption env cfg db1 ob fill (rv_reservation_id row) dc = Inr db2"
      "mirror_release env cfg db2 ob (rv_reservation_id row) dr = Inr db3" "mirror_state env db3 ob = Inr db'"
    using assms(3) by (auto simp: sync_in_session_def a e ebind_eq_Inr_iff Let_def dc_def dr_def en(2,3))
  have nn: "0 \<le> dc" "0 \<le> dr" by (simp_all add: dc_def dr_def)
  note m = state_mirrored[OF release_step_mirrored[OF consumption_mirrored[OF en(1) nn(1) s(1)] nn(2) s(2)] s(3)]
  note c = stepped_close[OF consumed, folded dc_def] and r = stepped_close[OF released, folded dr_def]
  from m obtain row' where "get_by_order_id_in_session db' ?oid = Some row'" "rv_state row' = obligation_status_str (ob_status ob)"
      "rv_consumed_amount row' = stepped (fst (shadow_amounts db ob)) dc" "rv_released_amount row' = stepped (snd (shadow_amounts db ob)) dr"
    and "reservations_ok db'" unfolding mirrored_def by auto
  with c r show ?thesis by auto
qed

text \<open>
  The opening balance comes back: on an empty ledger the opening balance posts without error,
  the available balances of the scope are then exactly that amount, and ensuring it again changes
  nothing. Fresh account ids and two distinct entry ids are all it takes.
\<close>

theorem opening_balance_available:
  assumes "db_accounts db = []" "db_journals db = []" "db_entries db = []"
    and "\<And>ids. lg_new_id env ids \<notin> set ids" "mirror_EPSILON < amount" "exact28 amount"
    and "\<And>j. settlement_entry_id env j ''available'' \<noteq> settlement_entry_id env j ''opening''"
  shows "\<exists>db'. ensure_initial_balance env db c amount pt mm = Inr db' \<and> available_balances_in_session db' pt mm = [(c, amount)]
    \<and> ensure_initial_balance env db' c amount pt mm = Inr db'"
proof -
  define s where "s = settlement_stable_id env [''bootstrap'', pt, mm, c]"
  define a1 where "a1 = lg_new_id env []"
  define a2 where "a2 = lg_new_id env [a1]"
  have a: "a1 \<noteq> a2" using assms(4)[of "[a1]"] by (simp add: a2_def)
  have pos: "0 < amount" using assms(5) by (simp add: mirror_EPSILON_def)
  define db' where "db' = (case ensure_initial_balance env db c amount pt mm of Inr x \<Rightarrow> x | Inl _ \<Rightarrow> db)"
  have post: "ensure_initial_balance env db c amount pt mm = Inr db'"
    and acc: "db_accounts db' = [\<lparr>ac_account_id = a1, ac_account_type = ''cash_available'', ac_currency = c, ac_product_type = pt,
        ac_margin_mode = mm, ac_symbol = None, ac_created_at = lg_now env\<rparr>,
      \<lparr>ac_account_id = a2, ac_account_type = ''opening_balance'', ac_currency = c, ac_product_type = pt,
        ac_margin_mode = mm, ac_symbol = None, ac_created_at = lg_now env\<rparr>]"
    and en: "map (\<lambda>e. (en_account_id e, en_direction e, en_amount e)) (db_entries db') = [(a1, Debit, amount), (a2, Credit, amount)]"
    and src: "get_by_source_in_session db' ''opening_balance'' s \<noteq> None"
    using assms(1-3,5,7) a
    by (simp_all add: db'_def ensure_initial_balance_def Let_def get_by_source_in_session_def post_pair_def settlement_account_id_def
        get_or_create_account_in_session_def find_account_def settlement_post_journal_def create_journal_in_session_def
        journal_entry_def insert_entry_def mark_posted_in_session_def update_where_def a1_def a2_def s_def)
  have "filter (\<lambda>e. en_account_id e = a1) (db_entries db') = take 1 (db_entries db')"
    "map (\<lambda>e. (en_account_id e, en_direction e, en_amount e)) (take 1 (db_entries db')) = [(a1, Debit, amount)]"
    using en a by (auto simp: map_eq_Cons_conv)
  then have "balance_by_account_in_session db' a1 = amount"
    using assms(6) by (auto simp: balance_by_account_in_session_def map_eq_Cons_conv)
  then have "available_balances_in_session db' pt mm = [(c, amount)]"
    using assms(5,6) pos by (simp add: available_balances_in_session_def list_accounts_in_session_def acc dict_get_def exact_ops)
  moreover have "ensure_initial_balance env db' c amount pt mm = Inr db'"
    using src by (simp add: ensure_initial_balance_def Let_def s_def)
  ultimately show ?thesis using post by blast
qed

section \<open>Witnesses\<close>

definition example_lenv :: ledger_env where
  "example_lenv = \<lparr>lg_sha1 = rev, lg_sha256 = rev, lg_format = (\<lambda>_. ''1''), lg_str = (\<lambda>_. ''1''),
     lg_new_id = (\<lambda>ids. CHR ''a'' # concat ids), lg_now = Aware 0 0\<rparr>"

definition example_cfg :: mirror_config where
  "example_cfg = \<lparr>mc_session_factory = True, mc_accounts = True, mc_journals = True, mc_settlements = True\<rparr>"

definition example_obligation :: order_obligation where
  "example_obligation = (new_order_obligation (Aware 0 0) ''obl'' ''cid'' ''dec'' ''int'' ''BTC-USDT'' Buy ''USDT'' 100)
     \<lparr>ob_consumed_amount := 60, ob_released_amount := 40, ob_status := OBL_CANCELED\<rparr>"

lemma example_obligation_parts:
  "ob_client_order_id example_obligation = ''cid''" "ob_obligation_id example_obligation = ''obl''"
  "ob_reserved_amount example_obligation = 100" "ob_consumed_amount example_obligation = 60"
  "ob_released_amount example_obligation = 40" "ob_status example_obligation = OBL_CANCELED"
  "ob_created_at example_obligation = Aware 0 0" "ob_reserve_currency example_obligation = ''USDT''"
  "ob_product_type example_obligation = Spot" "ob_margin_mode example_obligation = Cash"
  "ob_last_update_ts example_obligation = None"
  by (simp_all add: example_obligation_def new_order_obligation_def)

abbreviation example_mirror :: ledger_db where
  "example_mirror \<equiv> example_reserved (example_reservation 60 0 ''PARTIALLY_CONSUMED'')"

lemma example_mirror_row:
  "get_by_order_id_in_session example_mirror ''cid'' = Some (example_reservation 60 0 ''PARTIALLY_CONSUMED'')"
  "rv_consumed_amount (example_reservation c r st) = c" "rv_released_amount (example_reservation c r st) = r"
  "rv_reservation_id (example_reservation c r st) = ''obl''" "rv_state (example_reservation c r st) = st"
  by (simp_all add: get_by_order_id_in_session_def example_reserved_def example_reservation_def)

lemma example_released:
  "release_in_session str example_mirror ''obl'' 40 state (Aware 0 0) = Inr (example_reserved (example_reservation 60 40 state))"
  by (simp add: release_in_session_def get_reservation_def release_row_def example_reserved_def replace_reservation_def
      update_where_def example_ledger_def example_reservation_def exact_eps_sum exact_ops)

lemma example_release_posts:
  "\<exists>db'. post_reservation_release example_lenv example_cfg (example_reserved (example_reservation 60 40 ''CANCELED'')) example_obligation 40
     = Inr db'"
  by (simp add: post_reservation_release_def mirror_EPSILON_def ledger_account_id_def reserve_account_id_def example_cfg_def
      get_or_create_account_in_session_def find_account_def example_reserved_def example_ledger_def example_obligation_parts
      example_lenv_def mirror_post_journal_def mirror_stable_id_def create_journal_in_session_def Let_def journal_entry_def
      insert_entry_def)

lemma example_now: "lg_now example_lenv = Aware 0 0"
  by (simp add: example_lenv_def)

lemma example_syncs: "\<exists>db'. sync_in_session example_lenv example_cfg example_mirror example_obligation None = Inr db'"
proof -
  have a: "reserve_account_id example_lenv example_cfg example_mirror example_obligation = (''lacc_1'', example_mirror)"
    by (simp add: reserve_account_id_def ledger_account_id_def example_cfg_def get_or_create_account_in_session_def
        find_account_def example_reserved_def example_ledger_def example_obligation_parts)
  obtain db1 where p: "post_reservation_release example_lenv example_cfg (example_reserved (example_reservation 60 40 ''CANCELED''))
      example_obligation 40 = Inr db1" using example_release_posts by blast
  have "get_by_order_id_in_session db1 ''cid'' = Some (example_reservation 60 40 ''CANCELED'')"
    using release_keeps_reservations[OF p]
    by (simp add: get_by_order_id_in_session_def example_reserved_def example_reservation_def)
  then show ?thesis
    by (simp add: sync_in_session_def a ensure_reservation_def example_obligation_parts example_mirror_row Let_def
        mirror_consumption_def mirror_release_def mirror_state_def mirror_EPSILON_def exact_ops update_ts_def example_now
        example_released p)
qed

theorem mirror_tracks_obligation_witness:
  "\<exists>db' row. sync_in_session example_lenv example_cfg example_mirror example_obligation None = Inr db'
     \<and> get_by_order_id_in_session db' ''cid'' = Some row \<and> rv_state row = ''CANCELED'' \<and> 40 - rv_released_amount row \<le> 1 / 10 ^ 12"
proof -
  obtain db' where s: "sync_in_session example_lenv example_cfg example_mirror example_obligation None = Inr db'"
    using example_syncs by blast
  have ok: "reservations_ok example_mirror"
    by (simp add: reservations_ok_def example_reserved_def example_ledger_def example_reservation_def reservation_ok_def exact_eps_sum)
  have sh: "shadow_amounts example_mirror example_obligation = (60, 0)"
    by (simp add: shadow_amounts_def example_mirror_row example_obligation_parts)
  have "\<exists>row. get_by_order_id_in_session db' ''cid'' = Some row \<and> rv_state row = ''CANCELED'' \<and> 40 - rv_released_amount row \<le> 1 / 10 ^ 12"
    using mirror_tracks_obligation[OF ok _ s]
    by (auto simp: example_obligation_parts sh example_mirror_row mirror_EPSILON_def)
  with s show ?thesis by blast
qed

definition example_projection :: fill_settlement_projection where
  "example_projection = \<lparr>fsp_base_currency = Some ''BTC'', fsp_quote_currency = Some ''USDT'', fsp_starting_quantity = 0,
     fsp_ending_quantity = 1, fsp_realized_pnl_delta = 0, fsp_fee_delta = 0\<rparr>"

definition example_sources :: "(string \<times> string) list" where
  "example_sources = fill_sources example_lenv (example_fill ''f1'' Buy 1 90, example_projection)"

lemma example_collision_free: "collision_free example_lenv example_sources"
proof -
  have "distinct (map (\<lambda>(t, s). settlement_journal_id example_lenv t s) (remdups example_sources))"
    "distinct (map (\<lambda>(j, l). settlement_entry_id example_lenv j l)
       (List.product (map (\<lambda>(t, s). settlement_journal_id example_lenv t s) (remdups example_sources)) posting_labels))"
    by code_simp+
  then show ?thesis unfolding collision_free_def by (simp add: distinct_map)
qed

lemma example_ledger_ok: "ledger_ok example_lenv example_sources example_ledger"
  by (simp add: ledger_ok_def example_ledger_def journal_sum_def)

theorem posted_ledger_balanced_witness:
  "\<exists>db'. post_fills example_lenv True example_ledger
       [(example_fill ''f1'' Buy 1 90, example_projection), (example_fill ''f1'' Buy 1 90, example_projection)] = Inr db'
     \<and> (\<forall>j c. journal_sum db' j c = 0)"
  using posted_ledger_balanced[OF example_ledger_ok example_collision_free,
      of "[(example_fill ''f1'' Buy 1 90, example_projection), (example_fill ''f1'' Buy 1 90, example_projection)]" True]
  by (auto simp: example_sources_def)

theorem fill_posting_idempotent_witness:
  "\<exists>db'. post_fill_effects_in_session example_lenv True example_ledger (example_fill ''f1'' Buy 1 90) example_projection = Inr db'
     \<and> post_fill_effects_in_session example_lenv True db' (example_fill ''f1'' Buy 1 90) example_projection = Inr db'"
proof -
  have s: "set (fill_sources example_lenv (example_fill ''f1'' Buy 1 90, example_projection)) \<subseteq> set example_sources"
    by (simp add: example_sources_def)
  obtain db' where db': "post_fill_effects_in_session example_lenv True example_ledger (example_fill ''f1'' Buy 1 90) example_projection = Inr db'"
    using post_fill_ok[OF example_ledger_ok example_collision_free s, of True] by auto
  with fill_posting_idempotent[OF example_ledger_ok example_collision_free s db'] show ?thesis by blast
qed

lemma concat_longer: "x \<in> set xs \<Longrightarrow> length x \<le> length (concat xs)"
  by (induction xs) auto

theorem opening_balance_available_witness:
  "\<exists>db'. ensure_initial_balance example_lenv (example_ledger\<lparr>db_accounts := []\<rparr>) ''USDT'' 1000 ''spot'' ''cash'' = Inr db'
     \<and> available_balances_in_session db' ''spot'' ''cash'' = [(''USDT'', 1000)]"
proof -
  let ?db = "example_ledger\<lparr>db_accounts := []\<rparr>"
  have f: "lg_new_id example_lenv ids \<notin> set ids" for ids
    using concat_longer[of "CHR ''a'' # concat ids" ids] by (auto simp: example_lenv_def)
  have e: "settlement_entry_id example_lenv j ''available'' \<noteq> settlement_entry_id example_lenv j ''opening''" for j
    by (simp add: settlement_entry_id_def settlement_stable_id_def example_lenv_def)
  have db: "db_accounts ?db = []" "db_journals ?db = []" "db_entries ?db = []" by (simp_all add: example_ledger_def)
  have am: "mirror_EPSILON < 1000" "exact28 1000" by (simp_all add: mirror_EPSILON_def)
  show ?thesis using opening_balance_available[OF db f am e, of "''USDT''" "''spot''" "''cash''"] by blast
qed

end
