(* ===== verification/Coroutine.thy ===== *)
theory Coroutine
  imports Prelude
begin

text \<open>
  Asynchronous Python code as data.  A coroutine of one event loop is a tree: it reads and writes
  the object's attributes (\<open>Get\<close>, \<open>Put\<close>), asks the clock or the id generator (\<open>Clock\<close>, \<open>Fresh\<close>),
  suspends in an \<^verbatim>\<open>await\<close> of an external request (\<open>Await\<close>) or of an \<^verbatim>\<open>asyncio.Lock\<close>
  (\<open>Acquire\<close>, \<open>Release\<close>), and ends by returning or raising.  What stands between two suspension
  points runs without interruption, as on an event loop: \<open>segment\<close> executes exactly that much.

  The second half is a rely-guarantee calculus: \<open>wp\<close> is a weakest precondition in which the object
  may be changed by other tasks at every suspension point, and the locale \<open>coro_rg\<close> shows once that
  what \<open>wp\<close> establishes of each coroutine holds in every configuration that any interleaving of
  any number of tasks, with any replies of the outside world, can reach.
\<close>

section \<open>Coroutines\<close>

datatype ('s, 'q, 'r, 'e, 'l, 'a) coro =
    Return 'a
  | Raise 'e
  | Get "'s \<Rightarrow> ('s, 'q, 'r, 'e, 'l, 'a) coro"
  | Put 's "('s, 'q, 'r, 'e, 'l, 'a) coro"
  | Clock "rat \<Rightarrow> ('s, 'q, 'r, 'e, 'l, 'a) coro"
  | Fresh "string \<Rightarrow> ('s, 'q, 'r, 'e, 'l, 'a) coro"
  | Await 'q "'r \<Rightarrow> ('s, 'q, 'r, 'e, 'l, 'a) coro"
  | Acquire 'l "bool \<Rightarrow> ('s, 'q, 'r, 'e, 'l, 'a) coro"
  | Release 'l "('s, 'q, 'r, 'e, 'l, 'a) coro"

text \<open>Sequencing, exception handling and \<^verbatim>\<open>async with lock\<close>.  A waiting \<open>Acquire\<close> may be
  cancelled: it then continues with \<open>False\<close>.\<close>

primrec cbind :: "('s, 'q, 'r, 'e, 'l, 'a) coro \<Rightarrow> ('a \<Rightarrow> ('s, 'q, 'r, 'e, 'l, 'b) coro) \<Rightarrow> ('s, 'q, 'r, 'e, 'l, 'b) coro" where
  "cbind (Return a) f = f a"
| "cbind (Raise e) f = Raise e"
| "cbind (Get k) f = Get (\<lambda>s. cbind (k s) f)"
| "cbind (Put s c) f = Put s (cbind c f)"
| "cbind (Clock k) f = Clock (\<lambda>t. cbind (k t) f)"
| "cbind (Fresh k) f = Fresh (\<lambda>g. cbind (k g) f)"
| "cbind (Await q k) f = Await q (\<lambda>r. cbind (k r) f)"
| "cbind (Acquire l k) f = Acquire l (\<lambda>b. cbind (k b) f)"
| "cbind (Release l c) f = Release l (cbind c f)"

primrec ccatch :: "('s, 'q, 'r, 'e, 'l, 'a) coro \<Rightarrow> ('e \<Rightarrow> ('s, 'q, 'r, 'e, 'l, 'a) coro) \<Rightarrow> ('s, 'q, 'r, 'e, 'l, 'a) coro" where
  "ccatch (Return a) f = Return a"
| "ccatch (Raise e) f = f e"
| "ccatch (Get k) f = Get (\<lambda>s. ccatch (k s) f)"
| "ccatch (Put s c) f = Put s (ccatch c f)"
| "ccatch (Clock k) f = Clock (\<lambda>t. ccatch (k t) f)"
| "ccatch (Fresh k) f = Fresh (\<lambda>g. ccatch (k g) f)"
| "ccatch (Await q k) f = Await q (\<lambda>r. ccatch (k r) f)"
| "ccatch (Acquire l k) f = Acquire l (\<lambda>b. ccatch (k b) f)"
| "ccatch (Release l c) f = Release l (ccatch c f)"

abbreviation cseq :: "('s, 'q, 'r, 'e, 'l, 'a) coro \<Rightarrow> ('s, 'q, 'r, 'e, 'l, 'b) coro \<Rightarrow> ('s, 'q, 'r, 'e, 'l, 'b) coro" where
  "cseq c d \<equiv> cbind c (\<lambda>_. d)"

definition modify :: "('s \<Rightarrow> 's) \<Rightarrow> ('s, 'q, 'r, 'e, 'l, unit) coro" where
  "modify f = Get (\<lambda>s. Put (f s) (Return ()))"

definition with_lock :: "'l \<Rightarrow> 'e \<Rightarrow> ('s, 'q, 'r, 'e, 'l, 'a) coro \<Rightarrow> ('s, 'q, 'r, 'e, 'l, 'a) coro" where
  "with_lock l cancelled c = Acquire l (\<lambda>granted.
     if granted
     then cbind (ccatch c (\<lambda>e. Release l (Raise e))) (\<lambda>a. Release l (Return a))
     else Raise cancelled)"

primrec lift_sum :: "'e + 'a \<Rightarrow> ('s, 'q, 'r, 'e, 'l, 'a) coro" where
  "lift_sum (Inl e) = Raise e"
| "lift_sum (Inr a) = Return a"

text \<open>An awaited call that answers with a value or raises.\<close>

definition await :: "'q \<Rightarrow> ('s, 'q, 'e + 'v, 'e, 'l, 'v) coro" where
  "await q = Await q lift_sum"

text \<open>A task of the event loop is a coroutine whose result nobody reads.\<close>

definition as_task :: "('s, 'q, 'r, 'e, 'l, 'a) coro \<Rightarrow> ('s, 'q, 'r, 'e, 'l, unit) coro" where
  "as_task c = cbind c (\<lambda>_. Return ())"

section \<open>Running a task up to its next suspension point\<close>

text \<open>\<open>clock n\<close> and \<open>ids n\<close> are the readings of the \<open>n\<close>-th call in the segment; a lock is held by at
  most one task, and a free lock is taken without suspending.\<close>

type_synonym 'l locks = "'l \<Rightarrow> nat option"

primrec segment ::
  "nat \<Rightarrow> (nat \<Rightarrow> rat) \<Rightarrow> (nat \<Rightarrow> string) \<Rightarrow> ('s, 'q, 'r, 'e, 'l, 'a) coro \<Rightarrow> nat \<Rightarrow> 's \<Rightarrow> 'l locks
    \<Rightarrow> ('s, 'q, 'r, 'e, 'l, 'a) coro \<times> 's \<times> 'l locks" where
  "segment i clock ids (Return a) n s L = (Return a, s, L)"
| "segment i clock ids (Raise e) n s L = (Raise e, s, L)"
| "segment i clock ids (Get k) n s L = segment i clock ids (k s) n s L"
| "segment i clock ids (Put s' c) n s L = segment i clock ids c n s' L"
| "segment i clock ids (Clock k) n s L = segment i clock ids (k (clock n)) (Suc n) s L"
| "segment i clock ids (Fresh k) n s L = segment i clock ids (k (ids n)) (Suc n) s L"
| "segment i clock ids (Await q k) n s L = (Await q k, s, L)"
| "segment i clock ids (Acquire l k) n s L =
     (if L l = None then segment i clock ids (k True) n s (L(l \<mapsto> i)) else (Acquire l k, s, L))"
| "segment i clock ids (Release l c) n s L = segment i clock ids c n s (L(l := None))"

text \<open>A coroutine that runs alone, against a given clock, id source and outside world; the counter
  numbers its effects.\<close>

primrec run_alone ::
  "(nat \<Rightarrow> rat) \<Rightarrow> (nat \<Rightarrow> string) \<Rightarrow> (nat \<Rightarrow> 'q \<Rightarrow> 'r) \<Rightarrow> ('s, 'q, 'r, 'e, 'l, 'a) coro \<Rightarrow> nat \<Rightarrow> 's \<Rightarrow> ('e + 'a) \<times> 's" where
  "run_alone clock ids world (Return a) n s = (Inr a, s)"
| "run_alone clock ids world (Raise e) n s = (Inl e, s)"
| "run_alone clock ids world (Get k) n s = run_alone clock ids world (k s) n s"
| "run_alone clock ids world (Put s' c) n s = run_alone clock ids world c n s'"
| "run_alone clock ids world (Clock k) n s = run_alone clock ids world (k (clock n)) (Suc n) s"
| "run_alone clock ids world (Fresh k) n s = run_alone clock ids world (k (ids n)) (Suc n) s"
| "run_alone clock ids world (Await q k) n s = run_alone clock ids world (k (world n q)) (Suc n) s"
| "run_alone clock ids world (Acquire l k) n s = run_alone clock ids world (k True) n s"
| "run_alone clock ids world (Release l c) n s = run_alone clock ids world c n s"

section \<open>The event loop\<close>

text \<open>A configuration: the shared object, the lock table, the live tasks, and the requests each task
  has awaited with the replies it got.\<close>

record ('s, 'q, 'r, 'e, 'l) sys =
  sys_state :: 's
  sys_locks :: "'l locks"
  sys_tasks :: "nat \<Rightarrow> ('s, 'q, 'r, 'e, 'l, unit) coro option"
  sys_hist :: "nat \<Rightarrow> ('q \<times> 'r) list"

definition activate ::
  "nat \<Rightarrow> (nat \<Rightarrow> rat) \<Rightarrow> (nat \<Rightarrow> string) \<Rightarrow> ('s, 'q, 'r, 'e, 'l, unit) coro \<Rightarrow> ('q \<times> 'r) list \<Rightarrow> 'l locks
    \<Rightarrow> ('s, 'q, 'r, 'e, 'l) sys \<Rightarrow> ('s, 'q, 'r, 'e, 'l) sys" where
  "activate i clock ids c h L cfg = (case segment i clock ids c 0 (sys_state cfg) L of
     (c', s', L') \<Rightarrow> \<lparr>sys_state = s', sys_locks = L', sys_tasks = (sys_tasks cfg)(i \<mapsto> c'),
                     sys_hist = (sys_hist cfg)(i := h)\<rparr>)"

inductive sys_step ::
  "(('s, 'q, 'r, 'e, 'l, unit) coro \<Rightarrow> bool) \<Rightarrow> ('s, 'q, 'r, 'e, 'l) sys \<Rightarrow> ('s, 'q, 'r, 'e, 'l) sys \<Rightarrow> bool"
  for prog :: "('s, 'q, 'r, 'e, 'l, unit) coro \<Rightarrow> bool" where
  spawn: "sys_tasks cfg i = None \<Longrightarrow> prog c \<Longrightarrow> (\<And>l. sys_locks cfg l \<noteq> Some i)
    \<Longrightarrow> sys_step prog cfg (activate i clock ids c [] (sys_locks cfg) cfg)"
| reply: "sys_tasks cfg i = Some (Await q k)
    \<Longrightarrow> sys_step prog cfg (activate i clock ids (k r) (sys_hist cfg i @ [(q, r)]) (sys_locks cfg) cfg)"
| grant: "sys_tasks cfg i = Some (Acquire l k) \<Longrightarrow> sys_locks cfg l = None
    \<Longrightarrow> sys_step prog cfg (activate i clock ids (k True) (sys_hist cfg i) ((sys_locks cfg)(l \<mapsto> i)) cfg)"
| cancel: "sys_tasks cfg i = Some (Acquire l k)
    \<Longrightarrow> sys_step prog cfg (activate i clock ids (k False) (sys_hist cfg i) (sys_locks cfg) cfg)"

definition idle :: "'s \<Rightarrow> ('s, 'q, 'r, 'e, 'l) sys" where
  "idle s = \<lparr>sys_state = s, sys_locks = (\<lambda>_. None), sys_tasks = (\<lambda>_. None), sys_hist = (\<lambda>_. [])\<rparr>"

definition sys_reaches ::
  "(('s, 'q, 'r, 'e, 'l, unit) coro \<Rightarrow> bool) \<Rightarrow> ('s, 'q, 'r, 'e, 'l) sys \<Rightarrow> ('s, 'q, 'r, 'e, 'l) sys \<Rightarrow> bool" where
  "sys_reaches prog = (sys_step prog)\<^sup>*\<^sup>*"

text \<open>Driving a configuration by hand: start a task, answer the request a task waits for.\<close>

definition start :: "nat \<Rightarrow> (nat \<Rightarrow> rat) \<Rightarrow> (nat \<Rightarrow> string) \<Rightarrow> ('s, 'q, 'r, 'e, 'l, unit) coro
    \<Rightarrow> ('s, 'q, 'r, 'e, 'l) sys \<Rightarrow> ('s, 'q, 'r, 'e, 'l) sys" where
  "start i clock ids c cfg = activate i clock ids c [] (sys_locks cfg) cfg"

definition answer :: "nat \<Rightarrow> (nat \<Rightarrow> rat) \<Rightarrow> (nat \<Rightarrow> string) \<Rightarrow> 'r
    \<Rightarrow> ('s, 'q, 'r, 'e, 'l) sys \<Rightarrow> ('s, 'q, 'r, 'e, 'l) sys" where
  "answer i clock ids r cfg = (case sys_tasks cfg i of
     Some (Await q k) \<Rightarrow> activate i clock ids (k r) (sys_hist cfg i @ [(q, r)]) (sys_locks cfg) cfg
   | _ \<Rightarrow> cfg)"

lemma start_reaches:
  "sys_reaches prog c0 cfg \<Longrightarrow> sys_tasks cfg i = None \<Longrightarrow> prog c \<Longrightarrow> (\<And>l. sys_locks cfg l \<noteq> Some i)
    \<Longrightarrow> sys_reaches prog c0 (start i clock ids c cfg)"
  unfolding sys_reaches_def start_def by (erule rtranclp.rtrancl_into_rtrancl) (rule sys_step.spawn)

lemma answer_reaches:
  "sys_reaches prog c0 cfg \<Longrightarrow> sys_reaches prog c0 (answer i clock ids r cfg)"
  unfolding sys_reaches_def answer_def
  by (auto split: option.split coro.split intro: rtranclp.rtrancl_into_rtrancl sys_step.reply)

lemma sys_reaches_refl: "sys_reaches prog cfg cfg"
  by (simp add: sys_reaches_def)

definition held_by :: "nat \<Rightarrow> 'l locks \<Rightarrow> 'l set" where
  "held_by i L = {l. L l = Some i}"

section \<open>Weakest preconditions under interference\<close>

text \<open>\<open>I\<close> must hold at every suspension point and may be assumed after it; \<open>G H s s'\<close> constrains a
  write made while holding the locks \<open>H\<close>; \<open>R H s s'\<close> is what a task holding \<open>H\<close> may rely on while
  it is suspended; \<open>P H h s q\<close> must hold when request \<open>q\<close> is issued, \<open>h\<close> being the task's history.\<close>

primrec wp ::
  "('s \<Rightarrow> bool) \<Rightarrow> ('l set \<Rightarrow> 's \<Rightarrow> 's \<Rightarrow> bool) \<Rightarrow> ('l set \<Rightarrow> 's \<Rightarrow> 's \<Rightarrow> bool)
    \<Rightarrow> ('l set \<Rightarrow> ('q \<times> 'r) list \<Rightarrow> 's \<Rightarrow> 'q \<Rightarrow> bool)
    \<Rightarrow> ('s, 'q, 'r, 'e, 'l, 'a) coro
    \<Rightarrow> ('a \<Rightarrow> 'l set \<Rightarrow> ('q \<times> 'r) list \<Rightarrow> 's \<Rightarrow> bool) \<Rightarrow> ('e \<Rightarrow> 'l set \<Rightarrow> ('q \<times> 'r) list \<Rightarrow> 's \<Rightarrow> bool)
    \<Rightarrow> 'l set \<Rightarrow> ('q \<times> 'r) list \<Rightarrow> 's \<Rightarrow> bool" where
  "wp I G R P (Return a) Q X H h s = Q a H h s"
| "wp I G R P (Raise e) Q X H h s = X e H h s"
| "wp I G R P (Get k) Q X H h s = wp I G R P (k s) Q X H h s"
| "wp I G R P (Put s' c) Q X H h s = (G H s s' \<and> wp I G R P c Q X H h s')"
| "wp I G R P (Clock k) Q X H h s = (\<forall>t. wp I G R P (k t) Q X H h s)"
| "wp I G R P (Fresh k) Q X H h s = (\<forall>g. wp I G R P (k g) Q X H h s)"
| "wp I G R P (Await q k) Q X H h s =
     (I s \<and> P H h s q \<and> (\<forall>r s'. I s' \<longrightarrow> R H s s' \<longrightarrow> wp I G R P (k r) Q X H (h @ [(q, r)]) s'))"
| "wp I G R P (Acquire l k) Q X H h s =
     (I s \<and> l \<notin> H \<and> (\<forall>s'. I s' \<longrightarrow> R H s s' \<longrightarrow>
        wp I G R P (k True) Q X (insert l H) h s' \<and> wp I G R P (k False) Q X H h s'))"
| "wp I G R P (Release l c) Q X H h s = (l \<in> H \<and> wp I G R P c Q X (H - {l}) h s)"

lemma wp_mono:
  "wp I G R P c Q X H h s \<Longrightarrow> (\<And>a H h s. Q a H h s \<Longrightarrow> Q' a H h s) \<Longrightarrow> (\<And>e H h s. X e H h s \<Longrightarrow> X' e H h s)
    \<Longrightarrow> wp I G R P c Q' X' H h s"
  by (induction c arbitrary: H h s) auto

text \<open>The rules, as equations between predicates so that they also rewrite postconditions.\<close>

lemma wp_ends:
  "wp I G R P (Return a) Q X = Q a"
  "wp I G R P (Raise e) Q X = X e"
  by (simp_all add: fun_eq_iff)

lemma wp_steps:
  "wp I G R P (Get k) Q X = (\<lambda>H h s. wp I G R P (k s) Q X H h s)"
  "wp I G R P (Put s' c) Q X = (\<lambda>H h s. G H s s' \<and> wp I G R P c Q X H h s')"
  "wp I G R P (Clock kt) Q X = (\<lambda>H h s. \<forall>t. wp I G R P (kt t) Q X H h s)"
  "wp I G R P (Fresh kg) Q X = (\<lambda>H h s. \<forall>g. wp I G R P (kg g) Q X H h s)"
  "wp I G R P (Release l c) Q X = (\<lambda>H h s. l \<in> H \<and> wp I G R P c Q X (H - {l}) h s)"
  by (simp_all add: fun_eq_iff)

lemma wp_cbind: "wp I G R P (cbind c f) Q X = wp I G R P c (\<lambda>a. wp I G R P (f a) Q X) X"
proof (rule ext)+
  show "wp I G R P (cbind c f) Q X H h s = wp I G R P c (\<lambda>a. wp I G R P (f a) Q X) X H h s" for H h s
    by (induction c arbitrary: H h s) auto
qed

lemma wp_ccatch: "wp I G R P (ccatch c f) Q X = wp I G R P c Q (\<lambda>e. wp I G R P (f e) Q X)"
proof (rule ext)+
  show "wp I G R P (ccatch c f) Q X H h s = wp I G R P c Q (\<lambda>e. wp I G R P (f e) Q X) H h s" for H h s
    by (induction c arbitrary: H h s) auto
qed

lemma wp_modify: "wp I G R P (modify f) Q X = (\<lambda>H h s. G H s (f s) \<and> Q () H h (f s))"
  by (rule ext)+ (simp add: modify_def)

lemma wp_lift_sum:
  "wp I G R P (lift_sum r) Q X = (\<lambda>H h s. case r of Inl e \<Rightarrow> X e H h s | Inr a \<Rightarrow> Q a H h s)"
  by (rule ext)+ (cases r; simp)

lemma wp_await: "wp I G R P (await q) Q X = (\<lambda>H h s. I s \<and> P H h s q \<and>
     (\<forall>s'. I s' \<longrightarrow> R H s s' \<longrightarrow> (\<forall>e. X e H (h @ [(q, Inl e)]) s') \<and> (\<forall>v. Q v H (h @ [(q, Inr v)]) s')))"
  by (rule ext)+ (auto simp: await_def wp_lift_sum split: sum.splits)

lemma wp_with_lock: "wp I G R P (with_lock l cancelled c) Q X = (\<lambda>H h s. I s \<and> l \<notin> H \<and> (\<forall>s'. I s' \<longrightarrow> R H s s' \<longrightarrow>
     wp I G R P c (\<lambda>a H h s. l \<in> H \<and> Q a (H - {l}) h s) (\<lambda>e H h s. l \<in> H \<and> X e (H - {l}) h s) (insert l H) h s'
     \<and> X cancelled H h s'))"
  by (rule ext)+ (simp add: with_lock_def wp_cbind wp_ccatch wp_ends wp_steps)

lemma wp_as_task: "wp I G R P (as_task c) Q X = wp I G R P c (\<lambda>_. Q ()) X"
  by (simp add: as_task_def wp_cbind wp_ends)

lemma wp_if: "wp I G R P (if b then c else d) Q X = (if b then wp I G R P c Q X else wp I G R P d Q X)"
  by simp

lemmas wp_rules = wp_ends wp_steps wp_cbind wp_ccatch wp_modify wp_lift_sum wp_await wp_with_lock wp_as_task wp_if

section \<open>Soundness for every interleaving\<close>

text \<open>The contract between the tasks of one event loop.  Writes that respect \<open>guar\<close> never break what a
  task holding other locks relies on.\<close>

locale coro_rg =
  fixes inv :: "'s \<Rightarrow> bool"
    and guar :: "'l set \<Rightarrow> 's \<Rightarrow> 's \<Rightarrow> bool"
    and rly :: "'l set \<Rightarrow> 's \<Rightarrow> 's \<Rightarrow> bool"
    and pre :: "'l set \<Rightarrow> ('q \<times> 'r) list \<Rightarrow> 's \<Rightarrow> 'q \<Rightarrow> bool"
  assumes rly_refl: "rly H s s"
    and rly_trans: "rly H s s' \<Longrightarrow> rly H s' s'' \<Longrightarrow> rly H s s''"
    and guar_rly: "guar H s s' \<Longrightarrow> H \<inter> H' = {} \<Longrightarrow> rly H' s s'"
begin

text \<open>A coroutine honours the contract: started in a good state, with no lock, it keeps the invariant
  and ends without a lock.\<close>

definition honours :: "('s, 'q, 'r, 'e, 'l, unit) coro \<Rightarrow> bool" where
  "honours c \<longleftrightarrow> (\<forall>s. inv s \<longrightarrow>
     wp inv guar rly pre c (\<lambda>_ H _ s. inv s \<and> H = {}) (\<lambda>_ H _ s. inv s \<and> H = {}) {} [] s)"

definition task_ok :: "('s, 'q, 'r, 'e, 'l, unit) coro \<Rightarrow> 'l set \<Rightarrow> ('q \<times> 'r) list \<Rightarrow> 's \<Rightarrow> bool" where
  "task_ok c H h s \<longleftrightarrow>
     wp inv guar rly pre c (\<lambda>_ H _ s. inv s \<and> H = {}) (\<lambda>_ H _ s. inv s \<and> H = {}) H h s"

definition sys_ok :: "'s \<Rightarrow> ('s, 'q, 'r, 'e, 'l) sys \<Rightarrow> bool" where
  "sys_ok s0 cfg \<longleftrightarrow> inv (sys_state cfg) \<and> rly {} s0 (sys_state cfg) \<and>
     (\<forall>i c. sys_tasks cfg i = Some c \<longrightarrow>
        (\<exists>s. task_ok c (held_by i (sys_locks cfg)) (sys_hist cfg i) s \<and>
             rly (held_by i (sys_locks cfg)) s (sys_state cfg)))"

lemma segment_sound:
  "segment i clock ids c n s L = (c', s', L') \<Longrightarrow> task_ok c (held_by i L) h s \<Longrightarrow>
     inv s' \<and> task_ok c' (held_by i L') h s' \<and> rly {} s s' \<and>
     (\<forall>j. j \<noteq> i \<longrightarrow> held_by j L' = held_by j L \<and> rly (held_by j L) s s')"
proof (induction c arbitrary: n s L)
  case (Get k)
  show ?case
    by (rule Get.IH [of "k s" n s L]) (use Get.prems in \<open>simp_all add: task_ok_def\<close>)
next
  case (Clock k)
  show ?case
    by (rule Clock.IH [of "k (clock n)" "Suc n" s L]) (use Clock.prems in \<open>simp_all add: task_ok_def\<close>)
next
  case (Fresh k)
  show ?case
    by (rule Fresh.IH [of "k (ids n)" "Suc n" s L]) (use Fresh.prems in \<open>simp_all add: task_ok_def\<close>)
next
  case (Put x c)
  let ?H = "held_by i L"
  have ok: "task_ok c ?H h x" and g: "guar ?H s x"
    using Put.prems(2) by (simp_all add: task_ok_def)
  have "\<forall>j. j \<noteq> i \<longrightarrow> rly (held_by j L) s x"
    by (intro allI impI, rule guar_rly [OF g]) (auto simp: held_by_def)
  moreover have "rly {} s x" by (rule guar_rly [OF g]) simp
  moreover have "segment i clock ids c n x L = (c', s', L')" using Put.prems(1) by simp
  note Put.IH [OF this ok]
  ultimately show ?case by (blast intro: rly_trans)
next
  case (Acquire l k)
  show ?case
  proof (cases "L l")
    case None
    have held: "held_by i (L(l \<mapsto> i)) = insert l (held_by i L)"
      and other: "\<And>j. j \<noteq> i \<Longrightarrow> held_by j (L(l \<mapsto> i)) = held_by j L"
      using None by (auto simp: held_by_def)
    have ok: "task_ok (k True) (held_by i (L(l \<mapsto> i))) h s"
      using Acquire.prems(2) by (simp add: task_ok_def held rly_refl)
    have "segment i clock ids (k True) n s (L(l \<mapsto> i)) = (c', s', L')"
      using Acquire.prems(1) None by simp
    from Acquire.IH [OF rangeI this ok] other show ?thesis by metis
  next
    case (Some j)
    with Acquire.prems show ?thesis by (auto simp: task_ok_def rly_refl)
  qed
next
  case (Release l c)
  have mem: "l \<in> held_by i L" and ok: "task_ok c (held_by i L - {l}) h s"
    using Release.prems(2) by (simp_all add: task_ok_def)
  have held: "held_by i (L(l := None)) = held_by i L - {l}"
    by (auto simp: held_by_def)
  have other: "\<And>j. j \<noteq> i \<Longrightarrow> held_by j (L(l := None)) = held_by j L"
    using mem by (auto simp: held_by_def)
  have "segment i clock ids c n s (L(l := None)) = (c', s', L')"
    using Release.prems(1) by simp
  from Release.IH [OF this] ok held other show ?case by metis
qed (auto simp: task_ok_def rly_refl)

lemma activate_ok:
  assumes "sys_ok s0 cfg" "task_ok c (held_by i L) h (sys_state cfg)"
    and L: "\<And>j. j \<noteq> i \<Longrightarrow> held_by j L = held_by j (sys_locks cfg)"
  shows "sys_ok s0 (activate i clock ids c h L cfg)"
proof -
  obtain c' s' L' where seg: "segment i clock ids c 0 (sys_state cfg) L = (c', s', L')"
    by (metis prod_cases3)
  from segment_sound [OF seg assms(2)]
  have inv: "inv s'" and ok: "task_ok c' (held_by i L') h s'"
    and own: "rly {} (sys_state cfg) s'"
    and rest: "\<And>j. j \<noteq> i \<Longrightarrow> held_by j L' = held_by j L \<and> rly (held_by j L) (sys_state cfg) s'"
    by auto
  have "\<exists>s. task_ok d (held_by j L') (sys_hist cfg j) s \<and> rly (held_by j L') s s'"
    if "j \<noteq> i" "sys_tasks cfg j = Some d" for j d
  proof -
    from assms(1) that(2) obtain s0 where
      "task_ok d (held_by j (sys_locks cfg)) (sys_hist cfg j) s0"
      "rly (held_by j (sys_locks cfg)) s0 (sys_state cfg)" by (auto simp: sys_ok_def)
    with rest [OF that(1)] L [OF that(1)] show ?thesis by (auto intro: rly_trans)
  qed
  moreover have "rly {} s0 s'"
    using assms(1) own by (auto simp: sys_ok_def intro: rly_trans)
  ultimately show ?thesis
    using inv ok seg
    by (auto simp: sys_ok_def activate_def intro: rly_refl split: if_splits)
qed

lemma step_ok:
  assumes "sys_step prog cfg cfg'" "sys_ok s0 cfg" "\<And>c. prog c \<Longrightarrow> honours c"
  shows "sys_ok s0 cfg'"
  using assms(1)
proof cases
  case (spawn i c clock ids)
  have "held_by i (sys_locks cfg) = {}" using spawn by (auto simp: held_by_def)
  moreover have "inv (sys_state cfg)" using assms(2) by (simp add: sys_ok_def)
  ultimately have "task_ok c (held_by i (sys_locks cfg)) [] (sys_state cfg)"
    using assms(3) [OF spawn(3)] by (simp add: honours_def task_ok_def)
  with assms(2) spawn(1) show ?thesis by (auto intro!: activate_ok)
next
  case (reply i q k clock ids r)
  from assms(2) reply(2) have "task_ok (k r) (held_by i (sys_locks cfg)) (sys_hist cfg i @ [(q, r)]) (sys_state cfg)"
    by (fastforce simp: sys_ok_def task_ok_def)
  with assms(2) reply(1) show ?thesis by (auto intro!: activate_ok)
next
  case (grant i l k clock ids)
  have held: "held_by i ((sys_locks cfg)(l \<mapsto> i)) = insert l (held_by i (sys_locks cfg))"
    and other: "\<And>j. j \<noteq> i \<Longrightarrow> held_by j ((sys_locks cfg)(l \<mapsto> i)) = held_by j (sys_locks cfg)"
    using grant(3) by (auto simp: held_by_def)
  from assms(2) grant(2) have "task_ok (k True) (held_by i ((sys_locks cfg)(l \<mapsto> i))) (sys_hist cfg i) (sys_state cfg)"
    by (fastforce simp: sys_ok_def task_ok_def held)
  with assms(2) grant(1) other show ?thesis by (auto intro!: activate_ok)
next
  case (cancel i l k clock ids)
  from assms(2) cancel(2) have "task_ok (k False) (held_by i (sys_locks cfg)) (sys_hist cfg i) (sys_state cfg)"
    by (fastforce simp: sys_ok_def task_ok_def)
  with assms(2) cancel(1) show ?thesis by (auto intro!: activate_ok)
qed

lemma idle_ok: "inv s \<Longrightarrow> sys_ok s (idle s)"
  by (simp add: sys_ok_def idle_def rly_refl)

theorem reaches_ok:
  assumes "sys_reaches prog (idle s) cfg" "inv s" "\<And>c. prog c \<Longrightarrow> honours c"
  shows "sys_ok s cfg"
  using assms(1) unfolding sys_reaches_def
  by (induction rule: rtranclp_induct) (auto intro: idle_ok step_ok assms(2,3))

text \<open>Most coroutines only need this much: started in a good state with the locks \<open>H\<close>, they keep the
  invariant and give back exactly \<open>H\<close>.  The rules follow the structure of the program text.\<close>

definition keeps :: "'l set \<Rightarrow> ('s, 'q, 'r, 'e, 'l, 'a) coro \<Rightarrow> bool" where
  "keeps H c \<longleftrightarrow> (\<forall>h s. inv s \<longrightarrow>
     wp inv guar rly pre c (\<lambda>_ H' _ s. H' = H \<and> inv s) (\<lambda>_ H' _ s. H' = H \<and> inv s) H h s)"

lemma keeps_wp:
  "keeps H c \<Longrightarrow> inv s \<Longrightarrow> (\<And>a h s. inv s \<Longrightarrow> Q a H h s) \<Longrightarrow> (\<And>e h s. inv s \<Longrightarrow> X e H h s)
    \<Longrightarrow> wp inv guar rly pre c Q X H h s"
  unfolding keeps_def
  by (rule wp_mono [where Q = "\<lambda>_ H' _ s. H' = H \<and> inv s" and X = "\<lambda>_ H' _ s. H' = H \<and> inv s"]) auto

lemma keeps_Return: "keeps H (Return a)"
  and keeps_Raise: "keeps H (Raise e)"
  by (simp_all add: keeps_def)

lemma keeps_Get: "(\<And>s. inv s \<Longrightarrow> keeps H (k s)) \<Longrightarrow> keeps H (Get k)"
  by (simp add: keeps_def)

lemma keeps_Clock: "(\<And>t. keeps H (k t)) \<Longrightarrow> keeps H (Clock k)"
  by (simp add: keeps_def)

lemma keeps_Fresh: "(\<And>g. keeps H (k g)) \<Longrightarrow> keeps H (Fresh k)"
  by (simp add: keeps_def)

lemma keeps_cbind: "keeps H c \<Longrightarrow> (\<And>a. keeps H (f a)) \<Longrightarrow> keeps H (cbind c f)"
  unfolding keeps_def wp_cbind by (fast elim: wp_mono)

lemma keeps_ccatch: "keeps H c \<Longrightarrow> (\<And>e. keeps H (f e)) \<Longrightarrow> keeps H (ccatch c f)"
  unfolding keeps_def wp_ccatch by (fast elim: wp_mono)

lemma keeps_lift_sum: "keeps H (lift_sum r)"
  by (cases r) (simp_all add: keeps_Return keeps_Raise)

lemma keeps_Await: "(\<And>h s. inv s \<Longrightarrow> pre H h s q) \<Longrightarrow> (\<And>r. keeps H (k r)) \<Longrightarrow> keeps H (Await q k)"
  by (simp add: keeps_def)

lemma keeps_modify: "(\<And>s. inv s \<Longrightarrow> inv (f s) \<and> guar H s (f s)) \<Longrightarrow> keeps H (modify f)"
  by (simp add: keeps_def wp_modify)

lemma keeps_with_lock: "l \<notin> H \<Longrightarrow> keeps (insert l H) c \<Longrightarrow> keeps H (with_lock l e c)"
  by (subst keeps_def) (auto simp: wp_with_lock intro: keeps_wp)

lemma keeps_as_task: "keeps H c \<Longrightarrow> keeps H (as_task c)"
  unfolding as_task_def by (intro keeps_cbind keeps_Return)

lemma keeps_if: "(b \<Longrightarrow> keeps H c) \<Longrightarrow> (\<not> b \<Longrightarrow> keeps H d) \<Longrightarrow> keeps H (if b then c else d)"
  by simp

lemma keeps_case_option: "keeps H c \<Longrightarrow> (\<And>x. keeps H (f x)) \<Longrightarrow> keeps H (case v of None \<Rightarrow> c | Some x \<Rightarrow> f x)"
  by (cases v) simp_all

lemma keeps_case_prod: "(\<And>x y. keeps H (f x y)) \<Longrightarrow> keeps H (case v of (x, y) \<Rightarrow> f x y)"
  by (cases v) simp

lemma keeps_Let: "(\<And>x. x = v \<Longrightarrow> keeps H (f x)) \<Longrightarrow> keeps H (let x = v in f x)"
  by (simp add: Let_def)

lemmas keeps_rules = keeps_Return keeps_Raise keeps_Get keeps_Clock keeps_Fresh keeps_cbind keeps_ccatch
  keeps_lift_sum keeps_as_task keeps_if keeps_case_option keeps_case_prod keeps_Let

text \<open>The same, from a state that is known: for a write that is only right under the test before it.\<close>

definition keeps_at :: "'l set \<Rightarrow> 's \<Rightarrow> ('s, 'q, 'r, 'e, 'l, 'a) coro \<Rightarrow> bool" where
  "keeps_at H s c \<longleftrightarrow> (\<forall>h.
     wp inv guar rly pre c (\<lambda>_ H' _ s. H' = H \<and> inv s) (\<lambda>_ H' _ s. H' = H \<and> inv s) H h s)"

lemma keeps_Get_at: "(\<And>s. inv s \<Longrightarrow> keeps_at H s (k s)) \<Longrightarrow> keeps H (Get k)"
  by (simp add: keeps_def keeps_at_def)

lemma keeps_at_modify:
  "inv (f s) \<Longrightarrow> guar H s (f s) \<Longrightarrow> keeps H c \<Longrightarrow> keeps_at H s (cseq (modify f) c)"
  by (simp add: keeps_at_def keeps_def wp_cbind wp_modify)

lemma keeps_at_if: "(b \<Longrightarrow> keeps_at H s c) \<Longrightarrow> (\<not> b \<Longrightarrow> keeps_at H s d) \<Longrightarrow> keeps_at H s (if b then c else d)"
  by simp

lemma keeps_at_Let: "(\<And>x. x = v \<Longrightarrow> keeps_at H s (f x)) \<Longrightarrow> keeps_at H s (let x = v in f x)"
  by (simp add: Let_def)

lemma keeps_at_keeps: "inv s \<Longrightarrow> keeps H c \<Longrightarrow> keeps_at H s c"
  by (simp add: keeps_at_def keeps_def)

lemma keeps_honours: "keeps {} c \<Longrightarrow> honours c"
  by (auto simp: honours_def intro: keeps_wp)

text \<open>What a client reads off a good configuration: the invariant, and the precondition of every
  request that is under way.\<close>

lemma state_inv: "sys_ok s0 cfg \<Longrightarrow> inv (sys_state cfg)"
  by (simp add: sys_ok_def)

lemma state_rly: "sys_ok s0 cfg \<Longrightarrow> rly {} s0 (sys_state cfg)"
  by (simp add: sys_ok_def)

lemma awaiting:
  assumes "sys_ok s0 cfg" "sys_tasks cfg i = Some (Await q k)"
  obtains s where "pre (held_by i (sys_locks cfg)) (sys_hist cfg i) s q" "inv s"
    "rly (held_by i (sys_locks cfg)) s (sys_state cfg)"
proof -
  from assms obtain s where "task_ok (Await q k) (held_by i (sys_locks cfg)) (sys_hist cfg i) s"
    "rly (held_by i (sys_locks cfg)) s (sys_state cfg)" by (auto simp: sys_ok_def)
  then show thesis by (intro that [of s]) (simp_all add: task_ok_def)
qed

end

end
