(* ===== verification/Kill_Switch.thy ===== *)
theory Kill_Switch
  imports Coroutine
begin

text \<open>
  The kill switch (\<^verbatim>\<open>services/governance_engine/kill_switch.py\<close>): the object that stands between the
  decision to trade and the exchange.  Its attributes are the record \<open>kill_switch\<close>; every method is
  a coroutine over it, in the order of the source, with the awaits of the source as its suspension
  points.  The hot-state store (Redis), the event bus and the exchange are requests whose replies
  are arbitrary; log calls have no effect and are left out.

  \<open>py_env\<close> carries what the interpreter decides: the text of a non-string value, the reading of a
  string by \<^verbatim>\<open>float\<close>, the \<^verbatim>\<open>:.6f\<close> format, and the iteration order of a set of strings.  Timestamps
  are the exact rational values of the floats; \<^verbatim>\<open>float\<close> of an integer is taken as exact up to its
  overflow limit, which no comparison here can tell from the rounded value.
\<close>

section \<open>Values and errors\<close>

text \<open>What the store and the bus deliver: decoded JSON.\<close>

datatype json =
    JNull
  | JBool bool
  | JInt int
  | JFloat rat
  | JNonfinite
  | JStr string
  | JList "json list"
  | JObj "(string \<times> json) list"

datatype ks_error =
    Authority_Error string
  | Submission_Blocked string
  | Value_Error string
  | Type_Error
  | Key_Error string
  | Overflow_Error
  | Backend_Error string
  | Cancelled

record py_env =
  repr_of :: "json \<Rightarrow> string"
  float_of_str :: "string \<Rightarrow> rat option option"
  fmt6 :: "rat \<Rightarrow> string"
  set_order :: "string list \<Rightarrow> string list"

fun json_truthy :: "json \<Rightarrow> bool" where
  "json_truthy JNull = False"
| "json_truthy (JBool b) = b"
| "json_truthy (JInt n) = (n \<noteq> 0)"
| "json_truthy (JFloat r) = (r \<noteq> 0)"
| "json_truthy JNonfinite = True"
| "json_truthy (JStr s) = (s \<noteq> [])"
| "json_truthy (JList xs) = (xs \<noteq> [])"
| "json_truthy (JObj d) = (d \<noteq> [])"

fun py_str :: "py_env \<Rightarrow> json \<Rightarrow> string" where
  "py_str E (JStr s) = s"
| "py_str E JNull = ''None''"
| "py_str E (JBool b) = (if b then ''True'' else ''False'')"
| "py_str E v = repr_of E v"

fun py_float :: "py_env \<Rightarrow> json \<Rightarrow> ks_error + rat option" where
  "py_float E (JBool b) = Inr (Some (if b then 1 else 0))"
| "py_float E (JInt n) = (if \<bar>n\<bar> < 2 ^ 1024 - 2 ^ 970 then Inr (Some (of_int n)) else Inl Overflow_Error)"
| "py_float E (JFloat r) = Inr (Some r)"
| "py_float E JNonfinite = Inr None"
| "py_float E (JStr s) = (case float_of_str E s of
     None \<Rightarrow> Inl (Value_Error ''could not convert string to float'') | Some x \<Rightarrow> Inr x)"
| "py_float E v = Inl Type_Error"

definition json_get :: "(string \<times> json) list \<Rightarrow> string \<Rightarrow> json" where
  "json_get d k = dict_get d k JNull"

definition json_item :: "(string \<times> json) list \<Rightarrow> string \<Rightarrow> ks_error + json" where
  "json_item d k = (case map_of d k of None \<Rightarrow> Inl (Key_Error k) | Some v \<Rightarrow> Inr v)"

definition json_opt :: "string option \<Rightarrow> json" where
  "json_opt x = (case x of None \<Rightarrow> JNull | Some s \<Rightarrow> JStr s)"

text \<open>\<^verbatim>\<open>str(v or default)\<close>\<close>

definition str_or_default :: "py_env \<Rightarrow> json \<Rightarrow> string \<Rightarrow> string" where
  "str_or_default E v d = (if json_truthy v then py_str E v else d)"

text \<open>\<^verbatim>\<open>except Exception\<close> does not catch a cancellation; the parsing blocks catch the three lookup
  and conversion errors only.\<close>

definition is_exception :: "ks_error \<Rightarrow> bool" where
  "is_exception e \<longleftrightarrow> e \<noteq> Cancelled"

fun is_parse_error :: "ks_error \<Rightarrow> bool" where
  "is_parse_error (Key_Error _) = True"
| "is_parse_error Type_Error = True"
| "is_parse_error (Value_Error _) = True"
| "is_parse_error (Authority_Error _) = True"
| "is_parse_error _ = False"

section \<open>State\<close>

datatype ks_phase = RUNNING | HALTING | HALTED | RESUMING | DEGRADED

definition phase_str :: "ks_phase \<Rightarrow> string" where
  "phase_str p = (case p of RUNNING \<Rightarrow> ''RUNNING'' | HALTING \<Rightarrow> ''HALTING'' | HALTED \<Rightarrow> ''HALTED''
                          | RESUMING \<Rightarrow> ''RESUMING'' | DEGRADED \<Rightarrow> ''DEGRADED'')"

definition parse_phase :: "string \<Rightarrow> ks_error + ks_phase" where
  "parse_phase s =
    (if s = ''RUNNING'' then Inr RUNNING else if s = ''HALTING'' then Inr HALTING
     else if s = ''HALTED'' then Inr HALTED else if s = ''RESUMING'' then Inr RESUMING
     else if s = ''DEGRADED'' then Inr DEGRADED
     else Inl (Value_Error (''invalid kill switch state: '' @ s)))"

record publish_outcome =
  redis_written :: "bool option"
  nats_published :: "bool option"

datatype loop_state = No_loop | Loop_closed | Loop_idle | Loop_running

record kill_switch =
  ks_state :: "bool \<times> string option"
  ks_phase :: ks_phase
  ks_generation :: string
  ks_set_at_ts :: rat
  ks_resume_authorized :: bool
  ks_acknowledged_by :: "string option"
  ks_last_authority_error :: "string option"
  ks_last_running_generation :: string
  ks_has_store :: bool
  ks_has_bus :: bool
  ks_process_role :: string
  ks_loop :: loop_state
  ks_last_applied_ts :: rat
  ks_last_published_state :: "(bool \<times> json \<times> ks_phase \<times> string) option"
  ks_last_publish_outcome :: publish_outcome
  ks_fail_closed :: bool
  ks_permission_task :: bool
  ks_permission_generation :: "string option"
  ks_permission_last_success_monotonic :: "rat option"
  ks_permission_last_success_ts :: "rat option"
  ks_bootstrapped :: bool
  ks_subscribed :: bool

datatype ks_lock = Fence | Permission_io

datatype ks_io =
    Store_get string
  | Store_set string json rat
  | Store_delete string
  | Bus_publish json
  | Bus_subscribe
  | Exchange_call
  | Sleep rat
  | Task_join

type_synonym 'a ks = "(kill_switch, ks_io, ks_error + json, ks_error, ks_lock, 'a) coro"

abbreviation except_exception :: "'a ks \<Rightarrow> (ks_error \<Rightarrow> 'a ks) \<Rightarrow> 'a ks" where
  "except_exception c f \<equiv> ccatch c (\<lambda>e. if is_exception e then f e else Raise e)"

abbreviation except_parse :: "'a ks \<Rightarrow> 'a ks \<Rightarrow> 'a ks" where
  "except_parse c d \<equiv> ccatch c (\<lambda>e. if is_parse_error e then d else Raise e)"

text \<open>\<^verbatim>\<open>make_key\<close> of \<^verbatim>\<open>hot_state_store.py\<close> for string parts.\<close>

definition make_key :: "string \<Rightarrow> string list \<Rightarrow> ks_error + string" where
  "make_key ns parts =
    (if [] \<in> set parts then Inl (Value_Error ''hot_state key parts cannot be empty'')
     else Inr (''aats:hot:'' @ ns @ '':'' @ py_join '':'' parts))"

definition kill_switch_redis_key :: string where
  "kill_switch_redis_key = ''aats:hot:system:kill_switch''"

definition kill_switch_permission_key :: "string \<Rightarrow> ks_error + string" where
  "kill_switch_permission_key generation = make_key ''system'' [''kill_switch_permission'', generation]"

definition kill_switch_redis_ttl :: rat where "kill_switch_redis_ttl = 30 * 24 * 3600"
definition permission_ttl :: rat where "permission_ttl = 15"
definition permission_renew_interval :: rat where "permission_renew_interval = 5"

definition permission_issuers :: "string list" where
  "permission_issuers = [''gateway'', ''monolith'']"

definition require_finite_positive_timestamp :: "py_env \<Rightarrow> json \<Rightarrow> string \<Rightarrow> ks_error + rat" where
  "require_finite_positive_timestamp E v field =
    (let bad = Inl (Value_Error (field @ ''_must_be_finite_and_positive'')) in
     case v of
       JBool b \<Rightarrow> bad
     | _ \<Rightarrow> ebind (py_float E v) (\<lambda>x. case x of None \<Rightarrow> bad | Some t \<Rightarrow> if t \<le> 0 then bad else Inr t))"

definition new_kill_switch :: "string \<Rightarrow> rat \<Rightarrow> kill_switch" where
  "new_kill_switch generation now =
    \<lparr>ks_state = (False, None), ks_phase = RUNNING, ks_generation = generation, ks_set_at_ts = now,
     ks_resume_authorized = True, ks_acknowledged_by = Some ''monolith'', ks_last_authority_error = None,
     ks_last_running_generation = generation, ks_has_store = False, ks_has_bus = False,
     ks_process_role = ''monolith'', ks_loop = No_loop, ks_last_applied_ts = 0,
     ks_last_published_state = None,
     ks_last_publish_outcome = \<lparr>redis_written = None, nats_published = None\<rparr>,
     ks_fail_closed = True, ks_permission_task = False, ks_permission_generation = None,
     ks_permission_last_success_monotonic = None, ks_permission_last_success_ts = None,
     ks_bootstrapped = False, ks_subscribed = False\<rparr>"

definition new_generation :: "string ks" where
  "new_generation = Fresh (\<lambda>u. Return (''ksgen_'' @ u))"

definition time_now :: "rat ks" where
  "time_now = Clock Return"

section \<open>Reading the switch\<close>

definition ks_halted :: "kill_switch \<Rightarrow> bool" where
  "ks_halted s = fst (ks_state s)"

definition ks_reason :: "kill_switch \<Rightarrow> string option" where
  "ks_reason s = snd (ks_state s)"

definition transition_status :: "kill_switch \<Rightarrow> (string \<times> json) list" where
  "transition_status s =
    [(''state'', JStr (phase_str (ks_phase s))),
     (''halted'', JBool (ks_halted s)),
     (''reason'', json_opt (ks_reason s)),
     (''generation'', JStr (ks_generation s)),
     (''set_at_ts'', JFloat (ks_set_at_ts s)),
     (''resume_authorized'', JBool (ks_resume_authorized s)),
     (''enforced'', JBool (ks_phase s = HALTED)),
     (''acknowledged_by'', json_opt (ks_acknowledged_by s)),
     (''last_authority_error'', json_opt (ks_last_authority_error s))]"

definition is_execution_authority :: "kill_switch \<Rightarrow> bool" where
  "is_execution_authority s \<longleftrightarrow> ks_process_role s = ''execution'' \<or> ks_process_role s = ''monolith''"

definition is_permission_lease_owner :: "kill_switch \<Rightarrow> bool" where
  "is_permission_lease_owner s \<longleftrightarrow> ks_process_role s \<in> set permission_issuers"

definition permission_lease_required :: "kill_switch \<Rightarrow> bool" where
  "permission_lease_required s \<longleftrightarrow> ks_bootstrapped s \<and> ks_fail_closed s"

definition running_permission_eligible :: "kill_switch \<Rightarrow> bool" where
  "running_permission_eligible s \<longleftrightarrow>
     permission_lease_required s \<and> is_permission_lease_owner s \<and> \<not> ks_halted s
     \<and> ks_phase s = RUNNING \<and> ks_resume_authorized s"

section \<open>Local transitions\<close>

text \<open>\<^verbatim>\<open>_begin_halt\<close>: a repeated halt of the same generation only renews the reason.\<close>

definition begin_halt :: "py_env \<Rightarrow> string \<Rightarrow> string option \<Rightarrow> rat option \<Rightarrow> (string \<times> rat) ks" where
  "begin_halt E reason generation set_at_ts =
    cbind (case set_at_ts of None \<Rightarrow> Return None
           | Some t \<Rightarrow> cbind (lift_sum (require_finite_positive_timestamp E (JFloat t) ''kill_switch_set_at_ts''))
                            (\<lambda>t. Return (Some t))) (\<lambda>explicit.
    Get (\<lambda>s. let blocked = ks_halted s \<and> ks_phase s \<in> {HALTING, HALTED} in
      if blocked \<and> (generation = None \<or> generation = Some (ks_generation s))
      then cseq (modify (\<lambda>s. s\<lparr>ks_state := (True, Some reason)\<rparr>)) (Return (ks_generation s, ks_set_at_ts s))
      else
        cbind (if str_truthy generation then Return (the generation)
               else if blocked then Return (ks_generation s) else new_generation) (\<lambda>resolved.
        cbind (case explicit of None \<Rightarrow> time_now | Some t \<Rightarrow> Return t) (\<lambda>ts.
        cseq (modify (\<lambda>s. s\<lparr>ks_state := (True, Some reason), ks_phase := HALTING,
                ks_generation := resolved, ks_set_at_ts := ts, ks_resume_authorized := False,
                ks_acknowledged_by := None, ks_last_authority_error := None,
                ks_last_applied_ts := max (ks_last_applied_ts s) ts\<rparr>))
             (Return (resolved, ts))))))"

definition mark_halt_enforced :: "string \<Rightarrow> unit ks" where
  "mark_halt_enforced generation = modify (\<lambda>s.
     if generation \<noteq> ks_generation s then s
     else s\<lparr>ks_phase := HALTED, ks_acknowledged_by := Some (ks_process_role s)\<rparr>)"

definition drain_submission_fence :: "string \<Rightarrow> unit ks" where
  "drain_submission_fence generation = with_lock Fence Cancelled (mark_halt_enforced generation)"

definition apply_running :: "py_env \<Rightarrow> string \<Rightarrow> rat \<Rightarrow> string option \<Rightarrow> unit ks" where
  "apply_running E generation set_at_ts acknowledged_by =
    cbind (lift_sum (require_finite_positive_timestamp E (JFloat set_at_ts) ''kill_switch_set_at_ts'')) (\<lambda>ts.
    modify (\<lambda>s. s\<lparr>ks_state := (False, None), ks_phase := RUNNING, ks_generation := generation,
      ks_last_running_generation := generation, ks_set_at_ts := ts, ks_resume_authorized := True,
      ks_acknowledged_by := acknowledged_by, ks_last_authority_error := None,
      ks_last_applied_ts := max (ks_last_applied_ts s) ts\<rparr>))"

definition latch_degraded :: "string \<Rightarrow> unit ks" where
  "latch_degraded reason = modify (\<lambda>s. s\<lparr>ks_state := (True, Some reason), ks_phase := DEGRADED,
     ks_resume_authorized := False, ks_acknowledged_by := None, ks_last_authority_error := Some reason\<rparr>)"

text \<open>Latch, then raise: the two-line pattern of every failed check.\<close>

definition latch_and_raise :: "string \<Rightarrow> ks_error \<Rightarrow> 'a ks" where
  "latch_and_raise reason e = cseq (latch_degraded reason) (Raise e)"

definition merge_flag :: "bool option \<Rightarrow> bool option \<Rightarrow> bool option" where
  "merge_flag a b = (if a \<noteq> None \<or> b \<noteq> None then Some (a = Some True \<or> b = Some True) else None)"

definition merge_propagation :: "publish_outcome \<Rightarrow> publish_outcome \<Rightarrow> publish_outcome" where
  "merge_propagation a b =
    \<lparr>redis_written = merge_flag (redis_written a) (redis_written b),
     nats_published = merge_flag (nats_published a) (nats_published b)\<rparr>"

definition transition_payload ::
  "kill_switch \<Rightarrow> bool \<Rightarrow> string option \<Rightarrow> ks_phase \<Rightarrow> string \<Rightarrow> rat \<Rightarrow> bool \<Rightarrow> json" where
  "transition_payload s halted reason phase generation set_at_ts resume_authorized = JObj
    [(''halted'', JBool halted),
     (''reason'', if halted then json_opt reason else JNull),
     (''state'', JStr (phase_str phase)),
     (''generation'', JStr generation),
     (''set_at_ts'', JFloat set_at_ts),
     (''source_role'', JStr (ks_process_role s)),
     (''resume_authorized'', JBool resume_authorized)]"

section \<open>The trading permission lease\<close>

definition delete_trading_permission_locked :: "string \<Rightarrow> unit ks" where
  "delete_trading_permission_locked generation = Get (\<lambda>s.
    if \<not> ks_has_store s then Raise (Authority_Error ''kill_switch_permission_authority_unavailable'')
    else
      cseq (except_exception
              (cbind (lift_sum (kill_switch_permission_key generation)) (\<lambda>key. await (Store_delete key)))
              (\<lambda>_. Raise (Authority_Error ''kill_switch_permission_lease_revoke_failed'')))
      (modify (\<lambda>s. if ks_permission_generation s = Some generation
         then s\<lparr>ks_permission_generation := None, ks_permission_last_success_monotonic := None,
                ks_permission_last_success_ts := None\<rparr>
         else s)))"

primrec delete_permissions :: "string list \<Rightarrow> unit ks" where
  "delete_permissions [] = Return ()"
| "delete_permissions (g # gs) = cseq (delete_trading_permission_locked g) (delete_permissions gs)"

definition best_effort_revoke_trading_permission :: "py_env \<Rightarrow> string option \<Rightarrow> bool option ks" where
  "best_effort_revoke_trading_permission E generation = Get (\<lambda>s.
    if \<not> ks_has_store s then Return None
    else
      let generations = set_order E (remdups (map the (filter str_truthy
            [generation, Some (ks_last_running_generation s), ks_permission_generation s])))
      in if generations = [] then Return (Some True)
         else except_exception
                (cseq (with_lock Permission_io Cancelled (delete_permissions generations)) (Return (Some True)))
                (\<lambda>_. Return (Some False)))"

text \<open>The fields read off a stored authority record.\<close>

record authority =
  auth_halted :: json
  auth_state :: string
  auth_generation :: string
  auth_set_at_ts :: rat
  auth_resume_authorized :: json

definition parse_authority :: "py_env \<Rightarrow> (string \<times> json) list \<Rightarrow> ks_error + authority" where
  "parse_authority E d =
    ebind (json_item d ''halted'') (\<lambda>halted.
    ebind (json_item d ''state'') (\<lambda>state.
    ebind (json_item d ''generation'') (\<lambda>generation.
    ebind (json_item d ''set_at_ts'') (\<lambda>ts.
    ebind (require_finite_positive_timestamp E ts ''kill_switch_set_at_ts'') (\<lambda>ts.
    Inr \<lparr>auth_halted = halted, auth_state = py_str E state, auth_generation = py_str E generation,
         auth_set_at_ts = ts, auth_resume_authorized = dict_get d ''resume_authorized'' (JBool False)\<rparr>)))))"

text \<open>Adopting a record that is not an authorised \<^verbatim>\<open>RUNNING\<close>: the local switch blocks.\<close>

definition adopt_halt :: "py_env \<Rightarrow> (string \<times> json) list \<Rightarrow> authority \<Rightarrow> unit ks" where
  "adopt_halt E d a = modify (\<lambda>s. s\<lparr>
     ks_state := (True, Some (str_or_default E (json_get d ''reason'') ''authoritative_halt'')),
     ks_phase := (if auth_state a = ''HALTED'' then HALTED else HALTING),
     ks_generation := auth_generation a,
     ks_set_at_ts := auth_set_at_ts a,
     ks_resume_authorized := False,
     ks_acknowledged_by := Some (str_or_default E (json_get d ''source_role'') ''authoritative_store''),
     ks_last_applied_ts := max (ks_last_applied_ts s) (auth_set_at_ts a)\<rparr>)"

text \<open>The tail of \<^verbatim>\<open>_renew_trading_permission_once\<close>: replace a lease of an older generation, write
  the new one and record the success.\<close>

definition write_permission :: "string \<Rightarrow> bool ks" where
  "write_permission generation = Get (\<lambda>s.
    cseq (case ks_permission_generation s of
            None \<Rightarrow> Return ()
          | Some previous \<Rightarrow> if previous \<noteq> generation then delete_trading_permission_locked previous else Return ())
    (cbind time_now (\<lambda>issued_at.
    cseq (except_exception
           (cbind (lift_sum (kill_switch_permission_key generation)) (\<lambda>key.
              await (Store_set key (JObj [(''generation'', JStr generation), (''issued_by'', JStr (ks_process_role s)),
                                          (''issued_at'', JFloat issued_at)]) permission_ttl)))
           (\<lambda>_. Raise (Authority_Error ''kill_switch_permission_lease_write_failed'')))
    (cbind time_now (\<lambda>monotonic.
    cseq (modify (\<lambda>s. s\<lparr>ks_permission_generation := Some generation,
            ks_permission_last_success_monotonic := Some monotonic,
            ks_permission_last_success_ts := Some issued_at\<rparr>))
         (Return True))))))"

definition renew_locked :: "py_env \<Rightarrow> string \<Rightarrow> bool ks" where
  "renew_locked E generation = Get (\<lambda>s.
    if \<not> running_permission_eligible s \<or> generation \<noteq> ks_generation s
    then cseq (delete_trading_permission_locked generation) (Return False)
    else
      cbind (except_exception (await (Store_get kill_switch_redis_key))
               (\<lambda>_. Raise (Authority_Error ''kill_switch_permission_authority_unavailable''))) (\<lambda>stored.
      case stored of
        JObj d \<Rightarrow>
          cbind (except_parse (lift_sum (parse_authority E d))
                   (Raise (Authority_Error ''kill_switch_permission_authority_invalid''))) (\<lambda>a.
          if auth_halted a \<noteq> JBool False \<or> auth_state a \<noteq> ''RUNNING'' \<or> auth_resume_authorized a \<noteq> JBool True
          then cseq (adopt_halt E d a) (cseq (delete_trading_permission_locked generation) (Return False))
          else if auth_generation a \<noteq> generation
          then cseq (delete_trading_permission_locked generation)
                 (Raise (Authority_Error ''kill_switch_permission_authority_generation_mismatch''))
          else Get (\<lambda>s.
            if \<not> running_permission_eligible s \<or> generation \<noteq> ks_generation s
            then cseq (delete_trading_permission_locked generation) (Return False)
            else write_permission generation))
      | _ \<Rightarrow> Raise (Authority_Error ''kill_switch_permission_authority_missing'')))"

definition renew_trading_permission_once :: "py_env \<Rightarrow> bool ks" where
  "renew_trading_permission_once E = Get (\<lambda>s.
    if \<not> is_permission_lease_owner s then Raise (Authority_Error ''kill_switch_permission_renew_forbidden_for_role'')
    else if \<not> ks_has_store s then Raise (Authority_Error ''kill_switch_permission_authority_unavailable'')
    else if \<not> running_permission_eligible s
    then cseq (best_effort_revoke_trading_permission E (Some (ks_last_running_generation s))) (Return False)
    else with_lock Permission_io Cancelled (renew_locked E (ks_generation s)))"

text \<open>One round of \<^verbatim>\<open>_trading_permission_lease_loop\<close>; the result is the time to sleep.\<close>

definition trading_permission_lease_round :: "py_env \<Rightarrow> rat ks" where
  "trading_permission_lease_round E =
    except_exception
      (Get (\<lambda>s. if running_permission_eligible s
         then cseq (renew_trading_permission_once E) (Return permission_renew_interval)
         else cseq (best_effort_revoke_trading_permission E (Some (ks_last_running_generation s)))
                   (Return permission_renew_interval)))
      (\<lambda>_. cbind time_now (\<lambda>now. Get (\<lambda>s.
         let last_success = (if ks_permission_generation s = Some (ks_generation s)
                             then ks_permission_last_success_monotonic s else None);
             deadline = (case last_success of None \<Rightarrow> now | Some t \<Rightarrow> t + permission_ttl)
         in if now \<ge> deadline
            then latch_and_raise ''kill_switch_permission_lease_renewal_expired''
                   (Authority_Error ''kill_switch_permission_lease_renewal_expired'')
            else Return (min permission_renew_interval (max (1 / 1000) (deadline - now))))))"

text \<open>The loop never ends by itself; \<open>n\<close> bounds the number of rounds that are looked at.\<close>

primrec trading_permission_lease_loop :: "py_env \<Rightarrow> nat \<Rightarrow> unit ks" where
  "trading_permission_lease_loop E 0 = Return ()"
| "trading_permission_lease_loop E (Suc n) =
     cbind (trading_permission_lease_round E) (\<lambda>wait.
     cseq (await (Sleep wait)) (trading_permission_lease_loop E n))"

definition start_trading_permission_lease :: "py_env \<Rightarrow> bool ks" where
  "start_trading_permission_lease E = Get (\<lambda>s.
    if \<not> ks_bootstrapped s then Raise (Authority_Error ''kill_switch_permission_start_requires_bootstrap'')
    else if \<not> permission_lease_required s \<or> \<not> is_permission_lease_owner s then Return False
    else if ks_permission_task s then Return True
    else cseq (if running_permission_eligible s
               then cseq (renew_trading_permission_once E) (Return ()) else Return ())
         (cseq (modify (\<lambda>s. s\<lparr>ks_permission_task := True\<rparr>)) (Return True)))"

definition stop_trading_permission_lease :: "py_env \<Rightarrow> unit ks" where
  "stop_trading_permission_lease E = Get (\<lambda>s.
    cseq (if ks_permission_task s then ccatch (cseq (await Task_join) (Return ())) (\<lambda>_. Return ()) else Return ())
    (cseq (modify (\<lambda>s. s\<lparr>ks_permission_task := False\<rparr>))
    (Get (\<lambda>s. if is_permission_lease_owner s
       then cseq (best_effort_revoke_trading_permission E (Some (ks_last_running_generation s))) (Return ())
       else Return ()))))"

definition stop :: "py_env \<Rightarrow> unit ks" where
  "stop E = cseq (stop_trading_permission_lease E) (modify (\<lambda>s. s\<lparr>ks_loop := No_loop\<rparr>))"

section \<open>Publication\<close>

definition authoritative_redis_set :: "json \<Rightarrow> bool ks" where
  "authoritative_redis_set payload = Get (\<lambda>s.
    if \<not> ks_has_store s then Return False
    else except_exception
           (cseq (await (Store_set kill_switch_redis_key payload kill_switch_redis_ttl)) (Return True))
           (\<lambda>_. Return False))"

definition best_effort_redis_set :: "json \<Rightarrow> bool option ks" where
  "best_effort_redis_set payload = Get (\<lambda>s.
    if \<not> ks_has_store s then Return None
    else except_exception
           (cseq (await (Store_set kill_switch_redis_key payload kill_switch_redis_ttl)) (Return (Some True)))
           (\<lambda>_. Return (Some False)))"

definition best_effort_nats_broadcast :: "json \<Rightarrow> bool option ks" where
  "best_effort_nats_broadcast payload = Get (\<lambda>s.
    if \<not> ks_has_bus s then Return None
    else except_exception (cseq (await (Bus_publish payload)) (Return (Some True))) (\<lambda>_. Return (Some False)))"

definition publish ::
  "py_env \<Rightarrow> bool \<Rightarrow> string option \<Rightarrow> ks_phase \<Rightarrow> string \<Rightarrow> rat \<Rightarrow> bool \<Rightarrow> publish_outcome ks" where
  "publish E halted reason phase generation set_at_ts resume_authorized =
    cseq (if halted
          then Get (\<lambda>s. cseq (best_effort_revoke_trading_permission E (Some (ks_last_running_generation s))) (Return ()))
          else Return ())
    (Get (\<lambda>s. let new_state = (halted, if halted then json_opt reason else JNull, phase, generation) in
       if ks_last_published_state s = Some new_state then Return (ks_last_publish_outcome s)
       else cseq (modify (\<lambda>s. s\<lparr>ks_last_published_state := Some new_state\<rparr>))
         (let payload = transition_payload s halted reason phase generation set_at_ts resume_authorized in
          cbind (best_effort_redis_set payload) (\<lambda>redis.
          cbind (best_effort_nats_broadcast payload) (\<lambda>nats.
          let outcome = \<lparr>redis_written = redis, nats_published = nats\<rparr> in
          cseq (modify (\<lambda>s. s\<lparr>ks_last_publish_outcome := outcome\<rparr>)) (Return outcome))))))"

text \<open>Drain the fence and announce the enforced halt: the common end of the halting paths.\<close>

definition finalize_halt :: "py_env \<Rightarrow> string option \<Rightarrow> string \<Rightarrow> (rat \<times> publish_outcome) ks" where
  "finalize_halt E reason generation =
    cseq (drain_submission_fence generation)
    (cbind time_now (\<lambda>final_ts.
     cseq (modify (\<lambda>s. s\<lparr>ks_set_at_ts := final_ts\<rparr>))
    (cbind (publish E True reason HALTED generation final_ts False) (\<lambda>outcome. Return (final_ts, outcome)))))"

definition publish_and_maybe_finalize_halt ::
  "py_env \<Rightarrow> bool \<Rightarrow> string option \<Rightarrow> ks_phase \<Rightarrow> string \<Rightarrow> rat \<Rightarrow> bool \<Rightarrow> bool \<Rightarrow> publish_outcome ks" where
  "publish_and_maybe_finalize_halt E halted reason phase generation set_at_ts resume_authorized finalize =
    cbind (publish E halted reason phase generation set_at_ts resume_authorized) (\<lambda>outcome. Get (\<lambda>s.
      if finalize \<and> is_execution_authority s
      then cbind (finalize_halt E reason generation) (\<lambda>(_, final_outcome).
             Return (merge_propagation outcome final_outcome))
      else Return outcome))"

section \<open>Halting\<close>

definition halt_async :: "py_env \<Rightarrow> string \<Rightarrow> string option \<Rightarrow> rat option \<Rightarrow> ((string \<times> json) list \<times> publish_outcome) ks" where
  "halt_async E reason generation set_at_ts =
    cbind (begin_halt E reason generation set_at_ts) (\<lambda>(resolved_generation, resolved_ts).
    cbind (publish E True (Some reason) HALTING resolved_generation resolved_ts False) (\<lambda>propagation.
    Get (\<lambda>s. cbind (if is_execution_authority s
                   then cbind (finalize_halt E (Some reason) resolved_generation) (\<lambda>(_, final_propagation).
                          Return (merge_propagation propagation final_propagation))
                   else Return propagation) (\<lambda>propagation.
    Get (\<lambda>s. Return (transition_status s, propagation))))))"

text \<open>The synchronous \<^verbatim>\<open>halt\<close>: the result is the coroutine handed to the event loop, if any.\<close>

definition dispatch_async_publish :: "py_env \<Rightarrow> string \<Rightarrow> string \<Rightarrow> rat \<Rightarrow> unit ks option ks" where
  "dispatch_async_publish E reason generation set_at_ts = Get (\<lambda>s.
    if \<not> ks_has_bus s \<or> ks_loop s \<noteq> Loop_running then Return None
    else cseq (modify (\<lambda>s. s\<lparr>ks_last_applied_ts := max (ks_last_applied_ts s) set_at_ts\<rparr>))
      (Return (Some (as_task
         (publish_and_maybe_finalize_halt E True (Some reason) HALTING generation set_at_ts False True)))))"

definition halt :: "py_env \<Rightarrow> string \<Rightarrow> unit ks option ks" where
  "halt E reason =
    cbind (begin_halt E reason None None) (\<lambda>(generation, set_at_ts). Get (\<lambda>s.
      if \<not> ks_bootstrapped s then cseq (mark_halt_enforced generation) (Return None)
      else dispatch_async_publish E reason generation set_at_ts))"

section \<open>Resuming\<close>

definition renew_or_latch :: "py_env \<Rightarrow> unit ks" where
  "renew_or_latch E = Get (\<lambda>s.
    if permission_lease_required s \<and> is_permission_lease_owner s
    then ccatch (cseq (renew_trading_permission_once E) (Return ()))
           (\<lambda>e. case e of Authority_Error m \<Rightarrow> latch_and_raise ''kill_switch_permission_lease_write_failed'' e
                        | _ \<Rightarrow> Raise e)
    else Return ())"

definition resume_async :: "py_env \<Rightarrow> ((string \<times> json) list \<times> publish_outcome) ks" where
  "resume_async E = Get (\<lambda>s.
    if ks_phase s = RUNNING \<and> \<not> ks_halted s \<and> ks_resume_authorized s
    then cseq (renew_or_latch E) (Get (\<lambda>s. Return (transition_status s, ks_last_publish_outcome s)))
    else
      cbind new_generation (\<lambda>generation. cbind time_now (\<lambda>set_at_ts.
      let previous = ks_reason s;
          reason = (if str_truthy previous then previous else Some ''resume_pending'');
          payload = transition_payload s False None RUNNING generation set_at_ts True
      in cseq (modify (\<lambda>s. s\<lparr>ks_phase := RESUMING, ks_state := (True, reason), ks_generation := generation,
                        ks_set_at_ts := set_at_ts, ks_resume_authorized := False\<rparr>))
        (cbind (authoritative_redis_set payload) (\<lambda>written.
         if \<not> written
         then latch_and_raise ''kill_switch_resume_authority_write_failed''
                (Authority_Error ''kill_switch_resume_authority_write_failed'')
         else
           Get (\<lambda>s. cseq (apply_running E generation set_at_ts (Some (ks_process_role s)))
           (cseq (renew_or_latch E)
           (cbind (best_effort_nats_broadcast payload) (\<lambda>nats.
            let outcome = \<lparr>redis_written = Some True, nats_published = nats\<rparr> in
            cseq (modify (\<lambda>s. s\<lparr>ks_last_published_state := Some (False, JNull, RUNNING, generation),
                                ks_last_publish_outcome := outcome\<rparr>))
            (Get (\<lambda>s. Return (transition_status s, outcome))))))))))))"

text \<open>The synchronous \<^verbatim>\<open>resume\<close> and what a waiting worker thread does with the outcome.\<close>

definition dispatch_async_resume :: "py_env \<Rightarrow> unit ks option ks" where
  "dispatch_async_resume E = Get (\<lambda>s.
    if ks_loop s \<noteq> Loop_running
    then cseq (latch_degraded ''kill_switch_resume_dispatch_unavailable'') (Return None)
    else Return (Some (as_task (resume_async E))))"

datatype thread_wait = Resumed | Wait_timed_out | Resume_failed

definition resume_thread_outcome :: "thread_wait \<Rightarrow> unit ks" where
  "resume_thread_outcome w = (case w of
     Resumed \<Rightarrow> Return ()
   | Wait_timed_out \<Rightarrow> latch_degraded ''kill_switch_resume_dispatch_timeout''
   | Resume_failed \<Rightarrow> latch_degraded ''kill_switch_resume_dispatch_failed'')"

definition resume :: "py_env \<Rightarrow> unit ks option ks" where
  "resume E = Get (\<lambda>s.
    if \<not> ks_bootstrapped s
    then cbind new_generation (\<lambda>generation. cbind time_now (\<lambda>now.
           cseq (apply_running E generation now (Some (ks_process_role s))) (Return None)))
    else cseq (modify (\<lambda>s. s\<lparr>ks_phase := RESUMING\<rparr>)) (dispatch_async_resume E))"

definition activate_trading_permission_for_authorized_generation :: "py_env \<Rightarrow> string \<Rightarrow> unit ks" where
  "activate_trading_permission_for_authorized_generation E generation = Get (\<lambda>s.
    let expected = py_strip generation in
    if \<not> permission_lease_required s \<or> \<not> is_permission_lease_owner s
    then Raise (Authority_Error ''kill_switch_permission_activation_forbidden_for_role'')
    else if expected = [] then Raise (Authority_Error ''kill_switch_permission_activation_generation_missing'')
    else if \<not> ks_has_store s
    then latch_and_raise ''kill_switch_permission_authority_unavailable''
           (Authority_Error ''kill_switch_permission_authority_unavailable'')
    else
      cbind (except_exception (await (Store_get kill_switch_redis_key))
        (\<lambda>_. latch_and_raise ''kill_switch_permission_authority_unavailable''
                (Authority_Error ''kill_switch_permission_authority_unavailable''))) (\<lambda>stored.
      case stored of
        JObj d \<Rightarrow>
          cbind (except_parse (lift_sum (parse_authority E d))
            (latch_and_raise ''kill_switch_permission_authority_invalid''
               (Authority_Error ''kill_switch_permission_authority_invalid''))) (\<lambda>a.
          if \<not> (auth_halted a = JBool False \<and> auth_state a = ''RUNNING''
                \<and> auth_resume_authorized a = JBool True \<and> auth_generation a = expected)
          then latch_and_raise ''kill_switch_permission_activation_authority_mismatch''
                 (Authority_Error ''kill_switch_permission_activation_authority_mismatch'')
          else
            cseq (apply_running E (auth_generation a) (auth_set_at_ts a)
                    (Some (str_or_default E (json_get d ''source_role'') ''authoritative_store'')))
            (except_exception (cseq (renew_trading_permission_once E) (Return ()))
               (\<lambda>e. cseq (latch_degraded ''kill_switch_permission_lease_write_failed'')
                  (case e of Authority_Error m \<Rightarrow> Raise e
                           | _ \<Rightarrow> Raise (Authority_Error ''kill_switch_permission_lease_write_failed''))))) 
      | _ \<Rightarrow> latch_and_raise ''kill_switch_permission_authority_missing''
               (Authority_Error ''kill_switch_permission_authority_missing'')))"

section \<open>The submission fence\<close>

text \<open>Every rejection latches the switch first.\<close>

definition refuse :: "string \<Rightarrow> 'a ks" where
  "refuse reason = latch_and_raise reason (Submission_Blocked reason)"

definition require_trading_permission :: "py_env \<Rightarrow> string \<Rightarrow> unit ks" where
  "require_trading_permission E expected_generation = Get (\<lambda>s.
    if \<not> ks_has_store s then refuse ''kill_switch_permission_unavailable''
    else
      cbind (lift_sum (kill_switch_permission_key expected_generation)) (\<lambda>key.
      cbind (except_exception (await (Store_get key)) (\<lambda>_. refuse ''kill_switch_permission_unavailable'')) (\<lambda>stored.
      case stored of
        JNull \<Rightarrow> refuse ''kill_switch_permission_missing''
      | JObj d \<Rightarrow>
          cbind (except_parse
            (lift_sum (ebind (json_item d ''generation'') (\<lambda>g.
                       ebind (json_item d ''issued_by'') (\<lambda>i.
                       ebind (json_item d ''issued_at'') (\<lambda>t.
                       ebind (require_finite_positive_timestamp E t ''kill_switch_permission_issued_at'') (\<lambda>_.
                       Inr (py_str E g, py_str E i)))))))
            (refuse ''kill_switch_permission_invalid'')) (\<lambda>(generation, issued_by).
          if generation \<noteq> expected_generation then refuse ''kill_switch_permission_generation_mismatch''
          else if issued_by \<notin> set permission_issuers then refuse ''kill_switch_permission_invalid''
          else Return ())
      | _ \<Rightarrow> refuse ''kill_switch_permission_invalid'')))"

definition refresh_authoritative_state_for_submission :: "py_env \<Rightarrow> unit ks" where
  "refresh_authoritative_state_for_submission E = Get (\<lambda>s.
    if \<not> ks_has_store s then refuse ''kill_switch_authority_unavailable''
    else
      cbind (except_exception (await (Store_get kill_switch_redis_key))
               (\<lambda>_. refuse ''kill_switch_authority_unavailable'')) (\<lambda>stored.
      case stored of
        JObj d \<Rightarrow>
          cbind (except_parse (lift_sum (parse_authority E d)) (refuse ''kill_switch_authority_invalid'')) (\<lambda>a.
          if json_truthy (auth_halted a) \<or> auth_state a \<noteq> ''RUNNING'' \<or> \<not> json_truthy (auth_resume_authorized a)
          then adopt_halt E d a
          else Get (\<lambda>s. if auth_generation a \<noteq> ks_generation s
            then apply_running E (auth_generation a) (auth_set_at_ts a)
                   (Some (str_or_default E (json_get d ''source_role'') ''authoritative_store''))
            else Return ()))
      | _ \<Rightarrow> refuse ''kill_switch_authority_missing''))"

definition check_local :: "string \<Rightarrow> unit ks" where
  "check_local expected_generation = Get (\<lambda>s.
    if ks_halted s then Raise (Submission_Blocked ''kill_switch_active'')
    else if expected_generation \<noteq> ks_generation s then Raise (Submission_Blocked ''kill_switch_generation_changed'')
    else Return ())"

text \<open>\<^verbatim>\<open>async with risk_increasing_submission_guard(...): body\<close>.\<close>

definition risk_increasing_submission_guard :: "py_env \<Rightarrow> string \<Rightarrow> 'a ks \<Rightarrow> 'a ks" where
  "risk_increasing_submission_guard E expected_generation body =
    with_lock Fence Cancelled
      (cseq (check_local expected_generation)
      (Get (\<lambda>s. cseq
         (if ks_bootstrapped s
          then cseq (refresh_authoritative_state_for_submission E)
               (cseq (check_local expected_generation)
               (Get (\<lambda>s. if permission_lease_required s then require_trading_permission E expected_generation
                         else Return ())))
          else Return ())
         body)))"

section \<open>Start-up\<close>

text \<open>The record found at start-up; a malformed one raises inside the \<^verbatim>\<open>try\<close>.\<close>

definition hydrate :: "py_env \<Rightarrow> (string \<times> json) list \<Rightarrow> unit ks" where
  "hydrate E d =
    (let halted = json_truthy (dict_get d ''halted'' (JBool False));
         reason = json_get d ''reason'';
         source_role = json_get d ''source_role'';
         generation_value = json_get d ''generation''
     in
     cbind (lift_sum (require_finite_positive_timestamp E (json_get d ''set_at_ts'') ''kill_switch_set_at_ts'')) (\<lambda>set_at_ts.
     cbind (case generation_value of JList _ \<Rightarrow> Raise Type_Error | JObj _ \<Rightarrow> Raise Type_Error
            | JNull \<Rightarrow> Return False | JStr g \<Rightarrow> Return (g \<noteq> []) | _ \<Rightarrow> Return True) (\<lambda>named.
     let generation = (if named then py_str E generation_value else ''legacy_'' @ fmt6 E set_at_ts);
         state = str_or_default E (json_get d ''state'') (if halted then ''HALTED'' else ''RUNNING'');
         resume_authorized = json_truthy (dict_get d ''resume_authorized'' (JBool False))
     in
     cseq
       (if halted
        then modify (\<lambda>s. s\<lparr>ks_state := (True, Some (str_or_default E reason ''bootstrap_from_redis'')),
               ks_phase := (if is_execution_authority s then HALTED else HALTING),
               ks_generation := generation, ks_set_at_ts := set_at_ts, ks_resume_authorized := False,
               ks_acknowledged_by := Some (str_or_default E source_role ''redis'')\<rparr>)
        else if state = ''RUNNING'' \<and> resume_authorized \<and> named
        then apply_running E generation set_at_ts (Some (str_or_default E source_role ''redis''))
        else Get (\<lambda>s. if ks_fail_closed s then latch_degraded ''kill_switch_resume_authority_missing'' else Return ()))
       (modify (\<lambda>s. s\<lparr>ks_last_applied_ts := set_at_ts\<rparr>)))))"

definition bootstrap :: "py_env \<Rightarrow> string \<Rightarrow> bool \<Rightarrow> unit ks" where
  "bootstrap E process_role fail_closed =
    cseq (modify (\<lambda>s. s\<lparr>ks_has_store := True, ks_has_bus := True, ks_process_role := process_role,
            ks_loop := Loop_running, ks_fail_closed := fail_closed\<rparr>))
    (cbind (except_exception (cbind (await (Store_get kill_switch_redis_key)) (\<lambda>v. Return (Some v))) (\<lambda>_. Return None)) (\<lambda>stored.
     cseq (if stored = None \<and> fail_closed then latch_degraded ''redis_unavailable_fail_safe'' else Return ())
    (cseq (case stored of
             Some (JObj d) \<Rightarrow> except_exception (hydrate E d)
               (\<lambda>_. if fail_closed then latch_degraded ''kill_switch_bootstrap_parse_failed'' else Return ())
           | _ \<Rightarrow> if stored \<noteq> None \<and> fail_closed then latch_degraded ''kill_switch_authority_missing'' else Return ())
    (cseq (except_exception
             (cseq (await Bus_subscribe) (modify (\<lambda>s. s\<lparr>ks_subscribed := True\<rparr>))) (\<lambda>_. Return ()))
     (modify (\<lambda>s. s\<lparr>ks_bootstrapped := True\<rparr>))))))"

section \<open>Remote transitions\<close>

definition authoritative_resume_matches :: "py_env \<Rightarrow> string \<Rightarrow> bool ks" where
  "authoritative_resume_matches E generation = Get (\<lambda>s.
    if \<not> ks_has_store s then Return False
    else
      cbind (except_exception (await (Store_get kill_switch_redis_key)) (\<lambda>_. Return JNull)) (\<lambda>stored.
      case stored of
        JObj d \<Rightarrow>
          if json_get d ''halted'' = JBool False \<and> json_get d ''state'' = JStr ''RUNNING''
             \<and> json_get d ''resume_authorized'' = JBool True \<and> json_get d ''generation'' = JStr generation
          then ccatch (cseq (lift_sum (require_finite_positive_timestamp E (json_get d ''set_at_ts'') ''kill_switch_set_at_ts''))
                            (Return True))
                 (\<lambda>e. if is_parse_error e then Return False else Raise e)
          else Return False
      | _ \<Rightarrow> Return False))"

record remote_event =
  rem_set_at_ts :: rat
  rem_halted :: bool
  rem_reason :: json
  rem_source_role :: json
  rem_generation :: string
  rem_phase :: ks_phase
  rem_resume_authorized :: bool

definition parse_remote :: "py_env \<Rightarrow> (string \<times> json) list \<Rightarrow> ks_error + remote_event" where
  "parse_remote E d =
    ebind (require_finite_positive_timestamp E (json_get d ''set_at_ts'') ''kill_switch_set_at_ts'') (\<lambda>ts.
    let halted = json_truthy (dict_get d ''halted'' (JBool False)) in
    ebind (parse_phase (str_or_default E (json_get d ''state'') (if halted then ''HALTED'' else ''RUNNING''))) (\<lambda>phase.
    Inr \<lparr>rem_set_at_ts = ts, rem_halted = halted, rem_reason = json_get d ''reason'',
         rem_source_role = json_get d ''source_role'',
         rem_generation = str_or_default E (json_get d ''generation'') (''legacy_'' @ fmt6 E ts),
         rem_phase = phase, rem_resume_authorized = json_truthy (dict_get d ''resume_authorized'' (JBool False))\<rparr>))"

text \<open>The end of a remote transition that was applied.\<close>

definition remote_applied :: "remote_event \<Rightarrow> rat \<Rightarrow> ks_phase \<Rightarrow> unit ks" where
  "remote_applied m applied_ts applied_phase = modify (\<lambda>s. s\<lparr>
     ks_last_applied_ts := max (ks_last_applied_ts s) applied_ts,
     ks_last_published_state := Some (rem_halted m, if rem_halted m then rem_reason m else JNull,
                                      applied_phase, rem_generation m)\<rparr>)"

definition apply_remote :: "py_env \<Rightarrow> remote_event \<Rightarrow> unit ks" where
  "apply_remote E m = Get (\<lambda>s.
    if rem_source_role m = JStr (ks_process_role s) then Return ()
    else if rem_set_at_ts m \<le> ks_last_applied_ts s then Return ()
    else if rem_halted m then
      (let reason = str_or_default E (rem_reason m) ''remote_halt'' in
       cseq (begin_halt E reason (Some (rem_generation m)) (Some (rem_set_at_ts m)))
       (if rem_phase m = HALTED
        then cseq (modify (\<lambda>s. s\<lparr>ks_phase := HALTED,
                     ks_acknowledged_by := Some (str_or_default E (rem_source_role m) ''remote'')\<rparr>))
               (remote_applied m (rem_set_at_ts m) (rem_phase m))
        else Get (\<lambda>s. if is_execution_authority s
          then cbind (finalize_halt E (Some reason) (rem_generation m)) (\<lambda>(final_ts, _).
                 remote_applied m final_ts HALTED)
          else remote_applied m (rem_set_at_ts m) (rem_phase m))))
    else if rem_phase m \<noteq> RUNNING \<or> \<not> rem_resume_authorized m
    then latch_degraded ''kill_switch_remote_resume_unauthorized''
    else
      cbind (authoritative_resume_matches E (rem_generation m)) (\<lambda>matches.
      if \<not> matches then latch_degraded ''kill_switch_remote_resume_authority_mismatch''
      else cseq (apply_running E (rem_generation m) (rem_set_at_ts m)
                   (Some (str_or_default E (rem_source_role m) ''remote'')))
             (remote_applied m (rem_set_at_ts m) (rem_phase m))))"

text \<open>\<open>payload\<close> is what \<^verbatim>\<open>parse_envelope\<close> made of the message: its payload, or the error it raised.\<close>

definition handle_remote_event :: "py_env \<Rightarrow> ks_error + (string \<times> json) list \<Rightarrow> unit ks" where
  "handle_remote_event E payload =
    (case ebind payload (parse_remote E) of
       Inl e \<Rightarrow> if is_exception e then Return () else Raise e
     | Inr m \<Rightarrow> apply_remote E m)"

end
