(* ===== verification/Kill_Switch_Safety.thy ===== *)
theory Kill_Switch_Safety
  imports Kill_Switch
begin

text \<open>
  What the kill switch guarantees, for every interleaving of its coroutines on the event loop and for
  every reply of the store, the bus and the exchange.  \<open>coherent\<close> ties the phase to the flags that
  gate trading; \<open>enforced\<close> is an acknowledged halt of the execution process; \<open>authorised\<close> is the
  evidence that a submission must have collected.  The locale \<open>coro_rg\<close> is interpreted on these,
  every method is shown to keep the contract, and the properties are read off reachable configurations.
\<close>

section \<open>Contract\<close>

definition coherent :: "kill_switch \<Rightarrow> bool" where
  "coherent s \<longleftrightarrow>
     (ks_halted s \<longleftrightarrow> \<not> ks_resume_authorized s) \<and> (ks_halted s \<longleftrightarrow> ks_reason s \<noteq> None) \<and>
     (ks_phase s = RUNNING \<longrightarrow> \<not> ks_halted s \<and> ks_last_running_generation s = ks_generation s) \<and>
     (ks_phase s = HALTING \<or> ks_phase s = DEGRADED \<longrightarrow> ks_halted s) \<and>
     (ks_phase s = DEGRADED \<longrightarrow> ks_last_authority_error s = ks_reason s)"

definition enforced :: "kill_switch \<Rightarrow> bool" where
  "enforced s \<longleftrightarrow> ks_bootstrapped s \<and> ks_process_role s = ''execution'' \<and> ks_halted s
     \<and> ks_phase s = HALTED \<and> ks_acknowledged_by s = Some ''execution''"

text \<open>A stored record that authorises trading under generation \<open>g\<close>, and a live lease for it.\<close>

definition running_authority :: "py_env \<Rightarrow> (string \<times> json) list \<Rightarrow> string \<Rightarrow> bool" where
  "running_authority E d g \<longleftrightarrow> (case parse_authority E d of Inl _ \<Rightarrow> False | Inr a \<Rightarrow>
     \<not> json_truthy (auth_halted a) \<and> auth_state a = ''RUNNING'' \<and> json_truthy (auth_resume_authorized a)
     \<and> auth_generation a = g)"

definition valid_lease :: "py_env \<Rightarrow> (string \<times> json) list \<Rightarrow> string \<Rightarrow> bool" where
  "valid_lease E l g \<longleftrightarrow> (case (json_item l ''generation'', json_item l ''issued_by'', json_item l ''issued_at'') of
     (Inr v, Inr i, Inr t) \<Rightarrow> py_str E v = g \<and> py_str E i \<in> set permission_issuers
        \<and> (\<exists>ts. require_finite_positive_timestamp E t ''kill_switch_permission_issued_at'' = Inr ts)
   | _ \<Rightarrow> False)"

type_synonym ks_history = "(ks_io \<times> (ks_error + json)) list"

definition authority_seen :: "py_env \<Rightarrow> ks_history \<Rightarrow> string \<Rightarrow> bool" where
  "authority_seen E h g \<longleftrightarrow>
     (\<exists>d. (Store_get kill_switch_redis_key, Inr (JObj d)) \<in> set h \<and> running_authority E d g)"

definition lease_seen :: "py_env \<Rightarrow> ks_history \<Rightarrow> string \<Rightarrow> bool" where
  "lease_seen E h g \<longleftrightarrow> (\<exists>key l. kill_switch_permission_key g = Inr key
     \<and> (Store_get key, Inr (JObj l)) \<in> set h \<and> valid_lease E l g)"

definition authorised :: "py_env \<Rightarrow> ks_history \<Rightarrow> bool" where
  "authorised E h \<longleftrightarrow> (\<exists>g. authority_seen E h g \<and> lease_seen E h g)"

text \<open>Role, bootstrap flag and strictness never change once the process runs.\<close>

definition wiring :: "kill_switch \<Rightarrow> string \<times> bool \<times> bool" where
  "wiring s = (ks_process_role s, ks_bootstrapped s, ks_fail_closed s)"

definition ks_inv :: "string \<times> bool \<times> bool \<Rightarrow> kill_switch \<Rightarrow> bool" where
  "ks_inv w s \<longleftrightarrow> coherent s \<and> wiring s = w"

definition ks_guar :: "ks_lock set \<Rightarrow> kill_switch \<Rightarrow> kill_switch \<Rightarrow> bool" where
  "ks_guar H s s' \<longleftrightarrow> (enforced s' \<longrightarrow> enforced s \<or> Fence \<in> H)"

definition ks_rly :: "ks_lock set \<Rightarrow> kill_switch \<Rightarrow> kill_switch \<Rightarrow> bool" where
  "ks_rly H s s' \<longleftrightarrow> (Fence \<in> H \<longrightarrow> enforced s' \<longrightarrow> enforced s)"

definition ks_pre :: "py_env \<Rightarrow> ks_lock set \<Rightarrow> ks_history \<Rightarrow> kill_switch \<Rightarrow> ks_io \<Rightarrow> bool" where
  "ks_pre E H h s q \<longleftrightarrow> (q = Exchange_call \<longrightarrow>
     Fence \<in> H \<and> \<not> enforced s \<and> (permission_lease_required s \<longrightarrow> authorised E h))"

interpretation switch: coro_rg "ks_inv w" ks_guar ks_rly "ks_pre E" for w E
  by unfold_locales (auto simp: ks_guar_def ks_rly_def)

lemmas ks_state_simps = ks_inv_def coherent_def enforced_def wiring_def ks_halted_def ks_reason_def

text \<open>Bookkeeping fields are invisible to the contract.\<close>

definition ks_view :: "kill_switch \<Rightarrow> _" where
  "ks_view s = (ks_state s, ks_phase s, ks_generation s, ks_resume_authorized s, ks_acknowledged_by s,
     ks_last_authority_error s, ks_last_running_generation s, wiring s)"

lemma ks_frame: "ks_view s' = ks_view s \<Longrightarrow> ks_inv w s \<Longrightarrow> ks_inv w s' \<and> ks_guar H s s'"
  by (auto simp: ks_view_def ks_guar_def ks_inv_def coherent_def enforced_def
      ks_halted_def ks_reason_def wiring_def)

lemma keeps_bookkeeping: "(\<And>s. ks_view (f s) = ks_view s) \<Longrightarrow> switch.keeps w E H (modify f)"
  by (rule switch.keeps_modify) (rule ks_frame)

lemma keeps_await: "q \<noteq> Exchange_call \<Longrightarrow> switch.keeps w E H (await q)"
  unfolding await_def by (intro switch.keeps_Await switch.keeps_lift_sum) (simp add: ks_pre_def)

section \<open>Every method keeps the contract\<close>

lemma keeps_time_now: "switch.keeps w E H time_now"
  and keeps_new_generation: "switch.keeps w E H new_generation"
  unfolding time_now_def new_generation_def by (intro switch.keeps_rules)+

lemma keeps_latch_degraded: "switch.keeps w E H (latch_degraded r)"
  unfolding latch_degraded_def by (rule switch.keeps_modify) (simp add: ks_state_simps ks_guar_def)

lemma keeps_latch_and_raise: "switch.keeps w E H (latch_and_raise r e)"
  and keeps_refuse: "switch.keeps w E H (refuse r)"
  unfolding refuse_def latch_and_raise_def by (intro switch.keeps_rules keeps_latch_degraded)+

lemma keeps_apply_running: "switch.keeps w E H (apply_running E' g t a)"
  unfolding apply_running_def
  by (intro switch.keeps_rules switch.keeps_modify) (simp add: ks_state_simps ks_guar_def)

lemma keeps_begin_halt: "switch.keeps w E H (begin_halt E' r g t)"
  unfolding begin_halt_def
proof (intro switch.keeps_cbind switch.keeps_Get_at switch.keeps_at_Let switch.keeps_at_if, goal_cases)
  case 1
  show ?case by (intro switch.keeps_rules)
next
  case (2 explicit s blocked)
  then show ?case
    by (intro switch.keeps_at_modify switch.keeps_Return) (auto simp: ks_state_simps ks_guar_def)
next
  case (3 explicit s blocked)
  show ?case
    by (intro switch.keeps_at_keeps [OF 3(1)] switch.keeps_rules switch.keeps_modify keeps_time_now
        keeps_new_generation) (simp add: ks_state_simps ks_guar_def)
qed

text \<open>Acknowledging a halt needs the fence, except where no acknowledgement of execution is at stake.\<close>

lemma keeps_mark_halt_enforced:
  "Fence \<in> H \<or> \<not> fst (snd w) \<Longrightarrow> switch.keeps w E H (mark_halt_enforced g)"
  unfolding mark_halt_enforced_def
  by (rule switch.keeps_modify) (auto simp: ks_state_simps ks_guar_def)

lemma keeps_drain: "Fence \<notin> H \<Longrightarrow> switch.keeps w E H (drain_submission_fence g)"
  unfolding drain_submission_fence_def by (intro switch.keeps_with_lock keeps_mark_halt_enforced) auto

lemma keeps_delete_permission: "switch.keeps w E H (delete_trading_permission_locked g)"
  unfolding delete_trading_permission_locked_def
  by (intro switch.keeps_rules keeps_bookkeeping keeps_await) (auto simp: ks_view_def wiring_def)

lemma keeps_delete_permissions: "switch.keeps w E H (delete_permissions gs)"
  by (induction gs) (auto intro: switch.keeps_rules keeps_delete_permission)

lemma keeps_revoke:
  "Permission_io \<notin> H \<Longrightarrow> switch.keeps w E H (best_effort_revoke_trading_permission E' g)"
  unfolding best_effort_revoke_trading_permission_def
  by (intro switch.keeps_rules switch.keeps_with_lock keeps_delete_permissions)

text \<open>Adopting a halt from the store: under the fence, or in a process that owns the lease.\<close>

lemma keeps_adopt_halt:
  "Fence \<in> H \<or> fst w \<in> set permission_issuers \<Longrightarrow> switch.keeps w E H (adopt_halt E' d a)"
  unfolding adopt_halt_def
  by (rule switch.keeps_modify) (auto simp: ks_state_simps ks_guar_def permission_issuers_def)

lemma keeps_write_permission: "switch.keeps w E H (write_permission g)"
  unfolding write_permission_def
  by (intro switch.keeps_rules keeps_bookkeeping keeps_await keeps_delete_permission keeps_time_now)
    (auto simp: ks_view_def wiring_def)

lemma keeps_case_json:
  "switch.keeps w E H c \<Longrightarrow> (\<And>d. switch.keeps w E H (f d))
    \<Longrightarrow> switch.keeps w E H (case v of JObj d \<Rightarrow> f d | _ \<Rightarrow> c)"
  by (cases v) simp_all

lemma keeps_renew_locked:
  "fst w \<in> set permission_issuers \<Longrightarrow> switch.keeps w E H (renew_locked E' g)"
  unfolding renew_locked_def
  by (intro switch.keeps_rules keeps_await keeps_case_json keeps_adopt_halt keeps_delete_permission
      keeps_write_permission) auto

lemma keeps_renew:
  assumes "Permission_io \<notin> H"
  shows "switch.keeps w E H (renew_trading_permission_once E')"
  unfolding renew_trading_permission_once_def
proof (rule switch.keeps_Get)
  fix s assume s: "ks_inv w s"
  show "switch.keeps w E H (if \<not> is_permission_lease_owner s then Raise (Authority_Error ''kill_switch_permission_renew_forbidden_for_role'')
    else if \<not> ks_has_store s then Raise (Authority_Error ''kill_switch_permission_authority_unavailable'')
    else if \<not> running_permission_eligible s
    then cseq (best_effort_revoke_trading_permission E' (Some (ks_last_running_generation s))) (Return False)
    else with_lock Permission_io Cancelled (renew_locked E' (ks_generation s)))"
    using assms s
    by (intro switch.keeps_rules keeps_revoke switch.keeps_with_lock keeps_renew_locked)
      (auto simp: ks_inv_def wiring_def is_permission_lease_owner_def)
qed

lemma keeps_lease_round: "switch.keeps w E {} (trading_permission_lease_round E')"
  unfolding trading_permission_lease_round_def
  by (intro switch.keeps_rules keeps_renew keeps_revoke keeps_time_now keeps_latch_and_raise) auto

lemma keeps_lease_loop: "switch.keeps w E {} (trading_permission_lease_loop E' n)"
  by (induction n) (auto intro!: switch.keeps_rules keeps_lease_round keeps_await)

lemma keeps_start_lease: "switch.keeps w E {} (start_trading_permission_lease E')"
  unfolding start_trading_permission_lease_def
  by (intro switch.keeps_rules keeps_bookkeeping keeps_renew) (auto simp: ks_view_def wiring_def)

lemma keeps_stop: "switch.keeps w E {} (stop E')"
  unfolding stop_def stop_trading_permission_lease_def
  by (intro switch.keeps_rules keeps_bookkeeping keeps_revoke keeps_await) (auto simp: ks_view_def wiring_def)

lemma keeps_redis_set: "switch.keeps w E H (best_effort_redis_set p)"
  and keeps_nats: "switch.keeps w E H (best_effort_nats_broadcast p)"
  and keeps_authoritative_set: "switch.keeps w E H (authoritative_redis_set p)"
  unfolding best_effort_redis_set_def best_effort_nats_broadcast_def authoritative_redis_set_def
  by (intro switch.keeps_rules keeps_await; simp)+

lemma keeps_publish: "Permission_io \<notin> H \<Longrightarrow> switch.keeps w E H (publish E' b r p g t a)"
  unfolding publish_def
  by (intro switch.keeps_rules keeps_bookkeeping keeps_revoke keeps_redis_set keeps_nats)
    (auto simp: ks_view_def wiring_def)

lemma keeps_finalize_halt: "switch.keeps w E {} (finalize_halt E' r g)"
  unfolding finalize_halt_def
  by (intro switch.keeps_rules keeps_bookkeeping keeps_drain keeps_publish keeps_time_now)
    (auto simp: ks_view_def wiring_def)

lemma keeps_publish_and_finalize:
  "switch.keeps w E {} (publish_and_maybe_finalize_halt E' b r p g t a f)"
  unfolding publish_and_maybe_finalize_halt_def
  by (intro switch.keeps_rules keeps_publish keeps_finalize_halt) auto

lemma keeps_halt_async: "switch.keeps w E {} (halt_async E' r g t)"
  unfolding halt_async_def
  by (intro switch.keeps_rules keeps_begin_halt keeps_publish keeps_finalize_halt) auto

lemma keeps_dispatch_publish: "switch.keeps w E H (dispatch_async_publish E' r g t)"
  unfolding dispatch_async_publish_def
  by (intro switch.keeps_rules keeps_bookkeeping) (simp add: ks_view_def wiring_def)

lemma keeps_halt: "switch.keeps w E {} (halt E' r)"
  unfolding halt_def
  by (intro switch.keeps_rules keeps_begin_halt keeps_mark_halt_enforced keeps_dispatch_publish)
    (auto simp: ks_inv_def wiring_def)

lemma keeps_renew_or_latch: "switch.keeps w E {} (renew_or_latch E')"
proof -
  have "switch.keeps w E {} (case e of Authority_Error m \<Rightarrow> latch_and_raise r e | _ \<Rightarrow> Raise e)" for e r
    by (cases e) (auto intro: switch.keeps_rules keeps_latch_and_raise)
  then show ?thesis
    unfolding renew_or_latch_def by (intro switch.keeps_rules keeps_renew) auto
qed

lemma keeps_resume_async: "switch.keeps w E {} (resume_async E')"
  unfolding resume_async_def
proof (intro switch.keeps_rules switch.keeps_modify keeps_renew_or_latch keeps_new_generation keeps_time_now
      keeps_authoritative_set keeps_latch_and_raise keeps_apply_running keeps_nats, goal_cases)
  case (1 s g t previous reason payload s')
  from 1(4) have "reason \<noteq> None" by (auto simp: str_truthy_def split: option.splits if_splits)
  with 1(6) show ?case by (auto simp: ks_state_simps ks_guar_def)
next
  case 2
  then show ?case by (intro ks_frame) (simp_all add: ks_view_def wiring_def)
qed

lemma keeps_resume: "switch.keeps w E {} (resume E')"
  unfolding resume_def dispatch_async_resume_def
  by (intro switch.keeps_rules switch.keeps_modify keeps_new_generation keeps_time_now keeps_apply_running
      keeps_latch_degraded) (auto simp: ks_state_simps ks_guar_def)

lemma keeps_resume_thread_outcome: "switch.keeps w E H (resume_thread_outcome v)"
  unfolding resume_thread_outcome_def
  by (cases v) (simp_all add: keeps_latch_degraded switch.keeps_Return)

lemma keeps_activate:
  "switch.keeps w E {} (activate_trading_permission_for_authorized_generation E' g)"
proof -
  have "switch.keeps w E {} (case e of Authority_Error m \<Rightarrow> Raise e | _ \<Rightarrow> Raise x)" for e x
    by (cases e) (auto intro: switch.keeps_rules)
  then show ?thesis
    unfolding activate_trading_permission_for_authorized_generation_def
    by (intro switch.keeps_rules keeps_await keeps_case_json keeps_latch_and_raise keeps_latch_degraded
        keeps_apply_running keeps_renew) auto
qed

section \<open>Remote events\<close>

text \<open>\<^verbatim>\<open>str\<close> of a value that is not a string is never the bare word of a process role.\<close>

definition env_ok :: "py_env \<Rightarrow> bool" where
  "env_ok E \<longleftrightarrow> (\<forall>v. repr_of E v \<noteq> ''execution'')"

lemma py_str_execution: "env_ok E \<Longrightarrow> py_str E v = ''execution'' \<longleftrightarrow> v = JStr ''execution''"
  by (cases v) (auto simp: env_ok_def)

lemma keeps_resume_matches: "switch.keeps w E H (authoritative_resume_matches E' g)"
  unfolding authoritative_resume_matches_def
  by (intro switch.keeps_rules keeps_await keeps_case_json) auto

lemma keeps_remote_applied: "switch.keeps w E H (remote_applied m t p)"
  unfolding remote_applied_def by (rule keeps_bookkeeping) (simp add: ks_view_def wiring_def)

lemma keeps_remote_ack:
  assumes "env_ok E'" "rem_source_role m \<noteq> JStr (fst w)"
  shows "switch.keeps w E H (modify (\<lambda>s. s\<lparr>ks_phase := HALTED,
           ks_acknowledged_by := Some (str_or_default E' (rem_source_role m) ''remote'')\<rparr>))"
  using assms
  by (intro switch.keeps_modify) (auto simp: ks_state_simps ks_guar_def str_or_default_def py_str_execution)

lemma keeps_apply_remote:
  assumes "env_ok E'"
  shows "switch.keeps w E {} (apply_remote E' m)"
  unfolding apply_remote_def
  by (intro switch.keeps_rules keeps_begin_halt keeps_remote_ack [OF assms] keeps_remote_applied
      keeps_finalize_halt keeps_latch_degraded keeps_resume_matches keeps_apply_running)
    (auto simp: ks_inv_def wiring_def)

lemma keeps_handle_remote_event: "env_ok E' \<Longrightarrow> switch.keeps w E {} (handle_remote_event E' p)"
  unfolding handle_remote_event_def
  by (auto intro: switch.keeps_rules keeps_apply_remote split: sum.splits)

section \<open>The submission guard\<close>

text \<open>Inside the fence nobody else can acknowledge a halt.\<close>

lemma authority_seen_snoc: "authority_seen E h g \<Longrightarrow> authority_seen E (h @ [x]) g"
  by (auto simp: authority_seen_def)

lemma lease_seen_snoc:
  "kill_switch_permission_key g = Inr key \<Longrightarrow> json_item l ''generation'' = Inr v \<Longrightarrow> py_str E v = g
    \<Longrightarrow> json_item l ''issued_by'' = Inr i \<Longrightarrow> py_str E i \<in> set permission_issuers
    \<Longrightarrow> json_item l ''issued_at'' = Inr t
    \<Longrightarrow> require_finite_positive_timestamp E t ''kill_switch_permission_issued_at'' = Inr ts
    \<Longrightarrow> lease_seen E (h @ [(Store_get key, Inr (JObj l))]) g"
  unfolding lease_seen_def valid_lease_def by (intro exI [of _ key] exI [of _ l]) simp

lemma wp_refuse:
  "ks_inv w s \<Longrightarrow> (\<And>e s. ks_inv w s \<Longrightarrow> X e H h s) \<Longrightarrow> wp (ks_inv w) ks_guar ks_rly P (refuse r) Q X H h s"
  by (simp add: refuse_def latch_and_raise_def latch_degraded_def wp_rules ks_guar_def ks_state_simps)

lemma wp_require_trading_permission:
  assumes "ks_inv w s" "Fence \<in> H" "\<not> enforced s" "authority_seen E h g"
  shows "wp (ks_inv w) ks_guar ks_rly (ks_pre E) (require_trading_permission E g)
    (\<lambda>_ H' h' s'. H' = H \<and> ks_inv w s' \<and> \<not> enforced s' \<and> authority_seen E h' g \<and> lease_seen E h' g)
    (\<lambda>_ H' _ s'. H' = H \<and> ks_inv w s') H h s"
  using assms
  unfolding require_trading_permission_def
  by (auto simp: wp_rules ks_pre_def ks_rly_def ebind_def
      intro!: wp_refuse authority_seen_snoc intro: lease_seen_snoc split: sum.splits json.splits prod.splits)

lemma wp_refresh:
  assumes "ks_inv w s" "Fence \<in> H"
  shows "wp (ks_inv w) ks_guar ks_rly (ks_pre E) (refresh_authoritative_state_for_submission E)
    (\<lambda>_ H' h' s'. H' = H \<and> ks_inv w s' \<and> (ks_halted s' \<or> authority_seen E h' (ks_generation s')))
    (\<lambda>_ H' _ s'. H' = H \<and> ks_inv w s') H h s"
proof -
  have adopt: "wp (ks_inv w) ks_guar ks_rly (ks_pre E) (adopt_halt E d a)
    (\<lambda>_ H' h' s'. H' = H \<and> ks_inv w s' \<and> (ks_halted s' \<or> authority_seen E h' (ks_generation s')))
    (\<lambda>_ H' _ s'. H' = H \<and> ks_inv w s') H h' s'" if "ks_inv w s'" for d a h' s'
    using that assms(2) by (simp add: adopt_halt_def wp_rules ks_guar_def) (simp add: ks_state_simps)
  have run: "wp (ks_inv w) ks_guar ks_rly (ks_pre E) (apply_running E g t b)
    (\<lambda>_ H' h' s'. H' = H \<and> ks_inv w s' \<and> (ks_halted s' \<or> authority_seen E h' (ks_generation s')))
    (\<lambda>_ H' _ s'. H' = H \<and> ks_inv w s') H h' s'" if "ks_inv w s'" "authority_seen E h' g" for g t b h' s'
    using that
    by (auto simp: apply_running_def wp_rules ks_guar_def ks_state_simps split: sum.splits)
  have seen: "authority_seen E (h @ [(Store_get kill_switch_redis_key, Inr (JObj d))]) (auth_generation a)"
    if "parse_authority E d = Inr a" "\<not> json_truthy (auth_halted a)" "auth_state a = ''RUNNING''"
       "json_truthy (auth_resume_authorized a)" for d a
    unfolding authority_seen_def running_authority_def
    using that by (intro exI [of _ d]) simp
  show ?thesis
    using assms seen
    unfolding refresh_authoritative_state_for_submission_def
    by (auto simp: wp_rules ks_pre_def intro!: wp_refuse adopt run split: sum.splits json.splits) metis
qed

text \<open>After the fresh read of the authority and the second local check, the lease check completes the
  evidence; what follows may call the exchange.\<close>

lemma wp_guard_tail:
  assumes s: "ks_inv w s" and H: "Fence \<in> H" and seen: "ks_halted s \<or> authority_seen E h (ks_generation s)"
    and Q: "\<And>h s. ks_inv w s \<Longrightarrow> \<not> enforced s \<Longrightarrow> (permission_lease_required s \<longrightarrow> authorised E h) \<Longrightarrow> Q () H h s"
    and X: "\<And>e h s. ks_inv w s \<Longrightarrow> X e H h s"
  shows "wp (ks_inv w) ks_guar ks_rly (ks_pre E)
    (cseq (check_local g) (Get (\<lambda>s. if permission_lease_required s then require_trading_permission E g else Return ())))
    Q X H h s"
proof (cases "ks_halted s \<or> g \<noteq> ks_generation s")
  case True
  with s X show ?thesis by (auto simp: check_local_def wp_rules)
next
  case False
  then have ne: "\<not> enforced s" and sn: "authority_seen E h g"
    using seen by (auto simp: enforced_def)
  have "wp (ks_inv w) ks_guar ks_rly (ks_pre E) (require_trading_permission E g) Q X H h s"
    by (rule wp_mono [OF wp_require_trading_permission [OF s H ne sn]])
      (use Q X in \<open>auto simp: authorised_def\<close>)
  with False s ne Q show ?thesis by (simp add: check_local_def wp_rules)
qed

lemma keeps_guard: "switch.keeps w E {} (risk_increasing_submission_guard E g (await Exchange_call))"
proof -
  let ?wp = "wp (ks_inv w) ks_guar ks_rly (ks_pre E)"
  let ?Q = "\<lambda>_ H _ s. H = {Fence} \<and> ks_inv w s"
  have body: "?wp (await Exchange_call) ?Q ?Q {Fence} h s"
    if "ks_inv w s" "\<not> enforced s" "permission_lease_required s \<longrightarrow> authorised E h" for h s
    using that by (simp add: wp_await ks_pre_def)
  have strict: "?wp (cseq (refresh_authoritative_state_for_submission E)
      (cseq (check_local g) (Get (\<lambda>s. if permission_lease_required s then require_trading_permission E g else Return ()))))
      (\<lambda>_. ?wp (await Exchange_call) ?Q ?Q) ?Q {Fence} h s"
    if "ks_inv w s" for h s
    unfolding wp_cbind [of _ _ _ _ "refresh_authoritative_state_for_submission E"]
    by (rule wp_mono [OF wp_refresh [OF that]]) (use body in \<open>auto intro!: wp_guard_tail\<close>)
  have "?wp (cseq (check_local g) (Get (\<lambda>s. cseq (if ks_bootstrapped s
          then cseq (refresh_authoritative_state_for_submission E)
               (cseq (check_local g)
               (Get (\<lambda>s. if permission_lease_required s then require_trading_permission E g else Return ())))
          else Return ()) (await Exchange_call)))) ?Q ?Q {Fence} h s" if s: "ks_inv w s" for h s
  proof (cases "ks_halted s \<or> g \<noteq> ks_generation s")
    case True
    with s show ?thesis by (auto simp: check_local_def wp_rules)
  next
    case False
    then have "\<not> enforced s" by (simp add: enforced_def)
    with False strict [OF s, of h] body [OF s] show ?thesis
      by (simp add: check_local_def wp_ends wp_steps wp_cbind [of _ _ _ _ "Get _"] wp_cbind [of _ _ _ _ "if _ then _ else _"]
          wp_cbind [of _ _ _ _ "Return _"] permission_lease_required_def)
  qed
  then show ?thesis
    unfolding risk_increasing_submission_guard_def
    by (intro switch.keeps_with_lock) (simp_all add: switch.keeps_def)
qed

section \<open>Every interleaving\<close>

text \<open>The tasks a process may run, in any number and with any arguments.\<close>

inductive ks_program :: "py_env \<Rightarrow> unit ks \<Rightarrow> bool" for E :: py_env where
  submission: "ks_program E (as_task (risk_increasing_submission_guard E g (await Exchange_call)))"
| halting: "ks_program E (as_task (halt_async E r g' t))"
| halting_sync: "ks_program E (as_task (halt E r))"
| publication: "ks_program E (as_task (publish_and_maybe_finalize_halt E b rs p g ts a f))"
| resuming: "ks_program E (as_task (resume_async E))"
| resuming_sync: "ks_program E (as_task (resume E))"
| resume_wait: "ks_program E (resume_thread_outcome v)"
| activation: "ks_program E (activate_trading_permission_for_authorized_generation E g)"
| lease_start: "ks_program E (as_task (start_trading_permission_lease E))"
| lease_loop: "ks_program E (trading_permission_lease_loop E n)"
| stopping: "ks_program E (stop E)"
| remote: "ks_program E (handle_remote_event E m)"

lemma program_honours: "env_ok E \<Longrightarrow> ks_program E c \<Longrightarrow> switch.honours w E c"
  by (erule ks_program.cases)
    (auto intro!: switch.keeps_honours switch.keeps_as_task keeps_guard keeps_halt_async keeps_halt
      keeps_publish_and_finalize keeps_resume_async keeps_resume keeps_resume_thread_outcome keeps_activate
      keeps_start_lease keeps_lease_loop keeps_stop keeps_handle_remote_event)

lemma reachable_ok:
  assumes "env_ok E" "coherent s" "sys_reaches (ks_program E) (idle s) cfg"
  shows "switch.sys_ok (wiring s) E s cfg"
  by (rule switch.reaches_ok [OF assms(3)]) (simp_all add: ks_inv_def assms program_honours)

lemma coherent_new: "coherent (new_kill_switch g t)"
  by (simp add: coherent_def new_kill_switch_def ks_halted_def ks_reason_def)

text \<open>Whatever the tasks of a process interleave and whatever the store, the bus and the exchange
  answer, the switch stays coherent: it is halted exactly when resumption is not authorised and
  exactly when it has a reason; RUNNING means not halted, under the last running generation; HALTING
  and DEGRADED mean halted, and DEGRADED records its cause.  Role, bootstrap and strictness stay.\<close>

theorem switch_stays_coherent:
  assumes "env_ok E" "coherent s" "sys_reaches (ks_program E) (idle s) cfg"
  shows "coherent (sys_state cfg) \<and> wiring (sys_state cfg) = wiring s"
  using switch.state_inv [OF reachable_ok [OF assms]] by (simp add: ks_inv_def)

text \<open>C1. In a strict process no risk-increasing order reaches the exchange without evidence collected
  by that very submission: a stored record that says RUNNING with resumption authorised for a
  generation, and a live lease of an entitled issuer for the same generation; and the submission
  holds the fence, so that at most one is under way.\<close>

theorem submission_needs_authority:
  assumes "env_ok E" "coherent s" "sys_reaches (ks_program E) (idle s) cfg"
    and "sys_tasks cfg i = Some (Await Exchange_call k)"
  shows "(ks_bootstrapped s \<and> ks_fail_closed s \<longrightarrow> authorised E (sys_hist cfg i)) \<and>
    (\<forall>j k'. sys_tasks cfg j = Some (Await Exchange_call k') \<longrightarrow> j = i)"
proof -
  have fence: "sys_locks cfg Fence = Some j \<and> (permission_lease_required s \<longrightarrow> authorised E (sys_hist cfg j))"
    if task: "sys_tasks cfg j = Some (Await Exchange_call k')" for j k'
  proof -
    obtain s0 where "ks_pre E (held_by j (sys_locks cfg)) (sys_hist cfg j) s0 Exchange_call" "ks_inv (wiring s) s0"
      by (rule switch.awaiting [OF reachable_ok [OF assms(1-3)] task])
    then show ?thesis
      by (auto simp: ks_pre_def held_by_def ks_inv_def wiring_def permission_lease_required_def)
  qed
  show ?thesis
    using fence [OF assms(4)] fence by (fastforce simp: permission_lease_required_def)
qed


section \<open>Start-up\<close>

text \<open>The stored record that lets a restarted process trade: not halted, a valid timestamp, an explicit
  generation, RUNNING (or no state at all) and resumption authorised.\<close>

definition restart_authorised :: "py_env \<Rightarrow> (string \<times> json) list \<Rightarrow> bool" where
  "restart_authorised E d \<longleftrightarrow>
     \<not> json_truthy (dict_get d ''halted'' (JBool False)) \<and>
     (\<exists>ts. require_finite_positive_timestamp E (json_get d ''set_at_ts'') ''kill_switch_set_at_ts'' = Inr ts) \<and>
     (case json_get d ''generation'' of JNull \<Rightarrow> False | JStr g \<Rightarrow> g \<noteq> [] | JList _ \<Rightarrow> False | JObj _ \<Rightarrow> False | _ \<Rightarrow> True) \<and>
     str_or_default E (json_get d ''state'') ''RUNNING'' = ''RUNNING'' \<and>
     json_truthy (dict_get d ''resume_authorized'' (JBool False))"

lemma timestamp_error: "require_finite_positive_timestamp E v f = Inl e \<Longrightarrow> e \<noteq> Cancelled"
  by (cases v) (auto simp: require_finite_positive_timestamp_def ebind_def Let_def split: if_splits option.splits)

lemma timestamp_positive: "require_finite_positive_timestamp E v f = Inr t \<Longrightarrow> 0 < t"
  by (cases v) (auto simp: require_finite_positive_timestamp_def ebind_def Let_def split: if_splits option.splits sum.splits)

lemma timestamp_of_float:
  "require_finite_positive_timestamp E (JFloat t) f =
     (if t \<le> 0 then Inl (Value_Error (f @ ''_must_be_finite_and_positive'')) else Inr t)"
  by (simp add: require_finite_positive_timestamp_def Let_def ebind_def)

lemmas bootstrap_defs = bootstrap_def hydrate_def modify_def await_def latch_degraded_def apply_running_def
  is_exception_def ks_halted_def restart_authorised_def Let_def

text \<open>C21. After a restart a strict process is free to trade exactly when the store answered with a record
  that authorises it: an unreachable store, an empty or malformed record, a halted one or one without
  explicit authorisation all leave it halted.\<close>

theorem restart_stays_blocked:
  assumes "run_alone clock ids world (bootstrap E role True) n s = (Inr u, s')"
  shows "\<not> ks_halted s' \<longleftrightarrow>
    (\<exists>d. world n (Store_get kill_switch_redis_key) = Inr (JObj d) \<and> restart_authorised E d)"
proof (cases "world n (Store_get kill_switch_redis_key)")
  case (Inl e)
  then show ?thesis
    using assms by (cases "world (Suc n) Bus_subscribe") (auto simp: bootstrap_defs split: if_splits sum.splits)
next
  case (Inr v)
  show ?thesis
  proof (cases "\<exists>d. v = JObj d")
    case False
    then show ?thesis
      using assms Inr
      by (cases v; cases "world (Suc n) Bus_subscribe") (auto simp: bootstrap_defs split: if_splits sum.splits)
  next
    case True
    then obtain d where v: "v = JObj d" by blast
    show ?thesis
    proof (cases "require_finite_positive_timestamp E (json_get d ''set_at_ts'') ''kill_switch_set_at_ts''")
      case (Inl e)
      then show ?thesis
        using assms Inr v timestamp_error [OF Inl]
        by (cases "world (Suc n) Bus_subscribe") (auto simp: bootstrap_defs split: if_splits sum.splits)
    next
      case ts: (Inr ts)
      show ?thesis
        using assms Inr v ts timestamp_positive [OF ts]
        by (cases "json_get d ''generation''"; cases "world (Suc n) Bus_subscribe")
          (auto simp: bootstrap_defs timestamp_of_float split: if_splits sum.splits)
    qed
  qed
qed

section \<open>A stale read undoes a halt\<close>

text \<open>A concrete process: running under generation \<open>g1\<close>; a submission waits for its fresh read of the
  authority when the operator halts; the read then delivers the record as it was before the halt.\<close>

definition plain_env :: py_env where
  "plain_env = \<lparr>repr_of = (\<lambda>_. ''{}''), float_of_str = (\<lambda>_. None), fmt6 = (\<lambda>_. ''0.000000''), set_order = (\<lambda>xs. xs)\<rparr>"

definition running_switch :: kill_switch where
  "running_switch = (new_kill_switch ''g1'' 1)\<lparr>ks_has_store := True, ks_has_bus := True,
     ks_process_role := ''execution'', ks_loop := Loop_running, ks_bootstrapped := True\<rparr>"

definition stored_running :: json where
  "stored_running = transition_payload running_switch False None RUNNING ''g1'' 1 True"

definition stored_lease :: json where
  "stored_lease = JObj [(''generation'', JStr ''g1''), (''issued_by'', JStr ''gateway''), (''issued_at'', JFloat 2)]"

definition race_start :: "(kill_switch, ks_io, ks_error + json, ks_error, ks_lock) sys" where
  "race_start = start 0 (\<lambda>_. 5) (\<lambda>_. ''a'')
     (as_task (risk_increasing_submission_guard plain_env ''g1'' (await Exchange_call))) (idle running_switch)"

definition race_halted :: "(kill_switch, ks_io, ks_error + json, ks_error, ks_lock) sys" where
  "race_halted = start 1 (\<lambda>_. 6) (\<lambda>_. ''b'') (as_task (halt_async plain_env ''operator'' None None)) race_start"

definition race_checked :: "(kill_switch, ks_io, ks_error + json, ks_error, ks_lock) sys" where
  "race_checked = answer 0 (\<lambda>_. 7) (\<lambda>_. ''c'') (Inr stored_running) race_halted"

definition race_sent :: "(kill_switch, ks_io, ks_error + json, ks_error, ks_lock) sys" where
  "race_sent = answer 0 (\<lambda>_. 8) (\<lambda>_. ''d'') (Inr stored_lease) race_checked"

lemmas ks_run_simps = await_def as_task_def modify_def with_lock_def time_now_def new_generation_def
  check_local_def refresh_authoritative_state_for_submission_def require_trading_permission_def
  risk_increasing_submission_guard_def apply_running_def adopt_halt_def refuse_def latch_and_raise_def
  latch_degraded_def halt_async_def begin_halt_def publish_def best_effort_revoke_trading_permission_def
  delete_trading_permission_locked_def start_def answer_def activate_def idle_def ks_halted_def
  running_switch_def new_kill_switch_def Let_def str_truthy_def kill_switch_permission_key_def make_key_def
  timestamp_of_float dict_get_def json_item_def json_get_def ebind_def parse_authority_def
  stored_running_def stored_lease_def transition_payload_def phase_str_def permission_lease_required_def
  permission_issuers_def plain_env_def kill_switch_redis_key_def

lemma race_start_eval:
  "sys_tasks race_start 1 = None" "sys_locks race_start l \<noteq> Some 1"
  by (simp_all add: race_start_def ks_run_simps)

lemma race_halted_phase: "ks_phase (sys_state race_halted) = HALTING"
  by (simp add: race_halted_def race_start_def ks_run_simps)

lemma race_sent_eval:
  "ks_phase (sys_state race_sent) = RUNNING" "ks_state (sys_state race_sent) = (False, None)"
  "\<exists>k. sys_tasks race_sent 0 = Some (Await Exchange_call k)"
  by (simp_all add: race_sent_def race_checked_def race_halted_def race_start_def ks_run_simps)

lemma race_reaches:
  assumes "prog (as_task (risk_increasing_submission_guard plain_env ''g1'' (await Exchange_call)))"
    and "prog (as_task (halt_async plain_env ''operator'' None None))"
  shows "sys_reaches prog (idle running_switch) race_halted" "sys_reaches prog race_halted race_sent"
  unfolding race_sent_def race_checked_def race_halted_def
  by (intro answer_reaches start_reaches sys_reaches_refl race_start_eval assms;
      simp add: race_start_def start_reaches sys_reaches_refl assms idle_def)+

text \<open>C22. The final check can undo a halt.  With one submission and one halt running and nobody resuming,
  the process reaches HALTING and from there RUNNING again, with the order on its way to the exchange:
  the authority record that the guard read before the halt names another generation than the halted
  switch and is adopted as if it were newer.\<close>

theorem stale_read_undoes_halt:
  "\<exists>cfg cfg' k. let only = (\<lambda>c. c \<in> {as_task (risk_increasing_submission_guard plain_env ''g1'' (await Exchange_call)),
                                    as_task (halt_async plain_env ''operator'' None None)}) in
     sys_reaches only (idle running_switch) cfg \<and> ks_phase (sys_state cfg) = HALTING \<and>
     sys_reaches only cfg cfg' \<and> ks_phase (sys_state cfg') = RUNNING \<and> \<not> ks_halted (sys_state cfg') \<and>
     sys_tasks cfg' 0 = Some (Await Exchange_call k)"
proof -
  obtain k where k: "sys_tasks race_sent 0 = Some (Await Exchange_call k)" using race_sent_eval(3) by blast
  show ?thesis
    by (rule exI [of _ race_halted], rule exI [of _ race_sent], rule exI [of _ k])
      (simp add: race_reaches race_halted_phase race_sent_eval(1,2) k ks_halted_def)
qed

section \<open>Witnesses\<close>

lemma env_ok_plain: "env_ok plain_env"
  by (simp add: env_ok_def plain_env_def)

lemma coherent_running: "coherent running_switch"
  by (simp add: coherent_def running_switch_def new_kill_switch_def ks_halted_def ks_reason_def)

lemma race_sent_reachable: "sys_reaches (ks_program plain_env) (idle running_switch) race_sent"
  using race_reaches [of "ks_program plain_env", OF ks_program.submission ks_program.halting]
  unfolding sys_reaches_def by (rule rtranclp_trans)

theorem switch_stays_coherent_witness:
  "coherent (sys_state race_sent) \<and> wiring (sys_state race_sent) = (''execution'', True, True)"
  using switch_stays_coherent [OF env_ok_plain coherent_running race_sent_reachable]
  by (simp add: wiring_def running_switch_def new_kill_switch_def)

theorem submission_needs_authority_witness:
  "authorised plain_env (sys_hist race_sent 0)"
  using submission_needs_authority [OF env_ok_plain coherent_running race_sent_reachable] race_sent_eval(3)
  by (auto simp: running_switch_def new_kill_switch_def)


theorem restart_stays_blocked_witness:
  "\<not> ks_halted (snd (run_alone (\<lambda>_. 1) (\<lambda>_. ''x'') (\<lambda>_ _. Inr stored_running)
       (bootstrap plain_env ''execution'' True) 0 (new_kill_switch ''g0'' 1)))"
proof -
  let ?r = "run_alone (\<lambda>_. 1) (\<lambda>_. ''x'') (\<lambda>_ _. Inr stored_running)
       (bootstrap plain_env ''execution'' True) 0 (new_kill_switch ''g0'' 1)"
  have "?r = (Inr (), snd ?r)"
    by (simp add: bootstrap_def hydrate_def ks_run_simps str_or_default_def)
  from restart_stays_blocked [OF this] show ?thesis
    by (simp add: restart_authorised_def ks_run_simps str_or_default_def)
qed

end
