(* ===== verification/Outbox.thy ===== *)
theory Outbox
  imports Coroutine "HOL-Library.Product_Lexorder"
begin

text \<open>
  The transactional outbox: the table and repository of \<^verbatim>\<open>storage/outbox_repo_postgres.py\<close> and the
  delivery loop \<^verbatim>\<open>flush_pending\<close>, which \<^verbatim>\<open>execution_engine/outbox.py\<close> and
  \<^verbatim>\<open>portfolio_service/outbox.py\<close> share line by line.  A repository call is one transaction that
  commits at some point while the loop waits for it, or fails and leaves no trace.  The state is the
  table together with the stream of event ids the broker has acknowledged; a publication that times
  out may have reached the broker all the same, so the stream is what it has acknowledged at least.
  Any number of delivery loops and writers interleave.

  A row's payload is the envelope itself (validation of a dumped envelope returns it); timestamps are
  rationals and event ids compare as strings.
\<close>

section \<open>The table\<close>

datatype outbox_status = OB_PENDING | OB_PUBLISHED | OB_FAILED

record event_envelope =
  ev_event_id :: string
  ev_topic :: string
  ev_key :: string
  ev_source_component :: string
  ev_created_at :: rat
  ev_payload :: pyval

record outbox_row =
  ox_payload :: event_envelope
  ox_status :: outbox_status
  ox_attempt_count :: nat
  ox_published_at :: "rat option"
  ox_last_error :: "string option"

abbreviation ox_event_id :: "outbox_row \<Rightarrow> string" where
  "ox_event_id row \<equiv> ev_event_id (ox_payload row)"

type_synonym outbox_table = "outbox_row list"

definition get_row :: "outbox_table \<Rightarrow> string \<Rightarrow> outbox_row option" where
  "get_row rows event_id = find (\<lambda>row. ox_event_id row = event_id) rows"

definition change_row :: "string \<Rightarrow> (outbox_row \<Rightarrow> outbox_row) \<Rightarrow> outbox_table \<Rightarrow> outbox_table" where
  "change_row event_id f rows = map (\<lambda>row. if ox_event_id row = event_id then f row else row) rows"

definition enqueue_in_session :: "event_envelope \<Rightarrow> outbox_table \<Rightarrow> outbox_table" where
  "enqueue_in_session envelope rows = (case get_row rows (ev_event_id envelope) of
     Some _ \<Rightarrow> rows
   | None \<Rightarrow> rows @ [\<lparr>ox_payload = envelope, ox_status = OB_PENDING, ox_attempt_count = 0,
                      ox_published_at = None, ox_last_error = None\<rparr>])"

definition pending_order :: "outbox_row \<Rightarrow> rat \<times> string" where
  "pending_order row = (ev_created_at (ox_payload row), ox_event_id row)"

definition pending :: "nat \<Rightarrow> outbox_table \<Rightarrow> event_envelope list" where
  "pending limit rows =
     map ox_payload (take limit (sort_key pending_order (filter (\<lambda>row. ox_status row = OB_PENDING) rows)))"

definition published_row :: "rat \<Rightarrow> outbox_row \<Rightarrow> outbox_row" where
  "published_row now row = row\<lparr>ox_status := OB_PUBLISHED, ox_attempt_count := ox_attempt_count row + 1,
     ox_published_at := Some now, ox_last_error := None\<rparr>"

definition mark_published :: "rat \<Rightarrow> string \<Rightarrow> outbox_table \<Rightarrow> outbox_table" where
  "mark_published now event_id rows = change_row event_id (published_row now) rows"

primrec mark_published_batch :: "rat \<Rightarrow> string list \<Rightarrow> outbox_table \<Rightarrow> outbox_table" where
  "mark_published_batch now [] rows = rows"
| "mark_published_batch now (event_id # event_ids) rows =
     mark_published_batch now event_ids (mark_published now event_id rows)"

definition failed_row :: "string \<Rightarrow> nat option \<Rightarrow> outbox_row \<Rightarrow> outbox_row" where
  "failed_row error max_attempts row =
    (let row = row\<lparr>ox_attempt_count := ox_attempt_count row + 1, ox_last_error := Some (take 512 error)\<rparr>
     in case max_attempts of
          Some m \<Rightarrow> if ox_attempt_count row \<ge> m then row\<lparr>ox_status := OB_FAILED\<rparr> else row
        | None \<Rightarrow> row)"

definition record_failure_with_threshold ::
  "string \<Rightarrow> string \<Rightarrow> nat option \<Rightarrow> outbox_table \<Rightarrow> outbox_status option \<times> outbox_table" where
  "record_failure_with_threshold event_id error max_attempts rows =
    (let rows' = change_row event_id (failed_row error max_attempts) rows
     in (map_option ox_status (get_row rows' event_id), rows'))"

definition counts :: "outbox_table \<Rightarrow> nat \<times> nat \<times> nat" where
  "counts rows = (length (filter (\<lambda>row. ox_status row = OB_PENDING) rows),
                  length (filter (\<lambda>row. ox_status row = OB_PUBLISHED) rows),
                  length (filter (\<lambda>row. ox_status row = OB_FAILED) rows))"

section \<open>The delivery loop\<close>

record outbox_state =
  os_rows :: outbox_table
  os_stream :: "string list"

datatype outbox_error = Publish_Timeout | Bus_Failure string | Db_Failure string | Task_Cancelled

datatype outbox_io = Publish_envelope event_envelope | Transaction

type_synonym 'a outbox_coro = "(outbox_state, outbox_io, outbox_error + unit, outbox_error, unit, 'a) coro"

definition MAX_PUBLISH_ATTEMPTS :: nat where
  "MAX_PUBLISH_ATTEMPTS = 3"

text \<open>\<^verbatim>\<open>asyncio.to_thread\<close> of a repository call.\<close>

definition transaction :: "(outbox_table \<Rightarrow> 'a) \<Rightarrow> (outbox_table \<Rightarrow> outbox_table) \<Rightarrow> 'a outbox_coro" where
  "transaction result change = cseq (await Transaction) (Get (\<lambda>s.
     cseq (modify (\<lambda>s. s\<lparr>os_rows := change (os_rows s)\<rparr>)) (Return (result (os_rows s)))))"

definition error_text :: "outbox_error \<Rightarrow> string" where
  "error_text e = (case e of
     Publish_Timeout \<Rightarrow> ''TimeoutError: publish_timeout_seconds=5.0''
   | Bus_Failure m \<Rightarrow> m | Db_Failure m \<Rightarrow> m | Task_Cancelled \<Rightarrow> ''cancelled'')"

text \<open>One publication under its timeout: \<open>None\<close> when the broker acknowledged.\<close>

definition try_publish :: "event_envelope \<Rightarrow> outbox_error option outbox_coro" where
  "try_publish envelope =
    ccatch (cseq (await (Publish_envelope envelope))
              (cseq (modify (\<lambda>s. s\<lparr>os_stream := os_stream s @ [ev_event_id envelope]\<rparr>)) (Return None)))
      (\<lambda>e. if e = Task_Cancelled then Raise e else Return (Some e))"

definition mark_batch :: "string list \<Rightarrow> unit outbox_coro" where
  "mark_batch published_ids =
    (if published_ids = [] then Return ()
     else Clock (\<lambda>now. transaction (\<lambda>_. ()) (mark_published_batch now published_ids)))"

definition record_failure :: "string \<Rightarrow> string \<Rightarrow> outbox_status option outbox_coro" where
  "record_failure event_id error =
     transaction (\<lambda>rows. fst (record_failure_with_threshold event_id error (Some MAX_PUBLISH_ATTEMPTS) rows))
                 (\<lambda>rows. snd (record_failure_with_threshold event_id error (Some MAX_PUBLISH_ATTEMPTS) rows))"

primrec flush_loop :: "event_envelope list \<Rightarrow> string list \<Rightarrow> unit outbox_coro" where
  "flush_loop [] published_ids = mark_batch published_ids"
| "flush_loop (envelope # rest) published_ids =
     cbind (try_publish envelope) (\<lambda>outcome. case outcome of
       None \<Rightarrow> flush_loop rest (published_ids @ [ev_event_id envelope])
     | Some e \<Rightarrow>
         cseq (mark_batch published_ids)
         (cbind (record_failure (ev_event_id envelope) (error_text e)) (\<lambda>status.
            if status \<noteq> Some OB_FAILED then Return () else flush_loop rest [])))"

definition flush_pending :: "nat \<Rightarrow> unit outbox_coro" where
  "flush_pending limit = cbind (transaction (pending limit) (\<lambda>rows. rows)) (\<lambda>envelopes. flush_loop envelopes [])"

text \<open>The writers' side: one transaction enqueues its envelopes.\<close>

definition enqueue_all :: "event_envelope list \<Rightarrow> unit outbox_coro" where
  "enqueue_all envelopes = transaction (\<lambda>_. ()) (fold enqueue_in_session envelopes)"

section \<open>Invariant\<close>

definition row_ok :: "string set \<Rightarrow> outbox_row \<Rightarrow> bool" where
  "row_ok stream row \<longleftrightarrow>
     (ox_status row = OB_PUBLISHED \<longrightarrow> ox_event_id row \<in> stream) \<and>
     (ox_status row = OB_FAILED \<longrightarrow> MAX_PUBLISH_ATTEMPTS \<le> ox_attempt_count row) \<and>
     (ox_status row = OB_PENDING \<longrightarrow> ox_published_at row = None) \<and>
     (\<forall>e. ox_last_error row = Some e \<longrightarrow> length e \<le> 512)"

definition outbox_ok :: "outbox_state \<Rightarrow> bool" where
  "outbox_ok s \<longleftrightarrow> distinct (map ox_event_id (os_rows s)) \<and> (\<forall>row \<in> set (os_rows s). row_ok (set (os_stream s)) row)"

text \<open>A later version of a row: same envelope, no fewer attempts, never pending again.\<close>

definition row_le :: "outbox_row \<Rightarrow> outbox_row \<Rightarrow> bool" where
  "row_le row row' \<longleftrightarrow> ox_payload row' = ox_payload row \<and> ox_attempt_count row \<le> ox_attempt_count row'
     \<and> (ox_status row' = OB_PENDING \<longrightarrow> ox_status row = OB_PENDING)"

definition outbox_grows :: "outbox_state \<Rightarrow> outbox_state \<Rightarrow> bool" where
  "outbox_grows s s' \<longleftrightarrow> set (os_stream s) \<subseteq> set (os_stream s') \<and>
     (\<forall>row \<in> set (os_rows s). \<exists>row' \<in> set (os_rows s'). row_le row row')"

lemma outbox_grows_refl [simp]: "outbox_grows s s"
  by (auto simp: outbox_grows_def row_le_def)

lemma outbox_grows_trans: "outbox_grows s s' \<Longrightarrow> outbox_grows s' s'' \<Longrightarrow> outbox_grows s s''"
  unfolding outbox_grows_def row_le_def by (metis le_trans subset_trans)

interpretation outbox: coro_rg outbox_ok "\<lambda>_. outbox_grows" "\<lambda>_. outbox_grows" "\<lambda>_ _ _ _. True"
  by unfold_locales (auto intro: outbox_grows_trans)

lemma ids_change_row: "(\<And>row. ox_payload (f row) = ox_payload row) \<Longrightarrow>
    map ox_event_id (change_row i f rows) = map ox_event_id rows"
  by (simp add: change_row_def)

lemma change_row_grows:
  assumes "\<And>row. row_le row (f row)"
  shows "outbox_grows s (s\<lparr>os_rows := change_row i f (os_rows s)\<rparr>)"
proof -
  have "\<exists>row' \<in> set (change_row i f (os_rows s)). row_le row row'" if "row \<in> set (os_rows s)" for row
    using that assms [of row]
    by (intro bexI [of _ "if ox_event_id row = i then f row else row"])
      (auto simp: change_row_def row_le_def)
  then show ?thesis by (simp add: outbox_grows_def)
qed

lemma change_row_ok:
  assumes "outbox_ok s" "\<And>row. ox_payload (f row) = ox_payload row"
    and "\<And>row. row \<in> set (os_rows s) \<Longrightarrow> ox_event_id row = i \<Longrightarrow> row_ok (set (os_stream s)) (f row)"
  shows "outbox_ok (s\<lparr>os_rows := change_row i f (os_rows s)\<rparr>)"
  using assms by (auto simp: outbox_ok_def ids_change_row) (auto simp: change_row_def)

lemma mark_published_step:
  assumes "outbox_ok s" "i \<in> set (os_stream s)"
  shows "outbox_ok (s\<lparr>os_rows := mark_published now i (os_rows s)\<rparr>)"
    "outbox_grows s (s\<lparr>os_rows := mark_published now i (os_rows s)\<rparr>)"
  unfolding mark_published_def using assms
  by (auto intro!: change_row_ok change_row_grows simp: published_row_def row_ok_def row_le_def)

lemma mark_batch_step:
  "outbox_ok s \<Longrightarrow> set ids \<subseteq> set (os_stream s) \<Longrightarrow>
     outbox_ok (s\<lparr>os_rows := mark_published_batch now ids (os_rows s)\<rparr>) \<and>
     outbox_grows s (s\<lparr>os_rows := mark_published_batch now ids (os_rows s)\<rparr>)"
proof (induction ids arbitrary: s)
  case (Cons i ids)
  let ?s = "s\<lparr>os_rows := mark_published now i (os_rows s)\<rparr>"
  have step: "outbox_ok ?s" "outbox_grows s ?s" using mark_published_step [of s i now] Cons.prems by auto
  from Cons.IH [OF step(1)] Cons.prems step(2) show ?case by (auto intro: outbox_grows_trans)
qed simp

lemma failed_row_payload [simp]: "ox_payload (failed_row e m row) = ox_payload row"
  by (simp add: failed_row_def Let_def split: option.split)

lemma failed_row_le: "row_le row (failed_row e m row)"
  by (simp add: failed_row_def row_le_def Let_def split: option.split)

lemma failed_row_ok: "row_ok S row \<Longrightarrow> row_ok S (failed_row e (Some MAX_PUBLISH_ATTEMPTS) row)"
  by (auto simp: failed_row_def row_ok_def Let_def)

lemma record_failure_step:
  assumes "outbox_ok s"
  shows "outbox_ok (s\<lparr>os_rows := snd (record_failure_with_threshold i e (Some MAX_PUBLISH_ATTEMPTS) (os_rows s))\<rparr>)"
    "outbox_grows s (s\<lparr>os_rows := snd (record_failure_with_threshold i e (Some MAX_PUBLISH_ATTEMPTS) (os_rows s))\<rparr>)"
proof -
  have "row_ok (set (os_stream s)) row" if "row \<in> set (os_rows s)" for row
    using assms that by (simp add: outbox_ok_def)
  then show "outbox_ok (s\<lparr>os_rows := snd (record_failure_with_threshold i e (Some MAX_PUBLISH_ATTEMPTS) (os_rows s))\<rparr>)"
    using assms by (simp add: record_failure_with_threshold_def Let_def change_row_ok failed_row_ok)
  show "outbox_grows s (s\<lparr>os_rows := snd (record_failure_with_threshold i e (Some MAX_PUBLISH_ATTEMPTS) (os_rows s))\<rparr>)"
    by (simp add: record_failure_with_threshold_def Let_def change_row_grows failed_row_le)
qed

lemma enqueue_step:
  assumes "outbox_ok s"
  shows "outbox_ok (s\<lparr>os_rows := enqueue_in_session e (os_rows s)\<rparr>)"
    "outbox_grows s (s\<lparr>os_rows := enqueue_in_session e (os_rows s)\<rparr>)"
proof -
  have "get_row rows i = None \<Longrightarrow> i \<notin> ox_event_id ` set rows" for rows i
    by (auto simp: get_row_def find_None_iff)
  then show "outbox_ok (s\<lparr>os_rows := enqueue_in_session e (os_rows s)\<rparr>)"
    using assms by (fastforce simp: outbox_ok_def enqueue_in_session_def row_ok_def split: option.splits)
  show "outbox_grows s (s\<lparr>os_rows := enqueue_in_session e (os_rows s)\<rparr>)"
    by (auto simp: outbox_grows_def enqueue_in_session_def row_le_def split: option.splits)
qed

lemma enqueue_all_step:
  "outbox_ok s \<Longrightarrow> outbox_ok (s\<lparr>os_rows := fold enqueue_in_session es (os_rows s)\<rparr>)
     \<and> outbox_grows s (s\<lparr>os_rows := fold enqueue_in_session es (os_rows s)\<rparr>)"
proof (induction es arbitrary: s)
  case (Cons e es)
  from Cons.IH [OF enqueue_step(1) [OF Cons.prems, of e]] enqueue_step(2) [OF Cons.prems, of e]
  show ?case by (auto intro: outbox_grows_trans)
qed simp

section \<open>The loops keep the invariant\<close>

abbreviation owp :: "'a outbox_coro \<Rightarrow> _" where
  "owp \<equiv> wp outbox_ok (\<lambda>_. outbox_grows) (\<lambda>_. outbox_grows) (\<lambda>_ _ _ _. True)"

abbreviation (input) settled :: "'x \<Rightarrow> unit set \<Rightarrow> 'h \<Rightarrow> outbox_state \<Rightarrow> bool" where
  "settled \<equiv> (\<lambda>_ H _ s. H = {} \<and> outbox_ok s)"

lemma owp_transaction:
  assumes "outbox_ok s"
    and "\<And>s'. outbox_ok s' \<Longrightarrow> outbox_grows s s' \<Longrightarrow>
      outbox_ok (s'\<lparr>os_rows := f (os_rows s')\<rparr>) \<and> outbox_grows s' (s'\<lparr>os_rows := f (os_rows s')\<rparr>)"
    and "\<And>v h s'. outbox_ok s' \<Longrightarrow> Q v {} h s'" "\<And>e h s'. outbox_ok s' \<Longrightarrow> X e {} h s'"
  shows "owp (transaction r f) Q X {} h s"
  using assms by (auto simp: transaction_def wp_rules)

lemma owp_mark_batch:
  assumes "outbox_ok s" "set ids \<subseteq> set (os_stream s)"
    and "\<And>h s'. outbox_ok s' \<Longrightarrow> Q () {} h s'" "\<And>e h s'. outbox_ok s' \<Longrightarrow> X e {} h s'"
  shows "owp (mark_batch ids) Q X {} h s"
proof -
  have "owp (transaction (\<lambda>_. ()) (mark_published_batch now ids)) Q X {} h s" for now
    using assms by (intro owp_transaction mark_batch_step) (auto simp: outbox_grows_def)
  then show ?thesis using assms by (simp add: mark_batch_def wp_rules)
qed

lemma owp_record_failure:
  assumes "outbox_ok s" "\<And>v h s'. outbox_ok s' \<Longrightarrow> Q v {} h s'" "\<And>e h s'. outbox_ok s' \<Longrightarrow> X e {} h s'"
  shows "owp (record_failure i e) Q X {} h s"
  unfolding record_failure_def
  using assms by (intro owp_transaction) (auto intro: record_failure_step)

lemma owp_flush_loop:
  "outbox_ok s \<Longrightarrow> set ids \<subseteq> set (os_stream s) \<Longrightarrow> owp (flush_loop es ids) settled settled {} h s"
proof (induction es arbitrary: ids s h)
  case Nil
  then show ?case by (auto intro: owp_mark_batch)
next
  case (Cons e es)
  let ?ack = "\<lambda>s. s\<lparr>os_stream := os_stream s @ [ev_event_id e]\<rparr>"
  have ack: "outbox_ok (?ack s)" "outbox_grows s (?ack s)" if "outbox_ok s" for s
    using that by (auto simp: outbox_ok_def outbox_grows_def row_ok_def row_le_def)
  have fail: "owp (cseq (mark_batch ids) (cbind (record_failure (ev_event_id e) m) (\<lambda>status.
            if status \<noteq> Some OB_FAILED then Return () else flush_loop es []))) settled settled {} h s'"
    if "outbox_ok s'" "outbox_grows s s'" for s' m h
    unfolding wp_cbind
    using that Cons.prems(2)
    by (intro owp_mark_batch owp_record_failure) (auto simp: outbox_grows_def wp_ends wp_if intro!: owp_record_failure Cons.IH)
  have ok: "owp (flush_loop es (ids @ [ev_event_id e])) settled settled {} h (?ack s')"
    if "outbox_ok s'" "outbox_grows s s'" for s' h
    using that Cons.prems(2) by (intro Cons.IH ack) (auto simp: outbox_grows_def)
  show ?case
    using Cons.prems(1) ack fail ok
    by (simp add: try_publish_def wp_rules)
qed

text \<open>The tasks on the outbox: delivery loops and writers, in any number.\<close>

inductive outbox_program :: "unit outbox_coro \<Rightarrow> bool" where
  flushing: "outbox_program (flush_pending limit)"
| writing: "outbox_program (enqueue_all es)"

lemma outbox_program_honours: "outbox_program c \<Longrightarrow> outbox.honours c"
proof (induction rule: outbox_program.induct)
  case (flushing limit)
  have "owp (flush_pending limit) settled settled {} [] s" if "outbox_ok s" for s
    using that by (auto simp: flush_pending_def transaction_def wp_rules intro: owp_flush_loop)
  then show ?case unfolding outbox.honours_def by (simp add: conj_commute)
next
  case (writing es)
  have "owp (enqueue_all es) settled settled {} [] s" if "outbox_ok s" for s
    using that enqueue_all_step unfolding enqueue_all_def by (intro owp_transaction) auto
  then show ?case unfolding outbox.honours_def by (simp add: conj_commute)
qed

text \<open>
  C23. No event is lost.  Whatever deliveries and writers interleave, whatever the broker and the
  database answer: event ids stay unique, a row is PUBLISHED only if the broker acknowledged its
  event, FAILED only after three attempts, errors are cut at 512 characters; and every event that
  was in the table is still there, with its envelope, no fewer attempts, and never pending again
  once it was settled.
\<close>

theorem outbox_never_loses_events:
  assumes "outbox_ok s" "sys_reaches outbox_program (idle s) cfg"
  shows "outbox_ok (sys_state cfg) \<and> outbox_grows s (sys_state cfg)"
proof -
  have "outbox.sys_ok s cfg"
    by (rule outbox.reaches_ok [OF assms(2,1) outbox_program_honours])
  then show ?thesis using outbox.state_inv outbox.state_rly by blast
qed

section \<open>A healthy broker empties the outbox\<close>

abbreviation all_well :: "nat \<Rightarrow> outbox_io \<Rightarrow> outbox_error + unit" where
  "all_well \<equiv> \<lambda>_ _. Inr ()"

lemma run_transaction:
  "run_alone clock ids all_well (cbind (transaction r f) c) n s =
     run_alone clock ids all_well (c (r (os_rows s))) (Suc n) (s\<lparr>os_rows := f (os_rows s)\<rparr>)"
  by (simp add: transaction_def await_def modify_def)

lemma run_mark_batch:
  "\<exists>now. run_alone clock ids all_well (mark_batch js) n s =
     (Inr (), s\<lparr>os_rows := mark_published_batch now js (os_rows s)\<rparr>)"
  by (simp add: mark_batch_def transaction_def await_def modify_def) (auto intro: exI [of _ "clock n"])

lemma run_flush_loop:
  "\<exists>now. run_alone clock ids all_well (flush_loop es js) n s =
     (Inr (), s\<lparr>os_rows := mark_published_batch now (js @ map ev_event_id es) (os_rows s),
                os_stream := os_stream s @ map ev_event_id es\<rparr>)"
proof (induction es arbitrary: js n s)
  case Nil
  then show ?case using run_mark_batch [of clock ids js n s] by simp
next
  case (Cons e es)
  from Cons.IH [of "js @ [ev_event_id e]" "Suc n" "s\<lparr>os_stream := os_stream s @ [ev_event_id e]\<rparr>"]
  show ?case by (simp add: try_publish_def await_def modify_def)
qed

lemma mark_batch_pending:
  "row \<in> set (mark_published_batch now js rows) \<Longrightarrow> ox_status row = OB_PENDING
    \<Longrightarrow> row \<in> set rows \<and> ox_event_id row \<notin> set js"
proof (induction js arbitrary: rows)
  case (Cons i js)
  from Cons.IH [of "mark_published now i rows"] Cons.prems show ?case
    by (auto simp: mark_published_def change_row_def published_row_def)
qed simp

lemma pending_all:
  assumes "length (filter (\<lambda>row. ox_status row = OB_PENDING) rows) \<le> limit"
  shows "set (pending limit rows) = ox_payload ` {row \<in> set rows. ox_status row = OB_PENDING}"
  using assms by (simp add: pending_def)

lemma pending_sorted:
  "sorted (map (\<lambda>e. (ev_created_at e, ev_event_id e)) (pending limit rows))"
proof -
  have "map (\<lambda>e. (ev_created_at e, ev_event_id e)) (pending limit rows) =
    take limit (map pending_order (sort_key pending_order (filter (\<lambda>row. ox_status row = OB_PENDING) rows)))"
    by (simp add: pending_def take_map pending_order_def comp_def)
  then show ?thesis by (simp add: sorted_wrt_take)
qed


section \<open>Witnesses\<close>

definition demo_event :: "string \<Rightarrow> rat \<Rightarrow> event_envelope" where
  "demo_event i t = \<lparr>ev_event_id = i, ev_topic = ''portfolio.snapshots'', ev_key = ''portfolio'',
     ev_source_component = ''portfolio_service'', ev_created_at = t, ev_payload = PyNone\<rparr>"

definition demo_outbox :: outbox_state where
  "demo_outbox = \<lparr>os_rows = fold enqueue_in_session [demo_event ''b'' 2, demo_event ''a'' 1] [], os_stream = []\<rparr>"

definition demo_flushed :: "(outbox_state, outbox_io, outbox_error + unit, outbox_error, unit) sys" where
  "demo_flushed = answer 0 (\<lambda>_. 5) (\<lambda>_. []) (Inl Publish_Timeout)
     (answer 0 (\<lambda>_. 4) (\<lambda>_. []) (Inr ()) (start 0 (\<lambda>_. 3) (\<lambda>_. []) (flush_pending 100) (idle demo_outbox)))"

lemma demo_outbox_ok: "outbox_ok demo_outbox"
  by (simp add: outbox_ok_def demo_outbox_def enqueue_in_session_def get_row_def demo_event_def row_ok_def)

lemma demo_flushed_reachable: "sys_reaches outbox_program (idle demo_outbox) demo_flushed"
  unfolding demo_flushed_def
  by (intro answer_reaches start_reaches sys_reaches_refl outbox_program.flushing) (simp_all add: idle_def)

theorem outbox_never_loses_events_witness:
  "outbox_ok (sys_state demo_flushed) \<and> outbox_grows demo_outbox (sys_state demo_flushed)"
  using outbox_never_loses_events [OF demo_outbox_ok demo_flushed_reachable] .


end
