(* ===== verification/Instrument_Contract.thy ===== *)
theory Instrument_Contract
  imports Decimal_Context
begin

text \<open>
  The instrument contract (\<^verbatim>\<open>domain/instrument_contract.py\<close>): the one place where exchange units,
  base quantities, prices, fees and profit are converted into each other.

  A \<^verbatim>\<open>Decimal\<close> is its exact value with its exponent, because the code bounds the size of the digits it
  is willing to handle; the sign of zero is not kept.  Arithmetic runs in the 50-digit context with
  its four traps: each operation rounds the exact result half to even, or raises.
  Failures are the texts of \<^verbatim>\<open>InstrumentContractError\<close>.
\<close>

section \<open>Decimals with their exponent\<close>

datatype pydec = Dec rat int | Special

fun dval :: "pydec \<Rightarrow> rat" where
  "dval (Dec v e) = v"
| "dval Special = 0"

fun dexp :: "pydec \<Rightarrow> int" where
  "dexp (Dec v e) = e"
| "dexp Special = 0"

definition coefficient :: "pydec \<Rightarrow> nat" where
  "coefficient d = nat \<lfloor>\<bar>dval d\<bar> / 10 powi dexp d\<rfloor>"

definition digit_count :: "pydec \<Rightarrow> nat" where
  "digit_count d = max 1 (floorlog 10 (coefficient d))"

text \<open>Trailing zeros moved into the exponent, as the \<^verbatim>\<open>while\<close> loops of the code do.\<close>

function strip_zeros :: "nat \<Rightarrow> int \<Rightarrow> nat \<times> int" where
  "strip_zeros c e = (if 10 \<le> c \<and> c mod 10 = 0 then strip_zeros (c div 10) (e + 1) else (c, e))"
  by pat_completeness auto
termination by (relation "measure fst") auto

declare strip_zeros.simps [simp del]

definition subnormal_inexact :: "rat \<Rightarrow> bool" where
  "subnormal_inexact v \<longleftrightarrow>
     (if adjusted v < - 999999 then snd (quotient_of (v * 10 ^ 1000048)) \<noteq> 1 else False)"

text \<open>The end of every operation: rounding, overflow, underflow; \<open>expo\<close> gives the exponent of the result.\<close>

definition ctx50_finish :: "rat \<Rightarrow> (rat \<Rightarrow> int) \<Rightarrow> pydec option" where
  "ctx50_finish v expo =
    (if v = 0 then Some (Dec 0 (expo 0))
     else let x = ctx_round 50 v
          in if 999999 < adjusted x \<or> subnormal_inexact v then None else Some (Dec x (expo x)))"

definition ideal_exponent :: "int \<Rightarrow> rat \<Rightarrow> int" where
  "ideal_exponent e x = (if x = 0 then e else max e (adjusted x - 49))"

definition quotient_exponent :: "rat \<Rightarrow> int \<Rightarrow> rat \<Rightarrow> int" where
  "quotient_exponent v e x =
    (if x = 0 then e else if x \<noteq> v then adjusted x - 49
     else let low = adjusted x - 49
          in max low (min e (snd (strip_zeros (nat \<lfloor>\<bar>x\<bar> / 10 powi low\<rfloor>) low))))"

definition ic_mul :: "pydec \<Rightarrow> pydec \<Rightarrow> pydec option" where
  "ic_mul a b = ctx50_finish (dval a * dval b) (ideal_exponent (dexp a + dexp b))"

definition ic_div :: "pydec \<Rightarrow> pydec \<Rightarrow> pydec option" where
  "ic_div a b = (if dval b = 0 then None
     else ctx50_finish (dval a / dval b) (quotient_exponent (dval a / dval b) (dexp a - dexp b)))"

definition ic_add :: "pydec \<Rightarrow> pydec \<Rightarrow> pydec option" where
  "ic_add a b = ctx50_finish (dval a + dval b) (ideal_exponent (min (dexp a) (dexp b)))"

definition ic_sub :: "pydec \<Rightarrow> pydec \<Rightarrow> pydec option" where
  "ic_sub a b = ctx50_finish (dval a - dval b) (ideal_exponent (min (dexp a) (dexp b)))"

definition copy_abs :: "pydec \<Rightarrow> pydec" where
  "copy_abs d = (case d of Dec v e \<Rightarrow> Dec \<bar>v\<bar> e | Special \<Rightarrow> Special)"

definition copy_negate :: "pydec \<Rightarrow> pydec" where
  "copy_negate d = (case d of Dec v e \<Rightarrow> Dec (- v) e | Special \<Rightarrow> Special)"

lemma ctx50_finish_value: "ctx50_finish v f = Some d \<Longrightarrow> dval d = ctx_round 50 v"
  by (auto simp: ctx50_finish_def Let_def split: if_splits)

lemma ic_values:
  "ic_mul a b = Some d \<Longrightarrow> dval d = ctx_round 50 (dval a * dval b)"
  "ic_div a b = Some d \<Longrightarrow> dval d = ctx_round 50 (dval a / dval b)"
  "ic_add a b = Some d \<Longrightarrow> dval d = ctx_round 50 (dval a + dval b)"
  "ic_sub a b = Some d \<Longrightarrow> dval d = ctx_round 50 (dval a - dval b)"
  by (auto simp: ic_mul_def ic_div_def ic_add_def ic_sub_def dest: ctx50_finish_value split: if_splits)

lemma strip_zeros_value:
  "strip_zeros c e = (c', e') \<Longrightarrow> of_nat c' * (10 :: rat) powi e' = of_nat c * 10 powi e"
proof (induction c e rule: strip_zeros.induct)
  case (1 c e)
  show ?case
  proof (cases "10 \<le> c \<and> c mod 10 = 0")
    case True
    then have "strip_zeros (c div 10) (e + 1) = (c', e')" using 1(2) by (simp add: strip_zeros.simps [of c e])
    then have "of_nat c' * (10 :: rat) powi e' = of_nat (c div 10) * 10 powi (e + 1)" using 1(1) True by blast
    also have "\<dots> = of_nat (c div 10 * 10) * 10 powi e" by (simp add: power_int_add)
    also have "c div 10 * 10 = c" using True by auto
    finally show ?thesis .
  next
    case False
    then show ?thesis using 1(2) by (auto simp: strip_zeros.simps [of c e])
  qed
qed

section \<open>Checks on inputs\<close>

definition COMPLEXITY_LIMIT :: int where
  "COMPLEXITY_LIMIT = 10000"

definition currency :: "string \<Rightarrow> string \<Rightarrow> string + string" where
  "currency v field = (let c = py_upper (py_strip v) in if c = [] then Inl (field @ ''_required'') else Inr c)"

definition finite_decimal :: "pydec \<Rightarrow> string \<Rightarrow> string + pydec" where
  "finite_decimal v field = (case v of Special \<Rightarrow> Inl (field @ ''_invalid'') | Dec _ _ \<Rightarrow> Inr v)"

definition positive_decimal :: "pydec \<Rightarrow> string \<Rightarrow> string + pydec" where
  "positive_decimal v field = ebind (finite_decimal v field) (\<lambda>d.
     if dval d \<le> 0
     then Inl (if field = ''contract_value'' \<or> field = ''contract_multiplier''
               then ''contract_face_value_invalid'' else field @ ''_invalid'')
     else Inr d)"

definition required_price :: "pydec option \<Rightarrow> string + pydec" where
  "required_price v = (case v of
     None \<Rightarrow> Inl ''inverse_quantity_requires_reference_price''
   | Some d \<Rightarrow> ebind (finite_decimal d ''reference_price'') (\<lambda>d.
       if dval d \<le> 0 then Inl ''reference_price_invalid'' else Inr d))"

text \<open>\<^verbatim>\<open>_discrete_fraction\<close>: the exact rational, unless its digits are too many.\<close>

definition discrete_fraction :: "pydec \<Rightarrow> string + rat" where
  "discrete_fraction v = ebind (finite_decimal v ''discrete_decimal'') (\<lambda>d.
     if int (digit_count d) + \<bar>dexp d\<bar> > COMPLEXITY_LIMIT
     then Inl ''contract_discrete_arithmetic_too_large'' else Inr (dval d))"

text \<open>A stripped coefficient and exponent back as a decimal.\<close>

definition canonical_decimal :: "bool \<Rightarrow> nat \<Rightarrow> int \<Rightarrow> string + pydec" where
  "canonical_decimal negative c e = (case strip_zeros c e of (c', e') \<Rightarrow>
     if int (max 1 (floorlog 10 c')) + \<bar>e'\<bar> > COMPLEXITY_LIMIT
     then Inl ''contract_discrete_arithmetic_too_large''
     else Inr (Dec ((if negative then - 1 else 1) * of_nat c' * 10 powi e') e'))"

definition integer_step_decimal :: "int \<Rightarrow> pydec \<Rightarrow> string + pydec" where
  "integer_step_decimal step_count step =
    (if step_count < 0 then Inl ''contract_arithmetic_invalid''
     else if step_count = 0 then Inr (Dec 0 0)
     else canonical_decimal False (nat step_count * coefficient step) (dexp step))"

text \<open>How often a factor divides, and what is left: the two loops of \<^verbatim>\<open>_exact_decimal_sum\<close>.\<close>

function divide_out :: "nat \<Rightarrow> nat \<Rightarrow> nat \<times> nat" where
  "divide_out p d = (if 1 < p \<and> 0 < d \<and> d mod p = 0
     then (case divide_out p (d div p) of (k, r) \<Rightarrow> (Suc k, r)) else (0, d))"
  by pat_completeness auto
termination by (relation "measure snd") auto

declare divide_out.simps [simp del]

definition exact_decimal_of_fraction :: "rat \<Rightarrow> string + pydec" where
  "exact_decimal_of_fraction x =
    (if x = 0 then Inr (Dec 0 0)
     else case quotient_of x of (numerator, denominator) \<Rightarrow>
       case divide_out 2 (nat denominator) of (twos, d2) \<Rightarrow>
       case divide_out 5 d2 of (fives, d5) \<Rightarrow>
         if d5 \<noteq> 1 then Inl ''contract_arithmetic_invalid''
         else let scale = max twos fives;
                  coeff = numerator * 2 ^ (scale - twos) * 5 ^ (scale - fives)
              in canonical_decimal (coeff < 0) (nat \<bar>coeff\<bar>) (- int scale))"

primrec fraction_sum :: "pydec list \<Rightarrow> string + rat" where
  "fraction_sum [] = Inr 0"
| "fraction_sum (v # vs) = ebind (discrete_fraction v) (\<lambda>x. ebind (fraction_sum vs) (\<lambda>y. Inr (x + y)))"

definition exact_decimal_sum :: "pydec list \<Rightarrow> string + pydec" where
  "exact_decimal_sum values = ebind (fraction_sum values) exact_decimal_of_fraction"

definition arithmetic_result :: "pydec option \<Rightarrow> string \<Rightarrow> bool \<Rightarrow> string + pydec" where
  "arithmetic_result operation reason require_positive = (case operation of
     None \<Rightarrow> Inl reason
   | Some d \<Rightarrow> if require_positive \<and> dval d \<le> 0 then Inl reason else Inr d)"

section \<open>The contract\<close>

datatype contract_type = CSpot | CLinear | CInverse

record instrument_contract =
  ic_symbol :: string
  ic_instrument_type :: string
  ic_contract_type :: contract_type
  ic_base_currency :: string
  ic_quote_currency :: string
  ic_settle_currency :: string
  ic_contract_value :: pydec
  ic_contract_multiplier :: pydec
  ic_contract_value_currency :: string
  ic_lot_size :: pydec
  ic_min_size :: pydec
  ic_tick_size :: pydec

definition derivative_identity_ok :: "string \<Rightarrow> string \<Rightarrow> string list \<Rightarrow> bool" where
  "derivative_identity_ok symbol instrument_type symbol_parts \<longleftrightarrow>
     \<not> ((py_endswith ''-SWAP'' symbol \<and> instrument_type \<noteq> ''SWAP'')
       \<or> (instrument_type = ''SWAP'' \<and> \<not> py_endswith ''-SWAP'' symbol)
       \<or> (instrument_type = ''FUTURES'' \<and> length symbol_parts < 3))"

text \<open>The part of \<^verbatim>\<open>__post_init__\<close> that checks the normalized fields against each other.\<close>

definition check_contract :: "instrument_contract \<Rightarrow> string + instrument_contract" where
  "check_contract c =
    (let parts = py_split (CHR ''-'') (ic_symbol c);
         derivative = ic_instrument_type c \<in> {''SWAP'', ''FUTURES''}
     in
     if ic_symbol c = [] then Inl ''instrument_symbol_required''
     else if length parts < 2 \<or> parts ! 0 \<noteq> ic_base_currency c \<or> parts ! 1 \<noteq> ic_quote_currency c
     then Inl ''instrument_identity_mismatch''
     else case ic_contract_type c of
       CSpot \<Rightarrow>
         if ic_instrument_type c \<notin> {''SPOT'', ''MARGIN''} then Inl ''contract_type_unknown_or_inconsistent''
         else if length parts \<noteq> 2 then Inl ''instrument_identity_mismatch''
         else if ic_settle_currency c \<noteq> ic_quote_currency c \<or> ic_contract_value_currency c \<noteq> ic_base_currency c
         then Inl ''contract_value_currency_inconsistent''
         else if dval (ic_contract_value c) \<noteq> 1 \<or> dval (ic_contract_multiplier c) \<noteq> 1
         then Inl ''spot_contract_face_value_must_be_one''
         else Inr c
     | CLinear \<Rightarrow>
         if \<not> derivative then Inl ''contract_type_unknown_or_inconsistent''
         else if \<not> derivative_identity_ok (ic_symbol c) (ic_instrument_type c) parts
         then Inl ''instrument_identity_mismatch''
         else if ic_contract_value_currency c \<noteq> ic_base_currency c \<or> ic_settle_currency c \<noteq> ic_quote_currency c
         then Inl ''contract_value_currency_inconsistent''
         else Inr c
     | CInverse \<Rightarrow>
         if \<not> derivative then Inl ''contract_type_unknown_or_inconsistent''
         else if \<not> derivative_identity_ok (ic_symbol c) (ic_instrument_type c) parts
         then Inl ''instrument_identity_mismatch''
         else if ic_contract_value_currency c \<noteq> ic_quote_currency c \<or> ic_settle_currency c \<noteq> ic_base_currency c
         then Inl ''contract_value_currency_inconsistent''
         else Inr c)"

definition post_init :: "instrument_contract \<Rightarrow> string + instrument_contract" where
  "post_init c =
    ebind (currency (ic_base_currency c) ''base_currency'') (\<lambda>base.
    ebind (currency (ic_quote_currency c) ''quote_currency'') (\<lambda>quote.
    ebind (currency (ic_settle_currency c) ''settle_currency'') (\<lambda>settle.
    ebind (currency (ic_contract_value_currency c) ''contract_value_currency'') (\<lambda>value_currency.
    ebind (positive_decimal (ic_contract_value c) ''contract_value'') (\<lambda>contract_value.
    ebind (positive_decimal (ic_contract_multiplier c) ''contract_multiplier'') (\<lambda>multiplier.
    ebind (positive_decimal (ic_lot_size c) ''lot_size'') (\<lambda>lot.
    ebind (positive_decimal (ic_min_size c) ''min_size'') (\<lambda>min_size.
    ebind (positive_decimal (ic_tick_size c) ''tick_size'') (\<lambda>tick.
    check_contract
      \<lparr>ic_symbol = py_upper (py_strip (ic_symbol c)),
       ic_instrument_type = py_upper (py_strip (ic_instrument_type c)),
       ic_contract_type = ic_contract_type c,
       ic_base_currency = base, ic_quote_currency = quote, ic_settle_currency = settle,
       ic_contract_value = contract_value, ic_contract_multiplier = multiplier,
       ic_contract_value_currency = value_currency,
       ic_lot_size = lot, ic_min_size = min_size, ic_tick_size = tick\<rparr>)))))))))"

definition face_value :: "instrument_contract \<Rightarrow> string + pydec" where
  "face_value c = arithmetic_result (ic_mul (ic_contract_value c) (ic_contract_multiplier c))
     ''contract_face_value_invalid'' True"

definition arithmetic_invalid :: "pydec option \<Rightarrow> string + pydec" where
  "arithmetic_invalid operation = arithmetic_result operation ''contract_arithmetic_invalid'' False"

definition base_quantity :: "instrument_contract \<Rightarrow> pydec \<Rightarrow> pydec option \<Rightarrow> string + pydec" where
  "base_quantity c exchange_qty reference_price =
    ebind (finite_decimal exchange_qty ''exchange_quantity'') (\<lambda>quantity.
    case ic_contract_type c of
      CSpot \<Rightarrow> Inr quantity
    | CLinear \<Rightarrow> ebind (face_value c) (\<lambda>face. arithmetic_invalid (ic_mul quantity face))
    | CInverse \<Rightarrow> ebind (required_price reference_price) (\<lambda>price. ebind (face_value c) (\<lambda>face.
        arithmetic_invalid (Option.bind (ic_mul quantity face) (\<lambda>x. ic_div x price)))))"

definition exchange_quantity :: "instrument_contract \<Rightarrow> pydec \<Rightarrow> pydec option \<Rightarrow> string + pydec" where
  "exchange_quantity c base_qty reference_price =
    ebind (finite_decimal base_qty ''base_quantity'') (\<lambda>quantity.
    case ic_contract_type c of
      CSpot \<Rightarrow> Inr quantity
    | CLinear \<Rightarrow> ebind (face_value c) (\<lambda>face. arithmetic_invalid (ic_div quantity face))
    | CInverse \<Rightarrow> ebind (required_price reference_price) (\<lambda>price. ebind (face_value c) (\<lambda>face.
        arithmetic_invalid (Option.bind (ic_mul quantity price) (\<lambda>x. ic_div x face)))))"

definition quote_notional :: "instrument_contract \<Rightarrow> pydec \<Rightarrow> pydec \<Rightarrow> string + pydec" where
  "quote_notional c exchange_qty price =
    ebind (finite_decimal exchange_qty ''exchange_quantity'') (\<lambda>quantity.
    ebind (required_price (Some price)) (\<lambda>price.
    let quantity = copy_abs quantity in
    case ic_contract_type c of
      CSpot \<Rightarrow> arithmetic_invalid (ic_mul quantity price)
    | CLinear \<Rightarrow> ebind (face_value c) (\<lambda>face.
        arithmetic_invalid (Option.bind (ic_mul quantity face) (\<lambda>x. ic_mul x price)))
    | CInverse \<Rightarrow> ebind (face_value c) (\<lambda>face. arithmetic_invalid (ic_mul quantity face))))"

definition settlement_notional :: "instrument_contract \<Rightarrow> pydec \<Rightarrow> pydec \<Rightarrow> string + pydec" where
  "settlement_notional c exchange_qty price =
    ebind (finite_decimal exchange_qty ''exchange_quantity'') (\<lambda>quantity.
    ebind (required_price (Some price)) (\<lambda>price.
    let quantity = copy_abs quantity in
    if ic_contract_type c = CInverse
    then ebind (face_value c) (\<lambda>face.
           arithmetic_invalid (Option.bind (ic_mul quantity face) (\<lambda>x. ic_div x price)))
    else quote_notional c quantity price))"

definition bps_unit :: pydec where "bps_unit = Dec 10000 0"

definition settlement_fee :: "instrument_contract \<Rightarrow> pydec \<Rightarrow> pydec \<Rightarrow> pydec \<Rightarrow> string + pydec" where
  "settlement_fee c exchange_qty price fee_bps =
    ebind (finite_decimal fee_bps ''fee_bps'') (\<lambda>rate.
    ebind (settlement_notional c exchange_qty price) (\<lambda>notional.
    arithmetic_invalid (Option.bind (ic_mul notional rate) (\<lambda>x. ic_div x bps_unit))))"

definition fee_asset_amount :: "instrument_contract \<Rightarrow> pydec \<Rightarrow> pydec \<Rightarrow> pydec \<Rightarrow> string \<Rightarrow> string + pydec" where
  "fee_asset_amount c exchange_qty price fee_bps fee_asset =
    ebind (currency fee_asset ''fee_asset'') (\<lambda>asset.
    ebind (finite_decimal fee_bps ''fee_bps'') (\<lambda>rate.
    if asset = ic_settle_currency c then settlement_fee c exchange_qty price rate
    else if ic_contract_type c = CSpot \<and> asset = ic_base_currency c
    then ebind (finite_decimal exchange_qty ''exchange_quantity'') (\<lambda>quantity.
           arithmetic_invalid (Option.bind (ic_mul (copy_abs quantity) rate) (\<lambda>x. ic_div x bps_unit)))
    else Inl ''fee_asset_unsupported''))"

definition fee_settlement_value :: "instrument_contract \<Rightarrow> pydec \<Rightarrow> string \<Rightarrow> pydec \<Rightarrow> string + pydec" where
  "fee_settlement_value c fee_asset_quantity fee_asset price =
    ebind (finite_decimal fee_asset_quantity ''fee_asset_quantity'') (\<lambda>amount.
    ebind (currency fee_asset ''fee_asset'') (\<lambda>asset.
    if asset = ic_settle_currency c then Inr amount
    else if ic_contract_type c = CSpot \<and> asset = ic_base_currency c
    then ebind (required_price (Some price)) (\<lambda>price. arithmetic_invalid (ic_mul amount price))
    else Inl ''fee_asset_unsupported''))"

text \<open>The side is text in the code; anything but the two words is an error.\<close>

definition execution_price :: "instrument_contract \<Rightarrow> pydec \<Rightarrow> string \<Rightarrow> pydec \<Rightarrow> string + pydec" where
  "execution_price c reference_price side slippage_bps =
    ebind (required_price (Some reference_price)) (\<lambda>price.
    ebind (finite_decimal slippage_bps ''slippage_bps'') (\<lambda>bps.
    if dval bps < 0 \<or> 10000 \<le> dval bps then Inl ''slippage_bps_invalid''
    else if side \<noteq> ''buy'' \<and> side \<noteq> ''sell'' then Inl ''execution_side_invalid''
    else
      ebind (discrete_fraction price) (\<lambda>price_fraction.
      ebind (discrete_fraction bps) (\<lambda>bps_fraction.
      let target = price_fraction * (1 + (if side = ''buy'' then bps_fraction else - bps_fraction) / 10000) in
      if target \<le> 0 then Inl ''contract_arithmetic_invalid''
      else
        ebind (discrete_fraction (ic_tick_size c)) (\<lambda>tick.
        let tick_count = (if side = ''buy'' then \<lceil>target / tick\<rceil> else \<lfloor>target / tick\<rfloor>) in
        ebind (integer_step_decimal tick_count (ic_tick_size c)) (\<lambda>aligned.
        if dval aligned \<le> 0 then Inl ''contract_arithmetic_invalid'' else Inr aligned))))))"

definition validate_exchange_price :: "instrument_contract \<Rightarrow> pydec \<Rightarrow> string + pydec" where
  "validate_exchange_price c price =
    ebind (required_price (Some price)) (\<lambda>resolved.
    ebind (discrete_fraction resolved) (\<lambda>x.
    ebind (discrete_fraction (ic_tick_size c)) (\<lambda>tick.
    if snd (quotient_of (x / tick)) \<noteq> 1 then Inl ''exchange_price_tick_misaligned'' else Inr resolved)))"

definition fillable_exchange_quantity ::
  "instrument_contract \<Rightarrow> pydec \<Rightarrow> pydec \<Rightarrow> pydec \<Rightarrow> string + pydec" where
  "fillable_exchange_quantity c requested_quantity available_quantity max_participation =
    ebind (positive_decimal requested_quantity ''requested_quantity'') (\<lambda>requested.
    ebind (positive_decimal available_quantity ''available_quantity'') (\<lambda>available.
    ebind (positive_decimal max_participation ''max_participation'') (\<lambda>participation.
    if 1 < dval participation then Inl ''max_participation_invalid''
    else
      ebind (discrete_fraction available) (\<lambda>a.
      ebind (discrete_fraction participation) (\<lambda>p.
      ebind (discrete_fraction requested) (\<lambda>r.
      ebind (discrete_fraction (ic_lot_size c)) (\<lambda>lot.
      ebind (integer_step_decimal \<lfloor>min r (a * p) / lot\<rfloor> (ic_lot_size c)) (\<lambda>aligned.
      Inr (if dval aligned < dval (ic_min_size c) then Dec 0 0 else aligned)))))))))"

definition validate_exchange_quantity :: "instrument_contract \<Rightarrow> pydec \<Rightarrow> string + pydec" where
  "validate_exchange_quantity c quantity =
    ebind (positive_decimal quantity ''exchange_quantity'') (\<lambda>resolved.
    if dval resolved < dval (ic_min_size c) then Inl ''exchange_quantity_below_min_size''
    else
      ebind (discrete_fraction resolved) (\<lambda>x.
      ebind (discrete_fraction (ic_lot_size c)) (\<lambda>lot.
      if snd (quotient_of (x / lot)) \<noteq> 1 then Inl ''exchange_quantity_lot_misaligned'' else Inr resolved)))"

definition execution_slippage_bps :: "pydec \<Rightarrow> pydec \<Rightarrow> string \<Rightarrow> string + pydec" where
  "execution_slippage_bps reference_price exec_price side =
    ebind (required_price (Some reference_price)) (\<lambda>reference.
    ebind (required_price (Some exec_price)) (\<lambda>execution.
    ebind (if side = ''buy'' then arithmetic_invalid (ic_sub execution reference)
           else if side = ''sell'' then arithmetic_invalid (ic_sub reference execution)
           else Inl ''execution_side_invalid'') (\<lambda>numerator.
    arithmetic_invalid (Option.bind (ic_div numerator reference) (\<lambda>x. ic_mul x bps_unit)))))"

definition quantity_ratio :: "pydec \<Rightarrow> pydec \<Rightarrow> string + pydec" where
  "quantity_ratio numerator denominator =
    ebind (finite_decimal numerator ''exchange_quantity'') (\<lambda>top.
    ebind (positive_decimal denominator ''exchange_quantity'') (\<lambda>bottom. arithmetic_invalid (ic_div top bottom)))"

definition settlement_basis_points :: "pydec \<Rightarrow> pydec \<Rightarrow> string + pydec" where
  "settlement_basis_points numerator denominator =
    ebind (finite_decimal numerator ''settlement_amount'') (\<lambda>top.
    ebind (positive_decimal denominator ''settlement_amount'') (\<lambda>bottom.
    arithmetic_invalid (Option.bind (ic_div top bottom) (\<lambda>x. ic_mul x bps_unit))))"

definition settlement_pnl :: "instrument_contract \<Rightarrow> pydec \<Rightarrow> pydec \<Rightarrow> pydec \<Rightarrow> string + pydec" where
  "settlement_pnl c exchange_qty entry_price exit_price =
    ebind (finite_decimal exchange_qty ''exchange_quantity'') (\<lambda>quantity.
    ebind (required_price (Some entry_price)) (\<lambda>entry.
    ebind (required_price (Some exit_price)) (\<lambda>exit.
    case ic_contract_type c of
      CSpot \<Rightarrow> arithmetic_invalid (Option.bind (ic_sub exit entry) (\<lambda>m. ic_mul quantity m))
    | CLinear \<Rightarrow> ebind (face_value c) (\<lambda>face.
        arithmetic_invalid (Option.bind (ic_mul quantity face) (\<lambda>x.
          Option.bind (ic_sub exit entry) (\<lambda>m. ic_mul x m))))
    | CInverse \<Rightarrow> ebind (face_value c) (\<lambda>face.
        arithmetic_invalid (Option.bind (ic_mul quantity face) (\<lambda>x.
          Option.bind (ic_div (Dec 1 0) entry) (\<lambda>a. Option.bind (ic_div (Dec 1 0) exit) (\<lambda>b.
          Option.bind (ic_sub a b) (\<lambda>m. ic_mul x m)))))))))"

definition combined_entry_price ::
  "instrument_contract \<Rightarrow> pydec \<Rightarrow> pydec \<Rightarrow> pydec \<Rightarrow> pydec \<Rightarrow> string + pydec" where
  "combined_entry_price c existing_quantity existing_price added_quantity added_price =
    ebind (positive_decimal existing_quantity ''existing_quantity'') (\<lambda>existing.
    ebind (positive_decimal added_quantity ''added_quantity'') (\<lambda>added.
    ebind (required_price (Some existing_price)) (\<lambda>old_price.
    ebind (required_price (Some added_price)) (\<lambda>new_price.
    ebind (arithmetic_result (ic_add existing added) ''contract_arithmetic_invalid'' True) (\<lambda>total.
    arithmetic_result
      (if ic_contract_type c = CInverse
       then Option.bind (ic_div existing old_price) (\<lambda>a. Option.bind (ic_div added new_price) (\<lambda>b.
              Option.bind (ic_add a b) (\<lambda>s. ic_div total s)))
       else Option.bind (ic_mul old_price existing) (\<lambda>a. Option.bind (ic_mul new_price added) (\<lambda>b.
              Option.bind (ic_add a b) (\<lambda>s. ic_div s total))))
      ''contract_arithmetic_invalid'' True)))))"

primrec all_finite :: "pydec list \<Rightarrow> string \<Rightarrow> string + pydec list" where
  "all_finite [] field = Inr []"
| "all_finite (v # vs) field = ebind (finite_decimal v field) (\<lambda>d. ebind (all_finite vs field) (\<lambda>ds. Inr (d # ds)))"

definition add_exchange_quantities :: "pydec list \<Rightarrow> string + pydec" where
  "add_exchange_quantities values = ebind (all_finite values ''exchange_quantity'') exact_decimal_sum"

definition add_settlement_amounts :: "pydec list \<Rightarrow> string + pydec" where
  "add_settlement_amounts values = ebind (all_finite values ''settlement_amount'') exact_decimal_sum"

section \<open>The identity of a contract\<close>

text \<open>
  \<^verbatim>\<open>canonical_decimal_identity\<close> of a finite value (the constructor lets no other into a contract), the
  fields of the fingerprint in their order, and the fingerprint; SHA-256 is the argument \<open>digest\<close>.
\<close>

definition canonical_decimal_identity :: "pydec \<Rightarrow> string" where
  "canonical_decimal_identity d =
    (if dval d = 0 then ''0''
     else case strip_zeros (coefficient d) (dexp d) of (trimmed, exponent) \<Rightarrow>
       (if dval d < 0 then ''-'' else []) @ nat_str trimmed @ ''e'' @ int_str exponent)"

definition contract_type_text :: "contract_type \<Rightarrow> string" where
  "contract_type_text t = (case t of CSpot \<Rightarrow> ''spot'' | CLinear \<Rightarrow> ''linear'' | CInverse \<Rightarrow> ''inverse'')"

definition fingerprint_fields :: "instrument_contract \<Rightarrow> string list" where
  "fingerprint_fields c =
    [''instrument-arithmetic/v1'', ic_symbol c, ic_instrument_type c, contract_type_text (ic_contract_type c),
     ic_base_currency c, ic_quote_currency c, ic_settle_currency c,
     canonical_decimal_identity (ic_contract_value c), canonical_decimal_identity (ic_contract_multiplier c),
     ic_contract_value_currency c, canonical_decimal_identity (ic_lot_size c),
     canonical_decimal_identity (ic_min_size c), canonical_decimal_identity (ic_tick_size c)]"

definition unit_separator :: char where "unit_separator = CHR 0x1F"

definition fingerprint :: "(string \<Rightarrow> string) \<Rightarrow> instrument_contract \<Rightarrow> string" where
  "fingerprint digest c = digest (py_join [unit_separator] (fingerprint_fields c))"

section \<open>From exchange metadata\<close>

record instrument_metadata =
  im_instrument_id :: string
  im_symbol :: string
  im_base_currency :: string
  im_quote_currency :: string
  im_lot_size :: pydec
  im_tick_size :: pydec
  im_min_size :: pydec
  im_contract_value :: "pydec option"
  im_contract_multiplier :: "pydec option"
  im_contract_type :: "string option"
  im_instrument_type :: "string option"
  im_underlying :: "string option"
  im_settle_currency :: "string option"
  im_contract_value_currency :: "string option"

definition opt_text :: "string option \<Rightarrow> string" where
  "opt_text x = (case x of None \<Rightarrow> [] | Some s \<Rightarrow> s)"

definition symbol_parts :: "string \<Rightarrow> string list" where
  "symbol_parts symbol = filter (\<lambda>part. part \<noteq> []) (py_split (CHR ''-'') symbol)"

definition metadata_currencies :: "instrument_metadata \<Rightarrow> string \<Rightarrow> string + (string \<times> string)" where
  "metadata_currencies im symbol =
    (let parts = symbol_parts symbol;
         base0 = py_upper (py_strip (im_base_currency im));
         quote0 = py_upper (py_strip (im_quote_currency im));
         base = (if base0 = [] \<and> parts \<noteq> [] then parts ! 0 else base0);
         quote = (if quote0 = [] \<and> 2 \<le> length parts then parts ! 1 else quote0);
         underlying = py_upper (py_strip (opt_text (im_underlying im)));
         uparts = symbol_parts underlying
     in
     if 2 \<le> length parts \<and> (base \<noteq> parts ! 0 \<or> quote \<noteq> parts ! 1)
     then Inl ''instrument_currency_identity_mismatch''
     else if underlying \<noteq> [] \<and> (length uparts < 2 \<or> uparts ! 0 \<noteq> base \<or> uparts ! 1 \<noteq> quote)
     then Inl ''instrument_currency_identity_mismatch''
     else ebind (currency base ''base_currency'') (\<lambda>b. ebind (currency quote ''quote_currency'') (\<lambda>q. Inr (b, q))))"

definition instrument_contract_from_metadata :: "instrument_metadata \<Rightarrow> string + instrument_contract" where
  "instrument_contract_from_metadata im =
    (let instrument_type0 = py_upper (py_strip (opt_text (im_instrument_type im)));
         instrument_id = py_upper (py_strip (im_instrument_id im));
         symbol = py_upper (py_strip (im_symbol im))
     in
     if instrument_id = [] \<or> symbol = [] \<or> instrument_id \<noteq> symbol then Inl ''instrument_identity_mismatch''
     else ebind (metadata_currencies im symbol) (\<lambda>(base, quote).
     let shaped = py_endswith ''-SWAP'' symbol \<or> 3 \<le> length (symbol_parts symbol) in
     if instrument_type0 = [] \<and> shaped then Inl ''derivative_instrument_metadata_required''
     else let instrument_type = (if instrument_type0 = [] then ''SPOT'' else instrument_type0) in
     if instrument_type \<notin> {''SWAP'', ''FUTURES''} then
       (if instrument_type \<notin> {''SPOT'', ''MARGIN''} then Inl ''contract_type_unknown_or_inconsistent''
        else if shaped then Inl ''contract_type_unknown_or_inconsistent''
        else let declared = py_lower (py_strip (opt_text (im_contract_type im))) in
        if declared \<noteq> [] \<and> declared \<noteq> ''spot'' then Inl ''contract_type_unknown_or_inconsistent''
        else post_init
          \<lparr>ic_symbol = symbol, ic_instrument_type = instrument_type, ic_contract_type = CSpot,
           ic_base_currency = base, ic_quote_currency = quote,
           ic_settle_currency = (if str_truthy (im_settle_currency im) then opt_text (im_settle_currency im) else quote),
           ic_contract_value = Dec 1 0, ic_contract_multiplier = Dec 1 0, ic_contract_value_currency = base,
           ic_lot_size = im_lot_size im, ic_min_size = im_min_size im, ic_tick_size = im_tick_size im\<rparr>)
     else if \<not> shaped then Inl ''contract_type_unknown_or_inconsistent''
     else if py_endswith ''-SWAP'' symbol \<and> instrument_type \<noteq> ''SWAP'' then Inl ''contract_type_unknown_or_inconsistent''
     else if \<not> py_endswith ''-SWAP'' symbol \<and> instrument_type \<noteq> ''FUTURES'' then Inl ''contract_type_unknown_or_inconsistent''
     else
       let settle = py_upper (py_strip (opt_text (im_settle_currency im)));
           value_currency = py_upper (py_strip (opt_text (im_contract_value_currency im)));
           declared = py_lower (py_strip (opt_text (im_contract_type im)))
       in
       case (im_contract_value im, im_contract_multiplier im) of
         (Some contract_value, Some multiplier) \<Rightarrow>
           if settle = [] \<or> value_currency = [] then Inl ''derivative_instrument_metadata_required''
           else if declared \<noteq> ''linear'' \<and> declared \<noteq> ''inverse'' then Inl ''contract_type_unknown_or_inconsistent''
           else post_init
             \<lparr>ic_symbol = symbol, ic_instrument_type = instrument_type,
              ic_contract_type = (if declared = ''linear'' then CLinear else CInverse),
              ic_base_currency = base, ic_quote_currency = quote, ic_settle_currency = settle,
              ic_contract_value = contract_value, ic_contract_multiplier = multiplier,
              ic_contract_value_currency = value_currency,
              ic_lot_size = im_lot_size im, ic_min_size = im_min_size im, ic_tick_size = im_tick_size im\<rparr>
       | _ \<Rightarrow> Inl ''derivative_instrument_metadata_required''))"

end
