(* ===== verification/Contract_Laws.thy ===== *)
theory Contract_Laws
  imports Instrument_Contract "HOL-Library.Code_Target_Nat"
begin

text \<open>
  What the instrument contract guarantees: which values its constructor accepts, that prices and
  quantities it returns are ones it would accept, on the conservative side of what was asked for, that
  sums are exact, and that the fingerprint names the terms of the contract and nothing else.
\<close>

section \<open>Well-formed decimals\<close>

text \<open>
  A decimal whose coefficient is integral (every \<^verbatim>\<open>Decimal\<close> is), and one small enough for exact work.
\<close>

section \<open>Exact steps\<close>

definition wf_dec :: "pydec \<Rightarrow> bool" where
  "wf_dec d \<longleftrightarrow> d \<noteq> Special \<and> of_nat (coefficient d) * 10 powi dexp d = \<bar>dval d\<bar>"

definition discrete :: "pydec \<Rightarrow> bool" where
  "discrete d \<longleftrightarrow> d \<noteq> Special \<and> int (digit_count d) + \<bar>dexp d\<bar> \<le> COMPLEXITY_LIMIT"

lemma discrete_fraction_eq: "discrete_fraction d = Inr x \<longleftrightarrow> discrete d \<and> x = dval d"
  by (auto simp: discrete_fraction_def finite_decimal_def ebind_def discrete_def split: pydec.splits)

lemma wf_decI: "wf_dec (Dec (of_int k * 10 powi e) e)"
proof -
  have "\<bar>of_int k * (10 :: rat) powi e\<bar> / 10 powi e = of_int \<bar>k\<bar>" by (simp add: abs_mult)
  then show ?thesis by (simp add: wf_dec_def coefficient_def abs_mult)
qed

lemma coefficient_Dec: "coefficient (Dec (of_int k * 10 powi e) e) = nat \<bar>k\<bar>"
proof -
  have "\<bar>of_int k * (10 :: rat) powi e\<bar> / 10 powi e = of_int \<bar>k\<bar>" by (simp add: abs_mult)
  then show ?thesis by (simp add: coefficient_def del: of_int_abs)
qed

lemma canonical_decimal_Inr:
  assumes "canonical_decimal neg c e = Inr d"
  shows "dval d = (if neg then - 1 else 1) * of_nat c * 10 powi e" "wf_dec d" "discrete d"
proof -
  obtain c' e' where s: "strip_zeros c e = (c', e')" by fastforce
  let ?k = "(if neg then - 1 else 1) * int c'"
  have d: "d = Dec (of_int ?k * 10 powi e') e'" and lim: "int (max 1 (floorlog 10 c')) + \<bar>e'\<bar> \<le> COMPLEXITY_LIMIT"
    using assms by (auto simp: canonical_decimal_def s split: if_splits)
  show "dval d = (if neg then - 1 else 1) * of_nat c * 10 powi e"
    using strip_zeros_value [OF s] by (simp add: d)
  show "wf_dec d" unfolding d by (rule wf_decI)
  have "coefficient d = c'" unfolding d coefficient_Dec by simp
  then show "discrete d"
    using lim by (simp add: discrete_def d digit_count_def)
qed

lemma integer_step_Inr:
  assumes "integer_step_decimal n step = Inr d" "wf_dec step" "0 < dval step"
  shows "dval d = of_int n * dval step" "discrete d" "0 \<le> n" "wf_dec d"
proof -
  show n: "0 \<le> n" using assms(1) by (auto simp: integer_step_decimal_def split: if_splits)
  have zero: "wf_dec (Dec 0 0)" "discrete (Dec 0 0)"
    using wf_decI [of 0 0]
    by (simp_all add: discrete_def digit_count_def coefficient_def COMPLEXITY_LIMIT_def floorlog_def)
  have "n = 0 \<and> d = Dec 0 0 \<or> canonical_decimal False (nat n * coefficient step) (dexp step) = Inr d"
    using assms(1) by (auto simp: integer_step_decimal_def split: if_splits)
  then show "dval d = of_int n * dval step" "discrete d" "wf_dec d"
    using n zero canonical_decimal_Inr [of False "nat n * coefficient step" "dexp step" d] assms(2,3)
    by (auto simp: wf_dec_def)
qed

lemma denominator_one_iff: "snd (quotient_of x) = 1 \<longleftrightarrow> (\<exists>n. x = of_int n)"
proof
  assume "snd (quotient_of x) = 1"
  then obtain n where "quotient_of x = (n, 1)" by (metis prod.collapse)
  from quotient_of_div [OF this] show "\<exists>n. x = of_int n" by auto
qed auto

lemma checked_Inr:
  "required_price v = Inr p \<Longrightarrow> v = Some p \<and> 0 < dval p"
  "positive_decimal d f = Inr p \<Longrightarrow> d = p \<and> 0 < dval p"
  "finite_decimal d f = Inr p \<Longrightarrow> d = p \<and> d \<noteq> Special"
  by (auto simp: required_price_def positive_decimal_def finite_decimal_def ebind_def split: option.splits pydec.splits if_splits)

lemma positive_accepts: "d \<noteq> Special \<Longrightarrow> 0 < dval d \<Longrightarrow> positive_decimal d f = Inr d"
  "d \<noteq> Special \<Longrightarrow> 0 < dval d \<Longrightarrow> required_price (Some d) = Inr d"
  by (auto simp: required_price_def positive_decimal_def finite_decimal_def ebind_def split: pydec.splits)

lemma floor_step:
  fixes x t :: rat assumes "0 < t"
  shows "of_int \<lfloor>x / t\<rfloor> * t \<le> x" "x - t < of_int \<lfloor>x / t\<rfloor> * t"
proof -
  show "of_int \<lfloor>x / t\<rfloor> * t \<le> x"
    using of_int_floor_le [of "x / t"] assms by (simp only: pos_le_divide_eq)
  have "x / t < of_int \<lfloor>x / t\<rfloor> + 1" using floor_correct [of "x / t"] by simp
  with assms show "x - t < of_int \<lfloor>x / t\<rfloor> * t" by (simp only: pos_divide_less_eq) (simp add: algebra_simps)
qed

lemma ceiling_step:
  fixes x t :: rat assumes "0 < t"
  shows "x \<le> of_int \<lceil>x / t\<rceil> * t" "of_int \<lceil>x / t\<rceil> * t < x + t"
  using floor_step [OF assms, of "- x"] by (simp_all add: ceiling_def)

section \<open>What the constructor accepts\<close>

definition normalized :: "string \<Rightarrow> bool" where
  "normalized s \<longleftrightarrow> py_upper (py_strip s) = s"

lemma normalized_normal [simp]: "normalized (py_upper (py_strip s))"
  by (simp add: normalized_def py_strip_upper)

definition positive :: "pydec \<Rightarrow> bool" where
  "positive d \<longleftrightarrow> d \<noteq> Special \<and> 0 < dval d"

lemma positive_decimal_iff: "positive_decimal d f = Inr p \<longleftrightarrow> p = d \<and> positive d"
  by (cases d) (auto simp: positive_def positive_decimal_def finite_decimal_def)

lemma currency_iff: "currency s f = Inr p \<longleftrightarrow> p = py_upper (py_strip s) \<and> p \<noteq> []"
  by (auto simp: currency_def Let_def)

definition derivative_ok :: "instrument_contract \<Rightarrow> string list \<Rightarrow> bool" where
  "derivative_ok c expiry \<longleftrightarrow>
     (if py_endswith ''-SWAP'' (ic_symbol c) then ic_instrument_type c = ''SWAP''
      else ic_instrument_type c = ''FUTURES'' \<and> expiry \<noteq> [])"

definition identity_ok :: "instrument_contract \<Rightarrow> bool" where
  "identity_ok c \<longleftrightarrow> (\<exists>expiry. py_split (CHR ''-'') (ic_symbol c) = ic_base_currency c # ic_quote_currency c # expiry \<and>
       (case ic_contract_type c of
          CSpot \<Rightarrow> expiry = [] \<and> ic_instrument_type c \<in> {''SPOT'', ''MARGIN''} \<and>
            ic_settle_currency c = ic_quote_currency c \<and> ic_contract_value_currency c = ic_base_currency c \<and>
            dval (ic_contract_value c) = 1 \<and> dval (ic_contract_multiplier c) = 1
        | CLinear \<Rightarrow> derivative_ok c expiry \<and>
            ic_settle_currency c = ic_quote_currency c \<and> ic_contract_value_currency c = ic_base_currency c
        | CInverse \<Rightarrow> derivative_ok c expiry \<and>
            ic_settle_currency c = ic_base_currency c \<and> ic_contract_value_currency c = ic_quote_currency c))"

definition contract_ok :: "instrument_contract \<Rightarrow> bool" where
  "contract_ok c \<longleftrightarrow>
     normalized (ic_symbol c) \<and> normalized (ic_instrument_type c) \<and>
     (\<forall>s \<in> {ic_base_currency c, ic_quote_currency c, ic_settle_currency c, ic_contract_value_currency c}.
        normalized s \<and> s \<noteq> []) \<and>
     (\<forall>d \<in> {ic_contract_value c, ic_contract_multiplier c, ic_lot_size c, ic_min_size c, ic_tick_size c}. positive d) \<and>
     identity_ok c"

lemma two_parts: "2 \<le> length ps \<and> ps ! 0 = a \<and> ps ! 1 = b \<longleftrightarrow> (\<exists>r. ps = a # b # r)"
  by (cases ps; cases "tl ps") auto

lemma derivative_identity_iff:
  "ic_instrument_type c \<in> {''SWAP'', ''FUTURES''} \<and>
   derivative_identity_ok (ic_symbol c) (ic_instrument_type c) (a # b # r) \<longleftrightarrow> derivative_ok c r"
  by (auto simp: derivative_identity_ok_def derivative_ok_def Suc_le_eq)

lemma check_contract_iff:
  assumes "ic_base_currency c \<noteq> []"
  shows "check_contract c = Inr c' \<longleftrightarrow> c' = c \<and> identity_ok c"
proof (cases "\<exists>r. py_split (CHR ''-'') (ic_symbol c) = ic_base_currency c # ic_quote_currency c # r")
  case False
  then have "\<not> (2 \<le> length (py_split (CHR ''-'') (ic_symbol c)) \<and> py_split (CHR ''-'') (ic_symbol c) ! 0 = ic_base_currency c
      \<and> py_split (CHR ''-'') (ic_symbol c) ! 1 = ic_quote_currency c)"
    by (simp only: two_parts simp_thms)
  then have "length (py_split (CHR ''-'') (ic_symbol c)) < 2 \<or> py_split (CHR ''-'') (ic_symbol c) ! 0 \<noteq> ic_base_currency c
      \<or> py_split (CHR ''-'') (ic_symbol c) ! 1 \<noteq> ic_quote_currency c" by linarith
  then have "check_contract c \<noteq> Inr c'" by (simp only: check_contract_def Let_def if_True if_False) simp
  moreover have "\<not> identity_ok c" using False by (auto simp: identity_ok_def)
  ultimately show ?thesis by simp
next
  case True
  then obtain r where r: "py_split (CHR ''-'') (ic_symbol c) = ic_base_currency c # ic_quote_currency c # r" by blast
  then have "ic_symbol c \<noteq> []" by auto
  then show ?thesis
    using derivative_identity_iff [of c "ic_base_currency c" "ic_quote_currency c" r]
    by (cases "ic_contract_type c") (auto simp: check_contract_def identity_ok_def Let_def r)
qed

lemma post_init_iff:
  "post_init r = Inr c \<longleftrightarrow> contract_ok c \<and>
     c = r\<lparr>ic_symbol := py_upper (py_strip (ic_symbol r)), ic_instrument_type := py_upper (py_strip (ic_instrument_type r)),
           ic_base_currency := py_upper (py_strip (ic_base_currency r)),
           ic_quote_currency := py_upper (py_strip (ic_quote_currency r)),
           ic_settle_currency := py_upper (py_strip (ic_settle_currency r)),
           ic_contract_value_currency := py_upper (py_strip (ic_contract_value_currency r))\<rparr>"
  by (cases r) (auto simp: post_init_def ebind_eq_Inr_iff currency_iff positive_decimal_iff check_contract_iff contract_ok_def)

lemma post_init_fixed: "contract_ok c \<Longrightarrow> post_init c = Inr c"
  by (cases c) (simp add: post_init_iff contract_ok_def normalized_def)

text \<open>
  C28. The values of the class: a contract object exists exactly when its texts are stripped and upper
  case, its currencies not empty, its sizes positive and finite, its symbol starts with base and quote
  currency, and symbol, instrument type, settlement and face-value currency fit the kind of contract
  (spot: exactly two parts, unit face value, settled in quote; linear: face value in base, settled in
  quote; inverse: face value in quote, settled in base; a swap by its suffix, a future by an expiry part).
\<close>

theorem contract_values_characterised: "(\<exists>raw. post_init raw = Inr c) \<longleftrightarrow> contract_ok c"
  using post_init_fixed by (auto simp: post_init_iff)

lemma from_metadata_ok: "instrument_contract_from_metadata im = Inr c \<Longrightarrow> contract_ok c"
  by (auto simp: instrument_contract_from_metadata_def Let_def ebind_eq_Inr_iff post_init_iff
      split: if_split_asm option.split_asm prod.split_asm)

section \<open>Prices and quantities on the exchange's grid\<close>

text \<open>
  C30. \<^verbatim>\<open>execution_price\<close> is conservative: the price it returns is one \<^verbatim>\<open>validate_exchange_price\<close> accepts
  unchanged, a buy is never below the reference price worsened by the slippage and less than one tick
  above it, a sell never above it and less than one tick below.
\<close>

theorem execution_price_conservative:
  assumes "wf_dec (ic_tick_size c)" "0 < dval (ic_tick_size c)"
    and "execution_price c price side bps = Inr x"
  shows "validate_exchange_price c x = Inr x \<and> 0 < dval x \<and>
    (let tick = dval (ic_tick_size c) in
     (side = ''buy'' \<and> dval price * (1 + dval bps / 10000) \<le> dval x \<and> dval x < dval price * (1 + dval bps / 10000) + tick) \<or>
     (side = ''sell'' \<and> dval x \<le> dval price * (1 - dval bps / 10000) \<and> dval price * (1 - dval bps / 10000) - tick < dval x))"
proof -
  let ?t = "dval (ic_tick_size c)"
  define target where "target = dval price * (1 + (if side = ''buy'' then dval bps else - dval bps) / 10000)"
  define n where "n = (if side = ''buy'' then \<lceil>target / ?t\<rceil> else \<lfloor>target / ?t\<rfloor>)"
  have side: "side = ''buy'' \<or> side = ''sell''"
    using assms(3) by (auto simp: execution_price_def ebind_eq_Inr_iff split: if_split_asm)
  then have "discrete (ic_tick_size c) \<and> integer_step_decimal n (ic_tick_size c) = Inr x \<and> 0 < dval x"
  proof
    assume b: "side = ''buy''"
    show ?thesis
      using assms(3) unfolding n_def target_def b execution_price_def
      by (auto simp: ebind_eq_Inr_iff Let_def discrete_fraction_eq
        dest!: checked_Inr split: if_splits)
  next
    assume b: "side = ''sell''"
    show ?thesis
      using assms(3) unfolding n_def target_def b execution_price_def
      by (auto simp: ebind_eq_Inr_iff Let_def discrete_fraction_eq
        dest!: checked_Inr split: if_splits)
  qed
  then have tick: "discrete (ic_tick_size c)"
    and step: "integer_step_decimal n (ic_tick_size c) = Inr x" and pos: "0 < dval x" by auto
  note x = integer_step_Inr [OF step assms(1,2)]
  have "x \<noteq> Special" using x(4) by (simp add: wf_dec_def)
  then have "validate_exchange_price c x = Inr x"
    using x(1,2) tick pos assms(2)
    by (simp add: validate_exchange_price_def positive_accepts ebind_eq_Inr_iff discrete_fraction_eq denominator_one_iff)
  moreover have "side = ''buy'' \<Longrightarrow> target \<le> dval x \<and> dval x < target + ?t"
    using ceiling_step [OF assms(2), of target] by (simp add: x(1) n_def)
  moreover have "side \<noteq> ''buy'' \<Longrightarrow> dval x \<le> target \<and> target - ?t < dval x"
    using floor_step [OF assms(2), of target] by (simp add: x(1) n_def)
  ultimately show ?thesis
    using side pos by (auto simp: target_def Let_def)
qed

text \<open>
  \<^verbatim>\<open>fillable_exchange_quantity\<close> creates no liquidity: the result exceeds neither the request nor the
  permitted share of what is available, and is zero or a quantity \<^verbatim>\<open>validate_exchange_quantity\<close> accepts.
\<close>

theorem fillable_within_bounds:
  assumes "wf_dec (ic_lot_size c)" "0 < dval (ic_lot_size c)" "0 < dval (ic_min_size c)"
    and "fillable_exchange_quantity c requested available participation = Inr y"
  shows "0 \<le> dval y \<and> dval y \<le> dval requested \<and> dval y \<le> dval available * dval participation \<and>
    (y = Dec 0 0 \<or> validate_exchange_quantity c y = Inr y)"
proof -
  let ?l = "dval (ic_lot_size c)"
  define cand where "cand = min (dval requested) (dval available * dval participation)"
  have pos: "0 < dval requested" "0 < dval available" "0 < dval participation"
    and lot: "discrete (ic_lot_size c)"
    and ex: "\<exists>x. integer_step_decimal \<lfloor>cand / ?l\<rfloor> (ic_lot_size c) = Inr x \<and>
      y = (if dval x < dval (ic_min_size c) then Dec 0 0 else x)"
    using assms(4)
    by (auto simp: fillable_exchange_quantity_def ebind_eq_Inr_iff cand_def
        discrete_fraction_eq
        dest!: checked_Inr split: if_split_asm)
  from ex obtain x where step: "integer_step_decimal \<lfloor>cand / ?l\<rfloor> (ic_lot_size c) = Inr x"
    and y: "y = (if dval x < dval (ic_min_size c) then Dec 0 0 else x)" by blast
  note x = integer_step_Inr [OF step assms(1,2)]
  have "dval x \<le> cand" using floor_step [OF assms(2)] by (simp add: x(1))
  moreover have "0 \<le> dval x" using x(1,3) assms(2) by simp
  moreover have "0 \<le> cand" using pos by (simp add: cand_def)
  moreover have "validate_exchange_quantity c x = Inr x" if "\<not> dval x < dval (ic_min_size c)"
  proof -
    have "0 < dval x" "x \<noteq> Special" using that assms(3) x(4) by (auto simp: wf_dec_def)
    then show ?thesis
      using that x(1,2) lot assms(2)
      by (simp add: validate_exchange_quantity_def positive_accepts ebind_eq_Inr_iff discrete_fraction_eq denominator_one_iff)
  qed
  ultimately show ?thesis using y by (auto simp: cand_def)
qed

section \<open>Exact sums\<close>

lemma divide_out_prod: "divide_out p d = (k, r) \<Longrightarrow> d = p ^ k * r"
proof (induction p d arbitrary: k r rule: divide_out.induct)
  case (1 p d)
  show ?case
  proof (cases "1 < p \<and> 0 < d \<and> d mod p = 0")
    case True
    obtain k' r' where rec: "divide_out p (d div p) = (k', r')" by fastforce
    with True 1(2) have "k = Suc k'" "r = r'" by (simp_all add: divide_out.simps [of p d])
    moreover have "d div p = p ^ k' * r'" by (rule 1(1) [OF True rec])
    moreover have "d = p * (d div p)" using True by auto
    ultimately show ?thesis by (metis mult.assoc power_Suc)
  next
    case False
    then show ?thesis using 1(2) by (auto simp: divide_out.simps [of p d])
  qed
qed

lemma divide_out_rest: "divide_out p d = (k, r) \<Longrightarrow> 1 < p \<Longrightarrow> 0 < d \<Longrightarrow> 0 < r \<and> \<not> p dvd r"
proof (induction p d arbitrary: k r rule: divide_out.induct)
  case (1 p d)
  show ?case
  proof (cases "d mod p = 0")
    case True
    obtain k' r' where rec: "divide_out p (d div p) = (k', r')" by fastforce
    have "0 < d div p" using True 1(3,4) by (auto simp: div_greater_zero_iff dvd_imp_le mod_eq_0_iff_dvd)
    moreover have "r = r'" using rec True 1(2-4) by (simp add: divide_out.simps [of p d])
    ultimately show ?thesis using 1(1) [OF _ rec] True 1(3,4) by simp
  next
    case False
    then show ?thesis using 1(2-4) by (auto simp: divide_out.simps [of p d])
  qed
qed

lemma exact_decimal_of_fraction_Inr:
  assumes "exact_decimal_of_fraction x = Inr d"
  shows "dval d = x" "discrete d"
proof -
  have "dval d = x \<and> discrete d"
  proof (cases "x = 0")
    case True
    then show ?thesis using assms integer_step_Inr(1,2) [of 0 "Dec 1 0" "Dec 0 0"] wf_decI [of 1 0]
      by (auto simp: exact_decimal_of_fraction_def integer_step_decimal_def)
  next
    case False
    obtain n m where q: "quotient_of x = (n, m)" by fastforce
    obtain a d2 where d2: "divide_out 2 (nat m) = (a, d2)" by fastforce
    obtain b d5 where d5: "divide_out 5 d2 = (b, d5)" by fastforce
    let ?s = "max a b"
    let ?c = "n * 2 ^ (?s - a) * 5 ^ (?s - b)"
    have one: "d5 = 1" and can: "canonical_decimal (?c < 0) (nat \<bar>?c\<bar>) (- int ?s) = Inr d"
      using assms False by (auto simp: exact_decimal_of_fraction_def q d2 d5 Let_def split: if_splits)
    have m: "0 < m" using quotient_of_denom_pos [OF q] .
    have "nat m = 2 ^ a * 5 ^ b"
      using divide_out_prod [OF d2] divide_out_prod [OF d5] one by simp
    then have m': "of_int m = (2 :: rat) ^ a * 5 ^ b"
    proof -
      have "of_int m = (of_nat (nat m) :: rat)" using m by (simp add: of_nat_nat)
      then show ?thesis using \<open>nat m = 2 ^ a * 5 ^ b\<close> by simp
    qed
    have x: "x = of_int n / of_int m" using quotient_of_div [OF q] .
    have ten: "(10 :: rat) ^ ?s = 2 ^ (?s - a) * 2 ^ a * (5 ^ (?s - b) * 5 ^ b)"
      by (simp add: power_add [symmetric] power_mult_distrib [symmetric])
    have "dval d = of_int ?c * 10 powi (- int ?s)"
      using canonical_decimal_Inr(1) [OF can] by (auto simp: abs_if)
    also have "\<dots> = of_int ?c / 10 ^ ?s" by (simp add: power_int_minus divide_inverse)
    also have "\<dots> = x" unfolding ten x m' by simp
    finally show ?thesis using canonical_decimal_Inr(3) [OF can] by simp
  qed
  then show "dval d = x" "discrete d" by auto
qed

definition decimal_fraction :: "rat \<Rightarrow> bool" where
  "decimal_fraction x \<longleftrightarrow> (\<exists>k n. x * 10 ^ k = of_int n)"

lemma decimal_fraction_0: "decimal_fraction 0"
  by (auto simp: decimal_fraction_def)

lemma decimal_fraction_add:
  assumes "decimal_fraction x" "decimal_fraction y"
  shows "decimal_fraction (x + y)"
proof -
  obtain k n l m where x: "x * 10 ^ k = of_int n" and y: "y * 10 ^ l = of_int m"
    using assms by (auto simp: decimal_fraction_def)
  have "(x + y) * 10 ^ (k + l) = (x * 10 ^ k) * 10 ^ l + (y * 10 ^ l) * 10 ^ k"
    by (simp add: power_add algebra_simps)
  also have "\<dots> = of_int (n * 10 ^ l + m * 10 ^ k)" by (simp add: x y)
  finally show ?thesis unfolding decimal_fraction_def by blast
qed

lemma decimal_fraction_wf: "wf_dec d \<Longrightarrow> decimal_fraction (dval d)"
proof -
  assume "wf_dec d"
  then have "\<bar>dval d\<bar> = of_nat (coefficient d) * 10 powi dexp d" by (simp add: wf_dec_def)
  then have "dval d = of_int (if dval d < 0 then - int (coefficient d) else int (coefficient d)) * 10 powi dexp d"
    by (auto split: if_splits)
  then obtain c where c: "dval d = of_int c * 10 powi dexp d" by blast
  have "10 powi dexp d * (10 :: rat) ^ nat \<bar>dexp d\<bar> = of_int (10 ^ nat (dexp d + \<bar>dexp d\<bar>))"
    by (cases "0 \<le> dexp d") (auto simp: power_int_def power_add [symmetric] nat_add_distrib field_simps)
  then have "dval d * 10 ^ nat \<bar>dexp d\<bar> = of_int (c * 10 ^ nat (dexp d + \<bar>dexp d\<bar>))"
    using c by (metis mult.assoc of_int_mult)
  then show ?thesis unfolding decimal_fraction_def by blast
qed

lemma coprime_five: "\<not> 5 dvd d \<Longrightarrow> coprime d (5 :: nat)"
proof -
  assume no: "\<not> 5 dvd d"
  have "gcd d 5 dvd 5" by simp
  then have "gcd d 5 \<le> 5" "gcd d 5 dvd 5" by (auto intro: dvd_imp_le)
  moreover have "x \<le> 5 \<Longrightarrow> x dvd 5 \<Longrightarrow> x = 1 \<or> x = 5" for x :: nat
  proof -
    assume "x \<le> 5" "x dvd 5"
    then have "x \<in> {0, 1, 2, 3, 4, 5}" by auto
    with \<open>x dvd 5\<close> show ?thesis by auto
  qed
  ultimately have "gcd d 5 = 1 \<or> gcd d 5 = 5" by blast
  then show ?thesis using no by (metis coprime_iff_gcd_eq_1 gcd_dvd1)
qed

lemma exact_decimal_of_fraction_Inl:
  assumes "decimal_fraction x" "exact_decimal_of_fraction x = Inl e"
  shows "e = ''contract_discrete_arithmetic_too_large''"
proof -
  obtain n m where q: "quotient_of x = (n, m)" by fastforce
  obtain a d2 where d2: "divide_out 2 (nat m) = (a, d2)" by fastforce
  obtain b d5 where d5: "divide_out 5 d2 = (b, d5)" by fastforce
  obtain k i where k: "x * 10 ^ k = of_int i" using assms(1) by (auto simp: decimal_fraction_def)
  have m: "0 < m" using quotient_of_denom_pos [OF q] .
  have "of_int (n * 10 ^ k) = (of_int (i * m) :: rat)"
    using k m by (simp add: quotient_of_div [OF q] field_simps)
  then have "n * 10 ^ k = i * m" by (simp only: of_int_eq_iff)
  then have "m dvd n * 10 ^ k" by simp
  then have "m dvd 10 ^ k"
    using quotient_of_coprime [OF q] by (simp add: coprime_commute coprime_dvd_mult_right_iff)
  then have "int (nat m) dvd int (10 ^ k)" using m by simp
  then have m10: "nat m dvd 10 ^ k" by (simp only: of_nat_dvd_iff)
  have prod: "nat m = 2 ^ a * 5 ^ b * d5"
    using divide_out_prod [OF d2] divide_out_prod [OF d5] by simp
  have "d5 dvd nat m" unfolding prod by (rule dvd_triv_right)
  then have dvd: "d5 dvd 10 ^ k" using m10 by (rule dvd_trans)
  have ten: "10 ^ k = (2 ^ k * 5 ^ k :: nat)" by (simp add: power_mult_distrib [symmetric])
  have pos: "0 < nat m" using m by simp
  have r2: "0 < d2" "\<not> 2 dvd d2" using divide_out_rest [OF d2 _ pos] by simp_all
  have r5: "\<not> 5 dvd d5" using divide_out_rest [OF d5 _ r2(1)] by simp
  have "\<not> 2 dvd d5" using r2(2) by (simp add: divide_out_prod [OF d5])
  then have "coprime d5 2" by (simp add: coprime_right_2_iff_odd)
  moreover have "coprime d5 5" using r5 by (rule coprime_five)
  ultimately have "coprime d5 (2 ^ k * 5 ^ k)" by (simp only: coprime_mult_right_iff coprime_power_right_iff simp_thms)
  with dvd ten have "coprime d5 d5" by (metis coprime_common_divisor coprime_def dvd_trans)
  then have "d5 = 1" by simp
  then show ?thesis
    using assms(2)
    by (auto simp: exact_decimal_of_fraction_def q d2 d5 Let_def canonical_decimal_def split: if_splits prod.splits)
qed

lemma all_finite_Inr: "all_finite vs f = Inr ds \<longleftrightarrow> ds = vs \<and> Special \<notin> set vs"
  by (induction vs arbitrary: ds) (auto simp: ebind_eq_Inr_iff finite_decimal_def split: pydec.splits)

lemma fraction_sum_Inr: "fraction_sum vs = Inr x \<Longrightarrow> x = sum_list (map dval vs)"
  by (induction vs arbitrary: x) (auto simp: ebind_eq_Inr_iff discrete_fraction_eq)

lemma fraction_sum_Inl:
  "fraction_sum vs = Inl e \<Longrightarrow> Special \<notin> set vs \<Longrightarrow> e = ''contract_discrete_arithmetic_too_large''"
  by (induction vs)
    (auto simp: ebind_eq_Inl_iff discrete_fraction_def finite_decimal_def split: pydec.splits if_splits)

lemma decimal_fraction_sum: "\<forall>v \<in> set vs. wf_dec v \<Longrightarrow> decimal_fraction (sum_list (map dval vs))"
  by (induction vs) (auto simp: decimal_fraction_0 decimal_fraction_add decimal_fraction_wf)

lemma exact_decimal_sum_correct:
  assumes "\<forall>v \<in> set vs. wf_dec v"
  shows "case exact_decimal_sum vs of
    Inr d \<Rightarrow> dval d = sum_list (map dval vs) \<and> discrete d
  | Inl e \<Rightarrow> e = ''contract_discrete_arithmetic_too_large''"
proof (cases "exact_decimal_sum vs")
  case (Inl e)
  have "Special \<notin> set vs" using assms by (auto simp: wf_dec_def)
  moreover have "exact_decimal_of_fraction x = Inl e \<Longrightarrow> fraction_sum vs = Inr x \<Longrightarrow>
      e = ''contract_discrete_arithmetic_too_large''" for x
    using decimal_fraction_sum [OF assms] by (auto dest!: fraction_sum_Inr intro: exact_decimal_of_fraction_Inl)
  ultimately show ?thesis
    using Inl fraction_sum_Inl by (auto simp: exact_decimal_sum_def ebind_eq_Inl_iff)
next
  case (Inr d)
  then obtain x where "fraction_sum vs = Inr x" "exact_decimal_of_fraction x = Inr d"
    by (auto simp: exact_decimal_sum_def ebind_eq_Inr_iff)
  then show ?thesis
    using Inr fraction_sum_Inr exact_decimal_of_fraction_Inr by simp
qed

text \<open>
  Adding exchange quantities never creates or loses inventory: for any finite decimals, whatever
  their digits, the result is the exact sum, or the size limit is reported; the branch the code marks
  unreachable (a sum that is not a decimal) is.
\<close>

theorem exchange_quantities_add_exactly:
  assumes "\<forall>v \<in> set vs. wf_dec v"
  shows "case add_exchange_quantities vs of
    Inr d \<Rightarrow> dval d = sum_list (map dval vs) \<and> discrete d
  | Inl e \<Rightarrow> e = ''contract_discrete_arithmetic_too_large''"
proof -
  have "Special \<notin> set vs" using assms by (auto simp: wf_dec_def)
  then have "all_finite vs ''exchange_quantity'' = Inr vs" by (simp add: all_finite_Inr)
  then show ?thesis using exact_decimal_sum_correct [OF assms] by (simp add: add_exchange_quantities_def)
qed

section \<open>The fingerprint\<close>

lemma strip_zeros_stripped: "strip_zeros c e = (c', e') \<Longrightarrow> 0 < c \<Longrightarrow> c' mod 10 \<noteq> 0"
proof (induction c e rule: strip_zeros.induct)
  case (1 c e)
  show ?case
  proof (cases "10 \<le> c \<and> c mod 10 = 0")
    case True
    then have "strip_zeros (c div 10) (e + 1) = (c', e')" using 1(2) by (simp add: strip_zeros.simps [of c e])
    then show ?thesis using 1(1) True by auto
  next
    case False
    then show ?thesis using 1(2,3) by (auto simp: strip_zeros.simps [of c e] split: if_splits)
  qed
qed

lemma stripped_unique_le:
  fixes e e' :: int
  assumes "of_nat c * (10 :: rat) powi e = of_nat c' * 10 powi e'" "c' mod 10 \<noteq> 0" "e' \<le> e"
  shows "c = c' \<and> e = e'"
proof -
  define k where "k = nat (e - e')"
  have e: "e = e' + int k" using assms(3) by (simp add: k_def)
  have "of_nat c * (10 :: rat) ^ k * 10 powi e' = of_nat c' * 10 powi e'"
    using assms(1) by (simp add: e power_int_add ac_simps)
  then have "of_nat (c * 10 ^ k) = (of_nat c' :: rat)" by simp
  then have eq: "c * 10 ^ k = c'" by (simp only: of_nat_eq_iff)
  then have "k = 0" using assms(2) by (cases k) auto
  then show ?thesis using eq e by simp
qed

lemma stripped_unique:
  assumes "of_nat c * (10 :: rat) powi e = of_nat c' * 10 powi e'" "c mod 10 \<noteq> 0" "c' mod 10 \<noteq> 0"
  shows "c = c' \<and> e = e'"
  using stripped_unique_le [OF assms(1,3)] stripped_unique_le [OF assms(1) [symmetric] assms(2)]
  by (cases "e' \<le> e") auto

lemma identity_text_inject:
  "nat_str c @ ''e'' @ i = nat_str c' @ ''e'' @ i' \<longleftrightarrow> c = c' \<and> i = i'"
proof
  assume eq: "nat_str c @ ''e'' @ i = nat_str c' @ ''e'' @ i'"
  have "CHR ''e'' \<notin> set (nat_str n)" for n using nat_str_digits [of "CHR ''e''" n] by (auto simp: is_digit_char_def)
  then have "takeWhile (\<lambda>x. x \<noteq> CHR ''e'') (nat_str n @ ''e'' @ s) = nat_str n" for n s
    by (subst takeWhile_append2) auto
  then have "nat_str c = nat_str c'" using eq by metis
  then show "c = c' \<and> i = i'" using eq by simp
qed simp

lemma stripped_parts:
  assumes "wf_dec d" "dval d \<noteq> 0" "strip_zeros (coefficient d) (dexp d) = (c, e)"
  shows "of_nat c * 10 powi e = \<bar>dval d\<bar>" "c mod 10 \<noteq> 0"
proof -
  show "of_nat c * 10 powi e = \<bar>dval d\<bar>"
    using strip_zeros_value [OF assms(3)] assms(1) by (simp add: wf_dec_def)
  have "0 < coefficient d" using assms(1,2) by (auto simp: wf_dec_def intro: ccontr)
  then show "c mod 10 \<noteq> 0" by (rule strip_zeros_stripped [OF assms(3)])
qed

lemma identity_not_zero: "nat_str c @ ''e'' @ i \<noteq> ''0''" "''-'' @ s \<noteq> ''0''"
  by (cases "nat_str c"; auto)+

lemma canonical_decimal_identity_iff:
  assumes "wf_dec a" "wf_dec b"
  shows "canonical_decimal_identity a = canonical_decimal_identity b \<longleftrightarrow> dval a = dval b"
proof (cases "dval a = 0 \<or> dval b = 0")
  case True
  have "canonical_decimal_identity d = ''0'' \<longleftrightarrow> dval d = 0" for d
    using identity_not_zero by (auto simp: canonical_decimal_identity_def split: prod.splits)
  then show ?thesis using True by metis
next
  case False
  obtain c e where a: "strip_zeros (coefficient a) (dexp a) = (c, e)" by fastforce
  obtain c' e' where b: "strip_zeros (coefficient b) (dexp b) = (c', e')" by fastforce
  have pa: "of_nat c * 10 powi e = \<bar>dval a\<bar>" "c mod 10 \<noteq> 0"
    and pb: "of_nat c' * 10 powi e' = \<bar>dval b\<bar>" "c' mod 10 \<noteq> 0"
    using stripped_parts [OF assms(1) _ a] stripped_parts [OF assms(2) _ b] False by auto
  have same: "c = c' \<and> e = e' \<longleftrightarrow> \<bar>dval a\<bar> = \<bar>dval b\<bar>"
    using stripped_unique [of c e c' e'] pa pb by auto
  have neg: "''-'' @ s \<noteq> nat_str n @ t" for s n t
    using nat_str_no_minus [of n] by (cases "nat_str n") auto
  have "canonical_decimal_identity a = canonical_decimal_identity b \<longleftrightarrow>
      (dval a < 0 \<longleftrightarrow> dval b < 0) \<and> c = c' \<and> e = e'"
    using False neg identity_text_inject int_str_inject
    by (auto simp: canonical_decimal_identity_def a b dest: sym)
  then show ?thesis using same False by (auto simp: abs_if split: if_splits)
qed

definition same_terms :: "instrument_contract \<Rightarrow> instrument_contract \<Rightarrow> bool" where
  "same_terms c d \<longleftrightarrow>
     ic_symbol c = ic_symbol d \<and> ic_instrument_type c = ic_instrument_type d \<and> ic_contract_type c = ic_contract_type d \<and>
     ic_base_currency c = ic_base_currency d \<and> ic_quote_currency c = ic_quote_currency d \<and>
     ic_settle_currency c = ic_settle_currency d \<and> ic_contract_value_currency c = ic_contract_value_currency d \<and>
     dval (ic_contract_value c) = dval (ic_contract_value d) \<and>
     dval (ic_contract_multiplier c) = dval (ic_contract_multiplier d) \<and>
     dval (ic_lot_size c) = dval (ic_lot_size d) \<and> dval (ic_min_size c) = dval (ic_min_size d) \<and>
     dval (ic_tick_size c) = dval (ic_tick_size d)"

definition wf_decimals :: "instrument_contract \<Rightarrow> bool" where
  "wf_decimals c \<longleftrightarrow> list_all wf_dec [ic_contract_value c, ic_contract_multiplier c, ic_lot_size c, ic_min_size c, ic_tick_size c]"

lemma digit_text_separator: "unit_separator \<notin> set (nat_str n)" "unit_separator \<notin> set (int_str i)"
proof -
  show a: "unit_separator \<notin> set (nat_str n)" for n
    using nat_str_digits [of unit_separator n] by (auto simp: is_digit_char_def unit_separator_def)
  show "unit_separator \<notin> set (int_str i)" using a by (auto simp: int_str_def unit_separator_def)
qed

lemma identity_separator: "unit_separator \<notin> set (canonical_decimal_identity d)"
  using digit_text_separator
  by (auto simp: canonical_decimal_identity_def unit_separator_def split: prod.splits)

lemma set_py_split: "p \<in> set (py_split d s) \<Longrightarrow> set p \<subseteq> set s"
  by (induction s arbitrary: p) (fastforce split: if_splits list.splits)+

lemma currencies_in_symbol:
  assumes "contract_ok c"
  shows "set (ic_base_currency c) \<subseteq> set (ic_symbol c)" "set (ic_quote_currency c) \<subseteq> set (ic_symbol c)"
    "ic_settle_currency c \<in> {ic_base_currency c, ic_quote_currency c}"
    "ic_contract_value_currency c \<in> {ic_base_currency c, ic_quote_currency c}"
    "ic_instrument_type c \<in> {''SPOT'', ''MARGIN'', ''SWAP'', ''FUTURES''}"
proof -
  from assms obtain expiry where parts: "py_split (CHR ''-'') (ic_symbol c) = ic_base_currency c # ic_quote_currency c # expiry"
    by (auto simp: contract_ok_def identity_ok_def)
  then show "set (ic_base_currency c) \<subseteq> set (ic_symbol c)" "set (ic_quote_currency c) \<subseteq> set (ic_symbol c)"
    using set_py_split [of _ "CHR ''-''" "ic_symbol c"] by simp_all
  have "identity_ok c" using assms by (simp add: contract_ok_def)
  then show "ic_settle_currency c \<in> {ic_base_currency c, ic_quote_currency c}"
    "ic_contract_value_currency c \<in> {ic_base_currency c, ic_quote_currency c}"
    "ic_instrument_type c \<in> {''SPOT'', ''MARGIN'', ''SWAP'', ''FUTURES''}"
    by (cases "ic_contract_type c"; auto simp: identity_ok_def derivative_ok_def split: if_splits)+
qed

lemma fingerprint_fields_separated:
  assumes "contract_ok c" "unit_separator \<notin> set (ic_symbol c)"
  shows "\<forall>p \<in> set (fingerprint_fields c). unit_separator \<notin> set p"
proof -
  have "unit_separator \<notin> set (ic_base_currency c)" "unit_separator \<notin> set (ic_quote_currency c)"
    using currencies_in_symbol [OF assms(1)] assms(2) by auto
  moreover have "unit_separator \<notin> set (ic_instrument_type c)"
    using currencies_in_symbol(5) [OF assms(1)] by (auto simp: unit_separator_def)
  ultimately show ?thesis
    using currencies_in_symbol(3,4) [OF assms(1)] assms(2) identity_separator
    by (auto simp: fingerprint_fields_def contract_type_text_def unit_separator_def split: contract_type.splits)
qed

lemma contract_type_text_inject [simp]: "contract_type_text s = contract_type_text t \<longleftrightarrow> s = t"
  by (cases s; cases t) (auto simp: contract_type_text_def)

lemma fingerprint_fields_inject:
  "wf_decimals c \<Longrightarrow> wf_decimals d \<Longrightarrow> fingerprint_fields c = fingerprint_fields d \<longleftrightarrow> same_terms c d"
  by (auto simp: fingerprint_fields_def same_terms_def wf_decimals_def canonical_decimal_identity_iff)

text \<open>
  C31. The fingerprint identifies the contract: two contracts whose symbols do not contain the unit
  separator have the same fingerprint exactly when they agree on every text field, on the kind of
  contract and on the value of every decimal, whatever its trailing zeros; the digest may not collide
  on the two preimages.
\<close>

theorem fingerprint_identifies_contract:
  assumes "contract_ok c" "contract_ok d" "wf_decimals c" "wf_decimals d"
    and "unit_separator \<notin> set (ic_symbol c)" "unit_separator \<notin> set (ic_symbol d)"
    and "inj_on digest {py_join [unit_separator] (fingerprint_fields c), py_join [unit_separator] (fingerprint_fields d)}"
  shows "fingerprint digest c = fingerprint digest d \<longleftrightarrow> same_terms c d"
proof -
  have ne: "fingerprint_fields e \<noteq> []" for e by (simp add: fingerprint_fields_def)
  have "fingerprint digest c = fingerprint digest d \<longleftrightarrow>
      py_join [unit_separator] (fingerprint_fields c) = py_join [unit_separator] (fingerprint_fields d)"
    using assms(7) by (auto simp: fingerprint_def inj_on_eq_iff)
  also have "\<dots> \<longleftrightarrow> fingerprint_fields c = fingerprint_fields d"
    using fingerprint_fields_separated [OF assms(1,5)] fingerprint_fields_separated [OF assms(2,6)]
    by (intro py_join_inject) (simp_all add: ne)
  finally show ?thesis using fingerprint_fields_inject [OF assms(3,4)] by simp
qed

section \<open>Examples\<close>

definition example_contract :: instrument_contract where
  "example_contract = \<lparr>ic_symbol = ''BTC-USDT-SWAP'', ic_instrument_type = ''SWAP'', ic_contract_type = CLinear,
     ic_base_currency = ''BTC'', ic_quote_currency = ''USDT'', ic_settle_currency = ''USDT'',
     ic_contract_value = Dec (1 / 100) (- 2), ic_contract_multiplier = Dec 1 0, ic_contract_value_currency = ''BTC'',
     ic_lot_size = Dec (1 / 100) (- 2), ic_min_size = Dec (1 / 100) (- 2), ic_tick_size = Dec (1 / 10) (- 1)\<rparr>"

theorem execution_price_conservative_witness:
  "execution_price example_contract (Dec (10005 / 100) (- 2)) ''buy'' (Dec 10 0) = Inr (Dec (1002 / 10) (- 1)) \<and>
   validate_exchange_price example_contract (Dec (1002 / 10) (- 1)) = Inr (Dec (1002 / 10) (- 1))"
proof -
  have price: "execution_price example_contract (Dec (10005 / 100) (- 2)) ''buy'' (Dec 10 0) = Inr (Dec (1002 / 10) (- 1))"
    by code_simp
  have "wf_dec (ic_tick_size example_contract)" "0 < dval (ic_tick_size example_contract)" by code_simp+
  from execution_price_conservative [OF this price] show ?thesis using price by blast
qed

theorem fillable_within_bounds_witness:
  "fillable_exchange_quantity example_contract (Dec 5 0) (Dec (12345 / 1000) (- 3)) (Dec (1 / 10) (- 1))
     = Inr (Dec (123 / 100) (- 2)) \<and>
   validate_exchange_quantity example_contract (Dec (123 / 100) (- 2)) = Inr (Dec (123 / 100) (- 2))"
proof -
  have fill: "fillable_exchange_quantity example_contract (Dec 5 0) (Dec (12345 / 1000) (- 3)) (Dec (1 / 10) (- 1))
      = Inr (Dec (123 / 100) (- 2))" by code_simp
  have "wf_dec (ic_lot_size example_contract)" "0 < dval (ic_lot_size example_contract)"
    "0 < dval (ic_min_size example_contract)" by code_simp+
  from fillable_within_bounds [OF this fill] show ?thesis using fill by simp
qed

theorem exchange_quantities_add_exactly_witness:
  "case add_exchange_quantities [Dec (105 / 100) (- 2), Dec (- 5 / 100) (- 2)] of
     Inr d \<Rightarrow> dval d = 1 \<and> discrete d | Inl e \<Rightarrow> e = ''contract_discrete_arithmetic_too_large''"
proof -
  have "wf_dec (Dec (105 / 100) (- 2))" "wf_dec (Dec (- 5 / 100) (- 2))" by code_simp+
  then have "\<forall>v \<in> set [Dec (105 / 100) (- 2), Dec (- 5 / 100) (- 2)]. wf_dec v" by simp
  from exchange_quantities_add_exactly [OF this] show ?thesis by (simp split: sum.splits)
qed

theorem fingerprint_identifies_contract_witness:
  "fingerprint id example_contract = fingerprint id (example_contract\<lparr>ic_lot_size := Dec (1 / 100) (- 4)\<rparr>)"
proof -
  let ?d = "example_contract\<lparr>ic_lot_size := Dec (1 / 100) (- 4)\<rparr>"
  have "post_init example_contract = Inr example_contract" "post_init ?d = Inr ?d" by code_simp+
  then have "contract_ok example_contract" "contract_ok ?d" by (auto simp: post_init_iff)
  moreover have "wf_decimals example_contract" "wf_decimals ?d" by code_simp+
  moreover have "unit_separator \<notin> set (ic_symbol example_contract)" "unit_separator \<notin> set (ic_symbol ?d)" by code_simp+
  moreover have "same_terms example_contract ?d" by (simp add: same_terms_def example_contract_def)
  ultimately show ?thesis by (simp add: fingerprint_identifies_contract)
qed

end
