(* ===== verification/Quantity_Rules.thy ===== *)
theory Quantity_Rules
  imports Contract_Laws
begin

text \<open>
  The quantity rules of the execution engine (\<^verbatim>\<open>services/execution_engine/quantity_rules.py\<close>): rounding a
  quantity down to the exchange's step, converting between internal and exchange quantities, the
  minimum order quantities, and the quantity an order may have.
\<close>

section \<open>The rules\<close>

definition infer_okx_derivatives_inst_type :: "string \<Rightarrow> string option" where
  "infer_okx_derivatives_inst_type symbol =
    (let normalized = py_upper (py_strip symbol) in
     if normalized = [] then None
     else if py_endswith ''-SWAP'' normalized then Some ''SWAP''
     else if py_isdigit (last (py_split (CHR ''-'') normalized)) then Some ''FUTURES''
     else None)"

definition round_down_to_step :: "pydec \<Rightarrow> pydec \<Rightarrow> string + pydec" where
  "round_down_to_step v step =
    (if v = Special \<or> step = Special \<or> dval step \<le> 0 then Inl ''quantity_step_rounding_invalid''
     else if dval v = 0 then Inr (Dec 0 0)
     else let exponent_delta = dexp v - dexp step in
     if 1000 < digit_count v \<or> 1000 < digit_count step \<or> 1000 < \<bar>exponent_delta\<bar>
     then Inl ''quantity_step_rounding_invalid''
     else
       let numerator = (if 0 \<le> exponent_delta then coefficient v * 10 ^ nat exponent_delta else coefficient v);
           denominator = (if 0 \<le> exponent_delta then coefficient step
                          else coefficient step * 10 ^ nat (- exponent_delta));
           step_count = numerator div denominator
       in Inr (Dec ((if dval v < 0 then - 1 else 1) * of_nat (step_count * coefficient step) * 10 powi dexp step)
                (dexp step)))"

definition execution_contract :: "string \<Rightarrow> instrument_metadata option \<Rightarrow> string + instrument_contract option" where
  "execution_contract symbol instrument = (case instrument of
     None \<Rightarrow> if infer_okx_derivatives_inst_type symbol \<in> {Some ''SWAP'', Some ''FUTURES''}
             then Inl ''derivative_instrument_metadata_required'' else Inr None
   | Some im \<Rightarrow>
       if py_upper (py_strip (im_symbol im)) \<noteq> py_upper (py_strip symbol) then Inl ''instrument_identity_mismatch''
       else ebind (instrument_contract_from_metadata im) (\<lambda>c.
         if ic_contract_type c = CInverse then Inl ''inverse_execution_quantity_unsupported'' else Inr (Some c)))"

definition exchange_quantity_from_internal :: "string \<Rightarrow> pydec \<Rightarrow> instrument_metadata option \<Rightarrow> string + pydec" where
  "exchange_quantity_from_internal symbol quantity instrument =
    ebind (execution_contract symbol instrument) (\<lambda>contract. case contract of
      None \<Rightarrow> Inr quantity
    | Some c \<Rightarrow> exchange_quantity c quantity None)"

definition internal_quantity_from_exchange :: "string \<Rightarrow> pydec \<Rightarrow> instrument_metadata option \<Rightarrow> string + pydec" where
  "internal_quantity_from_exchange symbol quantity instrument =
    ebind (execution_contract symbol instrument) (\<lambda>contract. case contract of
      None \<Rightarrow> Inr quantity
    | Some c \<Rightarrow> base_quantity c quantity None)"

text \<open>\<^verbatim>\<open>max\<close> of two finite decimals: the first of the largest.\<close>

definition pymax :: "pydec \<Rightarrow> pydec \<Rightarrow> pydec" where
  "pymax a b = (if dval a < dval b then b else a)"

definition minimum_exchange_order_quantity :: "instrument_metadata option \<Rightarrow> string + pydec" where
  "minimum_exchange_order_quantity instrument = (case instrument of
     None \<Rightarrow> Inr (Dec 0 0)
   | Some im \<Rightarrow> ebind (execution_contract (im_symbol im) instrument) (\<lambda>_.
       Inr (pymax (pymax (im_min_size im) (im_lot_size im)) (Dec 0 0))))"

definition minimum_internal_order_quantity :: "string \<Rightarrow> instrument_metadata option \<Rightarrow> string + pydec" where
  "minimum_internal_order_quantity symbol instrument =
    (if instrument = None \<and> infer_okx_derivatives_inst_type symbol \<in> {Some ''SWAP'', Some ''FUTURES''}
     then Inl ''derivative_instrument_metadata_required''
     else ebind (minimum_exchange_order_quantity instrument) (\<lambda>minimum.
       if dval minimum \<le> 0 then Inr (Dec 0 0)
       else internal_quantity_from_exchange symbol minimum instrument))"

definition quantized_internal_quantity :: "string \<Rightarrow> pydec \<Rightarrow> instrument_metadata option \<Rightarrow> string + pydec" where
  "quantized_internal_quantity symbol quantity instrument = (case instrument of
     None \<Rightarrow> if infer_okx_derivatives_inst_type symbol \<in> {Some ''SWAP'', Some ''FUTURES''}
             then Inl ''derivative_instrument_metadata_required'' else Inr quantity
   | Some im \<Rightarrow>
       ebind (exchange_quantity_from_internal symbol quantity instrument) (\<lambda>exchange_qty.
       ebind (round_down_to_step (copy_abs exchange_qty) (pymax (im_lot_size im) (Dec 0 0))) (\<lambda>rounded.
       ebind (internal_quantity_from_exchange symbol rounded instrument) (\<lambda>internal.
       Inr (if dval exchange_qty < 0 then copy_negate internal else internal)))))"

section \<open>The steps of the rules\<close>

lemma strip_zeros_mono: "strip_zeros c e = (c', e') \<Longrightarrow> e \<le> e'"
proof (induction c e rule: strip_zeros.induct)
  case (1 c e)
  then show ?case by (cases "10 \<le> c \<and> c mod 10 = 0") (force simp: strip_zeros.simps [of c e])+
qed

lemma from_metadata_sizes:
  "instrument_contract_from_metadata im = Inr c \<Longrightarrow> ic_lot_size c = im_lot_size im \<and> ic_min_size c = im_min_size im"
  by (auto simp: instrument_contract_from_metadata_def Let_def ebind_eq_Inr_iff post_init_iff
      split: if_split_asm option.split_asm prod.split_asm)

lemma coefficient_ratio:
  assumes "wf_dec v" "wf_dec s" "0 < dval s"
  defines "d \<equiv> dexp v - dexp s"
  shows "(if 0 \<le> d then coefficient v * 10 ^ nat d else coefficient v)
      div (if 0 \<le> d then coefficient s else coefficient s * 10 ^ nat (- d)) = nat \<lfloor>\<bar>dval v\<bar> / dval s\<rfloor>"
proof -
  have v: "\<bar>dval v\<bar> = of_nat (coefficient v) * 10 powi dexp v" using assms by (simp add: wf_dec_def)
  have s: "dval s = of_nat (coefficient s) * 10 powi dexp s" using assms by (simp add: wf_dec_def)
  have q: "\<bar>dval v\<bar> / dval s = of_nat (coefficient v) * 10 powi d / of_nat (coefficient s)"
    by (simp add: v s d_def power_int_diff)
  show ?thesis
  proof (cases "0 \<le> d")
    case True
    then have "\<bar>dval v\<bar> / dval s = of_nat (coefficient v * 10 ^ nat d) / of_nat (coefficient s)"
      unfolding q by (simp add: power_int_def)
    then show ?thesis using True by (simp only: floor_divide_of_nat_eq if_True nat_int)
  next
    case False
    then have "\<bar>dval v\<bar> / dval s = of_nat (coefficient v) / of_nat (coefficient s * 10 ^ nat (- d))"
      unfolding q by (simp add: power_int_def field_simps)
    then show ?thesis using False by (simp only: floor_divide_of_nat_eq if_False nat_int)
  qed
qed

lemma round_down_to_step_Inr:
  assumes "round_down_to_step v s = Inr r" "wf_dec v" "wf_dec s"
  shows "0 < dval s" "dval r = sgn (dval v) * of_int \<lfloor>\<bar>dval v\<bar> / dval s\<rfloor> * dval s" "wf_dec r"
proof -
  show pos: "0 < dval s" using assms(1) by (auto simp: round_down_to_step_def split: if_split_asm)
  define n where "n = nat \<lfloor>\<bar>dval v\<bar> / dval s\<rfloor>"
  have n: "int n = \<lfloor>\<bar>dval v\<bar> / dval s\<rfloor>" using pos by (simp add: n_def)
  have r: "r = (if dval v = 0 then Dec 0 0
      else Dec ((if dval v < 0 then - 1 else 1) * of_nat (n * coefficient s) * 10 powi dexp s) (dexp s))"
    using assms(1) unfolding round_down_to_step_def Let_def coefficient_ratio [OF assms(2,3) pos] n_def [symmetric]
    by (simp split: if_split_asm)
  have s: "dval s = of_nat (coefficient s) * 10 powi dexp s" using assms(3) pos by (simp add: wf_dec_def)
  show "dval r = sgn (dval v) * of_int \<lfloor>\<bar>dval v\<bar> / dval s\<rfloor> * dval s"
    unfolding n [symmetric] by (simp add: r s)
  have "wf_dec (Dec 0 0)" using wf_decI [of 0 0] by simp
  moreover have "wf_dec (Dec ((if dval v < 0 then - 1 else 1) * of_nat (n * coefficient s) * 10 powi dexp s) (dexp s))"
    using wf_decI [of "(if dval v < 0 then - 1 else 1) * int (n * coefficient s)" "dexp s"] by (simp split: if_splits)
  ultimately show "wf_dec r" using r by simp
qed

lemma wf_dec_coarser:
  assumes "x = of_int n * 10 powi s" "t \<le> s"
  shows "wf_dec (Dec x t)"
proof -
  have "10 powi s = (10 :: rat) ^ nat (s - t) * 10 powi t"
    using assms(2) by (simp add: power_int_add [symmetric] flip: power_int_of_nat)
  then have "x = of_int (n * 10 ^ nat (s - t)) * 10 powi t" using assms(1) by simp
  then show ?thesis by (simp only: wf_decI)
qed

lemma wf_ic_div: "ic_div a b = Some d \<Longrightarrow> wf_dec d"
proof -
  assume d: "ic_div a b = Some d"
  define v where "v = dval a / dval b"
  define x where "x = ctx_round 50 v"
  obtain n where n: "x = of_int n * 10 powi (adjusted x - 49)"
    using ctx_round_grid [of 50 v] by (auto simp: x_def)
  have z: "wf_dec (Dec 0 e)" for e using wf_decI [of 0 e] by simp
  show ?thesis
  proof (cases "x = 0 \<or> x \<noteq> v")
    case True
    then show ?thesis
      using d n z wf_decI [of n "adjusted x - 49"]
      by (auto simp: ic_div_def ctx50_finish_def Let_def quotient_exponent_def v_def [symmetric] x_def [symmetric] split: if_splits)
  next
    case False
    obtain c s where s: "strip_zeros (nat \<lfloor>\<bar>x\<bar> / 10 powi (adjusted x - 49)\<rfloor>) (adjusted x - 49) = (c, s)" by fastforce
    have "\<bar>x\<bar> / 10 powi (adjusted x - 49) = of_int \<bar>n\<bar>" by (subst n) (simp add: abs_mult)
    then have "of_nat c * 10 powi s = \<bar>rat_of_int n\<bar> * 10 powi (adjusted x - 49)" using strip_zeros_value [OF s] by simp
    also have "\<dots> = \<bar>x\<bar>" by (subst (2) n) (simp add: abs_mult)
    finally have "of_nat c * 10 powi s = \<bar>x\<bar>" .
    then have cs: "x = of_int (if x < 0 then - int c else int c) * 10 powi s" by auto
    have "adjusted x - 49 \<le> s" using strip_zeros_mono [OF s] .
    then have "max (adjusted x - 49) (min e s) \<le> s" for e by simp
    then have "wf_dec (Dec x (max (adjusted x - 49) (min e s)))" for e by (rule wf_dec_coarser [OF cs])
    moreover have "quotient_exponent v e x = max (adjusted x - 49) (min e s)" for e
      using False unfolding quotient_exponent_def Let_def s by simp
    ultimately have "wf_dec (Dec x (quotient_exponent v e x))" for e by simp
    then show ?thesis
      using d z by (auto simp: ic_div_def ctx50_finish_def Let_def v_def [symmetric] x_def [symmetric] split: if_splits)
  qed
qed

section \<open>Flooring to whole lots\<close>

text \<open>Multiples of a power of ten.\<close>

definition on_unit :: "int \<Rightarrow> rat \<Rightarrow> bool" where
  "on_unit k x \<longleftrightarrow> x * 10 powi (- k) = of_int \<lfloor>x * 10 powi (- k)\<rfloor>"

lemma on_unitE:
  assumes "on_unit k x" obtains n where "x = of_int n * 10 powi k"
proof -
  have "x = x * 10 powi (- k) * 10 powi k" by (simp add: power_int_minus)
  then show ?thesis using assms that unfolding on_unit_def by metis
qed

lemma floor_of_rounded:
  fixes x l :: rat
  assumes "0 \<le> x" "0 < l" "x / l = of_nat A / of_nat B" "A < 10 ^ 49" "0 < B"
    and "representable 50 (of_int \<lfloor>x / l\<rfloor> * l)"
  shows "\<lfloor>ctx_round 50 x / l\<rfloor> = \<lfloor>x / l\<rfloor>"
proof -
  define n where "n = \<lfloor>x / l\<rfloor>"
  have "of_int n * l \<le> x" using floor_step(1) [OF assms(2), of x] by (simp add: n_def)
  then have "of_int n * l \<le> ctx_round 50 x"
    using assms(6) ctx50.rnd_lower [of "of_int n * l" x] ctx_round_exact [of 50 "of_int n * l"] by (simp add: n_def)
  then have low: "of_int n \<le> ctx_round 50 x / l" using assms(2) by (simp add: field_simps)
  have n: "n = int (A div B)" by (simp add: n_def assms(3) floor_divide_of_nat_eq)
  have "A < Suc (A div B) * B" using assms(5) by (metis dividend_less_div_times mult.commute mult_Suc_right add.commute)
  then have "A + 1 \<le> Suc (A div B) * B" by simp
  then have "of_nat (A + 1) \<le> (of_nat (Suc (A div B) * B) :: rat)" by (simp only: of_nat_le_iff)
  then have gap: "of_nat A / of_nat B + 1 / of_nat B \<le> (of_int n + 1 :: rat)"
    using assms(5) by (simp add: n field_simps)
  have "ctx_round 50 x \<le> x + x / (2 * 10 ^ 49)"
    using ctx_round_error [of 50 x] assms(1) unfolding abs_le_iff by (simp add: field_simps)
  then have "ctx_round 50 x / l \<le> x / l + x / l / (2 * 10 ^ 49)"
    using assms(2) by (simp add: field_simps)
  also have "x / l / (2 * 10 ^ 49) < 1 / of_nat B"
  proof -
    have "(of_nat A :: rat) < of_nat (10 ^ 49)" using assms(4) by (simp only: of_nat_less_iff)
    then have "of_nat A / (2 * 10 ^ 49) < (1 :: rat)" by (simp add: field_simps)
    then have "of_nat A / (2 * 10 ^ 49) / of_nat B < (1 :: rat) / of_nat B" using assms(5) by (simp only: divide_strict_right_mono of_nat_0_less_iff)
    then show ?thesis unfolding assms(3) by (simp add: field_simps)
  qed
  finally have "ctx_round 50 x / l < of_int n + 1" using gap unfolding assms(3) by linarith
  with low show ?thesis unfolding n_def [symmetric] by linarith
qed

text \<open>
  The base quantity of one contract and of one lot, and when the 50-digit context is wide enough for
  them: the quantity and the unit are multiples of \<open>10\<^sup>k\<close>, below \<open>10\<^sup>49\<close> of them; lots are multiples
  of \<open>10\<^sup>j\<close>, below \<open>10\<^sup>50\<close> of them.
\<close>

definition face_of :: "instrument_contract \<Rightarrow> rat" where
  "face_of c = (if ic_contract_type c = CSpot then 1 else dval (ic_contract_value c) * dval (ic_contract_multiplier c))"

definition order_unit :: "instrument_contract \<Rightarrow> rat" where
  "order_unit c = dval (ic_lot_size c) * face_of c"

definition exact_units :: "int \<Rightarrow> int \<Rightarrow> instrument_contract \<Rightarrow> rat \<Rightarrow> bool" where
  "exact_units k j c q \<longleftrightarrow>
     ctx_round 50 (face_of c) = face_of c \<and>
     on_unit k q \<and> on_unit k (order_unit c) \<and> \<bar>q\<bar> < 10 ^ 49 * 10 powi k \<and>
     on_unit j (dval (ic_lot_size c)) \<and> \<bar>q\<bar> / face_of c < 10 ^ 50 * 10 powi j"

lemma floor_lots:
  assumes "exact_units k j c q" "0 < dval (ic_lot_size c)" "0 < face_of c"
  defines "n \<equiv> \<lfloor>\<bar>q\<bar> / order_unit c\<rfloor>"
  shows "\<lfloor>\<bar>ctx_round 50 (q / face_of c)\<bar> / dval (ic_lot_size c)\<rfloor> = n"
    and "ctx_round 50 (of_int n * order_unit c) = of_int n * order_unit c"
proof -
  let ?l = "dval (ic_lot_size c)" and ?f = "face_of c" and ?u = "order_unit c"
  have u: "0 < ?u" using assms(2,3) by (simp add: order_unit_def)
  obtain a where a: "q = of_int a * 10 powi k" using assms(1) by (auto simp: exact_units_def elim: on_unitE)
  obtain b where b: "?u = of_int b * 10 powi k" using assms(1) by (auto simp: exact_units_def elim: on_unitE)
  obtain m where m: "?l = of_int m * 10 powi j" using assms(1) by (auto simp: exact_units_def elim: on_unitE)
  have "0 < rat_of_int b" using u b zero_less_mult_pos2 [of "rat_of_int b" "10 powi k"] by simp
  then have b0: "0 < b" by simp
  have aq: "\<bar>q\<bar> = of_int \<bar>a\<bar> * 10 powi k" by (simp add: a abs_mult)
  have "of_int \<bar>a\<bar> * 10 powi k < (10 ^ 49 :: rat) * 10 powi k" using assms(1) aq by (simp add: exact_units_def)
  then have "rat_of_int \<bar>a\<bar> < of_int (10 ^ 49)" by (simp only: mult_less_cancel_right_pos zero_less_power_int of_int_power of_int_numeral)
  then have a49: "\<bar>a\<bar> < 10 ^ 49" by (simp only: of_int_less_iff)
  have n: "n = \<lfloor>\<bar>q\<bar> / ?f / ?l\<rfloor>" by (simp add: n_def order_unit_def field_simps)
  have n0: "0 \<le> n" using u by (simp add: n_def)
  have nu: "of_int n * ?u \<le> \<bar>q\<bar>" using floor_step(1) [OF u] by (simp add: n_def)
  have nl: "of_int n * ?l \<le> \<bar>q\<bar> / ?f" using floor_step(1) [OF assms(2), of "\<bar>q\<bar> / ?f"] by (simp only: n)
  have rep_l: "representable 50 (of_int n * ?l)"
  proof -
    have "of_int n * ?l < 10 ^ 50 * 10 powi j" using nl assms(1) by (simp add: exact_units_def)
    moreover have "of_int n * ?l = of_int (n * m) * 10 powi j" by (simp add: m)
    ultimately have "rat_of_int (n * m) < of_int (10 ^ 50)"
      by (simp only: mult_less_cancel_right_pos zero_less_power_int of_int_power of_int_numeral)
    then have "n * m < 10 ^ 50" by (simp only: of_int_less_iff)
    moreover have "0 < rat_of_int m" using assms(2) m zero_less_mult_pos2 [of "rat_of_int m" "10 powi j"] by simp
    then have "0 \<le> n * m" using n0 by simp
    ultimately show ?thesis unfolding representable_def using m by (intro exI [of _ "n * m"] exI [of _ j]) simp
  qed
  have "\<bar>q\<bar> / ?f / ?l = \<bar>q\<bar> / ?u" by (simp add: order_unit_def field_simps)
  also have "\<dots> = of_nat (nat \<bar>a\<bar>) / of_nat (nat b)" using b0 by (simp add: aq b)
  finally have ratio: "\<bar>q\<bar> / ?f / ?l = of_nat (nat \<bar>a\<bar>) / of_nat (nat b)" .
  have "\<lfloor>ctx_round 50 (\<bar>q\<bar> / ?f) / ?l\<rfloor> = n"
    unfolding n using floor_of_rounded [OF _ assms(2) ratio] a49 b0 rep_l assms(3) n by simp
  then show "\<lfloor>\<bar>ctx_round 50 (q / ?f)\<bar> / ?l\<rfloor> = n"
    using assms(3) by (simp add: ctx50.rnd_abs [symmetric] abs_of_pos)
  have "representable 50 (of_int n * ?u)"
  proof -
    have "of_int (n * b) * 10 powi k \<le> (of_int \<bar>a\<bar> * 10 powi k :: rat)" using nu aq b by simp
    then have "n * b \<le> \<bar>a\<bar>" by (simp only: mult_le_cancel_right_pos zero_less_power_int of_int_le_iff)
    then have "\<bar>n * b\<bar> < 10 ^ 50" using a49 n0 b0 by simp
    then show ?thesis unfolding representable_def using b by (intro exI [of _ "n * b"] exI [of _ k]) simp
  qed
  then show "ctx_round 50 (of_int n * ?u) = of_int n * ?u" by (rule ctx_round_exact) simp
qed

lemma face_value_Inr: "face_value c = Inr f \<Longrightarrow>
    dval f = ctx_round 50 (dval (ic_contract_value c) * dval (ic_contract_multiplier c)) \<and> 0 < dval f"
  by (auto simp: face_value_def arithmetic_result_def split: option.splits if_splits dest: ic_values)

lemma arithmetic_invalid_Inr: "arithmetic_invalid x = Inr d \<longleftrightarrow> x = Some d"
  by (auto simp: arithmetic_invalid_def arithmetic_result_def split: option.splits)

lemma wf_copy_abs: "wf_dec d \<Longrightarrow> wf_dec (copy_abs d)"
  by (cases d) (auto simp: copy_abs_def wf_dec_def coefficient_def)

lemma dval_copy [simp]: "dval (copy_abs d) = \<bar>dval d\<bar>" "dval (copy_negate d) = - dval d"
  by (cases d; simp add: copy_abs_def copy_negate_def)+

lemma exchange_quantity_Inr:
  assumes "exchange_quantity c q None = Inr x" "ic_contract_type c \<noteq> CInverse" "exact_units k j c (dval q)" "wf_dec q"
  shows "dval x = (if ic_contract_type c = CSpot then dval q else ctx_round 50 (dval q / face_of c))" "wf_dec x"
    "0 < face_of c"
proof -
  have f: "ctx_round 50 (face_of c) = face_of c" using assms(3) by (simp add: exact_units_def)
  have "dval x = (if ic_contract_type c = CSpot then dval q else ctx_round 50 (dval q / face_of c)) \<and> wf_dec x \<and> 0 < face_of c"
  proof (cases "ic_contract_type c")
    case CSpot
    then show ?thesis using assms by (auto simp: exchange_quantity_def ebind_eq_Inr_iff face_of_def dest!: checked_Inr(3))
  next
    case CLinear
    then obtain y where y: "face_value c = Inr y" "ic_div q y = Some x"
      using assms(1) by (auto simp: exchange_quantity_def ebind_eq_Inr_iff arithmetic_invalid_Inr dest!: checked_Inr(3))
    then show ?thesis
      using CLinear f face_value_Inr [OF y(1)] ic_values(2) [OF y(2)] wf_ic_div [OF y(2)] by (simp add: face_of_def)
  qed (use assms in simp)
  then show "dval x = (if ic_contract_type c = CSpot then dval q else ctx_round 50 (dval q / face_of c))" "wf_dec x"
    "0 < face_of c" by auto
qed

lemma base_quantity_Inr:
  assumes "base_quantity c x None = Inr r" "ic_contract_type c \<noteq> CInverse" "ctx_round 50 (face_of c) = face_of c"
  shows "dval r = (if ic_contract_type c = CSpot then dval x else ctx_round 50 (dval x * face_of c))"
proof (cases "ic_contract_type c")
  case CSpot
  then show ?thesis using assms by (auto simp: base_quantity_def ebind_eq_Inr_iff dest!: checked_Inr(3))
next
  case CLinear
  then obtain y where y: "face_value c = Inr y" "ic_mul x y = Some r"
    using assms(1) by (auto simp: base_quantity_def ebind_eq_Inr_iff arithmetic_invalid_Inr dest!: checked_Inr(3))
  then show ?thesis
    using CLinear assms(3) face_value_Inr [OF y(1)] ic_values(1) [OF y(2)] by (simp add: face_of_def)
qed (use assms in simp)

lemma execution_contract_Some:
  "execution_contract symbol (Some im) = Inr r \<Longrightarrow>
    \<exists>c. r = Some c \<and> instrument_contract_from_metadata im = Inr c \<and> ic_contract_type c \<noteq> CInverse"
  by (auto simp: execution_contract_def ebind_eq_Inr_iff split: if_split_asm)

lemma quantized_steps:
  assumes "quantized_internal_quantity symbol q (Some im) = Inr r" "instrument_contract_from_metadata im = Inr c"
  shows "ic_contract_type c \<noteq> CInverse \<and> (\<exists>x y z. exchange_quantity c q None = Inr x \<and>
    round_down_to_step (copy_abs x) (ic_lot_size c) = Inr y \<and> base_quantity c y None = Inr z \<and>
    r = (if dval x < 0 then copy_negate z else z))"
proof -
  have "0 < dval (im_lot_size im)"
    using from_metadata_ok [OF assms(2)] from_metadata_sizes [OF assms(2)] by (simp add: contract_ok_def positive_def)
  then have lot: "pymax (im_lot_size im) (Dec 0 0) = ic_lot_size c"
    using from_metadata_sizes [OF assms(2)] by (simp add: pymax_def)
  have contract: "execution_contract symbol (Some im) = Inr s \<Longrightarrow> s = Some c \<and> ic_contract_type c \<noteq> CInverse" for s
    using assms(2) by (auto dest: execution_contract_Some)
  from assms(1) show ?thesis
    unfolding quantized_internal_quantity_def exchange_quantity_from_internal_def internal_quantity_from_exchange_def
    by (fastforce simp: ebind_eq_Inr_iff lot dest!: contract)
qed

text \<open>
  C29. \<^verbatim>\<open>quantized_internal_quantity\<close>, which goes through a rounded division, a floor and a rounded
  multiplication, is the exact floor to whole lots: the result has the sign of the request, is the
  largest multiple of the lot's base quantity not above it in size, and leaves less than one lot.
\<close>

theorem quantized_quantity_is_lot_floor:
  assumes "quantized_internal_quantity symbol q (Some im) = Inr r" "instrument_contract_from_metadata im = Inr c"
    and "wf_dec q" "wf_dec (ic_lot_size c)" "exact_units k j c (dval q)"
  shows "dval r = sgn (dval q) * of_int \<lfloor>\<bar>dval q\<bar> / order_unit c\<rfloor> * order_unit c \<and>
    \<bar>dval r\<bar> \<le> \<bar>dval q\<bar> \<and> \<bar>dval q\<bar> - \<bar>dval r\<bar> < order_unit c"
proof -
  from quantized_steps [OF assms(1,2)] obtain x y z where type: "ic_contract_type c \<noteq> CInverse"
    and x: "exchange_quantity c q None = Inr x" and y: "round_down_to_step (copy_abs x) (ic_lot_size c) = Inr y"
    and z: "base_quantity c y None = Inr z" and r: "r = (if dval x < 0 then copy_negate z else z)" by blast
  note x' = exchange_quantity_Inr [OF x type assms(5,3)]
  note y' = round_down_to_step_Inr [OF y wf_copy_abs [OF x'(2)] assms(4)]
  have "ctx_round 50 (face_of c) = face_of c" using assms(5) by (simp add: exact_units_def)
  note z' = base_quantity_Inr [OF z type this]
  note lots = floor_lots [OF assms(5) y'(1) x'(3)]
  define n where "n = \<lfloor>\<bar>dval q\<bar> / order_unit c\<rfloor>"
  have "sgn (dval q / face_of c) = sgn (dval q)" using x'(3) by (simp add: sgn_if zero_less_divide_iff)
  then have sgn: "sgn (dval x) = sgn (dval q)" by (simp add: x'(1))
  have count: "\<lfloor>\<bar>dval x\<bar> / dval (ic_lot_size c)\<rfloor> = n"
    using x'(1) lots(1) by (simp add: n_def order_unit_def face_of_def split: if_splits)
  have y'': "dval y = sgn \<bar>dval x\<bar> * (of_int n * dval (ic_lot_size c))" using y'(2) count by simp
  have "dval z = sgn \<bar>dval x\<bar> * (of_int n * order_unit c)"
  proof (cases "dval x = 0 \<or> ic_contract_type c = CSpot")
    case True
    then show ?thesis using z' y'' by (auto simp: order_unit_def face_of_def)
  next
    case False
    then have "dval y * face_of c = of_int n * order_unit c" using y'' by (simp add: order_unit_def)
    then show ?thesis using False z' lots(2) by (simp add: n_def)
  qed
  then have "dval r = sgn (dval x) * of_int n * order_unit c" using r by (auto simp: sgn_if)
  then have eq: "dval r = sgn (dval q) * (of_int n * order_unit c)" unfolding sgn by simp
  have unit: "0 < order_unit c" using y'(1) x'(3) by (simp add: order_unit_def)
  then have n: "0 \<le> of_int n * order_unit c" by (simp add: n_def)
  have "\<bar>dval r\<bar> = of_int n * order_unit c"
  proof (cases "dval q = 0")
    case True
    then show ?thesis by (simp add: eq n_def)
  next
    case False
    have "\<bar>dval r\<bar> = \<bar>of_int n * order_unit c\<bar>" unfolding eq abs_mult [of "sgn (dval q)"] using False by simp
    then show ?thesis using n by simp
  qed
  then show ?thesis using eq floor_step [OF unit, of "\<bar>dval q\<bar>"] by (simp add: n_def)
qed

section \<open>An example\<close>

definition example_swap :: instrument_metadata where
  "example_swap = \<lparr>im_instrument_id = ''BTC-USDT-SWAP'', im_symbol = ''BTC-USDT-SWAP'',
     im_base_currency = ''BTC'', im_quote_currency = ''USDT'',
     im_lot_size = Dec (1 / 100) (- 2), im_tick_size = Dec (1 / 10) (- 1), im_min_size = Dec (1 / 100) (- 2),
     im_contract_value = Some (Dec (1 / 100) (- 2)), im_contract_multiplier = Some (Dec 1 0),
     im_contract_type = Some ''linear'', im_instrument_type = Some ''SWAP'', im_underlying = None,
     im_settle_currency = Some ''USDT'', im_contract_value_currency = Some ''BTC''\<rparr>"

lemma example_division:
  "ic_div (Dec (123456 / 1000000) (- 6)) (Dec (1 / 100) (- 2)) = Some (Dec (123456 / 10000) (- 4))"
proof -
  have round: "ctx_round 50 (123456 / 10000) = 123456 / 10000" "adjusted (123456 / 10000) = 1" by code_simp+
  have "\<bar>123456 / 10000 :: rat\<bar> / 10 powi (- 48) = of_int (123456 * 10 ^ 44)" by (simp add: power_int_minus)
  then have digits: "\<lfloor>\<bar>123456 / 10000 :: rat\<bar> / 10 powi (- 48)\<rfloor> = 123456 * 10 ^ 44" by (simp only: floor_of_int)
  have exponent: "quotient_exponent (123456 / 10000) (- 4) (123456 / 10000) = - 4"
    unfolding quotient_exponent_def Let_def round(2) by (simp add: digits strip_zeros.simps del: abs_numeral)
  have "ic_div (Dec (123456 / 1000000) (- 6)) (Dec (1 / 100) (- 2)) =
    ctx50_finish (123456 / 10000) (quotient_exponent (123456 / 10000) (- 4))" by (simp add: ic_div_def)
  also have "\<dots> = Some (Dec (123456 / 10000) (- 4))"
    unfolding ctx50_finish_def Let_def round subnormal_inexact_def exponent by simp
  finally show ?thesis .
qed

lemma example_contract_from_swap: "instrument_contract_from_metadata example_swap = Inr example_contract"
  by code_simp

lemma example_face: "face_value example_contract = Inr (Dec (1 / 100) (- 2))"
  by code_simp

lemma example_quantized:
  "quantized_internal_quantity ''BTC-USDT-SWAP'' (Dec (123456 / 1000000) (- 6)) (Some example_swap)
    = Inr (Dec (1234 / 10000) (- 4))"
proof -
  have contract: "execution_contract ''BTC-USDT-SWAP'' (Some example_swap) = Inr (Some example_contract)" by code_simp
  have kind: "ic_contract_type example_contract = CLinear" by (simp add: example_contract_def)
  have there: "exchange_quantity example_contract (Dec (123456 / 1000000) (- 6)) None = Inr (Dec (123456 / 10000) (- 4))"
    using example_division by (simp add: exchange_quantity_def finite_decimal_def kind example_face arithmetic_invalid_Inr)
  have whole: "round_down_to_step (copy_abs (Dec (123456 / 10000) (- 4))) (pymax (im_lot_size example_swap) (Dec 0 0))
      = Inr (Dec (1234 / 100) (- 2))" by code_simp
  have returned: "base_quantity example_contract (Dec (1234 / 100) (- 2)) None = Inr (Dec (1234 / 10000) (- 4))" by code_simp
  show ?thesis
    using there whole returned
    by (simp add: quantized_internal_quantity_def exchange_quantity_from_internal_def internal_quantity_from_exchange_def
        contract)
qed

lemma example_exact_units: "exact_units (- 6) (- 2) example_contract (123456 / 1000000)"
  by code_simp

theorem quantized_quantity_is_lot_floor_witness:
  "quantized_internal_quantity ''BTC-USDT-SWAP'' (Dec (123456 / 1000000) (- 6)) (Some example_swap)
     = Inr (Dec (1234 / 10000) (- 4)) \<and>
   (1234 / 10000 :: rat) = of_int \<lfloor>(123456 / 1000000) / order_unit example_contract\<rfloor> * order_unit example_contract"
proof -
  have "wf_dec (Dec (123456 / 1000000) (- 6))" "wf_dec (ic_lot_size example_contract)" by code_simp+
  moreover have "exact_units (- 6) (- 2) example_contract (dval (Dec (123456 / 1000000) (- 6)))"
    using example_exact_units by simp
  ultimately show ?thesis
    using quantized_quantity_is_lot_floor [OF example_quantized example_contract_from_swap] example_quantized by simp
qed

end
