(* ===== verification/Execution_Commands.thy ===== *)
theory Execution_Commands
  imports Coroutine Execution_Schema "HOL-Library.Product_Lexorder"
begin

text \<open>
  The queue of execution commands: the table of \<^verbatim>\<open>storage/execution_command_repo_postgres.py\<close>, the
  producer \<^verbatim>\<open>execution_control/order_service.py\<close> and the processor
  \<^verbatim>\<open>execution_control/command_service.py\<close>, which claims a command, hands it to the order manager and
  settles it.  A repository call is one transaction; the executors (\<^verbatim>\<open>OrderManager.process_submit_command\<close>
  and \<^verbatim>\<open>process_cancel_command\<close>) are requests that answer or raise, and the state records the calls they
  have received.  Any number of processors and producers interleave.

  A stored payload is the intent it was dumped from, or the text of the error its validation raises.
  A producer's order rows are the ids the foreign key of the table may refer to.
\<close>

section \<open>The table\<close>

datatype command_state = CMD_PENDING | CMD_CLAIMED | CMD_SENT | CMD_ACKED | CMD_FAILED | CMD_ABANDONED

record command_payload =
  cp_intent :: "string + order_intent"
  cp_client_order_id :: "string option"
  cp_symbol :: string
  cp_reason :: "string option"

record execution_command =
  xc_command_id :: string
  xc_order_id :: string
  xc_command_type :: string
  xc_idempotency_key :: string
  xc_state :: command_state
  xc_attempt_count :: nat
  xc_last_error :: "string option"
  xc_payload :: command_payload
  xc_created_at :: rat
  xc_updated_at :: rat

type_synonym command_table = "execution_command list"

definition get_command :: "command_table \<Rightarrow> string \<Rightarrow> execution_command option" where
  "get_command rows command_id = find (\<lambda>row. xc_command_id row = command_id) rows"

definition get_by_idempotency_key :: "command_table \<Rightarrow> string \<Rightarrow> execution_command option" where
  "get_by_idempotency_key rows idempotency_key = find (\<lambda>row. xc_idempotency_key row = idempotency_key) rows"

definition change_command :: "string \<Rightarrow> (execution_command \<Rightarrow> execution_command) \<Rightarrow> command_table \<Rightarrow> command_table" where
  "change_command command_id f rows = map (\<lambda>row. if xc_command_id row = command_id then f row else row) rows"

definition enqueue_command_in_session ::
  "(string \<Rightarrow> bool) \<Rightarrow> string \<Rightarrow> string \<Rightarrow> string \<Rightarrow> string \<Rightarrow> command_payload \<Rightarrow> rat \<Rightarrow> command_table
    \<Rightarrow> string + command_table" where
  "enqueue_command_in_session known command_id order_id command_type idempotency_key payload created_at rows =
    (if get_command rows command_id = None \<and> get_by_idempotency_key rows idempotency_key = None
     then if known order_id
          then Inr (rows @ [\<lparr>xc_command_id = command_id, xc_order_id = order_id, xc_command_type = command_type,
                  xc_idempotency_key = idempotency_key, xc_state = CMD_PENDING, xc_attempt_count = 0,
                  xc_last_error = None, xc_payload = payload, xc_created_at = created_at, xc_updated_at = created_at\<rparr>])
          else Inl ''IntegrityError''
     else case get_command rows command_id of
            Some _ \<Rightarrow> Inr rows
          | None \<Rightarrow> (case get_by_idempotency_key rows idempotency_key of
              Some _ \<Rightarrow> Inr rows
            | None \<Rightarrow> Inl ''execution_command_insert_conflict_without_existing_row''))"

definition command_order :: "execution_command \<Rightarrow> rat \<times> string" where
  "command_order row = (xc_created_at row, xc_command_id row)"

definition awaits_processing :: "rat option \<Rightarrow> execution_command \<Rightarrow> bool" where
  "awaits_processing sent_stale_before row \<longleftrightarrow> (case sent_stale_before of
     None \<Rightarrow> xc_state row \<in> {CMD_PENDING, CMD_CLAIMED, CMD_SENT}
   | Some t \<Rightarrow> xc_state row \<in> {CMD_PENDING, CMD_CLAIMED} \<or> (xc_state row = CMD_SENT \<and> xc_updated_at row \<le> t))"

definition pending_commands :: "nat \<Rightarrow> rat option \<Rightarrow> command_table \<Rightarrow> execution_command list" where
  "pending_commands limit sent_stale_before rows =
     take limit (sort_key command_order (filter (awaits_processing sent_stale_before) rows))"

record command_tally =
  ct_pending_total :: nat
  ct_pending_submit :: nat
  ct_pending_cancel :: nat
  ct_sent_stale_total :: nat
  ct_sent_stale_submit :: nat
  ct_sent_stale_cancel :: nat

text \<open>One row's share of the grouped counts.\<close>

definition tally_row :: "rat option \<Rightarrow> execution_command \<Rightarrow> command_tally \<Rightarrow> command_tally" where
  "tally_row sent_stale_before row t =
    (let kind = py_lower (py_strip (xc_command_type row)) in
     if xc_state row \<in> {CMD_PENDING, CMD_CLAIMED}
     then (let t = t\<lparr>ct_pending_total := Suc (ct_pending_total t)\<rparr> in
           if kind = ''submit'' then t\<lparr>ct_pending_submit := Suc (ct_pending_submit t)\<rparr>
           else if kind = ''cancel'' then t\<lparr>ct_pending_cancel := Suc (ct_pending_cancel t)\<rparr> else t)
     else if xc_state row = CMD_SENT \<and> sent_stale_before \<noteq> None \<and> xc_updated_at row \<le> the sent_stale_before
     then (let t = t\<lparr>ct_sent_stale_total := Suc (ct_sent_stale_total t)\<rparr> in
           if kind = ''submit'' then t\<lparr>ct_sent_stale_submit := Suc (ct_sent_stale_submit t)\<rparr>
           else if kind = ''cancel'' then t\<lparr>ct_sent_stale_cancel := Suc (ct_sent_stale_cancel t)\<rparr> else t)
     else t)"

definition command_counts :: "rat option \<Rightarrow> command_table \<Rightarrow> command_tally" where
  "command_counts sent_stale_before rows = fold (tally_row sent_stale_before) rows
     \<lparr>ct_pending_total = 0, ct_pending_submit = 0, ct_pending_cancel = 0,
      ct_sent_stale_total = 0, ct_sent_stale_submit = 0, ct_sent_stale_cancel = 0\<rparr>"

definition claimed_row :: "rat \<Rightarrow> execution_command \<Rightarrow> execution_command" where
  "claimed_row updated_at row = row\<lparr>xc_state := CMD_CLAIMED, xc_attempt_count := xc_attempt_count row + 1,
     xc_updated_at := updated_at, xc_last_error := None\<rparr>"

text \<open>The compare-and-set: whether the claim succeeds, and the table after it.\<close>

definition claim_granted :: "string \<Rightarrow> command_state \<Rightarrow> rat \<Rightarrow> command_table \<Rightarrow> bool" where
  "claim_granted command_id expected_state expected_updated_at rows = (case get_command rows command_id of
     None \<Rightarrow> False
   | Some row \<Rightarrow> xc_state row = expected_state \<and> xc_updated_at row = expected_updated_at)"

definition claim_command :: "string \<Rightarrow> command_state \<Rightarrow> rat \<Rightarrow> rat \<Rightarrow> command_table \<Rightarrow> command_table" where
  "claim_command command_id expected_state expected_updated_at updated_at rows =
    (if claim_granted command_id expected_state expected_updated_at rows
     then change_command command_id (claimed_row updated_at) rows else rows)"

definition updated_row :: "command_state \<Rightarrow> rat \<Rightarrow> string option \<Rightarrow> bool \<Rightarrow> execution_command \<Rightarrow> execution_command" where
  "updated_row state updated_at last_error increment row =
     row\<lparr>xc_state := state, xc_attempt_count := xc_attempt_count row + (if increment then 1 else 0),
         xc_last_error := map_option (take 1024) last_error, xc_updated_at := updated_at\<rparr>"

definition update_state :: "string \<Rightarrow> command_state \<Rightarrow> rat \<Rightarrow> string option \<Rightarrow> bool \<Rightarrow> command_table \<Rightarrow> command_table" where
  "update_state command_id state updated_at last_error increment rows =
     change_command command_id (updated_row state updated_at last_error increment) rows"

definition mark_sent_to_venue :: "string \<Rightarrow> rat \<Rightarrow> command_table \<Rightarrow> command_table" where
  "mark_sent_to_venue command_id updated_at = update_state command_id CMD_SENT updated_at None False"

definition mark_sent :: "string \<Rightarrow> rat \<Rightarrow> command_table \<Rightarrow> command_table" where
  "mark_sent command_id updated_at = update_state command_id CMD_SENT updated_at None True"

definition mark_acked :: "string \<Rightarrow> rat \<Rightarrow> command_table \<Rightarrow> command_table" where
  "mark_acked command_id updated_at = update_state command_id CMD_ACKED updated_at None False"

definition mark_failed :: "string \<Rightarrow> string \<Rightarrow> rat \<Rightarrow> command_table \<Rightarrow> command_table" where
  "mark_failed command_id error updated_at = update_state command_id CMD_FAILED updated_at (Some error) False"

definition mark_abandoned :: "string \<Rightarrow> string \<Rightarrow> rat \<Rightarrow> command_table \<Rightarrow> command_table" where
  "mark_abandoned command_id reason updated_at = update_state command_id CMD_ABANDONED updated_at (Some reason) False"

section \<open>Processes on the table\<close>

datatype command_request = Command_Db | Submit_Order order_intent "string option" | Cancel_Order string

datatype command_error = Command_Failure string | Command_Cancelled

record command_stats =
  cs_attempt_count :: nat
  cs_success_count :: nat
  cs_failure_count :: nat
  cs_last_processed_command_id :: "string option"
  cs_last_processed_command_type :: "string option"
  cs_last_processed_state :: "command_state option"
  cs_last_processed_at :: "rat option"
  cs_last_error :: "string option"

record command_system =
  cq_rows :: command_table
  cq_orders :: "string list"
  cq_halted :: bool
  cq_calls :: "(string \<times> command_request) list"
  cq_stats :: command_stats

type_synonym 'a command_coro = "(command_system, command_request, command_error + unit, command_error, unit, 'a) coro"

definition command_db :: "(command_table \<Rightarrow> 'a) \<Rightarrow> (command_table \<Rightarrow> command_table) \<Rightarrow> 'a command_coro" where
  "command_db result change = cseq (await Command_Db) (Get (\<lambda>s.
     cseq (modify (\<lambda>s. s\<lparr>cq_rows := change (cq_rows s)\<rparr>)) (Return (result (cq_rows s)))))"

definition change_stats :: "(command_stats \<Rightarrow> command_stats) \<Rightarrow> unit command_coro" where
  "change_stats f = modify (\<lambda>s. s\<lparr>cq_stats := f (cq_stats s)\<rparr>)"

subsection \<open>Producers\<close>

record enqueued_execution_command =
  ec_command_id :: string
  ec_order_id :: string
  ec_command_type :: string
  ec_idempotency_key :: string
  ec_payload :: command_payload

definition submit_command_idempotency_key :: "string \<Rightarrow> string" where
  "submit_command_idempotency_key stable_order_key = ''submit:'' @ stable_order_key"

definition legacy_submit_command_idempotency_key :: "string \<Rightarrow> string" where
  "legacy_submit_command_idempotency_key intent_id = ''submit:'' @ intent_id"

definition cancel_command_idempotency_key :: "string \<Rightarrow> string" where
  "cancel_command_idempotency_key client_order_id = ''cancel:'' @ client_order_id"

definition submit_command_lookup_keys :: "string option \<Rightarrow> string option \<Rightarrow> string list" where
  "submit_command_lookup_keys client_order_id intent_id =
    (let client = py_strip (case client_order_id of None \<Rightarrow> [] | Some c \<Rightarrow> c);
         intent = py_strip (case intent_id of None \<Rightarrow> [] | Some i \<Rightarrow> i);
         keys = (if client \<noteq> [] then [submit_command_idempotency_key client] else []);
         legacy_key = legacy_submit_command_idempotency_key intent
     in if intent \<noteq> [] \<and> legacy_key \<notin> set keys then keys @ [legacy_key] else keys)"

definition submit_command_payload :: "order_intent \<Rightarrow> string \<Rightarrow> command_payload" where
  "submit_command_payload intent client_order_id =
     \<lparr>cp_intent = Inr intent, cp_client_order_id = Some client_order_id, cp_symbol = oi_symbol intent, cp_reason = None\<rparr>"

text \<open>A cancel payload has no intent: validating one would fail on its missing fields.\<close>

definition cancel_command_payload :: "order_state \<Rightarrow> string option \<Rightarrow> command_payload" where
  "cancel_command_payload st reason =
     \<lparr>cp_intent = Inl ''ValidationError'', cp_client_order_id = Some (os_client_order_id st), cp_symbol = os_symbol st,
      cp_reason = reason\<rparr>"

definition enqueued_of_row :: "execution_command \<Rightarrow> enqueued_execution_command" where
  "enqueued_of_row row =
     \<lparr>ec_command_id = xc_command_id row, ec_order_id = xc_order_id row, ec_command_type = xc_command_type row,
      ec_idempotency_key = xc_idempotency_key row, ec_payload = xc_payload row\<rparr>"

text \<open>The enqueueing transaction, which rolls back when the foreign key does not hold.\<close>

definition enqueue_command :: "string \<Rightarrow> string \<Rightarrow> string \<Rightarrow> string \<Rightarrow> command_payload \<Rightarrow> rat \<Rightarrow> unit command_coro" where
  "enqueue_command command_id order_id command_type idempotency_key payload created_at =
    cseq (await Command_Db) (Get (\<lambda>s.
      case enqueue_command_in_session (\<lambda>i. i \<in> set (cq_orders s)) command_id order_id command_type idempotency_key
             payload created_at (cq_rows s) of
        Inl e \<Rightarrow> Raise (Command_Failure e)
      | Inr rows \<Rightarrow> Put (s\<lparr>cq_rows := rows\<rparr>) (Return ())))"

definition service_enqueue_command ::
  "string \<Rightarrow> string \<Rightarrow> string \<Rightarrow> command_payload \<Rightarrow> enqueued_execution_command command_coro" where
  "service_enqueue_command order_id command_type idempotency_key payload =
    cbind (command_db (\<lambda>rows. get_by_idempotency_key rows idempotency_key) (\<lambda>rows. rows)) (\<lambda>existing.
    case existing of
      Some row \<Rightarrow> Return (enqueued_of_row row)
    | None \<Rightarrow> Fresh (\<lambda>command_id. Clock (\<lambda>now.
        cseq (enqueue_command command_id order_id command_type idempotency_key payload now)
          (Return \<lparr>ec_command_id = command_id, ec_order_id = order_id, ec_command_type = command_type,
                   ec_idempotency_key = idempotency_key, ec_payload = payload\<rparr>))))"

definition intent_from_order_state :: "datetime \<Rightarrow> order_state \<Rightarrow> order_intent" where
  "intent_from_order_state now st =
    (let side = (case side_from_position_intent (Some (position_intent_str (os_position_intent st))) of
                   None \<Rightarrow> Buy | Some side \<Rightarrow> side);
         style = (if os_submission_mode st = [] then ''phase2'' else os_submission_mode st)
     in (new_order_intent now (os_intent_id st) (os_decision_id st) (os_symbol st) side (os_requested_qty st)
           style Market Medium ''IOC'' (os_client_order_id st))
        \<lparr>oi_execution_chain_id := os_execution_chain_id st, oi_execution_attempt_id := os_execution_attempt_id st,
         oi_leg_intent_id := os_leg_intent_id st, oi_reduce_only := os_reduce_only st, oi_close_only := os_close_only st,
         oi_td_mode := os_td_mode st, oi_position_mode := os_position_mode st, oi_pos_side := os_pos_side st,
         oi_reduce_only_reason := os_reduce_only_reason st, oi_close_only_reason := os_close_only_reason st,
         oi_instrument_family := os_instrument_family st, oi_settle_currency := os_settle_currency st,
         oi_product_type := os_product_type st, oi_target_leverage := os_target_leverage st,
         oi_margin_mode := os_margin_mode st, oi_exposure_side := os_exposure_side st,
         oi_execution_action := os_execution_action st, oi_leg_action := os_leg_action st,
         oi_position_intent := os_position_intent st, oi_strategy_family := os_strategy_family st,
         oi_strategy_sleeve_id := os_strategy_sleeve_id st, oi_allocation_id := os_allocation_id st,
         oi_strategy_bundle_id := os_strategy_bundle_id st, oi_strategy_leg_role := os_strategy_leg_role st,
         oi_strategy_pair_id := os_strategy_pair_id st, oi_strategy_opportunity_kind := os_strategy_opportunity_kind st,
         oi_strategy_execution_mode := os_strategy_execution_mode st, oi_strategy_state_phase := os_strategy_state_phase st,
         oi_market_snapshot_ref := os_market_snapshot_ref st, oi_feature_snapshot_ref := os_feature_snapshot_ref st,
         oi_portfolio_snapshot_ref := os_portfolio_snapshot_ref st, oi_health_snapshot_ref := os_health_snapshot_ref st\<rparr>)"

subsection \<open>The processor\<close>

definition call_executor :: "string \<Rightarrow> command_request \<Rightarrow> unit command_coro" where
  "call_executor command_id request =
     cseq (modify (\<lambda>s. s\<lparr>cq_calls := cq_calls s @ [(command_id, request)]\<rparr>)) (await request)"

definition execute_command :: "execution_command \<Rightarrow> unit command_coro" where
  "execute_command c =
    (let payload = xc_payload c;
         client_order_id = (case cp_client_order_id payload of None \<Rightarrow> [] | Some i \<Rightarrow> i)
     in if xc_command_type c = ''submit''
        then (case cp_intent payload of
                Inl e \<Rightarrow> Raise (Command_Failure e)
              | Inr intent \<Rightarrow> call_executor (xc_command_id c) (Submit_Order intent (cp_client_order_id payload)))
        else if xc_command_type c = ''cancel''
        then (if client_order_id = [] then Raise (Command_Failure ''cancel_command_missing_client_order_id'')
              else call_executor (xc_command_id c) (Cancel_Order client_order_id))
        else Raise (Command_Failure (''unsupported_execution_command_type:'' @ xc_command_type c)))"

definition processed_stats :: "execution_command \<Rightarrow> command_state \<Rightarrow> rat \<Rightarrow> string option \<Rightarrow> command_stats \<Rightarrow> command_stats" where
  "processed_stats c state processed_at error st =
    (let st = (if state = CMD_FAILED then st\<lparr>cs_failure_count := Suc (cs_failure_count st)\<rparr>
               else st\<lparr>cs_success_count := Suc (cs_success_count st)\<rparr>)
     in st\<lparr>cs_last_processed_command_id := Some (xc_command_id c), cs_last_processed_command_type := Some (xc_command_type c),
           cs_last_processed_state := Some state, cs_last_processed_at := Some processed_at, cs_last_error := error\<rparr>)"

definition settle_command :: "execution_command \<Rightarrow> unit command_coro" where
  "settle_command c = Clock (\<lambda>sent_at.
     cseq (command_db (\<lambda>_. ()) (mark_sent_to_venue (xc_command_id c) sent_at)) (Clock (\<lambda>acked_at.
     cseq (command_db (\<lambda>_. ()) (mark_acked (xc_command_id c) acked_at))
       (change_stats (processed_stats c CMD_ACKED acked_at None)))))"

definition fail_command :: "execution_command \<Rightarrow> command_error \<Rightarrow> unit command_coro" where
  "fail_command c e = (case e of
     Command_Cancelled \<Rightarrow> Raise e
   | Command_Failure m \<Rightarrow> Clock (\<lambda>failed_at.
       cseq (command_db (\<lambda>_. ()) (mark_failed (xc_command_id c) m failed_at))
         (change_stats (processed_stats c CMD_FAILED failed_at (Some m)))))"

definition process_command :: "execution_command \<Rightarrow> unit command_coro" where
  "process_command c =
     cseq (change_stats (\<lambda>st. st\<lparr>cs_attempt_count := Suc (cs_attempt_count st)\<rparr>))
       (ccatch (cseq (execute_command c) (settle_command c)) (fail_command c))"

text \<open>The gate of \<^verbatim>\<open>bootstrap/config.py\<close>: no submission while the kill switch is halted.\<close>

definition can_execute_command :: "bool \<Rightarrow> execution_command \<Rightarrow> bool" where
  "can_execute_command halted c \<longleftrightarrow> py_lower (xc_command_type c) \<noteq> ''submit'' \<or> \<not> halted"

primrec process_loop :: "execution_command list \<Rightarrow> nat \<Rightarrow> nat command_coro" where
  "process_loop [] processed = Return processed"
| "process_loop (c # cs) processed =
    (if xc_command_type c = ''submit'' \<and> xc_state c \<notin> {CMD_PENDING, CMD_CLAIMED} then process_loop cs processed
     else Get (\<lambda>s. if \<not> can_execute_command (cq_halted s) c then process_loop cs processed
     else Clock (\<lambda>claimed_at.
       cbind (command_db (claim_granted (xc_command_id c) (xc_state c) (xc_updated_at c))
                (claim_command (xc_command_id c) (xc_state c) (xc_updated_at c) claimed_at)) (\<lambda>claimed.
       if \<not> claimed then process_loop cs processed
       else cseq (process_command (c\<lparr>xc_state := CMD_CLAIMED, xc_updated_at := claimed_at\<rparr>))
              (process_loop cs (Suc processed))))))"

definition process_pending :: "nat \<Rightarrow> rat \<Rightarrow> nat command_coro" where
  "process_pending limit sent_retry_after = Clock (\<lambda>now.
     cbind (command_db (pending_commands limit (Some (now - sent_retry_after))) (\<lambda>rows. rows)) (\<lambda>commands.
     process_loop commands 0))"

definition processor_status :: "command_stats \<Rightarrow> string" where
  "processor_status st =
    (if 0 < cs_failure_count st \<and> cs_last_processed_state st = Some CMD_FAILED then ''degraded''
     else if 0 < cs_success_count st then ''healthy'' else ''idle'')"

section \<open>Invariant\<close>

text \<open>
  A command is unclaimed exactly while it has no attempt, and then no executor has seen it; a stored
  error is cut at 1024 characters.
\<close>

definition command_ok :: "string set \<Rightarrow> execution_command \<Rightarrow> bool" where
  "command_ok called row \<longleftrightarrow>
     (xc_state row = CMD_PENDING \<longleftrightarrow> xc_attempt_count row = 0) \<and>
     (xc_state row = CMD_PENDING \<longrightarrow> xc_command_id row \<notin> called) \<and>
     (\<forall>e. xc_last_error row = Some e \<longrightarrow> length e \<le> 1024)"

definition called :: "command_system \<Rightarrow> string set" where
  "called s = fst ` set (cq_calls s)"

definition commands_ok :: "command_system \<Rightarrow> bool" where
  "commands_ok s \<longleftrightarrow> distinct (map xc_command_id (cq_rows s)) \<and> distinct (map xc_idempotency_key (cq_rows s)) \<and>
     called s \<subseteq> xc_command_id ` set (cq_rows s) \<and>
     (\<forall>row \<in> set (cq_rows s). command_ok (called s) row)"

text \<open>A later version of a command: the same order, no fewer attempts, never unclaimed again.\<close>

definition command_le :: "execution_command \<Rightarrow> execution_command \<Rightarrow> bool" where
  "command_le row row' \<longleftrightarrow>
     xc_command_id row' = xc_command_id row \<and> xc_order_id row' = xc_order_id row \<and>
     xc_command_type row' = xc_command_type row \<and> xc_idempotency_key row' = xc_idempotency_key row \<and>
     xc_payload row' = xc_payload row \<and> xc_created_at row' = xc_created_at row \<and>
     xc_attempt_count row \<le> xc_attempt_count row' \<and>
     (xc_state row' = CMD_PENDING \<longrightarrow> xc_state row = CMD_PENDING)"

definition commands_grow :: "command_system \<Rightarrow> command_system \<Rightarrow> bool" where
  "commands_grow s s' \<longleftrightarrow> called s \<subseteq> called s' \<and>
     (\<forall>row \<in> set (cq_rows s). \<exists>row' \<in> set (cq_rows s'). command_le row row')"

lemma command_le_refl [simp]: "command_le row row"
  by (simp add: command_le_def)

lemma command_le_trans: "command_le a b \<Longrightarrow> command_le b c \<Longrightarrow> command_le a c"
  by (auto simp: command_le_def)

lemma called_simps [simp]:
  "called (s\<lparr>cq_rows := rows\<rparr>) = called s" "called (s\<lparr>cq_stats := st\<rparr>) = called s"
  "called (s\<lparr>cq_halted := b\<rparr>) = called s" "called (s\<lparr>cq_orders := os\<rparr>) = called s"
  "called (s\<lparr>cq_calls := cq_calls s @ [(i, q)]\<rparr>) = insert i (called s)"
  by (auto simp: called_def)

lemma commands_grow_refl [simp]: "commands_grow s s"
  unfolding commands_grow_def using command_le_refl by blast

lemma commands_grow_trans: "commands_grow s s' \<Longrightarrow> commands_grow s' s'' \<Longrightarrow> commands_grow s s''"
  unfolding commands_grow_def by (meson command_le_trans subset_trans)

interpretation commands: coro_rg commands_ok "\<lambda>_. commands_grow" "\<lambda>_. commands_grow" "\<lambda>_ _ _ _. True"
  by unfold_locales (auto intro: commands_grow_trans)

definition was_claimed :: "string \<Rightarrow> command_system \<Rightarrow> bool" where
  "was_claimed i s \<longleftrightarrow> (\<exists>row \<in> set (cq_rows s). xc_command_id row = i \<and> 0 < xc_attempt_count row)"

lemma find_append_None: "find P xs = None \<Longrightarrow> find P (xs @ ys) = find P ys"
  by (induction xs) (auto split: if_splits)

lemma was_claimed_stable: "was_claimed i s \<Longrightarrow> commands_grow s s' \<Longrightarrow> was_claimed i s'"
  unfolding was_claimed_def commands_grow_def command_le_def by (metis le_trans not_le le_zero_eq neq0_conv)

lemma was_claimed_unique:
  assumes "was_claimed i s" "commands_ok s" "row \<in> set (cq_rows s)" "xc_command_id row = i"
  shows "0 < xc_attempt_count row"
proof -
  from assms(1) obtain row' where row': "row' \<in> set (cq_rows s)" "xc_command_id row' = i" "0 < xc_attempt_count row'"
    by (auto simp: was_claimed_def)
  have "inj_on xc_command_id (set (cq_rows s))" using assms(2) by (simp add: commands_ok_def distinct_map)
  then have "row' = row" using row'(1,2) assms(3,4) by (metis inj_onD)
  then show ?thesis using row'(3) by simp
qed

lemma change_command_step:
  assumes "commands_ok s" "\<And>row. command_le row (f row)"
    and "\<And>row. row \<in> set (cq_rows s) \<Longrightarrow> xc_command_id row = i \<Longrightarrow> command_ok (called s) (f row)"
  shows "commands_ok (s\<lparr>cq_rows := change_command i f (cq_rows s)\<rparr>) \<and>
    commands_grow s (s\<lparr>cq_rows := change_command i f (cq_rows s)\<rparr>)"
proof -
  let ?g = "\<lambda>row. if xc_command_id row = i then f row else row"
  have same: "xc_command_id (?g row) = xc_command_id row" "xc_idempotency_key (?g row) = xc_idempotency_key row" for row
    using assms(2) [of row] by (simp_all add: command_le_def)
  have "map xc_command_id (change_command i f (cq_rows s)) = map xc_command_id (cq_rows s)"
    "map xc_idempotency_key (change_command i f (cq_rows s)) = map xc_idempotency_key (cq_rows s)"
    unfolding change_command_def map_map comp_def same by simp_all
  moreover from this(1) have "xc_command_id ` set (change_command i f (cq_rows s)) = xc_command_id ` set (cq_rows s)"
    by (metis set_map)
  moreover have "command_ok (called s) row" if "row \<in> set (change_command i f (cq_rows s))" for row
    using that assms(1,3) by (auto simp: change_command_def commands_ok_def)
  moreover have "\<exists>row' \<in> set (change_command i f (cq_rows s)). command_le row row'" if "row \<in> set (cq_rows s)" for row
    using that assms(2) [of row] by (intro bexI [of _ "?g row"]) (auto simp: change_command_def)
  ultimately show ?thesis using assms(1) by (simp add: commands_ok_def commands_grow_def)
qed

lemma claim_command_step:
  assumes "commands_ok s"
  shows "commands_ok (s\<lparr>cq_rows := claim_command i st u t (cq_rows s)\<rparr>) \<and>
    commands_grow s (s\<lparr>cq_rows := claim_command i st u t (cq_rows s)\<rparr>)"
proof (cases "claim_granted i st u (cq_rows s)")
  case True
  then show ?thesis
    using change_command_step [OF assms, of "claimed_row t" i]
    by (simp add: claim_command_def claimed_row_def command_le_def command_ok_def)
qed (use assms in \<open>simp add: claim_command_def\<close>)

lemma claim_claims:
  assumes "claim_granted i st u (cq_rows s)"
  shows "was_claimed i (s\<lparr>cq_rows := claim_command i st u t (cq_rows s)\<rparr>)"
proof -
  obtain row where "row \<in> set (cq_rows s)" "xc_command_id row = i"
    using assms by (auto simp: claim_granted_def get_command_def split: option.splits dest: find_Some)
  then have "claimed_row t row \<in> set (claim_command i st u t (cq_rows s))"
    using assms by (force simp: claim_command_def change_command_def)
  then show ?thesis unfolding was_claimed_def
    using \<open>xc_command_id row = i\<close> by (intro bexI [of _ "claimed_row t row"]) (simp_all add: claimed_row_def)
qed

lemma update_command_step:
  assumes "commands_ok s" "was_claimed i s" "st \<noteq> CMD_PENDING"
  shows "commands_ok (s\<lparr>cq_rows := update_state i st t e inc (cq_rows s)\<rparr>) \<and>
    commands_grow s (s\<lparr>cq_rows := update_state i st t e inc (cq_rows s)\<rparr>)"
  unfolding update_state_def
  using assms was_claimed_unique [OF assms(2,1)]
  by (intro change_command_step) (auto simp: updated_row_def command_le_def command_ok_def)

lemma enqueue_command_step:
  assumes "commands_ok s" "enqueue_command_in_session known i oid ty key p t (cq_rows s) = Inr rows"
  shows "commands_ok (s\<lparr>cq_rows := rows\<rparr>) \<and> commands_grow s (s\<lparr>cq_rows := rows\<rparr>)"
proof (cases "rows = cq_rows s")
  case False
  then have new: "get_command (cq_rows s) i = None" "get_by_idempotency_key (cq_rows s) key = None"
    and rows: "\<exists>row. rows = cq_rows s @ [row] \<and> xc_command_id row = i \<and> xc_idempotency_key row = key \<and>
      xc_state row = CMD_PENDING \<and> xc_attempt_count row = 0 \<and> xc_last_error row = None"
    using assms(2) by (auto simp: enqueue_command_in_session_def split: if_splits option.splits)
  have fresh: "i \<notin> xc_command_id ` set (cq_rows s)" "key \<notin> xc_idempotency_key ` set (cq_rows s)"
    using new by (auto simp: get_command_def get_by_idempotency_key_def find_None_iff)
  then have "i \<notin> called s" using assms(1) by (auto simp: commands_ok_def)
  then have "commands_ok (s\<lparr>cq_rows := rows\<rparr>)"
    using assms(1) fresh rows by (auto simp: commands_ok_def command_ok_def)
  moreover have "commands_grow s (s\<lparr>cq_rows := rows\<rparr>)"
    unfolding commands_grow_def using rows command_le_refl by fastforce
  ultimately show ?thesis ..
qed (use assms in simp)

lemma call_executor_step:
  assumes "commands_ok s" "was_claimed i s"
  shows "commands_ok (s\<lparr>cq_calls := cq_calls s @ [(i, q)]\<rparr>) \<and> commands_grow s (s\<lparr>cq_calls := cq_calls s @ [(i, q)]\<rparr>)"
proof -
  have "0 < xc_attempt_count row" if "row \<in> set (cq_rows s)" "xc_command_id row = i" for row
    using was_claimed_unique [OF assms(2,1) that] .
  then have "command_ok (insert i (called s)) row" if "row \<in> set (cq_rows s)" for row
    using assms(1) that by (fastforce simp: commands_ok_def command_ok_def)
  moreover have "i \<in> xc_command_id ` set (cq_rows s)" using assms(2) by (auto simp: was_claimed_def)
  moreover have "commands_grow s (s\<lparr>cq_calls := cq_calls s @ [(i, q)]\<rparr>)"
    unfolding commands_grow_def using command_le_refl by fastforce
  ultimately show ?thesis using assms(1) by (simp add: commands_ok_def)
qed

section \<open>The processes keep the invariant\<close>

abbreviation cwp :: "'a command_coro \<Rightarrow> _" where
  "cwp \<equiv> wp commands_ok (\<lambda>_. commands_grow) (\<lambda>_. commands_grow) (\<lambda>_ _ _ _. True)"

abbreviation (input) at_rest :: "'x \<Rightarrow> unit set \<Rightarrow> 'h \<Rightarrow> command_system \<Rightarrow> bool" where
  "at_rest \<equiv> (\<lambda>_ H _ s. H = {} \<and> commands_ok s)"

lemma rows_self: "\<forall>row \<in> set rows. \<exists>row' \<in> set rows. command_le row row'"
  using command_le_refl by blast

lemma other_fields_step [simp]:
  "commands_ok (s\<lparr>cq_stats := st\<rparr>) = commands_ok s" "commands_grow s (s\<lparr>cq_stats := st\<rparr>)"
  "commands_ok (s\<lparr>cq_halted := b\<rparr>) = commands_ok s" "commands_grow s (s\<lparr>cq_halted := b\<rparr>)"
  "commands_ok (s\<lparr>cq_orders := os\<rparr>) = commands_ok s" "commands_grow s (s\<lparr>cq_orders := os\<rparr>)"
  "was_claimed i (s\<lparr>cq_stats := st\<rparr>) = was_claimed i s"
  "was_claimed i (s\<lparr>cq_calls := calls\<rparr>) = was_claimed i s"
  by (simp_all add: commands_ok_def commands_grow_def was_claimed_def rows_self)

lemma cwp_db:
  assumes "commands_ok s"
    and "\<And>s'. commands_ok s' \<Longrightarrow> commands_grow s s' \<Longrightarrow>
      commands_ok (s'\<lparr>cq_rows := f (cq_rows s')\<rparr>) \<and> commands_grow s' (s'\<lparr>cq_rows := f (cq_rows s')\<rparr>)"
    and "\<And>h s'. commands_ok s' \<Longrightarrow> commands_grow s s' \<Longrightarrow> commands_ok (s'\<lparr>cq_rows := f (cq_rows s')\<rparr>) \<Longrightarrow>
      commands_grow s' (s'\<lparr>cq_rows := f (cq_rows s')\<rparr>) \<Longrightarrow> Q (r (cq_rows s')) {} h (s'\<lparr>cq_rows := f (cq_rows s')\<rparr>)"
    and "\<And>e h s'. commands_ok s' \<Longrightarrow> commands_grow s s' \<Longrightarrow> X e {} h s'"
  shows "cwp (command_db r f) Q X {} h s"
  using assms by (auto simp: command_db_def wp_rules)

lemma cwp_update:
  assumes "commands_ok s" "was_claimed i s" "st \<noteq> CMD_PENDING"
    and "\<And>h s'. commands_ok s' \<Longrightarrow> was_claimed i s' \<Longrightarrow> Q () {} h s'"
    and "\<And>e h s'. commands_ok s' \<Longrightarrow> was_claimed i s' \<Longrightarrow> X e {} h s'"
  shows "cwp (command_db (\<lambda>_. ()) (update_state i st t e inc)) Q X {} h s"
proof (rule cwp_db [OF assms(1)])
  fix s' assume s': "commands_ok s'" "commands_grow s s'"
  show "commands_ok (s'\<lparr>cq_rows := update_state i st t e inc (cq_rows s')\<rparr>) \<and>
      commands_grow s' (s'\<lparr>cq_rows := update_state i st t e inc (cq_rows s')\<rparr>)"
    by (rule update_command_step [OF s'(1) was_claimed_stable [OF assms(2) s'(2)] assms(3)])
qed (metis assms(2,4) was_claimed_stable, metis assms(2,5) was_claimed_stable)

lemma cwp_fail_command:
  assumes "commands_ok s" "was_claimed (xc_command_id c) s"
    and "\<And>h s'. commands_ok s' \<Longrightarrow> Q () {} h s'" "\<And>e h s'. commands_ok s' \<Longrightarrow> X e {} h s'"
  shows "cwp (fail_command c e) Q X {} h s"
  using assms
  by (cases e) (auto simp: fail_command_def wp_rules mark_failed_def change_stats_def intro!: cwp_update)

lemma cwp_settle_command:
  assumes "commands_ok s" "was_claimed (xc_command_id c) s"
    and "\<And>h s'. commands_ok s' \<Longrightarrow> was_claimed (xc_command_id c) s' \<Longrightarrow> Q () {} h s'"
    and "\<And>e h s'. commands_ok s' \<Longrightarrow> was_claimed (xc_command_id c) s' \<Longrightarrow> X e {} h s'"
  shows "cwp (settle_command c) Q X {} h s"
  using assms
  by (auto simp: settle_command_def wp_rules mark_sent_to_venue_def mark_acked_def change_stats_def intro!: cwp_update)

lemma cwp_execute_command:
  assumes "commands_ok s" "was_claimed (xc_command_id c) s"
    and "\<And>h s'. commands_ok s' \<Longrightarrow> was_claimed (xc_command_id c) s' \<Longrightarrow> Q () {} h s'"
    and "\<And>e h s'. commands_ok s' \<Longrightarrow> was_claimed (xc_command_id c) s' \<Longrightarrow> X e {} h s'"
  shows "cwp (execute_command c) Q X {} h s"
proof -
  have "was_claimed (xc_command_id c) s'"
    if "commands_grow (s\<lparr>cq_calls := cq_calls s @ [(xc_command_id c, q)]\<rparr>) s'" for s' q
    using was_claimed_stable [OF _ that] assms(2) by simp
  then have "cwp (call_executor (xc_command_id c) q) Q X {} h s" for q
    using assms call_executor_step [OF assms(1,2)] by (simp add: call_executor_def wp_rules)
  then show ?thesis
    using assms by (auto simp: execute_command_def Let_def wp_rules split: sum.splits)
qed

lemma cwp_process_command:
  assumes "commands_ok s" "was_claimed (xc_command_id c) s"
    and "\<And>h s'. commands_ok s' \<Longrightarrow> Q () {} h s'" "\<And>e h s'. commands_ok s' \<Longrightarrow> X e {} h s'"
  shows "cwp (process_command c) Q X {} h s"
  unfolding process_command_def change_stats_def wp_rules
  using assms by (auto intro!: cwp_execute_command cwp_settle_command cwp_fail_command)

lemma cwp_process_loop:
  "commands_ok s \<Longrightarrow> cwp (process_loop cs n) at_rest at_rest {} h s"
proof (induction cs arbitrary: n s h)
  case (Cons c cs)
  have claimed: "cwp (cseq (process_command (c\<lparr>xc_state := CMD_CLAIMED, xc_updated_at := t\<rparr>))
      (process_loop cs (Suc n))) at_rest at_rest {} h s'"
    if "commands_ok s'" "was_claimed (xc_command_id c) s'" for s' h t
    unfolding wp_cbind by (rule cwp_process_command) (use that Cons.IH in auto)
  have "cwp (cbind (command_db (claim_granted (xc_command_id c) (xc_state c) (xc_updated_at c))
                (claim_command (xc_command_id c) (xc_state c) (xc_updated_at c) t)) (\<lambda>claimed.
       if \<not> claimed then process_loop cs n
       else cseq (process_command (c\<lparr>xc_state := CMD_CLAIMED, xc_updated_at := t\<rparr>))
              (process_loop cs (Suc n)))) at_rest at_rest {} h s" for t
    unfolding wp_cbind [of _ _ _ _ "command_db _ _"]
    using Cons.prems
    by (rule cwp_db) (auto simp: claim_command_step claim_claims intro!: claimed Cons.IH)
  then show ?case using Cons by (simp add: wp_steps)
qed (simp add: wp_ends)

text \<open>The tasks on the queue: processors, producers, the kill switch, new order rows, in any number.\<close>

inductive command_program :: "unit command_coro \<Rightarrow> bool" where
  processing: "command_program (as_task (process_pending limit sent_retry_after))"
| producing: "command_program (as_task (service_enqueue_command order_id command_type idempotency_key payload))"
| switching: "command_program (modify (\<lambda>s. s\<lparr>cq_halted := halted\<rparr>))"
| ordering: "command_program (modify (\<lambda>s. s\<lparr>cq_orders := cq_orders s @ [order_id]\<rparr>))"

lemma cwp_enqueue:
  assumes "commands_ok s"
  shows "cwp (enqueue_command i oid ty key p t) at_rest at_rest {} h s"
  using assms enqueue_command_step by (auto simp: enqueue_command_def wp_rules split: sum.splits)

lemma command_program_honours: "command_program c \<Longrightarrow> commands.honours c"
proof (induction rule: command_program.induct)
  case (processing limit retry)
  have "cwp (process_pending limit retry) at_rest at_rest {} [] s" if "commands_ok s" for s
    using that by (auto simp: process_pending_def wp_rules intro!: cwp_db cwp_process_loop)
  then show ?case unfolding commands.honours_def wp_as_task by (simp add: conj_commute)
next
  case (producing oid ty key p)
  have "cwp (service_enqueue_command oid ty key p) at_rest at_rest {} [] s" if "commands_ok s" for s
    using that
    by (auto simp: service_enqueue_command_def wp_rules split: option.splits
        intro!: cwp_db wp_mono [OF cwp_enqueue])
  then show ?case unfolding commands.honours_def wp_as_task by (simp add: conj_commute)
qed (simp_all add: commands.honours_def wp_rules)

text \<open>
  C26. The queue stays coherent whatever processors, producers, kill-switch changes and new orders
  interleave and whatever the database and the executors answer: command ids and idempotency keys
  stay unique, so an order is queued once per kind of command; a command reaches an executor only
  after a claim of its row; a row has no attempt exactly while it is PENDING; errors are cut at 1024
  characters; and no command is lost, changes its order, kind, key or payload, loses an attempt or
  becomes PENDING again.
\<close>

theorem command_queue_coherent:
  assumes "commands_ok s" "sys_reaches command_program (idle s) cfg"
  shows "commands_ok (sys_state cfg) \<and> commands_grow s (sys_state cfg)"
proof -
  have "commands.sys_ok s cfg"
    by (rule commands.reaches_ok [OF assms(2,1) command_program_honours])
  then show ?thesis using commands.state_inv commands.state_rly by blast
qed

section \<open>A processor that is not interrupted\<close>

text \<open>The database answers; the executors answer or raise, but nobody cancels the task.\<close>

definition db_answers :: "(nat \<Rightarrow> command_request \<Rightarrow> command_error + unit) \<Rightarrow> bool" where
  "db_answers world \<longleftrightarrow> (\<forall>n. world n Command_Db = Inr ()) \<and> (\<forall>n q. world n q \<noteq> Inl Command_Cancelled)"

definition calls_of :: "string \<Rightarrow> command_system \<Rightarrow> nat" where
  "calls_of i s = length (filter (\<lambda>call. fst call = i) (cq_calls s))"

text \<open>No command is half done, and no submission was handed to the order manager twice.\<close>

definition row_settled :: "command_system \<Rightarrow> execution_command \<Rightarrow> bool" where
  "row_settled s row \<longleftrightarrow> xc_state row \<noteq> CMD_CLAIMED \<and> (xc_command_type row = ''submit'' \<longrightarrow>
     calls_of (xc_command_id row) s \<le> 1 \<and> (xc_state row = CMD_PENDING \<longrightarrow> calls_of (xc_command_id row) s = 0))"

definition settled_once :: "command_system \<Rightarrow> bool" where
  "settled_once s \<longleftrightarrow> distinct (map xc_command_id (cq_rows s)) \<and> (\<forall>row \<in> set (cq_rows s). row_settled s row)"

definition settles :: "string \<Rightarrow> command_system \<Rightarrow> command_system \<Rightarrow> bool" where
  "settles i s s' \<longleftrightarrow> cq_halted s' = cq_halted s \<and> (cq_calls s' = cq_calls s \<or> (\<exists>q. cq_calls s' = cq_calls s @ [(i, q)])) \<and>
     (\<exists>g. cq_rows s' = change_command i g (cq_rows s) \<and> (\<forall>row. xc_command_id (g row) = xc_command_id row \<and>
        xc_command_type (g row) = xc_command_type row \<and> xc_state (g row) \<in> {CMD_ACKED, CMD_FAILED}))"

lemma change_command_compose:
  "(\<And>row. xc_command_id (f row) = xc_command_id row) \<Longrightarrow>
     change_command i g (change_command i f rows) = change_command i (\<lambda>row. g (f row)) rows"
  by (simp add: change_command_def)

lemma settles_failed:
  assumes "cq_calls s' = cq_calls s \<or> (\<exists>q. cq_calls s' = cq_calls s @ [(i, q)])" "cq_halted s' = cq_halted s"
    "cq_rows s' = mark_failed i m t (cq_rows s)"
  shows "settles i s s'"
  unfolding settles_def using assms
  by (auto simp: mark_failed_def update_state_def updated_row_def intro!: exI [of _ "updated_row CMD_FAILED t (Some m) False"])

lemma settles_acked:
  assumes "cq_calls s' = cq_calls s \<or> (\<exists>q. cq_calls s' = cq_calls s @ [(i, q)])" "cq_halted s' = cq_halted s"
    "cq_rows s' = mark_acked i t' (mark_sent_to_venue i t (cq_rows s))"
  shows "settles i s s'"
proof -
  have "cq_rows s' = change_command i (\<lambda>row. updated_row CMD_ACKED t' None False (updated_row CMD_SENT t None False row)) (cq_rows s)"
    unfolding assms(3) mark_acked_def mark_sent_to_venue_def update_state_def
    by (rule change_command_compose) (simp add: updated_row_def)
  then show ?thesis unfolding settles_def using assms(1,2) by (auto simp: updated_row_def)
qed

lemma run_db:
  "db_answers world \<Longrightarrow> run_alone clock ids world (cbind (command_db r f) k) n s =
     run_alone clock ids world (k (r (cq_rows s))) (Suc n) (s\<lparr>cq_rows := f (cq_rows s)\<rparr>)"
  by (simp add: db_answers_def command_db_def await_def modify_def)

lemma execute_command_cases:
  "(\<exists>m. execute_command c = Raise (Command_Failure m)) \<or> (\<exists>q. execute_command c = call_executor (xc_command_id c) q)"
  unfolding execute_command_def Let_def by (auto split: sum.split)

lemma run_process_command:
  assumes "db_answers world"
  shows "\<exists>n' s'. (\<forall>k. run_alone clock ids world (cbind (process_command c) k) n s = run_alone clock ids world (k ()) n' s') \<and>
    settles (xc_command_id c) s s'"
proof -
  have db: "world m Command_Db = Inr ()" for m using assms by (simp add: db_answers_def)
  note run = process_command_def change_stats_def modify_def fail_command_def settle_command_def command_db_def await_def
    call_executor_def db
  from execute_command_cases [of c] show ?thesis
  proof
    assume "\<exists>m. execute_command c = Raise (Command_Failure m)"
    then show ?thesis
      by (auto simp: run) (intro exI conjI allI, rule refl, rule settles_failed, simp_all)
  next
    assume "\<exists>q. execute_command c = call_executor (xc_command_id c) q"
    then obtain q where call: "execute_command c = call_executor (xc_command_id c) q" by blast
    show ?thesis
    proof (cases "world n q")
      case (Inl e)
      then obtain m where "e = Command_Failure m" using assms by (cases e) (auto simp: db_answers_def)
      then show ?thesis using call Inl
        by (simp add: run) (intro exI conjI allI, rule refl, rule settles_failed, simp_all)
    next
      case (Inr u)
      then show ?thesis using call
        by (simp add: run) (intro exI conjI allI, rule refl, rule settles_acked, simp_all)
    qed
  qed
qed

lemma claim_in_table:
  assumes "settled_once s" "c \<in> set (cq_rows s)"
  shows "claim_granted (xc_command_id c) (xc_state c) (xc_updated_at c) (cq_rows s)"
proof -
  have "get_command (cq_rows s) (xc_command_id c) \<noteq> None"
    using assms(2) by (auto simp: get_command_def find_None_iff)
  then obtain row where row: "get_command (cq_rows s) (xc_command_id c) = Some row" by blast
  then have "row \<in> set (cq_rows s)" "xc_command_id row = xc_command_id c" by (auto simp: get_command_def dest: find_Some)
  moreover have "inj_on xc_command_id (set (cq_rows s))" using assms(1) by (simp add: settled_once_def distinct_map)
  ultimately have "row = c" using assms(2) by (metis inj_onD)
  then show ?thesis by (simp add: claim_granted_def row)
qed

lemma settled_step:
  assumes "settled_once s" "c \<in> set (cq_rows s)" "settles (xc_command_id c) (s\<lparr>cq_rows := change_command (xc_command_id c) (claimed_row t) (cq_rows s)\<rparr>) s'"
    and "xc_command_type c = ''submit'' \<longrightarrow> xc_state c = CMD_PENDING"
  shows "settled_once s'" "cq_halted s' = cq_halted s"
    "\<And>row. row \<in> set (cq_rows s) \<Longrightarrow> xc_command_id row \<noteq> xc_command_id c \<Longrightarrow> row \<in> set (cq_rows s')"
    "\<And>row. row \<in> set (cq_rows s') \<Longrightarrow> xc_state row = CMD_PENDING \<Longrightarrow> row \<in> set (cq_rows s) \<and> xc_command_id row \<noteq> xc_command_id c"
proof -
  let ?i = "xc_command_id c"
  obtain g where rows: "cq_rows s' = change_command ?i (\<lambda>row. g (claimed_row t row)) (cq_rows s)"
    and g: "\<And>row. xc_command_id (g row) = xc_command_id row \<and> xc_command_type (g row) = xc_command_type row \<and> xc_state (g row) \<in> {CMD_ACKED, CMD_FAILED}"
    using assms(3) by (auto simp: settles_def change_command_compose claimed_row_def)
  have calls: "cq_calls s' = cq_calls s \<or> (\<exists>q. cq_calls s' = cq_calls s @ [(?i, q)])" using assms(3) by (simp add: settles_def)
  show "cq_halted s' = cq_halted s" using assms(3) by (simp add: settles_def)
  show "row \<in> set (cq_rows s) \<Longrightarrow> xc_command_id row \<noteq> ?i \<Longrightarrow> row \<in> set (cq_rows s')" for row
    unfolding rows change_command_def by force
  have origin: "row \<in> set (cq_rows s') \<Longrightarrow> (row \<in> set (cq_rows s) \<and> xc_command_id row \<noteq> ?i) \<or>
      (\<exists>old \<in> set (cq_rows s). row = g (claimed_row t old) \<and> xc_command_id old = ?i)" for row
    unfolding rows change_command_def by auto
  show "row \<in> set (cq_rows s) \<and> xc_command_id row \<noteq> ?i" if "row \<in> set (cq_rows s')" "xc_state row = CMD_PENDING" for row
    using origin [OF that(1)] that(2) g by (metis command_state.distinct insertE singletonD)
  have ids: "map xc_command_id (cq_rows s') = map xc_command_id (cq_rows s)"
    unfolding rows change_command_def by (simp add: g claimed_row_def)
  have others: "calls_of j s' = calls_of j s" if "j \<noteq> ?i" for j using calls that by (auto simp: calls_of_def)
  have own: "calls_of ?i s' \<le> Suc (calls_of ?i s)" using calls by (auto simp: calls_of_def)
  have inj: "inj_on xc_command_id (set (cq_rows s))" using assms(1) by (simp add: settled_once_def distinct_map)
  have "row_settled s' row" if "row \<in> set (cq_rows s')" for row
    using origin [OF that]
  proof
    assume "row \<in> set (cq_rows s) \<and> xc_command_id row \<noteq> ?i"
    then show ?thesis using assms(1) others by (auto simp: settled_once_def row_settled_def)
  next
    assume "\<exists>old \<in> set (cq_rows s). row = g (claimed_row t old) \<and> xc_command_id old = ?i"
    then obtain old where old: "old \<in> set (cq_rows s)" "row = g (claimed_row t old)" "xc_command_id old = ?i" by blast
    then have "old = c" using inj assms(2) by (metis inj_onD)
    then have "row = g (claimed_row t c)" using old by simp
    moreover have "xc_command_type c = ''submit'' \<Longrightarrow> calls_of ?i s = 0"
      using assms(1,2,4) by (auto simp: settled_once_def row_settled_def)
    ultimately show ?thesis using own g [of "claimed_row t c"] by (auto simp: row_settled_def claimed_row_def)
  qed
  then show "settled_once s'" using assms(1) ids by (simp add: settled_once_def)
qed

lemma run_process_loop:
  assumes "db_answers world"
  shows "settled_once s \<Longrightarrow> set cs \<subseteq> set (cq_rows s) \<Longrightarrow> distinct (map xc_command_id cs) \<Longrightarrow>
    \<exists>k' s'. run_alone clock ids world (process_loop cs k) n s = (Inr k', s') \<and> settled_once s' \<and>
      (\<forall>row \<in> set (cq_rows s'). xc_state row = CMD_PENDING \<longrightarrow> row \<in> set (cq_rows s) \<and> (cq_halted s \<or> row \<notin> set cs))"
proof (induction cs arbitrary: k n s)
  case (Cons c cs)
  have c: "c \<in> set (cq_rows s)" using Cons.prems(2) by simp
  have not_claimed: "xc_state c \<noteq> CMD_CLAIMED" using Cons.prems(1) c by (auto simp: settled_once_def row_settled_def)
  consider (skip) "xc_command_type c = ''submit'' \<and> xc_state c \<notin> {CMD_PENDING, CMD_CLAIMED}"
    | (gate) "\<not> can_execute_command (cq_halted s) c" "\<not> (xc_command_type c = ''submit'' \<and> xc_state c \<notin> {CMD_PENDING, CMD_CLAIMED})"
    | (claim) "can_execute_command (cq_halted s) c" "\<not> (xc_command_type c = ''submit'' \<and> xc_state c \<notin> {CMD_PENDING, CMD_CLAIMED})"
    by blast
  then show ?case
  proof cases
    case skip
    have "set cs \<subseteq> set (cq_rows s)" "distinct (map xc_command_id cs)" using Cons.prems by simp_all
    from Cons.IH [OF Cons.prems(1) this, of k n] skip show ?thesis by auto
  next
    case gate
    then have halted: "cq_halted s" by (simp add: can_execute_command_def)
    have "set cs \<subseteq> set (cq_rows s)" "distinct (map xc_command_id cs)" using Cons.prems by simp_all
    from Cons.IH [OF Cons.prems(1) this, of k n] gate halted show ?thesis by auto
  next
    case claim
    let ?t = "clock n"
    let ?s = "s\<lparr>cq_rows := change_command (xc_command_id c) (claimed_row ?t) (cq_rows s)\<rparr>"
    let ?c = "c\<lparr>xc_state := CMD_CLAIMED, xc_updated_at := ?t\<rparr>"
    obtain n' s' where run: "\<And>k :: unit \<Rightarrow> nat command_coro. run_alone clock ids world (cbind (process_command ?c) k) (Suc (Suc n)) ?s = run_alone clock ids world (k ()) n' s'"
      and s': "settles (xc_command_id c) ?s s'"
      using run_process_command [OF assms, of clock ids ?c "Suc (Suc n)" ?s] by auto
    have "xc_command_type c = ''submit'' \<longrightarrow> xc_state c = CMD_PENDING" using claim(2) not_claimed by auto
    note step = settled_step [OF Cons.prems(1) c s' this]
    have "row \<in> set (cq_rows s')" if "row \<in> set cs" for row
    proof -
      have "xc_command_id c \<notin> xc_command_id ` set cs" using Cons.prems(3) by simp
      then have "xc_command_id row \<noteq> xc_command_id c" using that by (metis imageI)
      then show ?thesis using step(3) that Cons.prems(2) by auto
    qed
    then have cs: "set cs \<subseteq> set (cq_rows s')" "distinct (map xc_command_id cs)" using Cons.prems(3) by auto
    have "run_alone clock ids world (process_loop (c # cs) k) n s = run_alone clock ids world (process_loop cs (Suc k)) n' s'"
      using claim run [of "\<lambda>_. process_loop cs (Suc k)"] claim_in_table [OF Cons.prems(1) c]
      by (auto simp: run_db [OF assms] claim_command_def)
    with Cons.IH [OF step(1) cs, of "Suc k" n'] step(2,4) show ?thesis by (auto; metis)
  qed
qed simp

lemma pending_subset: "set (pending_commands limit t rows) \<subseteq> set rows"
  by (auto simp: pending_commands_def dest: in_set_takeD)

lemma pending_distinct: "distinct (map xc_command_id rows) \<Longrightarrow> distinct (map xc_command_id (pending_commands limit t rows))"
  unfolding pending_commands_def take_map [symmetric] by (intro distinct_take) (simp add: distinct_map inj_on_def)

lemma pending_complete:
  assumes "length (filter (awaits_processing None) rows) \<le> limit" "row \<in> set rows" "xc_state row = CMD_PENDING"
  shows "row \<in> set (pending_commands limit (Some t) rows)"
proof -
  have "length (filter (awaits_processing (Some t)) rows) \<le> length (filter (awaits_processing None) rows)"
    by (induction rows) (auto simp: awaits_processing_def)
  then show ?thesis using assms by (simp add: pending_commands_def awaits_processing_def)
qed


section \<open>Queueing a command\<close>

text \<open>
  Producers: with a fresh command id and a known order, the command returned is the one stored, and
  asking again with the same idempotency key returns it and stores nothing.
\<close>

lemma service_enqueue_idempotent:
  assumes "db_answers world" "order_id \<in> set (cq_orders s)" "\<forall>i. get_command (cq_rows s) (ids i) = None"
  shows "\<exists>e s'. run_alone clock ids world (service_enqueue_command order_id kind key payload) n s = (Inr e, s') \<and>
    (\<exists>row. get_by_idempotency_key (cq_rows s') key = Some row \<and> enqueued_of_row row = e) \<and>
    run_alone clock' ids' world (service_enqueue_command order_id kind key payload') n' s' = (Inr e, s')"
proof -
  have db: "world m Command_Db = Inr ()" for m using assms(1) by (simp add: db_answers_def)
  have again: "run_alone clock' ids' world (service_enqueue_command order_id kind key payload') n' s' = (Inr (enqueued_of_row row), s')"
    if "get_by_idempotency_key (cq_rows s') key = Some row" for s' row
    using that by (simp add: service_enqueue_command_def run_db [OF assms(1)])
  show ?thesis
  proof (cases "get_by_idempotency_key (cq_rows s) key")
    case (Some row)
    then have "run_alone clock ids world (service_enqueue_command order_id kind key payload) n s = (Inr (enqueued_of_row row), s)"
      by (simp add: service_enqueue_command_def run_db [OF assms(1)])
    then show ?thesis using Some again [OF Some] by blast
  next
    case None
    let ?i = "ids (Suc n)" and ?t = "clock (Suc (Suc n))"
    let ?row = "\<lparr>xc_command_id = ?i, xc_order_id = order_id, xc_command_type = kind, xc_idempotency_key = key,
      xc_state = CMD_PENDING, xc_attempt_count = 0, xc_last_error = None, xc_payload = payload,
      xc_created_at = ?t, xc_updated_at = ?t\<rparr>"
    let ?s = "s\<lparr>cq_rows := cq_rows s @ [?row]\<rparr>"
    have "get_by_idempotency_key (cq_rows ?s) key = Some ?row"
      using None by (simp add: get_by_idempotency_key_def find_append_None)
    moreover have "run_alone clock ids world (service_enqueue_command order_id kind key payload) n s = (Inr (enqueued_of_row ?row), ?s)"
      using None assms(2,3)
      by (simp add: service_enqueue_command_def run_db [OF assms(1)] enqueue_command_def await_def db
          enqueue_command_in_session_def enqueued_of_row_def)
    ultimately show ?thesis using again [of ?s ?row] by blast
  qed
qed

section \<open>An interrupted processor\<close>

definition demo_command :: "string \<Rightarrow> execution_command" where
  "demo_command kind = \<lparr>xc_command_id = ''cmd-1'', xc_order_id = ''ord-1'', xc_command_type = kind,
     xc_idempotency_key = ''submit:ord-1'', xc_state = CMD_PENDING, xc_attempt_count = 0, xc_last_error = None,
     xc_payload = submit_command_payload
       (new_order_intent (Aware 0 0) ''int-1'' ''dec-1'' ''BTC-USDT'' Buy 1 ''phase2'' Market Medium ''IOC'' ''ord-1'') ''ord-1'',
     xc_created_at = 0, xc_updated_at = 0\<rparr>"

definition demo_queue :: command_system where
  "demo_queue = \<lparr>cq_rows = [demo_command ''submit''], cq_orders = [''ord-1''], cq_halted = False, cq_calls = [],
     cq_stats = \<lparr>cs_attempt_count = 0, cs_success_count = 0, cs_failure_count = 0, cs_last_processed_command_id = None,
       cs_last_processed_command_type = None, cs_last_processed_state = None, cs_last_processed_at = None, cs_last_error = None\<rparr>\<rparr>"

definition demo_poll :: "nat \<Rightarrow> rat \<Rightarrow> (command_system, command_request, command_error + unit, command_error, unit) sys \<Rightarrow> _" where
  "demo_poll i now cfg = answer i (\<lambda>_. now + 2) (\<lambda>_. []) (Inr ()) (answer i (\<lambda>_. now + 1) (\<lambda>_. []) (Inr ())
     (start i (\<lambda>_. now) (\<lambda>_. []) (as_task (process_pending 20 30)) cfg))"

definition demo_restarted :: "(command_system, command_request, command_error + unit, command_error, unit) sys" where
  "demo_restarted = demo_poll 1 100 (demo_poll 0 1 (idle demo_queue))"

lemma demo_poll_reaches:
  "sys_reaches command_program c0 cfg \<Longrightarrow> sys_tasks cfg i = None \<Longrightarrow> (\<And>l. sys_locks cfg l \<noteq> Some i) \<Longrightarrow>
    sys_reaches command_program c0 (demo_poll i now cfg)"
  unfolding demo_poll_def by (intro answer_reaches start_reaches command_program.processing)

text \<open>
  C27. A claimed submission may be sent twice: the processor calls the order manager while the row is
  CLAIMED and marks it SENT only after the answer, and a CLAIMED row is offered to the next poll.  After
  a restart between the call and the mark (or with a second processor), the same submission is handed
  over again.
\<close>

theorem claimed_submission_sent_twice:
  "\<exists>cfg. sys_reaches command_program (idle demo_queue) cfg \<and>
     map xc_state (cq_rows (sys_state cfg)) = [CMD_CLAIMED] \<and>
     map fst (cq_calls (sys_state cfg)) = [''cmd-1'', ''cmd-1'']"
proof -
  have first: "sys_reaches command_program (idle demo_queue) (demo_poll 0 1 (idle demo_queue))"
    by (rule demo_poll_reaches) (simp_all add: sys_reaches_refl idle_def)
  have "Option.is_none (sys_tasks (demo_poll 0 1 (idle demo_queue)) 1)" by code_simp
  then have "sys_tasks (demo_poll 0 1 (idle demo_queue)) 1 = None" by (simp add: Option.is_none_def)
  moreover have "sys_locks (demo_poll 0 1 (idle demo_queue)) () = None" by code_simp
  ultimately have "sys_reaches command_program (idle demo_queue) demo_restarted"
    unfolding demo_restarted_def by (intro demo_poll_reaches first) simp_all
  moreover have "map xc_state (cq_rows (sys_state demo_restarted)) = [CMD_CLAIMED]" by code_simp
  moreover have "map fst (cq_calls (sys_state demo_restarted)) = [''cmd-1'', ''cmd-1'']" by code_simp
  ultimately show ?thesis by (intro exI [of _ demo_restarted] conjI)
qed

section \<open>Witnesses\<close>

lemma demo_queue_ok: "commands_ok demo_queue" "settled_once demo_queue"
  by (simp_all add: demo_queue_def demo_command_def commands_ok_def command_ok_def called_def settled_once_def
      row_settled_def calls_of_def)

theorem command_queue_coherent_witness:
  "commands_ok (sys_state (demo_poll 0 1 (idle demo_queue))) \<and>
   commands_grow demo_queue (sys_state (demo_poll 0 1 (idle demo_queue)))"
proof -
  have "sys_reaches command_program (idle demo_queue) (demo_poll 0 1 (idle demo_queue))"
    by (rule demo_poll_reaches) (simp_all add: sys_reaches_refl idle_def)
  from command_queue_coherent [OF demo_queue_ok(1) this] show ?thesis .
qed


end
