(* ===== verification/Execution_Repo.thy ===== *)
theory Execution_Repo
  imports Order_State_Machine Portfolio_State
begin

text \<open>
  The in-memory execution repository, \<^verbatim>\<open>aats/storage/execution_repo.py\<close>, with the scope
  filters of \<^verbatim>\<open>aats/services/runtime_scope.py\<close> it calls. The repository keeps the order
  states by client order id and by intent id, the fills by fill id, and two secondary indexes:
  the client order ids of each strategy bundle and those of the non-terminal orders. A dict is
  an association list, a set of ids a list without duplicates; the order in which Python
  iterates a set of strings is the argument \<open>ord\<close> of the two queries that depend on it.
  \<open>repo_reachable\<close> are the repositories that saving reports and fills can build, and
  \<open>repo_inv\<close> the invariant that makes the indexes agree with a scan of all the orders.
\<close>

section \<open>Runtime scopes\<close>

record runtime_state_scope =
  rs_product_type :: product_type
  rs_margin_mode :: margin_mode
  rs_allowed_symbols :: "string list"
  rs_default_symbol :: string
  rs_smart_arbitrage_spot_margin_modes :: "margin_mode list"

definition symbol_allowed :: "runtime_state_scope \<Rightarrow> string option \<Rightarrow> bool" where
  "symbol_allowed scope symbol =
     (if \<not> str_truthy symbol then False
      else if rs_allowed_symbols scope \<noteq> [] then the symbol \<in> set (rs_allowed_symbols scope)
      else the symbol = rs_default_symbol scope)"

definition payload_product_type :: "order_state \<Rightarrow> product_type option" where
  "payload_product_type order =
     (case map_of (os_submission_payload order) ''productType'' of
        None \<Rightarrow> None
      | Some v \<Rightarrow> map_of [(''spot'', Spot), (''derivatives'', Derivatives)] v)"

definition inferred_order_state_product_type :: "order_state \<Rightarrow> product_type" where
  "inferred_order_state_product_type order =
     (case payload_product_type order of
        Some p \<Rightarrow> p
      | None \<Rightarrow>
          (let symbol = (if os_symbol order \<noteq> [] then os_symbol order
                         else dict_get (os_submission_payload order) ''instId'' []);
               inferred = infer_product_type_from_symbol symbol
           in if os_product_type order = Derivatives then Derivatives
              else if inferred = Derivatives then Derivatives
              else Spot))"

definition payload_margin_mode :: "order_state \<Rightarrow> string \<Rightarrow> margin_mode option" where
  "payload_margin_mode order key =
     (case map_of (os_submission_payload order) key of
        None \<Rightarrow> None
      | Some v \<Rightarrow> map_of [(''cash'', Cash), (''cross'', Cross), (''isolated'', Isolated)] v)"

definition inferred_order_state_margin_mode :: "order_state \<Rightarrow> margin_mode" where
  "inferred_order_state_margin_mode order =
     (case payload_margin_mode order ''marginMode'' of
        Some m \<Rightarrow> m
      | None \<Rightarrow>
          (case payload_margin_mode order ''tdMode'' of
             Some m \<Rightarrow> m
           | None \<Rightarrow>
               if inferred_order_state_product_type order = Derivatives \<and> os_margin_mode order = Cash
               then Cross else os_margin_mode order))"

definition order_state_matches_scope :: "order_state \<Rightarrow> runtime_state_scope \<Rightarrow> bool" where
  "order_state_matches_scope order scope =
     (if \<not> symbol_allowed scope (Some (os_symbol order)) then False
      else
        let order_product_type = inferred_order_state_product_type order;
            order_margin_mode = inferred_order_state_margin_mode order
        in if rs_product_type scope = Derivatives \<and> os_strategy_family order = Some ''smart_arbitrage''
           then (if order_product_type = Spot
                 then order_margin_mode \<in> set (rs_smart_arbitrage_spot_margin_modes scope)
                 else order_margin_mode = rs_margin_mode scope)
           else if order_product_type \<noteq> rs_product_type scope then False
           else order_margin_mode = rs_margin_mode scope)"

definition filter_order_states :: "order_state list \<Rightarrow> runtime_state_scope \<Rightarrow> order_state list" where
  "filter_order_states order_states scope = filter (\<lambda>order. order_state_matches_scope order scope) order_states"

definition fill_event_matches_scope :: "fill_event \<Rightarrow> runtime_state_scope \<Rightarrow> bool" where
  "fill_event_matches_scope fill scope =
     (if \<not> symbol_allowed scope (Some (fl_symbol fill)) then False
      else if rs_product_type scope = Derivatives \<and> fl_strategy_family fill = Some ''smart_arbitrage''
      then (if fl_product_type fill = Spot
            then fl_margin_mode fill \<in> set (rs_smart_arbitrage_spot_margin_modes scope)
            else fl_margin_mode fill = rs_margin_mode scope)
      else if fl_product_type fill \<noteq> rs_product_type scope then False
      else fl_margin_mode fill = rs_margin_mode scope)"

definition filter_fills :: "fill_event list \<Rightarrow> runtime_state_scope \<Rightarrow> fill_event list" where
  "filter_fills fills scope = filter (\<lambda>fill. fill_event_matches_scope fill scope) fills"

section \<open>The repository\<close>

record exec_repo =
  er_by_client :: "(string \<times> order_state) list"
  er_by_intent :: "(string \<times> order_state) list"
  er_fills_by_id :: "(string \<times> fill_event) list"
  er_bundle_index :: "(string \<times> string list) list"
  er_non_terminal :: "string list"

definition empty_repo :: exec_repo where
  "empty_repo = \<lparr>er_by_client = [], er_by_intent = [], er_fills_by_id = [], er_bundle_index = [],
     er_non_terminal = []\<rparr>"

text \<open>The \<^verbatim>\<open>ValueError\<close> of a refused transition, with the two statuses of its message.\<close>

datatype repo_error = InvalidOrderStateTransition "order_status option" order_status

definition stored_order :: "exec_repo \<Rightarrow> order_state \<Rightarrow> order_state option" where
  "stored_order repo state =
     (case map_of (er_by_client repo) (os_client_order_id state) of
        Some current \<Rightarrow> Some current
      | None \<Rightarrow> map_of (er_by_intent repo) (os_intent_id state))"

definition index_bundle :: "order_state \<Rightarrow> (string \<times> string list) list \<Rightarrow> (string \<times> string list) list" where
  "index_bundle merged index =
     (let bundle_id = py_strip (case os_strategy_bundle_id merged of None \<Rightarrow> [] | Some b \<Rightarrow> b)
      in if bundle_id = [] then index
         else AList.update bundle_id (List.insert (os_client_order_id merged) (dict_get index bundle_id [])) index)"

definition save_order_state :: "exec_repo \<Rightarrow> order_state \<Rightarrow> repo_error + (exec_repo \<times> order_state)" where
  "save_order_state repo state =
     (let current = stored_order repo state;
          validation = validate_transition (map_option os_status current) (os_status state)
      in if \<not> tv_accepted validation \<and> tv_reason validation = ''invalid_transition''
         then Inl (InvalidOrderStateTransition (map_option os_status current) (os_status state))
         else
           let merged = merge current state;
               by_client = (case current of
                   Some c \<Rightarrow> if os_client_order_id c \<noteq> os_client_order_id merged
                             then AList.delete (os_client_order_id c) (er_by_client repo)
                             else er_by_client repo
                 | None \<Rightarrow> er_by_client repo)
           in Inr (repo
                \<lparr>er_by_client := AList.update (os_client_order_id merged) merged by_client,
                 er_by_intent := AList.update (os_intent_id merged) merged (er_by_intent repo),
                 er_bundle_index := index_bundle merged (er_bundle_index repo),
                 er_non_terminal :=
                   (if is_terminal (os_status merged)
                    then removeAll (os_client_order_id merged) (er_non_terminal repo)
                    else List.insert (os_client_order_id merged) (er_non_terminal repo))\<rparr>,
                merged))"

definition has_intent :: "exec_repo \<Rightarrow> string \<Rightarrow> bool" where
  "has_intent repo intent_id \<longleftrightarrow> map_of (er_by_intent repo) intent_id \<noteq> None"

definition save_fill :: "exec_repo \<Rightarrow> fill_event \<Rightarrow> exec_repo \<times> bool" where
  "save_fill repo fill =
     (if map_of (er_fills_by_id repo) (fl_fill_id fill) \<noteq> None then (repo, False)
      else (repo\<lparr>er_fills_by_id := AList.update (fl_fill_id fill) fill (er_fills_by_id repo)\<rparr>, True))"

section \<open>Queries\<close>

definition order_states :: "exec_repo \<Rightarrow> order_state list" where
  "order_states repo = map snd (er_by_client repo)"

definition get_order_state :: "exec_repo \<Rightarrow> string \<Rightarrow> order_state option" where
  "get_order_state repo client_order_id = map_of (er_by_client repo) client_order_id"

definition order_states_by_bundle_id :: "(string list \<Rightarrow> string list) \<Rightarrow> exec_repo \<Rightarrow> string \<Rightarrow> order_state list" where
  "order_states_by_bundle_id ord repo bundle_id =
     List.map_filter (map_of (er_by_client repo)) (ord (dict_get (er_bundle_index repo) bundle_id []))"

definition non_terminal_order_states :: "(string list \<Rightarrow> string list) \<Rightarrow> exec_repo \<Rightarrow> order_state list" where
  "non_terminal_order_states ord repo =
     List.map_filter (map_of (er_by_client repo)) (ord (er_non_terminal repo))"

definition order_state_sort_key :: "order_state \<Rightarrow> int \<times> string" where
  "order_state_sort_key item =
     (dt_instant (case os_last_update_ts item of Some t \<Rightarrow> t | None \<Rightarrow> os_created_at item),
      os_client_order_id item)"

text \<open>\<^verbatim>\<open>sorted(rows, key=..., reverse=True)\<close> keeps the order of equal keys.\<close>

definition recent_order_states :: "exec_repo \<Rightarrow> nat \<Rightarrow> order_status list option \<Rightarrow> order_state list" where
  "recent_order_states repo limit statuses =
     (let rows = rev (sort_key order_state_sort_key (rev (order_states repo)));
          rows = (case statuses of None \<Rightarrow> rows | Some allowed \<Rightarrow> filter (\<lambda>row. os_status row \<in> set allowed) rows)
      in take limit rows)"

definition order_states_for_decision :: "exec_repo \<Rightarrow> string option \<Rightarrow> order_state list" where
  "order_states_for_decision repo decision_id =
     (let normalized = py_strip (case decision_id of None \<Rightarrow> [] | Some d \<Rightarrow> d)
      in if normalized = [] then []
         else sort_key order_state_sort_key (filter (\<lambda>state. os_decision_id state = normalized) (order_states repo)))"

definition open_order_states :: "exec_repo \<Rightarrow> order_state list" where
  "open_order_states repo = filter (\<lambda>state. is_open (os_status state)) (order_states repo)"

definition repo_fills :: "exec_repo \<Rightarrow> fill_event list" where
  "repo_fills repo = map snd (er_fills_by_id repo)"

definition fills_for_order :: "exec_repo \<Rightarrow> string \<Rightarrow> fill_event list" where
  "fills_for_order repo client_order_id =
     sorted_fills (filter (\<lambda>fill. fl_client_order_id fill = client_order_id) (repo_fills repo))"

definition fills_for_decisions :: "exec_repo \<Rightarrow> string list \<Rightarrow> fill_event list" where
  "fills_for_decisions repo decision_ids =
     (let allowed = filter (\<lambda>did. did \<noteq> []) decision_ids
      in if allowed = [] then []
         else sorted_fills (filter (\<lambda>fill. fl_decision_id fill \<in> set allowed) (repo_fills repo)))"

text \<open>\<^verbatim>\<open>rows[-limit:]\<close>: the last rows, and all of them for a limit of zero.\<close>

definition last_rows :: "nat option \<Rightarrow> 'a list \<Rightarrow> 'a list" where
  "last_rows limit rows =
     (case limit of None \<Rightarrow> rows | Some n \<Rightarrow> if n = 0 then rows else drop (length rows - n) rows)"

definition fills_since :: "exec_repo \<Rightarrow> datetime option \<Rightarrow> nat option \<Rightarrow> fill_event list" where
  "fills_since repo since limit =
     (let rows = sorted_fills (repo_fills repo);
          rows = (case since of None \<Rightarrow> rows
                  | Some t \<Rightarrow> filter (\<lambda>fill. dt_instant t \<le> dt_instant (fl_ingestion_timestamp fill)) rows)
      in last_rows limit rows)"

definition order_states_for_scope ::
  "exec_repo \<Rightarrow> runtime_state_scope \<Rightarrow> order_status list option \<Rightarrow> nat option \<Rightarrow> bool \<Rightarrow> order_state list" where
  "order_states_for_scope repo scope statuses limit open_only =
     (let rows = (if open_only then open_order_states repo else order_states repo);
          rows = filter_order_states rows scope;
          rows = (case statuses of None \<Rightarrow> rows | Some allowed \<Rightarrow> filter (\<lambda>row. os_status row \<in> set allowed) rows)
      in last_rows limit (sort_key order_state_sort_key rows))"

definition fills_for_scope ::
  "exec_repo \<Rightarrow> runtime_state_scope \<Rightarrow> datetime option \<Rightarrow> nat option \<Rightarrow> fill_event list" where
  "fills_for_scope repo scope since limit =
     last_rows limit (filter_fills (fills_since repo since None) scope)"

section \<open>The invariant of the repository\<close>

lemma keyed_delete:
  assumes "keyed key d"
  shows "keyed key (AList.delete k d)"
proof -
  have "set (AList.delete k d) \<subseteq> set d" by (auto simp: AList.delete_eq)
  with assms show ?thesis unfolding keyed_def by (auto simp del: split_paired_All)
qed

lemma keyed_set_update:
  assumes "keyed key d" "e \<in> set (AList.update k v d)"
  shows "e = (k, v) \<or> (e \<in> set d \<and> fst e \<noteq> k)"
proof -
  obtain a b where e: "e = (a, b)" by (cases e)
  have d: "distinct (map fst d)" using assms(1) unfolding keyed_def by (rule conjunct1)
  then have "map_of (AList.update k v d) a = Some b"
    using assms(2) unfolding e by (intro map_of_is_SomeI) simp_all
  then have "a = k \<and> b = v \<or> a \<noteq> k \<and> map_of d a = Some b" by (auto split: if_splits)
  then show ?thesis unfolding e by (auto dest: map_of_SomeD)
qed

definition stripped_bundle :: "order_state \<Rightarrow> string" where
  "stripped_bundle state = py_strip (case os_strategy_bundle_id state of None \<Rightarrow> [] | Some b \<Rightarrow> b)"

text \<open>What the indexes know of a stored order.\<close>

definition indexed_order :: "exec_repo \<Rightarrow> order_state \<Rightarrow> bool" where
  "indexed_order repo s \<longleftrightarrow>
     (os_client_order_id s \<in> set (er_non_terminal repo) \<longleftrightarrow> \<not> is_terminal (os_status s))
     \<and> has_intent repo (os_intent_id s)
     \<and> (stripped_bundle s \<noteq> [] \<longrightarrow>
          os_client_order_id s \<in> set (dict_get (er_bundle_index repo) (stripped_bundle s) []))"

definition repo_inv :: "exec_repo \<Rightarrow> bool" where
  "repo_inv repo \<longleftrightarrow>
     keyed os_client_order_id (er_by_client repo) \<and> keyed os_intent_id (er_by_intent repo)
     \<and> keyed fl_fill_id (er_fills_by_id repo) \<and> distinct (er_non_terminal repo)
     \<and> (\<forall>s \<in> set (order_states repo). indexed_order repo s)"

inductive repo_reachable :: "exec_repo \<Rightarrow> bool" where
  repo_empty: "repo_reachable empty_repo"
| repo_saved_order: "repo_reachable repo \<Longrightarrow> save_order_state repo s = Inr out \<Longrightarrow> repo_reachable (fst out)"
| repo_saved_fill: "repo_reachable repo \<Longrightarrow> repo_reachable (fst (save_fill repo f))"

text \<open>The parts of a successful save.\<close>

definition kept_orders :: "exec_repo \<Rightarrow> order_state \<Rightarrow> (string \<times> order_state) list" where
  "kept_orders repo s =
     (case stored_order repo s of
        Some c \<Rightarrow> if os_client_order_id c \<noteq> os_client_order_id (merge (stored_order repo s) s)
                  then AList.delete (os_client_order_id c) (er_by_client repo) else er_by_client repo
      | None \<Rightarrow> er_by_client repo)"

lemma kept_orders: "kept_orders repo s = er_by_client repo \<or> (\<exists>c. kept_orders repo s = AList.delete c (er_by_client repo))"
  by (cases "stored_order repo s") (auto simp: kept_orders_def)

lemma save_order_stateD:
  assumes "save_order_state repo s = Inr (repo', merged)"
  shows "merged = merge (stored_order repo s) s"
    and "repo' = repo
      \<lparr>er_by_client := AList.update (os_client_order_id merged) merged (kept_orders repo s),
       er_by_intent := AList.update (os_intent_id merged) merged (er_by_intent repo),
       er_bundle_index := index_bundle merged (er_bundle_index repo),
       er_non_terminal := (if is_terminal (os_status merged)
         then removeAll (os_client_order_id merged) (er_non_terminal repo)
         else List.insert (os_client_order_id merged) (er_non_terminal repo))\<rparr>"
proof -
  note eq = assms[unfolded save_order_state_def Let_def, folded kept_orders_def]
  then show m: "merged = merge (stored_order repo s) s" by (metis Inl_Inr_False prod.inject sum.inject(2))
  from eq show "repo' = repo
      \<lparr>er_by_client := AList.update (os_client_order_id merged) merged (kept_orders repo s),
       er_by_intent := AList.update (os_intent_id merged) merged (er_by_intent repo),
       er_bundle_index := index_bundle merged (er_bundle_index repo),
       er_non_terminal := (if is_terminal (os_status merged)
         then removeAll (os_client_order_id merged) (er_non_terminal repo)
         else List.insert (os_client_order_id merged) (er_non_terminal repo))\<rparr>"
    unfolding m by (metis Inl_Inr_False prod.inject sum.inject(2))
qed

lemma save_order_state_parts:
  assumes "save_order_state repo s = Inr (repo', merged)"
  shows "er_by_client repo' = AList.update (os_client_order_id merged) merged (kept_orders repo s)"
    and "er_by_intent repo' = AList.update (os_intent_id merged) merged (er_by_intent repo)"
    and "er_bundle_index repo' = index_bundle merged (er_bundle_index repo)"
    and "er_non_terminal repo' = (if is_terminal (os_status merged)
       then removeAll (os_client_order_id merged) (er_non_terminal repo)
       else List.insert (os_client_order_id merged) (er_non_terminal repo))"
    and "er_fills_by_id repo' = er_fills_by_id repo"
  unfolding save_order_stateD(2)[OF assms] by simp_all

lemma dict_get_index_bundle:
  "set (dict_get (index_bundle m index) b []) =
     set (dict_get index b []) \<union> (if b = stripped_bundle m \<and> b \<noteq> [] then {os_client_order_id m} else {})"
  by (auto simp: index_bundle_def Let_def stripped_bundle_def)

lemma indexed_order_saved:
  assumes "save_order_state repo s = Inr (repo', merged)"
  shows "indexed_order repo' merged"
    and "indexed_order repo x \<Longrightarrow> os_client_order_id x \<noteq> os_client_order_id merged \<Longrightarrow> indexed_order repo' x"
  by (simp_all add: indexed_order_def has_intent_def dict_get_index_bundle save_order_state_parts[OF assms])

lemma repo_inv_save_order:
  assumes inv: "repo_inv repo" and save: "save_order_state repo s = Inr (repo', merged)"
  shows "repo_inv repo'"
proof -
  note parts = save_order_state_parts[OF save]
  have kd: "keyed os_client_order_id (kept_orders repo s)" "set (kept_orders repo s) \<subseteq> set (er_by_client repo)"
    using inv kept_orders[of repo s] keyed_delete[of os_client_order_id "er_by_client repo"]
    by (auto simp: repo_inv_def AList.delete_eq)
  have "indexed_order repo' x" if "x \<in> set (order_states repo')" for x
  proof -
    from that obtain k where k: "(k, x) \<in> set (er_by_client repo')" by (auto simp: order_states_def)
    from keyed_set_update[OF kd(1) this[unfolded parts(1)]] consider "x = merged"
      | "(k, x) \<in> set (kept_orders repo s)" "k \<noteq> os_client_order_id merged" by auto
    then show ?thesis
    proof cases
      case 2
      with kd inv have "x \<in> set (order_states repo)" "os_client_order_id x \<noteq> os_client_order_id merged"
        by (auto simp: order_states_def keyed_def intro!: image_eqI[of _ snd "(k, x)"])
      with inv show ?thesis by (simp add: repo_inv_def indexed_order_saved(2)[OF save])
    qed (simp add: indexed_order_saved(1)[OF save])
  qed
  with inv kd show ?thesis by (simp add: repo_inv_def parts keyed_update distinct_removeAll)
qed

lemma repo_inv_save_fill:
  assumes inv: "repo_inv repo"
  shows "repo_inv (fst (save_fill repo f))"
proof -
  have "indexed_order (er_fills_by_id_update g repo) x = indexed_order repo x" for g x
    by (simp add: indexed_order_def has_intent_def)
  with inv have "repo_inv (repo\<lparr>er_fills_by_id := AList.update (fl_fill_id f) f (er_fills_by_id repo)\<rparr>)"
    by (simp add: repo_inv_def keyed_update order_states_def)
  with inv show ?thesis by (simp add: save_fill_def)
qed

lemma repo_reachable_inv: "repo_reachable repo \<Longrightarrow> repo_inv repo"
proof (induction rule: repo_reachable.induct)
  case repo_empty
  show ?case by (simp add: repo_inv_def empty_repo_def order_states_def)
next
  case (repo_saved_order repo s out)
  obtain repo' merged where out: "out = (repo', merged)" by (cases out)
  from repo_inv_save_order[OF repo_saved_order.IH repo_saved_order.hyps(2)[unfolded out]]
  show ?case by (simp add: out)
next
  case (repo_saved_fill repo f)
  show ?case by (rule repo_inv_save_fill[OF repo_saved_fill.IH])
qed

text \<open>Looking up the ids of an index in the orders.\<close>

lemma set_map_filter_lookup:
  assumes "keyed os_client_order_id d"
  shows "set (List.map_filter (map_of d) ids) = {s \<in> snd ` set d. os_client_order_id s \<in> set ids}"
proof -
  have "s \<in> set (List.map_filter (map_of d) ids) \<longleftrightarrow> (\<exists>k \<in> set ids. map_of d k = Some s)" for s
    by (force simp: List.map_filter_def)
  with keyed_map_of[OF assms] show ?thesis by auto
qed

lemma distinct_map_filter_lookup:
  assumes "keyed os_client_order_id d" "distinct ids"
  shows "distinct (List.map_filter (map_of d) ids)"
  using assms(2)
proof (induction ids)
  case (Cons k ids)
  have "s \<notin> set (List.map_filter (map_of d) ids)" if "map_of d k = Some s" for s
    using that Cons.prems keyed_map_of[OF assms(1)] set_map_filter_lookup[OF assms(1)] by auto
  with Cons show ?case by (auto simp: map_filter_simps split: option.split)
qed (simp add: map_filter_simps)

lemma distinct_order_states: "keyed os_client_order_id (er_by_client repo) \<Longrightarrow> distinct (order_states repo)"
  using keyed_distinct[of os_client_order_id "er_by_client repo" "\<lambda>_. True"]
  by (simp add: order_states_def distinct_map inj_on_def)

lemma order_state_iff:
  "repo_inv repo \<Longrightarrow> s \<in> set (order_states repo) \<longleftrightarrow> get_order_state repo (os_client_order_id s) = Some s"
  unfolding repo_inv_def order_states_def get_order_state_def set_map by (metis keyed_map_of)

lemma has_intent_save:
  assumes "save_order_state repo s = Inr (repo', merged)"
  shows "has_intent repo' i \<longleftrightarrow> has_intent repo i \<or> i = os_intent_id merged"
  by (auto simp: has_intent_def save_order_state_parts[OF assms])

lemma set_recent_order_states:
  assumes "length (order_states repo) \<le> limit"
  shows "set (recent_order_states repo limit None) = set (order_states repo)"
  using assms by (simp add: recent_order_states_def)

lemma recent_order_states_subset: "set (recent_order_states repo limit statuses) \<subseteq> set (order_states repo)"
  by (auto simp: recent_order_states_def Let_def split: option.splits dest!: in_set_takeD)

section \<open>The indexes and the orders\<close>

text \<open>
  The secondary index of non-terminal orders and a scan of all the orders give the same
  answer: in every repository that saves can build, \<^verbatim>\<open>non_terminal_order_states\<close> returns
  each order that \<^verbatim>\<open>open_order_states\<close> finds, once, whatever the order in which the set
  of ids is iterated, and \<^verbatim>\<open>order_states_by_bundle_id\<close> misses no order of its bundle.
\<close>

lemma index_agrees_with_scan:
  assumes reach: "repo_reachable repo" and ord: "\<And>ids. mset (ord ids) = mset ids"
  shows "mset (non_terminal_order_states ord repo) = mset (open_order_states repo)
    \<and> (\<forall>s \<in> set (order_states repo). \<forall>b. b \<noteq> [] \<longrightarrow> stripped_bundle s = b \<longrightarrow>
         s \<in> set (order_states_by_bundle_id ord repo b))"
proof -
  have inv: "repo_inv repo" and k: "keyed os_client_order_id (er_by_client repo)"
    using repo_reachable_inv[OF reach] by (simp_all add: repo_inv_def)
  have set_ord: "set (ord ids) = set ids" for ids using mset_eq_setD[OF ord] .
  have "distinct (ord (er_non_terminal repo))"
    using inv mset_eq_imp_distinct_iff[OF ord] by (simp add: repo_inv_def)
  then have "distinct (non_terminal_order_states ord repo)"
    unfolding non_terminal_order_states_def by (rule distinct_map_filter_lookup[OF k])
  moreover have "distinct (open_order_states repo)"
    unfolding open_order_states_def by (rule distinct_filter[OF distinct_order_states[OF k]])
  moreover have "set (non_terminal_order_states ord repo) = set (open_order_states repo)"
    using inv unfolding non_terminal_order_states_def open_order_states_def set_map_filter_lookup[OF k]
    by (auto simp: set_ord repo_inv_def indexed_order_def terminal_or_open order_states_def)
  ultimately have "mset (non_terminal_order_states ord repo) = mset (open_order_states repo)"
    using set_eq_iff_mset_eq_distinct by blast
  moreover have "s \<in> set (order_states_by_bundle_id ord repo b)"
    if "s \<in> set (order_states repo)" "b \<noteq> []" "stripped_bundle s = b" for s b
    using inv that unfolding order_states_by_bundle_id_def set_map_filter_lookup[OF k]
    by (auto simp: set_ord repo_inv_def indexed_order_def order_states_def)
  ultimately show ?thesis by blast
qed

end
