(* ===== verification/Order_Truth.thy ===== *)
theory Order_Truth
  imports Order_State_Machine
begin

text \<open>
  What the engine knows of a write whose outcome the exchange did not confirm,
  \<^verbatim>\<open>aats/services/execution_engine/order_truth.py\<close>: an order whose
  \<^verbatim>\<open>execution_error\<close> starts with one of two prefixes carries an unknown submission or an
  unknown cancellation, blocks new risk, and needs an operator after a configured time. The
  same file decides which intents and orders only reduce risk. Seconds are exact rationals of
  the microseconds the timestamps hold; the two configured thresholds, when the settings give
  them, are an argument. The spellings of the literal types come first.
\<close>

section \<open>Spellings of the literals\<close>

fun execution_action_str :: "execution_action \<Rightarrow> string" where
  "execution_action_str ActHold = ''hold''"
| "execution_action_str ActEnter = ''enter''"
| "execution_action_str ActScaleIn = ''scale_in''"
| "execution_action_str ActReduce = ''reduce''"
| "execution_action_str ActExit = ''exit''"
| "execution_action_str ActReverse = ''reverse''"

fun leg_action_str :: "leg_action \<Rightarrow> string" where
  "leg_action_str LegOpen = ''open''"
| "leg_action_str LegReduce = ''reduce''"
| "leg_action_str LegClose = ''close''"

fun order_side_str :: "order_side \<Rightarrow> string" where
  "order_side_str Buy = ''buy''"
| "order_side_str Sell = ''sell''"

fun exposure_side_str :: "exposure_side \<Rightarrow> string" where
  "exposure_side_str ExpLong = ''long''"
| "exposure_side_str ExpShort = ''short''"
| "exposure_side_str ExpFlat = ''flat''"

fun order_type_str :: "order_type \<Rightarrow> string" where
  "order_type_str Market = ''market''"
| "order_type_str Limit = ''limit''"

fun leg_role_str :: "leg_role \<Rightarrow> string" where
  "leg_role_str Primary = ''primary''"
| "leg_role_str Hedge = ''hedge''"
| "leg_role_str Inventory = ''inventory''"
| "leg_role_str Accumulation = ''accumulation''"

section \<open>Unknown writes\<close>

datatype unknown_write = UnknownSubmit | UnknownCancel

definition UNKNOWN_SUBMIT_ERROR_PREFIX :: string where
  "UNKNOWN_SUBMIT_ERROR_PREFIX = ''submission_unknown_check_exchange''"

definition UNKNOWN_CANCEL_ERROR_PREFIX :: string where
  "UNKNOWN_CANCEL_ERROR_PREFIX = ''cancel_unknown_check_exchange''"

definition DEFAULT_UNKNOWN_SUBMIT_REVIEW_AFTER_SECONDS :: rat where
  "DEFAULT_UNKNOWN_SUBMIT_REVIEW_AFTER_SECONDS = 30"

definition DEFAULT_UNKNOWN_CANCEL_REVIEW_AFTER_SECONDS :: rat where
  "DEFAULT_UNKNOWN_CANCEL_REVIEW_AFTER_SECONDS = 300"

text \<open>The two settings the module reads, each \<^verbatim>\<open>None\<close> when it is not configured.\<close>

record truth_settings =
  ts_unknown_submit_review_after_seconds :: "rat option"
  ts_unknown_cancel_review_after_seconds :: "rat option"

definition normalized_error :: "string option \<Rightarrow> string" where
  "normalized_error err = norm_str (case err of None \<Rightarrow> [] | Some s \<Rightarrow> s)"

definition unknown_write_operation :: "order_state \<Rightarrow> unknown_write option" where
  "unknown_write_operation order =
     (let err = normalized_error (os_execution_error order)
      in if err = UNKNOWN_SUBMIT_ERROR_PREFIX \<or> py_startswith (UNKNOWN_SUBMIT_ERROR_PREFIX @ '':'') err
         then Some UnknownSubmit
         else if err = UNKNOWN_CANCEL_ERROR_PREFIX \<or> py_startswith (UNKNOWN_CANCEL_ERROR_PREFIX @ '':'') err
         then Some UnknownCancel
         else None)"

definition is_unknown_write_state :: "order_state \<Rightarrow> bool" where
  "is_unknown_write_state order \<longleftrightarrow> unknown_write_operation order \<noteq> None"

definition exchange_truth_pending :: "order_state \<Rightarrow> bool" where
  "exchange_truth_pending order \<longleftrightarrow> is_unknown_write_state order"

definition unknown_write_reference :: "unknown_write \<Rightarrow> order_state \<Rightarrow> datetime" where
  "unknown_write_reference operation order =
     (case (operation, os_cancellation_requested_ts order) of
        (UnknownCancel, Some t) \<Rightarrow> t
      | _ \<Rightarrow> (case os_last_update_ts order of
                Some t \<Rightarrow> t
              | None \<Rightarrow> (case os_submitted_ts order of Some t \<Rightarrow> t | None \<Rightarrow> os_created_at order)))"

definition unknown_write_age_seconds :: "order_state \<Rightarrow> datetime \<Rightarrow> rat" where
  "unknown_write_age_seconds order now =
     (case unknown_write_operation order of
        None \<Rightarrow> 0
      | Some operation \<Rightarrow>
          max (of_int (dt_instant now - dt_instant (unknown_write_reference operation order)) / 10 ^ 6) 0)"

definition unknown_write_review_after_seconds :: "order_state \<Rightarrow> truth_settings option \<Rightarrow> rat" where
  "unknown_write_review_after_seconds order settings =
     (case unknown_write_operation order of
        Some UnknownSubmit \<Rightarrow>
          max (case Option.bind settings ts_unknown_submit_review_after_seconds of
                 None \<Rightarrow> DEFAULT_UNKNOWN_SUBMIT_REVIEW_AFTER_SECONDS | Some c \<Rightarrow> c) 0
      | Some UnknownCancel \<Rightarrow>
          max (case Option.bind settings ts_unknown_cancel_review_after_seconds of
                 None \<Rightarrow> DEFAULT_UNKNOWN_CANCEL_REVIEW_AFTER_SECONDS | Some c \<Rightarrow> c) 0
      | None \<Rightarrow> 0)"

definition requires_unknown_write_review :: "order_state \<Rightarrow> datetime \<Rightarrow> truth_settings option \<Rightarrow> bool" where
  "requires_unknown_write_review order now settings =
     (if \<not> exchange_truth_pending order then False
      else let threshold = unknown_write_review_after_seconds order settings
           in if threshold \<le> 0 then True
              else threshold \<le> unknown_write_age_seconds order now)"

record unknown_write_state =
  uw_operation :: unknown_write
  uw_exchange_truth_pending :: bool
  uw_age_seconds :: rat
  uw_review_after_seconds :: rat
  uw_review_required :: bool

definition unknown_write_state_of :: "order_state \<Rightarrow> datetime \<Rightarrow> truth_settings option \<Rightarrow> unknown_write_state option" where
  "unknown_write_state_of order now settings =
     (case unknown_write_operation order of
        None \<Rightarrow> None
      | Some operation \<Rightarrow> Some
          \<lparr>uw_operation = operation,
           uw_exchange_truth_pending = True,
           uw_age_seconds = unknown_write_age_seconds order now,
           uw_review_after_seconds = unknown_write_review_after_seconds order settings,
           uw_review_required = requires_unknown_write_review order now settings\<rparr>)"

definition blocks_new_risk_actions :: "order_state \<Rightarrow> bool" where
  "blocks_new_risk_actions order \<longleftrightarrow> exchange_truth_pending order"

section \<open>Risk-reducing intents and orders\<close>

definition is_risk_reducing_fields ::
  "bool \<Rightarrow> bool \<Rightarrow> position_intent \<Rightarrow> leg_action option \<Rightarrow> execution_action option \<Rightarrow> bool" where
  "is_risk_reducing_fields reduce_only close_only position_intent leg_action explicit_execution_action =
     (let intent = Some (position_intent_str position_intent);
          normalized_actions =
            {execution_action_from_position_intent intent, execution_action_from_leg_action leg_action,
             explicit_execution_action}
      in reduce_only \<or> close_only
         \<or> reduce_only_from_leg_action leg_action \<or> close_only_from_leg_action leg_action
         \<or> reduce_only_from_position_intent intent \<or> close_only_from_position_intent intent
         \<or> {Some ActReduce, Some ActExit} \<inter> normalized_actions \<noteq> {})"

definition is_risk_reducing_order_intent :: "order_intent \<Rightarrow> bool" where
  "is_risk_reducing_order_intent intent =
     is_risk_reducing_fields (oi_reduce_only intent) (oi_close_only intent) (oi_position_intent intent)
       (oi_leg_action intent) (oi_execution_action intent)"

definition is_risk_reducing_order_state :: "order_state \<Rightarrow> bool" where
  "is_risk_reducing_order_state order =
     is_risk_reducing_fields (os_reduce_only order) (os_close_only order) (os_position_intent order)
       (os_leg_action order) (os_execution_action order)"

end
