(* ===== verification/Exit_Execution.thy ===== *)
theory Exit_Execution
  imports Execution_Repo Order_Truth
begin

text \<open>
  Exits that are executed in slices: the parent and child records of
  \<^verbatim>\<open>aats/schemas/exit_execution.py\<close>, the aggregation of the child orders into the parent of
  \<^verbatim>\<open>aats/services/execution_engine/exit_intent_aggregator.py\<close>, the writer with its sticky
  fields (\<^verbatim>\<open>exit_execution_writer.py\<close>) and the in-memory repository
  (\<^verbatim>\<open>aats/storage/exit_execution_repo.py\<close>). \<open>now\<close> is the reading of the clock of a call; the
  text of a timestamp (\<^verbatim>\<open>isoformat()\<close>) is the argument \<open>isoformat\<close>. The overlay on reconciliation
  reports is left out.
\<close>

section \<open>Records\<close>

datatype parent_status =
    PCREATED | DISPATCHING | WORKING | PPARTIALLY_FILLED | PCANCEL_PENDING | COMPLETED | PCANCELED
  | REVIEW_REQUIRED | FAILED_SAFE

datatype reconciliation_state = ReconClean | TruthPending | ReconReviewRequired

datatype exit_intent_kind = KindReduce | KindClose | KindFlatten

datatype child_category = PENDING_DISPATCH | CHILD_WORKING | TERMINAL_FILLED | TERMINAL_NONFILLED | UNKNOWN_TRUTH

datatype write_confirmation = Confirmed | UnknownWrite | NotRequired

record exit_execution_intent =
  ei_schema_version :: string
  ei_created_at :: datetime
  ei_parent_intent_id :: string
  ei_execution_chain_id :: string
  ei_strategy_run_id :: "string option"
  ei_symbol :: string
  ei_market :: "string option"
  ei_instrument_type :: "string option"
  ei_side :: order_side
  ei_position_side :: "position_side option"
  ei_intent_kind :: exit_intent_kind
  ei_target_exit_quantity :: decimal
  ei_target_exit_notional :: "decimal option"
  ei_aggregated_filled_quantity :: decimal
  ei_aggregated_canceled_quantity :: decimal
  ei_aggregated_rejected_quantity :: decimal
  ei_open_child_working_quantity :: decimal
  ei_open_child_unknown_quantity :: decimal
  ei_remaining_dispatchable_quantity :: decimal
  ei_remaining_unresolved_quantity :: decimal
  ei_aggregate_status :: parent_status
  ei_reconciliation_state :: reconciliation_state
  ei_risk_reducing_invariant :: bool
  ei_dispatch_policy :: string
  ei_aggregate_version :: int
  ei_child_order_ids :: "string list"
  ei_cancel_requested :: bool
  ei_cancel_requested_ts :: "datetime option"
  ei_updated_at :: datetime
  ei_completed_at :: "datetime option"
  ei_operator_review_required :: bool
  ei_operator_review_reason :: "string option"
  ei_metadata :: "(string \<times> pyval) list"

record child_exit_order_ref =
  cr_schema_version :: string
  cr_created_at :: datetime
  cr_parent_intent_id :: string
  cr_child_order_id :: string
  cr_client_order_id :: string
  cr_exchange_order_id :: "string option"
  cr_execution_chain_id :: "string option"
  cr_intent_id :: "string option"
  cr_symbol :: string
  cr_planned_quantity :: decimal
  cr_known_filled_quantity :: decimal
  cr_remaining_quantity_estimate :: decimal
  cr_child_status :: order_status
  cr_aggregate_category :: child_category
  cr_write_confirmation_state :: write_confirmation
  cr_exchange_truth_pending :: bool
  cr_operator_review_required :: bool
  cr_risk_reducing_invariant :: bool
  cr_updated_at :: datetime

definition TERMINAL_PARENT_STATUSES :: "parent_status list" where
  "TERMINAL_PARENT_STATUSES = [COMPLETED, PCANCELED, FAILED_SAFE]"

definition MISSING_CHILD_REFS_RESUME_ISSUE_KIND :: string where
  "MISSING_CHILD_REFS_RESUME_ISSUE_KIND = ''missing_child_refs_for_parent''"

section \<open>Creating a parent\<close>

definition chain_or_intent :: "string option \<Rightarrow> string \<Rightarrow> string" where
  "chain_or_intent chain_id intent_id = (if str_truthy chain_id then the chain_id else intent_id)"

definition parent_exit_intent_id_from_order_intent :: "order_intent \<Rightarrow> string" where
  "parent_exit_intent_id_from_order_intent intent =
     ''exit_parent:'' @ py_strip (chain_or_intent (oi_execution_chain_id intent) (oi_intent_id intent))"

definition parent_exit_intent_id_from_order_state :: "order_state \<Rightarrow> string" where
  "parent_exit_intent_id_from_order_state order =
     ''exit_parent:'' @ py_strip (chain_or_intent (os_execution_chain_id order) (os_intent_id order))"

definition exit_position_side ::
  "position_side option \<Rightarrow> position_intent \<Rightarrow> exposure_side \<Rightarrow> position_side option" where
  "exit_position_side pos_side position_intent exposure =
     (case pos_side of
        Some side \<Rightarrow> Some side
      | None \<Rightarrow>
          (case pos_side_from_position_intent (Some (position_intent_str position_intent)) (Some LongShortMode) of
             Some side \<Rightarrow> Some side
           | None \<Rightarrow> (case exposure of ExpLong \<Rightarrow> Some PosLong | ExpShort \<Rightarrow> Some PosShort | ExpFlat \<Rightarrow> None)))"

definition exit_intent_kind_of :: "position_intent \<Rightarrow> execution_action option \<Rightarrow> bool \<Rightarrow> exit_intent_kind" where
  "exit_intent_kind_of position_intent action close_only =
     (if py_startswith ''close_'' (norm_str (position_intent_str position_intent)) \<or> close_only then KindClose
      else if action = Some ActExit then KindFlatten
      else KindReduce)"

definition exit_side :: "position_intent \<Rightarrow> position_side option \<Rightarrow> order_side" where
  "exit_side position_intent position_side =
     (let normalized = norm_str (position_intent_str position_intent)
      in if py_endswith ''long'' normalized then Sell
         else if py_endswith ''short'' normalized then Buy
         else if position_side = Some PosLong then Sell else Buy)"

definition parent_metadata ::
  "string \<Rightarrow> position_intent \<Rightarrow> execution_action option \<Rightarrow> leg_action option \<Rightarrow> (string \<times> pyval) list" where
  "parent_metadata source_intent_id position_intent action leg_action =
     [(''source_intent_id'', PyStr source_intent_id),
      (''position_intent'', PyStr (position_intent_str position_intent)),
      (''execution_action'', opt_str (map_option execution_action_str action)),
      (''leg_action'', opt_str (map_option leg_action_str leg_action))]"

definition new_exit_execution_intent ::
  "datetime \<Rightarrow> string \<Rightarrow> string \<Rightarrow> string \<Rightarrow> order_side \<Rightarrow> exit_intent_kind \<Rightarrow> decimal \<Rightarrow> exit_execution_intent" where
  "new_exit_execution_intent now parent_intent_id execution_chain_id symbol side intent_kind target =
     \<lparr>ei_schema_version = ''1.0.0'', ei_created_at = now, ei_parent_intent_id = parent_intent_id,
      ei_execution_chain_id = execution_chain_id, ei_strategy_run_id = None, ei_symbol = symbol, ei_market = None,
      ei_instrument_type = None, ei_side = side, ei_position_side = None, ei_intent_kind = intent_kind,
      ei_target_exit_quantity = target, ei_target_exit_notional = None, ei_aggregated_filled_quantity = 0,
      ei_aggregated_canceled_quantity = 0, ei_aggregated_rejected_quantity = 0, ei_open_child_working_quantity = 0,
      ei_open_child_unknown_quantity = 0, ei_remaining_dispatchable_quantity = 0,
      ei_remaining_unresolved_quantity = 0, ei_aggregate_status = PCREATED, ei_reconciliation_state = ReconClean,
      ei_risk_reducing_invariant = True, ei_dispatch_policy = ''serial_exit_only'', ei_aggregate_version = 0,
      ei_child_order_ids = [], ei_cancel_requested = False, ei_cancel_requested_ts = None, ei_updated_at = now,
      ei_completed_at = None, ei_operator_review_required = False, ei_operator_review_reason = None,
      ei_metadata = []\<rparr>"

text \<open>The \<^verbatim>\<open>ValueError\<close>s of the two constructors and the \<^verbatim>\<open>KeyError\<close> of the writer.\<close>

datatype exit_error = RequiresRiskReducingIntent | RequiresRiskReducingOrderState | ExitIntentNotFound string

definition create_exit_execution_intent_from_order_intent ::
  "datetime \<Rightarrow> order_intent \<Rightarrow> exit_error + exit_execution_intent" where
  "create_exit_execution_intent_from_order_intent now intent =
     (if \<not> is_risk_reducing_order_intent intent then Inl RequiresRiskReducingIntent
      else
        let target = max (oi_quantity intent) 0
        in Inr ((new_exit_execution_intent now (parent_exit_intent_id_from_order_intent intent)
             (chain_or_intent (oi_execution_chain_id intent) (oi_intent_id intent)) (oi_symbol intent) (oi_side intent)
             (exit_intent_kind_of (oi_position_intent intent) (oi_execution_action intent) (oi_close_only intent)) target)
           \<lparr>ei_market := oi_instrument_family intent,
            ei_instrument_type := Some (product_type_str (oi_product_type intent)),
            ei_position_side := exit_position_side (oi_pos_side intent) (oi_position_intent intent) (oi_exposure_side intent),
            ei_target_exit_notional := oi_projected_notional intent,
            ei_remaining_dispatchable_quantity := target,
            ei_remaining_unresolved_quantity := target,
            ei_metadata := parent_metadata (oi_intent_id intent) (oi_position_intent intent)
              (oi_execution_action intent) (oi_leg_action intent)\<rparr>))"

definition create_exit_execution_intent_from_order_state ::
  "datetime \<Rightarrow> order_state \<Rightarrow> exit_error + exit_execution_intent" where
  "create_exit_execution_intent_from_order_state now order =
     (if \<not> is_risk_reducing_order_state order then Inl RequiresRiskReducingOrderState
      else
        let target = max (os_requested_qty order) 0;
            position_side = exit_position_side (os_pos_side order) (os_position_intent order) (os_exposure_side order)
        in Inr ((new_exit_execution_intent now (parent_exit_intent_id_from_order_state order)
             (chain_or_intent (os_execution_chain_id order) (os_intent_id order)) (os_symbol order)
             (exit_side (os_position_intent order) position_side)
             (exit_intent_kind_of (os_position_intent order) (os_execution_action order) (os_close_only order)) target)
           \<lparr>ei_market := os_instrument_family order,
            ei_instrument_type := Some (product_type_str (os_product_type order)),
            ei_position_side := position_side,
            ei_remaining_dispatchable_quantity := target,
            ei_remaining_unresolved_quantity := target,
            ei_metadata := parent_metadata (os_intent_id order) (os_position_intent order)
              (os_execution_action order) (os_leg_action order)\<rparr>))"

section \<open>Child references\<close>

definition map_child_order_state_to_aggregate_category :: "order_state \<Rightarrow> child_category" where
  "map_child_order_state_to_aggregate_category order =
     (if is_unknown_write_state order then UNKNOWN_TRUTH
      else if os_status order \<in> {CREATED, SUBMITTING} then PENDING_DISPATCH
      else if os_status order \<in> {SUBMITTED, PARTIALLY_FILLED, CANCEL_PENDING} then CHILD_WORKING
      else if EPSILON_DECIMAL_12 < os_filled_qty order
              \<and> os_status order \<in> {FILLED, CANCELED, REJECTED, FAILED, EXPIRED} then TERMINAL_FILLED
      else TERMINAL_NONFILLED)"

definition remaining_quantity_estimate :: "order_state \<Rightarrow> decimal" where
  "remaining_quantity_estimate order =
     (let planned_remaining = max (dsub (os_requested_qty order) (os_filled_qty order)) 0
      in if EPSILON_DECIMAL_12 < os_remaining_qty order then max (os_remaining_qty order) planned_remaining
         else planned_remaining)"

definition child_exit_order_ref_from_order_state ::
  "datetime \<Rightarrow> truth_settings option \<Rightarrow> string \<Rightarrow> order_state \<Rightarrow> child_exit_order_ref" where
  "child_exit_order_ref_from_order_state now settings parent_intent_id order =
     (let unresolved = unknown_write_state_of order now settings
      in \<lparr>cr_schema_version = ''1.0.0'', cr_created_at = now, cr_parent_intent_id = parent_intent_id,
          cr_child_order_id = os_client_order_id order, cr_client_order_id = os_client_order_id order,
          cr_exchange_order_id = os_exchange_order_id order, cr_execution_chain_id = os_execution_chain_id order,
          cr_intent_id = Some (os_intent_id order), cr_symbol = os_symbol order,
          cr_planned_quantity = os_requested_qty order, cr_known_filled_quantity = os_filled_qty order,
          cr_remaining_quantity_estimate = remaining_quantity_estimate order, cr_child_status = os_status order,
          cr_aggregate_category = map_child_order_state_to_aggregate_category order,
          cr_write_confirmation_state = (if unresolved \<noteq> None then UnknownWrite else Confirmed),
          cr_exchange_truth_pending = (unresolved \<noteq> None),
          cr_operator_review_required = requires_unknown_write_review order now settings,
          cr_risk_reducing_invariant = is_risk_reducing_order_state order,
          cr_updated_at = (case os_last_update_ts order of Some t \<Rightarrow> t | None \<Rightarrow> now)\<rparr>)"

section \<open>Recomputing the parent\<close>

definition any_child :: "child_category \<Rightarrow> child_exit_order_ref list \<Rightarrow> bool" where
  "any_child category child_refs \<longleftrightarrow> list_ex (\<lambda>ref. cr_aggregate_category ref = category) child_refs"

definition derive_parent_status ::
  "exit_execution_intent \<Rightarrow> child_exit_order_ref list \<Rightarrow> decimal \<Rightarrow> bool \<Rightarrow> parent_status" where
  "derive_parent_status parent_intent child_refs aggregated_filled_quantity operator_review_required =
     (let has_unknown = any_child UNKNOWN_TRUTH child_refs;
          has_pending_dispatch = any_child PENDING_DISPATCH child_refs;
          has_working = any_child CHILD_WORKING child_refs;
          partial = (\<lambda>otherwise. if EPSILON_DECIMAL_12 < aggregated_filled_quantity then PPARTIALLY_FILLED else otherwise)
      in if child_refs = [] then PCREATED
         else if operator_review_required then REVIEW_REQUIRED
         else if ei_cancel_requested parent_intent
         then (if has_unknown \<or> has_pending_dispatch \<or> has_working then PCANCEL_PENDING
               else if ei_target_exit_quantity parent_intent \<le> aggregated_filled_quantity then COMPLETED
               else PCANCELED)
         else if has_unknown then partial WORKING
         else if has_pending_dispatch \<and> \<not> has_working then partial DISPATCHING
         else if has_working then partial WORKING
         else if ei_target_exit_quantity parent_intent \<le> aggregated_filled_quantity then COMPLETED
         else partial FAILED_SAFE)"

definition sum_children ::
  "(child_exit_order_ref \<Rightarrow> bool) \<Rightarrow> (child_exit_order_ref \<Rightarrow> decimal) \<Rightarrow> child_exit_order_ref list \<Rightarrow> decimal" where
  "sum_children P quantity child_refs = dsum (map quantity (filter P child_refs))"

definition unfilled_quantity :: "child_exit_order_ref \<Rightarrow> decimal" where
  "unfilled_quantity ref = max (dsub (cr_planned_quantity ref) (cr_known_filled_quantity ref)) 0"

definition recompute_exit_execution_intent ::
  "datetime \<Rightarrow> exit_execution_intent \<Rightarrow> child_exit_order_ref list \<Rightarrow> exit_execution_intent" where
  "recompute_exit_execution_intent now parent_intent child_refs =
     (let aggregated_filled_quantity = sum_children (\<lambda>_. True) cr_known_filled_quantity child_refs;
          aggregated_canceled_quantity = sum_children (\<lambda>ref. cr_aggregate_category ref = TERMINAL_NONFILLED
            \<and> cr_child_status ref = CANCELED) unfilled_quantity child_refs;
          aggregated_rejected_quantity = sum_children (\<lambda>ref. cr_aggregate_category ref = TERMINAL_NONFILLED
            \<and> cr_child_status ref \<noteq> CANCELED) unfilled_quantity child_refs;
          open_child_working_quantity = sum_children
            (\<lambda>ref. cr_aggregate_category ref \<in> {PENDING_DISPATCH, CHILD_WORKING}) cr_remaining_quantity_estimate child_refs;
          open_child_unknown_quantity = sum_children
            (\<lambda>ref. cr_aggregate_category ref = UNKNOWN_TRUTH) cr_remaining_quantity_estimate child_refs;
          remaining_unresolved_quantity =
            max (dsub (ei_target_exit_quantity parent_intent) aggregated_filled_quantity) 0;
          remaining_dispatchable_quantity =
            max (dsub (dsub (dsub (ei_target_exit_quantity parent_intent) aggregated_filled_quantity)
              open_child_working_quantity) open_child_unknown_quantity) 0;
          risk_reducing_invariant = list_all cr_risk_reducing_invariant child_refs;
          operator_review_required =
            (list_ex cr_operator_review_required child_refs \<or> \<not> risk_reducing_invariant);
          operator_review_reason =
            (if \<not> risk_reducing_invariant then Some ''child_risk_reducing_invariant_breached''
             else if operator_review_required then Some ''child_unknown_truth_requires_review'' else None);
          reconciliation_state =
            (if operator_review_required then ReconReviewRequired
             else if list_ex cr_exchange_truth_pending child_refs then TruthPending else ReconClean);
          aggregate_status =
            derive_parent_status parent_intent child_refs aggregated_filled_quantity operator_review_required;
          terminal_status = (aggregate_status \<in> set TERMINAL_PARENT_STATUSES);
          completed_at =
            (if terminal_status \<and> ei_completed_at parent_intent \<noteq> None then ei_completed_at parent_intent
             else if terminal_status then Some now else None)
      in parent_intent
         \<lparr>ei_aggregated_filled_quantity := aggregated_filled_quantity,
          ei_aggregated_canceled_quantity := aggregated_canceled_quantity,
          ei_aggregated_rejected_quantity := aggregated_rejected_quantity,
          ei_open_child_working_quantity := open_child_working_quantity,
          ei_open_child_unknown_quantity := open_child_unknown_quantity,
          ei_remaining_dispatchable_quantity := remaining_dispatchable_quantity,
          ei_remaining_unresolved_quantity := remaining_unresolved_quantity,
          ei_aggregate_status := aggregate_status,
          ei_reconciliation_state := reconciliation_state,
          ei_risk_reducing_invariant := risk_reducing_invariant,
          ei_aggregate_version := ei_aggregate_version parent_intent + 1,
          ei_child_order_ids := map cr_client_order_id child_refs,
          ei_operator_review_required := operator_review_required,
          ei_operator_review_reason := operator_review_reason,
          ei_updated_at := now,
          ei_completed_at := completed_at\<rparr>)"

definition request_cancel_exit_execution_intent ::
  "datetime \<Rightarrow> exit_execution_intent \<Rightarrow> exit_execution_intent" where
  "request_cancel_exit_execution_intent now parent_intent = parent_intent
     \<lparr>ei_cancel_requested := True,
      ei_cancel_requested_ts := (case ei_cancel_requested_ts parent_intent of Some t \<Rightarrow> Some t | None \<Rightarrow> Some now),
      ei_updated_at := now\<rparr>"

section \<open>Resuming a parent\<close>

definition metadata_dict :: "exit_execution_intent \<Rightarrow> string \<Rightarrow> (string \<times> pyval) list option" where
  "metadata_dict parent key = (case map_of (ei_metadata parent) key of Some (PyDict d) \<Rightarrow> Some d | _ \<Rightarrow> None)"

definition dispatch_template_from_parent :: "exit_execution_intent \<Rightarrow> (string \<times> pyval) list option" where
  "dispatch_template_from_parent parent = metadata_dict parent ''dispatch_template''"

definition has_dispatch_template :: "exit_execution_intent \<Rightarrow> bool" where
  "has_dispatch_template parent \<longleftrightarrow> dispatch_template_from_parent parent \<noteq> None"

definition resume_issue :: "exit_execution_intent \<Rightarrow> (string \<times> pyval) list option" where
  "resume_issue parent = metadata_dict parent ''resume_issue''"

text \<open>\<^verbatim>\<open>str(issue.get(key) or "").strip()\<close>; the values under these keys are strings.\<close>

definition issue_text :: "(string \<times> pyval) list \<Rightarrow> string \<Rightarrow> string" where
  "issue_text issue key = (case map_of issue key of Some (PyStr s) \<Rightarrow> py_strip s | _ \<Rightarrow> [])"

definition resume_issue_kind :: "exit_execution_intent \<Rightarrow> string option" where
  "resume_issue_kind parent =
     (case resume_issue parent of
        None \<Rightarrow> None
      | Some issue \<Rightarrow> if issue_text issue ''kind'' = [] then None else Some (issue_text issue ''kind''))"

definition record_resume_issue ::
  "datetime \<Rightarrow> (datetime \<Rightarrow> string) \<Rightarrow> exit_execution_intent \<Rightarrow> string \<Rightarrow> string option \<Rightarrow> exit_execution_intent" where
  "record_resume_issue now isoformat parent kind err =
     (let prior_kind = resume_issue_kind parent;
          issue = [(''kind'', PyStr kind), (''updated_at'', PyStr (isoformat now)), (''operator_review_required'', PyBool True)]
            @ (if str_truthy err then [(''error'', PyStr (the err))] else [])
            @ (case prior_kind of Some k \<Rightarrow> if k \<noteq> kind then [(''prior_kind'', PyStr k)] else [] | None \<Rightarrow> [])
      in parent\<lparr>ei_metadata := AList.update ''resume_issue'' (PyDict issue) (ei_metadata parent), ei_updated_at := now\<rparr>)"

definition clear_resume_issue ::
  "datetime \<Rightarrow> exit_execution_intent \<Rightarrow> string option \<Rightarrow> exit_execution_intent" where
  "clear_resume_issue now parent kind =
     (if map_of (ei_metadata parent) ''resume_issue'' = None then parent
      else if kind \<noteq> None \<and> resume_issue_kind parent \<noteq> kind then parent
      else parent\<lparr>ei_metadata := AList.delete ''resume_issue'' (ei_metadata parent), ei_updated_at := now\<rparr>)"

definition resume_block_reason :: "exit_execution_intent \<Rightarrow> string option" where
  "resume_block_reason parent =
     (if ei_aggregate_status parent \<in> set TERMINAL_PARENT_STATUSES then Some ''parent_terminal''
      else if ei_cancel_requested parent \<or> ei_aggregate_status parent = PCANCEL_PENDING then Some ''cancel_requested''
      else if ei_operator_review_required parent \<or> ei_aggregate_status parent = REVIEW_REQUIRED
      then Some ''review_required''
      else if resume_issue_kind parent = Some MISSING_CHILD_REFS_RESUME_ISSUE_KIND
      then Some MISSING_CHILD_REFS_RESUME_ISSUE_KIND
      else if EPSILON_DECIMAL_12 < ei_open_child_unknown_quantity parent then Some ''unknown_child_truth_pending''
      else if EPSILON_DECIMAL_12 < ei_open_child_working_quantity parent then Some ''working_child_outstanding''
      else if ei_remaining_dispatchable_quantity parent \<le> EPSILON_DECIMAL_12
      then Some ''no_remaining_dispatchable_quantity''
      else if \<not> has_dispatch_template parent then Some ''dispatch_template_missing''
      else None)"

definition resume_ready :: "exit_execution_intent \<Rightarrow> bool" where
  "resume_ready parent \<longleftrightarrow> resume_block_reason parent = None"

definition mark_parent_missing_child_refs ::
  "datetime \<Rightarrow> (datetime \<Rightarrow> string) \<Rightarrow> exit_execution_intent \<Rightarrow> exit_execution_intent" where
  "mark_parent_missing_child_refs now isoformat parent =
     (if resume_issue_kind parent = Some MISSING_CHILD_REFS_RESUME_ISSUE_KIND then parent
      else record_resume_issue now isoformat parent MISSING_CHILD_REFS_RESUME_ISSUE_KIND
        (Some ''child_refs_not_reconstructable''))"

section \<open>The repository\<close>

record exit_repo =
  xr_parents_by_id :: "(string \<times> exit_execution_intent) list"
  xr_parent_ids_by_chain :: "(string \<times> string) list"
  xr_child_refs_by_parent :: "(string \<times> (string \<times> child_exit_order_ref) list) list"
  xr_parent_ids_by_child :: "(string \<times> string) list"

definition save_exit_execution_intent :: "exit_repo \<Rightarrow> exit_execution_intent \<Rightarrow> exit_repo" where
  "save_exit_execution_intent repo intent = repo
     \<lparr>xr_parents_by_id := AList.update (ei_parent_intent_id intent) intent (xr_parents_by_id repo),
      xr_parent_ids_by_chain :=
        AList.update (ei_execution_chain_id intent) (ei_parent_intent_id intent) (xr_parent_ids_by_chain repo),
      xr_child_refs_by_parent :=
        (if map_of (xr_child_refs_by_parent repo) (ei_parent_intent_id intent) = None
         then AList.update (ei_parent_intent_id intent) [] (xr_child_refs_by_parent repo)
         else xr_child_refs_by_parent repo)\<rparr>"

definition get_exit_execution_intent :: "exit_repo \<Rightarrow> string \<Rightarrow> exit_execution_intent option" where
  "get_exit_execution_intent repo parent_intent_id = map_of (xr_parents_by_id repo) parent_intent_id"

definition get_exit_execution_intent_by_execution_chain :: "exit_repo \<Rightarrow> string \<Rightarrow> exit_execution_intent option" where
  "get_exit_execution_intent_by_execution_chain repo chain_id =
     Option.bind (map_of (xr_parent_ids_by_chain repo) chain_id) (map_of (xr_parents_by_id repo))"

definition list_exit_execution_intents :: "exit_repo \<Rightarrow> exit_execution_intent list" where
  "list_exit_execution_intents repo = map snd (xr_parents_by_id repo)"

definition save_child_exit_order_ref :: "exit_repo \<Rightarrow> child_exit_order_ref \<Rightarrow> exit_repo" where
  "save_child_exit_order_ref repo child_ref = repo
     \<lparr>xr_child_refs_by_parent := AList.update (cr_parent_intent_id child_ref)
        (AList.update (cr_client_order_id child_ref) child_ref
          (dict_get (xr_child_refs_by_parent repo) (cr_parent_intent_id child_ref) [])) (xr_child_refs_by_parent repo),
      xr_parent_ids_by_child :=
        AList.update (cr_client_order_id child_ref) (cr_parent_intent_id child_ref) (xr_parent_ids_by_child repo)\<rparr>"

definition child_refs_for_parent :: "exit_repo \<Rightarrow> string \<Rightarrow> child_exit_order_ref list" where
  "child_refs_for_parent repo parent_intent_id = map snd (dict_get (xr_child_refs_by_parent repo) parent_intent_id [])"

definition parent_intent_id_for_child :: "exit_repo \<Rightarrow> string \<Rightarrow> string option" where
  "parent_intent_id_for_child repo client_order_id = map_of (xr_parent_ids_by_child repo) client_order_id"

section \<open>The writer\<close>

text \<open>Equality of dicts does not see the order of the keys.\<close>

definition dict_eq :: "(string \<times> pyval) list \<Rightarrow> (string \<times> pyval) list \<Rightarrow> bool" where
  "dict_eq a b \<longleftrightarrow> list_all (\<lambda>k. map_of a k = map_of b k) (map fst a @ map fst b)"

definition issue_differs :: "(string \<times> pyval) list option \<Rightarrow> (string \<times> pyval) list \<Rightarrow> bool" where
  "issue_differs incoming current = (case incoming of None \<Rightarrow> True | Some i \<Rightarrow> \<not> dict_eq i current)"

definition is_terminal_parent :: "parent_status \<Rightarrow> bool" where
  "is_terminal_parent s \<longleftrightarrow> s \<in> set TERMINAL_PARENT_STATUSES"

definition under_review :: "exit_execution_intent \<Rightarrow> exit_execution_intent \<Rightarrow> exit_execution_intent \<Rightarrow> exit_execution_intent" where
  "under_review current incoming r =
     (if \<not> is_terminal_parent (ei_aggregate_status current) \<and> \<not> is_terminal_parent (ei_aggregate_status incoming)
      then r\<lparr>ei_aggregate_status := REVIEW_REQUIRED, ei_reconciliation_state := ReconReviewRequired\<rparr> else r)"

definition sticky_cancel :: "exit_execution_intent \<Rightarrow> exit_execution_intent \<Rightarrow> exit_execution_intent" where
  "sticky_cancel current incoming =
     (if ei_cancel_requested current \<and> \<not> ei_cancel_requested incoming
      then let r = incoming\<lparr>ei_cancel_requested := True, ei_cancel_requested_ts := ei_cancel_requested_ts current\<rparr>
           in if is_terminal_parent (ei_aggregate_status incoming) then r
              else r\<lparr>ei_aggregate_status := PCANCEL_PENDING\<rparr>
      else incoming)"

definition sticky_terminal ::
  "bool \<Rightarrow> exit_execution_intent \<Rightarrow> exit_execution_intent \<Rightarrow> exit_execution_intent \<Rightarrow> exit_execution_intent" where
  "sticky_terminal stale_incoming current incoming r =
     (if is_terminal_parent (ei_aggregate_status current)
         \<and> (stale_incoming \<or> ei_aggregate_status incoming \<noteq> ei_aggregate_status current)
      then r
        \<lparr>ei_aggregated_filled_quantity := ei_aggregated_filled_quantity current,
         ei_aggregated_canceled_quantity := ei_aggregated_canceled_quantity current,
         ei_aggregated_rejected_quantity := ei_aggregated_rejected_quantity current,
         ei_open_child_working_quantity := ei_open_child_working_quantity current,
         ei_open_child_unknown_quantity := ei_open_child_unknown_quantity current,
         ei_remaining_dispatchable_quantity := ei_remaining_dispatchable_quantity current,
         ei_remaining_unresolved_quantity := ei_remaining_unresolved_quantity current,
         ei_aggregate_status := ei_aggregate_status current,
         ei_reconciliation_state := ei_reconciliation_state current,
         ei_risk_reducing_invariant := ei_risk_reducing_invariant current,
         ei_child_order_ids := ei_child_order_ids current,
         ei_completed_at := ei_completed_at current,
         ei_operator_review_required := ei_operator_review_required current,
         ei_operator_review_reason := ei_operator_review_reason current,
         ei_metadata := ei_metadata current\<rparr>
      else r)"

definition sticky_review :: "exit_execution_intent \<Rightarrow> exit_execution_intent \<Rightarrow> exit_execution_intent \<Rightarrow> exit_execution_intent" where
  "sticky_review current incoming r =
     (let r = (if ei_aggregate_status current = REVIEW_REQUIRED
                  \<and> ei_aggregate_status incoming \<noteq> ei_aggregate_status current
                  \<and> \<not> is_terminal_parent (ei_aggregate_status incoming)
               then r\<lparr>ei_aggregate_status := REVIEW_REQUIRED, ei_reconciliation_state := ReconReviewRequired\<rparr> else r)
      in if ei_operator_review_required current \<and> \<not> ei_operator_review_required incoming
         then under_review current incoming
           (r\<lparr>ei_operator_review_required := True, ei_operator_review_reason := ei_operator_review_reason current\<rparr>)
         else r)"

definition sticky_resume_issue ::
  "exit_execution_intent \<Rightarrow> exit_execution_intent \<Rightarrow> exit_execution_intent \<Rightarrow> exit_execution_intent" where
  "sticky_resume_issue current incoming r =
     (case resume_issue current of
        None \<Rightarrow> r
      | Some current_issue \<Rightarrow>
          let incoming_replaces_current_issue = (case resume_issue incoming of
                None \<Rightarrow> False
              | Some incoming_issue \<Rightarrow> issue_text incoming_issue ''prior_kind'' = issue_text current_issue ''kind'')
          in if issue_differs (resume_issue incoming) current_issue \<and> \<not> incoming_replaces_current_issue
             then under_review current incoming
               (r\<lparr>ei_metadata := AList.update ''resume_issue'' (PyDict current_issue) (ei_metadata r),
                  ei_operator_review_required := True,
                  ei_operator_review_reason :=
                    (if str_truthy (ei_operator_review_reason current)
                        \<and> \<not> str_truthy (ei_operator_review_reason incoming)
                     then ei_operator_review_reason current else ei_operator_review_reason r)\<rparr>)
             else r)"

definition merge_sticky_parent_fields ::
  "exit_execution_intent option \<Rightarrow> exit_execution_intent \<Rightarrow> exit_execution_intent" where
  "merge_sticky_parent_fields current_opt incoming =
     (case current_opt of
        None \<Rightarrow> incoming
      | Some current \<Rightarrow>
          let stale_incoming = (ei_aggregate_version incoming \<le> ei_aggregate_version current);
              r = sticky_terminal stale_incoming current incoming (sticky_cancel current incoming)
          in if stale_incoming
             then (sticky_resume_issue current incoming (sticky_review current incoming r))
                    \<lparr>ei_aggregate_version := ei_aggregate_version current + 1\<rparr>
             else r)"

definition writer_save_exit_execution_intent ::
  "exit_repo \<Rightarrow> exit_execution_intent \<Rightarrow> exit_repo \<times> exit_execution_intent" where
  "writer_save_exit_execution_intent repo intent =
     (let merged = merge_sticky_parent_fields (get_exit_execution_intent repo (ei_parent_intent_id intent)) intent
      in (save_exit_execution_intent repo merged, merged))"

definition recompute_parent ::
  "datetime \<Rightarrow> (exit_execution_intent \<Rightarrow> exit_execution_intent) \<Rightarrow> exit_repo \<Rightarrow> string
   \<Rightarrow> exit_error + (exit_repo \<times> exit_execution_intent)" where
  "recompute_parent now transform_parent repo parent_intent_id =
     (case get_exit_execution_intent repo parent_intent_id of
        None \<Rightarrow> Inl (ExitIntentNotFound parent_intent_id)
      | Some current \<Rightarrow>
          let child_refs = child_refs_for_parent repo parent_intent_id;
              recomputed = recompute_exit_execution_intent now (transform_parent current) child_refs;
              saved = merge_sticky_parent_fields (Some current) recomputed
          in Inr (save_exit_execution_intent repo saved, saved))"

definition save_child_refs_and_recompute_parent ::
  "datetime \<Rightarrow> (exit_execution_intent \<Rightarrow> exit_execution_intent) \<Rightarrow> exit_repo \<Rightarrow> exit_execution_intent
   \<Rightarrow> child_exit_order_ref list \<Rightarrow> exit_repo \<times> exit_execution_intent" where
  "save_child_refs_and_recompute_parent now transform_parent repo parent_intent child_refs =
     (let (repo1, parent_base) = (case get_exit_execution_intent repo (ei_parent_intent_id parent_intent) of
            Some existing \<Rightarrow> (repo, existing)
          | None \<Rightarrow> (save_exit_execution_intent repo parent_intent, parent_intent));
          repo2 = foldl save_child_exit_order_ref repo1 child_refs;
          persisted = child_refs_for_parent repo2 (ei_parent_intent_id parent_base);
          saved = merge_sticky_parent_fields (Some parent_base)
            (recompute_exit_execution_intent now (transform_parent parent_base) persisted)
      in (save_exit_execution_intent repo2 saved, saved))"

text \<open>\<^verbatim>\<open>save_child_ref_and_recompute_parent\<close>: one child, the parent as it is stored.\<close>

definition save_child_ref_and_recompute_parent ::
  "datetime \<Rightarrow> exit_repo \<Rightarrow> exit_execution_intent \<Rightarrow> child_exit_order_ref \<Rightarrow> exit_repo \<times> exit_execution_intent" where
  "save_child_ref_and_recompute_parent now repo parent_intent child_ref =
     (let (repo1, parent_base) = (case get_exit_execution_intent repo (ei_parent_intent_id parent_intent) of
            Some existing \<Rightarrow> (repo, existing)
          | None \<Rightarrow> (save_exit_execution_intent repo parent_intent, parent_intent));
          repo2 = save_child_exit_order_ref repo1 child_ref;
          child_refs = child_refs_for_parent repo2 (ei_parent_intent_id parent_base);
          saved = merge_sticky_parent_fields (Some parent_base)
            (recompute_exit_execution_intent now parent_base child_refs)
      in (save_exit_execution_intent repo2 saved, saved))"

section \<open>Refreshing every parent\<close>

definition refreshed_child_refs_for_parent ::
  "datetime \<Rightarrow> truth_settings option \<Rightarrow> order_state list \<Rightarrow> exit_repo \<Rightarrow> exit_execution_intent
   \<Rightarrow> child_exit_order_ref list" where
  "refreshed_child_refs_for_parent now settings states repo parent =
     (let ref_of = child_exit_order_ref_from_order_state now settings (ei_parent_intent_id parent);
          by_client = filter (\<lambda>state. py_strip (os_client_order_id state) \<noteq> []) states;
          existing = foldl (\<lambda>acc ref.
              (case find (\<lambda>state. os_client_order_id state = cr_client_order_id ref) by_client of
                 None \<Rightarrow> AList.update (cr_client_order_id ref) ref acc
               | Some state \<Rightarrow> AList.update (os_client_order_id state) (ref_of state) acc))
            [] (child_refs_for_parent repo (ei_parent_intent_id parent));
          of_chain = filter (\<lambda>state. py_strip ((\<lambda>v. case v of None \<Rightarrow> [] | Some s \<Rightarrow> s) (os_execution_chain_id state)) \<noteq> []
              \<and> py_strip ((\<lambda>v. case v of None \<Rightarrow> [] | Some s \<Rightarrow> s) (os_execution_chain_id state)) = ei_execution_chain_id parent) states
      in map snd (foldl (\<lambda>acc state.
           if \<not> is_risk_reducing_order_state state then acc
           else if map_of acc (os_client_order_id state) \<noteq> None then acc
           else AList.update (os_client_order_id state) (ref_of state) acc) existing of_chain))"

definition refresh_one ::
  "datetime \<Rightarrow> (datetime \<Rightarrow> string) \<Rightarrow> truth_settings option \<Rightarrow> order_state list \<Rightarrow> exit_repo \<Rightarrow> exit_execution_intent
   \<Rightarrow> exit_repo \<times> exit_execution_intent" where
  "refresh_one now isoformat settings states repo parent =
     (let child_refs = refreshed_child_refs_for_parent now settings states repo parent
      in if child_refs = []
         then writer_save_exit_execution_intent repo (mark_parent_missing_child_refs now isoformat parent)
         else save_child_refs_and_recompute_parent now
                (\<lambda>p. clear_resume_issue now p (Some MISSING_CHILD_REFS_RESUME_ISSUE_KIND)) repo parent child_refs)"

definition refresh_exit_execution_intents ::
  "datetime \<Rightarrow> (datetime \<Rightarrow> string) \<Rightarrow> truth_settings option \<Rightarrow> exec_repo \<Rightarrow> exit_repo \<Rightarrow> runtime_state_scope option
   \<Rightarrow> exit_repo \<times> exit_execution_intent list" where
  "refresh_exit_execution_intents now isoformat settings execution_repo repo scope =
     foldl (\<lambda>(repo, refreshed) parent.
         if (case scope of None \<Rightarrow> False | Some sc \<Rightarrow> \<not> symbol_allowed sc (Some (ei_symbol parent))) then (repo, refreshed)
         else if is_terminal_parent (ei_aggregate_status parent) then (repo, refreshed)
         else let (repo', saved) = refresh_one now isoformat settings (order_states execution_repo) repo parent
              in (repo', refreshed @ [saved]))
       (repo, []) (list_exit_execution_intents repo)"

end
