(* ===== verification/Exit_Safety.thy ===== *)
theory Exit_Safety
  imports Exit_Execution
begin

text \<open>
  What the aggregation of sliced exits guarantees. A finished or cancelled parent is never
  reopened by a later write, whatever was computed for it; and in every sequence of dispatches
  bounded by the recomputed parent and of reports merged into the children, the children together
  never exit more than the target. \<open>worst_case_exit\<close> is the most the children can exit,
  \<open>exit_reachable\<close> the dispatches and reports between which the parent is recomputed.
\<close>

section \<open>Sticky parents\<close>

lemma sticky_terminal_status:
  assumes "is_terminal_parent (ei_aggregate_status current)"
  shows "ei_aggregate_status (sticky_terminal st current incoming (sticky_cancel current incoming))
    = ei_aggregate_status current"
  using assms by (simp add: sticky_terminal_def sticky_cancel_def Let_def)

lemma sticky_review_fields:
  "ei_cancel_requested (sticky_review c i r) = ei_cancel_requested r"
  "is_terminal_parent (ei_aggregate_status c) \<Longrightarrow> ei_aggregate_status (sticky_review c i r) = ei_aggregate_status r"
  "ei_remaining_dispatchable_quantity (sticky_review c i r) = ei_remaining_dispatchable_quantity r"
  by (auto simp: sticky_review_def under_review_def is_terminal_parent_def TERMINAL_PARENT_STATUSES_def Let_def)

lemma sticky_resume_issue_fields:
  "ei_cancel_requested (sticky_resume_issue c i r) = ei_cancel_requested r"
  "is_terminal_parent (ei_aggregate_status c) \<Longrightarrow> ei_aggregate_status (sticky_resume_issue c i r) = ei_aggregate_status r"
  "ei_remaining_dispatchable_quantity (sticky_resume_issue c i r) = ei_remaining_dispatchable_quantity r"
  by (auto simp: sticky_resume_issue_def under_review_def Let_def split: option.split)

lemma merge_sticky_terminal:
  "is_terminal_parent (ei_aggregate_status c) \<Longrightarrow>
   ei_aggregate_status (merge_sticky_parent_fields (Some c) i) = ei_aggregate_status c"
  by (simp add: merge_sticky_parent_fields_def Let_def sticky_terminal_status sticky_review_fields
      sticky_resume_issue_fields)

lemma merge_sticky_cancel:
  "ei_cancel_requested (merge_sticky_parent_fields (Some c) i) \<longleftrightarrow> ei_cancel_requested c \<or> ei_cancel_requested i"
  by (auto simp: merge_sticky_parent_fields_def Let_def sticky_terminal_def sticky_cancel_def sticky_review_fields
      sticky_resume_issue_fields)

lemma merge_sticky_dispatchable:
  "\<not> is_terminal_parent (ei_aggregate_status c) \<Longrightarrow>
   ei_remaining_dispatchable_quantity (merge_sticky_parent_fields (Some c) i) = ei_remaining_dispatchable_quantity i"
  by (simp add: merge_sticky_parent_fields_def Let_def sticky_terminal_def sticky_cancel_def sticky_review_fields
      sticky_resume_issue_fields)


definition example_parent :: exit_execution_intent where
  "example_parent = new_exit_execution_intent (Aware 0 0) ''exit_parent:c'' ''c'' ''BTC-USDT-SWAP'' Sell KindClose 5"


section \<open>The worst case of a set of children\<close>

definition settled_child :: "order_state \<Rightarrow> bool" where
  "settled_child s \<longleftrightarrow> is_terminal (os_status s) \<and> \<not> is_unknown_write_state s"

text \<open>What a child has exited or may still exit.\<close>

definition child_exposure :: "order_state \<Rightarrow> decimal" where
  "child_exposure s = (if settled_child s then os_filled_qty s else os_requested_qty s)"

definition worst_case_exit :: "order_state list \<Rightarrow> decimal" where
  "worst_case_exit states = sum_list (map child_exposure states)"

lemma category_settled:
  "map_child_order_state_to_aggregate_category s \<in> {TERMINAL_FILLED, TERMINAL_NONFILLED} \<longleftrightarrow> settled_child s"
  by (cases "os_status s")
    (auto simp: map_child_order_state_to_aggregate_category_def settled_child_def is_terminal_def
      TERMINAL_ORDER_STATES_def)

definition grid_child :: "order_state \<Rightarrow> bool" where
  "grid_child s \<longleftrightarrow> wf_order s \<and> on_grid (os_requested_qty s) \<and> on_grid (os_filled_qty s) \<and> on_grid (os_remaining_qty s)"

lemma on_grid_max: "on_grid x \<Longrightarrow> on_grid y \<Longrightarrow> on_grid (max x y)"
  by (simp add: max_def)

lemma on_grid_0 [simp]: "on_grid 0"
  by (simp add: on_grid_def)

lemma on_grid_between: "on_grid x \<Longrightarrow> on_grid y \<Longrightarrow> 0 \<le> y \<Longrightarrow> y \<le> x \<Longrightarrow> on_grid (x - y)"
  by (rule on_grid_diff) (auto simp: on_grid_def)

lemma child_estimate:
  assumes "grid_child s"
  shows "on_grid (remaining_quantity_estimate s)" "0 \<le> remaining_quantity_estimate s"
    "os_requested_qty s - os_filled_qty s \<le> remaining_quantity_estimate s"
    "remaining_quantity_estimate s \<le> os_requested_qty s"
proof -
  have w: "0 \<le> os_filled_qty s" "os_filled_qty s \<le> os_requested_qty s" "os_remaining_qty s \<le> os_requested_qty s"
    "0 \<le> os_remaining_qty s"
    using assms by (simp_all add: grid_child_def wf_order_def)
  have g: "on_grid (os_requested_qty s - os_filled_qty s)"
    using assms w by (intro on_grid_between) (simp_all add: grid_child_def)
  have d: "dsub (os_requested_qty s) (os_filled_qty s) = os_requested_qty s - os_filled_qty s"
    using on_grid_exact[OF g] by (simp add: exact_ops)
  show "on_grid (remaining_quantity_estimate s)"
    using assms g by (simp add: remaining_quantity_estimate_def d Let_def grid_child_def on_grid_max)
  show "0 \<le> remaining_quantity_estimate s" "os_requested_qty s - os_filled_qty s \<le> remaining_quantity_estimate s"
    "remaining_quantity_estimate s \<le> os_requested_qty s"
    using w by (auto simp: remaining_quantity_estimate_def d Let_def)
qed

section \<open>The dispatchable quantity\<close>

definition refs_of :: "datetime \<Rightarrow> truth_settings option \<Rightarrow> string \<Rightarrow> order_state list \<Rightarrow> child_exit_order_ref list" where
  "refs_of now settings parent_id states = map (child_exit_order_ref_from_order_state now settings parent_id) states"

definition total_requested :: "order_state list \<Rightarrow> decimal" where
  "total_requested states = sum_list (map os_requested_qty states)"

text \<open>Sums of quantities that each stay below the child's requested quantity.\<close>

lemma dsum_children:
  assumes "\<forall>s \<in> set states. grid_child s" "total_requested states < 10 ^ 19"
    and "\<And>s. s \<in> set states \<Longrightarrow> on_grid (f s) \<and> 0 \<le> f s \<and> f s \<le> os_requested_qty s"
  shows "dsum (map f (filter P states)) = sum_list (map f (filter P states))"
    "on_grid (sum_list (map f (filter P states)))" "0 \<le> sum_list (map f (filter P states))"
    "sum_list (map f (filter P states)) \<le> total_requested states"
proof -
  have req: "0 \<le> os_requested_qty s" if "s \<in> set states" for s
    using assms(1) that by (auto simp: grid_child_def wf_order_def)
  have le: "sum_list (map f (filter P xs)) \<le> sum_list (map os_requested_qty xs)
      \<and> 0 \<le> sum_list (map f (filter P xs))"
    if "set xs \<subseteq> set states" for xs
    using that
  proof (induction xs)
    case (Cons x xs)
    then show ?case using assms(3)[of x] req[of x] by (auto intro!: add_mono)
  qed simp
  from le[of states] show "sum_list (map f (filter P states)) \<le> total_requested states"
    "0 \<le> sum_list (map f (filter P states))" by (simp_all add: total_requested_def)
  have "map abs (map f (filter P states)) = map f (filter P states)"
    using assms(3) by (auto intro!: map_idI)
  then have "sum_list (map abs (map f (filter P states))) = sum_list (map f (filter P states))" by (rule arg_cong)
  also have "\<dots> < 10 ^ 20" using le[of states] assms(2) unfolding total_requested_def by simp
  finally have "sum_list (map abs (map f (filter P states))) < 10 ^ 20" .
  from dsum_grid[OF _ this] assms(3)
  show "dsum (map f (filter P states)) = sum_list (map f (filter P states))"
    "on_grid (sum_list (map f (filter P states)))" by auto
qed

lemma sum_list_refs:
  "sum_children P g (refs_of now settings pid states)
    = dsum (map (g \<circ> child_exit_order_ref_from_order_state now settings pid)
        (filter (P \<circ> child_exit_order_ref_from_order_state now settings pid) states))"
  by (simp add: sum_children_def refs_of_def filter_map comp_def)

lemma ref_fields [simp]:
  "cr_known_filled_quantity (child_exit_order_ref_from_order_state now settings pid s) = os_filled_qty s"
  "cr_remaining_quantity_estimate (child_exit_order_ref_from_order_state now settings pid s) = remaining_quantity_estimate s"
  "cr_aggregate_category (child_exit_order_ref_from_order_state now settings pid s)
    = map_child_order_state_to_aggregate_category s"
  by (simp_all add: child_exit_order_ref_from_order_state_def Let_def)

definition dispatchable :: "datetime \<Rightarrow> truth_settings option \<Rightarrow> exit_execution_intent \<Rightarrow> order_state list \<Rightarrow> decimal" where
  "dispatchable now settings parent states =
     ei_remaining_dispatchable_quantity
       (recompute_exit_execution_intent now parent (refs_of now settings (ei_parent_intent_id parent) states))"

lemma sum_three:
  "sum_list (map f xs) + sum_list (map g (filter P xs)) + sum_list (map g (filter Q xs))
    = sum_list (map (\<lambda>x. f x + (if P x then g x else 0) + (if Q x then g x else (0 :: rat))) xs)"
  by (induction xs) auto

lemma dispatchable_bound:
  assumes grid: "\<forall>s \<in> set states. grid_child s" and total: "total_requested states < 10 ^ 19"
    and target: "on_grid (ei_target_exit_quantity parent)" "0 \<le> ei_target_exit_quantity parent"
      "ei_target_exit_quantity parent < 10 ^ 19"
    and pos: "0 < dispatchable now settings parent states"
  shows "worst_case_exit states + dispatchable now settings parent states \<le> ei_target_exit_quantity parent"
    and "on_grid (dispatchable now settings parent states)"
proof -
  let ?T = "ei_target_exit_quantity parent"
  let ?cat = map_child_order_state_to_aggregate_category
  let ?live = "\<lambda>s. ?cat s \<in> {PENDING_DISPATCH, CHILD_WORKING}" and ?unk = "\<lambda>s. ?cat s = UNKNOWN_TRUTH"
  define F W U where "F = sum_list (map os_filled_qty states)"
    and "W = sum_list (map remaining_quantity_estimate (filter ?live states))"
    and "U = sum_list (map remaining_quantity_estimate (filter ?unk states))"
  have filled: "on_grid (os_filled_qty s) \<and> 0 \<le> os_filled_qty s \<and> os_filled_qty s \<le> os_requested_qty s"
    and est: "on_grid (remaining_quantity_estimate s) \<and> 0 \<le> remaining_quantity_estimate s
      \<and> remaining_quantity_estimate s \<le> os_requested_qty s" if "s \<in> set states" for s
    using grid that child_estimate[of s] by (auto simp: grid_child_def wf_order_def)
  note Fs = dsum_children[OF grid total filled, of "\<lambda>_. True", simplified, folded F_def]
  have ests: "\<And>s. s \<in> set states \<Longrightarrow> on_grid (remaining_quantity_estimate s)
    \<and> 0 \<le> remaining_quantity_estimate s \<and> remaining_quantity_estimate s \<le> os_requested_qty s" by (rule est)
  have Ws: "dsum (map remaining_quantity_estimate (filter ?live states)) = W" "on_grid W" "0 \<le> W"
      "W \<le> total_requested states"
    unfolding W_def by (rule dsum_children[OF grid total ests]; assumption)+
  have Us: "dsum (map remaining_quantity_estimate (filter ?unk states)) = U" "on_grid U" "0 \<le> U"
      "U \<le> total_requested states"
    unfolding U_def by (rule dsum_children[OF grid total ests]; assumption)+
  have below: "F < 10 ^ 19" "W < 10 ^ 19" "U < 10 ^ 19"
    using Fs(4) Ws(4) Us(4) total by simp_all
  have abs: "\<bar>?T - F\<bar> < 10 ^ 20" "\<bar>?T - F - W\<bar> < 10 ^ 20" "\<bar>?T - F - W - U\<bar> < 10 ^ 20"
    using target(2,3) Fs(3) Ws(3) Us(3) below by (simp_all add: abs_less_iff)
  have g1: "on_grid (?T - F)" using target(1) Fs(2) abs(1) by (rule on_grid_diff)
  have g2: "on_grid (?T - F - W)" using g1 Ws(2) abs(2) by (rule on_grid_diff)
  have g3: "on_grid (?T - F - W - U)" using g2 Us(2) abs(3) by (rule on_grid_diff)
  note g = g1 g2 g3
  then have "dispatchable now settings parent states = max (?T - F - W - U) 0"
    by (simp add: dispatchable_def recompute_exit_execution_intent_def Let_def sum_list_refs comp_def Fs(1)
        Ws(1)[simplified] Us(1) exact_ops on_grid_exact)
  with pos have D: "dispatchable now settings parent states = ?T - F - W - U" by auto
  have "worst_case_exit states \<le> F + W + U"
    unfolding worst_case_exit_def F_def W_def U_def sum_three
  proof (rule sum_list_mono)
    fix s assume s: "s \<in> set states"
    have e: "os_requested_qty s - os_filled_qty s \<le> remaining_quantity_estimate s"
      using grid s child_estimate[of s] by auto
    show "child_exposure s \<le> os_filled_qty s + (if ?live s then remaining_quantity_estimate s else 0)
        + (if ?unk s then remaining_quantity_estimate s else 0)"
      using e category_settled[of s] by (cases "?cat s") (auto simp: child_exposure_def)
  qed
  with D show "worst_case_exit states + dispatchable now settings parent states \<le> ?T" by simp
  show "on_grid (dispatchable now settings parent states)" unfolding D by (rule g3)
qed

section \<open>Dispatches and reports\<close>

text \<open>
  The children of one parent, as the order manager stores them. A dispatch adds a child whose
  quantity is at most what the recomputed parent leaves (\<^verbatim>\<open>min(split_limit,
  remaining_dispatchable_quantity)\<close>) and above the tolerance; a report is merged into a child, does
  not raise its requested quantity, and does not fill or question a child that is settled.
\<close>

definition may_dispatch :: "exit_execution_intent \<Rightarrow> order_state list \<Rightarrow> order_state \<Rightarrow> bool" where
  "may_dispatch parent states child \<longleftrightarrow>
     (\<exists>split_limit now settings. os_requested_qty child = min split_limit (dispatchable now settings parent states))
     \<and> EPSILON_DECIMAL_12 < os_requested_qty child
     \<and> total_requested states + os_requested_qty child < 10 ^ 19 \<and> grid_child child"

definition may_report :: "order_state \<Rightarrow> order_state \<Rightarrow> bool" where
  "may_report child report \<longleftrightarrow>
     grid_child (merge (Some child) report) \<and> os_requested_qty report \<le> os_requested_qty child
     \<and> (settled_child child \<longrightarrow> os_filled_qty report \<le> os_filled_qty child \<and> \<not> is_unknown_write_state report)"

inductive exit_reachable :: "exit_execution_intent \<Rightarrow> order_state list \<Rightarrow> bool" where
  exit_start: "exit_reachable parent []"
| exit_dispatch: "exit_reachable parent states \<Longrightarrow> may_dispatch parent states child \<Longrightarrow>
    exit_reachable parent (states @ [child])"
| exit_report: "exit_reachable parent states \<Longrightarrow> k < length states \<Longrightarrow> may_report (states ! k) report \<Longrightarrow>
    exit_reachable parent (states[k := merge (Some (states ! k)) report])"

lemma sum_list_map_update:
  "k < length xs \<Longrightarrow> sum_list (map f (xs[k := y])) = sum_list (map f xs) - f (xs ! k) + (f y :: rat)"
  by (induction xs arbitrary: k) (auto split: nat.split)

lemma settled_child_exposure: "grid_child s \<Longrightarrow> child_exposure s \<le> os_requested_qty s"
  by (simp add: child_exposure_def grid_child_def wf_order_def)

text \<open>The error a merge keeps comes from the report or was there before.\<close>

lemma normalize_error [simp]: "os_execution_error (normalize_order s) = os_execution_error s"
  by (simp add: normalize_order_def Let_def case_prod_beta)

lemma late_fill_error [simp]: "os_execution_error (late_fill c i) = os_execution_error c"
  by (simp add: late_fill_def)

lemma merge_fields_error [simp]: "os_execution_error (merge_fields c i) = merge_execution_error c i"
  by (simp add: merge_fields_def Let_def)

lemma unknown_write_cong:
  "os_execution_error a = os_execution_error b \<Longrightarrow> is_unknown_write_state a = is_unknown_write_state b"
  by (simp add: is_unknown_write_state_def unknown_write_operation_def)

lemma no_error_known: "os_execution_error a = None \<Longrightarrow> \<not> is_unknown_write_state a"
  by (simp add: is_unknown_write_state_def unknown_write_operation_def normalized_error_def Let_def
      UNKNOWN_SUBMIT_ERROR_PREFIX_def UNKNOWN_CANCEL_ERROR_PREFIX_def py_startswith_def py_simps norm_str_def)

lemma merge_error_source:
  "os_execution_error (merge (Some c) i) \<in> {None, os_execution_error c, os_execution_error i}"
proof (cases rule: merge_outcomes[of i c])
  case accepted
  then show ?thesis by (auto simp: merge_execution_error_def split: option.splits if_splits)
next
  case late_fill
  then show ?thesis by (auto simp: merge_execution_error_def split: option.splits if_splits)
next
  case kept
  then have "merge (Some c) i = c
     \<lparr>os_last_update_ts := latest (os_last_update_ts c) (os_last_update_ts i),
      os_last_exchange_update_ts := latest (os_last_exchange_update_ts c) (os_last_exchange_update_ts i),
      os_execution_error := str_or (os_execution_error i) (os_execution_error c)\<rparr>"
    by (intro merge_refused) auto
  then show ?thesis by (simp add: str_or_eq)
qed

lemma merge_known:
  assumes "\<not> is_unknown_write_state c" "\<not> is_unknown_write_state i"
  shows "\<not> is_unknown_write_state (merge (Some c) i)"
  using merge_error_source[of c i] assms unknown_write_cong[of "merge (Some c) i"] no_error_known by blast

lemma merge_filled_upper:
  assumes "0 \<le> os_filled_qty c"
  shows "os_filled_qty (merge (Some c) i) \<le> max (os_filled_qty c) (os_filled_qty i)"
  using assms by (cases rule: merge_outcomes[of i c]) (auto simp: normalized_filled_def late_fill_def min_le_iff_disj)

lemma terminal_stays:
  assumes "is_terminal (os_status c)"
  shows "is_terminal (os_status (merge (Some c) i))"
  using merge_status[of c i] assms allowed_terminal[OF assms]
  by (auto simp: is_terminal_def TERMINAL_ORDER_STATES_def)

lemma report_exposure:
  assumes "grid_child s" "grid_child (merge (Some s) report)" "os_requested_qty report \<le> os_requested_qty s"
    and settled: "settled_child s \<longrightarrow> os_filled_qty report \<le> os_filled_qty s \<and> \<not> is_unknown_write_state report"
  shows "child_exposure (merge (Some s) report) \<le> child_exposure s"
proof (cases "settled_child s")
  case True
  then have "settled_child (merge (Some s) report)"
    using settled merge_known[of s report] terminal_stays[of s report] by (auto simp: settled_child_def)
  moreover have "os_filled_qty (merge (Some s) report) \<le> os_filled_qty s"
    using merge_filled_upper[of s report] True settled assms(1) by (auto simp: grid_child_def wf_order_def)
  ultimately show ?thesis using True by (simp add: child_exposure_def)
next
  case False
  have "child_exposure (merge (Some s) report) \<le> os_requested_qty (merge (Some s) report)"
    by (rule settled_child_exposure[OF assms(2)])
  also have "\<dots> \<le> os_requested_qty s" using merge_requested[of s report] assms(3) by auto
  finally show ?thesis using False by (simp add: child_exposure_def)
qed

lemma exit_reachable_inv:
  assumes "exit_reachable parent states" and target: "on_grid (ei_target_exit_quantity parent)"
    "0 \<le> ei_target_exit_quantity parent" "ei_target_exit_quantity parent < 10 ^ 19"
  shows "(\<forall>s \<in> set states. grid_child s) \<and> total_requested states < 10 ^ 19
    \<and> worst_case_exit states \<le> ei_target_exit_quantity parent"
  using assms
proof (induction rule: exit_reachable.induct)
  case exit_start
  then show ?case by (simp add: total_requested_def worst_case_exit_def)
next
  case (exit_dispatch parent states child)
  note inv = exit_dispatch.IH[OF exit_dispatch.prems]
  from exit_dispatch.hyps(2) obtain split_limit now settings
    where q: "os_requested_qty child = min split_limit (dispatchable now settings parent states)"
      and pos: "EPSILON_DECIMAL_12 < os_requested_qty child" and g: "grid_child child"
      and total: "total_requested states + os_requested_qty child < 10 ^ 19"
    by (auto simp: may_dispatch_def)
  have "0 < dispatchable now settings parent states" using above_eps(1)[OF pos] q by simp
  from dispatchable_bound(1)[OF _ _ exit_dispatch.prems this] inv
  have "worst_case_exit states + os_requested_qty child \<le> ei_target_exit_quantity parent" using q by simp
  with inv g total settled_child_exposure[OF g] show ?case by (simp add: worst_case_exit_def total_requested_def)
next
  case (exit_report parent states k report)
  let ?s = "states ! k" and ?s' = "merge (Some (states ! k)) report"
  note inv = exit_report.IH[OF exit_report.prems]
  have s: "grid_child ?s" using inv exit_report.hyps(2) by simp
  have s': "grid_child ?s'" and le: "os_requested_qty report \<le> os_requested_qty ?s"
    using exit_report.hyps(3) by (simp_all add: may_report_def)
  have req: "os_requested_qty ?s' \<le> os_requested_qty ?s" using merge_requested[of ?s report] le by auto
  have exp: "child_exposure ?s' \<le> child_exposure ?s"
    using report_exposure[OF s s' le] exit_report.hyps(3) by (simp add: may_report_def)
  have "\<forall>s \<in> set (states[k := ?s']). grid_child s" using inv s' set_update_subset_insert[of states k ?s'] by auto
  with inv req exp show ?case
    by (simp add: total_requested_def worst_case_exit_def sum_list_map_update[OF exit_report.hyps(2)])
qed

section \<open>Properties\<close>


definition example_slice :: "string \<Rightarrow> decimal \<Rightarrow> order_state" where
  "example_slice cid q = new_order_state (Aware 0 0) ''dec'' cid ''BTC-USDT-SWAP'' cid SUBMITTING q q"

lemma example_slice_simps [simp]:
  "os_requested_qty (example_slice cid q) = q" "os_filled_qty (example_slice cid q) = 0"
  "os_remaining_qty (example_slice cid q) = q" "os_status (example_slice cid q) = SUBMITTING"
  "\<not> is_unknown_write_state (example_slice cid q)" "\<not> settled_child (example_slice cid q)"
  "os_execution_error (example_slice cid q) = None"
  "map_child_order_state_to_aggregate_category (example_slice cid q) = PENDING_DISPATCH"
  using no_error_known[of "example_slice cid q"]
  by (simp_all add: example_slice_def new_order_state_def settled_child_def is_terminal_def
      TERMINAL_ORDER_STATES_def map_child_order_state_to_aggregate_category_def)

lemma on_grid_int: "x = of_int n \<Longrightarrow> \<bar>n\<bar> < 10 ^ 20 \<Longrightarrow> on_grid x"
  by (auto simp: on_grid_def simp flip: of_int_abs)

lemma example_slice_grid: "q = of_int n \<Longrightarrow> 0 \<le> n \<Longrightarrow> n < 10 ^ 20 \<Longrightarrow> grid_child (example_slice cid q)"
  by (auto simp: grid_child_def wf_order_def intro!: on_grid_int[of _ n] on_grid_exact)

lemma example_dispatchable:
  "dispatchable now settings example_parent [] = 5"
  "dispatchable now settings example_parent [example_slice ''a'' 3] = 2"
  by (simp_all add: dispatchable_def recompute_exit_execution_intent_def Let_def sum_list_refs comp_def dsum_def
      remaining_quantity_estimate_def exact_ops example_parent_def new_exit_execution_intent_def
      EPSILON_DECIMAL_12_def)


end
