(* ===== verification/Submit_Guards.thy ===== *)
theory Submit_Guards
  imports Execution_Repo Order_Truth
begin

text \<open>
  The guards an order intent passes before it may reach the exchange,
  \<^verbatim>\<open>aats/services/execution_engine/order_manager.py\<close>: a second order from the portfolio
  snapshot another order was already built on, a directional risk increase while another one is
  in flight or just filled, the leg risk and overlay rollout checks
  (\<^verbatim>\<open>aats/services/strategy_overlay_rollout.py\<close>), a write whose outcome is still unknown,
  and the cooldown after a transient failure to close. A guard that stops the intent gives the
  \<^verbatim>\<open>BLOCKED\<close> order state the manager stores in its place.

  The leg risk evaluator is an argument; so are the readings of the clock (\<open>now\<close>), the id
  \<^verbatim>\<open>new_id\<close> would draw (\<open>fresh\<close>) and the venue name the adapter's readiness gives.
\<close>

section \<open>Decimals in free-form payloads\<close>

text \<open>
  \<^verbatim>\<open>Decimal(str)\<close> on finite numerals: optional sign, digits with at most one point, an
  optional exponent, surrounding white space and underscores ignored. The special values are
  refused like any other text.
\<close>

definition parse_digits :: "string \<Rightarrow> nat option" where
  "parse_digits s = (if py_isdigit s then Some (digits_value s) else None)"

definition parse_signed :: "(string \<Rightarrow> 'a option) \<Rightarrow> ('a \<Rightarrow> 'b) \<Rightarrow> ('b \<Rightarrow> 'b) \<Rightarrow> string \<Rightarrow> 'b option" where
  "parse_signed parse value_of negate s =
     (case s of
        [] \<Rightarrow> None
      | c # cs \<Rightarrow> if c = CHR ''-'' then map_option (\<lambda>v. negate (value_of v)) (parse cs)
                  else if c = CHR ''+'' then map_option value_of (parse cs)
                  else map_option value_of (parse s))"

definition parse_exponent :: "string \<Rightarrow> int option" where
  "parse_exponent s = (case s of [] \<Rightarrow> Some 0 | _ # ds \<Rightarrow> parse_signed parse_digits int uminus ds)"

definition parse_unsigned_decimal :: "string \<Rightarrow> rat option" where
  "parse_unsigned_decimal s =
     (let is_exp = (\<lambda>c. c = CHR ''e'' \<or> c = CHR ''E'');
          mantissa = takeWhile (\<lambda>c. \<not> is_exp c) s;
          whole = takeWhile (\<lambda>c. c \<noteq> CHR ''.'') mantissa;
          fraction = drop 1 (dropWhile (\<lambda>c. c \<noteq> CHR ''.'') mantissa)
      in Option.bind (parse_digits (whole @ fraction)) (\<lambda>coefficient.
         map_option (\<lambda>e. of_nat coefficient * 10 powi (e - int (length fraction)))
           (parse_exponent (dropWhile (\<lambda>c. \<not> is_exp c) s))))"

definition parse_decimal :: "string \<Rightarrow> rat option" where
  "parse_decimal s =
     parse_signed parse_unsigned_decimal (\<lambda>v. v) uminus (filter (\<lambda>c. c \<noteq> CHR ''_'') (py_strip s))"

text \<open>\<^verbatim>\<open>_decimal_or_zero\<close>; \<open>Inl\<close> is the \<^verbatim>\<open>InvalidOperation\<close> of \<^verbatim>\<open>Decimal(str(value))\<close>.\<close>

datatype guard_error = InvalidDecimal pyval

fun decimal_or_zero :: "pyval \<Rightarrow> guard_error + decimal" where
  "decimal_or_zero PyNone = Inr 0"
| "decimal_or_zero (PyDec d) = Inr d"
| "decimal_or_zero (PyInt n) = Inr (of_int n)"
| "decimal_or_zero (PyStr s) = (case parse_decimal s of Some d \<Rightarrow> Inr d | None \<Rightarrow> Inl (InvalidDecimal (PyStr s)))"
| "decimal_or_zero v = Inl (InvalidDecimal v)"

section \<open>Order states built from an intent\<close>

definition venue_name :: "string option \<Rightarrow> string" where
  "venue_name backend = (if backend = Some ''okx'' then ''OKX'' else ''PAPER'')"

text \<open>The fields every \<^verbatim>\<open>OrderState(...)\<close> of the order manager takes from the intent.\<close>

definition order_state_from_intent ::
  "datetime \<Rightarrow> string \<Rightarrow> order_intent \<Rightarrow> string \<Rightarrow> order_status \<Rightarrow> string \<Rightarrow> order_state" where
  "order_state_from_intent now venue intent client_order_id status submission_mode =
     (new_order_state now (oi_decision_id intent) (oi_intent_id intent) (oi_symbol intent) client_order_id
        status (oi_quantity intent) (oi_quantity intent))
     \<lparr>os_execution_chain_id := oi_execution_chain_id intent,
      os_execution_attempt_id := oi_execution_attempt_id intent,
      os_venue := venue,
      os_submission_mode := submission_mode,
      os_last_update_ts := Some now,
      os_reduce_only := effective_reduce_only_for_intent intent,
      os_close_only := effective_close_only_for_intent intent,
      os_td_mode := oi_td_mode intent,
      os_position_mode := oi_position_mode intent,
      os_pos_side := oi_pos_side intent,
      os_reduce_only_reason := oi_reduce_only_reason intent,
      os_close_only_reason := oi_close_only_reason intent,
      os_instrument_family := oi_instrument_family intent,
      os_settle_currency := oi_settle_currency intent,
      os_product_type := oi_product_type intent,
      os_target_leverage := oi_target_leverage intent,
      os_margin_mode := oi_margin_mode intent,
      os_exposure_side := oi_exposure_side intent,
      os_execution_action := oi_execution_action intent,
      os_leg_action := oi_leg_action intent,
      os_position_intent := oi_position_intent intent,
      os_leg_intent_id := oi_leg_intent_id intent,
      os_strategy_family := oi_strategy_family intent,
      os_strategy_sleeve_id := oi_strategy_sleeve_id intent,
      os_allocation_id := oi_allocation_id intent,
      os_strategy_bundle_id := oi_strategy_bundle_id intent,
      os_strategy_leg_role := oi_strategy_leg_role intent,
      os_strategy_pair_id := oi_strategy_pair_id intent,
      os_strategy_opportunity_kind := oi_strategy_opportunity_kind intent,
      os_strategy_execution_mode := oi_strategy_execution_mode intent,
      os_strategy_state_phase := oi_strategy_state_phase intent,
      os_market_snapshot_ref := oi_market_snapshot_ref intent,
      os_feature_snapshot_ref := oi_feature_snapshot_ref intent,
      os_portfolio_snapshot_ref := oi_portfolio_snapshot_ref intent,
      os_health_snapshot_ref := oi_health_snapshot_ref intent\<rparr>"

definition blocked_order_state_from_intent ::
  "datetime \<Rightarrow> string \<Rightarrow> order_intent \<Rightarrow> string \<Rightarrow> string \<Rightarrow> string \<Rightarrow> order_state" where
  "blocked_order_state_from_intent now venue intent client_order_id submission_mode execution_error =
     (order_state_from_intent now venue intent client_order_id BLOCKED submission_mode)
     \<lparr>os_execution_error := Some execution_error\<rparr>"

definition apply_execution_attempt_id ::
  "order_intent \<Rightarrow> string \<Rightarrow> leg_order_intent option \<Rightarrow> order_intent \<times> leg_order_intent option" where
  "apply_execution_attempt_id intent client_order_id leg_intent =
     (let attempt_id = execution_attempt_id_from_components (oi_execution_attempt_id intent)
            (Some client_order_id) (oi_execution_chain_id intent) (Some (oi_intent_id intent))
      in (intent\<lparr>oi_execution_attempt_id := attempt_id\<rparr>,
          map_option (\<lambda>leg. leg\<lparr>li_execution_attempt_id := attempt_id\<rparr>) leg_intent))"

section \<open>Duplicates of a portfolio snapshot\<close>

definition opt_norm :: "string option \<Rightarrow> string" where
  "opt_norm v = norm_str (case v of None \<Rightarrow> [] | Some s \<Rightarrow> s)"

definition normalized_snapshot_ref :: "string option \<Rightarrow> string" where
  "normalized_snapshot_ref v = py_strip (case v of None \<Rightarrow> [] | Some s \<Rightarrow> s)"

text \<open>One of the strategy fields names the context \<open>tag\<close>.\<close>

definition context_tagged :: "string \<Rightarrow> string option list \<Rightarrow> bool" where
  "context_tagged tag context_fields \<longleftrightarrow>
     list_ex (\<lambda>v. let normalized = opt_norm v in normalized = tag \<or> py_startswith (tag @ '':'') normalized
                  \<or> py_startswith (tag @ ''_'') normalized) context_fields"

definition intent_context :: "order_intent \<Rightarrow> string option list" where
  "intent_context intent = [oi_strategy_family intent, oi_strategy_execution_mode intent,
     oi_strategy_bundle_id intent, oi_execution_chain_id intent]"

definition state_context :: "order_state \<Rightarrow> string option list" where
  "state_context state = [os_strategy_family state, os_strategy_execution_mode state,
     os_strategy_bundle_id state, os_execution_chain_id state]"

definition directional_risk_increase_context :: "string option list \<Rightarrow> bool" where
  "directional_risk_increase_context context_fields \<longleftrightarrow> context_tagged ''directional'' context_fields"

definition semantic_duplicate_independent_book_context :: "string option list \<Rightarrow> bool" where
  "semantic_duplicate_independent_book_context context_fields \<longleftrightarrow> context_tagged ''independent'' context_fields"

definition semantic_duplicate_lanes ::
  "string option \<Rightarrow> string option \<Rightarrow> string option \<Rightarrow> string option \<Rightarrow> bool \<Rightarrow> bool \<Rightarrow> string list" where
  "semantic_duplicate_lanes position_intent side pos_side exposure_side reduce_only close_only =
     (case map_of
        [(''open_long'', [''long_increase'']), (''scale_in_long'', [''long_increase'']),
         (''reduce_long'', [''long_reduce'']), (''close_long'', [''long_reduce'']),
         (''open_short'', [''short_increase'']), (''scale_in_short'', [''short_increase'']),
         (''reduce_short'', [''short_reduce'']), (''close_short'', [''short_reduce'']),
         (''reverse_to_long'', [''short_reduce'', ''long_increase'']),
         (''reverse_to_short'', [''long_reduce'', ''short_increase''])] (opt_norm position_intent) of
        Some lanes \<Rightarrow> lanes
      | None \<Rightarrow>
          let exposure = opt_norm (str_or pos_side exposure_side)
          in if reduce_only \<or> close_only
             then (if exposure \<in> {''long'', ''short''} then [exposure @ ''_reduce''] else [])
             else if opt_norm side = ''buy'' then [''long_increase'']
             else if opt_norm side = ''sell'' then [''short_increase'']
             else [])"

definition semantic_duplicate_lanes_from_intent :: "order_intent \<Rightarrow> string list" where
  "semantic_duplicate_lanes_from_intent intent =
     semantic_duplicate_lanes (Some (position_intent_str (oi_position_intent intent)))
       (Some (order_side_str (oi_side intent))) (map_option position_side_str (oi_pos_side intent))
       (Some (exposure_side_str (oi_exposure_side intent)))
       (effective_reduce_only_for_intent intent) (effective_close_only_for_intent intent)"

definition semantic_duplicate_lanes_from_state :: "order_state \<Rightarrow> string list" where
  "semantic_duplicate_lanes_from_state state =
     semantic_duplicate_lanes (Some (position_intent_str (os_position_intent state)))
       None (map_option position_side_str (os_pos_side state))
       (Some (exposure_side_str (os_exposure_side state)))
       (os_reduce_only state) (os_close_only state)"

definition lane_book :: "string \<Rightarrow> string option" where
  "lane_book lane =
     (let normalized = norm_str lane
      in if py_startswith ''long_'' normalized then Some ''long''
         else if py_startswith ''short_'' normalized then Some ''short''
         else None)"

text \<open>The books of the lanes; none at all when a lane belongs to no book.\<close>

definition semantic_duplicate_lane_books :: "string list \<Rightarrow> string list" where
  "semantic_duplicate_lane_books lanes =
     (if list_ex (\<lambda>lane. lane_book lane = None) lanes then [] else List.map_filter lane_book lanes)"

definition isdisjoint :: "'a list \<Rightarrow> 'a list \<Rightarrow> bool" where
  "isdisjoint xs ys \<longleftrightarrow> \<not> list_ex (\<lambda>x. x \<in> set ys) xs"

definition semantic_duplicate_disjoint_lanes_allowed ::
  "string option list \<Rightarrow> string option list \<Rightarrow> string list \<Rightarrow> string list \<Rightarrow> bool" where
  "semantic_duplicate_disjoint_lanes_allowed intent_fields state_fields intent_lanes state_lanes =
     (if \<not> (semantic_duplicate_independent_book_context intent_fields
             \<and> semantic_duplicate_independent_book_context state_fields) then False
      else let intent_books = semantic_duplicate_lane_books intent_lanes;
               state_books = semantic_duplicate_lane_books state_lanes
           in intent_books \<noteq> [] \<and> state_books \<noteq> [] \<and> isdisjoint intent_books state_books)"

definition SEMANTIC_DUPLICATE_NO_EFFECT_STATUSES :: "order_status list" where
  "SEMANTIC_DUPLICATE_NO_EFFECT_STATUSES = [BLOCKED, CANCELED, DRY_RUN, EXPIRED, FAILED, REJECTED]"

definition semantic_duplicate_state_can_block :: "order_state \<Rightarrow> bool" where
  "semantic_duplicate_state_can_block state =
     (if EPSILON_DECIMAL_12 < os_filled_qty state then True
      else if os_status state \<in> set SEMANTIC_DUPLICATE_NO_EFFECT_STATUSES then False
      else if is_terminal (os_status state) then False
      else True)"

definition semantic_duplicate_product_mismatch :: "order_state \<Rightarrow> order_intent \<Rightarrow> bool" where
  "semantic_duplicate_product_mismatch state intent \<longleftrightarrow>
     os_product_type state \<noteq> oi_product_type intent \<or> os_margin_mode state \<noteq> oi_margin_mode intent"

definition same_chain :: "string option \<Rightarrow> string option \<Rightarrow> bool" where
  "same_chain a b \<longleftrightarrow> str_truthy a \<and> str_truthy b \<and> a = b"

text \<open>One turn of the loop over the recent orders: the order stops the intent.\<close>

definition semantic_duplicate_blocks :: "order_intent \<Rightarrow> string \<Rightarrow> order_state \<Rightarrow> bool" where
  "semantic_duplicate_blocks intent client_order_id state =
     (let snapshot_ref = normalized_snapshot_ref (oi_portfolio_snapshot_ref intent);
          intent_lanes = semantic_duplicate_lanes_from_intent intent;
          state_lanes = semantic_duplicate_lanes_from_state state
      in if os_client_order_id state = client_order_id \<or> os_intent_id state = oi_intent_id intent then False
         else if same_chain (os_execution_chain_id state) (oi_execution_chain_id intent) then False
         else if normalized_snapshot_ref (os_portfolio_snapshot_ref state) \<noteq> snapshot_ref then False
         else if os_symbol state \<noteq> oi_symbol intent then False
         else if semantic_duplicate_product_mismatch state intent then False
         else if \<not> semantic_duplicate_state_can_block state then False
         else if state_lanes = [] then False
         else if isdisjoint intent_lanes state_lanes
         then \<not> semantic_duplicate_disjoint_lanes_allowed (intent_context intent) (state_context state)
                   intent_lanes state_lanes
         else True)"

definition SEMANTIC_DUPLICATE_RECENT_LIMIT :: nat where "SEMANTIC_DUPLICATE_RECENT_LIMIT = 100"

definition semantic_duplicate_snapshot_state :: "exec_repo \<Rightarrow> order_intent \<Rightarrow> string \<Rightarrow> order_state option" where
  "semantic_duplicate_snapshot_state repo intent client_order_id =
     (if normalized_snapshot_ref (oi_portfolio_snapshot_ref intent) = [] then None
      else if semantic_duplicate_lanes_from_intent intent = [] then None
      else find (semantic_duplicate_blocks intent client_order_id)
             (recent_order_states repo SEMANTIC_DUPLICATE_RECENT_LIMIT None))"

definition semantic_duplicate_snapshot_submit_block ::
  "datetime \<Rightarrow> string \<Rightarrow> exec_repo \<Rightarrow> order_intent \<Rightarrow> string \<Rightarrow> order_state option" where
  "semantic_duplicate_snapshot_submit_block now venue repo intent client_order_id =
     map_option (\<lambda>blocker. blocked_order_state_from_intent now venue intent client_order_id
         ''semantic_duplicate_snapshot_blocked''
         (''semantic_duplicate_snapshot_order:'' @ os_client_order_id blocker))
       (semantic_duplicate_snapshot_state repo intent client_order_id)"

section \<open>Convergence of directional risk increases\<close>

definition RISK_INCREASE_CONVERGENCE_RECENT_LIMIT :: nat where
  "RISK_INCREASE_CONVERGENCE_RECENT_LIMIT = 100"

definition RISK_INCREASE_CONVERGENCE_RECENT_SECONDS :: int where
  "RISK_INCREASE_CONVERGENCE_RECENT_SECONDS = 300"

definition RISK_INCREASE_CONVERGENCE_LANES :: "string list" where
  "RISK_INCREASE_CONVERGENCE_LANES = [''long_increase'', ''short_increase'']"

definition risk_increase_state_is_inflight :: "order_state \<Rightarrow> bool" where
  "risk_increase_state_is_inflight state =
     (if os_status state \<in> set SEMANTIC_DUPLICATE_NO_EFFECT_STATUSES then False
      else if os_status state = FILLED then False
      else os_status state \<notin> {CANCELED, EXPIRED, REJECTED, FAILED})"

definition risk_increase_state_is_recently_filled :: "datetime \<Rightarrow> order_state \<Rightarrow> bool" where
  "risk_increase_state_is_recently_filled now state =
     (if os_status state \<noteq> FILLED then False
      else if os_filled_qty state \<le> EPSILON_DECIMAL_12 then False
      else
        let state_ts = (case os_last_update_ts state of
              Some t \<Rightarrow> t
            | None \<Rightarrow> (case os_submitted_ts state of Some t \<Rightarrow> t | None \<Rightarrow> os_created_at state))
        in dt_instant now - dt_instant state_ts \<le> RISK_INCREASE_CONVERGENCE_RECENT_SECONDS * 10 ^ 6)"

definition execution_convergence :: "order_intent \<Rightarrow> (string \<times> pyval) list" where
  "execution_convergence intent =
     (case map_of (oi_risk_budget_state intent) ''execution_convergence'' of
        Some (PyDict d) \<Rightarrow> d
      | _ \<Rightarrow> [])"

definition exposure_under_key :: "order_intent \<Rightarrow> string \<Rightarrow> pyval option" where
  "exposure_under_key intent key =
     (case map_of (execution_convergence intent) key of
        Some v \<Rightarrow> Some v
      | None \<Rightarrow> map_of (oi_risk_budget_state intent) key)"

definition intent_current_exposure_qty :: "order_intent \<Rightarrow> string \<Rightarrow> guard_error + decimal option" where
  "intent_current_exposure_qty intent side =
     (case exposure_under_key intent (''current_'' @ side @ ''_position_qty'') of
        Some v \<Rightarrow> ebind (decimal_or_zero v) (\<lambda>q. Inr (Some q))
      | None \<Rightarrow>
          (case exposure_under_key intent (side @ ''_position_qty'') of
             Some v \<Rightarrow> ebind (decimal_or_zero v) (\<lambda>q. Inr (Some q))
           | None \<Rightarrow> Inr None))"

text \<open>The inner loop over the increase lanes of a recently filled order: one of them is not yet
  visible in the exposure the intent was sized on.\<close>

fun exposure_not_converged :: "order_intent \<Rightarrow> string list \<Rightarrow> guard_error + bool" where
  "exposure_not_converged intent [] = Inr False"
| "exposure_not_converged intent (lane # lanes) =
     ebind (intent_current_exposure_qty intent (if lane = ''long_increase'' then ''long'' else ''short''))
       (\<lambda>current_qty. case current_qty of
          None \<Rightarrow> Inr True
        | Some q \<Rightarrow> if q \<le> EPSILON_DECIMAL_12 then Inr True else exposure_not_converged intent lanes)"

definition increase_lanes :: "string list \<Rightarrow> string list" where
  "increase_lanes lanes = filter (\<lambda>lane. lane \<in> set RISK_INCREASE_CONVERGENCE_LANES) lanes"

definition risk_increase_blocks :: "datetime \<Rightarrow> order_intent \<Rightarrow> string \<Rightarrow> order_state \<Rightarrow> guard_error + bool" where
  "risk_increase_blocks now intent client_order_id state =
     (let state_increase_lanes = increase_lanes (semantic_duplicate_lanes_from_state state)
      in if os_client_order_id state = client_order_id \<or> os_intent_id state = oi_intent_id intent then Inr False
         else if os_symbol state \<noteq> oi_symbol intent then Inr False
         else if semantic_duplicate_product_mismatch state intent then Inr False
         else if \<not> directional_risk_increase_context (state_context state) then Inr False
         else if state_increase_lanes = [] then Inr False
         else if risk_increase_state_is_inflight state then Inr True
         else if \<not> risk_increase_state_is_recently_filled now state then Inr False
         else exposure_not_converged intent state_increase_lanes)"

fun first_blocking :: "('a \<Rightarrow> guard_error + bool) \<Rightarrow> 'a list \<Rightarrow> guard_error + 'a option" where
  "first_blocking blocks [] = Inr None"
| "first_blocking blocks (state # states) =
     ebind (blocks state) (\<lambda>b. if b then Inr (Some state) else first_blocking blocks states)"

definition risk_increase_convergence_state ::
  "datetime \<Rightarrow> exec_repo \<Rightarrow> order_intent \<Rightarrow> string \<Rightarrow> guard_error + order_state option" where
  "risk_increase_convergence_state now repo intent client_order_id =
     (if \<not> directional_risk_increase_context (intent_context intent) then Inr None
      else if increase_lanes (semantic_duplicate_lanes_from_intent intent) = [] then Inr None
      else first_blocking (risk_increase_blocks now intent client_order_id)
             (recent_order_states repo RISK_INCREASE_CONVERGENCE_RECENT_LIMIT None))"

definition risk_increase_convergence_submit_block ::
  "datetime \<Rightarrow> string \<Rightarrow> exec_repo \<Rightarrow> order_intent \<Rightarrow> string \<Rightarrow> guard_error + order_state option" where
  "risk_increase_convergence_submit_block now venue repo intent client_order_id =
     ebind (risk_increase_convergence_state now repo intent client_order_id) (\<lambda>blocker.
       Inr (map_option (\<lambda>b. blocked_order_state_from_intent now venue intent client_order_id
           ''risk_increase_convergence_blocked''
           (''risk_increase_convergence_order:'' @ os_client_order_id b)) blocker))"

section \<open>Unknown writes\<close>

definition unknown_write_matches :: "order_intent \<Rightarrow> string \<Rightarrow> order_state \<Rightarrow> bool" where
  "unknown_write_matches intent client_order_id state \<longleftrightarrow>
     same_chain (os_execution_chain_id state) (oi_execution_chain_id intent)
     \<or> os_intent_id state = oi_intent_id intent
     \<or> os_client_order_id state = client_order_id"

definition blocking_unknown_write_state ::
  "(string list \<Rightarrow> string list) \<Rightarrow> exec_repo \<Rightarrow> order_intent \<Rightarrow> string \<Rightarrow> order_state option" where
  "blocking_unknown_write_state ord repo intent client_order_id =
     (let unknown_states = filter (\<lambda>state. is_unknown_write_state state \<and> \<not> is_terminal (os_status state))
            (non_terminal_order_states ord repo)
      in if unknown_states = [] then None
         else case find (unknown_write_matches intent client_order_id) unknown_states of
           Some state \<Rightarrow> Some state
         | None \<Rightarrow>
             if is_risk_reducing_order_intent intent then None
             else find (\<lambda>state. os_symbol state = oi_symbol intent \<and> blocks_new_risk_actions state) unknown_states)"

definition unknown_write_str :: "unknown_write option \<Rightarrow> string" where
  "unknown_write_str operation = (case operation of Some UnknownCancel \<Rightarrow> ''cancel'' | _ \<Rightarrow> ''submit'')"

definition unknown_write_submit_block ::
  "datetime \<Rightarrow> string \<Rightarrow> (string list \<Rightarrow> string list) \<Rightarrow> exec_repo \<Rightarrow> order_intent \<Rightarrow> string \<Rightarrow> order_state option" where
  "unknown_write_submit_block now venue ord repo intent client_order_id =
     (case blocking_unknown_write_state ord repo intent client_order_id of
        None \<Rightarrow> None
      | Some blocker \<Rightarrow>
          let operation = unknown_write_str (unknown_write_operation blocker);
              requires = ''unknown_'' @ operation @ ''_requires_reconciliation_for_'';
              (execution_error, submission_mode) =
                (if same_chain (os_execution_chain_id blocker) (oi_execution_chain_id intent)
                 then (requires @ ''execution_chain:'' @ os_client_order_id blocker,
                       ''unknown_write_duplicate_submit_blocked'')
                 else if os_intent_id blocker = oi_intent_id intent
                 then (requires @ ''intent:'' @ os_client_order_id blocker,
                       ''unknown_write_duplicate_submit_blocked'')
                 else if os_client_order_id blocker = client_order_id
                 then (requires @ ''client_order_id:'' @ os_client_order_id blocker,
                       ''unknown_write_duplicate_submit_blocked'')
                 else (''unknown_'' @ operation @ ''_blocks_new_risk_actions_for_symbol:'' @ os_client_order_id blocker,
                       ''unknown_write_symbol_risk_blocked''))
          in Some (blocked_order_state_from_intent now venue intent client_order_id submission_mode execution_error))"

section \<open>Leg risk and overlay rollout\<close>

datatype rollout_stage = ReplayOnly | RolloutDryRun | RolloutLive

fun rollout_stage_order :: "rollout_stage \<Rightarrow> nat" where
  "rollout_stage_order ReplayOnly = 0"
| "rollout_stage_order RolloutDryRun = 1"
| "rollout_stage_order RolloutLive = 2"

fun rollout_stage_str :: "rollout_stage \<Rightarrow> string" where
  "rollout_stage_str ReplayOnly = ''replay_only''"
| "rollout_stage_str RolloutDryRun = ''dry_run''"
| "rollout_stage_str RolloutLive = ''live''"

text \<open>The settings the guards read.\<close>

record guard_settings =
  gs_strategy_hedge_overlay_enabled :: bool
  gs_strategy_hedge_independent_enabled :: bool
  gs_strategy_hedge_independent_rollout_stage :: rollout_stage
  gs_guarded_execution_dry_run :: bool
  gs_okx_simulated_trading :: bool
  gs_live_submit_enabled :: bool
  gs_strategy_transient_close_retry_cooldown_seconds :: rat

definition overlay_runtime_stage :: "guard_settings \<Rightarrow> rollout_stage" where
  "overlay_runtime_stage settings =
     (if gs_guarded_execution_dry_run settings \<or> gs_okx_simulated_trading settings
         \<or> \<not> gs_live_submit_enabled settings
      then RolloutDryRun else RolloutLive)"

definition overlay_configured_rollout_stage :: "guard_settings \<Rightarrow> string \<Rightarrow> rollout_stage" where
  "overlay_configured_rollout_stage settings mode =
     (if mode = ''independent'' then gs_strategy_hedge_independent_rollout_stage settings else ReplayOnly)"

definition overlay_mode_from_execution_mode :: "string option \<Rightarrow> string option" where
  "overlay_mode_from_execution_mode execution_mode =
     (let normalized = opt_norm execution_mode
      in if normalized = ''protective_overlay'' then Some ''protective''
         else if normalized = ''opportunistic_overlay'' then Some ''opportunistic''
         else if normalized \<in> {''independent_books'', ''independent_long_book'', ''independent_short_book''}
         then Some ''independent''
         else None)"

text \<open>The \<^verbatim>\<open>blocking_reasons\<close> of \<^verbatim>\<open>overlay_rollout_status\<close>.\<close>

definition overlay_rollout_blocking_reasons :: "guard_settings \<Rightarrow> string \<Rightarrow> string list" where
  "overlay_rollout_blocking_reasons settings mode =
     (if mode \<noteq> ''independent'' then [mode @ ''_overlay_retired'']
      else
        let configured_stage = overlay_configured_rollout_stage settings mode;
            runtime_stage = overlay_runtime_stage settings
        in if configured_stage = ReplayOnly then [mode @ ''_overlay_rollout_replay_only'']
           else if rollout_stage_order configured_stage < rollout_stage_order runtime_stage
           then [mode @ ''_overlay_rollout_stage_blocks_'' @ rollout_stage_str runtime_stage @ ''_runtime'']
           else [])"

definition leg_overlay_rollout_blockers :: "guard_settings \<Rightarrow> leg_order_intent \<Rightarrow> string list" where
  "leg_overlay_rollout_blockers settings leg_intent =
     (if li_product_type leg_intent \<noteq> Derivatives \<or> li_position_mode leg_intent \<noteq> LongShortMode then []
      else case overlay_mode_from_execution_mode (li_strategy_execution_mode leg_intent) of
        None \<Rightarrow> []
      | Some overlay_mode \<Rightarrow>
          let blockers =
                (if \<not> gs_strategy_hedge_overlay_enabled settings then [''strategy_hedge_overlay_disabled''] else [])
                @ (if overlay_mode \<in> {''protective'', ''opportunistic''} then [overlay_mode @ ''_overlay_retired''] else [])
                @ (if overlay_mode = ''independent'' \<and> \<not> gs_strategy_hedge_independent_enabled settings
                   then [''strategy_hedge_independent_disabled''] else [])
          in if blockers \<noteq> [] then fromkeys blockers
             else filter (\<lambda>item. py_strip item \<noteq> []) (overlay_rollout_blocking_reasons settings overlay_mode))"

definition joined_reasons :: "string \<Rightarrow> string list \<Rightarrow> string" where
  "joined_reasons fallback reasons =
     (let cleaned = filter (\<lambda>item. py_strip item \<noteq> []) reasons
      in py_join '','' (fromkeys (if cleaned = [] then [fallback] else cleaned)))"

definition leg_overlay_rollout_blocked_error :: "string list \<Rightarrow> string" where
  "leg_overlay_rollout_blocked_error reasons =
     ''leg_overlay_rollout_blocked:'' @ joined_reasons ''overlay_rollout_blocked'' reasons"

text \<open>The fields of a leg risk decision that the manager reads.\<close>

record leg_risk_decision =
  rd_approved :: bool
  rd_rejection_reasons :: "string list"
  rd_required_initial_margin :: "decimal option"
  rd_projected_margin_usage :: "decimal option"
  rd_projected_notional :: "decimal option"
  rd_risk_budget_multiplier :: "decimal option"
  rd_risk_budget_state :: "(string \<times> pyval) list"
  rd_execution_aggressiveness_multiplier :: "decimal option"
  rd_execution_aggressiveness_state :: "(string \<times> pyval) list"
  rd_only_reduce_required :: bool
  rd_risk_limit_breached :: bool
  rd_liquidation_buffer_remaining :: "decimal option"

definition leg_risk_blocked_error :: "leg_risk_decision \<Rightarrow> string" where
  "leg_risk_blocked_error risk_decision =
     ''leg_risk_blocked:'' @ joined_reasons ''leg_only_reduce_mode_active'' (rd_rejection_reasons risk_decision)"

definition apply_leg_risk_context ::
  "order_intent \<Rightarrow> leg_order_intent \<Rightarrow> leg_risk_decision \<Rightarrow> order_intent \<times> leg_order_intent" where
  "apply_leg_risk_context intent leg_intent d =
     (intent\<lparr>oi_required_initial_margin := rd_required_initial_margin d,
             oi_projected_margin_usage := rd_projected_margin_usage d,
             oi_projected_notional := rd_projected_notional d,
             oi_risk_budget_multiplier := rd_risk_budget_multiplier d,
             oi_risk_budget_state := rd_risk_budget_state d,
             oi_execution_aggressiveness_multiplier := rd_execution_aggressiveness_multiplier d,
             oi_execution_aggressiveness_state := rd_execution_aggressiveness_state d,
             oi_only_reduce_required := rd_only_reduce_required d,
             oi_risk_limit_breached := rd_risk_limit_breached d,
             oi_liquidation_buffer_remaining := rd_liquidation_buffer_remaining d\<rparr>,
      leg_intent\<lparr>li_required_initial_margin := rd_required_initial_margin d,
             li_projected_margin_usage := rd_projected_margin_usage d,
             li_projected_notional := rd_projected_notional d,
             li_risk_budget_multiplier := rd_risk_budget_multiplier d,
             li_risk_budget_state := rd_risk_budget_state d,
             li_execution_aggressiveness_multiplier := rd_execution_aggressiveness_multiplier d,
             li_execution_aggressiveness_state := rd_execution_aggressiveness_state d,
             li_only_reduce_required := rd_only_reduce_required d,
             li_risk_limit_breached := rd_risk_limit_breached d,
             li_liquidation_buffer_remaining := rd_liquidation_buffer_remaining d\<rparr>)"

text \<open>\<^verbatim>\<open>leg_risk_evaluator\<close> is an optional callable.\<close>

definition apply_leg_submit_guards ::
  "datetime \<Rightarrow> string \<Rightarrow> guard_settings \<Rightarrow> (leg_order_intent \<Rightarrow> leg_risk_decision) option \<Rightarrow> order_intent \<Rightarrow> string
   \<Rightarrow> leg_order_intent option \<Rightarrow> order_intent \<times> leg_order_intent option \<times> order_state option" where
  "apply_leg_submit_guards now venue settings leg_risk_evaluator intent client_order_id leg_intent =
     (case (case leg_intent of Some leg \<Rightarrow> Some leg | None \<Rightarrow> leg_intent_from_order_intent now intent) of
        None \<Rightarrow> (intent, None, None)
      | Some normalized_leg_intent \<Rightarrow>
          let risk_decision = map_option (\<lambda>evaluate. evaluate normalized_leg_intent) leg_risk_evaluator;
              (guarded_intent, guarded_leg_intent) = (case risk_decision of
                  None \<Rightarrow> (intent, normalized_leg_intent)
                | Some d \<Rightarrow> apply_leg_risk_context intent normalized_leg_intent d);
              rejected = (case risk_decision of None \<Rightarrow> False | Some d \<Rightarrow> \<not> rd_approved d);
              rollout_blockers = leg_overlay_rollout_blockers settings guarded_leg_intent
          in if rejected
             then (guarded_intent, Some guarded_leg_intent,
                   Some (blocked_order_state_from_intent now venue guarded_intent client_order_id ''leg_risk_blocked''
                     (leg_risk_blocked_error (the risk_decision))))
             else if rollout_blockers \<noteq> []
             then (guarded_intent, Some guarded_leg_intent,
                   Some (blocked_order_state_from_intent now venue guarded_intent client_order_id
                     ''leg_overlay_rollout_blocked'' (leg_overlay_rollout_blocked_error rollout_blockers)))
             else (guarded_intent, Some guarded_leg_intent, None))"

section \<open>Cooldown after a transient failure to close\<close>

definition TRANSIENT_RETRY_PATTERNS :: "string list" where
  "TRANSIENT_RETRY_PATTERNS = [''50013'', ''systems are busy'', ''service busy'', ''temporarily unavailable'']"

definition text_or_empty :: "string option \<Rightarrow> string" where
  "text_or_empty v = (case v of None \<Rightarrow> [] | Some s \<Rightarrow> s)"

definition transient_close_failure :: "int \<Rightarrow> order_intent \<Rightarrow> order_state \<Rightarrow> bool" where
  "transient_close_failure cutoff intent state =
     (let observed_at = (case os_last_update_ts state of Some t \<Rightarrow> t | None \<Rightarrow> os_created_at state);
          error_text = py_lower (text_or_empty (os_execution_error state) @ '' '' @ text_or_empty (os_cancel_reason state))
      in if os_symbol state \<noteq> oi_symbol intent \<or> os_position_intent state \<noteq> oi_position_intent intent then False
         else if dt_instant observed_at < cutoff then False
         else if max (dmul (oi_quantity intent) (2 / 10)) (1 / 10 ^ 8)
                 < dabs (dsub (os_requested_qty state) (oi_quantity intent)) then False
         else list_ex (\<lambda>pattern. py_contains pattern error_text) TRANSIENT_RETRY_PATTERNS)"

definition transient_close_retry_cooldown_state ::
  "datetime \<Rightarrow> string \<Rightarrow> string \<Rightarrow> guard_settings \<Rightarrow> exec_repo \<Rightarrow> order_intent \<Rightarrow> order_state option" where
  "transient_close_retry_cooldown_state now venue fresh settings repo intent =
     (let cooldown_seconds = max (gs_strategy_transient_close_retry_cooldown_seconds settings) 0
      in if cooldown_seconds \<le> 0 then None
         else if oi_position_intent intent \<notin> {CloseLong, CloseShort} then None
         else if oi_urgency intent = High then None
         else
           let cutoff = dt_instant now - round_half_even (cooldown_seconds * 10 ^ 6)
           in map_option (\<lambda>state.
                (order_state_from_intent now venue intent
                   (if oi_idempotency_key intent \<noteq> [] then oi_idempotency_key intent else fresh)
                   BLOCKED ''local_retry_cooldown'')
                \<lparr>os_execution_attempt_id := str_or (oi_execution_attempt_id intent)
                   (execution_attempt_id_from_components None (Some (oi_idempotency_key intent))
                     (oi_execution_chain_id intent) (Some (oi_intent_id intent))),
                 os_execution_error := Some (''transient_close_retry_cooldown_active:''
                   @ text_or_empty (str_or (str_or (os_execution_error state) (os_cancel_reason state))
                       (Some ''transient_exchange_failure'')))\<rparr>)
              (find (transient_close_failure cutoff intent)
                (recent_order_states repo 25 (Some [FAILED, BLOCKED]))))"

end
