(* ===== verification/Paper_Adapter.thy ===== *)
theory Paper_Adapter
  imports Submit_Guards
begin

text \<open>
  The interface of an exchange adapter, \<^verbatim>\<open>aats/services/execution_engine/exchange_adapter.py\<close>,
  as the order manager uses it, and the paper adapter that implements it,
  \<^verbatim>\<open>paper_adapter.py\<close>. An adapter call gives a result or the text of the exception it raised.
  The ids \<^verbatim>\<open>new_id\<close> draws, the clock, the price provider and the text of a decimal are
  arguments.
\<close>

section \<open>The interface\<close>

type_synonym adapter_result = "string + (order_state \<times> fill_event list)"

record exchange_adapter =
  ad_backend :: "string option"
  ad_preview_client_order_id :: "(order_intent \<Rightarrow> string option) option"
  ad_submit :: "order_intent \<Rightarrow> adapter_result"
  ad_submit_leg_order :: "leg_order_intent \<Rightarrow> adapter_result"
  ad_cancel :: "order_state \<Rightarrow> adapter_result"
  ad_sync :: "order_state list \<Rightarrow> string + (order_state list \<times> fill_event list)"
  ad_max_order_quantity_limit :: "(order_intent \<Rightarrow> string + decimal option) option"

text \<open>The base class submits a leg as the order intent it stands for.\<close>

fun leg_error_text :: "leg_error \<Rightarrow> string" where
  "leg_error_text RequiresLongShortMode = ''explicit_leg_order_requires_long_short_mode''"
| "leg_error_text RequiresPosSide = ''explicit_leg_order_requires_pos_side''"
| "leg_error_text SidePosSideMismatch = ''explicit_leg_order_side_pos_side_mismatch''"

definition default_submit_leg_order ::
  "datetime \<Rightarrow> (order_intent \<Rightarrow> adapter_result) \<Rightarrow> leg_order_intent \<Rightarrow> adapter_result" where
  "default_submit_leg_order now submit leg_intent =
     (case order_intent_from_leg_order_intent now leg_intent of
        Inl e \<Rightarrow> Inl (leg_error_text e)
      | Inr intent \<Rightarrow> submit intent)"

section \<open>The paper adapter\<close>

record paper_env =
  pe_now :: datetime
  pe_exchange_order_id :: string
  pe_fill_id :: string
  pe_price_provider :: "string \<Rightarrow> decimal"
  pe_taker_fee_bps :: decimal
  pe_dec_str :: "decimal \<Rightarrow> string"

definition paper_preview_client_order_id :: "order_intent \<Rightarrow> string option" where
  "paper_preview_client_order_id intent =
     Some (''cl'' @ (if oi_idempotency_key intent \<noteq> [] then oi_idempotency_key intent else oi_intent_id intent))"

definition slippage_exceeded :: "order_intent \<Rightarrow> decimal \<Rightarrow> bool" where
  "slippage_exceeded intent execution_price =
     (case (oi_reference_price intent, oi_max_slippage_tolerance_bps intent) of
        (Some reference_price, Some bps) \<Rightarrow>
          if reference_price \<le> 0 \<or> bps \<le> 0 then False
          else
            let slippage_fraction = ddiv (of_int bps) 10000
            in if oi_side intent = Buy then dmul reference_price (dadd 1 slippage_fraction) < execution_price
               else execution_price < dmul reference_price (dsub 1 slippage_fraction)
      | _ \<Rightarrow> False)"

definition limit_ioc_expired :: "order_intent \<Rightarrow> decimal \<Rightarrow> bool" where
  "limit_ioc_expired intent execution_price =
     (case oi_limit_price intent of
        None \<Rightarrow> False
      | Some limit_price \<Rightarrow>
          if oi_order_type intent \<noteq> Limit then False
          else if oi_side intent = Buy then limit_price < execution_price
          else execution_price < limit_price)"

definition spelled :: "('a \<Rightarrow> string) \<Rightarrow> 'a option \<Rightarrow> string" where
  "spelled spell v = (case v of None \<Rightarrow> [] | Some x \<Rightarrow> spell x)"

definition submission_payload_from_intent :: "(decimal \<Rightarrow> string) \<Rightarrow> order_intent \<Rightarrow> (string \<times> string) list" where
  "submission_payload_from_intent dec_str intent =
     [(''instId'', oi_symbol intent),
      (''side'', order_side_str (oi_side intent)),
      (''sz'', dec_str (oi_quantity intent)),
      (''ordType'', order_type_str (oi_order_type intent)),
      (''px'', spelled dec_str (oi_limit_price intent)),
      (''timeInForce'', oi_time_in_force intent),
      (''referencePrice'', spelled dec_str (oi_reference_price intent)),
      (''maxSlippageToleranceBps'', spelled int_str (oi_max_slippage_tolerance_bps intent)),
      (''productType'', product_type_str (oi_product_type intent)),
      (''marginMode'', margin_mode_str (oi_margin_mode intent)),
      (''tdMode'', margin_mode_str (case oi_td_mode intent of Some m \<Rightarrow> m | None \<Rightarrow> oi_margin_mode intent)),
      (''targetLeverage'', dec_str (oi_target_leverage intent)),
      (''executionAction'', spelled execution_action_str (oi_execution_action intent)),
      (''legAction'', spelled leg_action_str (oi_leg_action intent)),
      (''legIntentId'', text_or_empty (oi_leg_intent_id intent)),
      (''positionIntent'', position_intent_str (oi_position_intent intent)),
      (''positionMode'', spelled position_mode_str (oi_position_mode intent)),
      (''posSide'', spelled position_side_str (oi_pos_side intent)),
      (''reduceOnly'', if oi_reduce_only intent then ''true'' else ''false''),
      (''closeOnly'', if oi_close_only intent then ''true'' else ''false''),
      (''reduceOnlyReason'', text_or_empty (oi_reduce_only_reason intent)),
      (''closeOnlyReason'', text_or_empty (oi_close_only_reason intent)),
      (''instrumentFamily'', text_or_empty (oi_instrument_family intent)),
      (''settleCurrency'', text_or_empty (oi_settle_currency intent)),
      (''strategyFamily'', text_or_empty (oi_strategy_family intent)),
      (''strategySleeveId'', text_or_empty (oi_strategy_sleeve_id intent)),
      (''allocationId'', text_or_empty (oi_allocation_id intent)),
      (''strategyBundleId'', text_or_empty (oi_strategy_bundle_id intent)),
      (''strategyLegRole'', spelled leg_role_str (oi_strategy_leg_role intent)),
      (''executionAttemptId'', text_or_empty (oi_execution_attempt_id intent)),
      (''executionStyle'', oi_execution_style intent)]"

text \<open>What the three order states of \<^verbatim>\<open>submit\<close> have in common.\<close>

definition paper_order_state :: "paper_env \<Rightarrow> order_intent \<Rightarrow> order_status \<Rightarrow> string \<Rightarrow> order_state" where
  "paper_order_state env intent status exchange_status =
     (let client_order_id = the (paper_preview_client_order_id intent)
      in (new_order_state (pe_now env) (oi_decision_id intent) (oi_intent_id intent) (oi_symbol intent) client_order_id
            status (oi_quantity intent) (oi_quantity intent))
         \<lparr>os_execution_chain_id := oi_execution_chain_id intent,
          os_execution_attempt_id := execution_attempt_id_from_components (oi_execution_attempt_id intent)
            (Some client_order_id) (oi_execution_chain_id intent) (Some (oi_intent_id intent)),
          os_exchange_order_id := Some (pe_exchange_order_id env),
          os_exchange_status := Some exchange_status,
          os_exchange_status_history := [exchange_status],
          os_submitted_ts := Some (pe_now env),
          os_last_update_ts := Some (pe_now env),
          os_last_exchange_update_ts := Some (pe_now env),
          os_reduce_only := oi_reduce_only intent,
          os_close_only := oi_close_only intent,
          os_td_mode := oi_td_mode intent,
          os_position_mode := oi_position_mode intent,
          os_pos_side := oi_pos_side intent,
          os_reduce_only_reason := oi_reduce_only_reason intent,
          os_close_only_reason := oi_close_only_reason intent,
          os_instrument_family := oi_instrument_family intent,
          os_settle_currency := oi_settle_currency intent,
          os_strategy_family := oi_strategy_family intent,
          os_strategy_sleeve_id := oi_strategy_sleeve_id intent,
          os_allocation_id := oi_allocation_id intent,
          os_strategy_bundle_id := oi_strategy_bundle_id intent,
          os_strategy_leg_role := oi_strategy_leg_role intent,
          os_strategy_pair_id := oi_strategy_pair_id intent,
          os_strategy_opportunity_kind := oi_strategy_opportunity_kind intent,
          os_strategy_execution_mode := oi_strategy_execution_mode intent,
          os_strategy_state_phase := oi_strategy_state_phase intent,
          os_product_type := oi_product_type intent,
          os_target_leverage := oi_target_leverage intent,
          os_margin_mode := oi_margin_mode intent,
          os_exposure_side := oi_exposure_side intent,
          os_execution_action := oi_execution_action intent,
          os_leg_action := oi_leg_action intent,
          os_position_intent := oi_position_intent intent,
          os_leg_intent_id := oi_leg_intent_id intent,
          os_submission_payload := submission_payload_from_intent (pe_dec_str env) intent\<rparr>)"

definition paper_fee :: "paper_env \<Rightarrow> order_intent \<Rightarrow> decimal \<Rightarrow> decimal" where
  "paper_fee env intent fill_price =
     dmul (dmul (oi_quantity intent) fill_price) (ddiv (pe_taker_fee_bps env) 10000)"

definition paper_fill :: "paper_env \<Rightarrow> order_intent \<Rightarrow> decimal \<Rightarrow> fill_event" where
  "paper_fill env intent fill_price =
     (let client_order_id = the (paper_preview_client_order_id intent)
      in (new_fill_event (pe_now env) (pe_fill_id env) (oi_decision_id intent) (oi_intent_id intent) client_order_id
            (pe_exchange_order_id env) (oi_symbol intent) (oi_side intent) (oi_quantity intent) fill_price
            (paper_fee env intent fill_price) Taker (pe_now env) (pe_now env))
         \<lparr>fl_execution_chain_id := oi_execution_chain_id intent,
          fl_execution_attempt_id := execution_attempt_id_from_components (oi_execution_attempt_id intent)
            (Some client_order_id) (oi_execution_chain_id intent) (Some (oi_intent_id intent)),
          fl_fee_currency := Some ''USDT'',
          fl_reduce_only := oi_reduce_only intent,
          fl_close_only := oi_close_only intent,
          fl_td_mode := oi_td_mode intent,
          fl_position_mode := oi_position_mode intent,
          fl_pos_side := oi_pos_side intent,
          fl_reduce_only_reason := oi_reduce_only_reason intent,
          fl_close_only_reason := oi_close_only_reason intent,
          fl_instrument_family := oi_instrument_family intent,
          fl_settle_currency := oi_settle_currency intent,
          fl_strategy_family := oi_strategy_family intent,
          fl_strategy_sleeve_id := oi_strategy_sleeve_id intent,
          fl_allocation_id := oi_allocation_id intent,
          fl_strategy_bundle_id := oi_strategy_bundle_id intent,
          fl_strategy_leg_role := oi_strategy_leg_role intent,
          fl_strategy_pair_id := oi_strategy_pair_id intent,
          fl_strategy_opportunity_kind := oi_strategy_opportunity_kind intent,
          fl_strategy_execution_mode := oi_strategy_execution_mode intent,
          fl_strategy_state_phase := oi_strategy_state_phase intent,
          fl_product_type := oi_product_type intent,
          fl_target_leverage := oi_target_leverage intent,
          fl_margin_mode := oi_margin_mode intent,
          fl_exposure_side := oi_exposure_side intent,
          fl_execution_action := oi_execution_action intent,
          fl_leg_action := oi_leg_action intent,
          fl_position_intent := oi_position_intent intent,
          fl_leg_intent_id := oi_leg_intent_id intent,
          fl_order_status_after_fill := Some FILLED\<rparr>)"

definition paper_submit :: "paper_env \<Rightarrow> order_intent \<Rightarrow> order_state \<times> fill_event list" where
  "paper_submit env intent =
     (let fill_price = pe_price_provider env (oi_symbol intent)
      in if limit_ioc_expired intent fill_price
         then ((paper_order_state env intent EXPIRED ''expired'')
                 \<lparr>os_cancel_reason := Some ''paper_limit_ioc_not_crossed''\<rparr>, [])
         else if slippage_exceeded intent fill_price
         then ((paper_order_state env intent REJECTED ''rejected'')
                 \<lparr>os_execution_error := Some ''slippage_tolerance_exceeded''\<rparr>, [])
         else ((paper_order_state env intent FILLED ''filled'')
                 \<lparr>os_submission_mode := (if oi_product_type intent = Derivatives then ''paper_derivatives_local''
                                        else ''paper_local''),
                  os_filled_qty := oi_quantity intent,
                  os_remaining_qty := 0,
                  os_average_fill_price := Some fill_price,
                  os_fees := paper_fee env intent fill_price\<rparr>,
               [paper_fill env intent fill_price]))"

definition paper_cancel :: "paper_env \<Rightarrow> order_state \<Rightarrow> order_state \<times> fill_event list" where
  "paper_cancel env order =
     (if os_status order = FILLED then (order, [])
      else (order\<lparr>os_status := CANCELED,
                  os_exchange_status := Some ''canceled'',
                  os_exchange_status_history := os_exchange_status_history order @ [''canceled''],
                  os_last_update_ts := Some (pe_now env),
                  os_last_exchange_update_ts := Some (pe_now env),
                  os_canceled_ts := Some (pe_now env),
                  os_cancel_reason := Some ''paper_cancel''\<rparr>, []))"

definition paper_adapter :: "paper_env \<Rightarrow> exchange_adapter" where
  "paper_adapter env =
     \<lparr>ad_backend = Some ''paper'', ad_preview_client_order_id = Some paper_preview_client_order_id,
      ad_submit = (\<lambda>intent. Inr (paper_submit env intent)),
      ad_submit_leg_order = default_submit_leg_order (pe_now env) (\<lambda>intent. Inr (paper_submit env intent)),
      ad_cancel = (\<lambda>order. Inr (paper_cancel env order)), ad_sync = (\<lambda>_. Inr ([], [])),
      ad_max_order_quantity_limit = None\<rparr>"

end
