(* ===== verification/Order_Manager.thy ===== *)
theory Order_Manager
  imports Paper_Adapter Exit_Execution Obligations
begin

text \<open>
  The order manager, \<^verbatim>\<open>aats/services/execution_engine/order_manager.py\<close>, in its
  configuration without an outbox publisher: the execution repository, the obligations and the
  exit intents are the in-memory ones, and what the manager publishes is a list of events. The
  persistent order service, when it is configured, is what it was asked to do: the submissions
  and cancellations it enqueued and the submit commands it abandoned; the order state its row of
  a client order id hydrates to is \<open>me_execution_row\<close>.

  A handler is a function from the manager to the manager it leaves and the value it returns or
  the exception it raises (\<open>run\<close>); what was written before an exception stays written. The
  clock, the ids, the adapter, the leg risk evaluator, the obligation service's inputs, the submit
  command lookup and what the rest of the system does to the manager while a handler sleeps are
  fields of \<open>manager_env\<close>. Dumping an intent into the parent's metadata and validating it
  again are pydantic's and arguments too. Logging, tracing, the shadow mirrors and the strategy
  bundle status are left out.
\<close>

section \<open>The manager and its environment\<close>

record execution_error_summary =
  es_severity :: string
  es_message :: string
  es_decision_id :: string
  es_intent_id :: string
  es_order_id :: string
  es_status :: order_status
  es_observed_at :: datetime

datatype manager_event =
    OrderUpdate order_state
  | ErrorSummary execution_error_summary
  | FillPublished fill_event

record order_manager =
  om_repo :: exec_repo
  om_obligations :: memory_repo
  om_exits :: "exit_repo option"
  om_events :: "manager_event list"
  om_enqueued_submits :: "(order_intent \<times> string) list"
  om_enqueued_cancels :: "(order_state \<times> string) list"
  om_abandoned_commands :: "string list"

text \<open>The inputs of the obligation service, as in the theory of obligations.\<close>

record obligation_inputs =
  oin_snapshot_required :: bool
  oin_loader :: "account_balances option option"
  oin_price_provider :: "(string \<Rightarrow> decimal) option"
  oin_taker_fee_bps_decimal :: "string \<Rightarrow> decimal"
  oin_obligation_id :: string

record manager_env =
  me_now :: datetime
  me_fresh_id :: string
  me_settings :: guard_settings
  me_truth_settings :: "truth_settings option"
  me_set_order :: "string list \<Rightarrow> string list"
  me_adapter :: exchange_adapter
  me_leg_risk_evaluator :: "(leg_order_intent \<Rightarrow> leg_risk_decision) option"
  me_halted :: bool
  me_obligation_service :: "obligation_inputs option"
  me_reservation_error_text :: "reservation_error \<Rightarrow> string"
  me_persistent :: bool
  me_enqueue_submit :: "order_intent \<Rightarrow> string \<Rightarrow> string option"
  me_execution_row :: "string \<Rightarrow> order_state option"
  me_submit_command :: "order_manager \<Rightarrow> order_state \<Rightarrow> (string \<times> string) option"
  me_post_only_fallback_mode :: string
  me_during_timeout :: "order_manager \<Rightarrow> order_manager"
  me_model_dump :: "order_intent \<Rightarrow> (string \<times> pyval) list"
  me_model_validate :: "(string \<times> pyval) list \<Rightarrow> decimal \<Rightarrow> string + order_intent"
  me_isoformat :: "datetime \<Rightarrow> string"

datatype manager_error =
    GuardRaised guard_error
  | RepositoryRaised repo_error
  | ObligationRaised reservation_error
  | ExitRaised exit_error
  | OrderStateNotFound string
  | EnqueueRaised string
  | AdapterRaised string
  | UnsupportedFallbackMode string
  | MissingAnchorState
  | ValidationRaised string
  | LegRaised leg_error
  | ExitRepoNotConfigured
  | ResumeBlocked string

type_synonym 'a run = "order_manager \<Rightarrow> order_manager \<times> (manager_error + 'a)"

definition mret :: "'a \<Rightarrow> 'a run" where "mret a m = (m, Inr a)"

definition mraise :: "manager_error \<Rightarrow> 'a run" where "mraise e m = (m, Inl e)"

definition mbind :: "'a run \<Rightarrow> ('a \<Rightarrow> 'b run) \<Rightarrow> 'b run" where
  "mbind f g m = (case f m of (m', Inl e) \<Rightarrow> (m', Inl e) | (m', Inr a) \<Rightarrow> g a m')"

definition mget :: "(order_manager \<Rightarrow> 'a) \<Rightarrow> 'a run" where "mget f m = (m, Inr (f m))"

fun mfor :: "('a \<Rightarrow> unit run) \<Rightarrow> 'a list \<Rightarrow> unit run" where
  "mfor f [] = mret ()"
| "mfor f (x # xs) = mbind (f x) (\<lambda>_. mfor f xs)"

definition env_venue :: "manager_env \<Rightarrow> string" where
  "env_venue env = venue_name (ad_backend (me_adapter env))"

section \<open>Exit parents of an order\<close>

definition save_exit_execution_parent :: "exit_execution_intent \<Rightarrow> exit_execution_intent run" where
  "save_exit_execution_parent parent m =
     (case om_exits m of
        None \<Rightarrow> (m, Inr parent)
      | Some repo \<Rightarrow> let (repo', saved) = writer_save_exit_execution_intent repo parent
                     in (m\<lparr>om_exits := Some repo'\<rparr>, Inr saved))"

definition save_exit_execution_intent_with_template ::
  "manager_env \<Rightarrow> exit_execution_intent \<Rightarrow> order_intent \<Rightarrow> exit_execution_intent run" where
  "save_exit_execution_intent_with_template env parent intent =
     (if py_contains '':slice:'' (oi_intent_id intent) then save_exit_execution_parent parent
      else save_exit_execution_parent (parent\<lparr>ei_metadata :=
        AList.update ''dispatch_template_version'' (PyInt 1)
          (AList.update ''dispatch_template'' (PyDict (me_model_dump env intent)) (ei_metadata parent))\<rparr>))"

definition lift_exit :: "exit_error + 'a \<Rightarrow> 'a run" where
  "lift_exit r m = (m, case r of Inl e \<Rightarrow> Inl (ExitRaised e) | Inr a \<Rightarrow> Inr a)"

definition ensure_exit_execution_intent ::
  "manager_env \<Rightarrow> exit_repo \<Rightarrow> order_state \<Rightarrow> order_intent option \<Rightarrow> exit_execution_intent option run" where
  "ensure_exit_execution_intent env repo order intent =
     (case parent_intent_id_for_child repo (os_client_order_id order) of
        Some parent_id \<Rightarrow> mret (get_exit_execution_intent repo parent_id)
      | None \<Rightarrow>
          let chain_id = text_or_empty (str_or (str_or (os_execution_chain_id order)
                (case intent of Some i \<Rightarrow> oi_execution_chain_id i | None \<Rightarrow> None)) (Some (os_intent_id order)));
              existing = (if chain_id = [] then None else get_exit_execution_intent_by_execution_chain repo chain_id)
          in (case existing of
                Some parent \<Rightarrow>
                  (case intent of
                     Some i \<Rightarrow> if dispatch_template_from_parent parent = None
                       then mbind (save_exit_execution_intent_with_template env parent i) (\<lambda>p. mret (Some p))
                       else mret (Some parent)
                   | None \<Rightarrow> mret (Some parent))
              | None \<Rightarrow>
                  if (case intent of Some i \<Rightarrow> is_risk_reducing_order_intent i | None \<Rightarrow> False)
                  then mbind (lift_exit (create_exit_execution_intent_from_order_intent (me_now env) (the intent)))
                    (\<lambda>parent. mbind (save_exit_execution_intent_with_template env parent (the intent)) (\<lambda>p. mret (Some p)))
                  else if is_risk_reducing_order_state order
                  then mbind (lift_exit (create_exit_execution_intent_from_order_state (me_now env) order))
                    (\<lambda>parent. mbind (save_exit_execution_parent parent) (\<lambda>p. mret (Some p)))
                  else mret None))"

definition sync_exit_execution_intent :: "manager_env \<Rightarrow> order_state \<Rightarrow> order_intent option \<Rightarrow> unit run" where
  "sync_exit_execution_intent env order intent m =
     (case om_exits m of
        None \<Rightarrow> (m, Inr ())
      | Some repo \<Rightarrow>
          mbind (ensure_exit_execution_intent env repo order intent) (\<lambda>parent m.
            case (parent, om_exits m) of
              (Some p, Some repo) \<Rightarrow>
                let child_ref = child_exit_order_ref_from_order_state (me_now env) (me_truth_settings env)
                      (ei_parent_intent_id p) order
                in (m\<lparr>om_exits := Some (fst (save_child_ref_and_recompute_parent (me_now env) repo p child_ref))\<rparr>, Inr ())
            | _ \<Rightarrow> (m, Inr ())) m)"

section \<open>Persisting orders, fills and obligations\<close>

definition execution_error_summary_of :: "order_state option \<Rightarrow> order_state \<Rightarrow> manager_event list" where
  "execution_error_summary_of previous persisted =
     (if os_status persisted \<notin> {FAILED, REJECTED, BLOCKED} then []
      else if (case previous of None \<Rightarrow> False | Some p \<Rightarrow> os_status p = os_status persisted
                 \<and> os_execution_error p = os_execution_error persisted) then []
      else [ErrorSummary
        \<lparr>es_severity = (if os_status persisted = FAILED then ''error'' else ''warning''),
         es_message = text_or_empty (str_or (str_or (os_execution_error persisted) (os_cancel_reason persisted))
           (Some (order_status_str (os_status persisted)))),
         es_decision_id = os_decision_id persisted, es_intent_id = os_intent_id persisted,
         es_order_id = os_client_order_id persisted, es_status = os_status persisted,
         es_observed_at = (case os_last_update_ts persisted of Some t \<Rightarrow> t | None \<Rightarrow> os_created_at persisted)\<rparr>])"

definition store_order_state :: "order_state \<Rightarrow> order_state run" where
  "store_order_state order m =
     (let previous = get_order_state (om_repo m) (os_client_order_id order)
      in case save_order_state (om_repo m) order of
        Inl e \<Rightarrow> (m, Inl (RepositoryRaised e))
      | Inr (repo', persisted) \<Rightarrow>
          (m\<lparr>om_repo := repo',
             om_events := om_events m @ [OrderUpdate persisted] @ execution_error_summary_of previous persisted\<rparr>,
           Inr persisted))"

definition persist_order_state :: "manager_env \<Rightarrow> order_state \<Rightarrow> order_intent option \<Rightarrow> order_state run" where
  "persist_order_state env order intent =
     mbind (store_order_state order) (\<lambda>persisted.
       mbind (sync_exit_execution_intent env persisted intent) (\<lambda>_. mret persisted))"

definition with_obligations ::
  "(memory_repo \<Rightarrow> reservation_error + (memory_repo \<times> order_obligation option)) \<Rightarrow> unit run" where
  "with_obligations f m =
     (case f (om_obligations m) of
        Inl e \<Rightarrow> (m, Inl (ObligationRaised e))
      | Inr (repo', _) \<Rightarrow> (m\<lparr>om_obligations := repo'\<rparr>, Inr ()))"

definition persist_fill :: "manager_env \<Rightarrow> fill_event \<Rightarrow> unit run" where
  "persist_fill env fill m =
     (let (repo', saved) = save_fill (om_repo m) fill
      in if \<not> saved then (m, Inr ())
         else
           let m' = m\<lparr>om_repo := repo', om_events := om_events m @ [FillPublished fill]\<rparr>
           in if me_obligation_service env = None then (m', Inr ())
              else with_obligations (\<lambda>obs. consume_for_fill None memory_repository (me_now env) obs fill) m')"

definition finalize_obligation :: "manager_env \<Rightarrow> order_state \<Rightarrow> unit run" where
  "finalize_obligation env order =
     (if me_obligation_service env = None then mret ()
      else with_obligations (\<lambda>obs. finalize_for_order_state None memory_repository (me_now env) obs order))"

section \<open>Submitting one order\<close>

definition created_order_state :: "manager_env \<Rightarrow> order_intent \<Rightarrow> string \<Rightarrow> order_state" where
  "created_order_state env intent client_order_id =
     order_state_from_intent (me_now env) (env_venue env) intent client_order_id CREATED ''local_order_manager''"

definition persist_submitting_state_for_intent :: "manager_env \<Rightarrow> order_intent \<Rightarrow> string \<Rightarrow> order_state run" where
  "persist_submitting_state_for_intent env intent client_order_id =
     mbind (mget (\<lambda>m. get_order_state (om_repo m) client_order_id)) (\<lambda>stored.
       let current = (case stored of Some s \<Rightarrow> s | None \<Rightarrow> created_order_state env intent client_order_id);
           from_intent = order_state_from_intent (me_now env) (os_venue current) intent client_order_id SUBMITTING
             (os_submission_mode current)
       in persist_order_state env (from_intent
            \<lparr>os_schema_version := os_schema_version current,
             os_created_at := os_created_at current,
             os_exchange_order_id := os_exchange_order_id current,
             os_exchange_status := os_exchange_status current,
             os_exchange_status_history := os_exchange_status_history current,
             os_submitted_ts := os_submitted_ts current,
             os_last_exchange_update_ts := os_last_exchange_update_ts current,
             os_cancellation_requested_ts := os_cancellation_requested_ts current,
             os_canceled_ts := os_canceled_ts current,
             os_filled_qty := os_filled_qty current,
             os_average_fill_price := os_average_fill_price current,
             os_fees := os_fees current,
             os_cancel_reason := os_cancel_reason current,
             os_execution_error := os_execution_error current,
             os_submission_payload := os_submission_payload current\<rparr>) None)"

definition order_state_with_intent_context :: "order_state \<Rightarrow> order_intent \<Rightarrow> order_state" where
  "order_state_with_intent_context order intent = order
     \<lparr>os_execution_chain_id := str_or (os_execution_chain_id order) (oi_execution_chain_id intent),
      os_execution_attempt_id := str_or (os_execution_attempt_id order) (oi_execution_attempt_id intent),
      os_leg_intent_id := str_or (os_leg_intent_id order) (oi_leg_intent_id intent),
      os_reduce_only := effective_reduce_only_for_intent intent,
      os_close_only := effective_close_only_for_intent intent,
      os_td_mode := oi_td_mode intent,
      os_position_mode := oi_position_mode intent,
      os_pos_side := oi_pos_side intent,
      os_reduce_only_reason := oi_reduce_only_reason intent,
      os_close_only_reason := oi_close_only_reason intent,
      os_instrument_family := oi_instrument_family intent,
      os_settle_currency := oi_settle_currency intent,
      os_strategy_family := oi_strategy_family intent,
      os_strategy_sleeve_id := oi_strategy_sleeve_id intent,
      os_allocation_id := oi_allocation_id intent,
      os_strategy_bundle_id := oi_strategy_bundle_id intent,
      os_strategy_leg_role := oi_strategy_leg_role intent,
      os_strategy_pair_id := oi_strategy_pair_id intent,
      os_strategy_opportunity_kind := oi_strategy_opportunity_kind intent,
      os_strategy_execution_mode := oi_strategy_execution_mode intent,
      os_strategy_state_phase := oi_strategy_state_phase intent,
      os_product_type := oi_product_type intent,
      os_target_leverage := oi_target_leverage intent,
      os_margin_mode := oi_margin_mode intent,
      os_exposure_side := oi_exposure_side intent,
      os_execution_action := oi_execution_action intent,
      os_leg_action := oi_leg_action intent,
      os_position_intent := oi_position_intent intent,
      os_market_snapshot_ref := oi_market_snapshot_ref intent,
      os_feature_snapshot_ref := oi_feature_snapshot_ref intent,
      os_portfolio_snapshot_ref := oi_portfolio_snapshot_ref intent,
      os_health_snapshot_ref := oi_health_snapshot_ref intent\<rparr>"

definition fill_with_intent_context :: "fill_event \<Rightarrow> order_intent \<Rightarrow> fill_event" where
  "fill_with_intent_context fill intent = fill
     \<lparr>fl_execution_chain_id := str_or (fl_execution_chain_id fill) (oi_execution_chain_id intent),
      fl_execution_attempt_id := str_or (fl_execution_attempt_id fill) (oi_execution_attempt_id intent),
      fl_leg_intent_id := str_or (fl_leg_intent_id fill) (oi_leg_intent_id intent),
      fl_reduce_only := effective_reduce_only_for_intent intent,
      fl_close_only := effective_close_only_for_intent intent,
      fl_td_mode := oi_td_mode intent,
      fl_position_mode := oi_position_mode intent,
      fl_pos_side := oi_pos_side intent,
      fl_reduce_only_reason := oi_reduce_only_reason intent,
      fl_close_only_reason := oi_close_only_reason intent,
      fl_instrument_family := oi_instrument_family intent,
      fl_settle_currency := oi_settle_currency intent,
      fl_strategy_family := oi_strategy_family intent,
      fl_strategy_sleeve_id := oi_strategy_sleeve_id intent,
      fl_allocation_id := oi_allocation_id intent,
      fl_strategy_bundle_id := oi_strategy_bundle_id intent,
      fl_strategy_leg_role := oi_strategy_leg_role intent,
      fl_strategy_pair_id := oi_strategy_pair_id intent,
      fl_strategy_opportunity_kind := oi_strategy_opportunity_kind intent,
      fl_strategy_execution_mode := oi_strategy_execution_mode intent,
      fl_strategy_state_phase := oi_strategy_state_phase intent,
      fl_product_type := oi_product_type intent,
      fl_target_leverage := oi_target_leverage intent,
      fl_margin_mode := oi_margin_mode intent,
      fl_exposure_side := oi_exposure_side intent,
      fl_execution_action := oi_execution_action intent,
      fl_leg_action := oi_leg_action intent,
      fl_position_intent := oi_position_intent intent,
      fl_market_snapshot_ref := oi_market_snapshot_ref intent,
      fl_feature_snapshot_ref := oi_feature_snapshot_ref intent,
      fl_portfolio_snapshot_ref := oi_portfolio_snapshot_ref intent,
      fl_health_snapshot_ref := oi_health_snapshot_ref intent\<rparr>"

text \<open>A raising adapter leaves a \<^verbatim>\<open>FAILED\<close> order with the text of the exception.\<close>

definition adapter_outcome ::
  "manager_env \<Rightarrow> order_intent \<Rightarrow> string \<Rightarrow> leg_order_intent option \<Rightarrow> order_state \<times> fill_event list" where
  "adapter_outcome env intent client_order_id leg_intent =
     (case (case leg_intent of
              Some leg \<Rightarrow> ad_submit_leg_order (me_adapter env) leg
            | None \<Rightarrow> ad_submit (me_adapter env) intent) of
        Inr result \<Rightarrow> result
      | Inl exc \<Rightarrow>
          ((order_state_from_intent (me_now env) (env_venue env) intent client_order_id FAILED ''adapter_exception'')
             \<lparr>os_submitted_ts := Some (me_now env), os_cancel_reason := Some exc, os_execution_error := Some exc\<rparr>, []))"

definition fill_for_order :: "order_state \<Rightarrow> fill_event \<Rightarrow> fill_event" where
  "fill_for_order order fill =
     (if fl_client_order_id fill = os_client_order_id order then fill
      else fill
        \<lparr>fl_client_order_id := os_client_order_id order,
         fl_execution_attempt_id := str_or (os_execution_attempt_id order)
           (execution_attempt_id_from_components None (Some (os_client_order_id order)) (os_execution_chain_id order)
             (Some (os_intent_id order)))\<rparr>)"

definition submit_single_order_intent ::
  "manager_env \<Rightarrow> order_intent \<Rightarrow> string \<Rightarrow> leg_order_intent option \<Rightarrow> order_state run" where
  "submit_single_order_intent env intent client_order_id leg_intent =
     (let (order, fills) = adapter_outcome env intent client_order_id leg_intent;
          order = order_state_with_intent_context order intent;
          fills = map (\<lambda>fill. fill_with_intent_context fill intent) fills
      in mbind (persist_order_state env order (Some intent)) (\<lambda>persisted.
         mbind (mfor (\<lambda>fill. persist_fill env (fill_for_order persisted fill)) fills) (\<lambda>_.
         mbind (finalize_obligation env persisted) (\<lambda>_. mret persisted))))"

section \<open>Exits in slices\<close>

definition EXIT_SPLIT_MAX_CHILDREN :: nat where "EXIT_SPLIT_MAX_CHILDREN = 32"

definition risk_reducing_max_order_quantity_limit :: "manager_env \<Rightarrow> order_intent \<Rightarrow> decimal option" where
  "risk_reducing_max_order_quantity_limit env intent =
     (if \<not> is_risk_reducing_order_intent intent then None
      else case ad_max_order_quantity_limit (me_adapter env) of
        None \<Rightarrow> None
      | Some provider \<Rightarrow> (case provider intent of Inr (Some limit) \<Rightarrow> Some (max limit 0) | _ \<Rightarrow> None))"

definition serial_exit_split_limit :: "manager_env \<Rightarrow> order_intent \<Rightarrow> decimal option" where
  "serial_exit_split_limit env intent =
     (case risk_reducing_max_order_quantity_limit env intent of
        None \<Rightarrow> None
      | Some limit \<Rightarrow> if dsub (oi_quantity intent) limit \<le> EPSILON_DECIMAL_12 then None else Some limit)"

definition parent_exit_execution_intent :: "order_manager \<Rightarrow> order_intent \<Rightarrow> exit_execution_intent option" where
  "parent_exit_execution_intent m intent =
     (let chain_id = py_strip (chain_or_intent (oi_execution_chain_id intent) (oi_intent_id intent))
      in case om_exits m of
        None \<Rightarrow> None
      | Some repo \<Rightarrow> if chain_id = [] then None else get_exit_execution_intent_by_execution_chain repo chain_id)"

definition should_continue_serial_exit_split :: "order_state \<Rightarrow> exit_execution_intent option \<Rightarrow> nat \<Rightarrow> bool" where
  "should_continue_serial_exit_split child_state parent slice_index =
     (if EXIT_SPLIT_MAX_CHILDREN \<le> slice_index then False
      else if \<not> is_terminal (os_status child_state) then False
      else if os_status child_state \<in> {FAILED, REJECTED, BLOCKED} then False
      else if is_unknown_write_state child_state then False
      else case parent of
        None \<Rightarrow> False
      | Some p \<Rightarrow>
          if ei_operator_review_required p
             \<or> ei_aggregate_status p \<in> {REVIEW_REQUIRED, PCANCEL_PENDING, FAILED_SAFE} then False
          else if ei_remaining_dispatchable_quantity p \<le> EPSILON_DECIMAL_12 then False
          else EPSILON_DECIMAL_12 < os_filled_qty child_state \<or> os_status child_state = FILLED)"

definition split_child_intent ::
  "order_intent \<Rightarrow> leg_order_intent option \<Rightarrow> decimal \<Rightarrow> nat \<Rightarrow> order_intent \<times> leg_order_intent option" where
  "split_child_intent intent leg_intent quantity slice_index =
     (if slice_index \<le> 1
      then (intent\<lparr>oi_quantity := quantity\<rparr>, map_option (\<lambda>leg. leg\<lparr>li_quantity := quantity\<rparr>) leg_intent)
      else
        let suffix = '':slice:'' @ nat_str slice_index
        in (intent\<lparr>oi_intent_id := oi_intent_id intent @ suffix, oi_quantity := quantity,
                   oi_idempotency_key := oi_idempotency_key intent @ suffix, oi_execution_attempt_id := None\<rparr>,
            map_option (\<lambda>leg. leg\<lparr>li_leg_intent_id := li_leg_intent_id leg @ suffix, li_quantity := quantity,
                   li_idempotency_key := li_idempotency_key leg @ suffix, li_execution_attempt_id := None\<rparr>) leg_intent))"

definition derived_client_order_id :: "manager_env \<Rightarrow> order_intent \<Rightarrow> string" where
  "derived_client_order_id env intent =
     text_or_empty (str_or (str_or (case ad_preview_client_order_id (me_adapter env) of Some f \<Rightarrow> f intent | None \<Rightarrow> None)
       (Some (oi_idempotency_key intent))) (Some (me_fresh_id env)))"

definition anchor_or :: "string \<Rightarrow> order_state option \<Rightarrow> order_state run" where
  "anchor_or client_order_id last_state m =
     (case last_state of
        Some s \<Rightarrow> (m, Inr s)
      | None \<Rightarrow> (case get_order_state (om_repo m) client_order_id of
                  Some anchor \<Rightarrow> (m, Inr anchor)
                | None \<Rightarrow> (m, Inl MissingAnchorState)))"

text \<open>The loop over the slice indexes that are left.\<close>

fun split_loop ::
  "manager_env \<Rightarrow> order_intent \<Rightarrow> string \<Rightarrow> leg_order_intent option \<Rightarrow> decimal \<Rightarrow> nat \<Rightarrow> nat list \<Rightarrow> order_state option
   \<Rightarrow> order_state run" where
  "split_loop env intent client_order_id leg_intent split_limit start [] last_state m =
     anchor_or client_order_id last_state m"
| "split_loop env intent client_order_id leg_intent split_limit start (slice_index # rest) last_state m =
     (let parent = parent_exit_execution_intent m intent;
          first = (slice_index = start \<and> start \<le> 1);
          remaining_quantity = (if first then max (oi_quantity intent) 0
            else case parent of Some p \<Rightarrow> ei_remaining_dispatchable_quantity p | None \<Rightarrow> max (oi_quantity intent) 0);
          child_quantity = min split_limit remaining_quantity;
          (child_intent, child_leg_intent) = split_child_intent intent leg_intent child_quantity slice_index;
          child_client_order_id = (if first then client_order_id else derived_client_order_id env child_intent);
          (child_intent, child_leg_intent) =
            apply_execution_attempt_id child_intent child_client_order_id child_leg_intent
      in if (case parent of None \<Rightarrow> False
             | Some p \<Rightarrow> ei_operator_review_required p
                 \<or> ei_aggregate_status p \<in> {PCANCEL_PENDING, COMPLETED, PCANCELED, FAILED_SAFE, REVIEW_REQUIRED})
         then anchor_or client_order_id last_state m
         else if remaining_quantity \<le> EPSILON_DECIMAL_12 then anchor_or client_order_id last_state m
         else if child_quantity \<le> EPSILON_DECIMAL_12 then anchor_or client_order_id last_state m
         else
           mbind (if start < slice_index \<or> 1 < start
                  then mbind (persist_submitting_state_for_intent env child_intent child_client_order_id) (\<lambda>_. mret ())
                  else mret ()) (\<lambda>_.
           mbind (submit_single_order_intent env child_intent child_client_order_id child_leg_intent) (\<lambda>child_state m.
             if should_continue_serial_exit_split child_state (parent_exit_execution_intent m intent) slice_index
             then split_loop env intent client_order_id leg_intent split_limit start rest (Some child_state) m
             else (m, Inr child_state))) m)"

definition execute_serial_exit_split ::
  "manager_env \<Rightarrow> order_intent \<Rightarrow> string \<Rightarrow> leg_order_intent option \<Rightarrow> decimal \<Rightarrow> nat \<Rightarrow> order_state run" where
  "execute_serial_exit_split env intent client_order_id leg_intent split_limit start m =
     (let last_state = get_order_state (om_repo m) client_order_id
      in if split_limit \<le> EPSILON_DECIMAL_12 then anchor_or client_order_id last_state m
         else split_loop env intent client_order_id leg_intent split_limit start
                [start ..< EXIT_SPLIT_MAX_CHILDREN + 1] last_state m)"

section \<open>Cancelling\<close>

definition cancel_pending_submit_before_exchange_ack :: "manager_env \<Rightarrow> order_state \<Rightarrow> order_state option run" where
  "cancel_pending_submit_before_exchange_ack env order m =
     (let submit_command = me_submit_command env m order;
          command_state = map_option (py_upper \<circ> snd) submit_command
      in if \<not> me_persistent env then (m, Inr None)
         else if os_exchange_order_id order \<noteq> None then (m, Inr None)
         else if os_status order \<notin> {CREATED, SUBMITTING, CANCEL_PENDING} then (m, Inr None)
         else if submit_command \<noteq> None
                 \<and> command_state \<notin> {Some ''PENDING'', Some ''ACKED'', Some ''FAILED''} then (m, Inr None)
         else
           let m' = (case submit_command of
                  Some (command_id, _) \<Rightarrow> if command_state = Some ''PENDING''
                    then m\<lparr>om_abandoned_commands := om_abandoned_commands m @ [command_id]\<rparr> else m
                | None \<Rightarrow> m);
               canceled = order
                 \<lparr>os_status := CANCELED,
                  os_canceled_ts := Some (me_now env),
                  os_last_update_ts := Some (me_now env),
                  os_cancel_reason := str_or (os_cancel_reason order) (Some ''operator_cancel_before_submit''),
                  os_execution_error := None\<rparr>
           in mbind (persist_order_state env canceled None) (\<lambda>persisted.
              mbind (finalize_obligation env persisted) (\<lambda>_. mret (Some persisted))) m')"

definition cancel_pending_state :: "manager_env \<Rightarrow> order_state \<Rightarrow> order_state" where
  "cancel_pending_state env order = order
     \<lparr>os_status := CANCEL_PENDING, os_cancellation_requested_ts := Some (me_now env),
      os_last_update_ts := Some (me_now env)\<rparr>"

definition execute_cancel_from_state :: "manager_env \<Rightarrow> order_state \<Rightarrow> order_state run" where
  "execute_cancel_from_state env order =
     mbind (cancel_pending_submit_before_exchange_ack env order) (\<lambda>canceled. case canceled of
       Some c \<Rightarrow> mret c
     | None \<Rightarrow>
         mbind (if os_status order \<noteq> CANCEL_PENDING
                then persist_order_state env (cancel_pending_state env order) None
                else mret order) (\<lambda>current.
         mbind (cancel_pending_submit_before_exchange_ack env current) (\<lambda>canceled. case canceled of
           Some c \<Rightarrow> mret c
         | None \<Rightarrow>
             (case ad_cancel (me_adapter env) current of
                Inl exc \<Rightarrow> mraise (AdapterRaised exc)
              | Inr (state, fills) \<Rightarrow>
                  mbind (persist_order_state env state None) (\<lambda>persisted.
                  mbind (mfor (persist_fill env) fills) (\<lambda>_.
                  mbind (finalize_obligation env persisted) (\<lambda>_. mret persisted)))))))"

definition resolve_order_state_for_control :: "manager_env \<Rightarrow> order_manager \<Rightarrow> string \<Rightarrow> order_state option" where
  "resolve_order_state_for_control env m client_order_id =
     (case get_order_state (om_repo m) client_order_id of
        Some current \<Rightarrow> Some current
      | None \<Rightarrow> me_execution_row env client_order_id)"

definition cancel_order :: "manager_env \<Rightarrow> string \<Rightarrow> order_state run" where
  "cancel_order env client_order_id m =
     (case resolve_order_state_for_control env m client_order_id of
        None \<Rightarrow> (m, Inl (OrderStateNotFound client_order_id))
      | Some current \<Rightarrow>
          if is_terminal (os_status current) then (m, Inr current)
          else mbind (cancel_pending_submit_before_exchange_ack env current) (\<lambda>canceled. case canceled of
            Some c \<Rightarrow> mret c
          | None \<Rightarrow>
              mbind (persist_order_state env (cancel_pending_state env current) None) (\<lambda>persisted_pending m.
                if me_persistent env
                then (m\<lparr>om_enqueued_cancels := om_enqueued_cancels m @ [(persisted_pending, ''operator_requested_cancel'')]\<rparr>,
                      Inr persisted_pending)
                else execute_cancel_from_state env persisted_pending m)) m)"

definition process_cancel_command :: "manager_env \<Rightarrow> string \<Rightarrow> order_state run" where
  "process_cancel_command env client_order_id m =
     (case resolve_order_state_for_control env m client_order_id of
        None \<Rightarrow> (m, Inl (OrderStateNotFound client_order_id))
      | Some current \<Rightarrow>
          if is_terminal (os_status current) then (m, Inr current)
          else execute_cancel_from_state env current m)"

section \<open>Post-only orders with a fallback\<close>

definition intent_signals_post_only :: "order_intent \<Rightarrow> bool" where
  "intent_signals_post_only intent \<longleftrightarrow> norm_str (oi_execution_style intent) = ''post_only''"

definition build_post_only_fallback_intent ::
  "manager_env \<Rightarrow> order_intent \<Rightarrow> leg_order_intent option \<Rightarrow> decimal
   \<Rightarrow> manager_error + (order_intent \<times> leg_order_intent option)" where
  "build_post_only_fallback_intent env original_intent original_leg_intent remaining_qty =
     (let fallback_mode = norm_str (me_post_only_fallback_mode env);
          fallback_mode = (if fallback_mode = [] then ''bounded_taker'' else fallback_mode);
          suffix = '':pof''
      in if fallback_mode \<noteq> ''bounded_taker'' then Inl (UnsupportedFallbackMode fallback_mode)
         else Inr (original_intent
             \<lparr>oi_intent_id := oi_intent_id original_intent @ suffix, oi_quantity := remaining_qty,
              oi_execution_style := ''bounded_taker_cap'', oi_order_type := Market, oi_time_in_force := ''IOC'',
              oi_limit_price := None, oi_idempotency_key := oi_idempotency_key original_intent @ suffix,
              oi_execution_attempt_id := None\<rparr>,
           map_option (\<lambda>leg. leg
             \<lparr>li_leg_intent_id := li_leg_intent_id leg @ suffix, li_quantity := remaining_qty,
              li_execution_style := ''bounded_taker_cap'', li_order_type := Market, li_time_in_force := ''IOC'',
              li_limit_price := None, li_idempotency_key := li_idempotency_key leg @ suffix,
              li_execution_attempt_id := None\<rparr>) original_leg_intent))"

type_synonym submit_fn = "order_intent \<Rightarrow> string \<Rightarrow> leg_order_intent option \<Rightarrow> order_state run"

text \<open>\<open>submit\<close> is the recursive call of \<^verbatim>\<open>_execute_submit_intent\<close>.\<close>

definition submit_post_only_fallback ::
  "manager_env \<Rightarrow> submit_fn \<Rightarrow> order_intent \<Rightarrow> leg_order_intent option \<Rightarrow> decimal \<Rightarrow> order_state run" where
  "submit_post_only_fallback env submit original_intent original_leg_intent remaining_qty =
     (case build_post_only_fallback_intent env original_intent original_leg_intent remaining_qty of
        Inl e \<Rightarrow> mraise e
      | Inr (fallback_intent, fallback_leg_intent) \<Rightarrow>
          submit fallback_intent (derived_client_order_id env fallback_intent) fallback_leg_intent)"

definition execute_post_only_with_timeout_fallback ::
  "manager_env \<Rightarrow> submit_fn \<Rightarrow> order_intent \<Rightarrow> string \<Rightarrow> leg_order_intent option \<Rightarrow> order_state run" where
  "execute_post_only_with_timeout_fallback env submit intent client_order_id leg_intent =
     mbind (submit_single_order_intent env intent client_order_id leg_intent) (\<lambda>post_only_state m.
       if is_terminal (os_status post_only_state)
       then (if os_status post_only_state \<in> {REJECTED, FAILED}
             then submit_post_only_fallback env submit intent leg_intent
                    (if os_remaining_qty post_only_state \<noteq> 0 then os_remaining_qty post_only_state
                     else oi_quantity intent) m
             else (m, Inr post_only_state))
       else
         let m = me_during_timeout env m;
             refreshed = (case get_order_state (om_repo m) client_order_id of Some s \<Rightarrow> s | None \<Rightarrow> post_only_state);
             remaining_qty = max (os_remaining_qty refreshed) 0
         in if is_terminal (os_status refreshed) then (m, Inr refreshed)
            else if remaining_qty \<le> EPSILON_DECIMAL_12 then (m, Inr refreshed)
            else (case cancel_order env client_order_id m of
              (m, Inl _) \<Rightarrow> (m, Inr refreshed)
            | (m, Inr canceled) \<Rightarrow>
                let post_cancel_remaining = max (os_remaining_qty canceled) 0
                in if post_cancel_remaining \<le> EPSILON_DECIMAL_12 then (m, Inr canceled)
                   else submit_post_only_fallback env submit intent leg_intent post_cancel_remaining m))"

definition execute_submit_intent_with :: "manager_env \<Rightarrow> submit_fn \<Rightarrow> submit_fn" where
  "execute_submit_intent_with env submit intent client_order_id leg_intent =
     (let (intent, leg_intent) = apply_execution_attempt_id intent client_order_id leg_intent
      in mbind (persist_submitting_state_for_intent env intent client_order_id) (\<lambda>_.
         if intent_signals_post_only intent
         then execute_post_only_with_timeout_fallback env submit intent client_order_id leg_intent
         else case serial_exit_split_limit env intent of
           Some split_limit \<Rightarrow> execute_serial_exit_split env intent client_order_id leg_intent split_limit 1
         | None \<Rightarrow> submit_single_order_intent env intent client_order_id leg_intent))"

text \<open>
  \<^verbatim>\<open>_execute_submit_intent\<close> calls itself only for the fallback of a post-only intent, which is
  not post-only: unfolding the call once gives the recursive function.
\<close>

definition execute_submit_intent :: "manager_env \<Rightarrow> submit_fn" where
  "execute_submit_intent env =
     execute_submit_intent_with env (execute_submit_intent_with env (\<lambda>_ _ _. mraise MissingAnchorState))"

end
