(* ===== verification/Order_Intake.thy ===== *)
theory Order_Intake
  imports Order_Manager
begin

text \<open>
  The entry points of the order manager: an order intent from the bus or a leg order, the submit
  command the manager or its command worker executes, the synchronisation with the exchange that
  refreshes and resumes the exits in slices, and the operator's controls of an exit. A handler
  runs from its first to its last step without another one in between: the reservation lock and
  the symbol lock of the source order the intake of intents that way.
\<close>

section \<open>The submit command\<close>

definition lift_guard :: "guard_error + 'a \<Rightarrow> 'a run" where
  "lift_guard r m = (m, case r of Inl e \<Rightarrow> Inl (GuardRaised e) | Inr a \<Rightarrow> Inr a)"

definition missing_idempotency_key :: "order_intent \<Rightarrow> bool" where
  "missing_idempotency_key intent \<longleftrightarrow> py_strip (oi_idempotency_key intent) = []"

definition missing_key_state :: "manager_env \<Rightarrow> order_intent \<Rightarrow> order_state" where
  "missing_key_state env intent =
     blocked_order_state_from_intent (me_now env) (env_venue env) intent
       (if oi_intent_id intent \<noteq> [] then oi_intent_id intent else me_fresh_id env)
       ''blocked_missing_idempotency_key'' ''missing_idempotency_key''"

text \<open>
  The four guards in the order of the source, before a submission and before its execution. A
  guard that stops the intent gives the order state to store and whether the intent is passed on
  to the exit execution; otherwise the intent goes on with the context of the leg risk decision.
\<close>

datatype guard_outcome =
    GuardBlocked order_state "order_intent option"
  | GuardPassed order_intent "leg_order_intent option"

definition submit_guards ::
  "manager_env \<Rightarrow> exec_repo \<Rightarrow> order_intent \<Rightarrow> string \<Rightarrow> leg_order_intent option \<Rightarrow> guard_error + guard_outcome" where
  "submit_guards env repo intent client_order_id leg_intent =
     (case semantic_duplicate_snapshot_submit_block (me_now env) (env_venue env) repo intent client_order_id of
        Some block \<Rightarrow> Inr (GuardBlocked block (Some intent))
      | None \<Rightarrow>
          ebind (risk_increase_convergence_submit_block (me_now env) (env_venue env) repo intent client_order_id)
            (\<lambda>convergence_block. case convergence_block of
               Some block \<Rightarrow> Inr (GuardBlocked block (Some intent))
             | None \<Rightarrow>
                 (case apply_leg_submit_guards (me_now env) (env_venue env) (me_settings env)
                         (me_leg_risk_evaluator env) intent client_order_id leg_intent of
                    (intent, leg_intent, Some block) \<Rightarrow> Inr (GuardBlocked block None)
                  | (intent, leg_intent, None) \<Rightarrow>
                      (case unknown_write_submit_block (me_now env) (env_venue env) (me_set_order env) repo intent
                              client_order_id of
                         Some block \<Rightarrow> Inr (GuardBlocked block None)
                       | None \<Rightarrow> Inr (GuardPassed intent leg_intent)))))"

definition execute_resolved_submit ::
  "manager_env \<Rightarrow> order_intent \<Rightarrow> string \<Rightarrow> leg_order_intent option \<Rightarrow> order_state run" where
  "execute_resolved_submit env intent client_order_id leg_intent m =
     (let (intent, leg_intent) = apply_execution_attempt_id intent client_order_id leg_intent
      in mbind (lift_guard (submit_guards env (om_repo m) intent client_order_id leg_intent)) (\<lambda>outcome. case outcome of
           GuardBlocked block for_exit \<Rightarrow> persist_order_state env block for_exit
         | GuardPassed intent leg_intent \<Rightarrow> execute_submit_intent env intent client_order_id leg_intent) m)"

definition process_submit_command ::
  "manager_env \<Rightarrow> order_intent \<Rightarrow> string option \<Rightarrow> leg_order_intent option \<Rightarrow> order_state run" where
  "process_submit_command env intent client_order_id leg_intent m =
     (let resolved = text_or_empty (str_or (str_or client_order_id (Some (oi_idempotency_key intent))) (Some (me_fresh_id env)))
      in if client_order_id = None \<and> missing_idempotency_key intent
         then persist_order_state env (missing_key_state env intent) None m
         else case Option.bind client_order_id (get_order_state (om_repo m)) of
           Some current \<Rightarrow>
             if os_status current \<notin> {CREATED, SUBMITTING} then (m, Inr current)
             else execute_resolved_submit env intent resolved leg_intent m
         | None \<Rightarrow> execute_resolved_submit env intent resolved leg_intent m)"

section \<open>The intake of an intent\<close>

definition preview_reservation ::
  "manager_env \<Rightarrow> order_manager \<Rightarrow> order_intent \<Rightarrow> string \<Rightarrow> reservation_error + order_obligation option" where
  "preview_reservation env m intent client_order_id =
     (case me_obligation_service env of
        None \<Rightarrow> Inr None
      | Some inputs \<Rightarrow>
          preview_reservation_for_intent memory_repository (om_obligations m) (oin_snapshot_required inputs)
            (oin_loader inputs) (oin_price_provider inputs) (oin_taker_fee_bps_decimal inputs) (me_now env)
            (oin_obligation_id inputs) intent client_order_id)"

definition reservation_blocked_state :: "manager_env \<Rightarrow> order_intent \<Rightarrow> string \<Rightarrow> reservation_error \<Rightarrow> order_state" where
  "reservation_blocked_state env intent client_order_id exc =
     (order_state_from_intent (me_now env) (env_venue env) intent client_order_id BLOCKED ''local_order_manager'')
     \<lparr>os_execution_error := Some (me_reservation_error_text env exc)\<rparr>"

definition persist_previewed :: "manager_env \<Rightarrow> order_obligation option \<Rightarrow> unit run" where
  "persist_previewed env obligation =
     (if me_obligation_service env = None \<or> obligation = None then mret ()
      else with_obligations (\<lambda>obs. persist_previewed_obligation None memory_repository obs obligation))"

definition enqueue_failed_state :: "manager_env \<Rightarrow> order_state \<Rightarrow> string \<Rightarrow> order_state" where
  "enqueue_failed_state env created exc = created
     \<lparr>os_status := FAILED, os_submission_mode := ''phase2_enqueue_failed'', os_submitted_ts := Some (me_now env),
      os_last_update_ts := Some (me_now env), os_cancel_reason := Some exc, os_execution_error := Some exc\<rparr>"

text \<open>With the persistent order service the intent is only enqueued.\<close>

definition enqueue_submit :: "manager_env \<Rightarrow> order_intent \<Rightarrow> order_state \<Rightarrow> unit run" where
  "enqueue_submit env intent created m =
     (case me_enqueue_submit env intent (os_client_order_id created) of
        None \<Rightarrow> (m\<lparr>om_enqueued_submits := om_enqueued_submits m @ [(intent, os_client_order_id created)]\<rparr>, Inr ())
      | Some exc \<Rightarrow>
          mbind (persist_order_state env (enqueue_failed_state env created exc) None) (\<lambda>failed.
          mbind (finalize_obligation env failed) (\<lambda>_. mraise (EnqueueRaised exc))) m)"

definition dispatch_created_order ::
  "manager_env \<Rightarrow> order_intent \<Rightarrow> leg_order_intent option \<Rightarrow> order_state \<Rightarrow> unit run" where
  "dispatch_created_order env intent leg_intent created =
     (if me_persistent env then enqueue_submit env intent created
      else mbind (process_submit_command env intent (Some (os_client_order_id created)) leg_intent) (\<lambda>_. mret ()))"

definition execute_guarded_order_intent :: "manager_env \<Rightarrow> order_intent \<Rightarrow> leg_order_intent option \<Rightarrow> unit run" where
  "execute_guarded_order_intent env intent leg_intent m =
     (let client_order_id = derived_client_order_id env intent;
          (intent, leg_intent) = apply_execution_attempt_id intent client_order_id leg_intent
      in if has_intent (om_repo m) (oi_intent_id intent) then (m, Inr ())
         else
           mbind (lift_guard (submit_guards env (om_repo m) intent client_order_id leg_intent)) (\<lambda>outcome. case outcome of
             GuardBlocked block for_exit \<Rightarrow> mbind (persist_order_state env block for_exit) (\<lambda>_. mret ())
           | GuardPassed intent leg_intent \<Rightarrow> (\<lambda>m.
               case preview_reservation env m intent client_order_id of
                 Inl exc \<Rightarrow>
                   mbind (persist_order_state env (reservation_blocked_state env intent client_order_id exc) None)
                     (\<lambda>_. mret ()) m
               | Inr obligation \<Rightarrow>
                   mbind (persist_order_state env (created_order_state env intent client_order_id) (Some intent)) (\<lambda>created.
                   mbind (persist_previewed env obligation) (\<lambda>_.
                   dispatch_created_order env intent leg_intent created)) m)) m)"

definition handle_normalized_order_intent :: "manager_env \<Rightarrow> order_intent \<Rightarrow> leg_order_intent option \<Rightarrow> unit run" where
  "handle_normalized_order_intent env intent leg_intent m =
     (if missing_idempotency_key intent
      then mbind (persist_order_state env (missing_key_state env intent) (Some intent)) (\<lambda>_. mret ()) m
      else if has_intent (om_repo m) (oi_intent_id intent) then (m, Inr ())
      else if me_halted env
      then mbind (persist_order_state env
             (blocked_order_state_from_intent (me_now env) (env_venue env) intent (oi_idempotency_key intent)
               ''kill_switch_blocked'' ''kill_switch_active'') (Some intent)) (\<lambda>_. mret ()) m
      else case transient_close_retry_cooldown_state (me_now env) (env_venue env) (me_fresh_id env) (me_settings env)
                  (om_repo m) intent of
        Some cooldown \<Rightarrow> mbind (persist_order_state env cooldown None) (\<lambda>_. mret ()) m
      | None \<Rightarrow> execute_guarded_order_intent env intent leg_intent m)"

definition handle_order_intent :: "manager_env \<Rightarrow> order_intent \<Rightarrow> unit run" where
  "handle_order_intent env intent =
     handle_normalized_order_intent env intent (leg_intent_from_order_intent (me_now env) intent)"

definition submit_leg_order :: "manager_env \<Rightarrow> leg_order_intent \<Rightarrow> unit run" where
  "submit_leg_order env leg_intent =
     (case order_intent_from_leg_order_intent (me_now env) leg_intent of
        Inl e \<Rightarrow> mraise (LegRaised e)
      | Inr intent \<Rightarrow> handle_normalized_order_intent env intent (Some leg_intent))"

section \<open>Synchronising with the exchange\<close>

definition FILL_BACKFILL_RECENT_LIMIT :: nat where "FILL_BACKFILL_RECENT_LIMIT = 100"

definition FILL_BACKFILL_TERMINAL_STATUSES :: "order_status list" where
  "FILL_BACKFILL_TERMINAL_STATUSES = [FILLED, CANCELED, EXPIRED]"

text \<open>The open orders, those with an unknown write first, and the recent terminal orders that
  report a fill of which no fill event is stored. The dictionary keeps one order per client id:
  the last of the open ones, and a terminal one only when the id is not there yet.\<close>

definition add_backfill_candidate ::
  "exec_repo \<Rightarrow> (string \<times> order_state) list \<Rightarrow> order_state \<Rightarrow> (string \<times> order_state) list" where
  "add_backfill_candidate repo candidates state =
     (if os_filled_qty state \<le> EPSILON_DECIMAL_12 then candidates
      else if fills_for_order repo (os_client_order_id state) \<noteq> [] then candidates
      else if map_of candidates (os_client_order_id state) \<noteq> None then candidates
      else AList.update (os_client_order_id state) state candidates)"

definition sync_candidates :: "exec_repo \<Rightarrow> order_state list" where
  "sync_candidates repo =
     (let open_states = open_order_states repo;
          prioritized = filter is_unknown_write_state open_states
            @ filter (\<lambda>state. \<not> is_unknown_write_state state) open_states;
          candidates = foldl (\<lambda>acc state. AList.update (os_client_order_id state) state acc) [] prioritized
      in map snd (foldl (add_backfill_candidate repo) candidates
           (recent_order_states repo FILL_BACKFILL_RECENT_LIMIT (Some FILL_BACKFILL_TERMINAL_STATUSES))))"

definition fills_by_order :: "fill_event list \<Rightarrow> (string \<times> fill_event list) list" where
  "fills_by_order fills = foldl (\<lambda>acc fill.
     AList.update (fl_client_order_id fill) (dict_get acc (fl_client_order_id fill) [] @ [fill]) acc) [] fills"

fun persist_synced ::
  "manager_env \<Rightarrow> order_state list \<Rightarrow> (string \<times> fill_event list) list
   \<Rightarrow> (order_state list \<times> (string \<times> fill_event list) list) run" where
  "persist_synced env [] by_order = mret ([], by_order)"
| "persist_synced env (state # states) by_order =
     mbind (persist_order_state env state None) (\<lambda>persisted.
     mbind (mfor (persist_fill env) (dict_get by_order (os_client_order_id state) [])) (\<lambda>_.
     mbind (persist_synced env states (AList.delete (os_client_order_id state) by_order)) (\<lambda>(rest, left_over).
     mret (persisted # rest, left_over))))"

definition refresh_exits :: "manager_env \<Rightarrow> unit run" where
  "refresh_exits env m =
     (case om_exits m of
        None \<Rightarrow> (m, Inr ())
      | Some repo \<Rightarrow>
          (m\<lparr>om_exits := Some (fst (refresh_exit_execution_intents (me_now env) (me_isoformat env)
              (me_truth_settings env) (om_repo m) repo None))\<rparr>, Inr ()))"

definition resume_exit_execution_parent ::
  "manager_env \<Rightarrow> exit_execution_intent \<Rightarrow> order_state option run" where
  "resume_exit_execution_parent env parent m =
     (case (dispatch_template_from_parent parent, om_exits m) of
        (Some template, Some repo) \<Rightarrow>
          let stored = (case get_exit_execution_intent repo (ei_parent_intent_id parent) of
                Some p \<Rightarrow> p | None \<Rightarrow> parent);
              next_slice_index = length (child_refs_for_parent repo (ei_parent_intent_id stored)) + 1
          in if resume_block_reason stored \<noteq> None then (m, Inr None)
             else if EXIT_SPLIT_MAX_CHILDREN < next_slice_index then (m, Inr None)
             else (case me_model_validate env template (ei_remaining_dispatchable_quantity stored) of
               Inl e \<Rightarrow> (m, Inl (ValidationRaised e))
             | Inr intent \<Rightarrow>
                 let no_limit = mbind (save_exit_execution_parent (record_resume_issue (me_now env) (me_isoformat env)
                       stored ''resume_limit_lookup_failed'' (Some ''max_size_limit_unavailable''))) (\<lambda>_. mret None)
                 in (case risk_reducing_max_order_quantity_limit env intent of
                    None \<Rightarrow> no_limit m
                  | Some split_limit \<Rightarrow>
                      if split_limit \<le> EPSILON_DECIMAL_12 then no_limit m
                      else (case recompute_parent (me_now env) (\<lambda>p. clear_resume_issue (me_now env) p None) repo
                              (ei_parent_intent_id stored) of
                          Inl e \<Rightarrow> (m, Inl (ExitRaised e))
                        | Inr (repo', _) \<Rightarrow>
                            mbind (execute_serial_exit_split env intent (oi_idempotency_key intent) None split_limit
                              next_slice_index) (\<lambda>s. mret (Some s)) (m\<lparr>om_exits := Some repo'\<rparr>))))
      | _ \<Rightarrow> (m, Inr None))"

definition resume_exit_execution_after_sync :: "manager_env \<Rightarrow> unit run" where
  "resume_exit_execution_after_sync env m =
     (case om_exits m of
        None \<Rightarrow> (m, Inr ())
      | Some repo \<Rightarrow>
          mfor (\<lambda>parent. if resume_block_reason parent \<noteq> None then mret ()
              else mbind (resume_exit_execution_parent env parent) (\<lambda>_. mret ()))
            (sort_key (\<lambda>p. (dt_instant (ei_updated_at p), ei_parent_intent_id p)) (list_exit_execution_intents repo)) m)"

definition sync_exchange_state :: "manager_env \<Rightarrow> unit run" where
  "sync_exchange_state env m =
     (case ad_sync (me_adapter env) (sync_candidates (om_repo m)) of
        Inl exc \<Rightarrow> (m, Inl (AdapterRaised exc))
      | Inr (states, fills) \<Rightarrow>
          mbind (persist_synced env states (fills_by_order fills)) (\<lambda>(persisted, left_over).
          mbind (mfor (persist_fill env) (concat (map snd left_over))) (\<lambda>_.
          mbind (mfor (finalize_obligation env) persisted) (\<lambda>_.
          mbind (refresh_exits env) (\<lambda>_. resume_exit_execution_after_sync env)))) m)"

section \<open>The operator's controls of an exit\<close>

definition request_cancel_exit_intent :: "manager_env \<Rightarrow> string \<Rightarrow> exit_execution_intent run" where
  "request_cancel_exit_intent env parent_intent_id m =
     (case om_exits m of
        None \<Rightarrow> (m, Inl ExitRepoNotConfigured)
      | Some repo \<Rightarrow>
          (case recompute_parent (me_now env) (request_cancel_exit_execution_intent (me_now env)) repo parent_intent_id of
             Inl e \<Rightarrow> (m, Inl (ExitRaised e))
           | Inr (repo', parent) \<Rightarrow> (m\<lparr>om_exits := Some repo'\<rparr>, Inr parent)))"

definition stored_parent_or :: "string \<Rightarrow> exit_execution_intent \<Rightarrow> order_manager \<Rightarrow> exit_execution_intent" where
  "stored_parent_or parent_intent_id parent m =
     (case Option.bind (om_exits m) (\<lambda>repo. get_exit_execution_intent repo parent_intent_id) of
        Some p \<Rightarrow> p | None \<Rightarrow> parent)"

definition retry_exit_execution_limit_lookup ::
  "manager_env \<Rightarrow> string \<Rightarrow> (exit_execution_intent \<times> order_state option) run" where
  "retry_exit_execution_limit_lookup env parent_intent_id m =
     (if om_exits m = None then (m, Inl ExitRepoNotConfigured)
      else mbind (refresh_exits env) (\<lambda>_ m.
        case Option.bind (om_exits m) (\<lambda>repo. get_exit_execution_intent repo parent_intent_id) of
          None \<Rightarrow> (m, Inl (ExitRaised (ExitIntentNotFound parent_intent_id)))
        | Some parent \<Rightarrow>
            (case resume_block_reason parent of
               Some reason \<Rightarrow> (m, Inl (ResumeBlocked reason))
             | None \<Rightarrow>
                 mbind (resume_exit_execution_parent env parent) (\<lambda>dispatched m.
                   (m, Inr (stored_parent_or parent_intent_id parent m, dispatched))) m)) m)"

text \<open>Why a child of the exit was not cancelled.\<close>

datatype skipped_child = ChildNotFound string | ChildAlreadyTerminal string order_status

fun cancel_children ::
  "manager_env \<Rightarrow> string list \<Rightarrow> string list \<Rightarrow> (order_state list \<times> skipped_child list) run" where
  "cancel_children env seen [] = mret ([], [])"
| "cancel_children env seen (client_order_id # rest) =
     (if client_order_id = [] \<or> client_order_id \<in> set seen then cancel_children env seen rest
      else (\<lambda>m. case resolve_order_state_for_control env m client_order_id of
          None \<Rightarrow> mbind (cancel_children env (client_order_id # seen) rest) (\<lambda>(results, skipped).
              mret (results, ChildNotFound client_order_id # skipped)) m
        | Some current \<Rightarrow>
            if is_terminal (os_status current)
            then mbind (cancel_children env (client_order_id # seen) rest) (\<lambda>(results, skipped).
              mret (results, ChildAlreadyTerminal client_order_id (os_status current) # skipped)) m
            else mbind (cancel_order env client_order_id) (\<lambda>canceled.
              mbind (cancel_children env (client_order_id # seen) rest) (\<lambda>(results, skipped).
              mret (canceled # results, skipped))) m))"

definition safe_cancel_exit_intent ::
  "manager_env \<Rightarrow> string \<Rightarrow> (exit_execution_intent \<times> order_state list \<times> skipped_child list) run" where
  "safe_cancel_exit_intent env parent_intent_id m =
     (if om_exits m = None then (m, Inl ExitRepoNotConfigured)
      else mbind (refresh_exits env) (\<lambda>_.
        mbind (request_cancel_exit_intent env parent_intent_id) (\<lambda>parent.
        mbind (mget (\<lambda>m. case om_exits m of None \<Rightarrow> [] | Some repo \<Rightarrow>
            map (\<lambda>ref. py_strip (cr_client_order_id ref)) (child_refs_for_parent repo parent_intent_id))) (\<lambda>ids.
        mbind (cancel_children env [] ids) (\<lambda>(results, skipped) m.
          (m, Inr (stored_parent_or parent_intent_id parent m, results, skipped)))))) m)"

end
