(* ===== verification/Manager_Invariants.thy ===== *)
theory Manager_Invariants
  imports Order_Intake
begin

text \<open>
  What every handler of the order manager preserves. \<open>store_invariant\<close> is the contract of a
  predicate that storing an order state and updating the exits preserve,
  \<open>submission_invariant\<close> extends it by storing a fill and by consuming and finalizing an
  obligation, \<open>manager_invariant\<close> by the reservation and the entries of the queues. Inside
  the locales every handler is shown to preserve it, whether it returns or raises and
  whatever the adapter answers; what happens to the manager during a post-only timeout is the
  only thing left to the environment. It is interpreted on the intents the repository knows and on
  the repositories that saves can build.
\<close>

definition preserves :: "(order_manager \<Rightarrow> bool) \<Rightarrow> 'a run \<Rightarrow> bool" where
  "preserves P f \<longleftrightarrow> (\<forall>m. P m \<longrightarrow> P (fst (f m)))"

named_theorems preserves_rules

lemma preservesI: "(\<And>m. P m \<Longrightarrow> P (fst (f m))) \<Longrightarrow> preserves P f"
  by (simp add: preserves_def)

lemma preservesD: "preserves P f \<Longrightarrow> P m \<Longrightarrow> P (fst (f m))"
  by (simp add: preserves_def)

lemma preserves_mret [preserves_rules]: "preserves P (mret a)"
  by (simp add: preserves_def mret_def)

lemma preserves_mraise [preserves_rules]: "preserves P (mraise e)"
  by (simp add: preserves_def mraise_def)

lemma preserves_mget [preserves_rules]: "preserves P (mget f)"
  by (simp add: preserves_def mget_def)

lemma preserves_lift_exit [preserves_rules]: "preserves P (lift_exit r)"
  by (simp add: preserves_def lift_exit_def)

lemma preserves_lift_guard [preserves_rules]: "preserves P (lift_guard r)"
  by (simp add: preserves_def lift_guard_def)

lemma preserves_anchor_or [preserves_rules]: "preserves P (anchor_or c s)"
  by (auto simp: preserves_def anchor_or_def split: option.split)

lemma preserves_mbind [preserves_rules]:
  assumes "preserves P f" "\<And>a. preserves P (g a)"
  shows "preserves P (mbind f g)"
proof (rule preservesI)
  fix m assume "P m"
  with assms(1) have "P (fst (f m))" by (rule preservesD)
  with assms(2) show "P (fst (mbind f g m))"
    by (auto simp: mbind_def preserves_def split: prod.split sum.split)
qed

lemma preserves_mfor [preserves_rules]: "(\<And>x. preserves P (f x)) \<Longrightarrow> preserves P (mfor f xs)"
  by (induction xs) (simp_all add: preserves_rules)

lemma preserves_if [preserves_rules]:
  "(b \<Longrightarrow> preserves P f) \<Longrightarrow> (\<not> b \<Longrightarrow> preserves P g) \<Longrightarrow> preserves P (if b then f else g)"
  by simp

lemma preserves_option [preserves_rules]:
  "(x = None \<Longrightarrow> preserves P f) \<Longrightarrow> (\<And>a. x = Some a \<Longrightarrow> preserves P (g a)) \<Longrightarrow> preserves P (case x of None \<Rightarrow> f | Some a \<Rightarrow> g a)"
  by (cases x) simp_all

lemma preserves_sum [preserves_rules]:
  "(\<And>a. preserves P (f a)) \<Longrightarrow> (\<And>b. preserves P (g b)) \<Longrightarrow> preserves P (case x of Inl a \<Rightarrow> f a | Inr b \<Rightarrow> g b)"
  by (cases x) simp_all

lemma preserves_prod [preserves_rules]: "(\<And>a b. preserves P (f a b)) \<Longrightarrow> preserves P (case x of (a, b) \<Rightarrow> f a b)"
  by (cases x) simp

lemma preserves_guard_outcome [preserves_rules]:
  "(\<And>a b. preserves P (f a b)) \<Longrightarrow> (\<And>a b. preserves P (g a b)) \<Longrightarrow>
   preserves P (case x of GuardBlocked a b \<Rightarrow> f a b | GuardPassed a b \<Rightarrow> g a b)"
  by (cases x) simp_all

text \<open>The same for a handler that is applied to the manager it reads.\<close>

lemma kept_pair: "P m \<Longrightarrow> P (fst (m, r))"
  by simp

lemma kept_if: "(b \<Longrightarrow> P (fst x)) \<Longrightarrow> (\<not> b \<Longrightarrow> P (fst y)) \<Longrightarrow> P (fst (if b then x else y))"
  by simp

lemma kept_option:
  "(x = None \<Longrightarrow> P (fst f)) \<Longrightarrow> (\<And>a. x = Some a \<Longrightarrow> P (fst (g a))) \<Longrightarrow> P (fst (case x of None \<Rightarrow> f | Some a \<Rightarrow> g a))"
  by (cases x) simp_all

lemma kept_sum:
  "(\<And>a. x = Inl a \<Longrightarrow> P (fst (f a))) \<Longrightarrow> (\<And>b. x = Inr b \<Longrightarrow> P (fst (g b))) \<Longrightarrow> P (fst (case x of Inl a \<Rightarrow> f a | Inr b \<Rightarrow> g b))"
  by (cases x) simp_all

lemma kept_prod: "P (fst (f (fst x) (snd x))) \<Longrightarrow> P (fst (case x of (a, b) \<Rightarrow> f a b))"
  by (cases x) simp


lemma kept_mbind: "P m \<Longrightarrow> preserves P f \<Longrightarrow> (\<And>a. preserves P (g a)) \<Longrightarrow> P (fst (mbind f g m))"
  by (intro preservesD[of P] preserves_mbind)

lemma kept_mfor: "P m \<Longrightarrow> (\<And>x. preserves P (f x)) \<Longrightarrow> P (fst (mfor f xs m))"
  by (intro preservesD[of P] preserves_mfor)

lemmas kept_anchor_or = preserves_anchor_or[THEN preservesD]

text \<open>What happens while a post-only order waits.\<close>

definition timeouts_keep :: "(order_manager \<Rightarrow> bool) \<Rightarrow> manager_env \<Rightarrow> bool" where
  "timeouts_keep P env \<longleftrightarrow> (\<forall>m. P m \<longrightarrow> P (me_during_timeout env m))"

text \<open>The writes of \<^verbatim>\<open>_persist_order_state\<close>: an order of the repository and the exits.\<close>

locale store_invariant =
  fixes P :: "order_manager \<Rightarrow> bool"
  assumes saved_order: "save_order_state (om_repo m) s = Inr out \<Longrightarrow> P m
      \<Longrightarrow> P (m\<lparr>om_repo := fst out, om_events := events\<rparr>)"
    and exits_written: "P m \<Longrightarrow> P (m\<lparr>om_exits := exits\<rparr>)"
begin

lemmas steps = kept_pair[where P = P] kept_if[where P = P] kept_option[where P = P] kept_sum[where P = P]
  kept_prod[where P = P] kept_mbind[where P = P] kept_mfor[where P = P]
  kept_anchor_or[where P = P] preservesI[of P]

lemma preserves_store_order_state [preserves_rules]: "preserves P (store_order_state s)"
  by (rule preservesI, unfold store_order_state_def Let_def) (intro steps saved_order)

lemma preserves_save_exit_execution_parent [preserves_rules]: "preserves P (save_exit_execution_parent p)"
  by (rule preservesI, unfold save_exit_execution_parent_def Let_def) (intro steps exits_written)

lemma preserves_ensure_exit_execution_intent [preserves_rules]: "preserves P (ensure_exit_execution_intent env repo s intent)"
  unfolding ensure_exit_execution_intent_def save_exit_execution_intent_with_template_def Let_def
  by (intro preserves_rules)

lemma preserves_sync_exit_execution_intent [preserves_rules]: "preserves P (sync_exit_execution_intent env s intent)"
  by (rule preservesI, unfold sync_exit_execution_intent_def Let_def) (intro preserves_rules steps exits_written)

lemma preserves_persist_order_state [preserves_rules]: "preserves P (persist_order_state env s intent)"
  unfolding persist_order_state_def by (intro preserves_rules)

end

text \<open>The writes of a submission: also the fills and the obligation of the order.\<close>

locale submission_invariant = store_invariant +
  assumes saved_fill: "P m \<Longrightarrow> P (m\<lparr>om_repo := fst (save_fill (om_repo m) fill), om_events := events\<rparr>)"
    and consumed: "consume_for_fill None memory_repository now (om_obligations m) fill = Inr obs \<Longrightarrow> P m
      \<Longrightarrow> P (m\<lparr>om_obligations := fst obs\<rparr>)"
    and finalized: "finalize_for_order_state None memory_repository now (om_obligations m) s = Inr obs \<Longrightarrow> P m
      \<Longrightarrow> P (m\<lparr>om_obligations := fst obs\<rparr>)"
begin

lemma preserves_persist_fill [preserves_rules]: "preserves P (persist_fill env fill)"
  by (rule preservesI, unfold persist_fill_def with_obligations_def Let_def) (intro steps saved_fill consumed)

lemma preserves_finalize_obligation [preserves_rules]: "preserves P (finalize_obligation env s)"
  unfolding finalize_obligation_def
  by (intro preserves_rules, rule preservesI, unfold with_obligations_def) (intro steps finalized)

lemma preserves_submit_single_order_intent [preserves_rules]: "preserves P (submit_single_order_intent env intent c leg)"
  unfolding submit_single_order_intent_def Let_def by (intro preserves_rules)

lemma preserves_persist_submitting_state [preserves_rules]: "preserves P (persist_submitting_state_for_intent env intent c)"
  unfolding persist_submitting_state_for_intent_def Let_def by (intro preserves_rules)

lemma preserves_split_loop [preserves_rules]: "preserves P (split_loop env intent c leg limit start slices last_state)"
proof (induction slices arbitrary: last_state)
  case (Cons i slices)
  show ?case by (rule preservesI, unfold split_loop.simps Let_def) (intro preserves_rules steps Cons.IH[THEN preservesD])
qed (rule preservesI, simp add: preservesD[OF preserves_anchor_or])

lemma preserves_execute_serial_exit_split [preserves_rules]:
  "preserves P (execute_serial_exit_split env intent c leg limit start)"
  by (rule preservesI, unfold execute_serial_exit_split_def Let_def) (intro steps preserves_split_loop[THEN preservesD])

end

text \<open>All the writes of the manager.\<close>

locale manager_invariant = submission_invariant +
  assumes reserved: "persist_previewed_obligation None memory_repository (om_obligations m) preview = Inr obs \<Longrightarrow> P m
      \<Longrightarrow> P (m\<lparr>om_obligations := fst obs\<rparr>)"
    and submits_enqueued: "P m \<Longrightarrow> P (m\<lparr>om_enqueued_submits := submits\<rparr>)"
    and cancels_enqueued: "P m \<Longrightarrow> P (m\<lparr>om_enqueued_cancels := cancels\<rparr>)"
    and commands_abandoned: "P m \<Longrightarrow> P (m\<lparr>om_abandoned_commands := commands\<rparr>)"
begin

lemmas writes = exits_written submits_enqueued cancels_enqueued commands_abandoned

lemma preserves_persist_previewed [preserves_rules]: "preserves P (persist_previewed env obligation)"
  unfolding persist_previewed_def
  by (intro preserves_rules, rule preservesI, unfold with_obligations_def) (intro steps reserved)

lemma preserves_cancel_pending_submit [preserves_rules]: "preserves P (cancel_pending_submit_before_exchange_ack env s)"
  by (rule preservesI, unfold cancel_pending_submit_before_exchange_ack_def Let_def, intro preserves_rules steps)
    (auto simp: writes split: option.split)

lemma preserves_execute_cancel_from_state [preserves_rules]: "preserves P (execute_cancel_from_state env s)"
  unfolding execute_cancel_from_state_def by (intro preserves_rules)

lemmas kept_cancel = preserves_execute_cancel_from_state[THEN preservesD]

lemma preserves_cancel_order [preserves_rules]: "preserves P (cancel_order env c)"
  by (rule preservesI, unfold cancel_order_def) (intro preserves_rules steps writes kept_cancel)

lemma preserves_process_cancel_command [preserves_rules]: "preserves P (process_cancel_command env c)"
  by (rule preservesI, unfold process_cancel_command_def) (intro steps kept_cancel)

lemma preserves_submit_post_only_fallback [preserves_rules]:
  "(\<And>i c l. preserves P (submit i c l)) \<Longrightarrow> preserves P (submit_post_only_fallback env submit intent leg qty)"
  unfolding submit_post_only_fallback_def by (intro preserves_rules)

lemma preserves_execute_post_only [preserves_rules]:
  assumes "timeouts_keep P env" "\<And>i c l. preserves P (submit i c l)"
  shows "preserves P (execute_post_only_with_timeout_fallback env submit intent c leg)"
proof -
  have fallback: "P m \<Longrightarrow> P (fst (submit_post_only_fallback env submit intent leg qty m))" for m qty
    by (rule preservesD[OF preserves_submit_post_only_fallback[OF assms(2)]])
  have cancel: "P m \<Longrightarrow> P (fst (cancel_order env c (me_during_timeout env m)))" for m
    using assms(1) by (intro preservesD[OF preserves_cancel_order]) (simp add: timeouts_keep_def)
  have timeout: "P m \<Longrightarrow> P (me_during_timeout env m)" for m using assms(1) by (simp add: timeouts_keep_def)
  show ?thesis
    unfolding execute_post_only_with_timeout_fallback_def Let_def
    by (intro preserves_rules steps fallback timeout cancel)
qed

lemma preserves_execute_submit_intent [preserves_rules]:
  assumes "timeouts_keep P env"
  shows "preserves P (execute_submit_intent env intent c leg)"
proof -
  have "preserves P (execute_submit_intent_with env submit intent c leg)"
    if "\<And>i c l. preserves P (submit i c l)" for submit intent c leg
    unfolding execute_submit_intent_with_def Let_def using assms that by (intro preserves_rules)
  then show ?thesis unfolding execute_submit_intent_def by (simp add: preserves_mraise)
qed

lemma preserves_execute_resolved_submit [preserves_rules]:
  "timeouts_keep P env \<Longrightarrow> preserves P (execute_resolved_submit env intent c leg)"
  by (rule preservesI, unfold execute_resolved_submit_def Let_def) (intro preserves_rules steps)

lemma preserves_process_submit_command [preserves_rules]:
  "timeouts_keep P env \<Longrightarrow> preserves P (process_submit_command env intent c leg)"
  by (rule preservesI, unfold process_submit_command_def Let_def)
    (intro steps preserves_persist_order_state[THEN preservesD] preserves_execute_resolved_submit[THEN preservesD])

lemma preserves_enqueue_submit [preserves_rules]: "preserves P (enqueue_submit env intent created)"
  by (rule preservesI, unfold enqueue_submit_def) (intro preserves_rules steps writes)

lemma preserves_execute_guarded_order_intent [preserves_rules]:
  "timeouts_keep P env \<Longrightarrow> preserves P (execute_guarded_order_intent env intent leg)"
  by (rule preservesI, unfold execute_guarded_order_intent_def dispatch_created_order_def Let_def)
    (intro preserves_rules steps)

lemma preserves_handle_normalized_order_intent [preserves_rules]:
  "timeouts_keep P env \<Longrightarrow> preserves P (handle_normalized_order_intent env intent leg)"
  by (rule preservesI, unfold handle_normalized_order_intent_def)
    (intro preserves_rules steps preserves_execute_guarded_order_intent[THEN preservesD])

lemma preserves_submit_leg_order [preserves_rules]: "timeouts_keep P env \<Longrightarrow> preserves P (submit_leg_order env leg)"
  unfolding submit_leg_order_def by (intro preserves_rules)

lemma preserves_persist_synced [preserves_rules]: "preserves P (persist_synced env states by_order)"
  by (induction states arbitrary: by_order) (simp_all add: preserves_rules)

lemma preserves_refresh_exits [preserves_rules]: "preserves P (refresh_exits env)"
  by (rule preservesI, unfold refresh_exits_def) (intro steps writes)

lemma preserves_resume_exit_execution_parent [preserves_rules]: "preserves P (resume_exit_execution_parent env parent)"
  by (rule preservesI, unfold resume_exit_execution_parent_def Let_def) (intro preserves_rules steps writes)

lemma preserves_resume_exit_execution_after_sync [preserves_rules]: "preserves P (resume_exit_execution_after_sync env)"
  by (rule preservesI, unfold resume_exit_execution_after_sync_def) (intro preserves_rules steps)

lemma preserves_sync_exchange_state [preserves_rules]: "preserves P (sync_exchange_state env)"
  by (rule preservesI, unfold sync_exchange_state_def) (intro preserves_rules steps)

lemma preserves_request_cancel_exit_intent [preserves_rules]: "preserves P (request_cancel_exit_intent env c)"
  by (rule preservesI, unfold request_cancel_exit_intent_def) (intro steps writes)

lemma preserves_retry_exit_execution_limit_lookup [preserves_rules]: "preserves P (retry_exit_execution_limit_lookup env c)"
  by (rule preservesI, unfold retry_exit_execution_limit_lookup_def) (intro preserves_rules steps)

lemma preserves_cancel_children [preserves_rules]: "preserves P (cancel_children env seen ids)"
proof (induction ids arbitrary: seen)
  case (Cons c ids)
  show ?case unfolding cancel_children.simps by (intro preserves_rules steps Cons.IH)
qed (simp add: preserves_rules)

lemma preserves_safe_cancel_exit_intent [preserves_rules]: "preserves P (safe_cancel_exit_intent env c)"
  by (rule preservesI, unfold safe_cancel_exit_intent_def) (intro preserves_rules steps)

end

section \<open>The calls of the manager\<close>

datatype manager_call =
    HandleIntent order_intent
  | SubmitLeg leg_order_intent
  | SubmitCommand order_intent "string option" "leg_order_intent option"
  | CancelCommand string
  | CancelOrder string
  | SyncExchange
  | RequestCancelExit string
  | RetryExitLimit string
  | SafeCancelExit string

fun run_call :: "manager_env \<Rightarrow> manager_call \<Rightarrow> order_manager \<Rightarrow> order_manager" where
  "run_call env (HandleIntent intent) m = fst (handle_order_intent env intent m)"
| "run_call env (SubmitLeg leg) m = fst (submit_leg_order env leg m)"
| "run_call env (SubmitCommand intent c leg) m = fst (process_submit_command env intent c leg m)"
| "run_call env (CancelCommand c) m = fst (process_cancel_command env c m)"
| "run_call env (CancelOrder c) m = fst (cancel_order env c m)"
| "run_call env SyncExchange m = fst (sync_exchange_state env m)"
| "run_call env (RequestCancelExit p) m = fst (request_cancel_exit_intent env p m)"
| "run_call env (RetryExitLimit p) m = fst (retry_exit_execution_limit_lookup env p m)"
| "run_call env (SafeCancelExit p) m = fst (safe_cancel_exit_intent env p m)"

context manager_invariant
begin

lemma kept_run_call:
  assumes "timeouts_keep P env" "P m"
  shows "P (run_call env call m)"
proof (cases call)
  case (HandleIntent intent)
  with assms show ?thesis by (simp add: handle_order_intent_def preservesD[OF preserves_handle_normalized_order_intent])
qed (use assms in \<open>simp_all add: preservesD preserves_rules\<close>)

lemma kept_run_calls:
  assumes "\<And>env call. (env, call) \<in> set calls \<Longrightarrow> timeouts_keep P env" "P m"
  shows "P (foldl (\<lambda>m (env, call). run_call env call m) m calls)"
  using assms by (induction calls arbitrary: m) (auto intro!: kept_run_call)

end

section \<open>Intents and repositories\<close>

lemma has_intent_save_fill [simp]: "has_intent (fst (save_fill repo fill)) i = has_intent repo i"
  by (simp add: save_fill_def has_intent_def)

interpretation known_intents: manager_invariant "\<lambda>m. has_intent (om_repo m) i" for i
  by unfold_locales (auto simp: has_intent_save)

interpretation built_repo: manager_invariant "\<lambda>m. repo_reachable (om_repo m)"
  by unfold_locales (auto intro: repo_reachable.intros)

interpretation untouched: store_invariant "\<lambda>m. om_enqueued_submits m = submits \<and> om_enqueued_cancels m = cancels
    \<and> om_obligations m = obligations" for submits cancels obligations
  by unfold_locales simp_all

section \<open>The orders the guards build\<close>

lemma order_state_from_intent_ids [simp]:
  "os_client_order_id (order_state_from_intent now venue intent c st mode) = c"
  "os_intent_id (order_state_from_intent now venue intent c st mode) = oi_intent_id intent"
  "os_client_order_id (blocked_order_state_from_intent now venue intent c mode err) = c"
  "os_intent_id (blocked_order_state_from_intent now venue intent c mode err) = oi_intent_id intent"
  by (simp_all add: order_state_from_intent_def blocked_order_state_from_intent_def new_order_state_def)

lemma apply_execution_attempt_id_intent [simp]:
  "oi_intent_id (fst (apply_execution_attempt_id intent c leg)) = oi_intent_id intent"
  by (simp add: apply_execution_attempt_id_def Let_def)

lemma leg_guard_ids:
  assumes "apply_leg_submit_guards now venue settings evaluator intent c leg = (intent', leg', block)"
  shows "oi_intent_id intent' = oi_intent_id intent"
    and "block = Some b \<Longrightarrow> os_client_order_id b = c \<and> os_intent_id b = oi_intent_id intent"
  using assms unfolding apply_leg_submit_guards_def Let_def
  by (auto split: option.splits if_splits simp: apply_leg_risk_context_def)

lemma guard_blocked_ids:
  assumes "submit_guards env repo intent c leg = Inr (GuardBlocked block for_exit)"
  shows "os_client_order_id block = c \<and> os_intent_id block = oi_intent_id intent"
  using assms leg_guard_ids
  unfolding submit_guards_def semantic_duplicate_snapshot_submit_block_def risk_increase_convergence_submit_block_def
    unknown_write_submit_block_def Let_def
  by (auto split: option.splits prod.splits simp: ebind_eq_Inr_iff)

lemma guard_passed_ids:
  assumes "submit_guards env repo intent c leg = Inr (GuardPassed intent' leg')"
  shows "oi_intent_id intent' = oi_intent_id intent"
  using assms leg_guard_ids(1) unfolding submit_guards_def
  by (auto split: option.splits prod.splits simp: ebind_eq_Inr_iff)

section \<open>Every intake leaves a trace\<close>

lemma known_after_mbind:
  "has_intent (om_repo (fst (f m))) i \<Longrightarrow> (\<And>a. preserves (\<lambda>m. has_intent (om_repo m) i) (g a))
   \<Longrightarrow> has_intent (om_repo (fst (mbind f g m))) i"
  by (auto simp: mbind_def preserves_def split: prod.split sum.split)

lemma known_after_store:
  assumes "get_order_state (om_repo m) (os_client_order_id s) = None" "\<not> has_intent (om_repo m) (os_intent_id s)"
  shows "has_intent (om_repo (fst (persist_order_state env s for_exit m))) (os_intent_id s)"
proof -
  have "stored_order (om_repo m) s = None"
    using assms by (simp add: stored_order_def get_order_state_def has_intent_def)
  then have "has_intent (om_repo (fst (store_order_state s m))) (os_intent_id s)"
    by (simp add: store_order_state_def save_order_state_def validate_transition_def Let_def has_intent_def
        normalize_order_def case_prod_beta)
  then show ?thesis unfolding persist_order_state_def by (intro known_after_mbind preserves_rules)
qed

lemma known_after_persist:
  assumes "get_order_state (om_repo m) (os_client_order_id s) = None" "\<not> has_intent (om_repo m) i" "os_intent_id s = i"
    and "\<And>a. preserves (\<lambda>m. has_intent (om_repo m) i) (g a)"
  shows "has_intent (om_repo (fst (mbind (persist_order_state env s for_exit) g m))) i"
  using known_after_store[of m s env for_exit] assms by (intro known_after_mbind) simp_all

lemma execute_guarded_unknown:
  assumes "\<not> has_intent (om_repo m) (oi_intent_id intent)"
    and "apply_execution_attempt_id intent (derived_client_order_id env intent) leg = (intent1, leg1)"
  shows "execute_guarded_order_intent env intent leg m =
    (case submit_guards env (om_repo m) intent1 (derived_client_order_id env intent) leg1 of
       Inl e \<Rightarrow> (m, Inl (GuardRaised e))
     | Inr (GuardBlocked block for_exit) \<Rightarrow> mbind (persist_order_state env block for_exit) (\<lambda>_. mret ()) m
     | Inr (GuardPassed intent2 leg2) \<Rightarrow>
         (case preview_reservation env m intent2 (derived_client_order_id env intent) of
            Inl exc \<Rightarrow> mbind (persist_order_state env
                (reservation_blocked_state env intent2 (derived_client_order_id env intent) exc) None) (\<lambda>_. mret ()) m
          | Inr obligation \<Rightarrow>
              mbind (persist_order_state env (created_order_state env intent2 (derived_client_order_id env intent))
                (Some intent2)) (\<lambda>created.
              mbind (persist_previewed env obligation) (\<lambda>_. dispatch_created_order env intent2 leg2 created)) m))"
proof -
  have "oi_intent_id intent1 = oi_intent_id intent"
    using apply_execution_attempt_id_intent[of intent "derived_client_order_id env intent" leg] assms(2) by simp
  with assms show ?thesis
    by (auto simp: execute_guarded_order_intent_def mbind_def[of "lift_guard _"] lift_guard_def
        split: sum.split guard_outcome.split)
qed

lemma known_after_guarded:
  assumes "timeouts_keep (\<lambda>m. has_intent (om_repo m) (oi_intent_id intent)) env"
    and "get_order_state (om_repo m) (derived_client_order_id env intent) = None"
    and raised: "\<nexists>e. snd (execute_guarded_order_intent env intent leg m) = Inl (GuardRaised e)"
  shows "has_intent (om_repo (fst (execute_guarded_order_intent env intent leg m))) (oi_intent_id intent)"
proof (cases "has_intent (om_repo m) (oi_intent_id intent)")
  case True
  then show ?thesis by (rule preservesD[OF known_intents.preserves_execute_guarded_order_intent[OF assms(1)]])
next
  case False
  obtain intent1 leg1 where app:
    "apply_execution_attempt_id intent (derived_client_order_id env intent) leg = (intent1, leg1)" by fastforce
  then have "oi_intent_id intent1 = oi_intent_id intent"
    using apply_execution_attempt_id_intent[of intent "derived_client_order_id env intent" leg] by simp
  then show ?thesis
    using raised assms(2) False guard_blocked_ids[of env "om_repo m" intent1] guard_passed_ids[of env "om_repo m" intent1]
    unfolding execute_guarded_unknown[OF False app] dispatch_created_order_def
    by (auto split: sum.split guard_outcome.split simp: reservation_blocked_state_def created_order_state_def
        intro!: known_after_persist preserves_rules known_intents.preserves_process_submit_command[OF assms(1)])
qed

lemma known_after_intake:
  assumes "timeouts_keep (\<lambda>m. has_intent (om_repo m) (oi_intent_id intent)) env" "\<not> missing_idempotency_key intent"
    and "get_order_state (om_repo m) (derived_client_order_id env intent) = None"
    and "get_order_state (om_repo m) (oi_idempotency_key intent) = None"
    and "\<nexists>e. snd (handle_normalized_order_intent env intent leg m) = Inl (GuardRaised e)"
  shows "has_intent (om_repo (fst (handle_normalized_order_intent env intent leg m))) (oi_intent_id intent)"
proof -
  have key: "oi_idempotency_key intent \<noteq> []"
    using assms(2) by (auto simp: missing_idempotency_key_def py_strip_def)
  have cooldown: "os_client_order_id s = oi_idempotency_key intent \<and> os_intent_id s = oi_intent_id intent"
    if "transient_close_retry_cooldown_state now venue fresh settings repo intent = Some s" for now venue fresh settings repo s
    using that key by (auto simp: transient_close_retry_cooldown_state_def Let_def split: if_splits)
  show ?thesis
    using assms known_after_guarded[OF assms(1,3), of leg]
    by (auto simp: handle_normalized_order_intent_def cooldown split: option.splits if_splits
        intro!: known_after_persist preserves_rules)
qed

section \<open>Properties\<close>


definition example_settings :: guard_settings where
  "example_settings =
     \<lparr>gs_strategy_hedge_overlay_enabled = False, gs_strategy_hedge_independent_enabled = False,
      gs_strategy_hedge_independent_rollout_stage = ReplayOnly, gs_guarded_execution_dry_run = False,
      gs_okx_simulated_trading = False, gs_live_submit_enabled = True,
      gs_strategy_transient_close_retry_cooldown_seconds = 0\<rparr>"

definition example_paper :: exchange_adapter where
  "example_paper = paper_adapter
     \<lparr>pe_now = Aware 0 0, pe_exchange_order_id = ''ex'', pe_fill_id = ''fill'', pe_price_provider = (\<lambda>_. 90),
      pe_taker_fee_bps = 0, pe_dec_str = (\<lambda>_. [])\<rparr>"

definition example_menv :: "bool \<Rightarrow> exchange_adapter \<Rightarrow> manager_env" where
  "example_menv halted adapter =
     \<lparr>me_now = Aware 0 0, me_fresh_id = ''clord'', me_settings = example_settings, me_truth_settings = None,
      me_set_order = (\<lambda>ids. ids), me_adapter = adapter, me_leg_risk_evaluator = None, me_halted = halted,
      me_obligation_service = None, me_reservation_error_text = (\<lambda>_. []), me_persistent = False,
      me_enqueue_submit = (\<lambda>_ _. None), me_execution_row = (\<lambda>_. None), me_submit_command = (\<lambda>_ _. None),
      me_post_only_fallback_mode = ''bounded_taker'', me_during_timeout = (\<lambda>m. m), me_model_dump = (\<lambda>_. []),
      me_model_validate = (\<lambda>_ _. Inl []), me_isoformat = (\<lambda>_. [])\<rparr>"

definition empty_manager :: order_manager where
  "empty_manager =
     \<lparr>om_repo = empty_repo, om_obligations = [], om_exits = None, om_events = [], om_enqueued_submits = [],
      om_enqueued_cancels = [], om_abandoned_commands = []\<rparr>"

lemma example_timeouts [simp]: "timeouts_keep P (example_menv halted adapter)"
  by (simp add: timeouts_keep_def example_menv_def)

lemma example_buy_key [simp]: "\<not> missing_idempotency_key example_buy"
  by (simp add: missing_idempotency_key_def example_buy_def new_order_intent_def) code_simp

lemma empty_manager_simps [simp]:
  "get_order_state (om_repo empty_manager) c = None" "\<not> has_intent (om_repo empty_manager) i"
  "om_exits empty_manager = None"
  by (simp_all add: empty_manager_def empty_repo_def get_order_state_def has_intent_def)

text \<open>A new order is stored without an exception.\<close>

lemma persist_fresh_order:
  assumes "stored_order (om_repo m) s = None" "om_exits m = None"
  shows "snd (persist_order_state env s for_exit m) = Inr (normalize_order s)"
  using assms
  by (simp add: persist_order_state_def store_order_state_def save_order_state_def validate_transition_def Let_def
      mbind_def mret_def sync_exit_execution_intent_def)

lemma snd_mbind: "snd (mbind f g m) = (case snd (f m) of Inl e \<Rightarrow> Inl e | Inr a \<Rightarrow> snd (g a (fst (f m))))"
  by (auto simp: mbind_def split: prod.split sum.split)

lemma halted_example:
  "snd (handle_normalized_order_intent (example_menv True adapter) example_buy None empty_manager) = Inr ()"
proof -
  have "stored_order (om_repo empty_manager) s = None" for s
    by (simp add: stored_order_def empty_manager_def empty_repo_def)
  then show ?thesis
    by (simp add: handle_normalized_order_intent_def example_menv_def snd_mbind persist_fresh_order mret_def)
qed


section \<open>The candidates of a synchronisation\<close>

definition awaits_fills :: "exec_repo \<Rightarrow> order_state \<Rightarrow> bool" where
  "awaits_fills repo s \<longleftrightarrow> os_status s \<in> set FILL_BACKFILL_TERMINAL_STATUSES \<and> EPSILON_DECIMAL_12 < os_filled_qty s
     \<and> fills_for_order repo (os_client_order_id s) = []"

lemma backfill_appends:
  assumes "\<And>s. s \<in> set states \<Longrightarrow> os_status s \<in> set FILL_BACKFILL_TERMINAL_STATUSES"
  shows "\<exists>rest. foldl (add_backfill_candidate repo) acc states = acc @ rest
     \<and> list_all (\<lambda>e. awaits_fills repo (snd e)) rest"
  using assms
proof (induction states arbitrary: acc)
  case (Cons s states)
  let ?skip = "os_filled_qty s \<le> EPSILON_DECIMAL_12 \<or> fills_for_order repo (os_client_order_id s) \<noteq> []
    \<or> map_of acc (os_client_order_id s) \<noteq> None"
  show ?case
  proof (cases ?skip)
    case True
    then have "add_backfill_candidate repo acc s = acc" by (auto simp: add_backfill_candidate_def)
    with Cons.IH[of acc] Cons.prems show ?thesis by simp
  next
    case False
    then have "add_backfill_candidate repo acc s = acc @ [(os_client_order_id s, s)]"
      by (simp add: add_backfill_candidate_def update_new_key)
    moreover have "awaits_fills repo s" using False Cons.prems by (simp add: awaits_fills_def)
    ultimately show ?thesis using False Cons.IH[of "acc @ [(os_client_order_id s, s)]"] Cons.prems by fastforce
  qed
qed simp

lemma sync_candidates_shape:
  assumes "repo_inv repo"
  shows "\<exists>rest. sync_candidates repo = filter is_unknown_write_state (open_order_states repo)
      @ filter (\<lambda>s. \<not> is_unknown_write_state s) (open_order_states repo) @ rest
    \<and> list_all (awaits_fills repo) rest"
proof -
  let ?open = "filter is_unknown_write_state (open_order_states repo)
      @ filter (\<lambda>s. \<not> is_unknown_write_state s) (open_order_states repo)"
  have "keyed os_client_order_id (er_by_client repo)" using assms by (simp add: repo_inv_def)
  then have "distinct (map os_client_order_id (filter P (open_order_states repo)))" for P
    using keyed_distinct[of _ _ "\<lambda>s. is_open (os_status s) \<and> P s"]
    by (simp add: open_order_states_def order_states_def)
  moreover have "inj_on os_client_order_id (set (open_order_states repo))"
    using assms order_state_iff[OF assms] by (intro inj_onI) (auto simp: open_order_states_def)
  ultimately have "distinct (map os_client_order_id ?open)"
    by (auto simp: inj_on_def)
  then have fresh: "foldl (\<lambda>acc state. AList.update (os_client_order_id state) state acc) [] ?open
      = map (\<lambda>s. (os_client_order_id s, s)) ?open"
    by (subst foldl_update_new) simp_all
  let ?recent = "recent_order_states repo FILL_BACKFILL_RECENT_LIMIT (Some FILL_BACKFILL_TERMINAL_STATUSES)"
  have "os_status s \<in> set FILL_BACKFILL_TERMINAL_STATUSES" if "s \<in> set ?recent" for s
    using that by (auto simp: recent_order_states_def Let_def dest!: in_set_takeD)
  from backfill_appends[of ?recent repo, OF this] obtain rest where
    appended: "foldl (add_backfill_candidate repo) (map (\<lambda>s. (os_client_order_id s, s)) ?open) ?recent
     = map (\<lambda>s. (os_client_order_id s, s)) ?open @ rest" and rest: "list_all (\<lambda>e. awaits_fills repo (snd e)) rest"
    by blast
  have "sync_candidates repo = map snd (map (\<lambda>s. (os_client_order_id s, s)) ?open @ rest)"
    unfolding sync_candidates_def Let_def fresh by (rule arg_cong[OF appended])
  with rest show ?thesis by (intro exI[of _ "map snd rest"]) (simp add: list_all_iff comp_def)
qed

text \<open>
  C8. No order escapes the synchronisation with the exchange. After any sequence of calls of the
  order manager - intents, legs, submit and cancel commands, synchronisations, controls of an
  exit, those that end in an exception included, each in an environment of its own - the two
  indexes of the repository still agree with its orders, and the candidates handed to the adapter
  are every non-terminal order once, those with an unknown write first, followed only by terminal
  orders that report a fill of which no event is stored.
\<close>

theorem no_open_order_unsynced:
  assumes "\<forall>(env, call) \<in> set calls. timeouts_keep (\<lambda>m. repo_reachable (om_repo m)) env"
    and "repo_reachable (om_repo m0)" and "\<And>ids. mset (ord ids) = mset ids"
  shows "let repo = om_repo (foldl (\<lambda>m (env, call). run_call env call m) m0 calls)
    in mset (non_terminal_order_states ord repo) = mset (open_order_states repo)
      \<and> (\<forall>s \<in> set (order_states repo). stripped_bundle s \<noteq> [] \<longrightarrow>
           s \<in> set (order_states_by_bundle_id ord repo (stripped_bundle s)))
      \<and> (\<exists>rest. sync_candidates repo = filter is_unknown_write_state (open_order_states repo)
            @ filter (\<lambda>s. \<not> is_unknown_write_state s) (open_order_states repo) @ rest
          \<and> list_all (awaits_fills repo) rest)"
proof -
  have "repo_reachable (om_repo (foldl (\<lambda>m (env, call). run_call env call m) m0 calls))"
    using assms(1) by (intro built_repo.kept_run_calls[OF _ assms(2)]) auto
  then show ?thesis
    unfolding Let_def using index_agrees_with_scan[OF _ assms(3)] sync_candidates_shape[OF repo_reachable_inv] by blast
qed

theorem no_open_order_unsynced_witness:
  "let repo = om_repo (foldl (\<lambda>m (env, call). run_call env call m) empty_manager
       [(example_menv False example_paper, HandleIntent example_buy), (example_menv False example_paper, SyncExchange)])
   in mset (non_terminal_order_states rev repo) = mset (open_order_states repo)"
proof -
  have "repo_reachable (om_repo empty_manager)" by (simp add: empty_manager_def repo_empty)
  from no_open_order_unsynced[OF _ this, of "[(example_menv False example_paper, HandleIntent example_buy),
      (example_menv False example_paper, SyncExchange)]" rev]
  show ?thesis unfolding Let_def by simp
qed

end
