(* ===== verification/Submission_Safety.thy ===== *)
theory Submission_Safety
  imports Manager_Invariants
begin

text \<open>
  What may reach the exchange. The submission function unfolds into the recursion of the source;
  an intent that is stopped on its way in never reaches the adapter or the queue; an intent that
  passes the guards is alone on its unknown writes, its portfolio snapshot and its directional
  increase; and the post-only fallback of the persistent order service.
\<close>

section \<open>The recursion of the submission\<close>

lemma fallback_not_post_only:
  assumes "build_post_only_fallback_intent env intent leg qty = Inr (fallback, fallback_leg)"
  shows "\<not> intent_signals_post_only (fst (apply_execution_attempt_id fallback c l))"
  using assms
  by (auto simp: build_post_only_fallback_intent_def Let_def intent_signals_post_only_def apply_execution_attempt_id_def
      norm_str_def py_simps split: if_splits)

lemma submit_with_not_post_only:
  "\<not> intent_signals_post_only (fst (apply_execution_attempt_id intent c leg)) \<Longrightarrow>
   execute_submit_intent_with env f intent c leg = execute_submit_intent_with env g intent c leg"
  by (simp add: execute_submit_intent_with_def case_prod_beta Let_def)

lemma submit_with_cong:
  assumes "\<And>i c l. \<not> intent_signals_post_only (fst (apply_execution_attempt_id i c l)) \<Longrightarrow> f i c l = g i c l"
  shows "execute_submit_intent_with env f intent c leg = execute_submit_intent_with env g intent c leg"
proof -
  have "submit_post_only_fallback env f i l q = submit_post_only_fallback env g i l q" for i l q
    unfolding submit_post_only_fallback_def
    by (auto split: sum.split intro!: assms fallback_not_post_only)
  then have "execute_post_only_with_timeout_fallback env f i c l = execute_post_only_with_timeout_fallback env g i c l"
    for i c l unfolding execute_post_only_with_timeout_fallback_def by (simp only:)
  then show ?thesis unfolding execute_submit_intent_with_def by (simp only:)
qed

text \<open>
  C10. The submission of the source is a recursive function, and the model of it satisfies that
  recursion: executing a submit intent is executing its body with the same function at the
  recursive call. The recursion ends after one step because the fallback of a post-only intent is
  never post-only.
\<close>

theorem execute_submit_intent_recursion:
  "execute_submit_intent env intent c leg = execute_submit_intent_with env (execute_submit_intent env) intent c leg"
  unfolding execute_submit_intent_def
  by (intro submit_with_cong submit_with_not_post_only)

section \<open>Intents that are stopped\<close>

definition other_adapter ::
  "manager_env \<Rightarrow> (order_intent \<Rightarrow> adapter_result) \<Rightarrow> (leg_order_intent \<Rightarrow> adapter_result)
   \<Rightarrow> (order_state \<Rightarrow> adapter_result) \<Rightarrow> manager_env" where
  "other_adapter env submit submit_leg cancel =
     env\<lparr>me_adapter := (me_adapter env)\<lparr>ad_submit := submit, ad_submit_leg_order := submit_leg, ad_cancel := cancel\<rparr>\<rparr>"

lemma other_adapter_simps [simp]:
  "me_now (other_adapter env f g h) = me_now env"
  "me_fresh_id (other_adapter env f g h) = me_fresh_id env"
  "me_settings (other_adapter env f g h) = me_settings env"
  "me_truth_settings (other_adapter env f g h) = me_truth_settings env"
  "me_set_order (other_adapter env f g h) = me_set_order env"
  "me_leg_risk_evaluator (other_adapter env f g h) = me_leg_risk_evaluator env"
  "me_halted (other_adapter env f g h) = me_halted env"
  "me_obligation_service (other_adapter env f g h) = me_obligation_service env"
  "me_reservation_error_text (other_adapter env f g h) = me_reservation_error_text env"
  "me_model_dump (other_adapter env f g h) = me_model_dump env"
  "env_venue (other_adapter env f g h) = env_venue env"
  "derived_client_order_id (other_adapter env f g h) = derived_client_order_id env"
  by (simp_all add: other_adapter_def env_venue_def derived_client_order_id_def fun_eq_iff)

lemma other_adapter_persist [simp]:
  "persist_order_state (other_adapter env f g h) = persist_order_state env"
proof -
  have ensure: "ensure_exit_execution_intent (other_adapter env f g h) = ensure_exit_execution_intent env"
    by (intro ext)
      (unfold ensure_exit_execution_intent_def save_exit_execution_intent_with_template_def other_adapter_simps, rule refl)
  have "sync_exit_execution_intent (other_adapter env f g h) = sync_exit_execution_intent env"
    by (intro ext) (unfold sync_exit_execution_intent_def ensure other_adapter_simps, rule refl)
  then show ?thesis by (intro ext) (simp only: persist_order_state_def)
qed

lemma other_adapter_guards [simp]:
  "submit_guards (other_adapter env f g h) = submit_guards env"
  "preview_reservation (other_adapter env f g h) = preview_reservation env"
  "missing_key_state (other_adapter env f g h) = missing_key_state env"
  "reservation_blocked_state (other_adapter env f g h) = reservation_blocked_state env"
  unfolding submit_guards_def preview_reservation_def missing_key_state_def reservation_blocked_state_def
    other_adapter_simps
  by (rule refl)+

definition guards_stop :: "manager_env \<Rightarrow> order_manager \<Rightarrow> order_intent \<Rightarrow> leg_order_intent option \<Rightarrow> bool" where
  "guards_stop env m intent leg =
     (let c = derived_client_order_id env intent;
          (intent1, leg1) = apply_execution_attempt_id intent c leg
      in case submit_guards env (om_repo m) intent1 c leg1 of
        Inr (GuardPassed intent2 leg2) \<Rightarrow> (case preview_reservation env m intent2 c of Inl exc \<Rightarrow> True | Inr ob \<Rightarrow> False)
      | _ \<Rightarrow> True)"

definition intake_stops :: "manager_env \<Rightarrow> order_manager \<Rightarrow> order_intent \<Rightarrow> leg_order_intent option \<Rightarrow> bool" where
  "intake_stops env m intent leg \<longleftrightarrow>
     missing_idempotency_key intent \<or> has_intent (om_repo m) (oi_intent_id intent) \<or> me_halted env
     \<or> transient_close_retry_cooldown_state (me_now env) (env_venue env) (me_fresh_id env) (me_settings env)
         (om_repo m) intent \<noteq> None
     \<or> guards_stop env m intent leg"

lemma guarded_stopped_other_adapter:
  assumes "guards_stop env m intent leg"
  shows "execute_guarded_order_intent (other_adapter env f g h) intent leg m = execute_guarded_order_intent env intent leg m"
proof (cases "has_intent (om_repo m) (oi_intent_id intent)")
  case True
  then show ?thesis by (simp add: execute_guarded_order_intent_def case_prod_beta Let_def)
next
  case False
  obtain intent1 leg1 where app:
    "apply_execution_attempt_id intent (derived_client_order_id env intent) leg = (intent1, leg1)" by fastforce
  then have app': "apply_execution_attempt_id intent (derived_client_order_id (other_adapter env f g h) intent) leg
    = (intent1, leg1)" by simp
  show ?thesis
    using assms unfolding execute_guarded_unknown[OF False app] execute_guarded_unknown[OF False app'] guards_stop_def Let_def app
    by (auto split: sum.split guard_outcome.split)
qed

lemma persist_untouched:
  "om_enqueued_submits (fst (mbind (persist_order_state env s for_exit) (\<lambda>_. mret ()) m)) = om_enqueued_submits m
   \<and> om_enqueued_cancels (fst (mbind (persist_order_state env s for_exit) (\<lambda>_. mret ()) m)) = om_enqueued_cancels m
   \<and> om_obligations (fst (mbind (persist_order_state env s for_exit) (\<lambda>_. mret ()) m)) = om_obligations m"
  by (rule preservesD[OF preserves_mbind[OF untouched.preserves_persist_order_state preserves_mret]]) simp

lemma guarded_stopped_untouched:
  assumes "guards_stop env m intent leg"
  shows "om_enqueued_submits (fst (execute_guarded_order_intent env intent leg m)) = om_enqueued_submits m
    \<and> om_enqueued_cancels (fst (execute_guarded_order_intent env intent leg m)) = om_enqueued_cancels m
    \<and> om_obligations (fst (execute_guarded_order_intent env intent leg m)) = om_obligations m"
proof (cases "has_intent (om_repo m) (oi_intent_id intent)")
  case True
  then show ?thesis by (simp add: execute_guarded_order_intent_def case_prod_beta Let_def)
next
  case False
  obtain intent1 leg1 where app:
    "apply_execution_attempt_id intent (derived_client_order_id env intent) leg = (intent1, leg1)" by fastforce
  show ?thesis
    using assms unfolding execute_guarded_unknown[OF False app] guards_stop_def Let_def app
    by (auto split: sum.split guard_outcome.split simp: persist_untouched)
qed

text \<open>
  C3. An intent that is stopped never reaches the exchange. When the intent has no idempotency
  key, is known already, arrives while the kill switch halts, falls into a retry cooldown, or one
  of the guards or the reservation refuses it, then the handler does exactly what it would do with
  any other submit and cancel functions of the adapter, enqueues nothing and touches no obligation.
\<close>

theorem stopped_intent_never_submitted:
  assumes "intake_stops env m intent leg"
  shows "handle_normalized_order_intent (other_adapter env submit submit_leg cancel) intent leg m
      = handle_normalized_order_intent env intent leg m
    \<and> om_enqueued_submits (fst (handle_normalized_order_intent env intent leg m)) = om_enqueued_submits m
    \<and> om_enqueued_cancels (fst (handle_normalized_order_intent env intent leg m)) = om_enqueued_cancels m
    \<and> om_obligations (fst (handle_normalized_order_intent env intent leg m)) = om_obligations m"
  using assms guarded_stopped_other_adapter[of env m intent leg submit submit_leg cancel]
    guarded_stopped_untouched[of env m intent leg]
  unfolding handle_normalized_order_intent_def intake_stops_def other_adapter_simps other_adapter_persist other_adapter_guards
  by (auto simp: persist_untouched split: option.split)

theorem stopped_intent_never_submitted_witness:
  "let env = example_menv True example_paper
   in handle_normalized_order_intent (other_adapter env (\<lambda>_. Inl ''down'') (\<lambda>_. Inl ''down'') (\<lambda>_. Inl ''down''))
        example_buy None empty_manager
      = handle_normalized_order_intent env example_buy None empty_manager
    \<and> om_enqueued_submits (fst (handle_normalized_order_intent env example_buy None empty_manager)) = []"
proof -
  have "intake_stops (example_menv True example_paper) empty_manager example_buy None"
    by (simp add: intake_stops_def example_menv_def)
  from stopped_intent_never_submitted[OF this] show ?thesis
    by (simp add: empty_manager_def)
qed

section \<open>Intents that pass\<close>

lemma inflight_iff_open: "risk_increase_state_is_inflight s \<longleftrightarrow> is_open (os_status s)"
  by (cases "os_status s")
    (simp_all add: risk_increase_state_is_inflight_def SEMANTIC_DUPLICATE_NO_EFFECT_STATUSES_def is_open_def
      OPEN_ORDER_STATES_def)

lemma can_block_iff:
  "semantic_duplicate_state_can_block s \<longleftrightarrow> EPSILON_DECIMAL_12 < os_filled_qty s \<or> is_open (os_status s)"
  by (cases "os_status s")
    (simp_all add: semantic_duplicate_state_can_block_def SEMANTIC_DUPLICATE_NO_EFFECT_STATUSES_def is_open_def
      OPEN_ORDER_STATES_def is_terminal_def TERMINAL_ORDER_STATES_def)

lemma first_blocking_None: "first_blocking blocks xs = Inr None \<Longrightarrow> x \<in> set xs \<Longrightarrow> blocks x = Inr False"
  by (induction xs) (auto simp: ebind_eq_Inr_iff split: if_splits)

lemma leg_guard_context:
  assumes "apply_leg_submit_guards now venue settings evaluator intent c leg = (intent', leg', block)"
  shows "oi_symbol intent' = oi_symbol intent \<and> oi_execution_chain_id intent' = oi_execution_chain_id intent
    \<and> is_risk_reducing_order_intent intent' = is_risk_reducing_order_intent intent"
  using assms unfolding apply_leg_submit_guards_def Let_def
  by (auto split: option.splits if_splits simp: apply_leg_risk_context_def is_risk_reducing_order_intent_def)

lemma guard_passedD:
  assumes "submit_guards env repo intent c leg = Inr (GuardPassed intent' leg')"
  shows "semantic_duplicate_snapshot_state repo intent c = None"
    and "risk_increase_convergence_state (me_now env) repo intent c = Inr None"
    and "blocking_unknown_write_state (me_set_order env) repo intent' c = None"
    and "oi_symbol intent' = oi_symbol intent \<and> oi_execution_chain_id intent' = oi_execution_chain_id intent
      \<and> is_risk_reducing_order_intent intent' = is_risk_reducing_order_intent intent"
proof -
  from assms obtain conv where
    dup: "semantic_duplicate_snapshot_submit_block (me_now env) (env_venue env) repo intent c = None"
    and conv: "risk_increase_convergence_submit_block (me_now env) (env_venue env) repo intent c = Inr conv" "conv = None"
    and leg: "apply_leg_submit_guards (me_now env) (env_venue env) (me_settings env) (me_leg_risk_evaluator env) intent c leg
      = (intent', leg', None)"
    and unknown: "unknown_write_submit_block (me_now env) (env_venue env) (me_set_order env) repo intent' c = None"
    unfolding submit_guards_def by (auto split: option.splits prod.splits simp: ebind_eq_Inr_iff)
  show "semantic_duplicate_snapshot_state repo intent c = None"
    using dup by (simp add: semantic_duplicate_snapshot_submit_block_def)
  show "risk_increase_convergence_state (me_now env) repo intent c = Inr None"
    using conv by (auto simp: risk_increase_convergence_submit_block_def ebind_eq_Inr_iff)
  show "blocking_unknown_write_state (me_set_order env) repo intent' c = None"
    using unknown by (auto simp: unknown_write_submit_block_def Let_def split: option.splits prod.splits)
  show "oi_symbol intent' = oi_symbol intent \<and> oi_execution_chain_id intent' = oi_execution_chain_id intent
      \<and> is_risk_reducing_order_intent intent' = is_risk_reducing_order_intent intent"
    by (rule leg_guard_context[OF leg])
qed

definition same_market :: "order_state \<Rightarrow> order_intent \<Rightarrow> bool" where
  "same_market s intent \<longleftrightarrow> os_symbol s = oi_symbol intent \<and> os_product_type s = oi_product_type intent
     \<and> os_margin_mode s = oi_margin_mode intent"

definition same_snapshot :: "order_state \<Rightarrow> order_intent \<Rightarrow> bool" where
  "same_snapshot s intent \<longleftrightarrow> normalized_snapshot_ref (oi_portfolio_snapshot_ref intent) \<noteq> []
     \<and> normalized_snapshot_ref (os_portfolio_snapshot_ref s) = normalized_snapshot_ref (oi_portfolio_snapshot_ref intent)"

definition other_order :: "order_state \<Rightarrow> order_intent \<Rightarrow> string \<Rightarrow> bool" where
  "other_order s intent c \<longleftrightarrow> os_client_order_id s \<noteq> c \<and> os_intent_id s \<noteq> oi_intent_id intent"

lemma passed_no_duplicate:
  assumes "semantic_duplicate_snapshot_state repo intent c = None"
    and "s \<in> set (recent_order_states repo SEMANTIC_DUPLICATE_RECENT_LIMIT None)"
    and "other_order s intent c" "same_market s intent" "same_snapshot s intent"
    and "\<not> same_chain (os_execution_chain_id s) (oi_execution_chain_id intent)"
    and "is_open (os_status s) \<or> EPSILON_DECIMAL_12 < os_filled_qty s"
    and "semantic_duplicate_lanes_from_state s \<noteq> []" "semantic_duplicate_lanes_from_intent intent \<noteq> []"
  shows "isdisjoint (semantic_duplicate_lanes_from_intent intent) (semantic_duplicate_lanes_from_state s)
    \<and> semantic_duplicate_disjoint_lanes_allowed (intent_context intent) (state_context s)
        (semantic_duplicate_lanes_from_intent intent) (semantic_duplicate_lanes_from_state s)"
proof -
  have "\<not> semantic_duplicate_blocks intent c s"
    using assms by (auto simp: semantic_duplicate_snapshot_state_def same_snapshot_def find_None_iff)
  then show ?thesis
    using assms(3-) unfolding semantic_duplicate_blocks_def Let_def other_order_def same_market_def same_snapshot_def
      semantic_duplicate_product_mismatch_def can_block_iff by (auto split: if_splits)
qed

lemma passed_converged:
  assumes "risk_increase_convergence_state now repo intent c = Inr None"
    and "s \<in> set (recent_order_states repo RISK_INCREASE_CONVERGENCE_RECENT_LIMIT None)"
    and "other_order s intent c" "same_market s intent"
    and "directional_risk_increase_context (intent_context intent)" "directional_risk_increase_context (state_context s)"
    and "increase_lanes (semantic_duplicate_lanes_from_intent intent) \<noteq> []"
    and "increase_lanes (semantic_duplicate_lanes_from_state s) \<noteq> []"
  shows "\<not> is_open (os_status s)"
proof -
  have "risk_increase_blocks now intent c s = Inr False"
    using assms by (auto simp: risk_increase_convergence_state_def dest: first_blocking_None)
  then show ?thesis
    using assms(3-) unfolding risk_increase_blocks_def Let_def other_order_def same_market_def
      semantic_duplicate_product_mismatch_def inflight_iff_open by (auto split: if_splits)
qed

lemma passed_no_unknown_write:
  assumes "blocking_unknown_write_state ord repo intent c = None"
    and "s \<in> set (non_terminal_order_states ord repo)" "is_unknown_write_state s" "is_open (os_status s)"
  shows "\<not> unknown_write_matches intent c s
    \<and> (is_risk_reducing_order_intent intent \<or> os_symbol s \<noteq> oi_symbol intent)"
  using assms
  by (auto simp: blocking_unknown_write_state_def Let_def terminal_or_open blocks_new_risk_actions_def
      exchange_truth_pending_def find_None_iff filter_empty_conv split: if_splits option.splits)


text \<open>A submission on another symbol whose outcome is unknown does not stop the example intent.\<close>

definition lost_order :: order_state where
  "lost_order = example_order
     \<lparr>os_client_order_id := ''lost'', os_intent_id := ''other'', os_symbol := ''ETH-USDT'',
      os_execution_error := Some ''submission_unknown_check_exchange:timeout''\<rparr>"

definition lost_repo :: exec_repo where
  "lost_repo = (case save_order_state empty_repo lost_order of Inr out \<Rightarrow> fst out | Inl _ \<Rightarrow> empty_repo)"

lemma lost_saved: "save_order_state empty_repo lost_order = Inr (lost_repo, normalize_order lost_order)"
  by (simp add: lost_repo_def save_order_state_def stored_order_def validate_transition_def Let_def empty_repo_def)

lemma lost_repo_reachable: "repo_reachable lost_repo"
  using repo_saved_order[OF repo_empty lost_saved] by simp

lemma lost_repo_orders: "order_states lost_repo = [normalize_order lost_order]"
  using save_order_state_parts(1)[OF lost_saved]
  by (simp add: order_states_def kept_orders_def stored_order_def empty_repo_def)

lemma lost_order_context:
  "os_client_order_id (normalize_order lost_order) = ''lost''" "os_intent_id (normalize_order lost_order) = ''other''"
  "os_symbol (normalize_order lost_order) = ''ETH-USDT''" "os_execution_chain_id (normalize_order lost_order) = None"
  "is_unknown_write_state (normalize_order lost_order)"
  by (simp_all add: normalize_order_def lost_order_def example_order_def new_order_state_def case_prod_beta Let_def
      is_unknown_write_state_def unknown_write_operation_def normalized_error_def UNKNOWN_SUBMIT_ERROR_PREFIX_def
      norm_str_def py_simps py_startswith_def)

lemma lost_order_open: "is_open (os_status (normalize_order lost_order))"
proof -
  have "1 \<le> dsub 2 EPSILON_DECIMAL_12"
    using dsub_mono[of 2 2 EPSILON_DECIMAL_12 1] by (simp add: exact_ops EPSILON_DECIMAL_12_def)
  then show ?thesis
    by (simp add: normalized_status_remaining_def normalized_filled_def Let_def is_open_def OPEN_ORDER_STATES_def
        lost_order_def)
qed

lemma example_buy_context:
  "oi_portfolio_snapshot_ref example_buy = None" "intent_context example_buy = [None, None, None, None]"
  "oi_position_mode example_buy = None"
  by (simp_all add: example_buy_def new_order_intent_def intent_context_def)

lemma example_buy_passes:
  "submit_guards (example_menv False example_paper) lost_repo example_buy ''clkey'' None = Inr (GuardPassed example_buy None)"
proof -
  have "set (non_terminal_order_states (\<lambda>ids. ids) lost_repo) = {normalize_order lost_order}"
    using mset_eq_setD[OF conjunct1[OF index_agrees_with_scan[OF lost_repo_reachable, of "\<lambda>ids. ids"]]]
    by (simp add: open_order_states_def lost_repo_orders lost_order_open del: normalize_simps)
  then have none: "\<forall>s \<in> set (non_terminal_order_states (\<lambda>ids. ids) lost_repo).
      \<not> unknown_write_matches example_buy ''clkey'' s \<and> os_symbol s \<noteq> oi_symbol example_buy"
    using lost_order_context(1-4)
    by (simp add: unknown_write_matches_def same_chain_def str_truthy_def example_buy_def new_order_intent_def)
  have "find P (filter Q (non_terminal_order_states (\<lambda>ids. ids) lost_repo)) = None"
    if "P = unknown_write_matches example_buy ''clkey''
      \<or> P = (\<lambda>s. os_symbol s = oi_symbol example_buy \<and> blocks_new_risk_actions s)" for P Q
    using none that by (auto simp: find_None_iff)
  then have "blocking_unknown_write_state (\<lambda>ids. ids) lost_repo example_buy ''clkey'' = None"
    by (simp add: blocking_unknown_write_state_def Let_def)
  then show ?thesis
    by (simp add: submit_guards_def semantic_duplicate_snapshot_submit_block_def semantic_duplicate_snapshot_state_def
        risk_increase_convergence_submit_block_def risk_increase_convergence_state_def apply_leg_submit_guards_def
        leg_intent_from_order_intent_def unknown_write_submit_block_def example_menv_def example_buy_context
        normalized_snapshot_ref_def py_strip_def directional_risk_increase_context_def context_tagged_def
        opt_norm_def norm_str_def py_simps py_startswith_def Let_def)
qed


end
