(* ===== verification/Post_Only_Fallback.thy ===== *)
theory Post_Only_Fallback
  imports Submission_Safety
begin

text \<open>
  The fallback of a post-only order when the persistent order service is configured. The
  docstring of \<^verbatim>\<open>_execute_post_only_with_timeout_fallback\<close> has the manager wait for the
  cancellation before it submits the remaining quantity again; with the service,
  \<^verbatim>\<open>cancel_order\<close> only enqueues the cancellation and returns the pending order.
\<close>

text \<open>An order that rests at the exchange, nothing of it filled.\<close>

definition resting_order :: "order_state \<Rightarrow> bool" where
  "resting_order s \<longleftrightarrow> os_status s = SUBMITTED \<and> os_exchange_order_id s \<noteq> None \<and> os_filled_qty s = 0
     \<and> os_remaining_qty s = os_requested_qty s \<and> exact28 (os_requested_qty s)
     \<and> EPSILON_DECIMAL_12 < os_requested_qty s"

lemma requested_above_eps: "EPSILON_DECIMAL_12 < q \<Longrightarrow> 0 < dsub q EPSILON_DECIMAL_12"
  unfolding dsub_def by (intro ctx_round_pos) simp_all

lemma cancel_pending_merged:
  fixes env s
  assumes "resting_order s"
  defines "merged \<equiv> merge (Some s) (cancel_pending_state env s)"
  shows "os_client_order_id merged = os_client_order_id s" "os_intent_id merged = os_intent_id s"
    "os_status merged = CANCEL_PENDING" "os_remaining_qty merged = os_requested_qty s"
proof -
  have merged: "merged = normalize_order (merge_fields s (cancel_pending_state env s))"
    unfolding merged_def using assms(1) by (intro merge_accepted) (simp add: cancel_pending_state_def resting_order_def)
  show "os_client_order_id merged = os_client_order_id s" "os_intent_id merged = os_intent_id s"
    by (simp_all add: merged normalize_order_def case_prod_beta Let_def merge_fields_def cancel_pending_state_def)
  show "os_status merged = CANCEL_PENDING" "os_remaining_qty merged = os_requested_qty s"
    using assms(1) requested_above_eps[of "os_requested_qty s"] above_eps(1)[of "os_requested_qty s"]
    by (auto simp: merged normalized_status_remaining_def normalized_filled_def Let_def merge_fields_def
        cancel_pending_state_def resting_order_def dsub_0)
qed

lemma persist_cancel_pending:
  assumes inv: "repo_inv (om_repo m)" and stored: "get_order_state (om_repo m) c = Some s" and rest: "resting_order s"
    and exits: "om_exits m = None"
  shows "\<exists>m'. persist_order_state env (cancel_pending_state env s) None m
        = (m', Inr (merge (Some s) (cancel_pending_state env s)))
      \<and> get_order_state (om_repo m') c = Some (merge (Some s) (cancel_pending_state env s))
      \<and> om_enqueued_cancels m' = om_enqueued_cancels m"
proof -
  let ?p = "cancel_pending_state env s"
  have c: "os_client_order_id s = c"
    using inv stored keyed_map_of[of os_client_order_id "er_by_client (om_repo m)" c s]
    by (simp add: repo_inv_def get_order_state_def)
  then have cur: "stored_order (om_repo m) ?p = Some s"
    using stored by (simp add: stored_order_def get_order_state_def cancel_pending_state_def)
  have "tv_accepted (validate_transition (Some (os_status s)) (os_status ?p))"
    using rest by (simp add: resting_order_def cancel_pending_state_def validate_transition_def)
  then obtain repo' where save: "save_order_state (om_repo m) ?p = Inr (repo', merge (Some s) ?p)"
    unfolding save_order_state_def Let_def cur by simp
  have "get_order_state repo' c = Some (merge (Some s) ?p)"
    using cancel_pending_merged(1)[OF rest, of env] c
    by (simp add: get_order_state_def save_order_state_parts(1)[OF save])
  then show ?thesis
    using exits save
    by (simp add: persist_order_state_def store_order_state_def Let_def mbind_def mret_def sync_exit_execution_intent_def)
qed

lemma cancel_only_enqueued:
  assumes "me_persistent env" "repo_inv (om_repo m)" "get_order_state (om_repo m) c = Some s" "resting_order s"
    "om_exits m = None"
  shows "\<exists>m' pending. cancel_order env c m = (m', Inr pending) \<and> get_order_state (om_repo m') c = Some pending
     \<and> os_status pending = CANCEL_PENDING \<and> os_remaining_qty pending = os_requested_qty s
     \<and> om_enqueued_cancels m' = om_enqueued_cancels m @ [(pending, ''operator_requested_cancel'')]"
proof -
  have "cancel_pending_submit_before_exchange_ack env s m = (m, Inr None)"
    using assms(1,4) by (simp add: cancel_pending_submit_before_exchange_ack_def resting_order_def Let_def)
  moreover have "\<not> is_terminal (os_status s)"
    using assms(4) by (simp add: resting_order_def is_terminal_def TERMINAL_ORDER_STATES_def)
  ultimately show ?thesis
    using assms(1,3) persist_cancel_pending[OF assms(2-5), of env] cancel_pending_merged(3,4)[OF assms(4), of env]
    by (auto simp: cancel_order_def resolve_order_state_for_control_def mbind_def)
qed

text \<open>
  C11. The post-only fallback doubles the exposure when the persistent order service is configured.
  If a post-only order still rests at the exchange after its timeout, the manager submits a taker
  order for the whole requested quantity while the post-only order is stored as
  \<^verbatim>\<open>CANCEL_PENDING\<close> with the same quantity remaining: its cancellation has only been
  enqueued, and nothing preserves the exchange from filling both.
\<close>

theorem post_only_fallback_overlaps:
  assumes "me_persistent env"
    and "submit_single_order_intent env intent c leg m = (m1, Inr post)" and "\<not> is_terminal (os_status post)"
    and "repo_reachable (om_repo (me_during_timeout env m1))" and "om_exits (me_during_timeout env m1) = None"
    and "get_order_state (om_repo (me_during_timeout env m1)) c = Some s" and "resting_order s"
    and "build_post_only_fallback_intent env intent leg (os_requested_qty s) = Inr (fallback, fallback_leg)"
  shows "\<exists>m' pending.
      execute_post_only_with_timeout_fallback env submit intent c leg m
        = submit fallback (derived_client_order_id env fallback) fallback_leg m'
      \<and> oi_quantity fallback = os_requested_qty s
      \<and> get_order_state (om_repo m') c = Some pending \<and> os_status pending = CANCEL_PENDING
      \<and> os_remaining_qty pending = os_requested_qty s
      \<and> om_enqueued_cancels m' = om_enqueued_cancels (me_during_timeout env m1) @ [(pending, ''operator_requested_cancel'')]"
proof -
  obtain m' pending where cancel: "cancel_order env c (me_during_timeout env m1) = (m', Inr pending)"
    and pending: "get_order_state (om_repo m') c = Some pending" "os_status pending = CANCEL_PENDING"
      "os_remaining_qty pending = os_requested_qty s"
      "om_enqueued_cancels m' = om_enqueued_cancels (me_during_timeout env m1) @ [(pending, ''operator_requested_cancel'')]"
    using cancel_only_enqueued[OF assms(1) repo_reachable_inv[OF assms(4)] assms(6,7,5)] by blast
  have "\<not> is_terminal (os_status s)" "os_remaining_qty s = os_requested_qty s" "EPSILON_DECIMAL_12 < os_requested_qty s"
    "max (os_requested_qty s) 0 = os_requested_qty s"
    using assms(7) above_eps(1)[of "os_requested_qty s"]
    by (simp_all add: resting_order_def is_terminal_def TERMINAL_ORDER_STATES_def)
  then have "execute_post_only_with_timeout_fallback env submit intent c leg m
      = submit_post_only_fallback env submit intent leg (os_requested_qty s) m'"
    using assms(2,3,6) cancel pending(3)
    unfolding execute_post_only_with_timeout_fallback_def mbind_def Let_def by simp
  moreover have "oi_quantity fallback = os_requested_qty s"
    using assms(8) by (auto simp: build_post_only_fallback_intent_def Let_def split: if_splits)
  ultimately show ?thesis
    using pending assms(8) by (auto simp: submit_post_only_fallback_def)
qed

text \<open>A post-only order of the example intent that the exchange accepts.\<close>

definition post_only_buy :: order_intent where
  "post_only_buy = example_buy\<lparr>oi_execution_style := ''post_only''\<rparr>"

definition resting_adapter :: exchange_adapter where
  "resting_adapter = example_paper\<lparr>ad_submit := (\<lambda>intent. Inr
     ((order_state_from_intent (Aware 0 0) ''OKX'' intent ''clkey'' SUBMITTED ''live'')
        \<lparr>os_exchange_order_id := Some ''ex''\<rparr>, []))\<rparr>"

definition queued_env :: manager_env where
  "queued_env = (example_menv False resting_adapter)\<lparr>me_persistent := True\<rparr>"

definition resting_buy :: order_state where
  "resting_buy = normalize_order (order_state_with_intent_context
     ((order_state_from_intent (Aware 0 0) ''OKX'' post_only_buy ''clkey'' SUBMITTED ''live'')
        \<lparr>os_exchange_order_id := Some ''ex''\<rparr>) post_only_buy)"

lemma resting_buy: "resting_order resting_buy" "os_requested_qty resting_buy = 2" "os_client_order_id resting_buy = ''clkey''"
proof -
  have "1 \<le> dsub 2 EPSILON_DECIMAL_12"
    using dsub_mono[of 2 2 EPSILON_DECIMAL_12 1] by (simp add: exact_ops EPSILON_DECIMAL_12_def)
  then show "resting_order resting_buy" "os_requested_qty resting_buy = 2" "os_client_order_id resting_buy = ''clkey''"
    by (simp_all add: resting_order_def resting_buy_def normalize_order_def normalized_status_remaining_def
        normalized_filled_def Let_def order_state_with_intent_context_def order_state_from_intent_def new_order_state_def
        post_only_buy_def example_buy_def new_order_intent_def EPSILON_DECIMAL_12_def)
qed

lemma resting_submission:
  "\<exists>m1. submit_single_order_intent queued_env post_only_buy ''clkey'' None empty_manager = (m1, Inr resting_buy)
     \<and> get_order_state (om_repo m1) ''clkey'' = Some resting_buy \<and> om_exits m1 = None"
proof -
  let ?s = "order_state_with_intent_context
     ((order_state_from_intent (Aware 0 0) ''OKX'' post_only_buy ''clkey'' SUBMITTED ''live'')
        \<lparr>os_exchange_order_id := Some ''ex''\<rparr>) post_only_buy"
  have new: "stored_order (om_repo empty_manager) ?s = None"
    by (simp add: stored_order_def empty_manager_def empty_repo_def)
  then obtain repo' where save: "save_order_state (om_repo empty_manager) ?s = Inr (repo', resting_buy)"
    unfolding save_order_state_def Let_def new resting_buy_def by (simp add: validate_transition_def)
  have "get_order_state repo' ''clkey'' = Some resting_buy"
    using resting_buy(3) by (simp add: get_order_state_def save_order_state_parts(1)[OF save])
  moreover have "adapter_outcome queued_env post_only_buy ''clkey'' None =
     ((order_state_from_intent (Aware 0 0) ''OKX'' post_only_buy ''clkey'' SUBMITTED ''live'')
        \<lparr>os_exchange_order_id := Some ''ex''\<rparr>, [])"
    by (simp add: adapter_outcome_def queued_env_def example_menv_def resting_adapter_def)
  ultimately show ?thesis
    using save
    by (simp add: submit_single_order_intent_def persist_order_state_def store_order_state_def Let_def mbind_def mret_def
        sync_exit_execution_intent_def finalize_obligation_def queued_env_def example_menv_def)
qed

theorem post_only_fallback_overlaps_witness:
  "\<exists>m' pending fallback fallback_leg.
      execute_post_only_with_timeout_fallback queued_env (execute_submit_intent queued_env) post_only_buy ''clkey'' None empty_manager
        = execute_submit_intent queued_env fallback (derived_client_order_id queued_env fallback) fallback_leg m'
      \<and> oi_quantity fallback = 2
      \<and> get_order_state (om_repo m') ''clkey'' = Some pending \<and> os_status pending = CANCEL_PENDING
      \<and> os_remaining_qty pending = 2"
proof -
  obtain m1 where m1: "submit_single_order_intent queued_env post_only_buy ''clkey'' None empty_manager
      = (m1, Inr resting_buy)" "get_order_state (om_repo m1) ''clkey'' = Some resting_buy" "om_exits m1 = None"
    using resting_submission by blast
  have "repo_reachable (om_repo m1)"
    using preservesD[OF built_repo.preserves_submit_single_order_intent, of empty_manager queued_env post_only_buy "''clkey''" None]
      repo_empty by (simp add: m1(1)) (simp add: empty_manager_def)
  then have quiet: "me_during_timeout queued_env m1 = m1" "repo_reachable (om_repo (me_during_timeout queued_env m1))"
    by (simp_all add: queued_env_def example_menv_def)
  obtain fallback leg where fallback: "build_post_only_fallback_intent queued_env post_only_buy None
      (os_requested_qty resting_buy) = Inr (fallback, leg)"
    by (simp add: build_post_only_fallback_intent_def queued_env_def example_menv_def norm_str_def py_simps Let_def)
  have "me_persistent queued_env" "\<not> is_terminal (os_status resting_buy)"
    using resting_buy(1) by (simp_all add: queued_env_def resting_order_def is_terminal_def TERMINAL_ORDER_STATES_def)
  from post_only_fallback_overlaps[OF this(1) m1(1) this(2) quiet(2) _ _ resting_buy(1) fallback, of "execute_submit_intent queued_env"]
  show ?thesis using quiet(1) m1(2,3) resting_buy(2) by auto
qed

end
