(* ===== verification/Order_Settlement.thy ===== *)
theory Order_Settlement
  imports Submission_Safety
begin

text \<open>
  The order manager and the obligations together: what a submission does to the balance that was
  reserved for it.
\<close>

definition obligations_ok :: "order_manager \<Rightarrow> bool" where
  "obligations_ok m \<longleftrightarrow> (\<forall>c ob. map_of (om_obligations m) c = Some ob \<longrightarrow>
     ob_client_order_id ob = c \<and> ob_wf ob \<and> ob_reserved_amount ob \<le> 10 ^ 14)"

lemma memory_persist:
  "persist_obligation_sync None memory_repository repo ob = Inr (AList.update (ob_client_order_id ob) ob repo, ob)"
  by (simp add: persist_obligation_sync_def save_obligation_direct_legacy_only_def
      ensure_direct_obligation_write_allowed_def memory_repository_def memory_save_obligation_def)

lemma consume_in_memory:
  "consume_for_fill None memory_repository now repo fill =
     (case map_of repo (fl_client_order_id fill) of
        None \<Rightarrow> Inr (repo, None)
      | Some ob \<Rightarrow> Inr (AList.update (ob_client_order_id ob) (apply_fill_to_obligation now fill ob) repo,
          Some (apply_fill_to_obligation now fill ob)))"
  by (simp add: consume_for_fill_def preview_obligation_for_fill_def memory_persist repository_methods
      memory_get_obligation_def split: option.split)

lemma finalize_in_memory:
  "finalize_for_order_state None memory_repository now repo s =
     (case apply_finalization_to_obligation now s (map_of repo (os_client_order_id s)) of
        None \<Rightarrow> Inr (repo, None)
      | Some ob \<Rightarrow> Inr (AList.update (ob_client_order_id ob) ob repo, Some ob))"
  by (simp add: finalize_for_order_state_def preview_obligation_for_order_state_def memory_persist repository_methods
      memory_get_obligation_def split: option.split)

lemma obligations_ok_step:
  assumes "obligations_ok m" "map_of (om_obligations m) c = Some ob" "obligation_step ob ob'"
    "ob_client_order_id ob' = ob_client_order_id ob"
  shows "obligations_ok (m\<lparr>om_obligations := AList.update (ob_client_order_id ob') ob' (om_obligations m)\<rparr>)"
  using assms step_wf[OF assms(3)] step_amounts[OF assms(3)] by (auto simp: obligations_ok_def)

interpretation held: submission_invariant obligations_ok
proof unfold_locales
  fix m now fill obs
  assume "consume_for_fill None memory_repository now (om_obligations m) fill = Inr obs" "obligations_ok m"
  then show "obligations_ok (m\<lparr>om_obligations := fst obs\<rparr>)"
    using obligations_ok_step[of m "fl_client_order_id fill" _ "apply_fill_to_obligation now fill _"]
    by (auto simp: consume_in_memory obligation_step.step_fill split: option.splits)
next
  fix m now s obs
  assume fin: "finalize_for_order_state None memory_repository now (om_obligations m) s = Inr obs" and ok: "obligations_ok m"
  show "obligations_ok (m\<lparr>om_obligations := fst obs\<rparr>)"
  proof (cases "map_of (om_obligations m) (os_client_order_id s)")
    case None
    with fin ok show ?thesis by (auto simp: finalize_in_memory apply_finalization_to_obligation_def split: if_splits)
  next
    case (Some ob)
    with fin ok show ?thesis
      using obligations_ok_step[OF ok Some obligation_step.step_final] finalization_keeps[of now s ob]
      by (auto simp: finalize_in_memory split: option.splits)
  qed
qed (simp_all add: obligations_ok_def)

lemma mbind_InrE:
  assumes "mbind f g m = (m', Inr b)"
  obtains m1 a where "f m = (m1, Inr a)" "g a m1 = (m', Inr b)"
  using assms by (auto simp: mbind_def split: prod.splits sum.splits)

lemma finalize_settles:
  assumes "obligations_ok m" "me_obligation_service env \<noteq> None" "is_terminal (os_status s)"
    and "finalize_obligation env s m = (m', Inr ())" "map_of (om_obligations m') (os_client_order_id s) = Some ob"
  shows "ob_settled ob \<and> \<not> is_active_obligation ob"
proof -
  have terminal: "os_status s \<in> set TERMINAL_ORDER_STATES" using assms(3) by (simp add: is_terminal_def)
  obtain obs where fin: "finalize_for_order_state None memory_repository (me_now env) (om_obligations m) s = Inr obs"
    "m' = m\<lparr>om_obligations := fst obs\<rparr>"
    using assms(2,4) by (auto simp: finalize_obligation_def with_obligations_def split: sum.splits prod.splits)
  show ?thesis
  proof (cases "map_of (om_obligations m) (os_client_order_id s)")
    case None
    with fin assms(5) show ?thesis
      by (auto simp: finalize_in_memory apply_finalization_to_obligation_def split: if_splits)
  next
    case (Some held)
    with assms(1) have ok: "ob_client_order_id held = os_client_order_id s" "ob_wf held" "ob_reserved_amount held \<le> 10 ^ 14"
      by (auto simp: obligations_ok_def)
    from finalization_releases_all[OF ok(2,3), of s "me_now env"] terminal obtain ob' where
      ob': "apply_finalization_to_obligation (me_now env) s (Some held) = Some ob'" "ob_settled ob'"
        "\<not> is_active_obligation ob'" by auto
    have "ob_client_order_id ob' = os_client_order_id s" using finalization_keeps[OF ob'(1)] ok(1) by simp
    with fin assms(5) Some ob' show ?thesis by (auto simp: finalize_in_memory)
  qed
qed

text \<open>
  C7. A reservation does not outlive its order. When the submission of an order returns a terminal
  order - filled, rejected, expired, or failed because the adapter raised - the obligation that was
  reserved for it is settled: at most the tolerance is still held and it no longer counts among the
  active obligations, whatever fills the adapter reported with it.
\<close>

theorem terminal_submission_settles_obligation:
  assumes "obligations_ok m" "me_obligation_service env \<noteq> None"
    and "submit_single_order_intent env intent c leg m = (m', Inr s)" "is_terminal (os_status s)"
    and "map_of (om_obligations m') (os_client_order_id s) = Some ob"
  shows "ob_settled ob \<and> \<not> is_active_obligation ob"
proof -
  obtain order fills where out: "adapter_outcome env intent c leg = (order, fills)" by fastforce
  note run = assms(3)[unfolded submit_single_order_intent_def Let_def out prod.case]
  from run obtain m1 m2 where
    m1: "persist_order_state env (order_state_with_intent_context order intent) (Some intent) m = (m1, Inr s)"
    and m2: "mfor (\<lambda>fill. persist_fill env (fill_for_order s fill))
      (map (\<lambda>fill. fill_with_intent_context fill intent) fills) m1 = (m2, Inr ())"
    and fin: "finalize_obligation env s m2 = (m', Inr ())"
    by (elim mbind_InrE) (auto simp: mret_def)
  have "obligations_ok m1"
    using preservesD[OF held.preserves_persist_order_state assms(1), of env "order_state_with_intent_context order intent"
      "Some intent"] by (simp only: m1 fst_conv)
  then have "obligations_ok m2"
    using preservesD[OF preserves_mfor[of obligations_ok "\<lambda>fill. persist_fill env (fill_for_order s fill)",
        OF held.preserves_persist_fill], of m1 "map (\<lambda>fill. fill_with_intent_context fill intent) fills"]
    by (simp only: m2 fst_conv)
  from finalize_settles[OF this assms(2,4) fin assms(5)] show ?thesis .
qed

definition broken_env :: manager_env where
  "broken_env = (example_menv False (example_paper\<lparr>ad_submit := (\<lambda>_. Inl ''down'')\<rparr>))
     \<lparr>me_obligation_service := Some \<lparr>oin_snapshot_required = True, oin_loader = Some (Some example_balances),
        oin_price_provider = None, oin_taker_fee_bps_decimal = (\<lambda>_. 0), oin_obligation_id = ''obl''\<rparr>\<rparr>"

definition reserved_manager :: order_manager where
  "reserved_manager = empty_manager\<lparr>om_obligations := [(''cid'', example_obligation)]\<rparr>"

definition failed_buy :: order_state where
  "failed_buy = normalize_order (order_state_with_intent_context
     ((order_state_from_intent (Aware 0 0) ''PAPER'' example_buy ''cid'' FAILED ''adapter_exception'')
        \<lparr>os_submitted_ts := Some (Aware 0 0), os_cancel_reason := Some ''down'', os_execution_error := Some ''down''\<rparr>)
     example_buy)"

lemma failed_buy: "os_status failed_buy = FAILED" "os_client_order_id failed_buy = ''cid''"
proof -
  have "1 \<le> dsub 2 EPSILON_DECIMAL_12"
    using dsub_mono[of 2 2 EPSILON_DECIMAL_12 1] by (simp add: exact_ops EPSILON_DECIMAL_12_def)
  then show "os_status failed_buy = FAILED" "os_client_order_id failed_buy = ''cid''"
    by (simp_all add: failed_buy_def normalize_order_def normalized_status_remaining_def
        normalized_filled_def Let_def order_state_with_intent_context_def order_state_from_intent_def new_order_state_def
        example_buy_def new_order_intent_def)
qed

lemma failed_submission:
  "\<exists>m' ob. submit_single_order_intent broken_env example_buy ''cid'' None reserved_manager = (m', Inr failed_buy)
     \<and> map_of (om_obligations m') ''cid'' = Some ob"
proof -
  let ?s = "order_state_with_intent_context
     ((order_state_from_intent (Aware 0 0) ''PAPER'' example_buy ''cid'' FAILED ''adapter_exception'')
        \<lparr>os_submitted_ts := Some (Aware 0 0), os_cancel_reason := Some ''down'', os_execution_error := Some ''down''\<rparr>)
     example_buy"
  have new: "stored_order (om_repo reserved_manager) ?s = None"
    by (simp add: stored_order_def reserved_manager_def empty_manager_def empty_repo_def)
  then obtain repo' where save: "save_order_state (om_repo reserved_manager) ?s = Inr (repo', failed_buy)"
    unfolding save_order_state_def Let_def new failed_buy_def by (simp add: validate_transition_def)
  have out: "adapter_outcome broken_env example_buy ''cid'' None =
     ((order_state_from_intent (Aware 0 0) ''PAPER'' example_buy ''cid'' FAILED ''adapter_exception'')
        \<lparr>os_submitted_ts := Some (Aware 0 0), os_cancel_reason := Some ''down'', os_execution_error := Some ''down''\<rparr>, [])"
    by (simp add: adapter_outcome_def broken_env_def example_menv_def env_venue_def example_paper_def paper_adapter_def
        venue_name_def)
  have "apply_finalization_to_obligation (Aware 0 0) failed_buy (Some example_obligation) \<noteq> None"
    using failed_buy(1) by (simp add: apply_finalization_to_obligation_def Let_def)
  then obtain ob where ob: "apply_finalization_to_obligation (Aware 0 0) failed_buy (Some example_obligation) = Some ob"
    by blast
  have "om_obligations reserved_manager = [(''cid'', example_obligation)]" "om_exits reserved_manager = None"
    by (simp_all add: reserved_manager_def)
  moreover have "ob_client_order_id ob = ''cid''" using finalization_keeps[OF ob] by simp
  ultimately show ?thesis
    using save out ob failed_buy(2)
    by (simp add: submit_single_order_intent_def persist_order_state_def store_order_state_def Let_def mbind_def mret_def
        sync_exit_execution_intent_def finalize_obligation_def with_obligations_def finalize_in_memory broken_env_def
        example_menv_def)
qed

theorem terminal_submission_settles_obligation_witness:
  "\<exists>m' ob. submit_single_order_intent broken_env example_buy ''cid'' None reserved_manager = (m', Inr failed_buy)
     \<and> map_of (om_obligations m') ''cid'' = Some ob \<and> ob_settled ob \<and> \<not> is_active_obligation ob"
proof -
  obtain m' ob where run: "submit_single_order_intent broken_env example_buy ''cid'' None reserved_manager
      = (m', Inr failed_buy)" "map_of (om_obligations m') ''cid'' = Some ob"
    using failed_submission by blast
  have ok: "obligations_ok reserved_manager" "me_obligation_service broken_env \<noteq> None" "is_terminal (os_status failed_buy)"
    by (simp_all add: obligations_ok_def reserved_manager_def broken_env_def failed_buy(1) is_terminal_def
        TERMINAL_ORDER_STATES_def)
  have "map_of (om_obligations m') (os_client_order_id failed_buy) = Some ob" using run(2) by (simp add: failed_buy(2))
  from terminal_submission_settles_obligation[OF ok(1,2) run(1) ok(3) this] run show ?thesis by blast
qed

end
