(* ===== verification/Spec2Isabelle.thy ===== *)
theory Spec2Isabelle
  imports Order_State_Machine Accounting Obligations Portfolio_Service Lot_Projection Ledger_Posting
    Kill_Switch_Safety Outbox Quantity_Rules Execution_Commands Exit_Safety Post_Only_Fallback Order_Settlement
begin

text \<open>
  \<^bold>\<open>AATS: verification of the execution, accounting and control core.\<close>

  The program (\<^verbatim>\<open>src/aats\<close>) is an autonomous trading system for a crypto exchange.  Strategies and
  decision services produce order intents; the execution engine reserves funds, queues and submits
  orders and merges the exchange's reports; the portfolio service and the ledger book the fills; a
  kill switch stands between every risk-increasing order and the exchange; an outbox carries the
  events of each database transaction to the message bus.  This development models the part that
  handles money and permission to trade.  Paths below are relative to \<^verbatim>\<open>src/aats\<close>.

  \<^bold>\<open>How an order flows through the models.\<close>
  An intent (\<open>order_intent\<close>) gets its quantity from the quantity rules over the instrument contract
  (\<open>quantized_internal_quantity\<close>).  The order manager takes it in (\<open>handle_normalized_order_intent\<close>):
  it checks halt, duplicates and guards (\<open>submit_guards\<close>), previews the reservation
  (\<open>preview_reservation\<close> over the obligation service), stores the order
  (\<open>save_order_state\<close>) and submits it (\<open>process_submit_command\<close>), at once or through the command queue
  (\<open>service_enqueue_command\<close>, \<open>process_pending\<close>); an exit above the exchange's limit goes out in slices
  (\<open>execute_serial_exit_split\<close> over \<open>recompute_exit_execution_intent\<close>); a submission of risk passes
  the kill switch (\<open>risk_increasing_submission_guard\<close>).  Reports of the exchange
  (\<open>sync_exchange_state\<close>) are merged into the order state (\<open>merge\<close>); each fill consumes its obligation (\<open>consume_for_fill\<close>), changes the portfolio state
  (\<open>apply_fill\<close>, called by \<open>handle_fill_event\<close>), is matched against lots (\<open>rebuild_lot_book\<close>) and
  posted to the ledger (\<open>post_fill_effects_in_session\<close>, \<open>sync_obligation\<close>); the resulting events go
  through the outbox (\<open>flush_pending\<close>).

  \<^bold>\<open>The theories.\<close>

  \<^item> \<open>Prelude\<close>: errors as sums (\<open>ebind\<close>), Python strings, dictionaries as association lists, the texts
    of numbers, lemma collections.
  \<^item> \<open>Decimal_Context\<close>: Python's \<^verbatim>\<open>Decimal\<close>.  A value is a rational; each operator rounds to the digits
    of its context (28 by default), half to even.  The laws of rounding are the locale
    \<open>decimal_rounding\<close>, interpreted for both contexts (\<open>ctx28\<close>, \<open>ctx50\<close>); also
    \<^verbatim>\<open>portfolio_service/decimals.py\<close>.
  \<^item> \<open>Execution_Schema\<close>: \<^verbatim>\<open>schemas/execution.py\<close>, records with all fields and the conversions between
    order intents and leg intents; the round trip is proved.
  \<^item> \<open>Order_State_Machine\<close>: \<^verbatim>\<open>execution_engine/state_machine.py\<close>.  Filled and remaining quantities stay
    within the request, the life cycle never goes back, redelivered reports change nothing, fills are
    never forgotten.
  \<^item> \<open>Accounting\<close>: \<^verbatim>\<open>services/accounting.py\<close>, \<^verbatim>\<open>fill_ordering.py\<close>, \<^verbatim>\<open>position_keys.py\<close>: worst-case prices,
    margin, fees, currencies, keys, the order in which fills are replayed.
  \<^item> \<open>Obligations\<close>: \<^verbatim>\<open>execution_engine/obligations.py\<close>, \<^verbatim>\<open>obligation_writer.py\<close> and both repositories.
    The locale \<open>obligation_store\<close> is what the service needs of a repository; it is interpreted on the
    in-memory repository, and the scan of the Postgres one by \<open>postgres_scan\<close>.  Reservations never
    exceed the balance, in the service and in the transaction; redelivered fills consume nothing;
    batch and sequential previews agree; the reservation of a spot buy covers its fill.
  \<^item> \<open>Portfolio_State\<close>, \<open>Portfolio_Snapshots\<close>, \<open>Portfolio_Service\<close>: \<^verbatim>\<open>portfolio_service/positions.py\<close>
    (state and fill handler), \<^verbatim>\<open>snapshots.py\<close>, \<^verbatim>\<open>pnl.py\<close>, \<^verbatim>\<open>instrument_states.py\<close>, \<^verbatim>\<open>reconstruction.py\<close>,
    \<^verbatim>\<open>outbox.py\<close>, \<^verbatim>\<open>storage/fill_outcome_repo.py\<close>.  A fill conserves value and balances, rebuilding does
    not depend on the order of delivery, a snapshot loads back, handling a fill is atomic, and a fill
    that is delivered again until it succeeds is booked once.
  \<^item> \<open>Lot_Projection\<close>: \<^verbatim>\<open>ledger/lot_projection.py\<close>.  The lot book refines the net positions of the
    portfolio state: the locale \<open>position_tracker\<close> is interpreted on both.  Matching terminates, lots of
    a key are never mixed, close events explain the realized profit.
  \<^item> \<open>Ledger_Store\<close>, \<open>Ledger_Posting\<close>: \<^verbatim>\<open>storage/ledger_repo_postgres.py\<close>,
    \<^verbatim>\<open>reservation_repo_postgres.py\<close>, \<^verbatim>\<open>ledger/posting.py\<close>, \<^verbatim>\<open>ledger/settlement_posting.py\<close>.  Every posted
    journal balances, reservations are never overdrawn, the mirror tracks the obligation.
  \<^item> \<open>Coroutine\<close>: asynchronous Python as data, an event loop that interleaves any number of tasks with
    any replies of the outside world, and a rely-guarantee calculus (\<open>wp\<close>, locale \<open>coro_rg\<close>) that is
    sound for all of them.  Interpreted for the kill switch (\<open>switch\<close>), the outbox (\<open>outbox\<close>) and the
    command queue (\<open>commands\<close>).
  \<^item> \<open>Kill_Switch\<close>, \<open>Kill_Switch_Safety\<close>: \<^verbatim>\<open>governance_engine/kill_switch.py\<close>, whole.  An order at the
    exchange has itself read a RUNNING authority record and a live lease of the same generation; while
    an enforced halt is reported no such order is under way; flags and phase stay coherent; a restart
    without authorisation stays blocked.
  \<^item> \<open>Outbox\<close>: \<^verbatim>\<open>storage/outbox_repo_postgres.py\<close> and the delivery loop of \<^verbatim>\<open>execution_engine/outbox.py\<close>
    and \<^verbatim>\<open>portfolio_service/outbox.py\<close>.  No event is lost or marked without an acknowledgement; a healthy
    broker receives all events in order.
  \<^item> \<open>Instrument_Contract\<close>, \<open>Contract_Laws\<close>, \<open>Quantity_Rules\<close>: \<^verbatim>\<open>domain/instrument_contract.py\<close>,
    \<^verbatim>\<open>execution_engine/quantity_rules.py\<close>, \<^verbatim>\<open>okx_rest.infer_okx_derivatives_inst_type\<close>.  Which contracts
    exist; prices and quantities are on the exchange's grid and on the safe side; sums are exact; the
    fingerprint names the terms; the quantity of an order is the exact floor to whole lots.
  \<^item> \<open>Execution_Commands\<close>: \<^verbatim>\<open>storage/execution_command_repo_postgres.py\<close>,
    \<^verbatim>\<open>execution_control/command_service.py\<close>, \<^verbatim>\<open>execution_control/order_service.py\<close>.  The queue stays
    coherent under any interleaving; uninterrupted rounds settle every command and submit once.
  \<^item> \<open>Execution_Repo\<close>, \<open>Order_Truth\<close>: \<^verbatim>\<open>storage/execution_repo.py\<close> with the filters of
    \<^verbatim>\<open>runtime_scope.py\<close>, and \<^verbatim>\<open>execution_engine/order_truth.py\<close>.  The indexes of every repository that
    saves can build agree with a scan of its orders.
  \<^item> \<open>Submit_Guards\<close>, \<open>Paper_Adapter\<close>, \<open>Order_Manager\<close>, \<open>Order_Intake\<close>:
    \<^verbatim>\<open>execution_engine/order_manager.py\<close>, \<^verbatim>\<open>paper_adapter.py\<close>, \<^verbatim>\<open>exchange_adapter.py\<close>,
    \<^verbatim>\<open>strategy_overlay_rollout.py\<close>.  A handler is a function of the manager (\<open>run\<close>) that returns or
    raises and keeps what it wrote.
  \<^item> \<open>Manager_Invariants\<close>, \<open>Submission_Safety\<close>, \<open>Order_Settlement\<close>, \<open>Post_Only_Fallback\<close>: the laws of the
    manager.  The locales \<open>store_invariant\<close>, \<open>submission_invariant\<close> and \<open>manager_invariant\<close> are what a
    predicate needs to be kept by its writes; inside them every handler is shown to keep it, and they are
    interpreted on the known intents, the built repositories, the queues and the held obligations.  An
    intent is taken in once; an intent that is stopped never reaches the exchange; one that passes is
    alone with its risk; no open order is left out of a synchronisation; a reservation does not outlive
    its order; the recursion of the submission ends.
  \<^item> \<open>Exit_Execution\<close>, \<open>Exit_Safety\<close>: \<^verbatim>\<open>schemas/exit_execution.py\<close>, \<^verbatim>\<open>exit_intent_aggregator.py\<close>,
    \<^verbatim>\<open>exit_execution_writer.py\<close>, \<^verbatim>\<open>storage/exit_execution_repo.py\<close>.  The slices of an exit stay within
    its target, and a finished exit never resumes.

  \<^bold>\<open>Conventions.\<close>
  State is passed explicitly in records; every raise is a value of a sum type; a database transaction
  either returns the new tables or an error and no change; awaited calls are requests whose replies are
  universally quantified.  Digests, fresh ids, the clock, the printing of decimals and floats, and the
  iteration order of sets are arguments (\<open>ledger_env\<close>, \<open>py_env\<close>, \<open>digest\<close>, \<open>clock\<close>, \<open>ids\<close>); where a
  theorem needs digests not to collide it says so.  Timestamps are numbers.  Loops are structural or come
  with a termination proof; no fuel is used, except that the renewal loop of the kill switch's
  permission lease, which never ends, is modelled for any number of rounds.

  \<^bold>\<open>Bounds.\<close>
  Theorems that need exact arithmetic assume quantities on a grid that the context holds: multiples of
  \<open>10\<^sup>-\<^sup>8\<close> below \<open>10\<^sup>2\<^sup>0\<close> in 28 digits for positions and lots, and for quantity rules multiples of a
  power of ten with fewer than 49 digits in the 50-digit context, far beyond what an exchange quotes.
  All other theorems hold for every decimal.  \<^verbatim>\<open>NUMERIC(36,18)\<close> columns are taken to hold the values
  written to them.

  \<^bold>\<open>Findings.\<close>
  \<open>stale_read_undoes_halt\<close>: a submission's refresh adopts an authority record read before a halt, and the
  halt is undone.  The synchronous halt of a process that was not bootstrapped acknowledges without
  draining (\<^verbatim>\<open>kill_switch.py:205\<close>).  \<open>post_commit_failure_loses_fill\<close>: a failure after the commit restores
  the in-memory state, and the redelivered fill is dismissed as processed.
  \<open>claimed_submission_sent_twice\<close>: a CLAIMED submission may have been sent, although it is described and
  retried as if it had not.  \<open>post_only_fallback_overlaps\<close>: with the persistent order service the fallback
  of a post-only order is submitted while that order is still open.

  \<^bold>\<open>Not modelled.\<close>
  Of the order manager the transactional branches of the outbox publisher, the shadow mirrors, the strategy
  bundle status and the hydration of an order from its database row; handlers run one at a time, as the
  reservation and symbol locks order the intake, and what happens during a post-only timeout is an argument.
  The OKX adapter, recovery and reconciliation (venue I/O), shadow writers and monitors, risk and policy
  evaluation (the leg risk evaluator is an argument), strategies, features and AI calls (floating-point
  heuristics without a contract), market data and message bus clients, operator queries and API, bootstrap,
  data platform, scripts.  Logging, metrics and tracing are left out everywhere.

  \<^bold>\<open>Plan.\<close>
  Next: the outbox branch of the order manager over the outbox theory, the reconciliation comparator and
  the startup recovery over the execution repository.
\<close>

end
